(* ===== verification/Prelude.thy ===== *)
theory Prelude
  imports Complex_Main "HOL-Library.Word" "HOL-Library.AList"
begin

text \<open>
  What every component shares: Go's 64-bit \<open>int\<close> with its wrap-around, results with an error,
  and the theorem collections the component proofs add to \<open>simp\<close>.

  A Go \<open>int\<close> or \<open>int64\<close> (both 64 bits wide on the platforms the module is built for) is an
  \<^typ>\<open>int\<close> whose arithmetic is wrapped to two's complement by \<open>wrap64\<close>; \<open>wrap64_sint\<close> ties
  that function to the library's 64-bit words. A Go map is a function to \<open>option\<close> where the
  code only looks keys up, and an association list where the code ranges over it (Go leaves
  the order of that loop open, so the list is one arbitrary order).
\<close>

named_theorems go_defs \<open>definitions of Go's built-in operations\<close>
named_theorems go_int \<open>arithmetic facts on 64-bit integers in range\<close>

section \<open>64-bit integers\<close>

type_synonym goint = int

definition wrap64 :: "int \<Rightarrow> goint" where
  "wrap64 x = (x + 2 ^ 63) mod 2 ^ 64 - 2 ^ 63"

definition int64_ok :: "int \<Rightarrow> bool" where
  "int64_ok x \<longleftrightarrow> - (2 ^ 63) \<le> x \<and> x < 2 ^ 63"

definition max_int64 :: goint where "max_int64 = 2 ^ 63 - 1"
definition min_int64 :: goint where "min_int64 = - (2 ^ 63)"

definition iadd :: "goint \<Rightarrow> goint \<Rightarrow> goint" where "iadd a b = wrap64 (a + b)"
definition isub :: "goint \<Rightarrow> goint \<Rightarrow> goint" where "isub a b = wrap64 (a - b)"

text \<open>Go's integer division truncates towards zero; the divisor is tested before each use.\<close>

definition iquot :: "goint \<Rightarrow> goint \<Rightarrow> goint" where
  "iquot a b = wrap64 (sgn a * sgn b * (\<bar>a\<bar> div \<bar>b\<bar>))"

definition irem :: "goint \<Rightarrow> goint \<Rightarrow> goint" where
  "irem a b = wrap64 (a - b * (sgn a * sgn b * (\<bar>a\<bar> div \<bar>b\<bar>)))"

lemma wrap64_id [go_int]: "int64_ok x \<Longrightarrow> wrap64 x = x"
  by (simp add: wrap64_def int64_ok_def)

lemma wrap64_ok: "int64_ok (wrap64 x)"
  by (simp add: wrap64_def int64_ok_def)

lemma wrap64_sint: "wrap64 x = sint (word_of_int x :: 64 word)"
proof -
  have "sint (word_of_int x :: 64 word) = signed_take_bit 63 x"
    by transfer simp
  also have "\<dots> = (x + 2 ^ 63) mod 2 ^ 64 - 2 ^ 63"
    by (simp add: signed_take_bit_eq_take_bit_shift take_bit_eq_mod)
  finally show ?thesis by (simp add: wrap64_def)
qed

lemma iadd_id [go_int]: "int64_ok (a + b) \<Longrightarrow> iadd a b = a + b"
  by (simp add: iadd_def wrap64_id)

lemma isub_id [go_int]: "int64_ok (a - b) \<Longrightarrow> isub a b = a - b"
  by (simp add: isub_def wrap64_id)

lemma isub_nonneg [go_int]: "int64_ok a \<Longrightarrow> int64_ok b \<Longrightarrow> 0 \<le> a \<Longrightarrow> 0 \<le> b \<Longrightarrow> isub a b = a - b"
  by (rule isub_id) (simp add: int64_ok_def)

lemma int64_ok_between: "int64_ok a \<Longrightarrow> int64_ok b \<Longrightarrow> a \<le> x \<Longrightarrow> x \<le> b \<Longrightarrow> int64_ok x"
  by (simp add: int64_ok_def)

lemma int64_ok_0 [simp]: "int64_ok 0" and int64_ok_1 [simp]: "int64_ok 1"
  by (simp_all add: int64_ok_def)

lemma int64_ok_numeral_witness: "int64_ok 1000000"
  by (simp add: int64_ok_def)

lemma zdiv_le_dividend_aux: "0 \<le> (a::int) \<Longrightarrow> 0 < b \<Longrightarrow> a div b \<le> a"
  using zdiv_mono2 [of a 1 b] by simp

lemma iquot_pos [go_int]:
  assumes "0 \<le> a" "0 < b" "int64_ok a"
  shows "iquot a b = a div b"
proof -
  have "a div b \<le> a" and "0 \<le> a div b"
    using assms by (simp_all add: zdiv_le_dividend_aux pos_imp_zdiv_nonneg_iff)
  then show ?thesis
    using assms by (cases "a = 0") (auto simp: iquot_def int64_ok_def intro!: wrap64_id)
qed

section \<open>Lists and maps\<close>

lemma length_filter_impl:
  "(\<And>x. x \<in> set xs \<Longrightarrow> P x \<Longrightarrow> Q x) \<Longrightarrow> length (filter P xs) \<le> length (filter Q xs)"
  by (induction xs) (auto intro: le_SucI)

end
