(* ===== verification/GoTime.thy ===== *)
theory GoTime
  imports Prelude
begin

text \<open>
  Go's \<open>time.Time\<close> and \<open>time.Duration\<close> as the program uses them. A time is the number of
  nanoseconds since 1970-01-01 00:00 UTC (every time the modelled code builds or compares is in
  UTC, and a monotonic reading is not kept); the proleptic Gregorian calendar is computed by
  \<open>month_start\<close> and inverted by \<open>civil_month\<close>, and \<open>time_Date\<close> normalises months and days the way
  \<open>time.Date\<close> does. A duration is an \<open>int64\<close>, so \<open>time_Sub\<close> saturates as \<open>Time.Sub\<close> does.
\<close>

type_synonym time = int
type_synonym duration = goint

definition year_start :: "int \<Rightarrow> int" where
  "year_start y = 365 * y + y div 4 - y div 100 + y div 400"

definition month_start :: "int \<Rightarrow> int" where
  "month_start mi =
     (let k = mi - 2 in year_start (k div 12) + (153 * (k mod 12) + 2) div 5 - 719468)"

definition days_in_month :: "int \<Rightarrow> int" where
  "days_in_month mi =
     (let y = mi div 12; m = mi mod 12 in
      if m = 1 then (if 4 dvd y \<and> (\<not> 100 dvd y \<or> 400 dvd y) then 29 else 28)
      else if m \<in> {3, 5, 8, 10} then 30 else 31)"

definition civil_month :: "int \<Rightarrow> int \<times> int" where
  "civil_month z =
     (let z' = z + 719468;
          era = z' div 146097; doe = z' mod 146097;
          n100 = min 3 (doe div 36524); r1 = doe - 36524 * n100;
          n4 = r1 div 1461; r2 = r1 - 1461 * n4;
          n1 = min 3 (r2 div 365); doy = r2 - 365 * n1;
          y = 400 * era + 100 * n100 + 4 * n4 + n1;
          mp = (5 * doy + 2) div 153
      in (12 * y + mp + 2, doy - (153 * mp + 2) div 5 + 1))"

lemma div_Suc:
  fixes y k :: int
  assumes "1 < k"
  shows "(y + 1) div k = y div k + (if k dvd y + 1 then 1 else 0)"
proof -
  have eq: "(y + 1) div k = y div k + (y mod k + 1) div k"
    using assms by (subst div_add1_eq) simp
  have r: "0 \<le> y mod k" "y mod k < k" using assms by simp_all
  have d: "k dvd y + 1 \<longleftrightarrow> y mod k + 1 = k"
  proof -
    have "k dvd y + 1 \<longleftrightarrow> k dvd y mod k + 1"
      by (metis dvd_eq_mod_eq_0 mod_add_left_eq)
    also have "\<dots> \<longleftrightarrow> y mod k + 1 = k"
      using r by (auto dest: zdvd_imp_le)
    finally show ?thesis .
  qed
  show ?thesis
  proof (cases "y mod k + 1 = k")
    case True
    with eq d assms show ?thesis by simp
  next
    case False
    with r have "(y mod k + 1) div k = 0" by simp
    with eq d False show ?thesis by simp
  qed
qed

definition leap_year :: "int \<Rightarrow> bool" where
  "leap_year y \<longleftrightarrow> 4 dvd y \<and> (\<not> 100 dvd y \<or> 400 dvd y)"

lemma year_start_Suc:
  "year_start (y + 1) = year_start y + (if leap_year (y + 1) then 366 else 365)"
proof -
  have dvd: "100 dvd z \<Longrightarrow> 4 dvd z" "400 dvd z \<Longrightarrow> 100 dvd z" for z :: int
    using dvd_trans [of 4 100 z] dvd_trans [of 100 400 z] by simp_all
  define b :: "int \<Rightarrow> int" where "b k = (if k dvd y + 1 then 1 else 0)" for k
  have "year_start (y + 1) = year_start y + (365 + b 4 - b 100 + b 400)"
    by (simp add: year_start_def div_Suc b_def)
  moreover have "365 + b 4 - b 100 + b 400 = (if leap_year (y + 1) then 366 else 365)"
    unfolding b_def leap_year_def using dvd [of "y + 1"] by presburger
  ultimately show ?thesis by simp
qed

lemma below_12:
  "0 \<le> (r::int) \<Longrightarrow> r < 12 \<Longrightarrow>
    r = 0 \<or> r = 1 \<or> r = 2 \<or> r = 3 \<or> r = 4 \<or> r = 5 \<or> r = 6 \<or> r = 7 \<or> r = 8 \<or> r = 9 \<or> r = 10 \<or> r = 11"
  by presburger

lemma month_start_base:
  assumes "0 \<le> r" "r < 12"
  shows "month_start (12 * q + r + 2) = year_start q + (153 * r + 2) div 5 - 719468"
  using assms by (simp add: month_start_def Let_def)

text \<open>Months are counted from March, as \<open>month_start\<close> does: \<open>12 * q + r + 2\<close> with \<open>r < 10\<close> is in
  year \<open>q\<close>, and January and February of that row are in year \<open>q + 1\<close>.\<close>

lemma days_in_month_base:
  assumes "0 \<le> r" "r < 12"
  shows "days_in_month (12 * q + r + 2) =
    (if r = 11 then (if leap_year (q + 1) then 29 else 28)
     else if r \<in> {1, 3, 6, 8} then 30 else 31)"
proof (cases "r < 10")
  case True
  then have "(12 * q + r + 2) div 12 = q" "(12 * q + r + 2) mod 12 = r + 2"
    using assms by (simp_all add: add.assoc)
  then show ?thesis using assms True by (auto simp: days_in_month_def Let_def)
next
  case False
  have eq: "12 * q + r + 2 = 12 * (q + 1) + (r - 10)" by simp
  have "(12 * q + r + 2) div 12 = q + 1" "(12 * q + r + 2) mod 12 = r - 10"
    unfolding eq using assms False by (simp_all only: div_mult_self4 mod_mult_self4) simp_all
  then show ?thesis using assms False by (auto simp: days_in_month_def Let_def leap_year_def)
qed

lemma month_row:
  obtains q r :: int where "mi = 12 * q + r + 2" "0 \<le> r" "r < 12"
  using that [of "(mi - 2) div 12" "(mi - 2) mod 12"] by (simp add: mult_div_mod_eq)

lemma month_start_Suc: "month_start (mi + 1) = month_start mi + days_in_month mi"
proof (rule month_row [of mi])
  fix q r assume mi: "mi = 12 * q + r + 2" and r: "0 \<le> r" "r < 12"
  show ?thesis
  proof (cases "r = 11")
    case True
    have "month_start (12 * (q + 1) + 0 + 2) = year_start (q + 1) - 719468"
      by (subst month_start_base) simp_all
    then have "month_start (mi + 1) = year_start (q + 1) - 719468"
      by (simp add: mi True algebra_simps)
    then show ?thesis
      using month_start_base [OF r, of q] days_in_month_base [OF r, of q]
      by (simp add: mi True year_start_Suc)
  next
    case False
    then have "month_start (mi + 1) = year_start q + (153 * (r + 1) + 2) div 5 - 719468"
      using month_start_base [of "r + 1" q] r by (simp add: mi algebra_simps)
    then show ?thesis
      using month_start_base [OF r, of q] days_in_month_base [OF r, of q] below_12 [OF r] False
      by (elim disjE) (simp_all add: mi)
  qed
qed

lemma days_in_month_bounds: "28 \<le> days_in_month mi" "days_in_month mi \<le> 31"
  by (simp_all add: days_in_month_def Let_def)

lemma month_start_add: "month_start mi + 28 * int n \<le> month_start (mi + int n)"
proof (induction n)
  case (Suc n)
  have "month_start (mi + int (Suc n)) = month_start (mi + int n + 1)"
    by (simp add: algebra_simps)
  also have "\<dots> = month_start (mi + int n) + days_in_month (mi + int n)"
    by (rule month_start_Suc)
  finally show ?case using Suc.IH days_in_month_bounds(1) [of "mi + int n"] by simp
qed simp

lemma month_start_mono: "a \<le> b \<Longrightarrow> month_start a \<le> month_start b"
  using month_start_add [of a "nat (b - a)"] by simp

lemma month_start_next_le: "a < b \<Longrightarrow> month_start a + days_in_month a \<le> month_start b"
  using month_start_mono [of "a + 1" b] by (simp add: month_start_Suc)

text \<open>A day lies in exactly one month.\<close>

lemma month_unique:
  assumes "month_start a \<le> z" "z < month_start (a + 1)"
    and "month_start b \<le> z" "z < month_start (b + 1)"
  shows "a = b"
proof (rule ccontr)
  assume "a \<noteq> b"
  then have "a + 1 \<le> b \<or> b + 1 \<le> a" by auto
  then show False
    using month_start_mono [of "a + 1" b] month_start_mono [of "b + 1" a] assms by auto
qed

text \<open>The last block of a cycle is one day longer than the others: the quotient is cut at 3.\<close>

lemma min3_quot:
  fixes x w l :: int
  assumes "0 \<le> x" "0 < w" "x \<le> 4 * w" 
  shows "0 \<le> min 3 (x div w)" "min 3 (x div w) \<le> 3"
    and "0 \<le> x - w * min 3 (x div w)" "x - w * min 3 (x div w) \<le> w"
    and "x - w * min 3 (x div w) = w \<Longrightarrow> min 3 (x div w) = 3 \<and> x = 4 * w"
proof -
  have x: "x = w * (x div w) + x mod w" "0 \<le> x mod w" "x mod w < w"
    using assms by simp_all
  have q: "0 \<le> x div w" using assms by (simp add: pos_imp_zdiv_nonneg_iff)
  then show "0 \<le> min 3 (x div w)" "min 3 (x div w) \<le> 3" by simp_all
  have "0 \<le> x - w * min 3 (x div w) \<and> x - w * min 3 (x div w) \<le> w
    \<and> (x - w * min 3 (x div w) = w \<longrightarrow> min 3 (x div w) = 3 \<and> x = 4 * w)"
  proof (cases "x div w \<le> 3")
    case True
    then have "x - w * min 3 (x div w) = x mod w" by (simp add: minus_mult_div_eq_mod)
    with x show ?thesis by simp
  next
    case False
    then have "min 3 (x div w) = 3" by simp
    moreover have "w * 4 \<le> w * (x div w)" using False assms by (intro mult_left_mono) auto
    ultimately show ?thesis using x assms by linarith
  qed
  then show "0 \<le> x - w * min 3 (x div w)" "x - w * min 3 (x div w) \<le> w"
    and "x - w * min 3 (x div w) = w \<Longrightarrow> min 3 (x div w) = 3 \<and> x = 4 * w" by blast+
qed

lemma year_of_day:
  fixes doe :: int
  assumes doe: "0 \<le> doe" "doe < 146097"
  defines "n100 \<equiv> min 3 (doe div 36524)"
  defines "r1 \<equiv> doe - 36524 * n100"
  defines "n4 \<equiv> r1 div 1461"
  defines "r2 \<equiv> r1 - 1461 * n4"
  defines "n1 \<equiv> min 3 (r2 div 365)"
  defines "y \<equiv> 100 * n100 + 4 * n4 + n1"
  shows "doe = 365 * y + y div 4 - y div 100 + (r2 - 365 * n1)" "0 \<le> y" "y < 400"
    "0 \<le> r2 - 365 * n1" "r2 - 365 * n1 \<le> 365" "r2 - 365 * n1 = 365 \<Longrightarrow> leap_year (y + 1)"
proof -
  have n100: "0 \<le> n100" "n100 \<le> 3" and r1: "0 \<le> r1" "r1 \<le> 36524"
    and r1_max: "r1 = 36524 \<Longrightarrow> n100 = 3"
    using min3_quot [of doe 36524] doe unfolding r1_def n100_def by simp_all
  have r2_eq: "r2 = r1 mod 1461" by (simp add: r2_def n4_def minus_mult_div_eq_mod)
  have r1_eq: "r1 = 1461 * n4 + r2" by (simp add: r2_def)
  have r2: "0 \<le> r2" "r2 \<le> 1460" using r2_eq by simp_all
  have n4: "0 \<le> n4" "n4 \<le> 24" using r1 r1_eq r2 by linarith+
  have n1: "0 \<le> n1" "n1 \<le> 3" and doy: "0 \<le> r2 - 365 * n1" "r2 - 365 * n1 \<le> 365"
    and doy_max: "r2 - 365 * n1 = 365 \<Longrightarrow> n1 = 3 \<and> r2 = 1460"
    using min3_quot [of r2 365] r2 unfolding n1_def by simp_all
  have y4: "y div 4 = 25 * n100 + n4"
  proof -
    have "y = 4 * (25 * n100 + n4) + n1" by (simp add: y_def)
    then show ?thesis using n1 by simp
  qed
  have y100: "y div 100 = n100"
  proof -
    have "y = 100 * n100 + (4 * n4 + n1)" by (simp add: y_def)
    then show ?thesis using n1 n4 by simp
  qed
  show "doe = 365 * y + y div 4 - y div 100 + (r2 - 365 * n1)"
    unfolding y4 y100 using r1_eq by (simp add: y_def r1_def)
  show "0 \<le> y" "y < 400" using n100 n4 n1 by (simp_all add: y_def)
  show "0 \<le> r2 - 365 * n1" "r2 - 365 * n1 \<le> 365" using doy by blast+
  assume "r2 - 365 * n1 = 365"
  with doy_max have m: "n1 = 3" "r2 = 1460" by simp_all
  have y1: "y + 1 = 4 * (25 * n100 + n4 + 1)" using m by (simp add: y_def)
  have "400 dvd y + 1 \<or> \<not> 100 dvd y + 1"
  proof (cases "n4 = 24")
    case True
    then have "r1 = 36524" using r1_eq m by simp
    with r1_max True y1 have "y + 1 = 400" by simp
    then show ?thesis by simp
  next
    case False
    have "y + 1 = 100 * n100 + 4 * (n4 + 1)" using y1 by simp
    moreover have "\<not> 100 dvd 4 * (n4 + 1)" using False n4 by (auto dest: zdvd_imp_le)
    ultimately show ?thesis by (metis dvd_add_right_iff dvd_triv_left)
  qed
  moreover have "4 dvd y + 1" unfolding y1 by simp
  ultimately show "leap_year (y + 1)" unfolding leap_year_def by blast
qed

lemma month_of_doy:
  fixes doy :: int
  assumes "0 \<le> doy" "doy \<le> 365"
  defines "mp \<equiv> (5 * doy + 2) div 153"
  shows "0 \<le> mp" "mp < 12" "(153 * mp + 2) div 5 \<le> doy" "mp < 11 \<Longrightarrow> doy < (153 * (mp + 1) + 2) div 5"
proof -
  have mpb: "153 * mp \<le> 5 * doy + 2" "5 * doy + 2 \<le> 153 * mp + 152"
    unfolding mp_def
    using mult_div_mod_eq [of 153 "5 * doy + 2"] pos_mod_sign [of 153 "5 * doy + 2"]
      pos_mod_bound [of 153 "5 * doy + 2"] by linarith+
  show "0 \<le> mp" "mp < 12" using mpb assms by linarith+
  have le: "x \<le> 5 * a + 4 \<Longrightarrow> x div 5 \<le> a" and gt: "5 * (a + 1) \<le> x \<Longrightarrow> a < x div 5" for x a :: int
    using zdiv_mono1 [of x "5 * a + 4" 5] zdiv_mono1 [of "5 * (a + 1)" x 5] by simp_all
  show "(153 * mp + 2) div 5 \<le> doy" by (rule le) (use mpb in linarith)
  show "doy < (153 * (mp + 1) + 2) div 5" 
  proof (rule gt)
    have "5 * (doy + 1) = 5 * doy + 2 + 3" by simp
    also have "\<dots> \<le> 153 * (mp + 1) + 2" using mpb(2) by simp
    finally show "5 * (doy + 1) \<le> 153 * (mp + 1) + 2" .
  qed
qed

lemma era_shift:
  fixes e y a b :: int
  shows "365 * (400 * e + y) + (100 * e + a) - (4 * e + b) + e = 146097 * e + (365 * y + a - b)"
  by simp

theorem civil_month_correct:
  assumes "civil_month z = (mi, d)"
  shows "z = month_start mi + d - 1" "1 \<le> d" "d \<le> days_in_month mi"
proof -
  define doe where "doe = (z + 719468) mod 146097"
  define n100 where "n100 = min 3 (doe div 36524)"
  define r1 where "r1 = doe - 36524 * n100"
  define n4 where "n4 = r1 div 1461"
  define r2 where "r2 = r1 - 1461 * n4"
  define n1 where "n1 = min 3 (r2 div 365)"
  define y where "y = 100 * n100 + 4 * n4 + n1"
  define doy where "doy = r2 - 365 * n1"
  define mp where "mp = (5 * doy + 2) div 153"
  define era where "era = (z + 719468) div 146097"
  note defs = doe_def n100_def r1_def n4_def r2_def n1_def
  have "0 \<le> doe" "doe < 146097" by (simp_all add: doe_def)
  note yd = year_of_day [OF this, folded n100_def, folded r1_def, folded n4_def, folded r2_def,
    folded n1_def, folded y_def doy_def]
  note md = month_of_doy [OF yd(4,5), folded mp_def]
  have mi: "mi = 12 * (400 * era + y) + mp + 2" and d: "d = doy - (153 * mp + 2) div 5 + 1"
  proof -
    have "(12 * (400 * era + 100 * n100 + 4 * n4 + n1) + mp + 2, doy - (153 * mp + 2) div 5 + 1) = (mi, d)"
      unfolding assms [symmetric] civil_month_def Let_def mp_def doy_def defs era_def ..
    then show "mi = 12 * (400 * era + y) + mp + 2" "d = doy - (153 * mp + 2) div 5 + 1"
      by (simp_all add: y_def add.assoc)
  qed
  have ys: "year_start (400 * era + y) = 146097 * era + (365 * y + y div 4 - y div 100)"
  proof -
    have "(400 * era + y) div 4 = (4 * (100 * era) + y) div 4"
      "(400 * era + y) div 100 = (100 * (4 * era) + y) div 100" by simp_all
    then have "(400 * era + y) div 4 = 100 * era + y div 4"
      "(400 * era + y) div 100 = 4 * era + y div 100"
      by (simp_all only: div_mult_self4 zero_neq_numeral [symmetric] not_False_eq_True)
    moreover have "(400 * era + y) div 400 = era" using yd(2,3) by simp
    ultimately show ?thesis by (simp only: year_start_def era_shift)
  qed
  have z: "z + 719468 = 146097 * era + doe" by (simp add: era_def doe_def)
  have ms: "month_start mi = year_start (400 * era + y) + (153 * mp + 2) div 5 - 719468"
    unfolding mi by (rule month_start_base [OF md(1,2)])
  show "z = month_start mi + d - 1"
    using z yd(1) by (simp add: ms ys d)
  show "1 \<le> d" using md(3) by (simp add: d)
  have "z < month_start (mi + 1)"
  proof (cases "mp = 11")
    case True
    have "month_start (12 * (400 * era + y + 1) + 0 + 2) = year_start (400 * era + y + 1) - 719468"
      by (subst month_start_base) simp_all
    then have "month_start (mi + 1) = year_start (400 * era + y + 1) - 719468"
      by (simp add: mi True algebra_simps)
    moreover have "leap_year (400 * era + y + 1) = leap_year (y + 1)"
    proof -
      have "k dvd 400 \<Longrightarrow> k dvd 400 * era + (y + 1) \<longleftrightarrow> k dvd y + 1" for k :: int
        by (rule dvd_add_right_iff) simp
      then show ?thesis by (simp add: leap_year_def add.assoc)
    qed
    ultimately have "year_start (400 * era + y) + doy - 719468 < month_start (mi + 1)"
      using yd(5,6) by (cases "doy = 365") (auto simp: year_start_Suc)
    then show ?thesis using z yd(1) ys by simp
  next
    case False
    then have "month_start (mi + 1) = year_start (400 * era + y) + (153 * (mp + 1) + 2) div 5 - 719468"
      using month_start_base [of "mp + 1" "400 * era + y"] md(1,2) by (simp add: mi algebra_simps)
    then show ?thesis using md(2,4) False z yd(1) ys by simp
  qed
  then show "d \<le> days_in_month mi"
    using \<open>z = month_start mi + d - 1\<close> by (simp add: month_start_Suc)
qed


section \<open>Instants, dates and durations\<close>

definition ns_per_sec :: int where "ns_per_sec = 1000000000"
definition ns_per_day :: int where "ns_per_day = 86400000000000"

definition time_Date :: "int \<Rightarrow> int \<Rightarrow> int \<Rightarrow> int \<Rightarrow> int \<Rightarrow> int \<Rightarrow> int \<Rightarrow> time" where
  "time_Date y mo d h mi s ns =
     (month_start (12 * y + (mo - 1)) + (d - 1)) * ns_per_day
     + ((h * 60 + mi) * 60 + s) * ns_per_sec + ns"

definition day_of :: "time \<Rightarrow> int" where "day_of t = t div ns_per_day"
definition time_Year :: "time \<Rightarrow> int" where "time_Year t = fst (civil_month (day_of t)) div 12"
definition time_Month :: "time \<Rightarrow> int" where "time_Month t = fst (civil_month (day_of t)) mod 12 + 1"
definition time_Day :: "time \<Rightarrow> int" where "time_Day t = snd (civil_month (day_of t))"
definition time_Hour :: "time \<Rightarrow> int" where "time_Hour t = t mod ns_per_day div (3600 * ns_per_sec)"
definition time_Minute :: "time \<Rightarrow> int" where "time_Minute t = t mod ns_per_day div (60 * ns_per_sec) mod 60"
definition time_Second :: "time \<Rightarrow> int" where "time_Second t = t mod ns_per_day div ns_per_sec mod 60"
definition time_Nanosecond :: "time \<Rightarrow> int" where "time_Nanosecond t = t mod ns_per_sec"

definition time_Add :: "time \<Rightarrow> duration \<Rightarrow> time" where "time_Add t d = t + d"
definition time_Sub :: "time \<Rightarrow> time \<Rightarrow> duration" where
  "time_Sub t u = max min_int64 (min max_int64 (t - u))"
definition zero_time :: time where "zero_time = - 62135596800 * ns_per_sec"

lemmas time_defs [go_defs] = ns_per_sec_def ns_per_day_def time_Date_def day_of_def time_Year_def
  time_Month_def time_Day_def time_Hour_def time_Minute_def time_Second_def time_Nanosecond_def
  time_Add_def time_Sub_def zero_time_def

lemma civil_month_unique:
  assumes "1 \<le> d" "d \<le> days_in_month mi"
  shows "civil_month (month_start mi + d - 1) = (mi, d)"
proof -
  obtain mi' d' where c: "civil_month (month_start mi + d - 1) = (mi', d')" by fastforce
  note c' = civil_month_correct [OF c]
  have "mi' = mi"
    by (rule month_unique [of _ "month_start mi + d - 1"])
       (use c' assms in \<open>simp_all add: month_start_Suc\<close>)
  with c' c show ?thesis by simp
qed

text \<open>The month of an instant, counted from January of year 0, and the day in it.\<close>

definition month_no :: "time \<Rightarrow> int" where
  "month_no t = 12 * time_Year t + (time_Month t - 1)"

lemma month_no_civil: "civil_month (day_of t) = (month_no t, time_Day t)"
  by (simp add: month_no_def time_Year_def time_Month_def time_Day_def prod_eq_iff)

lemma day_of_split:
  "day_of t = month_start (month_no t) + time_Day t - 1" "1 \<le> time_Day t"
  "time_Day t \<le> days_in_month (month_no t)"
  using civil_month_correct [OF month_no_civil [of t]] by simp_all

lemma clock_split:
  "((time_Hour t * 60 + time_Minute t) * 60 + time_Second t) * ns_per_sec + time_Nanosecond t
    = t mod ns_per_day"
proof -
  define r where "r = t mod ns_per_day"
  have "t mod ns_per_sec = r mod ns_per_sec"
    unfolding r_def by (rule mod_mod_cancel [symmetric]) (simp add: ns_per_day_def ns_per_sec_def)
  moreover have "r div (60 * ns_per_sec) = r div ns_per_sec div 60"
    "r div (3600 * ns_per_sec) = r div ns_per_sec div 60 div 60"
    by (simp_all add: div_mult2_eq' ns_per_sec_def zdiv_zmult2_eq flip: zdiv_zmult2_eq)
  ultimately show ?thesis
    unfolding time_Hour_def time_Minute_def time_Second_def time_Nanosecond_def r_def [symmetric]
    by (simp add: div_mult_mod_eq)
qed

lemma time_split: "t = day_of t * ns_per_day + t mod ns_per_day"
  by (simp add: day_of_def)

lemma time_Date_split:
  "time_Date (time_Year t) (time_Month t + k) d (time_Hour t) (time_Minute t) (time_Second t) (time_Nanosecond t)
    = (month_start (month_no t + k) + (d - 1)) * ns_per_day + t mod ns_per_day"
  by (simp add: time_Date_def clock_split [of t, symmetric] month_no_def algebra_simps)

lemma day_of_add: "0 \<le> r \<Longrightarrow> r < ns_per_day \<Longrightarrow> day_of (z * ns_per_day + r) = z"
  by (simp add: day_of_def ns_per_day_def)

lemma date_fields:
  assumes "1 \<le> d" "d \<le> days_in_month mi" "0 \<le> r" "r < ns_per_day"
  defines "t \<equiv> (month_start mi + (d - 1)) * ns_per_day + r"
  shows "month_no t = mi" "time_Day t = d"
proof -
  have "day_of t = month_start mi + d - 1"
    using day_of_add [OF assms(3,4), of "month_start mi + (d - 1)"] by (simp add: t_def)
  then have "(month_no t, time_Day t) = (mi, d)"
    using month_no_civil [of t] civil_month_unique [OF assms(1,2)] by simp
  then show "month_no t = mi" "time_Day t = d" by simp_all
qed

end
