(* ===== verification/GoFloat.thy ===== *)
theory GoFloat
  imports Prelude
begin

text \<open>
  Go's \<open>float64\<close> as the program uses it: the rationals a binary64 value can hold, every
  operation rounded to nearest even by \<open>fl\<close> (53 bits of precision; the exponent range is not
  bounded, and no modelled computation leaves it). Division by zero is \<open>None\<close>, and \<open>f_to_int\<close>
  is the conversion as amd64 performs it: truncation, and the smallest \<open>int64\<close> when the value is
  out of range or not a number.
\<close>

type_synonym float64 = rat

fun nat_log2 :: "nat \<Rightarrow> nat" where
  "nat_log2 n = (if n < 2 then 0 else Suc (nat_log2 (n div 2)))"

declare nat_log2.simps [simp del]

definition exponent_of :: "rat \<Rightarrow> int" where
  "exponent_of x =
     (if 1 \<le> x then int (nat_log2 (nat \<lfloor>x\<rfloor>)) else - int (nat_log2 (nat (\<lceil>1 / x\<rceil> - 1))) - 1)"

definition round_half_even :: "rat \<Rightarrow> int" where
  "round_half_even q =
     (let f = \<lfloor>q\<rfloor>; d = q - of_int f in
      if d < 1 / 2 then f else if 1 / 2 < d then f + 1 else if even f then f else f + 1)"

definition fl :: "rat \<Rightarrow> float64" where
  "fl x = (if x = 0 then 0
           else let u = (2::rat) powi (exponent_of \<bar>x\<bar> - 52) in of_int (round_half_even (x / u)) * u)"

lemma nat_log2_bounds: "0 < n \<Longrightarrow> 2 ^ nat_log2 n \<le> n \<and> n < 2 ^ Suc (nat_log2 n)"
proof (induction n rule: nat_log2.induct)
  case (1 n)
  show ?case
  proof (cases "n < 2")
    case True
    with "1.prems" show ?thesis by (simp add: nat_log2.simps)
  next
    case False
    then have "2 ^ nat_log2 (n div 2) \<le> n div 2 \<and> n div 2 < 2 ^ Suc (nat_log2 (n div 2))"
      by (intro "1.IH") auto
    then show ?thesis using False by (simp add: nat_log2.simps [of n]) linarith
  qed
qed

lemma nat_le_pow: "int (2 ^ k) = 2 ^ k" by simp

lemma exponent_of_bounds:
  assumes "0 < x"
  shows "(2::rat) powi exponent_of x \<le> x" "x < 2 powi (exponent_of x + 1)"
proof -
  show "(2::rat) powi exponent_of x \<le> x" "x < 2 powi (exponent_of x + 1)"
  proof (atomize (full), cases "1 \<le> x")
    case True
    define n where "n = nat \<lfloor>x\<rfloor>"
    have n: "0 < n" "of_nat n \<le> x" "x < of_nat n + 1"
      using True by (simp_all add: n_def le_floor_iff) linarith+
    from nat_log2_bounds [OF n(1)] have b: "(of_nat (2 ^ nat_log2 n) :: rat) \<le> of_nat n"
      "(of_nat (Suc n) :: rat) \<le> of_nat (2 ^ Suc (nat_log2 n))"
      by (simp_all only: of_nat_le_iff Suc_le_eq)
    then have "2 ^ nat_log2 n \<le> (of_nat n :: rat)" by simp
    then have "2 ^ nat_log2 n \<le> x" using n by linarith
    with b n True show "2 powi exponent_of x \<le> x \<and> x < 2 powi (exponent_of x + 1)"
      by (simp add: exponent_of_def n_def [symmetric] power_int_add)
  next
    case False
    define n where "n = nat (\<lceil>1 / x\<rceil> - 1)"
    have "1 < 1 / x" using False assms by simp
    then have "1 < \<lceil>1 / x\<rceil>" by linarith
    then have n: "0 < n" "of_nat n < 1 / x" "1 / x \<le> of_nat n + 1"
      by (simp_all add: n_def) linarith+
    from nat_log2_bounds [OF n(1)] have b: "(of_nat (2 ^ nat_log2 n) :: rat) \<le> of_nat n"
      "(of_nat (Suc n) :: rat) \<le> of_nat (2 ^ Suc (nat_log2 n))"
      by (simp_all only: of_nat_le_iff Suc_le_eq)
    have "2 ^ nat_log2 n \<le> (of_nat n :: rat)" using b(1) by simp
    then have "2 ^ nat_log2 n < 1 / x" by (rule le_less_trans [OF _ n(2)])
    moreover have "1 / x \<le> 2 * 2 ^ nat_log2 n" using b(2) n(3) by simp
    ultimately have "x < 1 / 2 ^ nat_log2 n" "1 / (2 * 2 ^ nat_log2 n) \<le> x"
      using assms by (simp_all add: field_simps)
    then show "2 powi exponent_of x \<le> x \<and> x < 2 powi (exponent_of x + 1)"
      using False by (simp add: exponent_of_def n_def [symmetric] power_int_add power_int_diff power_int_minus field_simps)
  qed
qed

lemma exponent_of_mono:
  assumes "0 < x" "x \<le> y"
  shows "exponent_of x \<le> exponent_of y"
proof (rule ccontr)
  assume "\<not> ?thesis"
  then have "(2::rat) powi (exponent_of y + 1) \<le> 2 powi exponent_of x"
    by (intro power_int_increasing) auto
  with exponent_of_bounds [OF assms(1)] exponent_of_bounds [of y] assms show False by linarith
qed

lemma round_half_even_bounds: "\<lfloor>q\<rfloor> \<le> round_half_even q" "round_half_even q \<le> \<lfloor>q\<rfloor> + 1"
  by (simp_all add: round_half_even_def Let_def)

lemma round_half_even_int [simp]: "round_half_even (of_int k) = k"
  by (simp add: round_half_even_def Let_def)

lemma round_half_even_mono: "p \<le> q \<Longrightarrow> round_half_even p \<le> round_half_even q"
proof (cases "\<lfloor>p\<rfloor> = \<lfloor>q\<rfloor>")
  case True
  assume "p \<le> q"
  with True show ?thesis by (auto simp: round_half_even_def Let_def)
next
  case False
  assume "p \<le> q"
  then have "\<lfloor>p\<rfloor> + 1 \<le> \<lfloor>q\<rfloor>" using False floor_mono [of p q] by simp
  then show ?thesis using round_half_even_bounds(2) [of p] round_half_even_bounds(1) [of q] by linarith
qed

lemma round_half_even_minus: "round_half_even (- q) = - round_half_even q"
proof (cases "q = of_int \<lfloor>q\<rfloor>")
  case True
  then show ?thesis by (metis of_int_minus round_half_even_int)
next
  case False
  then have "\<lfloor>- q\<rfloor> = - \<lfloor>q\<rfloor> - 1" by linarith
  then show ?thesis by (auto simp: round_half_even_def Let_def)
qed

lemma fl_minus: "fl (- x) = - fl x"
  by (simp add: fl_def Let_def round_half_even_minus)

lemma fl_0 [simp]: "fl 0 = 0"
  by (simp add: fl_def)

lemma fl_pos_range:
  assumes "0 < x"
  shows "2 powi exponent_of x \<le> fl x" "fl x \<le> 2 powi (exponent_of x + 1)"
proof -
  define u :: rat where "u = 2 powi (exponent_of x - 52)"
  have u: "0 < u" "2 powi exponent_of x = 2 ^ 52 * u" "2 powi (exponent_of x + 1) = 2 ^ 53 * u"
    by (simp_all add: u_def power_int_diff power_int_add)
  have q: "of_int (2 ^ 52) \<le> x / u" "x / u \<le> of_int (2 ^ 53)"
    using exponent_of_bounds [OF assms] u by (simp_all add: field_simps)
  have r: "2 ^ 52 \<le> round_half_even (x / u)" "round_half_even (x / u) \<le> 2 ^ 53"
    using round_half_even_mono [OF q(1)] round_half_even_mono [OF q(2)]
    unfolding round_half_even_int by blast+
  have "(of_int (2 ^ 52) :: rat) \<le> of_int (round_half_even (x / u))"
    "(of_int (round_half_even (x / u)) :: rat) \<le> of_int (2 ^ 53)"
    using r by (simp_all only: of_int_le_iff)
  then show "2 powi exponent_of x \<le> fl x" "fl x \<le> 2 powi (exponent_of x + 1)"
    using assms u(1) by (simp_all add: fl_def Let_def u(2,3) flip: u_def)
qed

lemma fl_pos: "0 < x \<Longrightarrow> 0 < fl x"
  using fl_pos_range(1) [of x] by (rule order.strict_trans2 [rotated]) simp_all

lemma fl_mono_pos:
  assumes "0 < x" "x \<le> y"
  shows "fl x \<le> fl y"
proof (cases "exponent_of x = exponent_of y")
  case True
  define u :: rat where "u = 2 powi (exponent_of y - 52)"
  have "0 < u" by (simp add: u_def)
  then have "round_half_even (x / u) \<le> round_half_even (y / u)"
    using assms by (intro round_half_even_mono divide_right_mono) simp_all
  then show ?thesis using assms True \<open>0 < u\<close>
    by (simp add: fl_def Let_def flip: u_def)
next
  case False
  with exponent_of_mono [OF assms] have "exponent_of x + 1 \<le> exponent_of y" by simp
  then have "(2::rat) powi (exponent_of x + 1) \<le> 2 powi exponent_of y"
    by (intro power_int_increasing) auto
  then show ?thesis using fl_pos_range [of x] fl_pos_range [of y] assms by linarith
qed

theorem fl_mono:
  assumes "x \<le> y"
  shows "fl x \<le> fl y"
proof -
  consider "0 < x" | "x \<le> 0" "0 \<le> y" | "y < 0" by linarith
  then show ?thesis
  proof cases
    case 1 then show ?thesis using assms by (rule fl_mono_pos)
  next
    case 2
    have "fl x \<le> 0" using 2 fl_pos [of "- x"] by (cases "x = 0") (auto simp: fl_minus)
    moreover have "0 \<le> fl y" using 2 fl_pos [of y] by (cases "y = 0") auto
    ultimately show ?thesis by linarith
  next
    case 3 then show ?thesis using fl_mono_pos [of "- y" "- x"] assms by (simp add: fl_minus)
  qed
qed

lemma fl_nonneg: "0 \<le> x \<Longrightarrow> 0 \<le> fl x"
  using fl_mono [of 0 x] by simp

text \<open>Integers up to \<open>2\<close> to the \<open>53\<close> are represented exactly.\<close>

theorem fl_of_int:
  assumes "\<bar>k\<bar> \<le> 2 ^ 53"
  shows "fl (of_int k) = of_int k"
proof -
  have pos: "fl (of_int m) = of_int m" if m: "0 < m" "m \<le> 2 ^ 53" for m :: int
  proof (cases "m = 2 ^ 53")
    case True
    define x :: rat where "x = of_int m"
    have x: "0 < x" "x = 2 powi 53" by (simp_all add: x_def True)
    have "exponent_of x = 53"
    proof (rule antisym)
      show "exponent_of x \<le> 53"
        using exponent_of_bounds(1) [OF x(1)] power_int_strict_increasing [of 53 "exponent_of x" "2 :: rat"]
        by (cases "53 < exponent_of x") (auto simp: x(2))
      show "53 \<le> exponent_of x"
        using exponent_of_bounds(2) [OF x(1)] power_int_increasing [of "exponent_of x + 1" 53 "2 :: rat"]
        by (cases "exponent_of x < 53") (auto simp: x(2))
    qed
    moreover have "x / 2 = of_int (2 ^ 52)" by (simp add: x_def True)
    ultimately have "fl x = of_int (round_half_even (of_int (2 ^ 52))) * 2"
      using x(1) by (simp add: fl_def Let_def)
    also have "\<dots> = of_int m" by (simp only: round_half_even_int) (simp add: True)
    finally show ?thesis by (simp add: x_def)
  next
    case False
    have x: "(0::rat) < of_int m" using m by simp
    have "exponent_of (of_int m) < 53"
    proof (rule ccontr)
      assume "\<not> ?thesis"
      then have "(2::rat) powi 53 \<le> 2 powi exponent_of (of_int m)"
        by (intro power_int_increasing) auto
      with exponent_of_bounds(1) [OF x] have "(2::rat) ^ 53 \<le> of_int m" by simp
      then have "of_int (2 ^ 53) \<le> (of_int m :: rat)" by simp
      with m False show False by (simp only: of_int_le_iff)
    qed
    then have u: "(2::rat) powi (exponent_of (of_int m) - 52) = 1 / of_int (2 ^ nat (52 - exponent_of (of_int m)))"
      by (simp add: power_int_def field_simps power_inverse)
    have "fl (of_int m) = of_int (round_half_even (of_int (m * 2 ^ nat (52 - exponent_of (of_int m)))))
      / of_int (2 ^ nat (52 - exponent_of (of_int m)))"
      using x by (simp add: fl_def Let_def u)
    then show ?thesis by (simp only: round_half_even_int) simp
  qed
  consider "k = 0" | "0 < k" | "k < 0" by linarith
  then show ?thesis
  proof cases
    case 3
    then have "fl (of_int (- k)) = of_int (- k)" using assms by (intro pos) auto
    then show ?thesis by (simp add: fl_minus)
  qed (use assms pos [of k] in auto)
qed

section \<open>The operations the code uses\<close>

text \<open>The error of rounding a number up to \<open>2\<close> to the \<open>k\<close>.\<close>

lemma round_half_even_error: "\<bar>of_int (round_half_even q) - q\<bar> \<le> 1 / 2"
proof -
  have "of_int \<lfloor>q\<rfloor> \<le> q" "q < of_int \<lfloor>q\<rfloor> + 1" by linarith+
  then show ?thesis unfolding round_half_even_def Let_def by (auto simp: abs_le_iff)
qed

lemma fl_error:
  assumes "0 < x" "x \<le> 2 ^ k"
  shows "\<bar>fl x - x\<bar> \<le> 2 powi (int k - 53)"
proof -
  define u :: rat where "u = 2 powi (exponent_of x - 52)"
  have "(2::rat) powi exponent_of x \<le> 2 powi int k"
    using exponent_of_bounds(1) [OF assms(1)] assms(2) by simp
  then have "exponent_of x \<le> int k" using power_int_le_imp_le_exp [of "2::rat"] by (metis not_le one_less_numeral_iff power_int_strict_increasing semiring_norm(76))
  then have u: "0 < u" "u \<le> 2 powi (int k - 52)"
    unfolding u_def by (simp_all add: power_int_increasing)
  have "fl x - x = (of_int (round_half_even (x / u)) - x / u) * u"
    using assms(1) u(1) by (simp add: fl_def Let_def field_simps flip: u_def)
  then have "\<bar>fl x - x\<bar> \<le> 1 / 2 * u"
    using round_half_even_error [of "x / u"] u(1) by (simp add: abs_mult)
  also have "\<dots> \<le> 2 powi (int k - 53)"
    using u(2) by (simp add: power_int_diff)
  finally show ?thesis .
qed

definition f_of_int :: "goint \<Rightarrow> float64" where "f_of_int n = fl (of_int n)"
definition f_add :: "float64 \<Rightarrow> float64 \<Rightarrow> float64" where "f_add x y = fl (x + y)"
definition f_mul :: "float64 \<Rightarrow> float64 \<Rightarrow> float64" where "f_mul x y = fl (x * y)"
definition f_div :: "float64 \<Rightarrow> float64 \<Rightarrow> float64 option" where
  "f_div x y = (if y = 0 then None else Some (fl (x / y)))"

definition rat_trunc :: "rat \<Rightarrow> int" where
  "rat_trunc x = (if 0 \<le> x then \<lfloor>x\<rfloor> else \<lceil>x\<rceil>)"

definition f_to_int :: "float64 option \<Rightarrow> goint" where
  "f_to_int x = (case x of None \<Rightarrow> min_int64
     | Some v \<Rightarrow> if int64_ok (rat_trunc v) then rat_trunc v else min_int64)"

definition f_round :: "float64 \<Rightarrow> float64" where
  "f_round x = of_int (if 0 \<le> x then \<lfloor>x + 1 / 2\<rfloor> else \<lceil>x - 1 / 2\<rceil>)"

lemmas float_defs [go_defs] = f_of_int_def f_add_def f_mul_def f_div_def f_to_int_def f_round_def rat_trunc_def

end
