(* ===== verification/QuotaTypes.thy ===== *)
theory QuotaTypes
  imports GoTime GoFloat
begin

text \<open>
  The data of the package (\<open>types.go\<close>, \<open>errors.go\<close>, the records of \<open>storage.go\<close>): period types
  and periods with their storage keys, entitlements, usage, tier and manager configuration,
  requests, audit records, errors as values, and the events of the \<open>Metrics\<close> interface.
  Field names carry the initial of their struct. A pointer field is an \<open>option\<close>.
\<close>

text \<open>\<open>Duration.Seconds\<close>, in floating point.\<close>

definition duration_Seconds :: "duration \<Rightarrow> float64" where
  "duration_Seconds d =
     f_add (f_of_int (iquot d ns_per_sec)) (fl (f_of_int (irem d ns_per_sec) / of_int ns_per_sec))"

section \<open>Errors\<close>

record RateLimitInfo =
  rli_Remaining :: goint
  rli_ResetTime :: time
  rli_Limit :: goint

text \<open>
  One constructor per sentinel error of \<open>errors.go\<close> and \<open>circuit_breaker.go\<close>; errors built by
  \<open>fmt.Errorf\<close> carry their text, and \<open>Wrapped\<close> is \<open>%w\<close>. \<open>GoPanic\<close> is a run-time panic: it is not
  a Go error value, and every place that tests \<open>err != nil\<close> lets it pass (\<open>is_panic\<close>).
\<close>

datatype goerr =
    ErrQuotaExceeded | ErrInvalidTier | ErrInvalidAmount | ErrEntitlementNotFound
  | ErrStorageUnavailable | ErrInvalidPeriod | ErrFallbackUnavailable | ErrStaleCache
  | ErrOptimisticLimitExceeded | ErrRateLimitExceeded | ErrIdempotencyKeyExists
  | ErrCircuitOpen | ErrContextCanceled | ErrContextDeadlineExceeded
  | RateLimitExceededError "RateLimitInfo option" duration
  | ErrText string | Wrapped string goerr | GoPanic string

fun is_panic :: "goerr \<Rightarrow> bool" where
  "is_panic (GoPanic _) = True"
| "is_panic _ = False"

fun errors_Is :: "goerr \<Rightarrow> goerr \<Rightarrow> bool" where
  "errors_Is (Wrapped s e) t = (Wrapped s e = t \<or> errors_Is e t)"
| "errors_Is e t = (e = t)"

section \<open>Periods\<close>

text \<open>\<open>PeriodTypeOther s\<close> is any string that is none of the four named constants.\<close>

datatype PeriodType =
  PeriodTypeDaily | PeriodTypeMonthly | PeriodTypeForever | PeriodTypeAuto | PeriodTypeOther string

record Period =
  p_Start :: time
  p_End :: time
  p_Type :: PeriodType

definition digit :: "nat \<Rightarrow> char" where
  "digit n = char_of (48 + n mod 10)"

fun show_nat :: "nat \<Rightarrow> string" where
  "show_nat n = (if n < 10 then [digit n] else show_nat (n div 10) @ [digit n])"

declare show_nat.simps [simp del]

definition show_int :: "int \<Rightarrow> string" where
  "show_int i = (if i < 0 then CHR ''-'' # show_nat (nat (- i)) else show_nat (nat i))"

definition pad2 :: "int \<Rightarrow> string" where
  "pad2 n = [digit (nat (n div 10)), digit (nat n)]"

definition pad4 :: "int \<Rightarrow> string" where
  "pad4 n =
     (let s = show_nat (nat \<bar>n\<bar>); z = replicate (4 - length s) CHR ''0'' @ s
      in if n < 0 then CHR ''-'' # z else z)"

text \<open>\<open>t.UTC().Format("2006-01-02")\<close>\<close>

definition format_date :: "time \<Rightarrow> string" where
  "format_date t = pad4 (time_Year t) @ ''-'' @ pad2 (time_Month t) @ ''-'' @ pad2 (time_Day t)"

fun period_Key :: "Period \<Rightarrow> string" where
  "period_Key p = (case p_Type p of
     PeriodTypeDaily \<Rightarrow> format_date (p_Start p)
   | PeriodTypeMonthly \<Rightarrow> format_date (p_Start p)
   | PeriodTypeForever \<Rightarrow> ''forever''
   | _ \<Rightarrow> format_date (p_Start p))"

section \<open>Entitlements, usage, configuration\<close>

record Entitlement =
  e_UserID :: string
  e_Tier :: string
  e_SubscriptionStartDate :: time
  e_ExpiresAt :: "time option"
  e_UpdatedAt :: time

record Usage =
  u_UserID :: string
  u_Resource :: string
  u_Used :: goint
  u_Limit :: goint
  u_Period :: Period
  u_Tier :: string
  u_UpdatedAt :: time

record RateLimitConfig =
  rl_Algorithm :: string
  rl_Rate :: goint
  rl_Window :: duration
  rl_Burst :: goint

definition algorithmTokenBucket :: string where "algorithmTokenBucket = ''token_bucket''"
definition algorithmSlidingWindow :: string where "algorithmSlidingWindow = ''sliding_window''"

text \<open>A map the code ranges over is an association list, in the order of that loop.\<close>

record TierConfig =
  tc_Name :: string
  tc_MonthlyQuotas :: "(string \<times> goint) list"
  tc_DailyQuotas :: "(string \<times> goint) list"
  tc_WarningThresholds :: "(string \<times> float64 list) list"
  tc_RateLimits :: "(string \<times> RateLimitConfig) list"
  tc_ConsumptionOrder :: "PeriodType list"
  tc_InitialForeverCredits :: "(string \<times> goint) list"

record CacheConfig =
  cc_Enabled :: bool
  cc_EntitlementTTL :: duration
  cc_UsageTTL :: duration
  cc_MaxEntitlements :: goint
  cc_MaxUsage :: goint

record CircuitBreakerConfig =
  cb_Enabled :: bool
  cb_FailureThreshold :: goint
  cb_ResetTimeout :: duration

text \<open>\<open>fb_SecondaryStorage\<close> says whether the field is set; the storage itself is a parameter.\<close>

record FallbackConfig =
  fb_Enabled :: bool
  fb_FallbackToCache :: bool
  fb_OptimisticAllowance :: bool
  fb_OptimisticAllowancePercentage :: float64
  fb_SecondaryStorage :: bool
  fb_MaxStaleness :: duration

text \<open>\<open>c_WarningHandler\<close> says whether a handler is set; its calls are recorded as events.\<close>

record Config =
  c_Tiers :: "(string \<times> TierConfig) list option"
  c_DefaultTier :: string
  c_CacheTTL :: duration
  c_CacheConfig :: "CacheConfig option"
  c_WarningHandler :: bool
  c_CircuitBreakerConfig :: "CircuitBreakerConfig option"
  c_IdempotencyKeyTTL :: duration
  c_FallbackConfig :: "FallbackConfig option"

definition tier_lookup :: "Config \<Rightarrow> string \<Rightarrow> TierConfig option" where
  "tier_lookup c t = (case c_Tiers c of None \<Rightarrow> None | Some ts \<Rightarrow> map_of ts t)"

section \<open>Requests and records\<close>

record ConsumeOptions =
  co_IdempotencyKey :: string
  co_DryRun :: bool

definition no_options :: ConsumeOptions where
  "no_options = \<lparr>co_IdempotencyKey = '''', co_DryRun = False\<rparr>"

definition WithIdempotencyKey :: "string \<Rightarrow> ConsumeOptions \<Rightarrow> ConsumeOptions" where
  "WithIdempotencyKey key opts = opts\<lparr>co_IdempotencyKey := key\<rparr>"

definition WithDryRun :: "bool \<Rightarrow> ConsumeOptions \<Rightarrow> ConsumeOptions" where
  "WithDryRun dryRun opts = opts\<lparr>co_DryRun := dryRun\<rparr>"

record RefundRequest =
  rr_UserID :: string
  rr_Resource :: string
  rr_Amount :: goint
  rr_PeriodType :: PeriodType
  rr_Period :: Period
  rr_IdempotencyKey :: string
  rr_IdempotencyKeyTTL :: duration
  rr_Reason :: string
  rr_Metadata :: "(string \<times> string) list"

record RefundRecord =
  rf_RefundID :: string
  rf_UserID :: string
  rf_Resource :: string
  rf_Amount :: goint
  rf_Period :: Period
  rf_Timestamp :: time
  rf_IdempotencyKey :: string
  rf_Reason :: string
  rf_Metadata :: "(string \<times> string) list"

record ConsumptionRecord =
  cn_ConsumptionID :: string
  cn_UserID :: string
  cn_Resource :: string
  cn_Amount :: goint
  cn_Period :: Period
  cn_Timestamp :: time
  cn_IdempotencyKey :: string
  cn_NewUsed :: goint
  cn_Metadata :: "(string \<times> string) list"

record ConsumeResult =
  cs_NewUsed :: goint
  cs_Limit :: goint
  cs_Remaining :: goint
  cs_Percentage :: float64

record TryConsumeResult =
  tr_Success :: bool
  tr_Remaining :: goint
  tr_Consumed :: goint
  tr_NewUsed :: goint

record ConsumeRequest =
  cq_UserID :: string
  cq_Resource :: string
  cq_Amount :: goint
  cq_Tier :: string
  cq_Period :: Period
  cq_Limit :: goint
  cq_IdempotencyKey :: string
  cq_IdempotencyKeyTTL :: duration

record TierChangeRequest =
  tq_UserID :: string
  tq_Resource :: string
  tq_OldTier :: string
  tq_NewTier :: string
  tq_Period :: Period
  tq_OldLimit :: goint
  tq_NewLimit :: goint
  tq_CurrentUsed :: goint

record RateLimitRequest =
  rq_UserID :: string
  rq_Resource :: string
  rq_Algorithm :: string
  rq_Rate :: goint
  rq_Window :: duration
  rq_Burst :: goint
  rq_Now :: time

record AuditLogEntry =
  al_ID :: string
  al_UserID :: string
  al_Resource :: string
  al_Action :: string
  al_Amount :: goint
  al_Timestamp :: time
  al_Actor :: string
  al_Reason :: string
  al_Metadata :: "(string \<times> string) list"

record AuditLogFilter =
  af_UserID :: string
  af_Resource :: string
  af_Action :: string
  af_StartTime :: "time option"
  af_EndTime :: "time option"
  af_Limit :: goint

section \<open>Metric events\<close>

text \<open>
  Each call of the \<open>Metrics\<close> interface is an event of this type, without its durations; a
  component that reports metrics keeps the list of its calls, newest first. \<open>OnWarning\<close> is a call of a
  warning handler: the configured one (\<open>True\<close>) or the context's.
\<close>

datatype CircuitBreakerState = StateClosed | StateOpen | StateHalfOpen

datatype metric =
    RecordConsumption string string string goint bool
  | RecordQuotaCheck string string
  | RecordCacheHit string
  | RecordCacheMiss string
  | RecordStorageOperation string "goerr option"
  | RecordCircuitBreakerStateChange CircuitBreakerState
  | RecordFallbackUsage string
  | RecordOptimisticConsumption goint
  | RecordFallbackHit string
  | RecordRateLimitCheck string string bool
  | RecordRateLimitExceeded string string
  | RecordForeverCreditsBalance string string goint
  | RecordForeverCreditsConsumption string string bool
  | RecordForeverCreditsConsumptionAmount string string goint
  | RecordHybridBillingUser string
  | RecordQuotaWarning string string float64
  | RecordQuotaExhaustion string string PeriodType
  | RecordQuotaRefund string string
  | RecordQuotaRefundAmount string goint
  | RecordIdempotencyHit string
  | RecordUsersApproachingLimit string string string
  | RecordUsageAPIRequestDuration
  | RecordUsageAPIRequest string string
  | RecordUsageAPIResourcesDiscovered goint
  | RecordUsageAPIResourceFilterEffectiveness goint goint
  | RecordResourceFilterQueriesSaved goint
  | RecordResourceFilterEffectivenessRatio float64
  | OnWarning bool Usage float64

section \<open>Properties of the keys\<close>

lemma of_char_digit: "of_char (digit n) = (48 + n mod 10 :: nat)"
  unfolding digit_def by (simp add: of_char_of)

lemma digit_eq_iff: "digit a = digit b \<longleftrightarrow> a mod 10 = b mod 10"
  by (metis add_left_cancel digit_def mod_mod_trivial of_char_digit)

lemma digit_not_sep [simp]: "digit n \<noteq> CHR '':''" "digit n \<noteq> CHR ''-''"
proof -
  have "n mod 10 \<noteq> 10" by (simp add: less_imp_neq)
  moreover have "of_char (CHR '':'') = (58::nat)" "of_char (CHR ''-'') = (45::nat)" by simp_all
  ultimately show "digit n \<noteq> CHR '':''" "digit n \<noteq> CHR ''-''"
    using of_char_digit [of n] by auto
qed

lemmas digit_not_sep' [simp] = digit_not_sep [symmetric]

text \<open>Reading a decimal string back.\<close>

definition read_nat :: "string \<Rightarrow> nat" where
  "read_nat s = foldl (\<lambda>a c. 10 * a + (of_char c - 48)) 0 s"

lemma read_show_nat [simp]: "read_nat (show_nat n) = n"
proof (induction n rule: show_nat.induct)
  case (1 n)
  then show ?case
    by (subst show_nat.simps) (auto simp: read_nat_def of_char_digit)
qed

lemma read_nat_zeros [simp]: "read_nat (replicate k CHR ''0'' @ s) = read_nat s"
proof -
  have "foldl (\<lambda>a c. 10 * a + (of_char c - 48)) (0::nat) (replicate k CHR ''0'') = 0"
    by (induction k) simp_all
  then show ?thesis by (simp add: read_nat_def)
qed

lemma show_nat_inj: "show_nat m = show_nat n \<longleftrightarrow> m = n"
  by (metis read_show_nat)

lemma show_nat_no_sep: "CHR '':'' \<notin> set (show_nat n)"
proof (induction n rule: show_nat.induct)
  case (1 n)
  then show ?case by (subst show_nat.simps) auto
qed

lemma pad4_inj: "0 \<le> a \<Longrightarrow> 0 \<le> b \<Longrightarrow> pad4 a = pad4 b \<longleftrightarrow> a = b"
proof -
  assume ab: "0 \<le> a" "0 \<le> b"
  have "read_nat (pad4 x) = nat x" if "0 \<le> x" for x
    using that by (simp add: pad4_def Let_def)
  with ab show ?thesis by (metis nat_0_le)
qed

lemma pad2_inj: "0 \<le> a \<Longrightarrow> a < 100 \<Longrightarrow> 0 \<le> b \<Longrightarrow> b < 100 \<Longrightarrow> pad2 a = pad2 b \<longleftrightarrow> a = b"
proof -
  assume ab: "0 \<le> a" "a < 100" "0 \<le> b" "b < 100"
  have d: "nat (x div 10) mod 10 = nat (x div 10)" if "0 \<le> x" "x < 100" for x :: int
  proof -
    have "x div 10 \<le> 9" using zdiv_mono1 [of x 99 10] that by simp
    then show ?thesis by simp
  qed
  have "pad2 a = pad2 b \<longleftrightarrow> nat (a div 10) = nat (b div 10) \<and> nat a mod 10 = nat b mod 10"
    using ab by (simp add: pad2_def digit_eq_iff d)
  also have "\<dots> \<longleftrightarrow> nat a = nat b"
    using ab by (metis div_mult_mod_eq nat_div_distrib nat_numeral zero_le_numeral)
  finally show ?thesis using ab by (simp add: eq_nat_nat_iff)
qed

lemma length_pad2 [simp]: "length (pad2 n) = 2"
  by (simp add: pad2_def)

lemma time_Month_range: "1 \<le> time_Month t" "time_Month t \<le> 12"
proof -
  have "0 \<le> fst (civil_month (day_of t)) mod 12" "fst (civil_month (day_of t)) mod 12 < 12" by simp_all
  then show "1 \<le> time_Month t" "time_Month t \<le> 12" unfolding time_Month_def by linarith+
qed

theorem format_date_inj:
  assumes "0 \<le> time_Year t" "0 \<le> time_Year u"
  shows "format_date t = format_date u \<longleftrightarrow> day_of t = day_of u"
proof
  assume "format_date t = format_date u"
  then have eq: "pad4 (time_Year t) = pad4 (time_Year u)" "pad2 (time_Month t) = pad2 (time_Month u)"
    "pad2 (time_Day t) = pad2 (time_Day u)"
    by (simp_all add: format_date_def append_eq_append_conv)
  have r: "0 \<le> time_Day x" "time_Day x < 100" "0 \<le> time_Month x" "time_Month x < 100" for x
    using day_of_split [of x] days_in_month_bounds [of "month_no x"] time_Month_range [of x] by linarith+
  have "time_Year t = time_Year u" "time_Month t = time_Month u" "time_Day t = time_Day u"
    using eq assms r [of t] r [of u] by (simp_all add: pad4_inj pad2_inj)
  then show "day_of t = day_of u"
    using day_of_split(1) [of t] day_of_split(1) [of u] by (simp add: month_no_def)
next
  assume "day_of t = day_of u"
  then show "format_date t = format_date u"
    by (simp add: format_date_def time_Year_def time_Month_def time_Day_def)
qed

lemma format_date_no_colon: "CHR '':'' \<notin> set (format_date t)"
  using show_nat_no_sep by (auto simp: format_date_def pad4_def pad2_def Let_def)

lemma period_Key_no_colon: "CHR '':'' \<notin> set (period_Key p)"
  by (simp add: format_date_no_colon split: PeriodType.splits)

lemma format_date_head: "format_date t \<noteq> ''forever''"
  using last_in_set
  by (auto simp: format_date_def pad2_def)

end
