(* ===== verification/QuotaConfig.thy ===== *)
theory QuotaConfig
  imports QuotaTypes
begin

text \<open>
  Validation of a configuration (\<open>Config.Validate\<close> and its helpers in \<open>types.go\<close>) and the
  defaults \<open>NewManager\<close> puts into it. An error carries the values its message shows; the message
  itself, a numbered list of the errors, is not built. A map is ranged over in the order of its
  association list.
\<close>

datatype ConfigError =
    DefaultTierRequired
  | DefaultTierNilTiers string
  | DefaultTierMissing string
  | TierNameMismatch string string
  | NegativeMonthlyQuota string string goint
  | NegativeDailyQuota string string goint
  | NegativeInitialCredits string string goint
  | ThresholdOutOfRange string string nat float64
  | NegativeRate string string goint
  | InvalidWindow string string duration
  | NegativeBurst string string goint
  | InvalidAlgorithm string string string
  | InvalidOrderEntry string nat PeriodType
  | NegativeEntitlementTTL | NegativeUsageTTL | NegativeMaxEntitlements | NegativeMaxUsage
  | NegativeFailureThreshold | NegativeResetTimeout
  | PercentageOutOfRange float64 | NegativeMaxStaleness
  | NegativeIdempotencyTTL

text \<open>\<open>errs = append(errs, e)\<close> under a condition.\<close>

definition fail_if :: "bool \<Rightarrow> ConfigError \<Rightarrow> ConfigError list" where
  "fail_if b e = (if b then [e] else [])"

definition validateDefaultTier :: "Config \<Rightarrow> ConfigError list" where
  "validateDefaultTier c =
     (if c_DefaultTier c = '''' then [DefaultTierRequired]
      else case c_Tiers c of
        None \<Rightarrow> [DefaultTierNilTiers (c_DefaultTier c)]
      | Some tiers \<Rightarrow> fail_if (map_of tiers (c_DefaultTier c) = None) (DefaultTierMissing (c_DefaultTier c)))"

definition validateQuotas :: "string \<Rightarrow> TierConfig \<Rightarrow> ConfigError list" where
  "validateQuotas tierName tc =
     concat (map (\<lambda>(resource, lmt). fail_if (lmt < -1) (NegativeMonthlyQuota tierName resource lmt)) (tc_MonthlyQuotas tc))
     @ concat (map (\<lambda>(resource, lmt). fail_if (lmt < -1) (NegativeDailyQuota tierName resource lmt)) (tc_DailyQuotas tc))
     @ concat (map (\<lambda>(resource, lmt). fail_if (lmt < 0) (NegativeInitialCredits tierName resource lmt))
         (tc_InitialForeverCredits tc))"

definition validateWarningThresholds :: "string \<Rightarrow> TierConfig \<Rightarrow> ConfigError list" where
  "validateWarningThresholds tierName tc =
     concat (map (\<lambda>(resource, thresholds).
       concat (map (\<lambda>(i, threshold). fail_if (threshold < 0 \<or> threshold > 1)
          (ThresholdOutOfRange tierName resource i threshold)) (List.enumerate 0 thresholds))) (tc_WarningThresholds tc))"

definition validateRateLimits :: "string \<Rightarrow> TierConfig \<Rightarrow> ConfigError list" where
  "validateRateLimits tierName tc =
     concat (map (\<lambda>(resource, rl).
       fail_if (rl_Rate rl < 0) (NegativeRate tierName resource (rl_Rate rl))
       @ fail_if (rl_Window rl \<le> 0) (InvalidWindow tierName resource (rl_Window rl))
       @ fail_if (rl_Burst rl < 0) (NegativeBurst tierName resource (rl_Burst rl))
       @ fail_if (rl_Algorithm rl \<noteq> '''' \<and> rl_Algorithm rl \<noteq> algorithmTokenBucket
            \<and> rl_Algorithm rl \<noteq> algorithmSlidingWindow) (InvalidAlgorithm tierName resource (rl_Algorithm rl)))
       (tc_RateLimits tc))"

definition validateConsumptionOrder :: "string \<Rightarrow> TierConfig \<Rightarrow> ConfigError list" where
  "validateConsumptionOrder tierName tc =
     concat (map (\<lambda>(i, periodType).
       fail_if (periodType \<noteq> PeriodTypeMonthly \<and> periodType \<noteq> PeriodTypeDaily \<and> periodType \<noteq> PeriodTypeForever)
         (InvalidOrderEntry tierName i periodType)) (List.enumerate 0 (tc_ConsumptionOrder tc)))"

definition validateTierConfig :: "string \<Rightarrow> TierConfig \<Rightarrow> ConfigError list" where
  "validateTierConfig tierName tc =
     fail_if (tc_Name tc \<noteq> tierName) (TierNameMismatch tierName (tc_Name tc))
     @ validateQuotas tierName tc @ validateWarningThresholds tierName tc
     @ validateRateLimits tierName tc @ validateConsumptionOrder tierName tc"

definition validateCacheConfig :: "Config \<Rightarrow> ConfigError list" where
  "validateCacheConfig c = (case c_CacheConfig c of
     None \<Rightarrow> []
   | Some cc \<Rightarrow> if \<not> cc_Enabled cc then [] else
       fail_if (cc_EntitlementTTL cc < 0) NegativeEntitlementTTL
       @ fail_if (cc_UsageTTL cc < 0) NegativeUsageTTL
       @ fail_if (cc_MaxEntitlements cc < 0) NegativeMaxEntitlements
       @ fail_if (cc_MaxUsage cc < 0) NegativeMaxUsage)"

definition validateCircuitBreakerConfig :: "Config \<Rightarrow> ConfigError list" where
  "validateCircuitBreakerConfig c = (case c_CircuitBreakerConfig c of
     None \<Rightarrow> []
   | Some cb \<Rightarrow> if \<not> cb_Enabled cb then [] else
       fail_if (cb_FailureThreshold cb < 0) NegativeFailureThreshold
       @ fail_if (cb_ResetTimeout cb < 0) NegativeResetTimeout)"

definition validateFallbackConfig :: "Config \<Rightarrow> ConfigError list" where
  "validateFallbackConfig c = (case c_FallbackConfig c of
     None \<Rightarrow> []
   | Some fb \<Rightarrow> if \<not> fb_Enabled fb then [] else
       fail_if (fb_OptimisticAllowancePercentage fb < 0 \<or> fb_OptimisticAllowancePercentage fb > 100)
         (PercentageOutOfRange (fb_OptimisticAllowancePercentage fb))
       @ fail_if (fb_MaxStaleness fb < 0) NegativeMaxStaleness)"

definition validateIdempotencyTTL :: "Config \<Rightarrow> ConfigError list" where
  "validateIdempotencyTTL c = fail_if (c_IdempotencyKeyTTL c < 0) NegativeIdempotencyTTL"

definition Validate :: "Config \<Rightarrow> ConfigError list" where
  "Validate c =
     validateDefaultTier c
     @ (case c_Tiers c of None \<Rightarrow> []
        | Some tiers \<Rightarrow> concat (map (\<lambda>(tierName, tc). validateTierConfig tierName tc) tiers))
     @ validateCacheConfig c @ validateCircuitBreakerConfig c @ validateFallbackConfig c
     @ validateIdempotencyTTL c"

section \<open>Defaults\<close>

definition ns_per_minute :: duration where "ns_per_minute = 60 * ns_per_sec"

definition applyConfigDefaults :: "Config \<Rightarrow> Config" where
  "applyConfigDefaults c =
     c\<lparr>c_CacheTTL := (if c_CacheTTL c = 0 then ns_per_minute else c_CacheTTL c),
       c_DefaultTier := (if c_DefaultTier c = '''' then ''explorer'' else c_DefaultTier c),
       c_IdempotencyKeyTTL := (if c_IdempotencyKeyTTL c = 0 then ns_per_day else c_IdempotencyKeyTTL c)\<rparr>"

text \<open>The defaults \<open>initializeCache\<close> and \<open>initializeCircuitBreaker\<close> write through the pointers of the config.\<close>

definition cache_defaults :: "CacheConfig \<Rightarrow> CacheConfig" where
  "cache_defaults cc =
     cc\<lparr>cc_EntitlementTTL := (if cc_EntitlementTTL cc = 0 then ns_per_minute else cc_EntitlementTTL cc),
        cc_UsageTTL := (if cc_UsageTTL cc = 0 then 10 * ns_per_sec else cc_UsageTTL cc),
        cc_MaxEntitlements := (if cc_MaxEntitlements cc = 0 then 1000 else cc_MaxEntitlements cc),
        cc_MaxUsage := (if cc_MaxUsage cc = 0 then 10000 else cc_MaxUsage cc)\<rparr>"

definition breaker_defaults :: "CircuitBreakerConfig \<Rightarrow> CircuitBreakerConfig" where
  "breaker_defaults cb =
     cb\<lparr>cb_FailureThreshold := (if cb_FailureThreshold cb = 0 then 5 else cb_FailureThreshold cb),
        cb_ResetTimeout := (if cb_ResetTimeout cb = 0 then 30 * ns_per_sec else cb_ResetTimeout cb)\<rparr>"

section \<open>What a valid configuration is\<close>

text \<open>The meaning of an empty list of errors, stated without the order of the checks.\<close>

definition valid_rate_limit :: "RateLimitConfig \<Rightarrow> bool" where
  "valid_rate_limit rl \<longleftrightarrow> 0 \<le> rl_Rate rl \<and> 0 < rl_Window rl \<and> 0 \<le> rl_Burst rl
     \<and> rl_Algorithm rl \<in> {'''', ''token_bucket'', ''sliding_window''}"

definition valid_tier :: "string \<Rightarrow> TierConfig \<Rightarrow> bool" where
  "valid_tier name tc \<longleftrightarrow> tc_Name tc = name
     \<and> (\<forall>(r, n) \<in> set (tc_MonthlyQuotas tc). -1 \<le> n) \<and> (\<forall>(r, n) \<in> set (tc_DailyQuotas tc). -1 \<le> n)
     \<and> (\<forall>(r, n) \<in> set (tc_InitialForeverCredits tc). 0 \<le> n)
     \<and> (\<forall>(r, ts) \<in> set (tc_WarningThresholds tc). \<forall>t \<in> set ts. 0 \<le> t \<and> t \<le> 1)
     \<and> (\<forall>(r, rl) \<in> set (tc_RateLimits tc). valid_rate_limit rl)
     \<and> set (tc_ConsumptionOrder tc) \<subseteq> {PeriodTypeMonthly, PeriodTypeDaily, PeriodTypeForever}"

definition valid_config :: "Config \<Rightarrow> bool" where
  "valid_config c \<longleftrightarrow> c_DefaultTier c \<noteq> '''' \<and> tier_lookup c (c_DefaultTier c) \<noteq> None
     \<and> (\<forall>tiers. c_Tiers c = Some tiers \<longrightarrow> (\<forall>(name, tc) \<in> set tiers. valid_tier name tc))
     \<and> (\<forall>cc. c_CacheConfig c = Some cc \<and> cc_Enabled cc \<longrightarrow> 0 \<le> cc_EntitlementTTL cc
          \<and> 0 \<le> cc_UsageTTL cc \<and> 0 \<le> cc_MaxEntitlements cc \<and> 0 \<le> cc_MaxUsage cc)
     \<and> (\<forall>cb. c_CircuitBreakerConfig c = Some cb \<and> cb_Enabled cb \<longrightarrow>
          0 \<le> cb_FailureThreshold cb \<and> 0 \<le> cb_ResetTimeout cb)
     \<and> (\<forall>fb. c_FallbackConfig c = Some fb \<and> fb_Enabled fb \<longrightarrow>
          0 \<le> fb_OptimisticAllowancePercentage fb \<and> fb_OptimisticAllowancePercentage fb \<le> 100
          \<and> 0 \<le> fb_MaxStaleness fb)
     \<and> 0 \<le> c_IdempotencyKeyTTL c"

lemma fail_if_Nil [simp]: "fail_if b e = [] \<longleftrightarrow> \<not> b"
  by (simp add: fail_if_def)

lemma ball_enumerate: "(\<forall>p \<in> set (List.enumerate n xs). P (snd p)) \<longleftrightarrow> (\<forall>x \<in> set xs. P x)"
  by (induction xs arbitrary: n) auto

lemma validateTierConfig_Nil: "validateTierConfig name tc = [] \<longleftrightarrow> valid_tier name tc"
proof -
  have q: "validateQuotas name tc = [] \<longleftrightarrow> (\<forall>(r, n) \<in> set (tc_MonthlyQuotas tc). -1 \<le> n)
      \<and> (\<forall>(r, n) \<in> set (tc_DailyQuotas tc). -1 \<le> n) \<and> (\<forall>(r, n) \<in> set (tc_InitialForeverCredits tc). 0 \<le> n)"
    by (simp add: validateQuotas_def case_prod_unfold not_less)
  have w: "validateWarningThresholds name tc = [] \<longleftrightarrow>
      (\<forall>(r, ts) \<in> set (tc_WarningThresholds tc). \<forall>t \<in> set ts. 0 \<le> t \<and> t \<le> 1)"
    by (simp add: validateWarningThresholds_def case_prod_unfold not_less
        ball_enumerate [of _ _ "\<lambda>t. 0 \<le> t \<and> t \<le> 1"])
  have r: "validateRateLimits name tc = [] \<longleftrightarrow> (\<forall>(r, rl) \<in> set (tc_RateLimits tc). valid_rate_limit rl)"
    by (simp add: validateRateLimits_def valid_rate_limit_def algorithmTokenBucket_def
        algorithmSlidingWindow_def case_prod_unfold not_less not_le)
  have o: "validateConsumptionOrder name tc = [] \<longleftrightarrow>
      set (tc_ConsumptionOrder tc) \<subseteq> {PeriodTypeMonthly, PeriodTypeDaily, PeriodTypeForever}"
    using ball_enumerate [of 0 "tc_ConsumptionOrder tc"
        "\<lambda>t. t \<noteq> PeriodTypeMonthly \<longrightarrow> t \<noteq> PeriodTypeDaily \<longrightarrow> t = PeriodTypeForever"]
    by (auto simp: validateConsumptionOrder_def case_prod_unfold)
  show ?thesis
    using q w r o by (auto simp: validateTierConfig_def valid_tier_def)
qed

lemma Validate_Nil: "Validate c = [] \<longleftrightarrow> valid_config c"
proof -
  have d: "validateDefaultTier c = [] \<longleftrightarrow> c_DefaultTier c \<noteq> '''' \<and> tier_lookup c (c_DefaultTier c) \<noteq> None"
    by (simp add: validateDefaultTier_def tier_lookup_def split: option.split)
  have t: "(case c_Tiers c of None \<Rightarrow> [] | Some tiers \<Rightarrow> concat (map (\<lambda>(n, tc). validateTierConfig n tc) tiers)) = []
      \<longleftrightarrow> (\<forall>tiers. c_Tiers c = Some tiers \<longrightarrow> (\<forall>(name, tc) \<in> set tiers. valid_tier name tc))"
    by (simp add: validateTierConfig_Nil case_prod_unfold split: option.split)
  have cc: "validateCacheConfig c = [] \<longleftrightarrow> (\<forall>cc. c_CacheConfig c = Some cc \<and> cc_Enabled cc \<longrightarrow>
      0 \<le> cc_EntitlementTTL cc \<and> 0 \<le> cc_UsageTTL cc \<and> 0 \<le> cc_MaxEntitlements cc \<and> 0 \<le> cc_MaxUsage cc)"
    by (simp add: validateCacheConfig_def not_less split: option.split)
  have cb: "validateCircuitBreakerConfig c = [] \<longleftrightarrow> (\<forall>cb. c_CircuitBreakerConfig c = Some cb \<and> cb_Enabled cb \<longrightarrow>
      0 \<le> cb_FailureThreshold cb \<and> 0 \<le> cb_ResetTimeout cb)"
    by (simp add: validateCircuitBreakerConfig_def not_less split: option.split)
  have fb: "validateFallbackConfig c = [] \<longleftrightarrow> (\<forall>fb. c_FallbackConfig c = Some fb \<and> fb_Enabled fb \<longrightarrow>
      0 \<le> fb_OptimisticAllowancePercentage fb \<and> fb_OptimisticAllowancePercentage fb \<le> 100 \<and> 0 \<le> fb_MaxStaleness fb)"
    by (simp add: validateFallbackConfig_def not_less split: option.split)
  have i: "validateIdempotencyTTL c = [] \<longleftrightarrow> 0 \<le> c_IdempotencyKeyTTL c"
    by (simp add: validateIdempotencyTTL_def not_less)
  show ?thesis
    unfolding Validate_def valid_config_def append_is_Nil_conv d t cc cb fb i by blast
qed

text \<open>C40: Validate reports no error exactly for the configurations that satisfy every documented rule: a
  default tier that exists, tiers named as their keys, quotas of at least -1, thresholds in [0, 1],
  rate limits with a positive window, orders without PeriodTypeAuto, and non-negative settings.\<close>

theorem Validate_iff: "Validate c = [] \<longleftrightarrow> valid_config c"
  by (rule Validate_Nil)

text \<open>What the manager needs of a tier it looks up.\<close>

lemma valid_config_tier:
  assumes "valid_config c" "tier_lookup c t = Some tc"
  shows "valid_tier t tc"
  using assms by (auto simp: valid_config_def tier_lookup_def split: option.splits dest!: map_of_SomeD)

lemma valid_tier_quota:
  assumes "valid_tier t tc"
  shows "map_of (tc_MonthlyQuotas tc) r = Some n \<Longrightarrow> -1 \<le> n" "map_of (tc_DailyQuotas tc) r = Some n \<Longrightarrow> -1 \<le> n"
  using assms by (auto simp: valid_tier_def dest!: map_of_SomeD)

lemma valid_applyConfigDefaults:
  "valid_config c \<Longrightarrow> valid_config (applyConfigDefaults c)"
  by (auto simp: valid_config_def applyConfigDefaults_def tier_lookup_def ns_per_day_def)

end
