(* ===== verification/BillingCycle.thy ===== *)
theory BillingCycle
  imports GoTime
begin

text \<open>
  \<open>cycle.go\<close>: billing cycles anchored at the day of a subscription's start. The loop of
  \<open>CurrentCycleForStart\<close> is \<open>cycle_loop\<close>, which terminates because each pass moves the cycle by at
  least 28 days; \<open>nth_cycle\<close> is its closed form, from which the properties follow.
\<close>

definition startOfDayUTC :: "time \<Rightarrow> time" where
  "startOfDayUTC t = time_Date (time_Year t) (time_Month t) (time_Day t) 0 0 0 0"

definition addMonthsSafeWithDay :: "time \<Rightarrow> int \<Rightarrow> int \<Rightarrow> time" where
  "addMonthsSafeWithDay base months targetDay =
     (let year = time_Year base; month = time_Month base;
          targetDate = time_Date year (month + months) 1
            (time_Hour base) (time_Minute base) (time_Second base) (time_Nanosecond base);
          lastDay = time_Day (time_Date (time_Year targetDate) (time_Month targetDate + 1) 0 0 0 0 0);
          actualDay = (if targetDay > lastDay then lastDay else targetDay)
      in time_Date (time_Year targetDate) (time_Month targetDate) actualDay
            (time_Hour base) (time_Minute base) (time_Second base) (time_Nanosecond base))"

definition addMonthsSafe :: "time \<Rightarrow> int \<Rightarrow> time" where
  "addMonthsSafe t months =
     (let year = time_Year t; month = time_Month t; day = time_Day t;
          targetDate = time_Date year (month + months) 1
            (time_Hour t) (time_Minute t) (time_Second t) (time_Nanosecond t);
          lastDay = time_Day (time_Date (time_Year targetDate) (time_Month targetDate + 1) 0 0 0 0 0);
          actualDay = (if day > lastDay then lastDay else day)
      in time_Date (time_Year targetDate) (time_Month targetDate) actualDay
            (time_Hour t) (time_Minute t) (time_Second t) (time_Nanosecond t))"

lemma time_of_day_range: "0 \<le> t mod ns_per_day" "t mod ns_per_day < ns_per_day"
  by (simp_all add: ns_per_day_def)

lemma startOfDayUTC_eq: "startOfDayUTC t = day_of t * ns_per_day"
  using day_of_split(1) [of t] by (simp add: startOfDayUTC_def time_Date_def month_no_def)

lemma startOfDayUTC_le: "startOfDayUTC t \<le> t" "t < startOfDayUTC t + ns_per_day"
  using time_split [of t] time_of_day_range [of t] by (simp_all add: startOfDayUTC_eq)

lemma startOfDayUTC_idem [simp]: "startOfDayUTC (startOfDayUTC t) = startOfDayUTC t"
  by (simp add: startOfDayUTC_eq day_of_def ns_per_day_def)

text \<open>The last day of a month is read off day 0 of the next one.\<close>

lemma last_day_of_month:
  "time_Day (time_Date (time_Year t) (time_Month t + 1) 0 0 0 0 0) = days_in_month (month_no t)"
proof -
  have "time_Date (time_Year t) (time_Month t + 1) 0 0 0 0 0
    = (month_start (month_no t) + (days_in_month (month_no t) - 1)) * ns_per_day + 0"
    using month_start_Suc [of "month_no t"] by (simp add: time_Date_def month_no_def algebra_simps)
  then show ?thesis
    using date_fields(2) [of "days_in_month (month_no t)" "month_no t" 0] days_in_month_bounds [of "month_no t"]
    by (simp add: ns_per_day_def)
qed

lemma addMonthsSafeWithDay_eq:
  "addMonthsSafeWithDay base k d =
     (month_start (month_no base + k) + (min d (days_in_month (month_no base + k)) - 1)) * ns_per_day
     + base mod ns_per_day"
proof -
  define td where "td = time_Date (time_Year base) (time_Month base + k) 1
    (time_Hour base) (time_Minute base) (time_Second base) (time_Nanosecond base)"
  have td: "td = (month_start (month_no base + k) + (1 - 1)) * ns_per_day + base mod ns_per_day"
    unfolding td_def by (rule time_Date_split)
  have mo: "month_no td = month_no base + k"
    unfolding td using days_in_month_bounds [of "month_no base + k"] time_of_day_range
    by (intro date_fields) simp_all
  have ld: "time_Day (time_Date (time_Year td) (time_Month td + 1) 0 0 0 0 0) = days_in_month (month_no base + k)"
    unfolding last_day_of_month mo ..
  have "time_Date (time_Year td) (time_Month td) a (time_Hour base) (time_Minute base) (time_Second base)
      (time_Nanosecond base) = (month_start (month_no base + k) + (a - 1)) * ns_per_day + base mod ns_per_day" for a
  proof -
    have "12 * time_Year td + (time_Month td - 1) = month_no base + k"
      using mo by (simp add: month_no_def)
    then show ?thesis by (simp add: time_Date_def clock_split [of base, symmetric])
  qed
  then show ?thesis
    unfolding addMonthsSafeWithDay_def Let_def td_def [symmetric] ld by (simp add: min_def)
qed

lemma addMonthsSafe_WithDay: "addMonthsSafe t k = addMonthsSafeWithDay t k (time_Day t)"
  by (simp add: addMonthsSafe_def addMonthsSafeWithDay_def Let_def)

lemma addMonths_step:
  "addMonthsSafeWithDay s k d < addMonthsSafeWithDay s (k + 1) d" if "1 \<le> d"
proof -
  have "month_start (month_no s + k) + min d (days_in_month (month_no s + k)) - 1
    < month_start (month_no s + (k + 1)) + min d (days_in_month (month_no s + (k + 1))) - 1"
    using month_start_Suc [of "month_no s + k"] days_in_month_bounds(1) [of "month_no s + (k + 1)"] that
    by (simp add: add.assoc)
  then show ?thesis by (simp add: addMonthsSafeWithDay_eq ns_per_day_def)
qed

lemma addMonths_0: "addMonthsSafeWithDay s 0 (time_Day s) = s"
proof -
  have "addMonthsSafeWithDay s 0 (time_Day s) = day_of s * ns_per_day + s mod ns_per_day"
    using day_of_split [of s] by (simp add: addMonthsSafeWithDay_eq min_def)
  then show ?thesis using time_split [of s] by simp
qed

text \<open>The loop of \<open>CurrentCycleForStart\<close>; every pass moves the cycle by at least 28 days.\<close>

definition loop_bound :: "time \<Rightarrow> int \<Rightarrow> nat \<Rightarrow> time" where
  "loop_bound s d k = (month_start (month_no s + int k) + min d 28 - 1) * ns_per_day"

lemma loop_bound_Suc: "loop_bound s d k + 28 * ns_per_day \<le> loop_bound s d (Suc k)"
proof -
  have "month_start (month_no s + int k) + 28 \<le> month_start (month_no s + int (Suc k))"
    using month_start_Suc [of "month_no s + int k"] days_in_month_bounds(1) [of "month_no s + int k"]
    by (simp add: add.assoc add.commute [of 1])
  then have "(month_start (month_no s + int k) + 28 + min d 28 - 1) * ns_per_day \<le> loop_bound s d (Suc k)"
    unfolding loop_bound_def by (intro mult_right_mono) (simp_all add: ns_per_day_def)
  then show ?thesis by (simp add: loop_bound_def algebra_simps)
qed

lemma loop_bound_le: "loop_bound s d k \<le> addMonthsSafeWithDay s (int k) d"
proof -
  have "min d 28 \<le> min d (days_in_month (month_no s + int k))"
    using days_in_month_bounds(1) [of "month_no s + int k"] by auto
  then have "loop_bound s d k \<le> (month_start (month_no s + int k) + (min d (days_in_month (month_no s + int k)) - 1)) * ns_per_day"
    unfolding loop_bound_def by (intro mult_right_mono) (simp_all add: ns_per_day_def)
  then show ?thesis using time_of_day_range [of s] by (simp add: addMonthsSafeWithDay_eq)
qed

function cycle_loop :: "time \<Rightarrow> time \<Rightarrow> int \<Rightarrow> nat \<Rightarrow> time \<times> time" where
  "cycle_loop s n originalDay monthsElapsed =
     (let cycleStart = addMonthsSafeWithDay s (int monthsElapsed) originalDay;
          cycleEnd = addMonthsSafeWithDay s (int monthsElapsed + 1) originalDay
      in if cycleEnd > n then (cycleStart, cycleEnd)
         else cycle_loop s n originalDay (Suc monthsElapsed))"
  by pat_completeness auto
termination
proof (relation "measure (\<lambda>(s, n, d, k). nat (n - loop_bound s d k))", goal_cases)
  case (2 s n d k x xa)
  have "0 < 28 * ns_per_day" by (simp add: ns_per_day_def)
  with 2 loop_bound_Suc [of s d k] loop_bound_le [of s d "Suc k"] show ?case
    by (auto simp: add.commute [of 1])
qed simp

declare cycle_loop.simps [simp del]

definition CurrentCycleForStart :: "time \<Rightarrow> time \<Rightarrow> time \<times> time" where
  "CurrentCycleForStart start now =
     (let s = startOfDayUTC start; n = now in
      if n < s then (s, addMonthsSafe s 1)
      else cycle_loop s n (time_Day s) 0)"

lemma cycle_loop_result:
  assumes "cycle_loop s n d k = (a, b)" "addMonthsSafeWithDay s (int k) d \<le> n"
  shows "\<exists>j\<ge>k. a = addMonthsSafeWithDay s (int j) d \<and> b = addMonthsSafeWithDay s (int j + 1) d
    \<and> a \<le> n \<and> n < b"
  using assms
proof (induction s n d k rule: cycle_loop.induct)
  case (1 s n d k)
  show ?case
  proof (cases "addMonthsSafeWithDay s (int k + 1) d > n")
    case True
    with "1.prems" show ?thesis by (auto simp: cycle_loop.simps [of s n d k] Let_def)
  next
    case False
    with "1.prems"(1) have "cycle_loop s n d (Suc k) = (a, b)"
      by (simp add: cycle_loop.simps [of s n d k] Let_def)
    with "1.IH" [OF refl refl] False show ?thesis
      by (auto simp: add.commute [of 1] dest: Suc_leD)
  qed
qed

lemma addMonths_strict_mono:
  assumes "1 \<le> d" "j < k"
  shows "addMonthsSafeWithDay s (int j) d < addMonthsSafeWithDay s (int k) d"
  using assms(2)
proof (induction k)
  case (Suc k)
  then show ?case
    using addMonths_step [OF assms(1), of s "int k"] by (cases "j = k") (auto simp: add.commute [of 1])
qed simp

text \<open>The cycle of an instant: the index \<open>j\<close> of the month it started in is unique.\<close>

definition nth_cycle :: "time \<Rightarrow> nat \<Rightarrow> time" where
  "nth_cycle start j = addMonthsSafeWithDay (startOfDayUTC start) (int j) (time_Day (startOfDayUTC start))"

lemma nth_cycle_0 [simp]: "nth_cycle start 0 = startOfDayUTC start"
  using addMonths_0 by (simp add: nth_cycle_def)

lemma nth_cycle_less: "j < k \<Longrightarrow> nth_cycle start j < nth_cycle start k"
  unfolding nth_cycle_def by (rule addMonths_strict_mono) (simp_all add: day_of_split)

lemma nth_cycle_le: "j \<le> k \<Longrightarrow> nth_cycle start j \<le> nth_cycle start k"
  using nth_cycle_less [of j k start] by (cases "j = k") auto

lemma nth_cycle_unique:
  assumes "nth_cycle start j \<le> n" "n < nth_cycle start (Suc j)"
    and "nth_cycle start k \<le> n" "n < nth_cycle start (Suc k)"
  shows "j = k"
proof (rule ccontr)
  assume "j \<noteq> k"
  then have "Suc j \<le> k \<or> Suc k \<le> j" by auto
  then show False
    using nth_cycle_le [of "Suc j" k start] nth_cycle_le [of "Suc k" j start] assms by auto
qed

lemma CurrentCycle_cases:
  obtains "now < startOfDayUTC start" "CurrentCycleForStart start now = (nth_cycle start 0, nth_cycle start 1)"
  | j where "startOfDayUTC start \<le> now" "nth_cycle start j \<le> now" "now < nth_cycle start (Suc j)"
      "CurrentCycleForStart start now = (nth_cycle start j, nth_cycle start (Suc j))"
proof (cases "now < startOfDayUTC start")
  case True
  then show ?thesis
    using that(1) by (simp add: CurrentCycleForStart_def addMonthsSafe_WithDay nth_cycle_def addMonths_0 Let_def)
next
  case False
  obtain a b where ab: "cycle_loop (startOfDayUTC start) now (time_Day (startOfDayUTC start)) 0 = (a, b)"
    by fastforce
  from cycle_loop_result [OF this] obtain j where
    "a = nth_cycle start j" "b = nth_cycle start (Suc j)" "a \<le> now" "now < b"
    using False by (auto simp: nth_cycle_def addMonths_0 add.commute [of 1])
  with False ab that(2) show ?thesis by (simp add: CurrentCycleForStart_def Let_def)
qed

lemma CurrentCycle_eq:
  assumes "nth_cycle start j \<le> now" "now < nth_cycle start (Suc j)"
  shows "CurrentCycleForStart start now = (nth_cycle start j, nth_cycle start (Suc j))"
proof (rule CurrentCycle_cases [of now start])
  assume "now < startOfDayUTC start"
  with nth_cycle_le [of 0 j start] assms have False by simp
  then show ?thesis ..
next
  fix k assume k: "nth_cycle start k \<le> now" "now < nth_cycle start (Suc k)"
    and eq: "CurrentCycleForStart start now = (nth_cycle start k, nth_cycle start (Suc k))"
  from nth_cycle_unique [OF assms k] eq show ?thesis by simp
qed

lemma nth_cycle_day:
  "time_Day (nth_cycle start j) = min (time_Day start) (days_in_month (month_no start + int j))"
  "month_no (nth_cycle start j) = month_no start + int j"
  "nth_cycle start j mod ns_per_day = 0"
proof -
  define s where "s = startOfDayUTC start"
  have s0: "s mod ns_per_day = 0" and sd: "day_of s = day_of start"
    by (simp_all add: s_def startOfDayUTC_eq day_of_def ns_per_day_def)
  have sm: "month_no s = month_no start" "time_Day s = time_Day start"
    using month_no_civil [of s] month_no_civil [of start] sd by simp_all
  define d where "d = min (time_Day start) (days_in_month (month_no start + int j))"
  have eq: "nth_cycle start j = (month_start (month_no start + int j) + (d - 1)) * ns_per_day + 0"
    by (simp add: nth_cycle_def addMonthsSafeWithDay_eq s0 sm d_def flip: s_def)
  have "1 \<le> d" "d \<le> days_in_month (month_no start + int j)"
    using day_of_split(2) [of start] days_in_month_bounds(1) [of "month_no start + int j"] by (simp_all add: d_def)
  note df = date_fields [OF this, of 0]
  show "time_Day (nth_cycle start j) = min (time_Day start) (days_in_month (month_no start + int j))"
    "month_no (nth_cycle start j) = month_no start + int j" "nth_cycle start j mod ns_per_day = 0"
    unfolding eq using df by (simp_all add: d_def ns_per_day_def)
qed

section \<open>Properties\<close>

text \<open>C31: From the first day of a subscription on, the current cycle contains the present instant: it
  starts at or before it and ends strictly after it.\<close>

theorem cycle_contains_now:
  assumes "startOfDayUTC start \<le> now" "CurrentCycleForStart start now = (cycleStart, cycleEnd)"
  shows "cycleStart \<le> now \<and> now < cycleEnd"
  using assms by (cases rule: CurrentCycle_cases [of now start]) auto

text \<open>C32: Cycles partition time: every instant inside the current cycle gets the same cycle, and the
  instant it ends at is the start of the next one, without gap or overlap.\<close>

theorem cycle_next:
  assumes "startOfDayUTC start \<le> now" "CurrentCycleForStart start now = (cycleStart, cycleEnd)"
    and "cycleStart \<le> t" "t < cycleEnd"
  shows "CurrentCycleForStart start t = (cycleStart, cycleEnd)
    \<and> fst (CurrentCycleForStart start cycleEnd) = cycleEnd"
proof (cases rule: CurrentCycle_cases [of now start])
  case (2 j)
  with assms have ab: "cycleStart = nth_cycle start j" "cycleEnd = nth_cycle start (Suc j)" by simp_all
  show ?thesis
    using CurrentCycle_eq [of start j t] CurrentCycle_eq [of start "Suc j" cycleEnd]
      nth_cycle_less [of "Suc j" "Suc (Suc j)" start] assms(3,4) by (simp add: ab)
qed (use assms in auto)

text \<open>Both ends of a cycle fall on the day of the month the subscription started on, or on the last
  day of a shorter month, and the end is one calendar month after the start: a cycle clipped by a
  short month goes back to the anchor day in the next long one.\<close>

theorem cycle_anchor:
  assumes "CurrentCycleForStart start now = (cycleStart, cycleEnd)"
  shows "time_Day cycleStart = min (time_Day start) (days_in_month (month_no cycleStart))
    \<and> time_Day cycleEnd = min (time_Day start) (days_in_month (month_no cycleEnd))
    \<and> month_no cycleEnd = month_no cycleStart + 1"
  using assms by (cases rule: CurrentCycle_cases [of now start]) (auto simp: nth_cycle_day simp del: nth_cycle_0)

text \<open>A subscription of 31 January 2023, at 1 March 2023.\<close>

theorem cycle_contains_now_witness:
  "let (a, b) = CurrentCycleForStart (time_Date 2023 1 31 10 0 0 0) (time_Date 2023 3 1 5 0 0 0)
   in a \<le> time_Date 2023 3 1 5 0 0 0 \<and> time_Date 2023 3 1 5 0 0 0 < b"
proof -
  let ?c = "CurrentCycleForStart (time_Date 2023 1 31 10 0 0 0) (time_Date 2023 3 1 5 0 0 0)"
  have "startOfDayUTC (time_Date 2023 1 31 10 0 0 0) \<le> time_Date 2023 3 1 5 0 0 0" by code_simp
  from cycle_contains_now [OF this, of "fst ?c" "snd ?c"] show ?thesis
    by (simp add: case_prod_unfold)
qed

theorem cycle_next_witness:
  "CurrentCycleForStart (time_Date 2023 1 31 10 0 0 0) (time_Date 2023 3 30 23 0 0 0)
     = (time_Date 2023 2 28 0 0 0 0, time_Date 2023 3 31 0 0 0 0)
   \<and> fst (CurrentCycleForStart (time_Date 2023 1 31 10 0 0 0) (time_Date 2023 3 31 0 0 0 0))
     = time_Date 2023 3 31 0 0 0 0"
proof -
  have h: "startOfDayUTC (time_Date 2023 1 31 10 0 0 0) \<le> time_Date 2023 3 1 5 0 0 0"
    "CurrentCycleForStart (time_Date 2023 1 31 10 0 0 0) (time_Date 2023 3 1 5 0 0 0)
      = (time_Date 2023 2 28 0 0 0 0, time_Date 2023 3 31 0 0 0 0)"
    "time_Date 2023 2 28 0 0 0 0 \<le> time_Date 2023 3 30 23 0 0 0"
    "time_Date 2023 3 30 23 0 0 0 < time_Date 2023 3 31 0 0 0 0"
    by code_simp+
  show ?thesis by (rule cycle_next [OF h])
qed

theorem cycle_anchor_witness:
  "time_Day (time_Date 2023 2 28 0 0 0 0) = min (time_Day (time_Date 2023 1 31 10 0 0 0)) 28
    \<and> month_no (time_Date 2023 3 31 0 0 0 0) = month_no (time_Date 2023 2 28 0 0 0 0) + 1"
proof -
  have "CurrentCycleForStart (time_Date 2023 1 31 10 0 0 0) (time_Date 2023 3 1 5 0 0 0)
      = (time_Date 2023 2 28 0 0 0 0, time_Date 2023 3 31 0 0 0 0)"
    by code_simp
  moreover have "days_in_month (month_no (time_Date 2023 2 28 0 0 0 0)) = 28" by code_simp
  ultimately show ?thesis using cycle_anchor [of "time_Date 2023 1 31 10 0 0 0"] by metis
qed

end
