(* ===== verification/StorageApi.thy ===== *)
theory StorageApi
  imports QuotaTypes
begin

text \<open>
  The \<open>Storage\<close> interface of \<open>storage.go\<close> and its optional companions \<open>TimeSource\<close> and
  \<open>AuditLogger\<close>, as a record of operations over a state \<open>'s\<close> (the method table of the Go
  interface value), and the contract the clients rely on: an abstract ledger and the locale
  \<open>quota_store\<close>, whose laws say that the operations refine the ledger.

  Every operation takes the clock reading of its call (\<open>time.Now()\<close>) as its first argument and
  returns its result with the new state. \<open>ctx\<close> is left out: no modelled backend reads it. An
  operation with a value and an error is a sum; \<open>ConsumeQuota\<close> returns both at once (the current
  usage together with \<open>ErrQuotaExceeded\<close>), so it returns a pair.
\<close>

record 's Storage =
  st_GetEntitlement :: "time \<Rightarrow> string \<Rightarrow> 's \<Rightarrow> (goerr + Entitlement) \<times> 's"
  st_SetEntitlement :: "time \<Rightarrow> Entitlement \<Rightarrow> 's \<Rightarrow> goerr option \<times> 's"
  st_GetUsage :: "time \<Rightarrow> string \<Rightarrow> string \<Rightarrow> Period \<Rightarrow> 's \<Rightarrow> (goerr + Usage option) \<times> 's"
  st_ConsumeQuota :: "time \<Rightarrow> ConsumeRequest \<Rightarrow> 's \<Rightarrow> (goint \<times> goerr option) \<times> 's"
  st_ApplyTierChange :: "time \<Rightarrow> TierChangeRequest \<Rightarrow> 's \<Rightarrow> goerr option \<times> 's"
  st_SetUsage :: "time \<Rightarrow> string \<Rightarrow> string \<Rightarrow> Usage \<Rightarrow> Period \<Rightarrow> 's \<Rightarrow> goerr option \<times> 's"
  st_RefundQuota :: "time \<Rightarrow> RefundRequest \<Rightarrow> 's \<Rightarrow> goerr option \<times> 's"
  st_GetRefundRecord :: "time \<Rightarrow> string \<Rightarrow> 's \<Rightarrow> (goerr + RefundRecord option) \<times> 's"
  st_GetConsumptionRecord :: "time \<Rightarrow> string \<Rightarrow> 's \<Rightarrow> (goerr + ConsumptionRecord option) \<times> 's"
  st_CheckRateLimit :: "time \<Rightarrow> RateLimitRequest \<Rightarrow> 's \<Rightarrow> (goerr + bool \<times> goint \<times> time) \<times> 's"
  st_RecordRateLimitRequest :: "time \<Rightarrow> RateLimitRequest \<Rightarrow> 's \<Rightarrow> goerr option \<times> 's"
  st_AddLimit :: "time \<Rightarrow> string \<Rightarrow> string \<Rightarrow> goint \<Rightarrow> Period \<Rightarrow> string \<Rightarrow> 's \<Rightarrow> goerr option \<times> 's"
  st_SubtractLimit :: "time \<Rightarrow> string \<Rightarrow> string \<Rightarrow> goint \<Rightarrow> Period \<Rightarrow> string \<Rightarrow> 's \<Rightarrow> goerr option \<times> 's"
  st_Now :: "(time \<Rightarrow> 's \<Rightarrow> (goerr + time) \<times> 's) option"
  st_LogAuditEntry :: "(AuditLogEntry \<Rightarrow> 's \<Rightarrow> goerr option \<times> 's) option"
  st_GetAuditLogs :: "(AuditLogFilter \<Rightarrow> 's \<Rightarrow> (goerr + AuditLogEntry list) \<times> 's) option"

section \<open>The abstract ledger\<close>

text \<open>
  What the interface promises about quota, per bucket \<open>'b\<close> (a user, resource and period): the
  used amount and the limit of its record, if there is one, the results of the consumptions
  with an idempotency key, and the keys of refunds and top-ups already processed.
\<close>

record 'b ledger =
  lg_acct :: "'b \<rightharpoonup> goint \<times> goint"
  lg_done :: "string \<rightharpoonup> goint"
  lg_refunds :: "string \<Rightarrow> bool"
  lg_topUps :: "string \<Rightarrow> bool"

definition lg_used :: "'b ledger \<Rightarrow> 'b \<Rightarrow> goint" where
  "lg_used l b = (case lg_acct l b of None \<Rightarrow> 0 | Some (u, _) \<Rightarrow> u)"

definition keyed :: "string \<Rightarrow> ('a option) \<Rightarrow> 'a option" where
  "keyed key r = (if key = '''' then None else r)"

definition spec_consume ::
  "'b \<Rightarrow> ConsumeRequest \<Rightarrow> 'b ledger \<Rightarrow> (goint \<times> goerr option) \<times> 'b ledger" where
  "spec_consume b q l =
     (if cq_Amount q < 0 then ((0, Some ErrInvalidAmount), l)
      else if cq_Amount q = 0 then ((0, None), l)
      else case keyed (cq_IdempotencyKey q) (lg_done l (cq_IdempotencyKey q)) of
        Some n \<Rightarrow> ((n, None), l)
      | None \<Rightarrow>
         let newUsed = iadd (lg_used l b) (cq_Amount q) in
         if cq_Limit q \<noteq> -1 \<and> newUsed > cq_Limit q then ((lg_used l b, Some ErrQuotaExceeded), l)
         else ((newUsed, None),
               l\<lparr>lg_acct := (lg_acct l)(b \<mapsto> (newUsed, cq_Limit q)),
                 lg_done := (if cq_IdempotencyKey q = '''' then lg_done l
                             else (lg_done l)(cq_IdempotencyKey q \<mapsto> newUsed))\<rparr>))"

definition spec_refund :: "'b \<Rightarrow> RefundRequest \<Rightarrow> 'b ledger \<Rightarrow> goerr option \<times> 'b ledger" where
  "spec_refund b q l =
     (if rr_Amount q < 0 then (Some ErrInvalidAmount, l)
      else if rr_Amount q = 0 then (None, l)
      else if rr_IdempotencyKey q \<noteq> '''' \<and> lg_refunds l (rr_IdempotencyKey q) then (None, l)
      else case lg_acct l b of
        None \<Rightarrow> (None, l)
      | Some (u, lmt) \<Rightarrow>
         (None, l\<lparr>lg_acct := (lg_acct l)(b \<mapsto> (max 0 (isub u (rr_Amount q)), lmt)),
                  lg_refunds := (\<lambda>k. lg_refunds l k \<or> k \<noteq> '''' \<and> k = rr_IdempotencyKey q)\<rparr>))"

definition spec_add :: "'b \<Rightarrow> goint \<Rightarrow> string \<Rightarrow> 'b ledger \<Rightarrow> goerr option \<times> 'b ledger" where
  "spec_add b amount key l =
     (if key \<noteq> '''' \<and> lg_topUps l key then (Some ErrIdempotencyKeyExists, l)
      else (None, l\<lparr>lg_acct := (lg_acct l)(b \<mapsto>
              (case lg_acct l b of None \<Rightarrow> (0, amount) | Some (u, lmt) \<Rightarrow> (u, iadd lmt amount))),
            lg_topUps := (\<lambda>k. lg_topUps l k \<or> k \<noteq> '''' \<and> k = key)\<rparr>))"

definition spec_subtract :: "'b \<Rightarrow> goint \<Rightarrow> string \<Rightarrow> 'b ledger \<Rightarrow> goerr option \<times> 'b ledger" where
  "spec_subtract b amount key l =
     (if key \<noteq> '''' \<and> lg_refunds l key then (Some ErrIdempotencyKeyExists, l)
      else (None, l\<lparr>lg_acct := (case lg_acct l b of None \<Rightarrow> lg_acct l
              | Some (u, lmt) \<Rightarrow> (lg_acct l)(b \<mapsto> (u, max 0 (isub lmt amount)))),
            lg_refunds := (\<lambda>k. lg_refunds l k \<or> k \<noteq> '''' \<and> k = key)\<rparr>))"

section \<open>The contract of a storage\<close>

text \<open>
  \<open>bucket\<close> is the record an operation works on, \<open>view\<close> reads the ledger off the state. A client
  proves its lemmas from the two laws; a backend proves the laws once.
\<close>

locale quota_store =
  fixes consume :: "time \<Rightarrow> ConsumeRequest \<Rightarrow> 's \<Rightarrow> (goint \<times> goerr option) \<times> 's"
    and bucket :: "string \<Rightarrow> string \<Rightarrow> Period \<Rightarrow> 'b"
    and view :: "'s \<Rightarrow> 'b ledger"
  assumes consume_refines:
    "spec_consume (bucket (cq_UserID q) (cq_Resource q) (cq_Period q)) q (view s)
       = (fst (consume now q s), view (snd (consume now q s)))"
begin

definition bucket_of :: "ConsumeRequest \<Rightarrow> 'b" where
  "bucket_of q = bucket (cq_UserID q) (cq_Resource q) (cq_Period q)"

lemma consume_result: "fst (consume now q s) = fst (spec_consume (bucket_of q) q (view s))"
  using consume_refines [of q s now] by (simp add: bucket_of_def)

lemma consume_view: "view (snd (consume now q s)) = snd (spec_consume (bucket_of q) q (view s))"
  using consume_refines [of q s now] by (simp add: bucket_of_def)

text \<open>A request that is refused leaves the ledger as it was.\<close>

lemma refused_unchanged:
  assumes "snd (fst (consume now q s)) \<noteq> None"
  shows "view (snd (consume now q s)) = view s"
  using assms unfolding consume_result consume_view
  by (auto simp: spec_consume_def Let_def keyed_def split: option.splits if_splits)

text \<open>The limit holds whatever the arithmetic does.\<close>

lemma accepted_within_limit:
  assumes "fst (consume now q s) = (n, None)" "0 < cq_Amount q" "cq_Limit q \<noteq> -1"
    and "keyed (cq_IdempotencyKey q) (lg_done (view s) (cq_IdempotencyKey q)) = None"
  shows "n \<le> cq_Limit q \<and> lg_used (view (snd (consume now q s))) (bucket_of q) = n"
  using assms unfolding consume_result consume_view
  by (auto simp: spec_consume_def Let_def lg_used_def split: if_splits)

lemma accepted_adds:
  assumes "fst (consume now q s) = (n, None)" "0 < cq_Amount q"
    and "keyed (cq_IdempotencyKey q) (lg_done (view s) (cq_IdempotencyKey q)) = None"
    and "int64_ok (lg_used (view s) (bucket_of q) + cq_Amount q)"
  shows "n = lg_used (view s) (bucket_of q) + cq_Amount q"
  using assms unfolding consume_result
  by (auto simp: spec_consume_def Let_def go_int split: if_splits)

lemma other_bucket:
  assumes "b \<noteq> bucket_of q"
  shows "lg_acct (view (snd (consume now q s))) b = lg_acct (view s) b"
  using assms unfolding consume_view
  by (auto simp: spec_consume_def Let_def split: option.splits)

text \<open>A second call with the same key returns the first result and changes nothing.\<close>

lemma replay:
  assumes "fst (consume now q s) = (n, None)" "0 < cq_Amount q" "cq_IdempotencyKey q \<noteq> ''''"
    and "s' = snd (consume now q s)" "cq_IdempotencyKey q' = cq_IdempotencyKey q" "0 < cq_Amount q'"
  shows "fst (consume now' q' s') = (n, None) \<and> view (snd (consume now' q' s')) = view s'"
proof -
  have "lg_done (view s') (cq_IdempotencyKey q) = Some n"
    using assms(1-4) unfolding consume_result
    by (auto simp: consume_view spec_consume_def Let_def keyed_def split: option.splits if_splits)
  then show ?thesis
    using assms(3,5,6) by (simp add: consume_result consume_view spec_consume_def keyed_def)
qed

text \<open>A run of requests: the results in order and the last state.\<close>

fun run :: "(time \<times> ConsumeRequest) list \<Rightarrow> 's \<Rightarrow> (goint \<times> goerr option) list \<times> 's" where
  "run [] s = ([], s)"
| "run ((now, q) # qs) s =
     (let (r, s1) = consume now q s; (rs, s2) = run qs s1 in (r # rs, s2))"

text \<open>The accepted amounts of a run.\<close>

fun accepted :: "(time \<times> ConsumeRequest) list \<Rightarrow> (goint \<times> goerr option) list \<Rightarrow> goint" where
  "accepted ((_, q) # qs) ((_, e) # rs) = (if e = None then cq_Amount q else 0) + accepted qs rs"
| "accepted _ _ = 0"

text \<open>
  Without keys, and with one limit in range for all requests, the used amount after any run is
  the amount before it plus what was accepted, and never passes the limit.
\<close>

lemma run_exact:
  assumes "\<forall>(now, q) \<in> set qs. bucket_of q = b \<and> 0 < cq_Amount q \<and> cq_IdempotencyKey q = ''''
      \<and> cq_Limit q = lmt \<and> cq_Amount q < 2 ^ 62"
    and "0 \<le> lmt" "lmt < 2 ^ 62" "0 \<le> lg_used (view s) b" "lg_used (view s) b \<le> lmt"
    and "run qs s = (rs, s')"
  shows "lg_used (view s') b = lg_used (view s) b + accepted qs rs \<and> lg_used (view s') b \<le> lmt"
  using assms
proof (induction qs arbitrary: s rs)
  case Nil
  then show ?case by simp
next
  case (Cons nq qs)
  obtain now q where nq: "nq = (now, q)" by fastforce
  obtain r s1 where c: "consume now q s = (r, s1)" by fastforce
  obtain rs' where rs: "run qs s1 = (rs', s')" "rs = r # rs'"
    using Cons.prems(6) c by (auto simp: nq split: prod.splits)
  let ?u = "lg_used (view s) b"
  have q: "bucket_of q = b" "0 < cq_Amount q" "cq_IdempotencyKey q = ''''" "cq_Limit q = lmt"
    "cq_Amount q < 2 ^ 62"
    using Cons.prems(1) nq by auto
  have ok: "iadd ?u (cq_Amount q) = ?u + cq_Amount q"
    using q Cons.prems(2-5) by (intro iadd_id) (simp add: int64_ok_def)
  have "(r, view s1) = spec_consume b q (view s)"
    using consume_refines [of q s now] c q(1) by (simp add: bucket_of_def)
  then have step: "lg_used (view s1) b = ?u + (if snd r = None then cq_Amount q else 0)
      \<and> lg_used (view s1) b \<le> lmt \<and> 0 \<le> lg_used (view s1) b"
    using q Cons.prems(2,4,5) ok
    by (auto simp: spec_consume_def keyed_def Let_def lg_used_def split: if_splits)
  with Cons.IH [OF _ Cons.prems(2,3) _ _ rs(1)] Cons.prems(1)
  have "lg_used (view s') b = lg_used (view s1) b + accepted qs rs' \<and> lg_used (view s') b \<le> lmt"
    by auto
  then show ?case using step by (cases r) (auto simp: nq rs(2))
qed

end

text \<open>Refunds and credit limits extend the contract.\<close>

locale credit_store = quota_store consume bucket view
  for consume :: "time \<Rightarrow> ConsumeRequest \<Rightarrow> 's \<Rightarrow> (goint \<times> goerr option) \<times> 's"
    and bucket :: "string \<Rightarrow> string \<Rightarrow> Period \<Rightarrow> 'b"
    and view :: "'s \<Rightarrow> 'b ledger" +
  fixes refund :: "time \<Rightarrow> RefundRequest \<Rightarrow> 's \<Rightarrow> goerr option \<times> 's"
    and addLimit :: "time \<Rightarrow> string \<Rightarrow> string \<Rightarrow> goint \<Rightarrow> Period \<Rightarrow> string \<Rightarrow> 's \<Rightarrow> goerr option \<times> 's"
    and subtractLimit :: "time \<Rightarrow> string \<Rightarrow> string \<Rightarrow> goint \<Rightarrow> Period \<Rightarrow> string \<Rightarrow> 's \<Rightarrow> goerr option \<times> 's"
  assumes refund_refines: "p_Start (rr_Period rq) \<noteq> zero_time \<Longrightarrow>
      spec_refund (bucket (rr_UserID rq) (rr_Resource rq) (rr_Period rq)) rq (view s)
        = (fst (refund now rq s), view (snd (refund now rq s)))"
    and add_refines: "spec_add (bucket u r p) amount key (view s)
        = (fst (addLimit now u r amount p key s), view (snd (addLimit now u r amount p key s)))"
    and subtract_refines: "spec_subtract (bucket u r p) amount key (view s)
        = (fst (subtractLimit now u r amount p key s), view (snd (subtractLimit now u r amount p key s)))"
begin

lemma refund_result:
  "p_Start (rr_Period rq) \<noteq> zero_time \<Longrightarrow>
    fst (refund now rq s) = fst (spec_refund (bucket (rr_UserID rq) (rr_Resource rq) (rr_Period rq)) rq (view s))"
  and refund_view:
  "p_Start (rr_Period rq) \<noteq> zero_time \<Longrightarrow>
    view (snd (refund now rq s)) = snd (spec_refund (bucket (rr_UserID rq) (rr_Resource rq) (rr_Period rq)) rq (view s))"
  using refund_refines [of rq s now] by simp_all

lemma add_result: "fst (addLimit now u r amount p key s) = fst (spec_add (bucket u r p) amount key (view s))"
  and add_view: "view (snd (addLimit now u r amount p key s)) = snd (spec_add (bucket u r p) amount key (view s))"
  using add_refines [of u r p amount key s now] by simp_all

lemma subtract_result:
  "fst (subtractLimit now u r amount p key s) = fst (spec_subtract (bucket u r p) amount key (view s))"
  and subtract_view:
  "view (snd (subtractLimit now u r amount p key s)) = snd (spec_subtract (bucket u r p) amount key (view s))"
  using subtract_refines [of u r p amount key s now] by simp_all

lemmas views = refund_result refund_view add_result add_view subtract_result subtract_view

text \<open>Refunding what was just consumed gives the used amount back.\<close>

lemma consume_refund:
  assumes q: "fst (consume now q s) = (n, None)" "0 < cq_Amount q"
      "keyed (cq_IdempotencyKey q) (lg_done (view s) (cq_IdempotencyKey q)) = None"
    and rq: "rr_UserID rq = cq_UserID q" "rr_Resource rq = cq_Resource q" "rr_Period rq = cq_Period q"
      "rr_Amount rq = cq_Amount q" "p_Start (cq_Period q) \<noteq> zero_time"
      "rr_IdempotencyKey rq = '''' \<or> \<not> lg_refunds (view s) (rr_IdempotencyKey rq)"
    and rng: "0 \<le> lg_used (view s) (bucket_of q)" "int64_ok (lg_used (view s) (bucket_of q) + cq_Amount q)"
  shows "fst (refund now' rq (snd (consume now q s))) = None
    \<and> lg_used (view (snd (refund now' rq (snd (consume now q s))))) (bucket_of q) = lg_used (view s) (bucket_of q)"
proof -
  let ?s = "snd (consume now q s)"
  let ?u = "lg_used (view s) (bucket_of q)"
  have acct: "lg_acct (view ?s) (bucket_of q) = Some (?u + cq_Amount q, cq_Limit q)"
    and refs: "lg_refunds (view ?s) = lg_refunds (view s)"
    using q rng unfolding consume_result
    by (auto simp: consume_view spec_consume_def Let_def go_int split: if_splits)
  have "int64_ok ?u" using rng q(2) by (simp add: int64_ok_def)
  then have "isub (?u + cq_Amount q) (cq_Amount q) = ?u" by (simp add: isub_id)
  moreover have "bucket (cq_UserID q) (cq_Resource q) (cq_Period q) = bucket_of q"
    by (simp add: bucket_of_def)
  moreover have "fst (refund now' rq ?s) = None"
    using rq acct refs q(2) by (auto simp: views spec_refund_def bucket_of_def split: option.splits)
  moreover have "lg_acct (view (snd (refund now' rq ?s))) (bucket_of q)
      = Some (max 0 (isub (?u + cq_Amount q) (cq_Amount q)), cq_Limit q)"
    using rq acct refs q(2) by (auto simp: views spec_refund_def bucket_of_def)
  ultimately show ?thesis using rng(1) by (simp add: lg_used_def)
qed

lemma refund_not_negative:
  assumes "p_Start (rr_Period rq) \<noteq> zero_time"
    and "0 \<le> lg_used (view s) b"
  shows "0 \<le> lg_used (view (snd (refund now rq s))) b"
  using assms
  by (auto simp: views spec_refund_def lg_used_def split: if_splits option.splits)

text \<open>A top-up with a key counts once.\<close>

lemma add_once:
  assumes "key \<noteq> ''''" "fst (addLimit now u r amount p key s) = None"
  shows "fst (addLimit now' u' r' amount' p' key (snd (addLimit now u r amount p key s))) = Some ErrIdempotencyKeyExists
    \<and> view (snd (addLimit now' u' r' amount' p' key (snd (addLimit now u r amount p key s))))
      = view (snd (addLimit now u r amount p key s))"
  using assms by (auto simp: views spec_add_def split: if_splits)

lemma add_subtract:
  assumes "fst (addLimit now u r amount p k s) = None" "lg_acct (view s) (bucket u r p) = Some (us, lmt)"
    and "k' = '''' \<or> \<not> lg_refunds (view s) k'" "0 \<le> lmt" "0 \<le> amount" "int64_ok (lmt + amount)"
  shows "lg_acct (view (snd (subtractLimit now' u r amount p k' (snd (addLimit now u r amount p k s))))) (bucket u r p)
    = Some (us, lmt)"
proof -
  have "int64_ok lmt" using assms(4-6) by (simp add: int64_ok_def)
  then have "isub (iadd lmt amount) amount = lmt" using assms(6) by (simp add: go_int)
  then show ?thesis
    using assms by (auto simp: views spec_add_def spec_subtract_def split: if_splits)
qed

end

text \<open>
  A whole backend, as the manager uses it: consumption refines the ledger, the reads answer from
  it, and neither they nor the rate limiter and the clock change it.
\<close>

locale quota_backend = quota_store "st_ConsumeQuota st" bucket view
  for st :: "'s Storage"
    and bucket :: "string \<Rightarrow> string \<Rightarrow> Period \<Rightarrow> 'b"
    and view :: "'s \<Rightarrow> 'b ledger" +
  assumes GetEntitlement_view: "view (snd (st_GetEntitlement st now u s)) = view s"
    and GetUsage_view: "view (snd (st_GetUsage st now u r p s)) = view s"
    and GetUsage_result: "\<exists>uo. fst (st_GetUsage st now u r p s) = Inr uo
        \<and> map_option (\<lambda>x. (u_Used x, u_Limit x)) uo = lg_acct (view s) (bucket u r p)"
    and GetConsumptionRecord_view: "view (snd (st_GetConsumptionRecord st now key s)) = view s"
    and GetConsumptionRecord_result: "\<exists>ro. fst (st_GetConsumptionRecord st now key s) = Inr ro
        \<and> map_option cn_NewUsed ro = lg_done (view s) key"
    and CheckRateLimit_view: "view (snd (st_CheckRateLimit st now rq s)) = view s"
    and RecordRateLimitRequest_view: "view (snd (st_RecordRateLimitRequest st now rq s)) = view s"
    and Now_view: "st_Now st = Some f \<Longrightarrow> view (snd (f now s)) = view s"

end
