(* ===== verification/CircuitBreaker.thy ===== *)
theory CircuitBreaker
  imports StorageApi
begin

text \<open>
  \<open>circuit_breaker.go\<close> and \<open>circuit_breaker_storage.go\<close>: the breaker's state and methods, the
  wrapper that runs every storage call through \<open>Execute\<close>, and a step relation for callers that
  interleave.

  \<open>Execute\<close> is three critical sections (\<open>State\<close>, then the call outside the lock, then \<open>Success\<close>
  or \<open>Failure\<close>); \<open>cb_Execute\<close> composes them for one caller, and \<open>cb_step\<close> lets other callers
  move between them. The \<open>onStateChange\<close> calls are kept in \<open>cbr_events\<close>, newest first. A panic
  of the call passes through \<open>Execute\<close> without reaching \<open>Failure\<close>.
\<close>

record CircuitBreaker =
  cbr_state :: CircuitBreakerState
  cbr_failureThreshold :: goint
  cbr_resetTimeout :: duration
  cbr_consecutiveFailures :: goint
  cbr_lastFailureTime :: time
  cbr_events :: "CircuitBreakerState list"

definition NewDefaultCircuitBreaker :: "goint \<Rightarrow> duration \<Rightarrow> CircuitBreaker" where
  "NewDefaultCircuitBreaker failureThreshold resetTimeout =
     \<lparr>cbr_state = StateClosed, cbr_failureThreshold = failureThreshold,
      cbr_resetTimeout = resetTimeout, cbr_consecutiveFailures = 0,
      cbr_lastFailureTime = zero_time, cbr_events = []\<rparr>"

definition currentState :: "time \<Rightarrow> CircuitBreaker \<Rightarrow> CircuitBreakerState" where
  "currentState now cb =
     (if cbr_state cb = StateOpen \<and> time_Sub now (cbr_lastFailureTime cb) \<ge> cbr_resetTimeout cb
      then StateHalfOpen else cbr_state cb)"

definition changeState :: "CircuitBreakerState \<Rightarrow> CircuitBreaker \<Rightarrow> CircuitBreaker" where
  "changeState newState cb =
     (if cbr_state cb \<noteq> newState
      then cb\<lparr>cbr_state := newState, cbr_events := newState # cbr_events cb\<rparr> else cb)"

definition cb_Success :: "CircuitBreaker \<Rightarrow> CircuitBreaker" where
  "cb_Success cb =
     (let cb = (if cbr_state cb = StateHalfOpen \<or> cbr_state cb = StateOpen
                then changeState StateClosed cb else cb)
      in cb\<lparr>cbr_consecutiveFailures := 0\<rparr>)"

definition cb_Failure :: "time \<Rightarrow> CircuitBreaker \<Rightarrow> CircuitBreaker" where
  "cb_Failure now cb =
     (let cb = cb\<lparr>cbr_consecutiveFailures := iadd (cbr_consecutiveFailures cb) 1,
                 cbr_lastFailureTime := now\<rparr>
      in if cbr_state cb = StateClosed \<and> cbr_consecutiveFailures cb \<ge> cbr_failureThreshold cb
         then changeState StateOpen cb
         else if cbr_state cb = StateHalfOpen then changeState StateOpen cb
         else cb)"

text \<open>\<open>fn\<close> is the protected call on the wrapped state; it answers with its error, if any.\<close>

definition cb_Execute ::
  "time \<Rightarrow> ('s \<Rightarrow> goerr option \<times> 's) \<Rightarrow> CircuitBreaker \<times> 's \<Rightarrow> goerr option \<times> CircuitBreaker \<times> 's" where
  "cb_Execute now fn st =
     (let (cb, s) = st in
      if currentState now cb = StateOpen then (Some ErrCircuitOpen, cb, s)
      else case fn s of
        (Some err, s') \<Rightarrow> if is_panic err then (Some err, cb, s') else (Some err, cb_Failure now cb, s')
      | (None, s') \<Rightarrow> (None, cb_Success cb, s'))"

section \<open>The storage wrapper\<close>

text \<open>
  A method with a value runs a closure that assigns it; when the circuit is open the closure
  does not run and the value keeps its zero.
\<close>

definition sum_error :: "goerr + 'a \<Rightarrow> goerr option" where
  "sum_error r = (case r of Inl e \<Rightarrow> Some e | Inr _ \<Rightarrow> None)"

definition exec_sum ::
  "time \<Rightarrow> ('s \<Rightarrow> (goerr + 'a) \<times> 's) \<Rightarrow> CircuitBreaker \<times> 's \<Rightarrow> (goerr + 'a) \<times> CircuitBreaker \<times> 's" where
  "exec_sum now op st =
     (case cb_Execute now (\<lambda>s. (sum_error (fst (op s)), snd (op s))) st of
        (Some err, st') \<Rightarrow> (Inl err, st')
      | (None, st') \<Rightarrow> (fst (op (snd st)), st'))"

definition cbs_GetEntitlement where
  "cbs_GetEntitlement storage now userID = exec_sum now (st_GetEntitlement storage now userID)"

definition cbs_SetEntitlement where
  "cbs_SetEntitlement storage now ent = cb_Execute now (st_SetEntitlement storage now ent)"

definition cbs_GetUsage where
  "cbs_GetUsage storage now userID resource period =
     exec_sum now (st_GetUsage storage now userID resource period)"

definition cbs_ConsumeQuota ::
  "'s Storage \<Rightarrow> time \<Rightarrow> ConsumeRequest \<Rightarrow> CircuitBreaker \<times> 's
     \<Rightarrow> (goint \<times> goerr option) \<times> CircuitBreaker \<times> 's" where
  "cbs_ConsumeQuota storage now req st =
     (let op = st_ConsumeQuota storage now req;
          (err, st') = cb_Execute now (\<lambda>s. (snd (fst (op s)), snd (op s))) st;
          used = (if currentState now (fst st) = StateOpen then 0 else fst (fst (op (snd st))))
      in ((used, err), st'))"

definition cbs_ApplyTierChange where
  "cbs_ApplyTierChange storage now req = cb_Execute now (st_ApplyTierChange storage now req)"

definition cbs_SetUsage where
  "cbs_SetUsage storage now userID resource usage period =
     cb_Execute now (st_SetUsage storage now userID resource usage period)"

definition cbs_RefundQuota where
  "cbs_RefundQuota storage now req = cb_Execute now (st_RefundQuota storage now req)"

definition cbs_GetRefundRecord where
  "cbs_GetRefundRecord storage now key = exec_sum now (st_GetRefundRecord storage now key)"

definition cbs_GetConsumptionRecord where
  "cbs_GetConsumptionRecord storage now key = exec_sum now (st_GetConsumptionRecord storage now key)"

definition cbs_CheckRateLimit where
  "cbs_CheckRateLimit storage now req = exec_sum now (st_CheckRateLimit storage now req)"

definition cbs_RecordRateLimitRequest where
  "cbs_RecordRateLimitRequest storage now req =
     cb_Execute now (st_RecordRateLimitRequest storage now req)"

definition cbs_AddLimit where
  "cbs_AddLimit storage now userID resource amount period key =
     cb_Execute now (st_AddLimit storage now userID resource amount period key)"

definition cbs_SubtractLimit where
  "cbs_SubtractLimit storage now userID resource amount period key =
     cb_Execute now (st_SubtractLimit storage now userID resource amount period key)"

text \<open>The wrapper declares neither \<open>Now\<close> nor the audit methods, whatever the inner storage has.\<close>

definition circuit_breaker_storage :: "'s Storage \<Rightarrow> (CircuitBreaker \<times> 's) Storage" where
  "circuit_breaker_storage storage = \<lparr>
     st_GetEntitlement = cbs_GetEntitlement storage, st_SetEntitlement = cbs_SetEntitlement storage,
     st_GetUsage = cbs_GetUsage storage, st_ConsumeQuota = cbs_ConsumeQuota storage,
     st_ApplyTierChange = cbs_ApplyTierChange storage, st_SetUsage = cbs_SetUsage storage,
     st_RefundQuota = cbs_RefundQuota storage, st_GetRefundRecord = cbs_GetRefundRecord storage,
     st_GetConsumptionRecord = cbs_GetConsumptionRecord storage,
     st_CheckRateLimit = cbs_CheckRateLimit storage,
     st_RecordRateLimitRequest = cbs_RecordRateLimitRequest storage,
     st_AddLimit = cbs_AddLimit storage, st_SubtractLimit = cbs_SubtractLimit storage,
     st_Now = None, st_LogAuditEntry = None, st_GetAuditLogs = None\<rparr>"

section \<open>Interleaved callers\<close>

text \<open>
  The atomic steps of any number of callers: one that found the circuit not open is in flight
  (\<open>cbw_inflight\<close> counts them) until it reports. The clock may advance at any step.
\<close>

record cb_world =
  cbw_cb :: CircuitBreaker
  cbw_inflight :: nat
  cbw_now :: time

inductive cb_step :: "cb_world \<Rightarrow> cb_world \<Rightarrow> bool" where
  tick: "cbw_now w \<le> t \<Longrightarrow> cb_step w (w\<lparr>cbw_now := t\<rparr>)"
| enter: "currentState (cbw_now w) (cbw_cb w) \<noteq> StateOpen \<Longrightarrow>
    cb_step w (w\<lparr>cbw_inflight := Suc (cbw_inflight w)\<rparr>)"
| succeed: "0 < cbw_inflight w \<Longrightarrow>
    cb_step w (w\<lparr>cbw_inflight := cbw_inflight w - 1, cbw_cb := cb_Success (cbw_cb w)\<rparr>)"
| fail: "0 < cbw_inflight w \<Longrightarrow>
    cb_step w (w\<lparr>cbw_inflight := cbw_inflight w - 1, cbw_cb := cb_Failure (cbw_now w) (cbw_cb w)\<rparr>)"
| panicked: "0 < cbw_inflight w \<Longrightarrow> cb_step w (w\<lparr>cbw_inflight := cbw_inflight w - 1\<rparr>)"

inductive cb_reachable :: "cb_world \<Rightarrow> cb_world \<Rightarrow> bool" for w0 :: cb_world where
  start: "cb_reachable w0 w0"
| step: "cb_reachable w0 w \<Longrightarrow> cb_step w w' \<Longrightarrow> cb_reachable w0 w'"

inductive_cases cb_stepE: "cb_step w w'"

lemma time_Sub_nonneg: "u \<le> t \<Longrightarrow> 0 \<le> time_Sub t u"
  by (simp add: time_Sub_def max_int64_def)

text \<open>
  What the breaker keeps true between its fields: half-open is never stored, a closed circuit
  is below its threshold, an open one has reached it.
\<close>

definition cb_inv :: "CircuitBreaker \<Rightarrow> bool" where
  "cb_inv cb \<longleftrightarrow> cbr_state cb \<noteq> StateHalfOpen
     \<and> (cbr_state cb = StateClosed \<longrightarrow>
          0 \<le> cbr_consecutiveFailures cb \<and> cbr_consecutiveFailures cb < cbr_failureThreshold cb)
     \<and> (cbr_events cb = [] \<and> cbr_state cb = StateClosed
        \<or> (\<exists>es. cbr_events cb = cbr_state cb # es))"

lemma cb_inv_new: "0 < n \<Longrightarrow> cb_inv (NewDefaultCircuitBreaker n d)"
  by (simp add: cb_inv_def NewDefaultCircuitBreaker_def)

lemma cb_inv_Success: "cb_inv cb \<Longrightarrow> 0 < cbr_failureThreshold cb \<Longrightarrow> cb_inv (cb_Success cb)"
  by (auto simp: cb_inv_def cb_Success_def changeState_def Let_def)

lemma cb_inv_Failure:
  assumes "cb_inv cb" "int64_ok (cbr_failureThreshold cb)"
  shows "cb_inv (cb_Failure now cb)"
proof (cases "cbr_state cb = StateClosed")
  case True
  then have "iadd (cbr_consecutiveFailures cb) 1 = cbr_consecutiveFailures cb + 1"
    using assms by (intro iadd_id) (auto simp: cb_inv_def int64_ok_def)
  then show ?thesis using assms True by (auto simp: cb_inv_def cb_Failure_def changeState_def Let_def)
next
  case False
  then show ?thesis using assms by (auto simp: cb_inv_def cb_Failure_def changeState_def Let_def)
qed

lemma threshold_kept [simp]:
  "cbr_failureThreshold (cb_Success cb) = cbr_failureThreshold cb"
  "cbr_failureThreshold (cb_Failure now cb) = cbr_failureThreshold cb"
  "cbr_resetTimeout (cb_Success cb) = cbr_resetTimeout cb"
  "cbr_resetTimeout (cb_Failure now cb) = cbr_resetTimeout cb"
  by (simp_all add: cb_Success_def cb_Failure_def changeState_def Let_def)

lemma cb_step_inv:
  assumes "cb_step w w'" "cb_inv (cbw_cb w)" "0 < cbr_failureThreshold (cbw_cb w)"
    "int64_ok (cbr_failureThreshold (cbw_cb w))"
  shows "cb_inv (cbw_cb w') \<and> cbr_failureThreshold (cbw_cb w') = cbr_failureThreshold (cbw_cb w)"
  using assms by (cases rule: cb_step.cases) (auto intro: cb_inv_Success cb_inv_Failure)

text \<open>Under any interleaving of callers a breaker never stores the half-open state, and it is
  closed only while fewer failures than the threshold have been counted in a row.\<close>

theorem cb_reachable_inv:
  assumes "cb_reachable w0 w" "cbw_cb w0 = NewDefaultCircuitBreaker n d" "0 < n" "int64_ok n"
  shows "cbr_state (cbw_cb w) \<noteq> StateHalfOpen
    \<and> (cbr_state (cbw_cb w) = StateClosed \<longrightarrow> cbr_consecutiveFailures (cbw_cb w) < n)
    \<and> cbr_failureThreshold (cbw_cb w) = n"
proof -
  have "cb_inv (cbw_cb w) \<and> cbr_failureThreshold (cbw_cb w) = n"
    using assms(1)
  proof (induction rule: cb_reachable.induct)
    case start
    then show ?case using cb_inv_new [OF assms(3), of d] assms(2)
      by (simp add: NewDefaultCircuitBreaker_def)
  next
    case (step w w')
    then show ?case using cb_step_inv [OF step.hyps(2)] assms(3,4) by simp
  qed
  then show ?thesis by (auto simp: cb_inv_def)
qed

theorem cb_reachable_inv_witness:
  "cbr_state (cb_Failure 5 (NewDefaultCircuitBreaker 3 10)) \<noteq> StateHalfOpen
    \<and> cbr_consecutiveFailures (cb_Failure 5 (NewDefaultCircuitBreaker 3 10)) < 3"
proof -
  let ?w = "\<lparr>cbw_cb = NewDefaultCircuitBreaker 3 10, cbw_inflight = 0, cbw_now = 5\<rparr>"
  let ?w1 = "?w\<lparr>cbw_inflight := Suc 0\<rparr>"
  have 1: "cb_step ?w ?w1"
    using cb_step.enter [of ?w] by (simp add: currentState_def NewDefaultCircuitBreaker_def)
  have 2: "cb_step ?w1 (?w\<lparr>cbw_cb := cb_Failure 5 (NewDefaultCircuitBreaker 3 10)\<rparr>)"
    using cb_step.fail [of ?w1] by simp
  have "cb_reachable ?w (?w\<lparr>cbw_cb := cb_Failure 5 (NewDefaultCircuitBreaker 3 10)\<rparr>)"
    by (rule cb_reachable.step [OF cb_reachable.step [OF cb_reachable.start 1] 2])
  from cb_reachable_inv [OF this, of 3 10] show ?thesis
    by (auto simp: int64_ok_def cb_Failure_def changeState_def Let_def NewDefaultCircuitBreaker_def iadd_def wrap64_def)
qed

section \<open>One caller\<close>

text \<open>While the circuit is open every call is refused with ErrCircuitOpen, and neither the storage nor
  the breaker changes.\<close>

theorem cb_Execute_open:
  assumes "currentState now cb = StateOpen"
  shows "cb_Execute now fn (cb, s) = (Some ErrCircuitOpen, cb, s)"
  using assms by (simp add: cb_Execute_def)

lemma cb_Execute_not_open:
  assumes "currentState now cb \<noteq> StateOpen"
  shows "cb_Execute now fn (cb, s) = (case fn s of
      (None, s') \<Rightarrow> (None, cb_Success cb, s')
    | (Some e, s') \<Rightarrow> (Some e, if is_panic e then cb else cb_Failure now cb, s'))"
  using assms by (simp add: cb_Execute_def split: option.split prod.split)

text \<open>The wrapper answers what the wrapped storage answers, unless the circuit is open.\<close>

lemma exec_sum_not_open:
  assumes "currentState now cb \<noteq> StateOpen"
  shows "fst (exec_sum now op (cb, s)) = fst (op s)" "snd (snd (exec_sum now op (cb, s))) = snd (op s)"
  using assms
  by (auto simp: exec_sum_def cb_Execute_not_open sum_error_def split: option.splits prod.splits sum.splits)

lemma exec_sum_open:
  assumes "currentState now cb = StateOpen"
  shows "exec_sum now op (cb, s) = (Inl ErrCircuitOpen, cb, s)"
  using assms by (simp add: exec_sum_def cb_Execute_open)

text \<open>With the circuit not open, ConsumeQuota through the breaker returns the value and error of the
  wrapped storage and leaves it in the same state.\<close>

theorem cbs_ConsumeQuota_transparent:
  assumes "currentState now cb \<noteq> StateOpen"
  shows "fst (cbs_ConsumeQuota storage now req (cb, s)) = fst (st_ConsumeQuota storage now req s)
    \<and> snd (snd (cbs_ConsumeQuota storage now req (cb, s))) = snd (st_ConsumeQuota storage now req s)"
  using assms
  by (auto simp: cbs_ConsumeQuota_def Let_def cb_Execute_not_open prod_eq_iff split: option.splits prod.splits)

text \<open>Consecutive failing calls at the instants \<open>ts\<close>.\<close>

fun fail_all :: "time list \<Rightarrow> CircuitBreaker \<Rightarrow> CircuitBreaker" where
  "fail_all [] cb = cb"
| "fail_all (t # ts) cb = fail_all ts (cb_Failure t cb)"

lemma cb_Failure_count:
  assumes "cb_inv cb" "cbr_state cb = StateClosed" "int64_ok (cbr_failureThreshold cb)"
  shows "cbr_consecutiveFailures (cb_Failure t cb) = cbr_consecutiveFailures cb + 1"
    and "cbr_state (cb_Failure t cb) =
      (if cbr_consecutiveFailures cb + 1 < cbr_failureThreshold cb then StateClosed else StateOpen)"
    and "cbr_lastFailureTime (cb_Failure t cb) = t"
proof -
  have "iadd (cbr_consecutiveFailures cb) 1 = cbr_consecutiveFailures cb + 1"
    using assms by (intro iadd_id) (auto simp: cb_inv_def int64_ok_def)
  then show "cbr_consecutiveFailures (cb_Failure t cb) = cbr_consecutiveFailures cb + 1"
    "cbr_state (cb_Failure t cb) =
      (if cbr_consecutiveFailures cb + 1 < cbr_failureThreshold cb then StateClosed else StateOpen)"
    "cbr_lastFailureTime (cb_Failure t cb) = t"
    using assms by (auto simp: cb_Failure_def changeState_def Let_def)
qed

lemma fail_all_closed:
  assumes "cb_inv cb" "cbr_state cb = StateClosed" "int64_ok (cbr_failureThreshold cb)"
    and "cbr_consecutiveFailures cb + int (length ts) < cbr_failureThreshold cb"
  shows "cbr_state (fail_all ts cb) = StateClosed
    \<and> cbr_consecutiveFailures (fail_all ts cb) = cbr_consecutiveFailures cb + int (length ts)"
  using assms
proof (induction ts arbitrary: cb)
  case (Cons t ts)
  then show ?case
    using Cons.IH [of "cb_Failure t cb"] cb_inv_Failure [of cb t] by (simp add: cb_Failure_count)
qed simp

lemma fail_all_append: "fail_all (ts @ us) cb = fail_all us (fail_all ts cb)"
  by (induction ts arbitrary: cb) simp_all

lemma fail_all_inv:
  assumes "cb_inv cb" "int64_ok (cbr_failureThreshold cb)"
  shows "cb_inv (fail_all ts cb) \<and> cbr_failureThreshold (fail_all ts cb) = cbr_failureThreshold cb
    \<and> cbr_resetTimeout (fail_all ts cb) = cbr_resetTimeout cb"
  using assms by (induction ts arbitrary: cb) (simp_all add: cb_inv_Failure)



text \<open>The probe after the timeout: its success closes the circuit and clears the count, its failure keeps
  the circuit open for another full timeout.\<close>

theorem cb_probe:
  assumes "cbr_state cb = StateOpen" "currentState now cb = StateHalfOpen" "0 < cbr_resetTimeout cb"
  shows "(fn s = (None, s') \<longrightarrow> (\<exists>cb'. cb_Execute now fn (cb, s) = (None, cb', s')
      \<and> cbr_state cb' = StateClosed \<and> cbr_consecutiveFailures cb' = 0))
    \<and> (fn s = (Some e, s') \<and> \<not> is_panic e \<longrightarrow> (\<exists>cb'. cb_Execute now fn (cb, s) = (Some e, cb', s')
      \<and> currentState now cb' = StateOpen
      \<and> (\<forall>t. currentState t cb' = StateHalfOpen \<longleftrightarrow> time_Sub t now \<ge> cbr_resetTimeout cb)))"
  using assms
  by (auto simp: cb_Execute_not_open cb_Success_def cb_Failure_def changeState_def Let_def currentState_def
      time_Sub_def max_int64_def min_int64_def split: if_splits)

theorem cb_probe_witness:
  "let cb = fail_all [0, 10] (NewDefaultCircuitBreaker 2 100) in
    currentState 150 cb = StateHalfOpen
    \<and> (\<exists>cb'. cb_Execute 150 (\<lambda>s. (None, s)) (cb, ()) = (None, cb', ()) \<and> cbr_state cb' = StateClosed)
    \<and> (\<exists>cb'. cb_Execute 150 (\<lambda>s. (Some ErrStorageUnavailable, s)) (cb, ()) = (Some ErrStorageUnavailable, cb', ())
        \<and> currentState 150 cb' = StateOpen)"
proof -
  let ?cb = "fail_all [0, 10] (NewDefaultCircuitBreaker 2 100)"
  have h: "cbr_state ?cb = StateOpen" "currentState 150 ?cb = StateHalfOpen" "0 < cbr_resetTimeout ?cb"
    by code_simp+
  from cb_probe [OF h, of "\<lambda>s. (None, s)" "()" "()" ErrStorageUnavailable]
    cb_probe [OF h, of "\<lambda>s. (Some ErrStorageUnavailable, s)" "()" "()" ErrStorageUnavailable] h
  show ?thesis by (auto simp: Let_def)
qed

theorem cb_Execute_open_witness:
  "cb_Execute 50 (\<lambda>s. (None, Suc s)) (fail_all [0, 10] (NewDefaultCircuitBreaker 2 100), 0)
    = (Some ErrCircuitOpen, fail_all [0, 10] (NewDefaultCircuitBreaker 2 100), 0)"
  by (rule cb_Execute_open) code_simp

end
