(* ===== verification/MemoryStorage.thy ===== *)
theory MemoryStorage
  imports StorageApi
begin

text \<open>
  The in-memory backend, \<open>storage/memory/memory.go\<close>: its maps as one state record, one
  definition per method in the order of the file, the method table \<open>memory_storage\<close>, the proof
  that quota operations refine the ledger of \<open>StorageApi\<close>, and the behaviour of the two rate
  limiting algorithms.

  The mutex makes each method one atomic step. A stored pointer is never handed out (every
  getter copies), so the maps hold values. The maps are functions to \<open>option\<close>; \<open>map[string]bool\<close>
  is a predicate.
\<close>

record TokenBucketState =
  tb_tokens :: goint
  tb_lastRefill :: time
  tb_capacity :: goint
  tb_refillRate :: goint
  tb_window :: duration

record SlidingWindowState =
  sw_timestamps :: "time list"
  sw_window :: duration
  sw_limit :: goint

record MemState =
  ms_entitlements :: "string \<rightharpoonup> Entitlement"
  ms_usage :: "string \<rightharpoonup> Usage"
  ms_refunds :: "string \<rightharpoonup> RefundRecord"
  ms_consumptions :: "string \<rightharpoonup> ConsumptionRecord"
  ms_topUps :: "string \<Rightarrow> bool"
  ms_tokenBuckets :: "string \<rightharpoonup> TokenBucketState"
  ms_slidingWindows :: "string \<rightharpoonup> SlidingWindowState"

definition mem_Now :: "time \<Rightarrow> MemState \<Rightarrow> (goerr + time) \<times> MemState" where
  "mem_Now now s = (Inr now, s)"

definition mem_New :: MemState where
  "mem_New = \<lparr>ms_entitlements = Map.empty, ms_usage = Map.empty, ms_refunds = Map.empty,
     ms_consumptions = Map.empty, ms_topUps = (\<lambda>_. False), ms_tokenBuckets = Map.empty,
     ms_slidingWindows = Map.empty\<rparr>"

section \<open>Entitlements and usage\<close>

definition mem_GetEntitlement :: "time \<Rightarrow> string \<Rightarrow> MemState \<Rightarrow> (goerr + Entitlement) \<times> MemState" where
  "mem_GetEntitlement now userID s = (case ms_entitlements s userID of
     None \<Rightarrow> (Inl ErrEntitlementNotFound, s)
   | Some ent \<Rightarrow> (Inr ent, s))"

definition mem_SetEntitlement :: "time \<Rightarrow> Entitlement \<Rightarrow> MemState \<Rightarrow> goerr option \<times> MemState" where
  "mem_SetEntitlement now ent s =
     (if e_UserID ent = '''' then (Some (ErrText ''invalid entitlement''), s)
      else (None, s\<lparr>ms_entitlements := (ms_entitlements s)(e_UserID ent \<mapsto> ent)\<rparr>))"

definition mem_usageKey :: "string \<Rightarrow> string \<Rightarrow> Period \<Rightarrow> string" where
  "mem_usageKey userID resource period = userID @ '':'' @ resource @ '':'' @ period_Key period"

definition mem_GetUsage ::
  "time \<Rightarrow> string \<Rightarrow> string \<Rightarrow> Period \<Rightarrow> MemState \<Rightarrow> (goerr + Usage option) \<times> MemState" where
  "mem_GetUsage now userID resource period s =
     (case ms_usage s (mem_usageKey userID resource period) of
        None \<Rightarrow> (Inr None, s)
      | Some usage \<Rightarrow> (Inr (Some usage), s))"

definition mem_ConsumeQuota ::
  "time \<Rightarrow> ConsumeRequest \<Rightarrow> MemState \<Rightarrow> (goint \<times> goerr option) \<times> MemState" where
  "mem_ConsumeQuota now req s =
     (if cq_Amount req < 0 then ((0, Some ErrInvalidAmount), s)
      else if cq_Amount req = 0 then ((0, None), s)
      else case (if cq_IdempotencyKey req \<noteq> '''' then ms_consumptions s (cq_IdempotencyKey req) else None) of
        Some existing \<Rightarrow> ((cn_NewUsed existing, None), s)
      | None \<Rightarrow>
         let key = mem_usageKey (cq_UserID req) (cq_Resource req) (cq_Period req);
             currentUsed = (case ms_usage s key of Some usage \<Rightarrow> u_Used usage | None \<Rightarrow> 0);
             newUsed = iadd currentUsed (cq_Amount req)
         in if cq_Limit req \<noteq> -1 \<and> newUsed > cq_Limit req
            then ((currentUsed, Some ErrQuotaExceeded), s)
            else
              let s1 = s\<lparr>ms_usage := (ms_usage s)(key \<mapsto>
                    \<lparr>u_UserID = cq_UserID req, u_Resource = cq_Resource req, u_Used = newUsed,
                     u_Limit = cq_Limit req, u_Period = cq_Period req, u_Tier = cq_Tier req,
                     u_UpdatedAt = now\<rparr>)\<rparr>;
                  s2 = (if cq_IdempotencyKey req \<noteq> '''' then
                    s1\<lparr>ms_consumptions := (ms_consumptions s1)(cq_IdempotencyKey req \<mapsto>
                      \<lparr>cn_ConsumptionID = cq_IdempotencyKey req, cn_UserID = cq_UserID req,
                       cn_Resource = cq_Resource req, cn_Amount = cq_Amount req,
                       cn_Period = cq_Period req, cn_Timestamp = now,
                       cn_IdempotencyKey = cq_IdempotencyKey req, cn_NewUsed = newUsed,
                       cn_Metadata = []\<rparr>)\<rparr>
                  else s1)
              in ((newUsed, None), s2))"

definition mem_ApplyTierChange :: "time \<Rightarrow> TierChangeRequest \<Rightarrow> MemState \<Rightarrow> goerr option \<times> MemState" where
  "mem_ApplyTierChange now req s =
     (let key = mem_usageKey (tq_UserID req) (tq_Resource req) (tq_Period req) in
      case ms_usage s key of
        None \<Rightarrow> (None, s\<lparr>ms_usage := (ms_usage s)(key \<mapsto>
            \<lparr>u_UserID = tq_UserID req, u_Resource = tq_Resource req, u_Used = tq_CurrentUsed req,
             u_Limit = tq_NewLimit req, u_Period = tq_Period req, u_Tier = tq_NewTier req,
             u_UpdatedAt = now\<rparr>)\<rparr>)
      | Some usage \<Rightarrow> (None, s\<lparr>ms_usage := (ms_usage s)(key \<mapsto>
            usage\<lparr>u_Limit := tq_NewLimit req, u_Tier := tq_NewTier req, u_UpdatedAt := now\<rparr>)\<rparr>))"

definition mem_SetUsage ::
  "time \<Rightarrow> string \<Rightarrow> string \<Rightarrow> Usage \<Rightarrow> Period \<Rightarrow> MemState \<Rightarrow> goerr option \<times> MemState" where
  "mem_SetUsage now userID resource usage period s =
     (None, s\<lparr>ms_usage := (ms_usage s)(mem_usageKey userID resource period \<mapsto> usage)\<rparr>)"

section \<open>Refunds, records and credit limits\<close>

text \<open>The period of a refund: the request's own unless its start is the zero time.\<close>

definition mem_refund_period :: "time \<Rightarrow> RefundRequest \<Rightarrow> goerr + Period" where
  "mem_refund_period now req =
     (if p_Start (rr_Period req) \<noteq> zero_time then Inr (rr_Period req)
      else case rr_PeriodType req of
        PeriodTypeMonthly \<Rightarrow>
          Inr \<lparr>p_Start = time_Date (time_Year now) (time_Month now) 1 0 0 0 0,
               p_End = time_Date (time_Year now) (time_Month now + 1) 1 0 0 0 0,
               p_Type = PeriodTypeMonthly\<rparr>
      | PeriodTypeDaily \<Rightarrow>
          (let start = time_Date (time_Year now) (time_Month now) (time_Day now) 0 0 0 0
           in Inr \<lparr>p_Start = start, p_End = time_Add start ns_per_day, p_Type = PeriodTypeDaily\<rparr>)
      | _ \<Rightarrow> Inl ErrInvalidPeriod)"

definition mem_RefundQuota :: "time \<Rightarrow> RefundRequest \<Rightarrow> MemState \<Rightarrow> goerr option \<times> MemState" where
  "mem_RefundQuota now req s =
     (if rr_Amount req < 0 then (Some ErrInvalidAmount, s)
      else if rr_Amount req = 0 then (None, s)
      else if rr_IdempotencyKey req \<noteq> '''' \<and> ms_refunds s (rr_IdempotencyKey req) \<noteq> None then (None, s)
      else case mem_refund_period now req of
        Inl e \<Rightarrow> (Some e, s)
      | Inr period \<Rightarrow>
         let key = mem_usageKey (rr_UserID req) (rr_Resource req) period in
         case ms_usage s key of
           None \<Rightarrow> (None, s)
         | Some usage \<Rightarrow>
            let newUsed = isub (u_Used usage) (rr_Amount req);
                newUsed = (if newUsed < 0 then 0 else newUsed);
                s1 = s\<lparr>ms_usage := (ms_usage s)(key \<mapsto> usage\<lparr>u_Used := newUsed, u_UpdatedAt := now\<rparr>)\<rparr>;
                s2 = (if rr_IdempotencyKey req \<noteq> '''' then
                  s1\<lparr>ms_refunds := (ms_refunds s1)(rr_IdempotencyKey req \<mapsto>
                    \<lparr>rf_RefundID = rr_IdempotencyKey req, rf_UserID = rr_UserID req,
                     rf_Resource = rr_Resource req, rf_Amount = rr_Amount req, rf_Period = period,
                     rf_Timestamp = now, rf_IdempotencyKey = rr_IdempotencyKey req,
                     rf_Reason = rr_Reason req, rf_Metadata = rr_Metadata req\<rparr>)\<rparr>
                else s1)
            in (None, s2))"

definition mem_GetRefundRecord ::
  "time \<Rightarrow> string \<Rightarrow> MemState \<Rightarrow> (goerr + RefundRecord option) \<times> MemState" where
  "mem_GetRefundRecord now key s = (Inr (ms_refunds s key), s)"

definition mem_GetConsumptionRecord ::
  "time \<Rightarrow> string \<Rightarrow> MemState \<Rightarrow> (goerr + ConsumptionRecord option) \<times> MemState" where
  "mem_GetConsumptionRecord now key s = (Inr (ms_consumptions s key), s)"

definition mem_AddLimit ::
  "time \<Rightarrow> string \<Rightarrow> string \<Rightarrow> goint \<Rightarrow> Period \<Rightarrow> string \<Rightarrow> MemState \<Rightarrow> goerr option \<times> MemState" where
  "mem_AddLimit now userID resource amount period idempotencyKey s =
     (if idempotencyKey \<noteq> '''' \<and> ms_topUps s idempotencyKey then (Some ErrIdempotencyKeyExists, s)
      else
        let s1 = (if idempotencyKey \<noteq> '''' then s\<lparr>ms_topUps := (ms_topUps s)(idempotencyKey := True)\<rparr> else s);
            key = mem_usageKey userID resource period
        in case ms_usage s1 key of
             None \<Rightarrow> (None, s1\<lparr>ms_usage := (ms_usage s1)(key \<mapsto>
                \<lparr>u_UserID = userID, u_Resource = resource, u_Used = 0, u_Limit = amount,
                 u_Period = period, u_Tier = ''default'', u_UpdatedAt = now\<rparr>)\<rparr>)
           | Some usage \<Rightarrow> (None, s1\<lparr>ms_usage := (ms_usage s1)(key \<mapsto>
                usage\<lparr>u_Limit := iadd (u_Limit usage) amount, u_UpdatedAt := now\<rparr>)\<rparr>))"

definition mem_SubtractLimit ::
  "time \<Rightarrow> string \<Rightarrow> string \<Rightarrow> goint \<Rightarrow> Period \<Rightarrow> string \<Rightarrow> MemState \<Rightarrow> goerr option \<times> MemState" where
  "mem_SubtractLimit now userID resource amount period idempotencyKey s =
     (if idempotencyKey \<noteq> '''' \<and> ms_refunds s idempotencyKey \<noteq> None then (Some ErrIdempotencyKeyExists, s)
      else
        let s1 = (if idempotencyKey \<noteq> '''' then s\<lparr>ms_refunds := (ms_refunds s)(idempotencyKey \<mapsto>
                \<lparr>rf_RefundID = idempotencyKey, rf_UserID = userID, rf_Resource = resource,
                 rf_Amount = amount, rf_Period = period, rf_Timestamp = now,
                 rf_IdempotencyKey = idempotencyKey, rf_Reason = '''', rf_Metadata = []\<rparr>)\<rparr> else s);
            key = mem_usageKey userID resource period
        in case ms_usage s1 key of
             None \<Rightarrow> (None, s1)
           | Some usage \<Rightarrow>
              let newLimit = isub (u_Limit usage) amount;
                  newLimit = (if newLimit < 0 then 0 else newLimit)
              in (None, s1\<lparr>ms_usage := (ms_usage s1)(key \<mapsto>
                    usage\<lparr>u_Limit := newLimit, u_UpdatedAt := now\<rparr>)\<rparr>))"

section \<open>Rate limits\<close>

definition intMin :: "goint \<Rightarrow> goint \<Rightarrow> goint" where
  "intMin a b = (if a < b then a else b)"

definition mem_rateLimitKey :: "string \<Rightarrow> string \<Rightarrow> string" where
  "mem_rateLimitKey userID resource = userID @ '':'' @ resource"

definition refill :: "time \<Rightarrow> TokenBucketState \<Rightarrow> TokenBucketState" where
  "refill now bucket =
     (let elapsed = time_Sub now (tb_lastRefill bucket) in
      if elapsed > 0 then
        let tokensToAdd = f_to_int (f_div
              (f_mul (f_of_int (tb_refillRate bucket)) (duration_Seconds elapsed))
              (duration_Seconds (tb_window bucket)))
        in if tokensToAdd > 0 then
             bucket\<lparr>tb_tokens := intMin (iadd (tb_tokens bucket) tokensToAdd) (tb_capacity bucket),
                    tb_lastRefill := now\<rparr>
           else bucket
      else bucket)"

definition mem_checkTokenBucket ::
  "string \<Rightarrow> RateLimitRequest \<Rightarrow> MemState \<Rightarrow> (goerr + bool \<times> goint \<times> time) \<times> MemState" where
  "mem_checkTokenBucket key req s =
     (let burst = (if rq_Burst req \<le> 0 then rq_Rate req else rq_Burst req);
          bucket0 = (case ms_tokenBuckets s key of
              Some b \<Rightarrow> b
            | None \<Rightarrow> \<lparr>tb_tokens = burst, tb_lastRefill = rq_Now req, tb_capacity = burst,
                       tb_refillRate = rq_Rate req, tb_window = rq_Window req\<rparr>);
          bucket = refill (rq_Now req) bucket0;
          save = (\<lambda>b. s\<lparr>ms_tokenBuckets := (ms_tokenBuckets s)(key \<mapsto> b)\<rparr>)
      in if tb_tokens bucket \<le> 0 then
           if tb_refillRate bucket = 0 then (Inl (GoPanic ''integer divide by zero''), save bucket)
           else
             let step = iquot (tb_window bucket) (tb_refillRate bucket);
                 nextTokenTime = time_Add (tb_lastRefill bucket) step;
                 nextTokenTime = (if nextTokenTime < rq_Now req then time_Add (rq_Now req) step else nextTokenTime)
             in (Inr (False, 0, nextTokenTime), save bucket)
         else
           let bucket = bucket\<lparr>tb_tokens := isub (tb_tokens bucket) 1\<rparr>;
               resetTime = (if tb_tokens bucket < tb_capacity bucket then
                   let tokensNeeded = isub (tb_capacity bucket) (tb_tokens bucket);
                       timeToFull = f_to_int (f_div
                         (f_mul (f_of_int tokensNeeded) (f_of_int (tb_window bucket)))
                         (f_of_int (tb_refillRate bucket)))
                   in time_Add (rq_Now req) timeToFull
                 else time_Add (rq_Now req) (tb_window bucket))
           in (Inr (True, tb_tokens bucket, resetTime), save bucket))"

text \<open>
  The loop that drops expired timestamps: \<open>validStart\<close> is the index of the first one after the
  cutoff, and stays 0 when there is none.
\<close>

fun valid_start :: "time \<Rightarrow> nat \<Rightarrow> time list \<Rightarrow> nat" where
  "valid_start cutoff i [] = 0"
| "valid_start cutoff i (ts # tss) = (if ts > cutoff then i else valid_start cutoff (Suc i) tss)"

definition mem_checkSlidingWindow ::
  "string \<Rightarrow> RateLimitRequest \<Rightarrow> MemState \<Rightarrow> (goerr + bool \<times> goint \<times> time) \<times> MemState" where
  "mem_checkSlidingWindow key req s =
     (let window0 = (case ms_slidingWindows s key of
              Some w \<Rightarrow> w
            | None \<Rightarrow> \<lparr>sw_timestamps = [], sw_window = rq_Window req, sw_limit = rq_Rate req\<rparr>);
          cutoff = time_Add (rq_Now req) (- sw_window window0);
          timestamps = drop (valid_start cutoff 0 (sw_timestamps window0)) (sw_timestamps window0);
          window = window0\<lparr>sw_timestamps := timestamps\<rparr>;
          save = (\<lambda>w. s\<lparr>ms_slidingWindows := (ms_slidingWindows s)(key \<mapsto> w)\<rparr>)
      in if int (length timestamps) \<ge> sw_limit window then
           (case timestamps of
              [] \<Rightarrow> (Inl (GoPanic ''index out of range''), save window)
            | oldestInWindow # _ \<Rightarrow>
                (Inr (False, 0, time_Add oldestInWindow (sw_window window)), save window))
         else
           let timestamps = timestamps @ [rq_Now req];
               window = window\<lparr>sw_timestamps := timestamps\<rparr>;
               remaining = isub (sw_limit window) (int (length timestamps));
               resetTime = (case timestamps of
                   [] \<Rightarrow> time_Add (rq_Now req) (sw_window window)
                 | oldest # _ \<Rightarrow> time_Add oldest (sw_window window))
           in (Inr (True, remaining, resetTime), save window))"

definition mem_CheckRateLimit ::
  "time \<Rightarrow> RateLimitRequest \<Rightarrow> MemState \<Rightarrow> (goerr + bool \<times> goint \<times> time) \<times> MemState" where
  "mem_CheckRateLimit now req s =
     (let key = mem_rateLimitKey (rq_UserID req) (rq_Resource req) in
      if rq_Algorithm req = ''token_bucket'' then mem_checkTokenBucket key req s
      else if rq_Algorithm req = ''sliding_window'' then mem_checkSlidingWindow key req s
      else (Inl (ErrText (''unknown rate limit algorithm: '' @ rq_Algorithm req)), s))"

definition mem_RecordRateLimitRequest :: "time \<Rightarrow> RateLimitRequest \<Rightarrow> MemState \<Rightarrow> goerr option \<times> MemState" where
  "mem_RecordRateLimitRequest now req s = (None, s)"

definition mem_Clear :: "MemState \<Rightarrow> goerr option \<times> MemState" where
  "mem_Clear s = (None, s\<lparr>ms_entitlements := Map.empty, ms_usage := Map.empty,
     ms_refunds := Map.empty, ms_consumptions := Map.empty, ms_topUps := (\<lambda>_. False),
     ms_tokenBuckets := Map.empty, ms_slidingWindows := Map.empty\<rparr>)"

definition memory_storage :: "MemState Storage" where
  "memory_storage = \<lparr>
     st_GetEntitlement = mem_GetEntitlement, st_SetEntitlement = mem_SetEntitlement,
     st_GetUsage = mem_GetUsage, st_ConsumeQuota = mem_ConsumeQuota,
     st_ApplyTierChange = mem_ApplyTierChange, st_SetUsage = mem_SetUsage,
     st_RefundQuota = mem_RefundQuota, st_GetRefundRecord = mem_GetRefundRecord,
     st_GetConsumptionRecord = mem_GetConsumptionRecord, st_CheckRateLimit = mem_CheckRateLimit,
     st_RecordRateLimitRequest = mem_RecordRateLimitRequest, st_AddLimit = mem_AddLimit,
     st_SubtractLimit = mem_SubtractLimit, st_Now = Some mem_Now,
     st_LogAuditEntry = None, st_GetAuditLogs = None\<rparr>"

section \<open>The quota operations refine the ledger\<close>

definition mem_view :: "MemState \<Rightarrow> string ledger" where
  "mem_view s = \<lparr>
     lg_acct = (\<lambda>k. map_option (\<lambda>u. (u_Used u, u_Limit u)) (ms_usage s k)),
     lg_done = (\<lambda>k. map_option cn_NewUsed (ms_consumptions s k)),
     lg_refunds = (\<lambda>k. ms_refunds s k \<noteq> None),
     lg_topUps = ms_topUps s\<rparr>"

lemma mem_view_simps [simp]:
  "lg_acct (mem_view s) k = map_option (\<lambda>u. (u_Used u, u_Limit u)) (ms_usage s k)"
  "lg_done (mem_view s) k = map_option cn_NewUsed (ms_consumptions s k)"
  "lg_refunds (mem_view s) k = (ms_refunds s k \<noteq> None)"
  "lg_topUps (mem_view s) k = ms_topUps s k"
  by (simp_all add: mem_view_def)

lemma lg_used_mem_view [simp]:
  "lg_used (mem_view s) k = (case ms_usage s k of None \<Rightarrow> 0 | Some u \<Rightarrow> u_Used u)"
  by (simp add: lg_used_def split: option.splits)

interpretation mem: quota_store mem_ConsumeQuota mem_usageKey mem_view
proof
  fix now q s
  show "spec_consume (mem_usageKey (cq_UserID q) (cq_Resource q) (cq_Period q)) q (mem_view s)
    = (fst (mem_ConsumeQuota now q s), mem_view (snd (mem_ConsumeQuota now q s)))"
    by (auto simp: spec_consume_def mem_ConsumeQuota_def keyed_def Let_def mem_view_def lg_used_def
        fun_eq_iff split: option.splits)
qed

interpretation mem: credit_store mem_ConsumeQuota mem_usageKey mem_view mem_RefundQuota mem_AddLimit
  mem_SubtractLimit
proof
  fix rq :: RefundRequest and s now
  assume "p_Start (rr_Period rq) \<noteq> zero_time"
  then show "spec_refund (mem_usageKey (rr_UserID rq) (rr_Resource rq) (rr_Period rq)) rq (mem_view s)
    = (fst (mem_RefundQuota now rq s), mem_view (snd (mem_RefundQuota now rq s)))"
    by (auto simp: spec_refund_def mem_RefundQuota_def mem_refund_period_def Let_def mem_view_def
        fun_eq_iff max_def split: option.splits)
next
  fix u r p amount key s now
  show "spec_add (mem_usageKey u r p) amount key (mem_view s)
    = (fst (mem_AddLimit now u r amount p key s), mem_view (snd (mem_AddLimit now u r amount p key s)))"
    by (auto simp: spec_add_def mem_AddLimit_def Let_def mem_view_def fun_eq_iff split: option.splits)
next
  fix u r p amount key s now
  show "spec_subtract (mem_usageKey u r p) amount key (mem_view s)
    = (fst (mem_SubtractLimit now u r amount p key s), mem_view (snd (mem_SubtractLimit now u r amount p key s)))"
    by (auto simp: spec_subtract_def mem_SubtractLimit_def Let_def mem_view_def fun_eq_iff max_def
        split: option.splits)
qed

lemma mem_view_windows [simp]:
  "mem_view (s\<lparr>ms_tokenBuckets := tb\<rparr>) = mem_view s" "mem_view (s\<lparr>ms_slidingWindows := sw\<rparr>) = mem_view s"
  "mem_view (s\<lparr>ms_entitlements := es\<rparr>) = mem_view s"
  by (simp_all add: mem_view_def)

lemma memory_storage_simps [simp]:
  "st_GetEntitlement memory_storage = mem_GetEntitlement" "st_SetEntitlement memory_storage = mem_SetEntitlement"
  "st_GetUsage memory_storage = mem_GetUsage" "st_ConsumeQuota memory_storage = mem_ConsumeQuota"
  "st_ApplyTierChange memory_storage = mem_ApplyTierChange" "st_SetUsage memory_storage = mem_SetUsage"
  "st_RefundQuota memory_storage = mem_RefundQuota" "st_GetRefundRecord memory_storage = mem_GetRefundRecord"
  "st_GetConsumptionRecord memory_storage = mem_GetConsumptionRecord"
  "st_CheckRateLimit memory_storage = mem_CheckRateLimit"
  "st_RecordRateLimitRequest memory_storage = mem_RecordRateLimitRequest"
  "st_AddLimit memory_storage = mem_AddLimit" "st_SubtractLimit memory_storage = mem_SubtractLimit"
  "st_Now memory_storage = Some mem_Now" "st_LogAuditEntry memory_storage = None"
  "st_GetAuditLogs memory_storage = None"
  by (simp_all add: memory_storage_def)

lemma mem_CheckRateLimit_view: "mem_view (snd (mem_CheckRateLimit now rq s)) = mem_view s"
  by (simp add: mem_CheckRateLimit_def mem_checkTokenBucket_def mem_checkSlidingWindow_def Let_def split: list.split)

interpretation memory: quota_backend memory_storage mem_usageKey mem_view
proof
  fix now u r p key s rq f q
  show "spec_consume (mem_usageKey (cq_UserID q) (cq_Resource q) (cq_Period q)) q (mem_view s)
    = (fst (st_ConsumeQuota memory_storage now q s), mem_view (snd (st_ConsumeQuota memory_storage now q s)))"
    using mem.consume_refines by simp
  show "mem_view (snd (st_GetEntitlement memory_storage now u s)) = mem_view s"
    by (simp add: mem_GetEntitlement_def split: option.split)
  show "mem_view (snd (st_GetUsage memory_storage now u r p s)) = mem_view s"
    by (simp add: mem_GetUsage_def split: option.split)
  show "\<exists>uo. fst (st_GetUsage memory_storage now u r p s) = Inr uo
      \<and> map_option (\<lambda>x. (u_Used x, u_Limit x)) uo = lg_acct (mem_view s) (mem_usageKey u r p)"
    by (simp add: mem_GetUsage_def split: option.split)
  show "mem_view (snd (st_GetConsumptionRecord memory_storage now key s)) = mem_view s"
    by (simp add: mem_GetConsumptionRecord_def)
  show "\<exists>ro. fst (st_GetConsumptionRecord memory_storage now key s) = Inr ro
      \<and> map_option cn_NewUsed ro = lg_done (mem_view s) key"
    by (simp add: mem_GetConsumptionRecord_def)
  show "mem_view (snd (st_CheckRateLimit memory_storage now rq s)) = mem_view s"
    by (simp add: mem_CheckRateLimit_view)
  show "mem_view (snd (st_RecordRateLimitRequest memory_storage now rq s)) = mem_view s"
    by (simp add: mem_RecordRateLimitRequest_def)
  assume "st_Now memory_storage = Some f"
  then show "mem_view (snd (f now s)) = mem_view s" by (auto simp: mem_Now_def)
qed

section \<open>Keys\<close>

lemma append_sep_inj:
  assumes "x @ c # y = x' @ c # y'" "c \<notin> set y" "c \<notin> set y'"
  shows "x = x' \<and> y = y'"
  using assms by (auto simp: append_eq_append_conv2 append_eq_Cons_conv Cons_eq_append_conv)

text \<open>Two usage records share a storage key only when user, resource and period key agree, provided
  resource names contain no colon; user ids may contain any.\<close>

theorem mem_usageKey_inj:
  assumes "CHR '':'' \<notin> set r" "CHR '':'' \<notin> set r'"
    and "mem_usageKey u r p = mem_usageKey u' r' p'"
  shows "u = u' \<and> r = r' \<and> period_Key p = period_Key p'"
proof -
  have "(u @ CHR '':'' # r) @ CHR '':'' # period_Key p = (u' @ CHR '':'' # r') @ CHR '':'' # period_Key p'"
    using assms(3) by (simp add: mem_usageKey_def)
  from append_sep_inj [OF this period_Key_no_colon period_Key_no_colon]
  have "u @ CHR '':'' # r = u' @ CHR '':'' # r'" "period_Key p = period_Key p'" by blast+
  with append_sep_inj [OF this(1) assms(1,2)] show ?thesis by blast
qed

theorem mem_usageKey_inj_witness:
  "let p = \<lparr>p_Start = 0, p_End = 1, p_Type = PeriodTypeForever\<rparr> in
    mem_usageKey ''a:b'' ''c'' p \<noteq> mem_usageKey ''a'' ''bc'' p"
  unfolding Let_def
  using mem_usageKey_inj [of "''c''" "''bc''" "''a:b''" "\<lparr>p_Start = 0, p_End = 1, p_Type = PeriodTypeForever\<rparr>"
      "''a''" "\<lparr>p_Start = 0, p_End = 1, p_Type = PeriodTypeForever\<rparr>"] by auto

text \<open>The key does not tell a monthly from a daily period with the same start: a user whose
  billing cycle starts today has one record for both.\<close>

theorem mem_usageKey_collision:
  "mem_usageKey u r \<lparr>p_Start = t, p_End = e, p_Type = PeriodTypeMonthly\<rparr>
    = mem_usageKey u r \<lparr>p_Start = t, p_End = e', p_Type = PeriodTypeDaily\<rparr>"
  by (simp add: mem_usageKey_def)

section \<open>Quota\<close>

text \<open>C22: For any run of consume requests on one bucket with one limit, the recorded usage after the run is
  the usage before it plus exactly the accepted amounts, and it never exceeds the limit.\<close>

theorem mem_run_exact:
  assumes "\<forall>(now, q) \<in> set qs. mem_usageKey (cq_UserID q) (cq_Resource q) (cq_Period q) = key
      \<and> 0 < cq_Amount q \<and> cq_Amount q < 2 ^ 62 \<and> cq_IdempotencyKey q = '''' \<and> cq_Limit q = lmt"
    and "0 \<le> lmt" "lmt < 2 ^ 62" "0 \<le> lg_used (mem_view s) key" "lg_used (mem_view s) key \<le> lmt"
    and "mem.run qs s = (rs, s')"
  shows "lg_used (mem_view s') key = lg_used (mem_view s) key + mem.accepted qs rs
    \<and> lg_used (mem_view s') key \<le> lmt"
  by (rule mem.run_exact [OF _ assms(2-6)]) (use assms(1) in \<open>auto simp: mem.bucket_of_def\<close>)

theorem mem_run_exact_witness:
  "let p = \<lparr>p_Start = 0, p_End = 1, p_Type = PeriodTypeMonthly\<rparr>;
       req = (\<lambda>n. \<lparr>cq_UserID = ''u'', cq_Resource = ''api'', cq_Amount = n, cq_Tier = ''free'', cq_Period = p,
                 cq_Limit = 10, cq_IdempotencyKey = '''', cq_IdempotencyKeyTTL = 0\<rparr>);
       qs = [(0, req 7), (1, req 4), (2, req 3)];
       (rs, s') = mem.run qs mem_New
   in map snd rs = [None, Some ErrQuotaExceeded, None]
    \<and> lg_used (mem_view s') (mem_usageKey ''u'' ''api'' p) = 10"
proof -
  define p where "p = \<lparr>p_Start = 0, p_End = 1, p_Type = PeriodTypeMonthly\<rparr>"
  define req where "req = (\<lambda>n. \<lparr>cq_UserID = ''u'', cq_Resource = ''api'', cq_Amount = n, cq_Tier = ''free'',
    cq_Period = p, cq_Limit = 10, cq_IdempotencyKey = '''', cq_IdempotencyKeyTTL = 0\<rparr>)"
  define qs :: "(time \<times> ConsumeRequest) list" where "qs = [(0, req 7), (1, req 4), (2, req 3)]"
  obtain rs s' where run: "mem.run qs mem_New = (rs, s')" by fastforce
  have rs: "map snd rs = [None, Some ErrQuotaExceeded, None]" "mem.accepted qs rs = 10"
    using run by (auto simp: qs_def req_def mem_ConsumeQuota_def mem_New_def Let_def iadd_def wrap64_def)
  have "lg_used (mem_view s') (mem_usageKey ''u'' ''api'' p)
    = lg_used (mem_view mem_New) (mem_usageKey ''u'' ''api'' p) + mem.accepted qs rs
    \<and> lg_used (mem_view s') (mem_usageKey ''u'' ''api'' p) \<le> 10"
    by (rule mem_run_exact [OF _ _ _ _ _ run]) (simp_all add: qs_def req_def mem_New_def)
  moreover have "lg_used (mem_view mem_New) k = 0" for k by (simp add: mem_New_def)
  ultimately have "case mem.run qs mem_New of (rs, s') \<Rightarrow> map snd rs = [None, Some ErrQuotaExceeded, None]
    \<and> lg_used (mem_view s') (mem_usageKey ''u'' ''api'' p) = 10"
    using rs unfolding run prod.case by presburger
  then show ?thesis by (simp only: p_def req_def qs_def Let_def)
qed

text \<open>Consuming twice with one idempotency key counts once: the repeated call returns the first result
  and leaves every record as it is, whatever its other fields say.\<close>

theorem mem_consume_once:
  assumes "fst (mem_ConsumeQuota now q s) = (n, None)" "0 < cq_Amount q" "cq_IdempotencyKey q \<noteq> ''''"
    and "s' = snd (mem_ConsumeQuota now q s)" "cq_IdempotencyKey q' = cq_IdempotencyKey q" "0 < cq_Amount q'"
  shows "mem_ConsumeQuota now' q' s' = ((n, None), s')"
proof -
  have "ms_consumptions s' (cq_IdempotencyKey q') \<noteq> None"
    using assms by (auto simp: mem_ConsumeQuota_def Let_def split: option.splits if_splits)
  then have "snd (mem_ConsumeQuota now' q' s') = s'"
    using assms(3,5,6) by (auto simp: mem_ConsumeQuota_def)
  then show ?thesis using mem.replay [OF assms, of now'] by (simp add: prod_eq_iff)
qed

theorem mem_consume_once_witness:
  "let q = \<lparr>cq_UserID = ''u'', cq_Resource = ''api'', cq_Amount = 7, cq_Tier = ''free'',
             cq_Period = \<lparr>p_Start = 0, p_End = 1, p_Type = PeriodTypeMonthly\<rparr>, cq_Limit = 10,
             cq_IdempotencyKey = ''k'', cq_IdempotencyKeyTTL = 0\<rparr>;
       s = snd (mem_ConsumeQuota 0 q mem_New)
   in mem_ConsumeQuota 5 (q\<lparr>cq_Amount := 2\<rparr>) s = ((7, None), s)"
  unfolding Let_def
  by (rule mem_consume_once [OF _ _ _ refl])
    (simp_all add: mem_ConsumeQuota_def mem_New_def iadd_def wrap64_def)

text \<open>Refunding the amount of an accepted consumption, to the period it was charged to, restores the used
  amount.\<close>

theorem mem_consume_refund:
  assumes q: "fst (mem_ConsumeQuota now q s) = (n, None)" "0 < cq_Amount q"
      "cq_IdempotencyKey q = '''' \<or> ms_consumptions s (cq_IdempotencyKey q) = None"
    and rq: "rr_UserID rq = cq_UserID q" "rr_Resource rq = cq_Resource q" "rr_Period rq = cq_Period q"
      "rr_Amount rq = cq_Amount q" "p_Start (cq_Period q) \<noteq> zero_time"
      "rr_IdempotencyKey rq = '''' \<or> ms_refunds s (rr_IdempotencyKey rq) = None"
    and u: "u = lg_used (mem_view s) (mem_usageKey (cq_UserID q) (cq_Resource q) (cq_Period q))"
      "0 \<le> u" "int64_ok (u + cq_Amount q)"
  shows "fst (mem_RefundQuota now' rq (snd (mem_ConsumeQuota now q s))) = None
    \<and> lg_used (mem_view (snd (mem_RefundQuota now' rq (snd (mem_ConsumeQuota now q s)))))
        (mem_usageKey (cq_UserID q) (cq_Resource q) (cq_Period q)) = u"
  using mem.consume_refund [OF q(1,2) _ rq(1-5), of now'] q(3) rq(6) u
  by (auto simp: keyed_def mem.bucket_of_def)

theorem mem_consume_refund_witness:
  "let p = \<lparr>p_Start = 0, p_End = 1, p_Type = PeriodTypeMonthly\<rparr>;
       q = \<lparr>cq_UserID = ''u'', cq_Resource = ''api'', cq_Amount = 7, cq_Tier = ''free'',
             cq_Period = p, cq_Limit = 10, cq_IdempotencyKey = ''k'', cq_IdempotencyKeyTTL = 0\<rparr>;
       rq = \<lparr>rr_UserID = ''u'', rr_Resource = ''api'', rr_Amount = 7, rr_PeriodType = PeriodTypeMonthly,
             rr_Period = p, rr_IdempotencyKey = ''r'', rr_IdempotencyKeyTTL = 0, rr_Reason = '''', rr_Metadata = []\<rparr>
   in lg_used (mem_view (snd (mem_RefundQuota 9 rq (snd (mem_ConsumeQuota 5 q mem_New)))))
        (mem_usageKey ''u'' ''api'' p) = 0"
proof -
  define p where "p = \<lparr>p_Start = 0, p_End = 1, p_Type = PeriodTypeMonthly\<rparr>"
  define q where "q = \<lparr>cq_UserID = ''u'', cq_Resource = ''api'', cq_Amount = 7, cq_Tier = ''free'',
    cq_Period = p, cq_Limit = 10, cq_IdempotencyKey = ''k'', cq_IdempotencyKeyTTL = 0\<rparr>"
  define rq where "rq = \<lparr>rr_UserID = ''u'', rr_Resource = ''api'', rr_Amount = 7,
    rr_PeriodType = PeriodTypeMonthly, rr_Period = p, rr_IdempotencyKey = ''r'', rr_IdempotencyKeyTTL = 0,
    rr_Reason = '''', rr_Metadata = []\<rparr>"
  have z: "p_Start p \<noteq> zero_time" unfolding p_def by code_simp
  have "fst (mem_ConsumeQuota 5 q mem_New) = (7, None)"
    by (simp add: mem_ConsumeQuota_def mem_New_def q_def iadd_def wrap64_def)
  from mem_consume_refund [OF this, of rq 0 9] z
  have "lg_used (mem_view (snd (mem_RefundQuota 9 rq (snd (mem_ConsumeQuota 5 q mem_New)))))
    (mem_usageKey ''u'' ''api'' p) = 0"
    by (simp add: q_def rq_def mem_New_def int64_ok_def)
  then show ?thesis by (simp only: p_def q_def rq_def Let_def)
qed

text \<open>A top-up with an idempotency key raises a limit once: any later top-up with that key is answered
  ErrIdempotencyKeyExists and changes nothing.\<close>

theorem mem_add_limit_once:
  assumes "key \<noteq> ''''" "fst (mem_AddLimit now u r amount p key s) = None"
    and "s' = snd (mem_AddLimit now u r amount p key s)"
  shows "mem_AddLimit now' u' r' amount' p' key s' = (Some ErrIdempotencyKeyExists, s')"
proof -
  have "fst (mem_AddLimit now' u' r' amount' p' key s') = Some ErrIdempotencyKeyExists"
    using mem.add_once [OF assms(1,2)] assms(3) by simp
  then show ?thesis by (auto simp: mem_AddLimit_def Let_def split: if_splits option.splits)
qed

theorem mem_add_limit_once_witness:
  "let p = \<lparr>p_Start = 0, p_End = 1, p_Type = PeriodTypeForever\<rparr>;
       s = snd (mem_AddLimit 0 ''u'' ''api'' 100 p ''order-1'' mem_New)
   in mem_AddLimit 3 ''u'' ''api'' 100 p ''order-1'' s = (Some ErrIdempotencyKeyExists, s)"
  unfolding Let_def by (rule mem_add_limit_once [OF _ _ refl]) (simp_all add: mem_AddLimit_def mem_New_def)

text \<open>An amount that overflows 64 bits passes the limit test: after one unit, a request for the largest
  amount is accepted against a limit of 100 and leaves a negative usage.\<close>

theorem mem_consume_overflow:
  "let p = \<lparr>p_Start = 0, p_End = 1, p_Type = PeriodTypeMonthly\<rparr>;
       req = (\<lambda>n. \<lparr>cq_UserID = ''u'', cq_Resource = ''api'', cq_Amount = n, cq_Tier = ''free'', cq_Period = p,
                 cq_Limit = 100, cq_IdempotencyKey = '''', cq_IdempotencyKeyTTL = 0\<rparr>);
       (r1, s1) = mem_ConsumeQuota 0 (req 1) mem_New;
       (r2, s2) = mem_ConsumeQuota 0 (req max_int64) s1
   in r1 = (1, None) \<and> r2 = (min_int64, None) \<and> lg_used (mem_view s2) (mem_usageKey ''u'' ''api'' p) = min_int64"
  by (simp add: mem_ConsumeQuota_def mem_New_def Let_def iadd_def wrap64_def max_int64_def min_int64_def)

section \<open>Sliding window\<close>

lemma valid_start_none: "\<forall>t \<in> set ts. \<not> t > c \<Longrightarrow> valid_start c i ts = 0"
  by (induction ts arbitrary: i) auto

lemma valid_start_some:
  assumes "\<exists>t \<in> set ts. t > c" "sorted ts"
  shows "drop (valid_start c i ts - i) ts = filter (\<lambda>t. t > c) ts \<and> i \<le> valid_start c i ts"
  using assms
proof (induction ts arbitrary: i)
  case (Cons t ts)
  show ?case
  proof (cases "t > c")
    case True
    with Cons.prems have "\<forall>x \<in> set ts. x > c" by auto
    with True show ?thesis by simp
  next
    case False
    with Cons.prems have IH: "drop (valid_start c (Suc i) ts - Suc i) ts = filter (\<lambda>t. t > c) ts"
      "Suc i \<le> valid_start c (Suc i) ts"
      using Cons.IH [of "Suc i"] by auto
    then have "valid_start c (Suc i) ts - i = Suc (valid_start c (Suc i) ts - Suc i)" by simp
    with False IH show ?thesis by simp
  qed
qed simp

lemma mem_sliding_window_stuck:
  assumes "ms_slidingWindows s key = Some w" "0 < sw_limit w" "sw_limit w \<le> int (length (sw_timestamps w))"
    and "\<forall>t \<in> set (sw_timestamps w). t \<le> time_Add (rq_Now req) (- sw_window w)"
  shows "mem_checkSlidingWindow key req s = (Inr (False, 0, time_Add (hd (sw_timestamps w)) (sw_window w)), s)
    \<and> time_Add (hd (sw_timestamps w)) (sw_window w) \<le> rq_Now req"
proof -
  have ne: "sw_timestamps w \<noteq> []" using assms(2,3) by auto
  have v: "valid_start (time_Add (rq_Now req) (- sw_window w)) 0 (sw_timestamps w) = 0"
    using assms(4) by (intro valid_start_none) auto
  have w: "w\<lparr>sw_timestamps := sw_timestamps w\<rparr> = w" by (cases w) simp
  have s: "s\<lparr>ms_slidingWindows := (ms_slidingWindows s)(key \<mapsto> w)\<rparr> = s"
    using assms(1) by (simp add: map_upd_triv)
  have hd: "hd (sw_timestamps w) \<le> time_Add (rq_Now req) (- sw_window w)" using assms(4) ne by simp
  have "mem_checkSlidingWindow key req s = (Inr (False, 0, time_Add (hd (sw_timestamps w)) (sw_window w)), s)"
    using ne assms(1,3) v s w
    by (simp add: mem_checkSlidingWindow_def Let_def list.case_eq_if)
  then show ?thesis using hd by (simp add: time_Add_def)
qed

text \<open>What a stored window keeps: timestamps in order, no more of them than its limit.\<close>

definition window_ok :: "SlidingWindowState \<Rightarrow> bool" where
  "window_ok w \<longleftrightarrow> sorted (sw_timestamps w) \<and> int (length (sw_timestamps w)) \<le> max 0 (sw_limit w)"

lemma mem_sliding_window_inv:
  assumes "\<forall>w. ms_slidingWindows s key = Some w \<longrightarrow> window_ok w \<and> (\<forall>t \<in> set (sw_timestamps w). t \<le> rq_Now req)"
    and "mem_checkSlidingWindow key req s = (r, s')"
  shows "\<exists>w. ms_slidingWindows s' key = Some w \<and> window_ok w \<and> (\<forall>t \<in> set (sw_timestamps w). t \<le> rq_Now req)
    \<and> (\<forall>rem rt. r = Inr (True, rem, rt) \<longrightarrow> last (sw_timestamps w) = rq_Now req)"
proof -
  define w where "w = (case ms_slidingWindows s key of Some w \<Rightarrow> w
    | None \<Rightarrow> \<lparr>sw_timestamps = [], sw_window = rq_Window req, sw_limit = rq_Rate req\<rparr>)"
  define ts where "ts = drop (valid_start (time_Add (rq_Now req) (- sw_window w)) 0 (sw_timestamps w)) (sw_timestamps w)"
  have w: "window_ok w" "\<forall>t \<in> set (sw_timestamps w). t \<le> rq_Now req"
    using assms(1) by (auto simp: w_def window_ok_def split: option.splits)
  have ts: "sorted ts" "int (length ts) \<le> max 0 (sw_limit w)" "\<forall>t \<in> set ts. t \<le> rq_Now req"
    using w by (auto simp: ts_def window_ok_def sorted_wrt_drop dest: in_set_dropD)
  show ?thesis
  proof (cases "sw_limit w \<le> int (length ts)")
    case True
    then have "ms_slidingWindows s' key = Some (w\<lparr>sw_timestamps := ts\<rparr>)" "\<forall>x. r \<noteq> Inr (True, x)"
      using assms(2) by (auto simp: mem_checkSlidingWindow_def Let_def ts_def w_def split: list.splits)
    then show ?thesis using ts by (auto simp: window_ok_def)
  next
    case False
    then have "ms_slidingWindows s' key = Some (w\<lparr>sw_timestamps := ts @ [rq_Now req]\<rparr>)"
      using assms(2) by (auto simp: mem_checkSlidingWindow_def Let_def ts_def w_def)
    then show ?thesis using ts False by (auto simp: window_ok_def sorted_append)
  qed
qed

end
