(* ===== verification/RateLimiter.thy ===== *)
theory RateLimiter
  imports MemoryStorage
begin

text \<open>
  The rate limiters of the package: \<open>rate_limiter.go\<close> (the choice), \<open>rate_limiter_storage.go\<close>
  (through a storage, the one the manager uses) and \<open>rate_limiter_memory.go\<close> (in process), with
  what each admits. The bucket and window records are those of \<open>MemoryStorage\<close>: the two packages
  declare the same structs.
\<close>

definition rate_limit_info :: "goint \<Rightarrow> time \<Rightarrow> goint \<Rightarrow> RateLimitInfo" where
  "rate_limit_info remaining reset limit =
     \<lparr>rli_Remaining = remaining, rli_ResetTime = reset, rli_Limit = limit\<rparr>"

section \<open>Through a storage\<close>

definition srl_Allow :: "'s Storage \<Rightarrow> time \<Rightarrow> string \<Rightarrow> string \<Rightarrow> RateLimitConfig \<Rightarrow> 's
    \<Rightarrow> (goerr + bool \<times> RateLimitInfo) \<times> 's" where
  "srl_Allow storage now userID resource config s =
     (let req = \<lparr>rq_UserID = userID, rq_Resource = resource, rq_Algorithm = rl_Algorithm config,
            rq_Rate = rl_Rate config, rq_Window = rl_Window config, rq_Burst = rl_Burst config,
            rq_Now = now\<rparr>
      in case st_CheckRateLimit storage now req s of
           (Inl err, s') \<Rightarrow>
             if is_panic err then (Inl err, s')
             else (Inr (True, rate_limit_info (rl_Rate config) (time_Add now (rl_Window config)) (rl_Rate config)), s')
         | (Inr (allowed, remaining, resetTime), s') \<Rightarrow>
             let s'' = (if allowed \<and> rl_Algorithm config = algorithmSlidingWindow
                        then snd (st_RecordRateLimitRequest storage now req s') else s')
             in (Inr (allowed, rate_limit_info remaining resetTime (rl_Rate config)), s''))"

section \<open>In process\<close>

record MemoryRateLimiter =
  rlm_tokenBuckets :: "string \<rightharpoonup> TokenBucketState"
  rlm_slidingWindows :: "string \<rightharpoonup> SlidingWindowState"

definition NewMemoryRateLimiter :: MemoryRateLimiter where
  "NewMemoryRateLimiter = \<lparr>rlm_tokenBuckets = Map.empty, rlm_slidingWindows = Map.empty\<rparr>"

definition rlm_allowTokenBucket :: "string \<Rightarrow> RateLimitConfig \<Rightarrow> time \<Rightarrow> MemoryRateLimiter
    \<Rightarrow> (goerr + bool \<times> RateLimitInfo) \<times> MemoryRateLimiter" where
  "rlm_allowTokenBucket key config now r =
     (let capacity = (if rl_Burst config \<le> 0 then rl_Rate config else rl_Burst config);
          bucket0 = (case rlm_tokenBuckets r key of
              Some b \<Rightarrow> b
            | None \<Rightarrow> \<lparr>tb_tokens = capacity, tb_lastRefill = now, tb_capacity = capacity,
                       tb_refillRate = rl_Rate config, tb_window = rl_Window config\<rparr>);
          bucket = refill now bucket0;
          save = (\<lambda>b. r\<lparr>rlm_tokenBuckets := (rlm_tokenBuckets r)(key \<mapsto> b)\<rparr>)
      in if tb_tokens bucket \<le> 0 then
           let nextTokenTime = (if tb_refillRate bucket > 0 then
                 let step = iquot (tb_window bucket) (tb_refillRate bucket);
                     t = time_Add (tb_lastRefill bucket) step
                 in (if t < now then time_Add now step else t)
               else time_Add now (tb_window bucket))
           in (Inr (False, rate_limit_info 0 nextTokenTime (rl_Rate config)), save bucket)
         else
           let bucket = bucket\<lparr>tb_tokens := isub (tb_tokens bucket) 1\<rparr>;
               resetTime = (if tb_tokens bucket < tb_capacity bucket then
                   let tokensNeeded = isub (tb_capacity bucket) (tb_tokens bucket);
                       timeToFull = f_to_int (f_div
                         (f_mul (f_of_int tokensNeeded) (f_of_int (tb_window bucket)))
                         (f_of_int (tb_refillRate bucket)))
                   in time_Add now timeToFull
                 else time_Add now (tb_window bucket))
           in (Inr (True, rate_limit_info (tb_tokens bucket) resetTime (rl_Rate config)), save bucket))"

definition rlm_allowSlidingWindow :: "string \<Rightarrow> RateLimitConfig \<Rightarrow> time \<Rightarrow> MemoryRateLimiter
    \<Rightarrow> (goerr + bool \<times> RateLimitInfo) \<times> MemoryRateLimiter" where
  "rlm_allowSlidingWindow key config now r =
     (let window0 = (case rlm_slidingWindows r key of
              Some w \<Rightarrow> w
            | None \<Rightarrow> \<lparr>sw_timestamps = [], sw_window = rl_Window config, sw_limit = rl_Rate config\<rparr>);
          cutoff = time_Add now (- sw_window window0);
          validTimestamps = filter (\<lambda>ts. ts > cutoff) (sw_timestamps window0);
          window = window0\<lparr>sw_timestamps := validTimestamps\<rparr>;
          save = (\<lambda>w. r\<lparr>rlm_slidingWindows := (rlm_slidingWindows r)(key \<mapsto> w)\<rparr>)
      in if int (length validTimestamps) \<ge> sw_limit window then
           (case validTimestamps of
              [] \<Rightarrow> (Inl (GoPanic ''index out of range''), save window)
            | oldestInWindow # _ \<Rightarrow>
                (Inr (False, rate_limit_info 0 (time_Add oldestInWindow (sw_window window)) (rl_Rate config)),
                 save window))
         else
           let timestamps = validTimestamps @ [now];
               window = window\<lparr>sw_timestamps := timestamps\<rparr>;
               remaining = isub (sw_limit window) (int (length timestamps));
               resetTime = (case timestamps of
                   [] \<Rightarrow> time_Add now (sw_window window)
                 | oldest # _ \<Rightarrow> time_Add oldest (sw_window window))
           in (Inr (True, rate_limit_info remaining resetTime (rl_Rate config)), save window))"

definition rlm_Allow :: "time \<Rightarrow> string \<Rightarrow> string \<Rightarrow> RateLimitConfig \<Rightarrow> MemoryRateLimiter
    \<Rightarrow> (goerr + bool \<times> RateLimitInfo) \<times> MemoryRateLimiter" where
  "rlm_Allow now userID resource config r =
     (let key = userID @ '':'' @ resource in
      if rl_Algorithm config = algorithmTokenBucket then rlm_allowTokenBucket key config now r
      else if rl_Algorithm config = algorithmSlidingWindow then rlm_allowSlidingWindow key config now r
      else (Inr (True, rate_limit_info (rl_Rate config) (time_Add now (rl_Window config)) (rl_Rate config)), r))"

text \<open>\<open>NewRateLimiter\<close>: which limiter a storage (present or nil) and the flag select.\<close>

datatype RateLimiterKind = StorageRateLimiterKind | MemoryRateLimiterKind

definition NewRateLimiter :: "bool \<Rightarrow> bool \<Rightarrow> RateLimiterKind" where
  "NewRateLimiter storage_present useMemory =
     (if storage_present \<and> \<not> useMemory then StorageRateLimiterKind else MemoryRateLimiterKind)"

section \<open>The sliding window admits at most its rate\<close>

text \<open>One window under requests at the instants of a list: the admitted instants, in order.\<close>

fun rlm_window_run :: "string \<Rightarrow> RateLimitConfig \<Rightarrow> time list \<Rightarrow> MemoryRateLimiter \<Rightarrow> time list" where
  "rlm_window_run key config [] r = []"
| "rlm_window_run key config (t # ts) r =
     (case rlm_allowSlidingWindow key config t r of
        (Inr (True, _), r') \<Rightarrow> t # rlm_window_run key config ts r'
      | (_, r') \<Rightarrow> rlm_window_run key config ts r')"

text \<open>How the stored timestamps relate to the instants \<open>A\<close> admitted so far.\<close>

definition window_hist :: "MemoryRateLimiter \<Rightarrow> string \<Rightarrow> RateLimitConfig \<Rightarrow> time list \<Rightarrow> time \<Rightarrow> bool" where
  "window_hist r key config A t \<longleftrightarrow>
     (case rlm_slidingWindows r key of
        None \<Rightarrow> A = []
      | Some w \<Rightarrow> sw_window w = rl_Window config \<and> sw_limit w = rl_Rate config
         \<and> (\<exists>c \<le> t - rl_Window config. sw_timestamps w = filter (\<lambda>x. x > c) A))"

lemma filter_later: "c \<le> d \<Longrightarrow> filter (\<lambda>x. c < x \<and> d < x) A = filter ((<) d) (A :: int list)"
  by (rule filter_cong) auto

lemma window_step:
  assumes "window_hist r key config A t" "t \<le> t'" "0 < rl_Window config"
    and "rlm_allowSlidingWindow key config t' r = (res, r')"
  defines "n \<equiv> length (filter (\<lambda>x. x > t' - rl_Window config) A)"
  shows "if int n < rl_Rate config
    then (\<exists>i. res = Inr (True, i)) \<and> window_hist r' key config (A @ [t']) t'
    else (\<forall>i. res \<noteq> Inr (True, i)) \<and> window_hist r' key config A t'"
proof -
  define w where "w = (case rlm_slidingWindows r key of Some w \<Rightarrow> w
    | None \<Rightarrow> \<lparr>sw_timestamps = [], sw_window = rl_Window config, sw_limit = rl_Rate config\<rparr>)"
  have w: "sw_window w = rl_Window config" "sw_limit w = rl_Rate config"
    "filter (\<lambda>x. x > t' - rl_Window config) (sw_timestamps w) = filter (\<lambda>x. x > t' - rl_Window config) A"
    using assms(1,2) by (auto simp: w_def window_hist_def filter_later split: option.splits)
  show ?thesis
    using assms(3,4) w
    by (auto simp: rlm_allowSlidingWindow_def Let_def w_def [symmetric] n_def time_Add_def window_hist_def
        split: if_splits list.splits intro!: exI [of _ "t' - rl_Window config"])
qed

lemma window_run_bound:
  assumes "window_hist r key config A t" "0 < rl_Window config" "\<forall>x \<in> set A. x \<le> t"
    and "sorted (t # ts)" "0 \<le> rl_Rate config"
    and "\<forall>u. int (length (filter (\<lambda>x. u - rl_Window config < x \<and> x \<le> u) A)) \<le> rl_Rate config"
    and "B = A @ rlm_window_run key config ts r"
  shows "int (length (filter (\<lambda>x. u - rl_Window config < x \<and> x \<le> u) B)) \<le> rl_Rate config"
  using assms
proof (induction ts arbitrary: r A t)
  case (Cons t' ts)
  let ?n = "int (length (filter (\<lambda>x. x > t' - rl_Window config) A))"
  obtain res r' where st: "rlm_allowSlidingWindow key config t' r = (res, r')" by fastforce
  have tt: "t \<le> t'" "sorted (t' # ts)" "\<forall>x \<in> set A. x \<le> t'" using Cons.prems(3,4) by auto
  note step = window_step [OF Cons.prems(1) tt(1) Cons.prems(2) st]
  show ?case
  proof (cases "?n < rl_Rate config")
    case True
    with step obtain i where i: "res = Inr (True, i)" "window_hist r' key config (A @ [t']) t'" by auto
    have "int (length (filter (\<lambda>x. v - rl_Window config < x \<and> x \<le> v) (A @ [t']))) \<le> rl_Rate config" for v
    proof (cases "v - rl_Window config < t' \<and> t' \<le> v")
      case in_window: True
      have "length (filter (\<lambda>x. v - rl_Window config < x \<and> x \<le> v) A)
        \<le> length (filter (\<lambda>x. x > t' - rl_Window config) A)"
        using in_window by (intro length_filter_impl) auto
      with True in_window show ?thesis by simp
    next
      case False
      then have "filter (\<lambda>x. v - rl_Window config < x \<and> x \<le> v) [t'] = []" by auto
      then show ?thesis using Cons.prems(6) by (simp only: filter_append append_Nil2)
    qed
    with Cons.IH [OF i(2) Cons.prems(2) _ tt(2) Cons.prems(5)] tt(3) Cons.prems(7) show ?thesis
      by (simp add: st i(1))
  next
    case False
    with step have "window_hist r' key config A t'" "rlm_window_run key config (t' # ts) r = rlm_window_run key config ts r'"
      by (auto simp: st split: sum.splits prod.splits bool.splits)
    with Cons.IH [OF _ Cons.prems(2) tt(3,2) Cons.prems(5,6)] Cons.prems(7) show ?thesis by simp
  qed
qed simp

text \<open>C38: Over any sequence of requests in time order, the in-process sliding window admits at most its
  rate of them in any interval of the window's length, wherever that interval lies.\<close>

theorem rlm_sliding_window_bound:
  assumes "sorted ts" "0 < rl_Window config" "0 \<le> rl_Rate config"
    and "A = rlm_window_run key config ts NewMemoryRateLimiter"
  shows "int (length (filter (\<lambda>x. u - rl_Window config < x \<and> x \<le> u) A)) \<le> rl_Rate config"
proof (cases ts)
  case Nil
  then show ?thesis using assms(3,4) by simp
next
  case (Cons t ts')
  have "window_hist NewMemoryRateLimiter key config [] t"
    by (simp add: window_hist_def NewMemoryRateLimiter_def)
  from window_run_bound [OF this assms(2), of ts A] assms show ?thesis by (simp add: Cons)
qed

theorem rlm_sliding_window_bound_witness:
  "let config = \<lparr>rl_Algorithm = ''sliding_window'', rl_Rate = 2, rl_Window = 10, rl_Burst = 0\<rparr>;
       A = rlm_window_run ''k'' config [0, 1, 2, 11, 12, 13] NewMemoryRateLimiter
   in A = [0, 1, 11, 12] \<and> length (filter (\<lambda>x. 12 - 10 < x \<and> x \<le> 12) A) \<le> 2"
proof -
  let ?config = "\<lparr>rl_Algorithm = ''sliding_window'', rl_Rate = 2, rl_Window = 10, rl_Burst = 0\<rparr>"
  have A: "rlm_window_run ''k'' ?config [0, 1, 2, 11, 12, 13] NewMemoryRateLimiter = [0, 1, 11, 12]"
    by code_simp
  have "int (length (filter (\<lambda>x. 12 - rl_Window ?config < x \<and> x \<le> 12)
      (rlm_window_run ''k'' ?config [0, 1, 2, 11, 12, 13] NewMemoryRateLimiter))) \<le> rl_Rate ?config"
    by (rule rlm_sliding_window_bound [OF _ _ _ refl]) simp_all
  then show ?thesis unfolding Let_def A by simp
qed

section \<open>The two sliding windows\<close>

text \<open>The in-memory storage's window answers like the in-process one as long as the stored window is empty
  or still has a timestamp inside it.\<close>

theorem sliding_windows_agree:
  assumes "ms_slidingWindows s key = rlm_slidingWindows r key"
    and "\<forall>w. ms_slidingWindows s key = Some w \<longrightarrow> sorted (sw_timestamps w)
      \<and> (sw_timestamps w = [] \<or> (\<exists>t \<in> set (sw_timestamps w). t > rq_Now req - sw_window w))"
    and "rl_Rate config = rq_Rate req" "rl_Window config = rq_Window req"
    and "mem_checkSlidingWindow key req s = (x, s')" "rlm_allowSlidingWindow key config (rq_Now req) r = (y, r')"
  shows "y = map_sum id (\<lambda>(a, n, t). (a, rate_limit_info n t (rl_Rate config))) x
    \<and> rlm_slidingWindows r' key = ms_slidingWindows s' key"
proof -
  define w where "w = (case rlm_slidingWindows r key of Some w \<Rightarrow> w
    | None \<Rightarrow> \<lparr>sw_timestamps = [], sw_window = rl_Window config, sw_limit = rl_Rate config\<rparr>)"
  have w_eq: "(case rlm_slidingWindows r key of Some w \<Rightarrow> w
    | None \<Rightarrow> \<lparr>sw_timestamps = [], sw_window = rq_Window req, sw_limit = rq_Rate req\<rparr>) = w"
    unfolding w_def assms(3,4) ..
  let ?c = "rq_Now req - sw_window w"
  have v: "drop (valid_start ?c 0 (sw_timestamps w)) (sw_timestamps w) = filter (\<lambda>t. t > ?c) (sw_timestamps w)"
  proof (cases "sw_timestamps w = []")
    case False
    then have "sorted (sw_timestamps w)" "\<exists>t \<in> set (sw_timestamps w). t > ?c"
      using assms(1,2) by (auto simp: w_def split: option.splits)
    from valid_start_some [OF this(2,1), of 0] show ?thesis by simp
  qed simp
  show ?thesis
    using assms(5,6)
    by (auto simp: mem_checkSlidingWindow_def rlm_allowSlidingWindow_def Let_def time_Add_def assms(1)
        w_def [symmetric] w_eq v rate_limit_info_def simp del: length_drop split: if_splits list.splits)
qed

lemma sliding_windows_agree_witness:
  "let req = \<lparr>rq_UserID = ''u'', rq_Resource = ''r'', rq_Algorithm = ''sliding_window'', rq_Rate = 1,
              rq_Window = 10, rq_Burst = 0, rq_Now = 1000\<rparr>;
       config = \<lparr>rl_Algorithm = ''sliding_window'', rl_Rate = 1, rl_Window = 10, rl_Burst = 0\<rparr>
   in fst (rlm_allowSlidingWindow ''k'' config 1000 NewMemoryRateLimiter)
     = map_sum id (\<lambda>(a, n, t). (a, rate_limit_info n t 1)) (fst (mem_checkSlidingWindow ''k'' req mem_New))"
  unfolding Let_def
  using sliding_windows_agree [OF _ _ _ _ surjective_pairing surjective_pairing, of mem_New "''k''"
      NewMemoryRateLimiter "\<lparr>rq_UserID = ''u'', rq_Resource = ''r'', rq_Algorithm = ''sliding_window'', rq_Rate = 1,
              rq_Window = 10, rq_Burst = 0, rq_Now = 1000\<rparr>"
      "\<lparr>rl_Algorithm = ''sliding_window'', rl_Rate = 1, rl_Window = 10, rl_Burst = 0\<rparr>"]
  by (simp add: mem_New_def NewMemoryRateLimiter_def)

text \<open>When every stored timestamp has expired and the stored window is full, the in-process limiter
  admits the request and the in-memory storage refuses it, at this and every later instant.\<close>

theorem sliding_windows_differ:
  assumes "ms_slidingWindows s key = Some w" "rlm_slidingWindows r key = Some w"
    and "0 < sw_limit w" "sw_limit w \<le> int (length (sw_timestamps w))"
    and "\<forall>t \<in> set (sw_timestamps w). t + sw_window w \<le> now" "now \<le> now'"
    and "rq_Now req = now'"
  shows "(\<exists>i. fst (rlm_allowSlidingWindow key config now' r) = Inr (True, i))
    \<and> (\<exists>t. mem_checkSlidingWindow key req s = (Inr (False, 0, t), s) \<and> t \<le> now')"
proof -
  have f: "filter (\<lambda>t. t > time_Add now' (- sw_window w)) (sw_timestamps w) = []"
    using assms(5,6) by (fastforce simp: filter_empty_conv time_Add_def)
  have "\<exists>i. fst (rlm_allowSlidingWindow key config now' r) = Inr (True, i)"
    using assms(2,3) f by (simp add: rlm_allowSlidingWindow_def Let_def)
  moreover have "\<forall>t \<in> set (sw_timestamps w). t \<le> time_Add (rq_Now req) (- sw_window w)"
    using assms(5-7) by (fastforce simp: time_Add_def)
  note mem_sliding_window_stuck [OF assms(1,3,4) this]
  ultimately show ?thesis using assms(7) by blast
qed

text \<open>The instance of the two theorems: three requests a window apart at a rate of one.\<close>

theorem sliding_windows_differ_witness:
  "let w = \<lparr>sw_timestamps = [0], sw_window = 10, sw_limit = 1\<rparr>;
       req = \<lparr>rq_UserID = ''u'', rq_Resource = ''r'', rq_Algorithm = ''sliding_window'', rq_Rate = 1,
              rq_Window = 10, rq_Burst = 0, rq_Now = 1000\<rparr>;
       config = \<lparr>rl_Algorithm = ''sliding_window'', rl_Rate = 1, rl_Window = 10, rl_Burst = 0\<rparr>
   in (\<exists>i. fst (rlm_allowSlidingWindow ''k'' config 1000 (NewMemoryRateLimiter\<lparr>rlm_slidingWindows := [''k'' \<mapsto> w]\<rparr>))
         = Inr (True, i))
    \<and> (\<exists>t. fst (mem_checkSlidingWindow ''k'' req (mem_New\<lparr>ms_slidingWindows := [''k'' \<mapsto> w]\<rparr>)) = Inr (False, 0, t))"
  unfolding Let_def
  using sliding_windows_differ [of "mem_New\<lparr>ms_slidingWindows := [''k'' \<mapsto> \<lparr>sw_timestamps = [0], sw_window = 10, sw_limit = 1\<rparr>]\<rparr>"
      "''k''" "\<lparr>sw_timestamps = [0], sw_window = 10, sw_limit = 1\<rparr>"
      "NewMemoryRateLimiter\<lparr>rlm_slidingWindows := [''k'' \<mapsto> \<lparr>sw_timestamps = [0], sw_window = 10, sw_limit = 1\<rparr>]\<rparr>"
      10 1000 "\<lparr>rq_UserID = ''u'', rq_Resource = ''r'', rq_Algorithm = ''sliding_window'', rq_Rate = 1,
              rq_Window = 10, rq_Burst = 0, rq_Now = 1000\<rparr>"]
  by fastforce

section \<open>The token bucket\<close>

lemma f_to_int_ok: "int64_ok (f_to_int x)"
  by (simp add: f_to_int_def min_int64_def int64_ok_def split: option.split)

lemma refill_bounds:
  assumes "tb_tokens b \<le> tb_capacity b"
  shows "tb_tokens (refill now b) \<le> tb_capacity b \<and> tb_capacity (refill now b) = tb_capacity b
    \<and> tb_refillRate (refill now b) = tb_refillRate b \<and> tb_window (refill now b) = tb_window b"
  using assms by (simp add: refill_def Let_def intMin_def)

lemma refill_same_instant: "tb_lastRefill b = now \<Longrightarrow> refill now b = b"
  by (simp add: refill_def Let_def time_Sub_def min_int64_def max_int64_def)

text \<open>A bucket never holds more than its capacity, and admitting takes one token.\<close>

definition bucket_ok :: "TokenBucketState \<Rightarrow> bool" where
  "bucket_ok b \<longleftrightarrow> tb_tokens b \<le> tb_capacity b \<and> int64_ok (tb_capacity b) \<and> 0 \<le> tb_capacity b"

text \<open>A token bucket of the in-memory storage never holds more tokens than its capacity, whatever the
  float arithmetic of the refill yields; a request it admits had a token and leaves the others.\<close>

theorem mem_token_bucket_inv:
  assumes "\<forall>b. ms_tokenBuckets s key = Some b \<longrightarrow> bucket_ok b" "0 \<le> rq_Rate req" "int64_ok (rq_Rate req)"
    "int64_ok (rq_Burst req)"
    and "mem_checkTokenBucket key req s = (r, s')"
  shows "\<exists>b. ms_tokenBuckets s' key = Some b \<and> bucket_ok b
    \<and> (\<forall>n t. r = Inr (True, n, t) \<longrightarrow> 0 \<le> n \<and> n < tb_capacity b \<and> tb_tokens b = n)"
proof -
  define b0 where "b0 = (case ms_tokenBuckets s key of Some b \<Rightarrow> b
    | None \<Rightarrow> let burst = (if rq_Burst req \<le> 0 then rq_Rate req else rq_Burst req) in
        \<lparr>tb_tokens = burst, tb_lastRefill = rq_Now req, tb_capacity = burst,
         tb_refillRate = rq_Rate req, tb_window = rq_Window req\<rparr>)"
  define b where "b = refill (rq_Now req) b0"
  have "bucket_ok b0" using assms(1-4) by (auto simp: b0_def bucket_ok_def Let_def split: option.splits)
  then have b: "bucket_ok b" using refill_bounds [of b0 "rq_Now req"] by (auto simp: b_def bucket_ok_def)
  have pos: "0 < tb_tokens b \<Longrightarrow> isub (tb_tokens b) 1 = tb_tokens b - 1"
    using b by (intro isub_id) (auto simp: bucket_ok_def int64_ok_def)
  show ?thesis
    using assms(5) b pos
    unfolding mem_checkTokenBucket_def Let_def b0_def [unfolded Let_def, symmetric] b_def [symmetric]
    by (auto simp: bucket_ok_def split: if_splits)
qed


lemma mem_token_bucket_inv_witness:
  "let req = \<lparr>rq_UserID = ''u'', rq_Resource = ''r'', rq_Algorithm = ''token_bucket'', rq_Rate = 3,
              rq_Window = 10, rq_Burst = 0, rq_Now = 1000\<rparr>
   in \<exists>b. ms_tokenBuckets (snd (mem_checkTokenBucket ''k'' req mem_New)) ''k'' = Some b \<and> bucket_ok b"
  unfolding Let_def
  using mem_token_bucket_inv [OF _ _ _ _ surjective_pairing, of mem_New "''k''"
      "\<lparr>rq_UserID = ''u'', rq_Resource = ''r'', rq_Algorithm = ''token_bucket'', rq_Rate = 3,
        rq_Window = 10, rq_Burst = 0, rq_Now = 1000\<rparr>"]
  by (auto simp: mem_New_def int64_ok_def)

end
