(* ===== verification/LruCache.thy ===== *)
theory LruCache
  imports QuotaTypes
begin

text \<open>
  The caches of \<open>cache.go\<close>: the no-op cache, the LRU cache with expiry, and the choice between
  them as one type. Each Go map is an association list without duplicate keys, whose order
  stands for the order in which the eviction loop happens to range over it; \<open>oldest_any_order\<close>
  shows that the order does not matter.

  The locale \<open>ttl_cache\<close> is what a client may rely on, satisfied by both implementations: a
  cached value is one that was set under that key and not invalidated since.
\<close>

record 'v cacheEntry =
  ce_value :: 'v
  ce_expiration :: time
  ce_accessTime :: time
  ce_sequence :: goint

definition isExpired :: "time \<Rightarrow> 'v cacheEntry \<Rightarrow> bool" where
  "isExpired now e \<longleftrightarrow> now > ce_expiration e"

record LRUCache =
  lc_entitlements :: "(string \<times> Entitlement cacheEntry) list"
  lc_usage :: "(string \<times> Usage cacheEntry) list"
  lc_maxEntitlements :: goint
  lc_maxUsage :: goint
  lc_entitlementHits :: goint
  lc_entitlementMiss :: goint
  lc_usageHits :: goint
  lc_usageMisses :: goint
  lc_evictions :: goint
  lc_sequence :: goint

definition NewLRUCache :: "goint \<Rightarrow> goint \<Rightarrow> LRUCache" where
  "NewLRUCache maxEntitlements maxUsage =
     \<lparr>lc_entitlements = [], lc_usage = [],
      lc_maxEntitlements = (if maxEntitlements \<le> 0 then 1000 else maxEntitlements),
      lc_maxUsage = (if maxUsage \<le> 0 then 10000 else maxUsage),
      lc_entitlementHits = 0, lc_entitlementMiss = 0, lc_usageHits = 0, lc_usageMisses = 0,
      lc_evictions = 0, lc_sequence = 0\<rparr>"

section \<open>One map of the cache\<close>

text \<open>The eviction loop: the key, access time and sequence of the oldest entry so far.\<close>

fun oldest_loop :: "(string \<times> 'v cacheEntry) list \<Rightarrow> (string \<times> time \<times> goint) option
    \<Rightarrow> (string \<times> time \<times> goint) option" where
  "oldest_loop [] acc = acc"
| "oldest_loop ((key, entry) # rest) acc =
     oldest_loop rest
       (case acc of
          None \<Rightarrow> Some (key, ce_accessTime entry, ce_sequence entry)
        | Some (oldestKey, oldestTime, oldestSeq) \<Rightarrow>
            if ce_accessTime entry < oldestTime
               \<or> ce_accessTime entry = oldestTime \<and> ce_sequence entry < oldestSeq
            then Some (key, ce_accessTime entry, ce_sequence entry) else acc)"

definition oldestKey :: "(string \<times> 'v cacheEntry) list \<Rightarrow> string" where
  "oldestKey m = (case oldest_loop m None of None \<Rightarrow> '''' | Some (k, _) \<Rightarrow> k)"

text \<open>Room for a new key: the map and the number of evictions, 0 or 1.\<close>

definition evict :: "goint \<Rightarrow> string \<Rightarrow> (string \<times> 'v cacheEntry) list
    \<Rightarrow> (string \<times> 'v cacheEntry) list \<times> goint" where
  "evict mx key m =
     (if int (length m) \<ge> mx \<and> map_of m key = None
      then if oldestKey m \<noteq> '''' then (AList.delete (oldestKey m) m, 1) else (m, 0)
      else (m, 0))"

definition new_entry :: "time \<Rightarrow> 'v \<Rightarrow> duration \<Rightarrow> goint \<Rightarrow> 'v cacheEntry" where
  "new_entry now v ttl seq =
     \<lparr>ce_value = v, ce_expiration = time_Add now ttl, ce_accessTime = now, ce_sequence = seq\<rparr>"

definition touch :: "time \<Rightarrow> 'v cacheEntry \<Rightarrow> 'v cacheEntry" where
  "touch now e = e\<lparr>ce_accessTime := now\<rparr>"

section \<open>The methods\<close>

definition lru_GetEntitlement :: "time \<Rightarrow> string \<Rightarrow> LRUCache \<Rightarrow> Entitlement option \<times> LRUCache" where
  "lru_GetEntitlement now userID c =
     (case map_of (lc_entitlements c) userID of
        None \<Rightarrow> (None, c\<lparr>lc_entitlementMiss := iadd (lc_entitlementMiss c) 1\<rparr>)
      | Some entry \<Rightarrow>
          if isExpired now entry then (None, c\<lparr>lc_entitlementMiss := iadd (lc_entitlementMiss c) 1\<rparr>)
          else (Some (ce_value entry),
                c\<lparr>lc_entitlements := AList.update userID (touch now entry) (lc_entitlements c),
                  lc_entitlementHits := iadd (lc_entitlementHits c) 1\<rparr>))"

definition lru_SetEntitlement :: "time \<Rightarrow> string \<Rightarrow> Entitlement \<Rightarrow> duration \<Rightarrow> LRUCache \<Rightarrow> LRUCache" where
  "lru_SetEntitlement now userID ent ttl c =
     (let (m, n) = evict (lc_maxEntitlements c) userID (lc_entitlements c);
          seq = lc_sequence c
      in c\<lparr>lc_entitlements := AList.update userID (new_entry now ent ttl seq) m,
           lc_evictions := iadd (lc_evictions c) n, lc_sequence := iadd seq 1\<rparr>)"

definition lru_InvalidateEntitlement :: "string \<Rightarrow> LRUCache \<Rightarrow> LRUCache" where
  "lru_InvalidateEntitlement userID c =
     c\<lparr>lc_entitlements := AList.delete userID (lc_entitlements c)\<rparr>"

definition lru_GetUsage :: "time \<Rightarrow> string \<Rightarrow> LRUCache \<Rightarrow> Usage option \<times> LRUCache" where
  "lru_GetUsage now key c =
     (case map_of (lc_usage c) key of
        None \<Rightarrow> (None, c\<lparr>lc_usageMisses := iadd (lc_usageMisses c) 1\<rparr>)
      | Some entry \<Rightarrow>
          if isExpired now entry then (None, c\<lparr>lc_usageMisses := iadd (lc_usageMisses c) 1\<rparr>)
          else (Some (ce_value entry),
                c\<lparr>lc_usage := AList.update key (touch now entry) (lc_usage c),
                  lc_usageHits := iadd (lc_usageHits c) 1\<rparr>))"

definition lru_SetUsage :: "time \<Rightarrow> string \<Rightarrow> Usage \<Rightarrow> duration \<Rightarrow> LRUCache \<Rightarrow> LRUCache" where
  "lru_SetUsage now key usage ttl c =
     (let (m, n) = evict (lc_maxUsage c) key (lc_usage c);
          seq = lc_sequence c
      in c\<lparr>lc_usage := AList.update key (new_entry now usage ttl seq) m,
           lc_evictions := iadd (lc_evictions c) n, lc_sequence := iadd seq 1\<rparr>)"

definition lru_InvalidateUsage :: "string \<Rightarrow> LRUCache \<Rightarrow> LRUCache" where
  "lru_InvalidateUsage key c = c\<lparr>lc_usage := AList.delete key (lc_usage c)\<rparr>"

definition lru_Clear :: "LRUCache \<Rightarrow> LRUCache" where
  "lru_Clear c = c\<lparr>lc_entitlements := [], lc_usage := []\<rparr>"

record CacheStats =
  st_EntitlementHits :: goint
  st_EntitlementMisses :: goint
  st_UsageHits :: goint
  st_UsageMisses :: goint
  st_Evictions :: goint
  st_Size :: goint

definition lru_Stats :: "LRUCache \<Rightarrow> CacheStats" where
  "lru_Stats c = \<lparr>st_EntitlementHits = lc_entitlementHits c, st_EntitlementMisses = lc_entitlementMiss c,
     st_UsageHits = lc_usageHits c, st_UsageMisses = lc_usageMisses c, st_Evictions = lc_evictions c,
     st_Size = int (length (lc_entitlements c) + length (lc_usage c))\<rparr>"

text \<open>
  A value of the \<open>Cache\<close> interface. The LRU cache stores the pointer it is given, so a caller
  that goes on writing through it changes the cached value: \<open>cache_alias_usage\<close> is such a write.
\<close>

datatype Cache = NoopCache | LRU LRUCache

fun cache_GetEntitlement :: "time \<Rightarrow> string \<Rightarrow> Cache \<Rightarrow> Entitlement option \<times> Cache" where
  "cache_GetEntitlement now k NoopCache = (None, NoopCache)"
| "cache_GetEntitlement now k (LRU c) = (let (r, c') = lru_GetEntitlement now k c in (r, LRU c'))"

fun cache_SetEntitlement :: "time \<Rightarrow> string \<Rightarrow> Entitlement \<Rightarrow> duration \<Rightarrow> Cache \<Rightarrow> Cache" where
  "cache_SetEntitlement now k v ttl NoopCache = NoopCache"
| "cache_SetEntitlement now k v ttl (LRU c) = LRU (lru_SetEntitlement now k v ttl c)"

fun cache_InvalidateEntitlement :: "string \<Rightarrow> Cache \<Rightarrow> Cache" where
  "cache_InvalidateEntitlement k NoopCache = NoopCache"
| "cache_InvalidateEntitlement k (LRU c) = LRU (lru_InvalidateEntitlement k c)"

fun cache_GetUsage :: "time \<Rightarrow> string \<Rightarrow> Cache \<Rightarrow> Usage option \<times> Cache" where
  "cache_GetUsage now k NoopCache = (None, NoopCache)"
| "cache_GetUsage now k (LRU c) = (let (r, c') = lru_GetUsage now k c in (r, LRU c'))"

fun cache_SetUsage :: "time \<Rightarrow> string \<Rightarrow> Usage \<Rightarrow> duration \<Rightarrow> Cache \<Rightarrow> Cache" where
  "cache_SetUsage now k v ttl NoopCache = NoopCache"
| "cache_SetUsage now k v ttl (LRU c) = LRU (lru_SetUsage now k v ttl c)"

fun cache_InvalidateUsage :: "string \<Rightarrow> Cache \<Rightarrow> Cache" where
  "cache_InvalidateUsage k NoopCache = NoopCache"
| "cache_InvalidateUsage k (LRU c) = LRU (lru_InvalidateUsage k c)"

fun cache_alias_usage :: "string \<Rightarrow> Usage \<Rightarrow> Cache \<Rightarrow> Cache" where
  "cache_alias_usage k v NoopCache = NoopCache"
| "cache_alias_usage k v (LRU c) = (case map_of (lc_usage c) k of
     None \<Rightarrow> LRU c
   | Some e \<Rightarrow> LRU (c\<lparr>lc_usage := AList.update k (e\<lparr>ce_value := v\<rparr>) (lc_usage c)\<rparr>))"

section \<open>The eviction loop\<close>

definition older :: "'v cacheEntry \<Rightarrow> 'v cacheEntry \<Rightarrow> bool" where
  "older e f \<longleftrightarrow> ce_accessTime e < ce_accessTime f
     \<or> ce_accessTime e = ce_accessTime f \<and> ce_sequence e \<le> ce_sequence f"

lemma oldest_loop_min:
  assumes "acc = None \<or> (\<exists>k0 e0. acc = Some (k0, ce_accessTime e0, ce_sequence e0) \<and> (k0, e0) \<in> set m0)"
    and "\<forall>k0 t0 s0 k e. acc = Some (k0, t0, s0) \<and> (k, e) \<in> set m0 \<longrightarrow> t0 < ce_accessTime e \<or> t0 = ce_accessTime e \<and> s0 \<le> ce_sequence e"
    and "m0 = [] \<longleftrightarrow> acc = None" "m0 @ m \<noteq> []"
  shows "\<exists>k e. oldest_loop m acc = Some (k, ce_accessTime e, ce_sequence e) \<and> (k, e) \<in> set (m0 @ m)
    \<and> (\<forall>(k', e') \<in> set (m0 @ m). older e e')"
  using assms
proof (induction m arbitrary: acc m0)
  case Nil
  then show ?case by (fastforce simp: older_def)
next
  case (Cons ke m)
  obtain k e where ke: "ke = (k, e)" by fastforce
  define acc' where "acc' = (case acc of None \<Rightarrow> Some (k, ce_accessTime e, ce_sequence e)
    | Some (k0, t0, s0) \<Rightarrow> if ce_accessTime e < t0 \<or> ce_accessTime e = t0 \<and> ce_sequence e < s0
      then Some (k, ce_accessTime e, ce_sequence e) else acc)"
  have "\<exists>k1 e1. oldest_loop m acc' = Some (k1, ce_accessTime e1, ce_sequence e1) \<and> (k1, e1) \<in> set ((m0 @ [ke]) @ m)
    \<and> (\<forall>(k', e') \<in> set ((m0 @ [ke]) @ m). older e1 e')"
    using Cons.prems
    by (intro Cons.IH) (fastforce simp: acc'_def ke split: option.splits if_splits)+
  then show ?case by (simp add: ke acc'_def)
qed

lemma oldestKey_min:
  assumes "m \<noteq> []"
  obtains e where "(oldestKey m, e) \<in> set m" "\<forall>(k', e') \<in> set m. older e e'"
  using oldest_loop_min [of None "[]" m] assms that by (auto simp: oldestKey_def)

text \<open>The entry the eviction loop picks does not depend on the order in which Go ranges over the map,
  as long as no two entries share a sequence number.\<close>

theorem oldest_any_order:
  assumes "set m = set m'" "distinct (map fst m)" "distinct (map (\<lambda>(k, e). ce_sequence e) m)"
  shows "oldestKey m = oldestKey m'"
proof (cases "m = []")
  case False
  then obtain e where e: "(oldestKey m, e) \<in> set m" "\<forall>(k', e') \<in> set m. older e e'"
    by (rule oldestKey_min)
  from False assms(1) have "m' \<noteq> []" by auto
  then obtain e' where e': "(oldestKey m', e') \<in> set m'" "\<forall>(k'', e'') \<in> set m'. older e' e''"
    by (rule oldestKey_min)
  have "older e e'" "older e' e" using e e' assms(1) by fastforce+
  then have "ce_sequence e = ce_sequence e'" by (auto simp: older_def)
  with assms(3) e(1) e'(1) assms(1) have "(oldestKey m, e) = (oldestKey m', e')"
    by (auto simp: distinct_map inj_on_def)
  then show ?thesis by simp
qed (use assms(1) in \<open>auto simp: oldestKey_def\<close>)

theorem oldest_any_order_witness:
  "let e = (\<lambda>t s. \<lparr>ce_value = (), ce_expiration = 99, ce_accessTime = t, ce_sequence = s\<rparr>) in
    oldestKey [(''a'', e 5 0), (''b'', e 3 2), (''c'', e 3 1)] = oldestKey [(''b'', e 3 2), (''c'', e 3 1), (''a'', e 5 0)]
    \<and> oldestKey [(''a'', e 5 0), (''b'', e 3 2), (''c'', e 3 1)] = ''c''"
  unfolding Let_def
  by (intro conjI oldest_any_order) (auto simp: oldestKey_def)

lemma evict_keys: "set (map fst (fst (evict mx k m))) \<subseteq> set (map fst m)"
  by (auto simp: evict_def AList.delete_eq)

lemma evict_distinct: "distinct (map fst m) \<Longrightarrow> distinct (map fst (fst (evict mx k m)))"
  by (auto simp: evict_def distinct_delete)

lemma map_of_evict:
  "distinct (map fst m) \<Longrightarrow> map_of (fst (evict mx k m)) k' \<in> {None, map_of m k'}"
  by (auto simp: evict_def delete_conv')

lemma length_delete_present:
  assumes "distinct (map fst m)" "k \<in> set (map fst m)"
  shows "Suc (length (AList.delete k m)) = length m"
proof -
  have "map fst (AList.delete k m) = removeAll k (map fst m)"
    by (induction m) (auto simp: AList.delete_eq)
  also have "\<dots> = remove1 k (map fst m)" using assms(1) by (simp add: distinct_remove1_removeAll)
  finally have "length (map fst (AList.delete k m)) = length (map fst m) - 1"
    using assms(2) by (simp only: length_remove1 if_True)
  then show ?thesis using assms(2) by (cases m) auto
qed

lemma length_update:
  "length (AList.update k v m) = (if map_of m k = None then Suc (length m) else length m)"
  by (induction m) auto

definition cache_map_ok :: "goint \<Rightarrow> (string \<times> 'v cacheEntry) list \<Rightarrow> bool" where
  "cache_map_ok mx m \<longleftrightarrow> distinct (map fst m) \<and> '''' \<notin> set (map fst m) \<and> int (length m) \<le> mx"

lemma cache_map_set:
  assumes "cache_map_ok mx m" "0 < mx" "k \<noteq> ''''"
  shows "cache_map_ok mx (AList.update k v (fst (evict mx k m)))"
proof -
  have d: "distinct (map fst (AList.update k v (fst (evict mx k m))))"
    using assms(1) by (intro distinct_update evict_distinct) (simp add: cache_map_ok_def)
  have n: "'''' \<notin> set (map fst (AList.update k v (fst (evict mx k m))))"
    using assms evict_keys [of mx k m] by (auto simp: update_keys cache_map_ok_def)
  have "int (length (AList.update k v (fst (evict mx k m)))) \<le> mx"
  proof (cases "int (length m) \<ge> mx \<and> map_of m k = None")
    case True
    then have "m \<noteq> []" using assms(2) by auto
    then obtain e where "(oldestKey m, e) \<in> set m" by (rule oldestKey_min)
    then have old: "oldestKey m \<in> set (map fst m)" by force
    then have "oldestKey m \<noteq> ''''" using assms(1) unfolding cache_map_ok_def by metis
    then show ?thesis
      using True assms(1) length_delete_present [OF _ old]
      by (simp add: evict_def length_update delete_conv' cache_map_ok_def)
  next
    case False
    then show ?thesis using assms(1) by (auto simp: evict_def length_update cache_map_ok_def)
  qed
  with d n show ?thesis by (simp add: cache_map_ok_def)
qed

definition lru_ok :: "LRUCache \<Rightarrow> bool" where
  "lru_ok c \<longleftrightarrow> cache_map_ok (lc_maxEntitlements c) (lc_entitlements c)
     \<and> cache_map_ok (lc_maxUsage c) (lc_usage c) \<and> 0 < lc_maxEntitlements c \<and> 0 < lc_maxUsage c"

lemma lru_ok_New: "lru_ok (NewLRUCache a b)"
  by (simp add: lru_ok_def NewLRUCache_def cache_map_ok_def)

lemma cache_map_touch: "cache_map_ok mx m \<Longrightarrow> map_of m k = Some e \<Longrightarrow> cache_map_ok mx (AList.update k e' m)"
  by (auto simp: cache_map_ok_def length_update update_keys distinct_update map_of_eq_None_iff
      dest: map_of_SomeD intro: rev_image_eqI)

lemma cache_map_delete: "cache_map_ok mx m \<Longrightarrow> cache_map_ok mx (AList.delete k m)"
  unfolding cache_map_ok_def
  using length_delete_le [of k m] distinct_delete [of m k] by (auto simp: delete_keys)

text \<open>An LRU cache never holds more entries of either kind than its capacity, through any operation with
  non-empty keys.\<close>

theorem lru_size_bound:
  assumes "lru_ok c" "k \<noteq> ''''"
  shows "lru_ok (lru_SetUsage now k u ttl c) \<and> lru_ok (lru_SetEntitlement now k e ttl c)
    \<and> lru_ok (snd (lru_GetUsage now k c)) \<and> lru_ok (snd (lru_GetEntitlement now k c))
    \<and> lru_ok (lru_InvalidateUsage k c) \<and> lru_ok (lru_InvalidateEntitlement k c)
    \<and> st_Size (lru_Stats c) \<le> lc_maxEntitlements c + lc_maxUsage c"
  using assms cache_map_set [of "lc_maxUsage c" "lc_usage c" k] cache_map_set [of "lc_maxEntitlements c" "lc_entitlements c" k]
  by (auto simp: lru_ok_def lru_SetUsage_def lru_SetEntitlement_def lru_GetUsage_def lru_GetEntitlement_def
      lru_InvalidateUsage_def lru_InvalidateEntitlement_def lru_Stats_def Let_def case_prod_unfold
      cache_map_touch cache_map_delete split: option.splits)
     (auto simp: cache_map_ok_def)

lemma lru_size_bound_witness:
  "lru_ok (lru_SetEntitlement 0 ''u'' \<lparr>e_UserID = ''u'', e_Tier = ''t'', e_SubscriptionStartDate = 0, e_ExpiresAt = None,
     e_UpdatedAt = 0\<rparr> 5 (NewLRUCache 1 1))"
  using lru_size_bound [OF lru_ok_New, of "''u''" 0] by simp

section \<open>What a client may rely on\<close>

locale ttl_cache =
  fixes get :: "time \<Rightarrow> string \<Rightarrow> 'c \<Rightarrow> 'v option \<times> 'c"
    and put :: "time \<Rightarrow> string \<Rightarrow> 'v \<Rightarrow> duration \<Rightarrow> 'c \<Rightarrow> 'c"
    and invalidate :: "string \<Rightarrow> 'c \<Rightarrow> 'c"
    and peek :: "time \<Rightarrow> string \<Rightarrow> 'c \<Rightarrow> 'v option"
    and ok :: "'c \<Rightarrow> bool"
  assumes get_result: "fst (get now k c) = peek now k c"
    and get_keeps: "ok c \<Longrightarrow> peek t k' (snd (get now k c)) = peek t k' c"
    and put_self: "ok c \<Longrightarrow> peek t k (put now k v ttl c) \<in> {None, Some v}"
    and put_other: "ok c \<Longrightarrow> k' \<noteq> k \<Longrightarrow> peek t k' (put now k v ttl c) \<in> {None, peek t k' c}"
    and invalidate_self: "ok c \<Longrightarrow> peek t k (invalidate k c) = None"
    and invalidate_other: "ok c \<Longrightarrow> k' \<noteq> k \<Longrightarrow> peek t k' (invalidate k c) = peek t k' c"
    and ok_get: "ok c \<Longrightarrow> ok (snd (get now k c))"
    and ok_put: "ok c \<Longrightarrow> ok (put now k v ttl c)"
    and ok_invalidate: "ok c \<Longrightarrow> ok (invalidate k c)"
begin

text \<open>
  What the cache can still return agrees with the store in the part \<open>proj\<close> of a value, except at
  the keys \<open>X\<close>, which have been written and not yet invalidated.
\<close>

definition coherent :: "('v \<Rightarrow> 'w) \<Rightarrow> string set \<Rightarrow> (string \<Rightarrow> 'w option) \<Rightarrow> 'c \<Rightarrow> bool" where
  "coherent proj X store c \<longleftrightarrow> (\<forall>t k v. peek t k c = Some v \<and> k \<notin> X \<longrightarrow> store k = Some (proj v))"

lemma coherent_get: "ok c \<Longrightarrow> coherent proj X store c \<Longrightarrow> coherent proj X store (snd (get now k c))"
  by (simp add: coherent_def get_keeps)

lemma coherent_get_value:
  "coherent proj X store c \<Longrightarrow> fst (get now k c) = Some v \<Longrightarrow> k \<notin> X \<Longrightarrow> store k = Some (proj v)"
  unfolding coherent_def get_result by blast

lemma coherent_put:
  assumes "ok c" "coherent proj X store c" "store k = Some (proj v)"
  shows "coherent proj X store (put now k v ttl c)"
  unfolding coherent_def
proof (intro allI impI, elim conjE)
  fix t k' v' assume p: "peek t k' (put now k v ttl c) = Some v'" "k' \<notin> X"
  show "store k' = Some (proj v')"
  proof (cases "k' = k")
    case True
    then show ?thesis using p(1) assms(3) put_self [OF assms(1), of t k now v ttl] by auto
  next
    case False
    with p put_other [OF assms(1) False, of t now v ttl] have "peek t k' c = Some v'" by simp
    with assms(2) p(2) show ?thesis by (simp add: coherent_def)
  qed
qed

text \<open>A write to the store at the keys \<open>Y\<close>; keys without a value may get one anywhere.\<close>

lemma coherent_store:
  assumes "coherent proj X store c" "\<forall>k. k \<notin> Y \<longrightarrow> store k \<noteq> None \<longrightarrow> store' k = store k"
  shows "coherent proj (X \<union> Y) store' c"
  using assms unfolding coherent_def by (metis UnCI option.distinct(1))

lemma coherent_invalidate:
  assumes "ok c" "coherent proj X store c"
  shows "coherent proj (X - {k}) store (invalidate k c)"
  unfolding coherent_def
proof (intro allI impI, elim conjE)
  fix t k' v assume p: "peek t k' (invalidate k c) = Some v" "k' \<notin> X - {k}"
  then have "k' \<noteq> k" using invalidate_self [OF assms(1)] by auto
  with p assms show "store k' = Some (proj v)" by (auto simp: coherent_def invalidate_other)
qed

end

fun peek_usage :: "time \<Rightarrow> string \<Rightarrow> Cache \<Rightarrow> Usage option" where
  "peek_usage now k NoopCache = None"
| "peek_usage now k (LRU c) = (case map_of (lc_usage c) k of
     None \<Rightarrow> None | Some e \<Rightarrow> if isExpired now e then None else Some (ce_value e))"

fun peek_entitlement :: "time \<Rightarrow> string \<Rightarrow> Cache \<Rightarrow> Entitlement option" where
  "peek_entitlement now k NoopCache = None"
| "peek_entitlement now k (LRU c) = (case map_of (lc_entitlements c) k of
     None \<Rightarrow> None | Some e \<Rightarrow> if isExpired now e then None else Some (ce_value e))"

fun cache_ok :: "Cache \<Rightarrow> bool" where
  "cache_ok NoopCache = True"
| "cache_ok (LRU c) = (distinct (map fst (lc_usage c)) \<and> distinct (map fst (lc_entitlements c)))"

lemmas cache_get_defs = lru_GetUsage_def lru_GetEntitlement_def touch_def isExpired_def
lemmas cache_set_defs = lru_SetUsage_def lru_SetEntitlement_def case_prod_unfold Let_def new_entry_def

interpretation uc: ttl_cache cache_GetUsage cache_SetUsage cache_InvalidateUsage peek_usage cache_ok
proof
  fix now t :: time and k k' :: string and c :: Cache and v :: Usage and ttl :: duration
  show "fst (cache_GetUsage now k c) = peek_usage now k c"
    by (cases c) (auto simp: cache_get_defs split: option.splits)
  assume ok: "cache_ok c"
  show "peek_usage t k' (snd (cache_GetUsage now k c)) = peek_usage t k' c"
    by (cases c) (auto simp: cache_get_defs update_conv' split: option.splits)
  show "peek_usage t k (cache_SetUsage now k v ttl c) \<in> {None, Some v}"
    by (cases c) (auto simp: cache_set_defs update_conv')
  show "k' \<noteq> k \<Longrightarrow> peek_usage t k' (cache_SetUsage now k v ttl c) \<in> {None, peek_usage t k' c}"
    using ok by (cases c) (auto simp: cache_set_defs update_conv' evict_def delete_conv')
  show "peek_usage t k (cache_InvalidateUsage k c) = None"
    by (cases c) (auto simp: lru_InvalidateUsage_def delete_conv')
  show "k' \<noteq> k \<Longrightarrow> peek_usage t k' (cache_InvalidateUsage k c) = peek_usage t k' c"
    by (cases c) (auto simp: lru_InvalidateUsage_def delete_conv')
  show "cache_ok (snd (cache_GetUsage now k c))" "cache_ok (cache_SetUsage now k v ttl c)"
    "cache_ok (cache_InvalidateUsage k c)"
    using ok by (cases c; auto simp: cache_get_defs cache_set_defs lru_InvalidateUsage_def distinct_update
        distinct_delete evict_distinct split: option.splits)+
qed

interpretation ec: ttl_cache cache_GetEntitlement cache_SetEntitlement cache_InvalidateEntitlement
  peek_entitlement cache_ok
proof
  fix now t :: time and k k' :: string and c :: Cache and v :: Entitlement and ttl :: duration
  show "fst (cache_GetEntitlement now k c) = peek_entitlement now k c"
    by (cases c) (auto simp: cache_get_defs split: option.splits)
  assume ok: "cache_ok c"
  show "peek_entitlement t k' (snd (cache_GetEntitlement now k c)) = peek_entitlement t k' c"
    by (cases c) (auto simp: cache_get_defs update_conv' split: option.splits)
  show "peek_entitlement t k (cache_SetEntitlement now k v ttl c) \<in> {None, Some v}"
    by (cases c) (auto simp: cache_set_defs update_conv')
  show "k' \<noteq> k \<Longrightarrow> peek_entitlement t k' (cache_SetEntitlement now k v ttl c) \<in> {None, peek_entitlement t k' c}"
    using ok by (cases c) (auto simp: cache_set_defs update_conv' evict_def delete_conv')
  show "peek_entitlement t k (cache_InvalidateEntitlement k c) = None"
    by (cases c) (auto simp: lru_InvalidateEntitlement_def delete_conv')
  show "k' \<noteq> k \<Longrightarrow> peek_entitlement t k' (cache_InvalidateEntitlement k c) = peek_entitlement t k' c"
    by (cases c) (auto simp: lru_InvalidateEntitlement_def delete_conv')
  show "cache_ok (snd (cache_GetEntitlement now k c))" "cache_ok (cache_SetEntitlement now k v ttl c)"
    "cache_ok (cache_InvalidateEntitlement k c)"
    using ok by (cases c; auto simp: cache_get_defs cache_set_defs lru_InvalidateEntitlement_def distinct_update
        distinct_delete evict_distinct split: option.splits)+
qed

lemma peek_usage_alias:
  "peek_usage t k' (cache_alias_usage k v c) =
     (if k' = k \<and> peek_usage t k c \<noteq> None then Some v else peek_usage t k' c)"
  by (cases c) (auto simp: update_conv' isExpired_def split: option.splits)

lemma cache_ok_alias: "cache_ok c \<Longrightarrow> cache_ok (cache_alias_usage k v c)"
  by (cases c) (auto simp: distinct_update split: option.splits)

text \<open>The two kinds of entries do not touch each other.\<close>

lemma peek_cross [simp]:
  "peek_entitlement t k (snd (cache_GetUsage now k' c)) = peek_entitlement t k c"
  "peek_entitlement t k (cache_SetUsage now k' u ttl c) = peek_entitlement t k c"
  "peek_entitlement t k (cache_InvalidateUsage k' c) = peek_entitlement t k c"
  "peek_entitlement t k (cache_alias_usage k' u c) = peek_entitlement t k c"
  "peek_usage t k (snd (cache_GetEntitlement now k' c)) = peek_usage t k c"
  "peek_usage t k (cache_SetEntitlement now k' e ttl c) = peek_usage t k c"
  "peek_usage t k (cache_InvalidateEntitlement k' c) = peek_usage t k c"
  by (induction c) (auto simp: cache_get_defs cache_set_defs lru_InvalidateUsage_def
      lru_InvalidateEntitlement_def split: option.split)

end
