(* ===== verification/Fallback.thy ===== *)
theory Fallback
  imports StorageApi LruCache
begin

text \<open>
  The fallback strategies of \<open>fallback.go\<close> as one datatype, with the methods of the
  \<open>FallbackStrategy\<close> interface by recursion over it. A strategy shares the manager's cache; the
  secondary storage is a parameter (its method table and its state). The calls read and write
  both, and report metrics, through \<open>fb_env\<close>. Only \<open>AllowOptimisticConsumption\<close> changes a
  strategy itself, so it returns the new one. The flag of a cache or secondary strategy says
  whether its pointer is set.

  Of an error built by \<open>fmt.Errorf\<close> the model keeps the static text and the wrapped error.
\<close>

datatype FallbackStrategy =
    CacheFallback bool duration
  | OptimisticFallback float64 "string \<rightharpoonup> goint"
  | SecondaryStorageFallback bool
  | CompositeFallback "FallbackStrategy list"

record 't fb_env =
  fe_cache :: Cache
  fe_secondary :: 't
  fe_metrics :: "metric list"

definition isContextError :: "goerr \<Rightarrow> bool" where
  "isContextError err \<longleftrightarrow> errors_Is err ErrContextDeadlineExceeded \<or> errors_Is err ErrContextCanceled"

definition storage_failure :: "goerr \<Rightarrow> bool" where
  "storage_failure err \<longleftrightarrow>
     errors_Is err ErrCircuitOpen \<or> errors_Is err ErrStorageUnavailable \<or> isContextError err"

definition NewOptimisticFallbackStrategy :: "float64 \<Rightarrow> FallbackStrategy" where
  "NewOptimisticFallbackStrategy percentage =
     (let percentage = (if percentage \<le> 0 then 10 else percentage);
          percentage = (if percentage > 100 then 100 else percentage)
      in OptimisticFallback percentage Map.empty)"

fun ShouldFallback :: "FallbackStrategy \<Rightarrow> goerr option \<Rightarrow> bool" where
  "ShouldFallback (CompositeFallback strategies) err =
     (case strategies of [] \<Rightarrow> False | s # _ \<Rightarrow> ShouldFallback s err)"
| "ShouldFallback _ err = (case err of None \<Rightarrow> False | Some e \<Rightarrow> storage_failure e)"

definition usage_cache_key :: "string \<Rightarrow> string \<Rightarrow> Period \<Rightarrow> string" where
  "usage_cache_key userID resource period = userID @ '':'' @ resource @ '':'' @ period_Key period"

text \<open>One strategy's answer, as the composite sees it: a panic is recovered as an error.\<close>

definition recover :: "goerr + 'a option \<Rightarrow> goerr + 'a option" where
  "recover r = (case r of Inl e \<Rightarrow> Inl (if is_panic e then ErrFallbackUnavailable else e) | Inr v \<Rightarrow> Inr v)"

definition next_error :: "goerr option \<Rightarrow> goerr + 'a option \<Rightarrow> goerr option" where
  "next_error lastErr r = (case r of Inl e \<Rightarrow> Some e | Inr _ \<Rightarrow> lastErr)"

definition stale :: "time \<Rightarrow> duration \<Rightarrow> time \<Rightarrow> bool" where
  "stale now maxStaleness updatedAt \<longleftrightarrow> maxStaleness > 0 \<and> time_Sub now updatedAt > maxStaleness"

definition cache_fallback_usage :: "bool \<Rightarrow> time \<Rightarrow> duration \<Rightarrow> string \<Rightarrow> 't fb_env \<Rightarrow> (goerr + Usage option) \<times> 't fb_env" where
  "cache_fallback_usage present now maxStaleness key env =
     (if \<not> present then (Inl ErrFallbackUnavailable, env) else
      let (found, cache') = cache_GetUsage now key (fe_cache env);
          env = env\<lparr>fe_cache := cache'\<rparr>
      in case found of
           None \<Rightarrow> (Inl ErrFallbackUnavailable, env)
         | Some usage \<Rightarrow>
             if stale now maxStaleness (u_UpdatedAt usage) then (Inl ErrStaleCache, env)
             else (Inr (Some usage), env\<lparr>fe_metrics := RecordFallbackHit ''cache'' # fe_metrics env\<rparr>))"

definition secondary_fallback_usage ::
  "bool \<Rightarrow> 't Storage \<Rightarrow> time \<Rightarrow> string \<Rightarrow> string \<Rightarrow> Period \<Rightarrow> 't fb_env \<Rightarrow> (goerr + Usage option) \<times> 't fb_env" where
  "secondary_fallback_usage present sec now userID resource period env =
     (if \<not> present then (Inl ErrFallbackUnavailable, env) else
      let (r, t') = st_GetUsage sec now userID resource period (fe_secondary env);
          env = env\<lparr>fe_secondary := t'\<rparr>
      in case r of
           Inl err \<Rightarrow> (Inl (if is_panic err then err
               else Wrapped ''fallback unavailable'' ErrFallbackUnavailable), env)
         | Inr usage \<Rightarrow> (Inr usage, env\<lparr>fe_metrics := RecordFallbackHit ''secondary_storage'' # fe_metrics env\<rparr>))"

fun GetFallbackUsage :: "'t Storage \<Rightarrow> time \<Rightarrow> string \<Rightarrow> string \<Rightarrow> Period \<Rightarrow> FallbackStrategy
      \<Rightarrow> 't fb_env \<Rightarrow> (goerr + Usage option) \<times> 't fb_env"
  and GetFallbackUsage_loop :: "'t Storage \<Rightarrow> time \<Rightarrow> string \<Rightarrow> string \<Rightarrow> Period \<Rightarrow> FallbackStrategy list
      \<Rightarrow> goerr option \<Rightarrow> 't fb_env \<Rightarrow> (goerr + Usage option) \<times> 't fb_env" where
  "GetFallbackUsage sec now u r p (CacheFallback present maxStaleness) env =
     cache_fallback_usage present now maxStaleness (usage_cache_key u r p) env"
| "GetFallbackUsage sec now u r p (OptimisticFallback pct opt) env = (Inl ErrFallbackUnavailable, env)"
| "GetFallbackUsage sec now u r p (SecondaryStorageFallback present) env =
     secondary_fallback_usage present sec now u r p env"
| "GetFallbackUsage sec now u r p (CompositeFallback strategies) env =
     GetFallbackUsage_loop sec now u r p strategies None env"
| "GetFallbackUsage_loop sec now u r p [] lastErr env =
     (Inl (case lastErr of None \<Rightarrow> ErrFallbackUnavailable | Some e \<Rightarrow> e), env)"
| "GetFallbackUsage_loop sec now u r p (s # ss) lastErr env =
     (let (res, env') = GetFallbackUsage sec now u r p s env; res = recover res in
      case res of
        Inr (Some usage) \<Rightarrow> (Inr (Some usage), env')
      | _ \<Rightarrow> GetFallbackUsage_loop sec now u r p ss (next_error lastErr res) env')"

definition cache_fallback_entitlement ::
  "bool \<Rightarrow> time \<Rightarrow> duration \<Rightarrow> string \<Rightarrow> 't fb_env \<Rightarrow> (goerr + Entitlement option) \<times> 't fb_env" where
  "cache_fallback_entitlement present now maxStaleness userID env =
     (if \<not> present then (Inl ErrFallbackUnavailable, env) else
      let (found, cache') = cache_GetEntitlement now userID (fe_cache env);
          env = env\<lparr>fe_cache := cache'\<rparr>
      in case found of
           None \<Rightarrow> (Inl ErrFallbackUnavailable, env)
         | Some ent \<Rightarrow>
             if stale now maxStaleness (e_UpdatedAt ent) then (Inl ErrStaleCache, env)
             else (Inr (Some ent), env\<lparr>fe_metrics := RecordFallbackHit ''cache'' # fe_metrics env\<rparr>))"

definition secondary_fallback_entitlement ::
  "bool \<Rightarrow> 't Storage \<Rightarrow> time \<Rightarrow> string \<Rightarrow> 't fb_env \<Rightarrow> (goerr + Entitlement option) \<times> 't fb_env" where
  "secondary_fallback_entitlement present sec now userID env =
     (if \<not> present then (Inl ErrFallbackUnavailable, env) else
      let (r, t') = st_GetEntitlement sec now userID (fe_secondary env);
          env = env\<lparr>fe_secondary := t'\<rparr>
      in case r of
           Inl err \<Rightarrow> (Inl (if is_panic err then err
               else Wrapped ''fallback unavailable'' ErrFallbackUnavailable), env)
         | Inr ent \<Rightarrow> (Inr (Some ent), env\<lparr>fe_metrics := RecordFallbackHit ''secondary_storage'' # fe_metrics env\<rparr>))"

fun GetFallbackEntitlement :: "'t Storage \<Rightarrow> time \<Rightarrow> string \<Rightarrow> FallbackStrategy
      \<Rightarrow> 't fb_env \<Rightarrow> (goerr + Entitlement option) \<times> 't fb_env"
  and GetFallbackEntitlement_loop :: "'t Storage \<Rightarrow> time \<Rightarrow> string \<Rightarrow> FallbackStrategy list
      \<Rightarrow> goerr option \<Rightarrow> 't fb_env \<Rightarrow> (goerr + Entitlement option) \<times> 't fb_env" where
  "GetFallbackEntitlement sec now u (CacheFallback present maxStaleness) env =
     cache_fallback_entitlement present now maxStaleness u env"
| "GetFallbackEntitlement sec now u (OptimisticFallback pct opt) env = (Inl ErrFallbackUnavailable, env)"
| "GetFallbackEntitlement sec now u (SecondaryStorageFallback present) env =
     secondary_fallback_entitlement present sec now u env"
| "GetFallbackEntitlement sec now u (CompositeFallback strategies) env =
     GetFallbackEntitlement_loop sec now u strategies None env"
| "GetFallbackEntitlement_loop sec now u [] lastErr env =
     (Inl (case lastErr of None \<Rightarrow> ErrFallbackUnavailable | Some e \<Rightarrow> e), env)"
| "GetFallbackEntitlement_loop sec now u (s # ss) lastErr env =
     (let (res, env') = GetFallbackEntitlement sec now u s env; res = recover res in
      case res of
        Inr (Some ent) \<Rightarrow> (Inr (Some ent), env')
      | _ \<Rightarrow> GetFallbackEntitlement_loop sec now u ss (next_error lastErr res) env')"

section \<open>Optimistic consumption\<close>

definition maxOptimistic :: "float64 \<Rightarrow> goint \<Rightarrow> goint" where
  "maxOptimistic percentage limit = f_to_int (f_div (f_mul (f_of_int limit) percentage) 100)"

definition optimistic_allow :: "float64 \<Rightarrow> (string \<rightharpoonup> goint) \<Rightarrow> Usage option \<Rightarrow> goint
    \<Rightarrow> bool \<times> (string \<rightharpoonup> goint)" where
  "optimistic_allow percentage optimisticUsage usage amount =
     (case usage of
        None \<Rightarrow> (False, optimisticUsage)
      | Some usage \<Rightarrow>
         if amount \<le> 0 then (False, optimisticUsage)
         else if u_Limit usage \<le> 0 then (False, optimisticUsage)
         else
           let mx = maxOptimistic percentage (u_Limit usage) in
           if mx \<le> 0 then (False, optimisticUsage)
           else
             let key = usage_cache_key (u_UserID usage) (u_Resource usage) (u_Period usage);
                 currentOptimistic = (case optimisticUsage key of None \<Rightarrow> 0 | Some n \<Rightarrow> n);
                 newOptimistic = iadd currentOptimistic amount
             in if newOptimistic > mx then (False, optimisticUsage)
                else (True, optimisticUsage(key \<mapsto> newOptimistic)))"

fun AllowOptimisticConsumption :: "FallbackStrategy \<Rightarrow> Usage option \<Rightarrow> goint
      \<Rightarrow> bool \<times> FallbackStrategy \<times> metric list"
  and AllowOptimistic_loop :: "FallbackStrategy list \<Rightarrow> Usage option \<Rightarrow> goint
      \<Rightarrow> bool \<times> FallbackStrategy list \<times> metric list" where
  "AllowOptimisticConsumption (CacheFallback c d) usage amount = (False, CacheFallback c d, [])"
| "AllowOptimisticConsumption (OptimisticFallback pct opt) usage amount =
     (let (ok, opt') = optimistic_allow pct opt usage amount in
      (ok, OptimisticFallback pct opt',
       if ok then [RecordFallbackHit ''optimistic'', RecordOptimisticConsumption amount] else []))"
| "AllowOptimisticConsumption (SecondaryStorageFallback c) usage amount = (False, SecondaryStorageFallback c, [])"
| "AllowOptimisticConsumption (CompositeFallback ss) usage amount =
     (let (ok, ss', ms) = AllowOptimistic_loop ss usage amount in (ok, CompositeFallback ss', ms))"
| "AllowOptimistic_loop [] usage amount = (False, [], [])"
| "AllowOptimistic_loop (s # ss) usage amount =
     (let (ok, s', ms) = AllowOptimisticConsumption s usage amount in
      if ok then (True, s' # ss, ms)
      else let (ok', ss', ms') = AllowOptimistic_loop ss usage amount in (ok', s' # ss', ms' @ ms))"

definition ResetOptimisticUsage :: "string \<Rightarrow> (string \<rightharpoonup> goint) \<Rightarrow> (string \<rightharpoonup> goint)" where
  "ResetOptimisticUsage key optimisticUsage = optimisticUsage(key := None)"

definition GetOptimisticUsage :: "string \<Rightarrow> (string \<rightharpoonup> goint) \<Rightarrow> goint" where
  "GetOptimisticUsage key optimisticUsage = (case optimisticUsage key of None \<Rightarrow> 0 | Some n \<Rightarrow> n)"

section \<open>What a fallback may answer\<close>

text \<open>The strategies that answer from the cache alone, with a staleness bound of at most \<open>d\<close>.\<close>

fun cache_only :: "duration \<Rightarrow> FallbackStrategy \<Rightarrow> bool" where
  "cache_only d (CacheFallback c maxStaleness) = (0 < maxStaleness \<and> maxStaleness \<le> d)"
| "cache_only d (OptimisticFallback pct opt) = True"
| "cache_only d (SecondaryStorageFallback c) = (\<not> c)"
| "cache_only d (CompositeFallback ss) = (\<forall>s \<in> set ss. cache_only d s)"

lemma recover_ok: "recover res = Inr v \<longleftrightarrow> res = Inr v"
  and recover_Inr [simp]: "recover (Inr v) = Inr v"
  by (auto simp: recover_def split: sum.splits)

text \<open>A strategy in state \<open>env\<close> answers what the cache holds, and leaves what it holds.\<close>

definition answers_from_cache :: "time \<Rightarrow> duration \<Rightarrow> string \<Rightarrow> 't fb_env \<Rightarrow> (goerr + Usage option) \<times> 't fb_env \<Rightarrow> bool" where
  "answers_from_cache now d key env out \<longleftrightarrow>
     cache_ok (fe_cache (snd out))
     \<and> peek_usage now key (fe_cache (snd out)) = peek_usage now key (fe_cache env)
     \<and> (\<forall>v. fst out = Inr (Some v) \<longrightarrow> peek_usage now key (fe_cache env) = Some v
          \<and> time_Sub now (u_UpdatedAt v) \<le> d)"

lemma answers_cache_fallback:
  assumes "cache_ok (fe_cache env)" "0 < m" "m \<le> d"
  shows "answers_from_cache now d key env (cache_fallback_usage c now m key env)"
  using assms uc.get_result [of now key "fe_cache env"] uc.get_keeps [of "fe_cache env" now key now key]
    uc.ok_get [of "fe_cache env" now key]
  by (auto simp: answers_from_cache_def cache_fallback_usage_def stale_def Let_def case_prod_unfold
      split: option.splits)

lemma answers_trans:
  assumes "answers_from_cache now d key env out" "answers_from_cache now d key (snd out) out'"
  shows "answers_from_cache now d key env out'"
  using assms by (simp add: answers_from_cache_def)

lemma answers_from_cache_only:
  "cache_ok (fe_cache env) \<Longrightarrow> cache_only d s \<Longrightarrow>
    answers_from_cache now d (usage_cache_key u r p) env (GetFallbackUsage sec now u r p s env)"
  "cache_ok (fe_cache env) \<Longrightarrow> \<forall>s \<in> set ss. cache_only d s \<Longrightarrow>
    answers_from_cache now d (usage_cache_key u r p) env (GetFallbackUsage_loop sec now u r p ss lastErr env)"
proof (induction sec now u r p s env and sec now u r p ss lastErr env
    rule: GetFallbackUsage_GetFallbackUsage_loop.induct)
  case (1 sec now u r p c m env)
  then show ?case by (simp add: answers_cache_fallback)
next
  case (6 sec now u r p s ss lastErr env)
  obtain res env' where g: "GetFallbackUsage sec now u r p s env = (res, env')" by fastforce
  have a: "answers_from_cache now d (usage_cache_key u r p) env (res, env')"
    using 6(1) 6(4,5) g by simp
  then have ok: "cache_ok (fe_cache env')" by (simp add: answers_from_cache_def)
  show ?case
  proof (cases "\<exists>v. recover res = Inr (Some v)")
    case True
    then show ?thesis using a by (auto simp: g recover_ok)
  next
    case False
    then have "answers_from_cache now d (usage_cache_key u r p) env'
        (GetFallbackUsage_loop sec now u r p ss (next_error lastErr (recover res)) env')"
      using 6(2,3) g ok 6(5)
      by (cases "recover res") (auto split: option.splits)
    with a False show ?thesis
      by (auto simp: g Let_def intro: answers_trans split: sum.splits option.splits)
  qed
qed (auto simp: answers_from_cache_def secondary_fallback_usage_def)

text \<open>While storage is down, a fallback without a secondary storage only ever answers with a usage that
  is in the cache and no older than the staleness bound; however the strategies are nested.\<close>

theorem fallback_usage_fresh:
  assumes "cache_ok (fe_cache env)" "cache_only d s"
    and "fst (GetFallbackUsage sec now u r p s env) = Inr (Some v)"
  shows "peek_usage now (usage_cache_key u r p) (fe_cache env) = Some v \<and> time_Sub now (u_UpdatedAt v) \<le> d"
  using answers_from_cache_only(1) [OF assms(1,2), of now u r p sec] assms(3)
  by (simp add: answers_from_cache_def)

text \<open>A panic of one strategy is recovered before the next one is asked.\<close>

lemma loop_no_panic:
  "\<not> (\<exists>e. lastErr = Some e \<and> is_panic e) \<Longrightarrow>
    fst (GetFallbackUsage_loop sec now u r p ss lastErr env) \<noteq> Inl (GoPanic msg)"
proof (induction ss arbitrary: lastErr env)
  case (Cons s ss)
  obtain res env' where g: "GetFallbackUsage sec now u r p s env = (res, env')" by fastforce
  have "\<not> (\<exists>e. next_error lastErr (recover res) = Some e \<and> is_panic e)"
    using Cons.prems by (auto simp: next_error_def recover_def split: sum.splits)
  from Cons.IH [OF this] show ?case by (auto simp: g Let_def split: sum.splits option.splits)
qed (auto split: option.splits)

theorem fallback_usage_fresh_witness:
  "\<forall>sec :: unit Storage. let v = \<lparr>u_UserID = ''u'', u_Resource = ''api'', u_Used = 3, u_Limit = 10,
         u_Period = \<lparr>p_Start = 0, p_End = 1, p_Type = PeriodTypeMonthly\<rparr>, u_Tier = ''free'', u_UpdatedAt = 100\<rparr>;
       c = cache_SetUsage 100 (usage_cache_key ''u'' ''api'' (u_Period v)) v 1000 (LRU (NewLRUCache 5 5));
       env = \<lparr>fe_cache = c, fe_secondary = (), fe_metrics = []\<rparr>
   in time_Sub 400 (u_UpdatedAt v) \<le> 500
    \<and> fst (GetFallbackUsage sec 400 ''u'' ''api'' (u_Period v) (CompositeFallback
        [OptimisticFallback 10 Map.empty, CacheFallback True 500]) env) = Inr (Some v)" (is "\<forall>sec. ?P sec")
proof
  fix sec :: "unit Storage"
  define v where "v = \<lparr>u_UserID = ''u'', u_Resource = ''api'', u_Used = 3, u_Limit = 10,
         u_Period = \<lparr>p_Start = 0, p_End = 1, p_Type = PeriodTypeMonthly\<rparr>, u_Tier = ''free'', u_UpdatedAt = 100\<rparr>"
  define k where "k = usage_cache_key ''u'' ''api'' (u_Period v)"
  define env where "env = \<lparr>fe_cache = cache_SetUsage 100 k v 1000 (LRU (NewLRUCache 5 5)),
    fe_secondary = (), fe_metrics = []\<rparr>"
  have vt: "u_UpdatedAt v = 100" by (simp add: v_def)
  have ok: "cache_ok (fe_cache env)"
    by (simp add: env_def NewLRUCache_def cache_set_defs evict_def)
  have r: "fst (GetFallbackUsage sec 400 ''u'' ''api'' (u_Period v) (CompositeFallback
        [OptimisticFallback 10 Map.empty, CacheFallback True 500]) env) = Inr (Some v)"
    by (simp add: env_def NewLRUCache_def cache_set_defs evict_def cache_get_defs cache_fallback_usage_def
        stale_def k_def [symmetric] vt time_Add_def time_Sub_def max_int64_def min_int64_def recover_def
        next_error_def)
  from fallback_usage_fresh [OF ok _ r, of 500] have "time_Sub 400 (u_UpdatedAt v) \<le> 500" by simp
  with r show "?P sec" by (simp only: Let_def v_def k_def env_def)
qed

text \<open>A composite fallback never lets a panic of one of its strategies through: asking it for usage ends
  with a usage record or an error value, whatever the strategies and the secondary storage do.\<close>

theorem composite_fallback_no_panic:
  "fst (GetFallbackUsage sec now u r p (CompositeFallback ss) env) \<noteq> Inl (GoPanic msg)"
  using loop_no_panic [of None] by simp

section \<open>The optimistic allowance\<close>

text \<open>Requests against the optimistic strategy one after the other: what is allowed in total for \<open>key\<close>.\<close>

definition opt_key :: "Usage \<Rightarrow> string" where
  "opt_key usage = usage_cache_key (u_UserID usage) (u_Resource usage) (u_Period usage)"

fun optimistic_run :: "float64 \<Rightarrow> (Usage \<times> goint) list \<Rightarrow> (string \<rightharpoonup> goint) \<Rightarrow> string
    \<Rightarrow> goint \<times> (string \<rightharpoonup> goint)" where
  "optimistic_run pct [] opt key = (0, opt)"
| "optimistic_run pct ((usage, amount) # rest) opt key =
     (let (ok, opt') = optimistic_allow pct opt (Some usage) amount;
          (total, opt'') = optimistic_run pct rest opt' key
      in ((if ok \<and> opt_key usage = key then amount else 0) + total, opt''))"

lemma optimistic_allow_cases:
  assumes "optimistic_allow pct opt (Some usage) amount = (ok, opt')"
  obtains "\<not> ok" "opt' = opt"
  | "ok" "0 < amount" "iadd (GetOptimisticUsage (opt_key usage) opt) amount \<le> maxOptimistic pct (u_Limit usage)"
    "0 < maxOptimistic pct (u_Limit usage)"
    "opt' = opt(opt_key usage \<mapsto> iadd (GetOptimisticUsage (opt_key usage) opt) amount)"
proof -
  have "\<not> ok \<and> opt' = opt \<or> ok \<and> 0 < amount
      \<and> iadd (GetOptimisticUsage (opt_key usage) opt) amount \<le> maxOptimistic pct (u_Limit usage)
      \<and> 0 < maxOptimistic pct (u_Limit usage)
      \<and> opt' = opt(opt_key usage \<mapsto> iadd (GetOptimisticUsage (opt_key usage) opt) amount)"
    using assms unfolding optimistic_allow_def GetOptimisticUsage_def opt_key_def Let_def
    by (simp split: if_splits)
  with that show thesis by blast
qed

lemma maxOptimistic_le:
  assumes "0 \<le> limit" "limit * 100 \<le> 2 ^ 53" "0 \<le> pct" "pct \<le> 100"
  shows "0 \<le> maxOptimistic pct limit \<and> maxOptimistic pct limit \<le> limit"
proof -
  have lim: "f_of_int limit = of_int limit"
    unfolding f_of_int_def using assms(1,2) by (intro fl_of_int) simp
  have "f_mul (of_int limit) pct \<le> fl (of_int (limit * 100))"
    unfolding f_mul_def using assms by (intro fl_mono) (simp add: mult_left_mono)
  also have "\<dots> = of_int (limit * 100)" using assms(1,2) by (intro fl_of_int) simp
  finally have m: "f_mul (of_int limit) pct / 100 \<le> of_int limit" by simp
  have m0: "0 \<le> f_mul (of_int limit) pct" unfolding f_mul_def using assms by (intro fl_nonneg) simp
  define d where "d = fl (f_mul (of_int limit) pct / 100)"
  have "d \<le> fl (of_int limit)" unfolding d_def using m by (rule fl_mono)
  then have d: "0 \<le> d" "d \<le> of_int limit"
    using m0 assms(1,2) lim by (auto simp: d_def f_of_int_def intro!: fl_nonneg)
  have "maxOptimistic pct limit = f_to_int (Some d)"
    by (simp add: maxOptimistic_def lim f_div_def d_def)
  moreover have "\<lfloor>d\<rfloor> \<le> limit" "0 \<le> \<lfloor>d\<rfloor>" using d by (simp_all add: floor_le_iff)
  moreover have "int64_ok \<lfloor>d\<rfloor>"
    using calculation assms(1,2) int64_ok_between [OF int64_ok_0, of limit "\<lfloor>d\<rfloor>"]
    by (simp add: int64_ok_def del: zero_le_floor floor_less_iff)
  ultimately show ?thesis using d(1) by (simp add: f_to_int_def rat_trunc_def int64_ok_def)
qed

lemma optimistic_run_bound:
  assumes "\<forall>(usage, amount) \<in> set qs. opt_key usage = key \<longrightarrow> u_Limit usage = limit"
    and "\<forall>(usage, amount) \<in> set qs. amount < 2 ^ 62"
    and "maxOptimistic pct limit < 2 ^ 62" "0 \<le> GetOptimisticUsage key opt"
    and "GetOptimisticUsage key opt \<le> max 0 (maxOptimistic pct limit)"
    and "optimistic_run pct qs opt key = (allowed, opt')"
  shows "GetOptimisticUsage key opt' = GetOptimisticUsage key opt + allowed
    \<and> GetOptimisticUsage key opt' \<le> max 0 (maxOptimistic pct limit)"
  using assms
proof (induction qs arbitrary: opt allowed)
  case (Cons q qs)
  obtain usage amount where q: "q = (usage, amount)" by fastforce
  obtain ok opt1 where a: "optimistic_allow pct opt (Some usage) amount = (ok, opt1)" by fastforce
  obtain total1 where r: "optimistic_run pct qs opt1 key = (total1, opt')"
    and t: "allowed = (if ok \<and> opt_key usage = key then amount else 0) + total1"
    using Cons.prems(6) a by (auto simp: q split: prod.splits)
  let ?n = "GetOptimisticUsage key opt"
  have am: "amount < 2 ^ 62" using Cons.prems(2) by (simp add: q)
  have "GetOptimisticUsage key opt1 = ?n + (if ok \<and> opt_key usage = key then amount else 0)
    \<and> 0 \<le> GetOptimisticUsage key opt1 \<and> GetOptimisticUsage key opt1 \<le> max 0 (maxOptimistic pct limit)"
    using a
  proof (cases rule: optimistic_allow_cases)
    case 2
    show ?thesis
    proof (cases "opt_key usage = key")
      case True
      have "iadd ?n amount = ?n + amount"
        using Cons.prems(3-5) 2(2) am by (intro iadd_id) (auto simp: int64_ok_def)
      with 2 True Cons.prems(1,4) show ?thesis by (auto simp: GetOptimisticUsage_def q)
    qed (use 2 Cons.prems(4,5) in \<open>auto simp: GetOptimisticUsage_def\<close>)
  qed (use Cons.prems(4,5) in auto)
  with Cons.IH [OF _ _ Cons.prems(3) _ _ r] Cons.prems(1,2) t show ?case by auto
qed simp

text \<open>C37: With requests handled one after the other, what the optimistic strategy allows for a usage key in
  all is exactly what it has recorded, and never more than the configured share of the limit nor
  than the limit itself (for limits up to 2^53 / 100, where the float arithmetic is exact enough).\<close>

theorem optimistic_total_bound:
  assumes "NewOptimisticFallbackStrategy percentage = OptimisticFallback pct opt"
    and "\<forall>(usage, amount) \<in> set qs. opt_key usage = key \<longrightarrow> u_Limit usage = limit"
    and "\<forall>(usage, amount) \<in> set qs. amount < 2 ^ 62" "0 \<le> limit" "limit * 100 \<le> 2 ^ 53"
    and "optimistic_run pct qs opt key = (allowed, opt')"
  shows "GetOptimisticUsage key opt' = allowed \<and> allowed \<le> maxOptimistic pct limit
    \<and> maxOptimistic pct limit \<le> limit"
proof -
  have p: "0 \<le> pct" "pct \<le> 100" "opt = Map.empty"
    using assms(1) by (auto simp: NewOptimisticFallbackStrategy_def Let_def)
  from maxOptimistic_le [OF assms(4,5) p(1,2)]
  have m: "0 \<le> maxOptimistic pct limit" "maxOptimistic pct limit \<le> limit" by auto
  then have "maxOptimistic pct limit < 2 ^ 62" using assms(5) by simp
  from optimistic_run_bound [OF assms(2,3) this _ _ assms(6)] m p(3)
  show ?thesis by (simp add: GetOptimisticUsage_def)
qed

theorem optimistic_total_bound_witness:
  "let usage = \<lparr>u_UserID = ''u'', u_Resource = ''api'', u_Used = 3, u_Limit = 50,
         u_Period = \<lparr>p_Start = 0, p_End = 1, p_Type = PeriodTypeMonthly\<rparr>, u_Tier = ''free'', u_UpdatedAt = 100\<rparr>;
       (allowed, opt') = optimistic_run 10 [(usage, 3), (usage, 4), (usage, 2)] Map.empty (opt_key usage)
   in allowed = 5 \<and> allowed \<le> maxOptimistic 10 50"
proof -
  define usage where "usage = \<lparr>u_UserID = ''u'', u_Resource = ''api'', u_Used = 3, u_Limit = 50,
         u_Period = \<lparr>p_Start = 0, p_End = 1, p_Type = PeriodTypeMonthly\<rparr>, u_Tier = ''free'', u_UpdatedAt = 100\<rparr>"
  define qs :: "(Usage \<times> goint) list" where "qs = [(usage, 3), (usage, 4), (usage, 2)]"
  obtain allowed opt' where r: "optimistic_run 10 qs Map.empty (opt_key usage) = (allowed, opt')" by fastforce
  have m: "maxOptimistic 10 50 = 5" by code_simp
  have "u_Limit usage = 50" by (simp add: usage_def)
  then have "allowed = 5"
    using r by (auto simp: qs_def optimistic_allow_def m opt_key_def iadd_def wrap64_def)
  moreover have "allowed \<le> maxOptimistic 10 50"
    using optimistic_total_bound [OF _ _ _ _ _ r, of 10 50]
    by (auto simp: NewOptimisticFallbackStrategy_def qs_def usage_def)
  ultimately have "case optimistic_run 10 qs Map.empty (opt_key usage) of
      (allowed, opt') \<Rightarrow> allowed = 5 \<and> allowed \<le> maxOptimistic 10 50"
    by (simp add: r)
  then show ?thesis by (simp only: usage_def qs_def Let_def)
qed

text \<open>
  \<open>AllowOptimisticConsumption\<close> reads the recorded usage under one lock and writes the new one
  under another. The steps of concurrent callers with one usage and amount: \<open>ow_pending\<close> holds
  the new value each caller in between is about to write, \<open>ow_allowed\<close> what callers were told
  they may consume.
\<close>

record opt_world =
  ow_usage :: "string \<rightharpoonup> goint"
  ow_pending :: "goint list"
  ow_allowed :: goint

inductive opt_step :: "float64 \<Rightarrow> Usage \<Rightarrow> goint \<Rightarrow> opt_world \<Rightarrow> opt_world \<Rightarrow> bool"
  for pct :: float64 and usage :: Usage and amount :: goint where
  load: "0 < amount \<Longrightarrow> 0 < u_Limit usage \<Longrightarrow> 0 < maxOptimistic pct (u_Limit usage) \<Longrightarrow>
    n = iadd (GetOptimisticUsage (opt_key usage) (ow_usage w)) amount \<Longrightarrow>
    n \<le> maxOptimistic pct (u_Limit usage) \<Longrightarrow>
    opt_step pct usage amount w (w\<lparr>ow_pending := n # ow_pending w\<rparr>)"
| store: "ow_pending w = ps @ n # ps' \<Longrightarrow>
    opt_step pct usage amount w (w\<lparr>ow_pending := ps @ ps', ow_usage := (ow_usage w)(opt_key usage \<mapsto> n),
      ow_allowed := ow_allowed w + amount\<rparr>)"

text \<open>A caller alone is the two steps in a row.\<close>

lemma opt_step_sequential:
  assumes "optimistic_allow pct (ow_usage w) (Some usage) amount = (True, opt')" "ow_pending w = []"
  shows "(opt_step pct usage amount)\<^sup>*\<^sup>* w (w\<lparr>ow_usage := opt', ow_allowed := ow_allowed w + amount\<rparr>)"
  using assms(1)
proof (cases rule: optimistic_allow_cases)
  case 2
  let ?n = "iadd (GetOptimisticUsage (opt_key usage) (ow_usage w)) amount"
  have "0 < u_Limit usage" using assms(1) by (auto simp: optimistic_allow_def split: if_splits)
  from opt_step.load [OF 2(2) this 2(4) refl 2(3)]
  have 1: "opt_step pct usage amount w (w\<lparr>ow_pending := ?n # ow_pending w\<rparr>)" .
  have "opt_step pct usage amount (w\<lparr>ow_pending := ?n # ow_pending w\<rparr>)
    (w\<lparr>ow_usage := opt', ow_allowed := ow_allowed w + amount\<rparr>)"
    using opt_step.store [of "w\<lparr>ow_pending := ?n # ow_pending w\<rparr>" "[]" ?n "[]" pct usage amount] 2(5) assms(2)
    by (cases w) simp
  with 1 show ?thesis by (meson rtranclp.rtrancl_into_rtrancl rtranclp.rtrancl_refl)
qed simp

lemma race_reads:
  assumes "0 < amount" "0 < u_Limit usage" "amount \<le> maxOptimistic pct (u_Limit usage)" "int64_ok amount"
  shows "(opt_step pct usage amount)\<^sup>*\<^sup>* \<lparr>ow_usage = Map.empty, ow_pending = [], ow_allowed = 0\<rparr>
    \<lparr>ow_usage = Map.empty, ow_pending = replicate k amount, ow_allowed = 0\<rparr>"
proof (induction k)
  case (Suc k)
  have "opt_step pct usage amount \<lparr>ow_usage = Map.empty, ow_pending = replicate k amount, ow_allowed = 0\<rparr>
    \<lparr>ow_usage = Map.empty, ow_pending = replicate (Suc k) amount, ow_allowed = 0\<rparr>"
    using opt_step.load [of amount usage pct amount "\<lparr>ow_usage = Map.empty, ow_pending = replicate k amount, ow_allowed = 0\<rparr>"]
      assms by (simp add: GetOptimisticUsage_def go_int)
  with Suc show ?case by (rule rtranclp.rtrancl_into_rtrancl)
qed simp

lemma race_writes:
  "(opt_step pct usage amount)\<^sup>*\<^sup>* \<lparr>ow_usage = opt, ow_pending = replicate k amount, ow_allowed = a\<rparr>
    \<lparr>ow_usage = (if k = 0 then opt else opt(opt_key usage \<mapsto> amount)), ow_pending = [], ow_allowed = a + int k * amount\<rparr>"
proof (induction k arbitrary: opt a)
  case (Suc k)
  have "opt_step pct usage amount \<lparr>ow_usage = opt, ow_pending = replicate (Suc k) amount, ow_allowed = a\<rparr>
    \<lparr>ow_usage = opt(opt_key usage \<mapsto> amount), ow_pending = replicate k amount, ow_allowed = a + amount\<rparr>"
    using opt_step.store [of "\<lparr>ow_usage = opt, ow_pending = replicate (Suc k) amount, ow_allowed = a\<rparr>" "[]"
        amount "replicate k amount" pct usage amount] by simp
  from converse_rtranclp_into_rtranclp [OF this Suc [of "opt(opt_key usage \<mapsto> amount)" "a + amount"]]
  show ?case by (cases "k = 0") (simp_all add: algebra_simps)
qed simp

text \<open>The bound of the optimistic allowance does not hold for concurrent callers: any number k of them can
  each be allowed an amount within the bound, while the strategy records a single one.\<close>

theorem optimistic_race:
  assumes "0 < amount" "0 < u_Limit usage" "amount \<le> maxOptimistic pct (u_Limit usage)" "int64_ok amount"
    and "0 < k"
  shows "(opt_step pct usage amount)\<^sup>*\<^sup>* \<lparr>ow_usage = Map.empty, ow_pending = [], ow_allowed = 0\<rparr>
    \<lparr>ow_usage = [opt_key usage \<mapsto> amount], ow_pending = [], ow_allowed = int k * amount\<rparr>"
  using rtranclp_trans [OF race_reads [OF assms(1-4), of k] race_writes [of pct usage amount Map.empty k 0]] assms(5)
  by simp

theorem optimistic_race_witness:
  "let usage = \<lparr>u_UserID = ''u'', u_Resource = ''api'', u_Used = 3, u_Limit = 50,
         u_Period = \<lparr>p_Start = 0, p_End = 1, p_Type = PeriodTypeMonthly\<rparr>, u_Tier = ''free'', u_UpdatedAt = 100\<rparr>
   in maxOptimistic 10 50 = 5 \<and> (opt_step 10 usage 5)\<^sup>*\<^sup>*
      \<lparr>ow_usage = Map.empty, ow_pending = [], ow_allowed = 0\<rparr>
      \<lparr>ow_usage = [opt_key usage \<mapsto> 5], ow_pending = [], ow_allowed = 100\<rparr>"
proof -
  have m: "maxOptimistic 10 50 = 5" by code_simp
  then show ?thesis
    using optimistic_race [of 5 "\<lparr>u_UserID = ''u'', u_Resource = ''api'', u_Used = 3, u_Limit = 50,
         u_Period = \<lparr>p_Start = 0, p_End = 1, p_Type = PeriodTypeMonthly\<rparr>, u_Tier = ''free'', u_UpdatedAt = 100\<rparr>"
        10 20]
    by (simp add: int64_ok_def)
qed

end
