(* ===== verification/ManagerBase.thy ===== *)
theory ManagerBase
  imports QuotaConfig BillingCycle CircuitBreaker RateLimiter Fallback "HOL-Library.State_Monad"
begin

text \<open>
  The manager of \<open>manager.go\<close>, part one: its state, its construction, and the operations the
  others are built from (clock, periods, entitlements, limits, rate limits, warnings).

  A call is a computation in the state monad over \<open>World\<close>: the storage behind the manager, the
  cache, the fallback strategy, the secondary storage and the trace of metric and warning-handler
  calls. It takes one clock reading, \<open>now\<close>, for all the \<open>time.Now()\<close> of the call. Log calls are
  left out. Calls on one manager run one after the other here; \<open>singleflight.Group.Do\<close>, which is
  not part of the repository, is a parameter of the manager (\<open>m_entitlementGroup\<close>,
  \<open>m_usageGroup\<close>), with \<open>flights_alone\<close> for what it documents of a caller without competitors.

  A storage operation other than \<open>CheckRateLimit\<close> answers with a value or an error; a panic of
  \<open>CheckRateLimit\<close> ends the call with that panic.
\<close>

record ('s, 't) World =
  w_storage :: 's
  w_cache :: Cache
  w_fallback :: "FallbackStrategy option"
  w_secondary :: 't
  w_metrics :: "metric list"

type_synonym ('s, 't, 'a) call = "(('s, 't) World, 'a) state"

type_synonym ('s, 't, 'a) flight = "string \<Rightarrow> ('s, 't, 'a) call \<Rightarrow> ('s, 't, 'a) call"

record ('s, 't) Manager =
  m_storage :: "'s Storage"
  m_secondary :: "'t Storage"
  m_config :: Config
  m_entitlementGroup :: "('s, 't, goerr + Entitlement) flight"
  m_usageGroup :: "('s, 't, goerr + (Usage \<times> bool) option) flight"

definition flights_alone :: "('s, 't) Manager \<Rightarrow> bool" where
  "flights_alone m \<longleftrightarrow> (\<forall>k f. m_entitlementGroup m k f = f) \<and> (\<forall>k f. m_usageGroup m k f = f)"

text \<open>Of a context: \<open>ctx.Err()\<close>, and whether it carries a warning handler.\<close>

record Context =
  ctx_Err :: "goerr option"
  ctx_WarningHandler :: bool

definition WithWarningHandler :: "Context \<Rightarrow> Context" where
  "WithWarningHandler ctx = ctx\<lparr>ctx_WarningHandler := True\<rparr>"

section \<open>Construction\<close>

definition initializeCache :: "Config \<Rightarrow> Cache \<times> Config" where
  "initializeCache config = (case c_CacheConfig config of
     None \<Rightarrow> (NoopCache, config)
   | Some cc \<Rightarrow> if \<not> cc_Enabled cc then (NoopCache, config) else
       let cc = cache_defaults cc
       in (LRU (NewLRUCache (cc_MaxEntitlements cc) (cc_MaxUsage cc)), config\<lparr>c_CacheConfig := Some cc\<rparr>))"

definition initializeCircuitBreaker :: "Config \<Rightarrow> CircuitBreaker option \<times> Config" where
  "initializeCircuitBreaker config = (case c_CircuitBreakerConfig config of
     None \<Rightarrow> (None, config)
   | Some cb \<Rightarrow> if \<not> cb_Enabled cb then (None, config) else
       let cb = breaker_defaults cb
       in (Some (NewDefaultCircuitBreaker (cb_FailureThreshold cb) (cb_ResetTimeout cb)),
           config\<lparr>c_CircuitBreakerConfig := Some cb\<rparr>))"

definition initializeFallback :: "Config \<Rightarrow> FallbackStrategy option" where
  "initializeFallback config = (case c_FallbackConfig config of
     None \<Rightarrow> None
   | Some fb \<Rightarrow> if \<not> fb_Enabled fb then None else
       let strategies =
            (if fb_FallbackToCache fb
             then [CacheFallback True (if fb_MaxStaleness fb = 0 then 5 * ns_per_minute else fb_MaxStaleness fb)]
             else [])
            @ (if fb_SecondaryStorage fb then [SecondaryStorageFallback True] else [])
            @ (if fb_OptimisticAllowance fb
               then [NewOptimisticFallbackStrategy (if fb_OptimisticAllowancePercentage fb = 0 then 10
                       else fb_OptimisticAllowancePercentage fb)]
               else [])
       in case strategies of [] \<Rightarrow> None | [s] \<Rightarrow> Some s | _ \<Rightarrow> Some (CompositeFallback strategies))"

text \<open>
  The manager over the storage as given, or over the circuit breaker's wrapper of it: the two
  dynamic types \<open>currentStorage\<close> can have. The rate limiter is the storage-backed one.
\<close>

datatype ('s, 't) built =
    Unguarded "('s, 't) Manager" "('s, 't) World"
  | Guarded "(CircuitBreaker \<times> 's, 't) Manager" "(CircuitBreaker \<times> 's, 't) World"

type_synonym ('s, 't) flights =
  "('s, 't, goerr + Entitlement) flight \<times> ('s, 't, goerr + (Usage \<times> bool) option) flight"

definition assemble :: "'s Storage \<Rightarrow> 't Storage \<Rightarrow> ('s, 't) flights \<Rightarrow> Config \<Rightarrow> 's \<Rightarrow> 't \<Rightarrow> Cache
    \<Rightarrow> ('s, 't) Manager \<times> ('s, 't) World" where
  "assemble storage secondary flights config s t cache =
     (\<lparr>m_storage = storage, m_secondary = secondary, m_config = config,
       m_entitlementGroup = fst flights, m_usageGroup = snd flights\<rparr>,
      \<lparr>w_storage = s, w_cache = cache, w_fallback = initializeFallback config, w_secondary = t,
       w_metrics = []\<rparr>)"

text \<open>The storage and the secondary storage come with their state.\<close>

definition NewManager :: "('s, 't) flights \<Rightarrow> (CircuitBreaker \<times> 's, 't) flights \<Rightarrow> ('s Storage \<times> 's) option
    \<Rightarrow> Config \<Rightarrow> 't Storage \<times> 't \<Rightarrow> goerr + ('s, 't) built" where
  "NewManager flights guarded_flights storage config secondary = (case storage of
     None \<Rightarrow> Inl ErrStorageUnavailable
   | Some (st, s) \<Rightarrow>
       if Validate config \<noteq> []
       then Inl (Wrapped ''invalid configuration'' (ErrText ''configuration validation failed''))
       else
         let config = applyConfigDefaults config;
             (cache, config) = initializeCache config;
             (breaker, config) = initializeCircuitBreaker config
         in case breaker of
              None \<Rightarrow>
                (let (m, w) = assemble st (fst secondary) flights config s (snd secondary) cache
                 in Inr (Unguarded m w))
            | Some cb \<Rightarrow>
                (let (m, w) = assemble (circuit_breaker_storage st) (fst secondary) guarded_flights config
                       (cb, s) (snd secondary) cache
                 in Inr (Guarded m w)))"

section \<open>Access to the parts of the world\<close>

definition on_storage :: "('s \<Rightarrow> 'a \<times> 's) \<Rightarrow> ('s, 't, 'a) call" where
  "on_storage f = State (\<lambda>w. let (r, s) = f (w_storage w) in (r, w\<lparr>w_storage := s\<rparr>))"

definition on_cache :: "(Cache \<Rightarrow> 'a \<times> Cache) \<Rightarrow> ('s, 't, 'a) call" where
  "on_cache f = State (\<lambda>w. let (r, c) = f (w_cache w) in (r, w\<lparr>w_cache := c\<rparr>))"

definition do_cache :: "(Cache \<Rightarrow> Cache) \<Rightarrow> ('s, 't, unit) call" where
  "do_cache f = State (\<lambda>w. ((), w\<lparr>w_cache := f (w_cache w)\<rparr>))"

definition record_metric :: "metric \<Rightarrow> ('s, 't, unit) call" where
  "record_metric ev = State (\<lambda>w. ((), w\<lparr>w_metrics := ev # w_metrics w\<rparr>))"

definition only_if :: "bool \<Rightarrow> ('s, 't, unit) call \<Rightarrow> ('s, 't, unit) call" where
  "only_if b c = (if b then c else State_Monad.return ())"

text \<open>A question to a strategy: it works on the manager's cache, secondary storage and metrics.\<close>

definition on_fallback :: "(FallbackStrategy \<Rightarrow> 't fb_env \<Rightarrow> 'a \<times> 't fb_env) \<Rightarrow> FallbackStrategy
    \<Rightarrow> ('s, 't, 'a) call" where
  "on_fallback f strategy = State (\<lambda>w.
     let (r, env) = f strategy \<lparr>fe_cache = w_cache w, fe_secondary = w_secondary w, fe_metrics = w_metrics w\<rparr>
     in (r, w\<lparr>w_cache := fe_cache env, w_secondary := fe_secondary env, w_metrics := fe_metrics env\<rparr>))"

definition get_fallback :: "('s, 't, FallbackStrategy option) call" where
  "get_fallback = State (\<lambda>w. (w_fallback w, w))"

definition allow_optimistic :: "Usage \<Rightarrow> goint \<Rightarrow> ('s, 't, bool) call" where
  "allow_optimistic usage amount = State (\<lambda>w. case w_fallback w of
     None \<Rightarrow> (False, w)
   | Some strategy \<Rightarrow>
       let (ok, strategy', evs) = AllowOptimisticConsumption strategy (Some usage) amount
       in (ok, w\<lparr>w_fallback := Some strategy', w_metrics := evs @ w_metrics w\<rparr>))"

section \<open>Clock, periods and limits\<close>

text \<open>\<open>m.now(ctx)\<close>: the storage's clock if it has one that answers, else the server's.\<close>

definition mgr_now :: "('s, 't) Manager \<Rightarrow> time \<Rightarrow> ('s, 't, time) call" where
  "mgr_now m now = (case st_Now (m_storage m) of
     None \<Rightarrow> State_Monad.return now
   | Some f \<Rightarrow> do {
       r \<leftarrow> on_storage (f now);
       State_Monad.return (case r of Inr t \<Rightarrow> t | Inl _ \<Rightarrow> now)
     })"

definition monthly_cycle :: "Entitlement option \<Rightarrow> time \<Rightarrow> Period" where
  "monthly_cycle ent now =
     (let (start, endt) = (case ent of
            Some e \<Rightarrow> CurrentCycleForStart (e_SubscriptionStartDate e) now
          | None \<Rightarrow> CurrentCycleForStart (startOfDayUTC now) now)
      in \<lparr>p_Start = start, p_End = endt, p_Type = PeriodTypeMonthly\<rparr>)"

definition daily_period :: "time \<Rightarrow> Period" where
  "daily_period now = (let start = startOfDayUTC now in
     \<lparr>p_Start = start, p_End = time_Add start ns_per_day, p_Type = PeriodTypeDaily\<rparr>)"

definition forever_period :: "time \<Rightarrow> Period" where
  "forever_period now = \<lparr>p_Start = startOfDayUTC now, p_End = time_Date 9999 12 31 23 59 59 0,
     p_Type = PeriodTypeForever\<rparr>"

text \<open>The switch on the period type; \<open>None\<close> is its default case, \<open>ErrInvalidPeriod\<close>.\<close>

definition period_for :: "Entitlement option \<Rightarrow> time \<Rightarrow> PeriodType \<Rightarrow> Period option" where
  "period_for ent now periodType = (case periodType of
     PeriodTypeMonthly \<Rightarrow> Some (monthly_cycle ent now)
   | PeriodTypeDaily \<Rightarrow> Some (daily_period now)
   | PeriodTypeForever \<Rightarrow> Some (forever_period now)
   | _ \<Rightarrow> None)"

definition GetCurrentCycle :: "('s, 't) Manager \<Rightarrow> time \<Rightarrow> string \<Rightarrow> ('s, 't, goerr + Period) call" where
  "GetCurrentCycle m now userID = do {
     r \<leftarrow> on_storage (st_GetEntitlement (m_storage m) now userID);
     case r of
       Inl err \<Rightarrow>
         if err = ErrEntitlementNotFound then do {
           now \<leftarrow> mgr_now m now;
           State_Monad.return (Inr (monthly_cycle None now))
         }
         else State_Monad.return (Inl err)
     | Inr ent \<Rightarrow> do {
         now \<leftarrow> mgr_now m now;
         State_Monad.return (Inr (monthly_cycle (Some ent) now))
       }
   }"

text \<open>A tier's configuration, or the default tier's when there is none.\<close>

definition tier_or_default :: "Config \<Rightarrow> string \<Rightarrow> TierConfig option" where
  "tier_or_default c tier = (case tier_lookup c tier of
     Some tc \<Rightarrow> Some tc
   | None \<Rightarrow> tier_lookup c (c_DefaultTier c))"

definition getLimitForResource :: "Config \<Rightarrow> string \<Rightarrow> string \<Rightarrow> PeriodType \<Rightarrow> goint" where
  "getLimitForResource c resource tier periodType = (case tier_or_default c tier of
     None \<Rightarrow> 0
   | Some tc \<Rightarrow> (case periodType of
       PeriodTypeMonthly \<Rightarrow> (case map_of (tc_MonthlyQuotas tc) resource of Some lmt \<Rightarrow> lmt | None \<Rightarrow> 0)
     | PeriodTypeDaily \<Rightarrow> (case map_of (tc_DailyQuotas tc) resource of Some lmt \<Rightarrow> lmt | None \<Rightarrow> 0)
     | _ \<Rightarrow> 0))"

definition getWarningThresholds :: "Config \<Rightarrow> string \<Rightarrow> string \<Rightarrow> float64 list" where
  "getWarningThresholds c resource tier = (case tier_lookup c tier of
     None \<Rightarrow> []
   | Some tc \<Rightarrow> (case map_of (tc_WarningThresholds tc) resource of Some ts \<Rightarrow> ts | None \<Rightarrow> []))"

section \<open>Entitlements\<close>

definition tryFallbackEntitlement :: "('s, 't) Manager \<Rightarrow> time \<Rightarrow> string \<Rightarrow> goerr
    \<Rightarrow> ('s, 't, Entitlement option) call" where
  "tryFallbackEntitlement m now userID err = do {
     strategy \<leftarrow> get_fallback;
     case strategy of
       None \<Rightarrow> State_Monad.return None
     | Some s \<Rightarrow>
         if \<not> ShouldFallback s (Some err) then State_Monad.return None
         else do {
           record_metric (RecordFallbackUsage ''storage_error'');
           r \<leftarrow> on_fallback (GetFallbackEntitlement (m_secondary m) now userID) s;
           State_Monad.return (case r of Inr (Some ent) \<Rightarrow> Some ent | _ \<Rightarrow> None)
         }
   }"

definition entitlement_ttl :: "Config \<Rightarrow> duration" where
  "entitlement_ttl c = (case c_CacheConfig c of
     Some cc \<Rightarrow> if cc_EntitlementTTL cc > 0 then cc_EntitlementTTL cc else c_CacheTTL c
   | None \<Rightarrow> c_CacheTTL c)"

text \<open>The function \<open>GetEntitlement\<close> passes to its singleflight group.\<close>

definition fetch_entitlement :: "('s, 't) Manager \<Rightarrow> time \<Rightarrow> string \<Rightarrow> ('s, 't, goerr + Entitlement) call" where
  "fetch_entitlement m now userID = do {
     cached \<leftarrow> on_cache (cache_GetEntitlement now userID);
     case cached of
       Some ent \<Rightarrow> do { record_metric (RecordCacheHit ''entitlement''); State_Monad.return (Inr ent) }
     | None \<Rightarrow> do {
         r \<leftarrow> on_storage (st_GetEntitlement (m_storage m) now userID);
         record_metric (RecordStorageOperation ''GetEntitlement'' (sum_error r));
         case r of
           Inr ent \<Rightarrow> do {
             do_cache (cache_SetEntitlement now userID ent (entitlement_ttl (m_config m)));
             State_Monad.return (Inr ent)
           }
         | Inl err \<Rightarrow>
             if err \<noteq> ErrEntitlementNotFound then do {
               fb \<leftarrow> tryFallbackEntitlement m now userID err;
               State_Monad.return (case fb of Some ent \<Rightarrow> Inr ent | None \<Rightarrow> Inl err)
             }
             else State_Monad.return (Inl err)
       }
   }"

definition GetEntitlement :: "('s, 't) Manager \<Rightarrow> time \<Rightarrow> string \<Rightarrow> ('s, 't, goerr + Entitlement) call" where
  "GetEntitlement m now userID = do {
     cached \<leftarrow> on_cache (cache_GetEntitlement now userID);
     case cached of
       Some ent \<Rightarrow> do { record_metric (RecordCacheHit ''entitlement''); State_Monad.return (Inr ent) }
     | None \<Rightarrow> do {
         record_metric (RecordCacheMiss ''entitlement'');
         m_entitlementGroup m userID (fetch_entitlement m now userID)
       }
   }"

text \<open>\<open>ent\<close> and \<open>tier\<close> after \<open>ent, err := m.GetEntitlement(...)\<close> with the default tier on an error.\<close>

definition found :: "goerr + 'a \<Rightarrow> 'a option" where
  "found r = (case r of Inl _ \<Rightarrow> None | Inr v \<Rightarrow> Some v)"

definition tier_of :: "Config \<Rightarrow> goerr + Entitlement \<Rightarrow> string" where
  "tier_of c r = (case r of Inl _ \<Rightarrow> c_DefaultTier c | Inr ent \<Rightarrow> e_Tier ent)"

section \<open>Rate limits and warnings\<close>

definition checkRateLimit :: "('s, 't) Manager \<Rightarrow> time \<Rightarrow> string \<Rightarrow> string \<Rightarrow> string
    \<Rightarrow> ('s, 't, goerr + bool \<times> RateLimitInfo option) call" where
  "checkRateLimit m now userID resource tier = (case tier_or_default (m_config m) tier of
     None \<Rightarrow> State_Monad.return (Inr (True, None))
   | Some tc \<Rightarrow> (case map_of (tc_RateLimits tc) resource of
       None \<Rightarrow> State_Monad.return (Inr (True, None))
     | Some rateLimitConfig \<Rightarrow> do {
         r \<leftarrow> on_storage (srl_Allow (m_storage m) now userID resource rateLimitConfig);
         case r of
           Inl err \<Rightarrow> State_Monad.return (Inl err)
         | Inr (allowed, info) \<Rightarrow> do {
             record_metric (RecordRateLimitCheck userID resource allowed);
             only_if (\<not> allowed) (record_metric (RecordRateLimitExceeded userID resource));
             State_Monad.return (Inr (allowed, Some info))
           }
       }))"

text \<open>\<open>x / y >= c\<close> on floats, where \<open>y\<close> may be zero.\<close>

definition f_quot_ge :: "float64 \<Rightarrow> float64 \<Rightarrow> rat \<Rightarrow> bool" where
  "f_quot_ge x y c = (case f_div x y of Some q \<Rightarrow> q \<ge> fl c | None \<Rightarrow> x > 0)"

definition threshold_range :: "goint \<Rightarrow> goint \<Rightarrow> string option" where
  "threshold_range currentUsed lmt =
     (let ge = f_quot_ge (f_of_int currentUsed) (f_of_int lmt)
      in if ge (9 / 10) then Some ''90-100%'' else if ge (8 / 10) then Some ''80-90%''
         else if ge (5 / 10) then Some ''50-80%'' else None)"

definition crossed :: "goint \<Rightarrow> goint \<Rightarrow> goint \<Rightarrow> float64 \<Rightarrow> bool" where
  "crossed lmt previousUsed currentUsed threshold =
     (let boundary = f_mul (f_of_int lmt) threshold
      in f_of_int previousUsed < boundary \<and> f_of_int currentUsed \<ge> boundary)"

fun warning_loop :: "('s, 't) Manager \<Rightarrow> Context \<Rightarrow> time \<Rightarrow> string \<Rightarrow> string \<Rightarrow> string \<Rightarrow> goint \<Rightarrow> goint
    \<Rightarrow> goint \<Rightarrow> Period \<Rightarrow> float64 list \<Rightarrow> ('s, 't, unit) call" where
  "warning_loop m ctx now userID resource tier lmt previousUsed currentUsed period [] = State_Monad.return ()"
| "warning_loop m ctx now userID resource tier lmt previousUsed currentUsed period (threshold # rest) = do {
     only_if (crossed lmt previousUsed currentUsed threshold) (do {
       t \<leftarrow> mgr_now m now;
       let usage = \<lparr>u_UserID = userID, u_Resource = resource, u_Used = currentUsed, u_Limit = lmt,
             u_Period = period, u_Tier = tier, u_UpdatedAt = t\<rparr>;
       record_metric (RecordQuotaWarning resource tier threshold);
       (case threshold_range currentUsed lmt of
          None \<Rightarrow> State_Monad.return ()
        | Some r \<Rightarrow> record_metric (RecordUsersApproachingLimit resource tier r));
       only_if (c_WarningHandler (m_config m)) (record_metric (OnWarning True usage threshold));
       only_if (ctx_WarningHandler ctx) (record_metric (OnWarning False usage threshold))
     });
     warning_loop m ctx now userID resource tier lmt previousUsed currentUsed period rest
   }"

definition checkWarnings :: "('s, 't) Manager \<Rightarrow> Context \<Rightarrow> time \<Rightarrow> string \<Rightarrow> string \<Rightarrow> string \<Rightarrow> goint
    \<Rightarrow> goint \<Rightarrow> goint \<Rightarrow> Period \<Rightarrow> ('s, 't, unit) call" where
  "checkWarnings m ctx now userID resource tier lmt currentUsed amount period =
     (let thresholds = getWarningThresholds (m_config m) resource tier in
      if thresholds = [] then State_Monad.return ()
      else warning_loop m ctx now userID resource tier lmt (isub currentUsed amount) currentUsed period thresholds)"

end
