(* ===== verification/ManagerConsume.thy ===== *)
theory ManagerConsume
  imports ManagerBase
begin

text \<open>
  The manager, part two: \<open>GetQuota\<close> and \<open>Consume\<close> of \<open>manager.go\<close>.

  The body of \<open>Consume\<close> is cut at its early returns into \<open>consume_limit\<close>, \<open>consume_dry_run\<close>,
  \<open>consume_failed\<close>, \<open>consume_done\<close> and \<open>consume_period\<close> (everything after the choice of an
  explicit period). For \<open>PeriodTypeAuto\<close> the method calls itself on each entry of the tier's
  order; an order that names \<open>PeriodTypeAuto\<close> would recurse for ever, so \<open>Consume_fuel\<close> counts
  the nesting and \<open>Consume\<close> allows two levels, which \<open>Consume_fuel_enough\<close> shows to be all a
  validated configuration can use.
\<close>

section \<open>GetQuota\<close>

definition usage_ttl :: "Config \<Rightarrow> duration" where
  "usage_ttl c = (case c_CacheConfig c of
     Some cc \<Rightarrow> if cc_UsageTTL cc > 0 then cc_UsageTTL cc else c_CacheTTL c
   | None \<Rightarrow> c_CacheTTL c)"

definition with_limit :: "Config \<Rightarrow> string \<Rightarrow> string \<Rightarrow> PeriodType \<Rightarrow> Usage \<Rightarrow> Usage" where
  "with_limit c resource tier periodType usage =
     (if u_Limit usage \<le> 0 then usage\<lparr>u_Limit := getLimitForResource c resource tier periodType\<rparr> else usage)"

definition fallback_usage :: "('s, 't) Manager \<Rightarrow> time \<Rightarrow> string \<Rightarrow> string \<Rightarrow> Period \<Rightarrow> FallbackStrategy
    \<Rightarrow> ('s, 't, Usage option) call" where
  "fallback_usage m now userID resource period strategy = do {
     record_metric (RecordFallbackUsage ''storage_error'');
     r \<leftarrow> on_fallback (GetFallbackUsage (m_secondary m) now userID resource period) strategy;
     State_Monad.return (case r of Inr (Some usage) \<Rightarrow> Some usage | _ \<Rightarrow> None)
   }"

text \<open>
  The function \<open>GetQuota\<close> passes to its singleflight group. The flag says whether the returned
  pointer is the one now stored in the cache.
\<close>

definition fetch_usage :: "('s, 't) Manager \<Rightarrow> time \<Rightarrow> string \<Rightarrow> string \<Rightarrow> string \<Rightarrow> PeriodType \<Rightarrow> Period
    \<Rightarrow> ('s, 't, goerr + (Usage \<times> bool) option) call" where
  "fetch_usage m now userID resource tier periodType period = do {
     let usageKey = usage_cache_key userID resource period;
     cached \<leftarrow> on_cache (cache_GetUsage now usageKey);
     case cached of
       Some usage \<Rightarrow> do { record_metric (RecordCacheHit ''usage''); State_Monad.return (Inr (Some (usage, False))) }
     | None \<Rightarrow> do {
         r \<leftarrow> on_storage (st_GetUsage (m_storage m) now userID resource period);
         record_metric (RecordStorageOperation ''GetUsage'' (sum_error r));
         case r of
           Inl err \<Rightarrow> do {
             strategy \<leftarrow> get_fallback;
             case strategy of
               None \<Rightarrow> State_Monad.return (Inl err)
             | Some s \<Rightarrow>
                 if \<not> ShouldFallback s (Some err) then State_Monad.return (Inl err)
                 else do {
                   fb \<leftarrow> fallback_usage m now userID resource period s;
                   State_Monad.return (case fb of
                     Some usage \<Rightarrow> Inr (Some (with_limit (m_config m) resource tier periodType usage, False))
                   | None \<Rightarrow> Inl err)
                 }
           }
         | Inr None \<Rightarrow> State_Monad.return (Inr None)
         | Inr (Some usage) \<Rightarrow> do {
             do_cache (cache_SetUsage now usageKey usage (usage_ttl (m_config m)));
             State_Monad.return (Inr (Some (usage, True)))
           }
       }
   }"

text \<open>The usage of a user without a record.\<close>

definition zero_usage :: "Config \<Rightarrow> string \<Rightarrow> string \<Rightarrow> string \<Rightarrow> PeriodType \<Rightarrow> Period \<Rightarrow> Usage" where
  "zero_usage c userID resource tier periodType period =
     (let lmt = getLimitForResource c resource tier periodType;
          lmt = (if periodType = PeriodTypeForever \<and> lmt = 0
                 then (case tier_or_default c tier of
                         None \<Rightarrow> lmt
                       | Some tc \<Rightarrow> (case map_of (tc_InitialForeverCredits tc) resource of
                           Some initialLimit \<Rightarrow> initialLimit | None \<Rightarrow> lmt))
                 else lmt)
      in \<lparr>u_UserID = userID, u_Resource = resource, u_Used = 0, u_Limit = lmt, u_Period = period,
          u_Tier = tier, u_UpdatedAt = zero_time\<rparr>)"

definition quota_result :: "('s, 't) Manager \<Rightarrow> string \<Rightarrow> string \<Rightarrow> string \<Rightarrow> PeriodType \<Rightarrow> Period
    \<Rightarrow> goerr + (Usage \<times> bool) option \<Rightarrow> ('s, 't, goerr + Usage) call" where
  "quota_result m userID resource tier periodType period r = (case r of
     Inl err \<Rightarrow> State_Monad.return (Inl err)
   | Inr None \<Rightarrow> State_Monad.return (Inr (zero_usage (m_config m) userID resource tier periodType period))
   | Inr (Some (usage, in_cache)) \<Rightarrow> do {
       let usage' = with_limit (m_config m) resource tier periodType usage;
       only_if in_cache (do_cache (cache_alias_usage (usage_cache_key userID resource period) usage'));
       only_if (periodType = PeriodTypeForever \<and> u_Limit usage' > 0)
         (record_metric (RecordForeverCreditsBalance resource tier (max (isub (u_Limit usage') (u_Used usage')) 0)));
       State_Monad.return (Inr usage')
     })"

definition get_quota :: "('s, 't) Manager \<Rightarrow> time \<Rightarrow> string \<Rightarrow> string \<Rightarrow> PeriodType
    \<Rightarrow> ('s, 't, goerr + Usage) call" where
  "get_quota m now0 userID resource periodType = do {
     ent \<leftarrow> GetEntitlement m now0 userID;
     let tier = tier_of (m_config m) ent;
     now \<leftarrow> mgr_now m now0;
     case period_for (found ent) now periodType of
       None \<Rightarrow> State_Monad.return (Inl ErrInvalidPeriod)
     | Some period \<Rightarrow> do {
         cached \<leftarrow> on_cache (cache_GetUsage now0 (usage_cache_key userID resource period));
         case cached of
           Some usage \<Rightarrow> do {
             record_metric (RecordCacheHit ''usage'');
             State_Monad.return (Inr (with_limit (m_config m) resource tier periodType usage))
           }
         | None \<Rightarrow> do {
             record_metric (RecordCacheMiss ''usage'');
             r \<leftarrow> m_usageGroup m (usage_cache_key userID resource period)
                    (fetch_usage m now0 userID resource tier periodType period);
             quota_result m userID resource tier periodType period r
           }
       }
   }"

definition GetQuota :: "('s, 't) Manager \<Rightarrow> time \<Rightarrow> string \<Rightarrow> string \<Rightarrow> PeriodType
    \<Rightarrow> ('s, 't, goerr + Usage) call" where
  "GetQuota m now userID resource periodType = do {
     r \<leftarrow> get_quota m now userID resource periodType;
     record_metric (RecordQuotaCheck userID resource);
     State_Monad.return r
   }"

section \<open>Consume\<close>

text \<open>The limit to enforce: the tier's, or the credits of the forever record.\<close>

definition consume_limit :: "('s, 't) Manager \<Rightarrow> time \<Rightarrow> string \<Rightarrow> string \<Rightarrow> string \<Rightarrow> PeriodType \<Rightarrow> Period
    \<Rightarrow> ('s, 't, goerr + goint) call" where
  "consume_limit m now userID resource tier periodType period =
     (let lmt = getLimitForResource (m_config m) resource tier periodType;
          check = (\<lambda>lmt. if lmt = -1 then Inr lmt else if lmt \<le> 0 then Inl ErrQuotaExceeded else Inr lmt)
      in if periodType \<noteq> PeriodTypeForever then State_Monad.return (check lmt)
         else do {
           r \<leftarrow> on_storage (st_GetUsage (m_storage m) now userID resource period);
           case r of
             Inl err \<Rightarrow> State_Monad.return (Inl (Wrapped ''failed to get usage for forever period'' err))
           | Inr (Some usage) \<Rightarrow>
               if u_Limit usage > 0 then do {
                 let balance = isub (u_Limit usage) (u_Used usage);
                 record_metric (RecordForeverCreditsBalance resource tier (if balance < 0 then 0 else balance));
                 State_Monad.return (check (u_Limit usage))
               }
               else State_Monad.return (Inl ErrQuotaExceeded)
           | Inr None \<Rightarrow> State_Monad.return (Inl ErrQuotaExceeded)
         })"

definition consume_dry_run :: "('s, 't) Manager \<Rightarrow> time \<Rightarrow> string \<Rightarrow> string \<Rightarrow> string \<Rightarrow> goint \<Rightarrow> goint
    \<Rightarrow> Period \<Rightarrow> ('s, 't, goint \<times> goerr option) call" where
  "consume_dry_run m now userID resource tier amount lmt period = do {
     r \<leftarrow> on_storage (st_GetUsage (m_storage m) now userID resource period);
     case r of
       Inl err \<Rightarrow> State_Monad.return (0, None)
     | Inr usage \<Rightarrow> do {
         let currentUsed = (case usage of Some u \<Rightarrow> u_Used u | None \<Rightarrow> 0);
         record_metric (RecordConsumption userID resource tier amount
           (\<not> (lmt \<noteq> -1 \<and> iadd currentUsed amount > lmt)));
         State_Monad.return (iadd currentUsed amount, None)
       }
   }"

text \<open>After a storage failure: the fallback's usage, if it allows an optimistic consumption.\<close>

definition consume_failed :: "('s, 't) Manager \<Rightarrow> Context \<Rightarrow> time \<Rightarrow> string \<Rightarrow> string \<Rightarrow> string \<Rightarrow> PeriodType
    \<Rightarrow> goint \<Rightarrow> goint \<Rightarrow> Period \<Rightarrow> goerr \<Rightarrow> ('s, 't, goint \<times> goerr option) call" where
  "consume_failed m ctx now userID resource tier periodType amount lmt period err = do {
     strategy \<leftarrow> get_fallback;
     usage \<leftarrow> (case strategy of
         None \<Rightarrow> State_Monad.return None
       | Some s \<Rightarrow> if ShouldFallback s (Some err) then fallback_usage m now userID resource period s
                 else State_Monad.return None);
     allowed \<leftarrow> (case usage of
         None \<Rightarrow> State_Monad.return False
       | Some u \<Rightarrow> allow_optimistic u amount);
     if allowed then do {
       let optimisticNewUsed = iadd (case usage of Some u \<Rightarrow> u_Used u | None \<Rightarrow> 0) amount;
       do_cache (cache_InvalidateUsage (usage_cache_key userID resource period));
       record_metric (RecordConsumption userID resource tier amount True);
       only_if (periodType = PeriodTypeForever) (do {
         record_metric (RecordForeverCreditsConsumption resource tier True);
         record_metric (RecordForeverCreditsConsumptionAmount resource tier amount)
       });
       checkWarnings m ctx now userID resource tier lmt optimisticNewUsed amount period;
       State_Monad.return (optimisticNewUsed, None)
     }
     else do {
       record_metric (RecordConsumption userID resource tier amount False);
       only_if (periodType = PeriodTypeForever) (record_metric (RecordForeverCreditsConsumption resource tier False));
       State_Monad.return (0, Some err)
     }
   }"

text \<open>After an accepted consumption.\<close>

definition consume_done :: "('s, 't) Manager \<Rightarrow> Context \<Rightarrow> time \<Rightarrow> string \<Rightarrow> string \<Rightarrow> string \<Rightarrow> PeriodType
    \<Rightarrow> goint \<Rightarrow> goint \<Rightarrow> Period \<Rightarrow> goint \<Rightarrow> ('s, 't, goint \<times> goerr option) call" where
  "consume_done m ctx now userID resource tier periodType amount lmt period newUsed = do {
     do_cache (cache_InvalidateUsage (usage_cache_key userID resource period));
     record_metric (RecordConsumption userID resource tier amount True);
     only_if (periodType = PeriodTypeForever) (do {
       record_metric (RecordForeverCreditsConsumption resource tier True);
       record_metric (RecordForeverCreditsConsumptionAmount resource tier amount);
       r \<leftarrow> on_storage (st_GetUsage (m_storage m) now userID resource (period\<lparr>p_Type := PeriodTypeMonthly\<rparr>));
       only_if (case r of Inr (Some monthlyUsage) \<Rightarrow> u_Limit monthlyUsage > 0 \<or> u_Used monthlyUsage > 0 | _ \<Rightarrow> False)
         (record_metric (RecordHybridBillingUser userID))
     });
     checkWarnings m ctx now userID resource tier lmt newUsed amount period;
     State_Monad.return (newUsed, None)
   }"

text \<open>
  The error a rate limit check ends the call with: none if the request is allowed or the check
  failed (graceful degradation); a panic is not an error the code could test.
\<close>

definition rate_refusal :: "time \<Rightarrow> goerr + bool \<times> RateLimitInfo option \<Rightarrow> goerr option" where
  "rate_refusal now r = (case r of
     Inl err \<Rightarrow> if is_panic err then Some err else None
   | Inr (True, _) \<Rightarrow> None
   | Inr (False, None) \<Rightarrow> Some (GoPanic ''nil pointer dereference'')
   | Inr (False, Some info) \<Rightarrow>
       let retryAfter = time_Sub (rli_ResetTime info) now;
           retryAfter = (if retryAfter < 0 then 0 else retryAfter)
       in Some (RateLimitExceededError (Some info) retryAfter))"

definition consume_request :: "Config \<Rightarrow> string \<Rightarrow> string \<Rightarrow> goint \<Rightarrow> ConsumeOptions \<Rightarrow> string \<Rightarrow> Period
    \<Rightarrow> goint \<Rightarrow> ConsumeRequest" where
  "consume_request c userID resource amount opts tier period lmt =
     \<lparr>cq_UserID = userID, cq_Resource = resource, cq_Amount = amount, cq_Tier = tier,
      cq_Period = period, cq_Limit = lmt, cq_IdempotencyKey = co_IdempotencyKey opts,
      cq_IdempotencyKeyTTL = c_IdempotencyKeyTTL c\<rparr>"

text \<open>From the rate limit check to the end, for the period of an explicit type.\<close>

definition consume_period :: "('s, 't) Manager \<Rightarrow> Context \<Rightarrow> time \<Rightarrow> string \<Rightarrow> string \<Rightarrow> goint \<Rightarrow> PeriodType
    \<Rightarrow> ConsumeOptions \<Rightarrow> string \<Rightarrow> Period \<Rightarrow> ('s, 't, goint \<times> goerr option) call" where
  "consume_period m ctx now userID resource amount periodType opts tier period = do {
     rate \<leftarrow> checkRateLimit m now userID resource tier;
     case rate_refusal now rate of
       Some err \<Rightarrow> State_Monad.return (0, Some err)
     | None \<Rightarrow> do {
         lim \<leftarrow> consume_limit m now userID resource tier periodType period;
         case lim of
           Inl err \<Rightarrow> State_Monad.return (0, Some err)
         | Inr lmt \<Rightarrow>
             if co_DryRun opts then consume_dry_run m now userID resource tier amount lmt period
             else do {
               r \<leftarrow> on_storage (st_ConsumeQuota (m_storage m) now
                 (consume_request (m_config m) userID resource amount opts tier period lmt));
               record_metric (RecordStorageOperation ''ConsumeQuota'' (snd r));
               case snd r of
                 None \<Rightarrow> consume_done m ctx now userID resource tier periodType amount lmt period (fst r)
               | Some err \<Rightarrow>
                   if err \<noteq> ErrQuotaExceeded
                   then consume_failed m ctx now userID resource tier periodType amount lmt period err
                   else do {
                     record_metric (RecordConsumption userID resource tier amount False);
                     only_if (periodType = PeriodTypeForever)
                       (record_metric (RecordForeverCreditsConsumption resource tier False));
                     record_metric (RecordQuotaExhaustion resource tier periodType);
                     State_Monad.return (fst r, Some err)
                   }
             }
       }
   }"

definition consumption_order :: "Config \<Rightarrow> string \<Rightarrow> PeriodType list" where
  "consumption_order c tier = (case tier_or_default c tier of
     Some tc \<Rightarrow> if tc_ConsumptionOrder tc \<noteq> [] then tc_ConsumptionOrder tc
               else [PeriodTypeMonthly, PeriodTypeDaily]
   | None \<Rightarrow> [PeriodTypeMonthly, PeriodTypeDaily])"

text \<open>The loop over the order; \<open>consume\<close> is the recursive call.\<close>

fun consume_in_order :: "(PeriodType \<Rightarrow> ('s, 't, goint \<times> goerr option) call) \<Rightarrow> PeriodType list \<Rightarrow> goerr option
    \<Rightarrow> ('s, 't, goint \<times> goerr option) call" where
  "consume_in_order consume [] lastErr = State_Monad.return (0, lastErr)"
| "consume_in_order consume (pt # pts) lastErr = do {
     r \<leftarrow> consume pt;
     case snd r of
       None \<Rightarrow> State_Monad.return (fst r, None)
     | Some err \<Rightarrow> if err \<noteq> ErrQuotaExceeded then State_Monad.return (0, Some err)
                  else consume_in_order consume pts (Some err)
   }"

text \<open>The idempotency test: \<open>Some\<close> result ends the call.\<close>

definition consume_replay :: "('s, 't) Manager \<Rightarrow> time \<Rightarrow> ConsumeOptions \<Rightarrow> ('s, 't, (goint \<times> goerr option) option) call" where
  "consume_replay m now opts =
     (if co_IdempotencyKey opts = '''' then State_Monad.return None
      else do {
        r \<leftarrow> on_storage (st_GetConsumptionRecord (m_storage m) now (co_IdempotencyKey opts));
        case r of
          Inl err \<Rightarrow> State_Monad.return (Some (0, Some err))
        | Inr (Some existing) \<Rightarrow> do {
            record_metric (RecordIdempotencyHit ''consume'');
            State_Monad.return (Some (cn_NewUsed existing, None))
          }
        | Inr None \<Rightarrow> State_Monad.return None
      })"

fun Consume_fuel :: "nat \<Rightarrow> ('s, 't) Manager \<Rightarrow> Context \<Rightarrow> time \<Rightarrow> string \<Rightarrow> string \<Rightarrow> goint \<Rightarrow> PeriodType
    \<Rightarrow> ConsumeOptions \<Rightarrow> ('s, 't, goint \<times> goerr option) call" where
  "Consume_fuel 0 m ctx now userID resource amount periodType opts =
     State_Monad.return (0, Some (GoPanic ''stack overflow''))"
| "Consume_fuel (Suc n) m ctx now0 userID resource amount periodType opts =
     (if ctx_Err ctx \<noteq> None then State_Monad.return (0, ctx_Err ctx)
      else if amount < 0 then State_Monad.return (0, Some ErrInvalidAmount)
      else if amount = 0 then State_Monad.return (0, None)
      else do {
        replay \<leftarrow> consume_replay m now0 opts;
        case replay of
          Some r \<Rightarrow> State_Monad.return r
        | None \<Rightarrow> do {
            ent \<leftarrow> GetEntitlement m now0 userID;
            case (case ent of Inl err \<Rightarrow> if err \<noteq> ErrEntitlementNotFound then Some err else None | Inr _ \<Rightarrow> None) of
              Some err \<Rightarrow> State_Monad.return (0, Some err)
            | None \<Rightarrow> do {
                let tier = tier_of (m_config m) ent;
                now \<leftarrow> mgr_now m now0;
                if periodType = PeriodTypeAuto
                then consume_in_order (\<lambda>pt. Consume_fuel n m ctx now0 userID resource amount pt opts)
                       (consumption_order (m_config m) tier) None
                else case period_for (found ent) now periodType of
                    None \<Rightarrow> State_Monad.return (0, Some ErrInvalidPeriod)
                  | Some period \<Rightarrow>
                      consume_period m ctx now0 userID resource amount periodType opts tier period
              }
          }
      })"

definition Consume :: "('s, 't) Manager \<Rightarrow> Context \<Rightarrow> time \<Rightarrow> string \<Rightarrow> string \<Rightarrow> goint \<Rightarrow> PeriodType
    \<Rightarrow> ConsumeOptions \<Rightarrow> ('s, 't, goint \<times> goerr option) call" where
  "Consume = Consume_fuel 2"

section \<open>The recursion of Consume\<close>

lemma consume_in_order_cong:
  "(\<And>pt. pt \<in> set pts \<Longrightarrow> f pt = g pt) \<Longrightarrow> consume_in_order f pts e = consume_in_order g pts e"
proof (induction pts arbitrary: e)
  case (Cons pt pts)
  have "f pt = g pt" using Cons.prems by simp
  moreover have "consume_in_order f pts = consume_in_order g pts"
    using Cons by (intro ext) simp
  ultimately show ?case unfolding consume_in_order.simps by presburger
qed simp

lemma consumption_order_valid:
  assumes "valid_config c"
  shows "PeriodTypeAuto \<notin> set (consumption_order c tier)"
proof (cases "tier_or_default c tier")
  case (Some tc)
  then obtain t where "tier_lookup c t = Some tc"
    by (auto simp: tier_or_default_def split: option.splits)
  from valid_config_tier [OF assms this] have "PeriodTypeAuto \<notin> set (tc_ConsumptionOrder tc)"
    by (auto simp: valid_tier_def)
  with Some show ?thesis by (simp add: consumption_order_def)
qed (simp add: consumption_order_def)

lemma Consume_fuel_explicit:
  assumes "periodType \<noteq> PeriodTypeAuto"
  shows "Consume_fuel (Suc n) m ctx now userID resource amount periodType opts
    = Consume_fuel (Suc k) m ctx now userID resource amount periodType opts"
  using assms unfolding Consume_fuel.simps(2) Let_def by (simp cong: option.case_cong)

text \<open>C33: Consume's recursion is bounded: with a validated configuration no call nests more than two levels
  deep, so any larger allowance of fuel gives the same computation.\<close>

theorem Consume_fuel_enough:
  assumes "valid_config (m_config m)" "2 \<le> n"
  shows "Consume_fuel n m ctx now userID resource amount periodType opts
    = Consume m ctx now userID resource amount periodType opts"
proof -
  obtain k where n: "n = Suc (Suc k)" using assms(2) by (metis Suc_le_D numeral_2_eq_2 le_Suc_ex add_Suc)
  have "consume_in_order (\<lambda>pt. Consume_fuel (Suc k) m ctx now userID resource amount pt opts)
      (consumption_order (m_config m) tier) None
    = consume_in_order (\<lambda>pt. Consume_fuel (Suc 0) m ctx now userID resource amount pt opts)
      (consumption_order (m_config m) tier) None" for tier
    by (rule consume_in_order_cong, rule Consume_fuel_explicit)
      (use consumption_order_valid [OF assms(1)] in auto)
  then show ?thesis
    by (simp only: Consume_def n numeral_2_eq_2 Consume_fuel.simps(2))
qed

end
