(* ===== verification/ManagerOps.thy ===== *)
theory ManagerOps
  imports ManagerConsume
begin

text \<open>
  The manager, part three: the operations of \<open>manager.go\<close> built on \<open>GetQuota\<close> and \<open>Consume\<close>,
  tier changes, entitlements, refunds, credit limits and the administrative operations.
\<close>

section \<open>Variants of Consume\<close>

definition calculateRemaining :: "goint \<Rightarrow> goint \<Rightarrow> goint" where
  "calculateRemaining lmt used =
     (if lmt = -1 then -1 else let remaining = isub lmt used in if remaining < 0 then 0 else remaining)"

definition tryConsumeZeroAmount :: "('s, 't) Manager \<Rightarrow> time \<Rightarrow> string \<Rightarrow> string \<Rightarrow> PeriodType
    \<Rightarrow> ('s, 't, goerr + TryConsumeResult) call" where
  "tryConsumeZeroAmount m now userID resource periodType = do {
     r \<leftarrow> GetQuota m now userID resource periodType;
     State_Monad.return (case r of
       Inl err \<Rightarrow> Inl err
     | Inr usage \<Rightarrow> Inr \<lparr>tr_Success = True, tr_Remaining = calculateRemaining (u_Limit usage) (u_Used usage),
         tr_Consumed = 0, tr_NewUsed = u_Used usage\<rparr>)
   }"

definition tryConsumeFailureResult :: "('s, 't) Manager \<Rightarrow> time \<Rightarrow> string \<Rightarrow> string \<Rightarrow> PeriodType \<Rightarrow> goint
    \<Rightarrow> ('s, 't, goerr + TryConsumeResult) call" where
  "tryConsumeFailureResult m now userID resource periodType lmt = do {
     r \<leftarrow> GetQuota m now userID resource periodType;
     State_Monad.return (case r of
       Inl err \<Rightarrow> Inl err
     | Inr usage \<Rightarrow> Inr \<lparr>tr_Success = False, tr_Remaining = calculateRemaining lmt (u_Used usage),
         tr_Consumed = 0, tr_NewUsed = u_Used usage\<rparr>)
   }"

definition consume_result :: "goint \<Rightarrow> goerr + Usage \<Rightarrow> ConsumeResult" where
  "consume_result newUsed r = (case r of
     Inl err \<Rightarrow> \<lparr>cs_NewUsed = newUsed, cs_Limit = 0, cs_Remaining = 0, cs_Percentage = 0\<rparr>
   | Inr usage \<Rightarrow>
       let lmt = u_Limit usage;
           remaining = (let x = isub lmt newUsed in if x < 0 then 0 else x);
           percentage = (if lmt > 0
             then f_mul (case f_div (f_of_int newUsed) (f_of_int lmt) of Some q \<Rightarrow> q | None \<Rightarrow> 0) 100 else 0);
           remaining = (if lmt > 0 then remaining else if lmt = -1 then -1 else remaining)
       in \<lparr>cs_NewUsed = newUsed, cs_Limit = lmt, cs_Remaining = remaining, cs_Percentage = percentage\<rparr>)"

definition ConsumeWithResult :: "('s, 't) Manager \<Rightarrow> Context \<Rightarrow> time \<Rightarrow> string \<Rightarrow> string \<Rightarrow> goint \<Rightarrow> PeriodType
    \<Rightarrow> ConsumeOptions \<Rightarrow> ('s, 't, goerr + ConsumeResult) call" where
  "ConsumeWithResult m ctx now userID resource amount periodType opts = do {
     r \<leftarrow> Consume m ctx now userID resource amount periodType opts;
     case snd r of
       Some err \<Rightarrow> State_Monad.return (Inl err)
     | None \<Rightarrow> do {
         q \<leftarrow> GetQuota m now userID resource periodType;
         State_Monad.return (Inr (consume_result (fst r) q))
       }
   }"

definition GetUsageAfterConsume :: "('s, 't) Manager \<Rightarrow> Context \<Rightarrow> time \<Rightarrow> string \<Rightarrow> string \<Rightarrow> goint
    \<Rightarrow> PeriodType \<Rightarrow> ConsumeOptions \<Rightarrow> ('s, 't, goerr + Usage) call" where
  "GetUsageAfterConsume m ctx now userID resource amount periodType opts = do {
     r \<leftarrow> Consume m ctx now userID resource amount periodType opts;
     case snd r of
       Some err \<Rightarrow> State_Monad.return (Inl err)
     | None \<Rightarrow> GetQuota m now userID resource periodType
   }"

definition TryConsume :: "('s, 't) Manager \<Rightarrow> Context \<Rightarrow> time \<Rightarrow> string \<Rightarrow> string \<Rightarrow> goint \<Rightarrow> PeriodType
    \<Rightarrow> ConsumeOptions \<Rightarrow> ('s, 't, goerr + TryConsumeResult) call" where
  "TryConsume m ctx now userID resource amount periodType opts =
     (if amount < 0 then State_Monad.return (Inl ErrInvalidAmount)
      else if amount = 0 then tryConsumeZeroAmount m now userID resource periodType
      else if periodType \<noteq> PeriodTypeMonthly \<and> periodType \<noteq> PeriodTypeDaily
      then State_Monad.return (Inl ErrInvalidPeriod)
      else do {
        ent \<leftarrow> GetEntitlement m now userID;
        let tier = tier_of (m_config m) ent;
        let lmt = getLimitForResource (m_config m) resource tier periodType;
        if lmt \<noteq> -1 \<and> lmt \<le> 0 then tryConsumeFailureResult m now userID resource periodType lmt
        else do {
          r \<leftarrow> Consume m ctx now userID resource amount periodType opts;
          case snd r of
            Some err \<Rightarrow>
              if err = ErrQuotaExceeded then tryConsumeFailureResult m now userID resource periodType lmt
              else State_Monad.return (Inl err)
          | None \<Rightarrow> State_Monad.return (Inr \<lparr>tr_Success = True,
              tr_Remaining = calculateRemaining lmt (fst r), tr_Consumed = amount, tr_NewUsed = fst r\<rparr>)
        }
      })"

section \<open>Tier changes and entitlements\<close>

text \<open>The prorated limit of a tier change at \<open>now\<close>.\<close>

definition remaining_fraction :: "Period \<Rightarrow> time \<Rightarrow> float64" where
  "remaining_fraction period now =
     (let cycleLen = time_Sub (p_End period) (p_Start period);
          remaining = time_Sub (p_End period) now;
          cycleLen = (if cycleLen \<le> 0 then 30 * ns_per_day else cycleLen);
          remaining = (if remaining < 0 then 0 else remaining);
          frac = (case f_div (f_of_int remaining) (f_of_int cycleLen) of Some q \<Rightarrow> q | None \<Rightarrow> 0);
          frac = (if frac < 0 then 0 else frac)
      in if frac > 1 then 1 else frac)"

definition adjusted_limit :: "goint \<Rightarrow> goint \<Rightarrow> float64 \<Rightarrow> goint" where
  "adjusted_limit currentUsed newLimit remainingFrac =
     (let proratedNew = f_to_int (Some (f_round (f_mul (f_of_int newLimit) remainingFrac)));
          adjustedLimit = iadd currentUsed proratedNew
      in if adjustedLimit < currentUsed then currentUsed else adjustedLimit)"

definition ApplyTierChange :: "('s, 't) Manager \<Rightarrow> time \<Rightarrow> string \<Rightarrow> string \<Rightarrow> string \<Rightarrow> string
    \<Rightarrow> ('s, 't, goerr option) call" where
  "ApplyTierChange m now userID oldTier newTier resource = do {
     cycle \<leftarrow> GetCurrentCycle m now userID;
     case cycle of
       Inl err \<Rightarrow> State_Monad.return (Some err)
     | Inr period \<Rightarrow> do {
         r \<leftarrow> on_storage (st_GetUsage (m_storage m) now userID resource period);
         let currentUsed = (case r of Inr (Some usage) \<Rightarrow> u_Used usage | _ \<Rightarrow> 0);
         let oldLimit = getLimitForResource (m_config m) resource oldTier PeriodTypeMonthly;
         let newLimit = getLimitForResource (m_config m) resource newTier PeriodTypeMonthly;
         err \<leftarrow> on_storage (st_ApplyTierChange (m_storage m) now
           \<lparr>tq_UserID = userID, tq_Resource = resource, tq_OldTier = oldTier, tq_NewTier = newTier,
            tq_Period = period, tq_OldLimit = oldLimit,
            tq_NewLimit = adjusted_limit currentUsed newLimit (remaining_fraction period now),
            tq_CurrentUsed = currentUsed\<rparr>);
         record_metric (RecordStorageOperation ''ApplyTierChange'' err);
         State_Monad.return err
       }
   }"

definition TopUpLimit :: "('s, 't) Manager \<Rightarrow> time \<Rightarrow> string \<Rightarrow> string \<Rightarrow> goint \<Rightarrow> string
    \<Rightarrow> ('s, 't, goerr option) call" where
  "TopUpLimit m now0 userID resource amount idempotencyKey =
     (if amount \<le> 0 then State_Monad.return (Some ErrInvalidAmount)
      else do {
        now \<leftarrow> mgr_now m now0;
        let period = forever_period now;
        err \<leftarrow> on_storage (st_AddLimit (m_storage m) now0 userID resource amount period idempotencyKey);
        if err = Some ErrIdempotencyKeyExists then State_Monad.return None
        else if err \<noteq> None then State_Monad.return err
        else do {
          do_cache (cache_InvalidateUsage (usage_cache_key userID resource period));
          State_Monad.return None
        }
      })"

definition RefundCredits :: "('s, 't) Manager \<Rightarrow> time \<Rightarrow> string \<Rightarrow> string \<Rightarrow> goint \<Rightarrow> string \<Rightarrow> string
    \<Rightarrow> ('s, 't, goerr option) call" where
  "RefundCredits m now0 userID resource amount reason idempotencyKey =
     (if amount \<le> 0 then State_Monad.return (Some ErrInvalidAmount)
      else do {
        now \<leftarrow> mgr_now m now0;
        let period = forever_period now;
        err \<leftarrow> on_storage (st_SubtractLimit (m_storage m) now0 userID resource amount period idempotencyKey);
        if err = Some ErrIdempotencyKeyExists then State_Monad.return None
        else if err \<noteq> None then State_Monad.return err
        else do {
          do_cache (cache_InvalidateUsage (usage_cache_key userID resource period));
          State_Monad.return None
        }
      })"

text \<open>The loop over \<open>InitialForeverCredits\<close>; a failed top-up is only logged.\<close>

definition initial_bonus_key :: "string \<Rightarrow> string" where
  "initial_bonus_key userID = ''initial_bonus_'' @ userID"

fun apply_initial_credits :: "('s, 't) Manager \<Rightarrow> time \<Rightarrow> string \<Rightarrow> (string \<times> goint) list
    \<Rightarrow> ('s, 't, unit) call" where
  "apply_initial_credits m now userID [] = State_Monad.return ()"
| "apply_initial_credits m now userID ((resource, amount) # rest) = do {
     only_if (amount > 0) (do {
       _ \<leftarrow> TopUpLimit m now userID resource amount (initial_bonus_key userID);
       State_Monad.return ()
     });
     apply_initial_credits m now userID rest
   }"

definition SetEntitlement :: "('s, 't) Manager \<Rightarrow> time \<Rightarrow> Entitlement \<Rightarrow> ('s, 't, goerr option) call" where
  "SetEntitlement m now ent = do {
     err \<leftarrow> on_storage (st_SetEntitlement (m_storage m) now ent);
     record_metric (RecordStorageOperation ''SetEntitlement'' err);
     only_if (err = None) (do {
       do_cache (cache_InvalidateEntitlement (e_UserID ent));
       case tier_lookup (m_config m) (e_Tier ent) of
         None \<Rightarrow> State_Monad.return ()
       | Some tc \<Rightarrow> apply_initial_credits m now (e_UserID ent) (tc_InitialForeverCredits tc)
     });
     State_Monad.return err
   }"

section \<open>Refunds\<close>

text \<open>The idempotency test: \<open>Some\<close> result ends the call.\<close>

definition refund_replay :: "('s, 't) Manager \<Rightarrow> time \<Rightarrow> RefundRequest \<Rightarrow> ('s, 't, goerr option option) call" where
  "refund_replay m now req =
     (if rr_IdempotencyKey req = '''' then State_Monad.return None
      else do {
        r \<leftarrow> on_storage (st_GetRefundRecord (m_storage m) now (rr_IdempotencyKey req));
        case r of
          Inl err \<Rightarrow> State_Monad.return (Some (Some err))
        | Inr (Some existing) \<Rightarrow> do {
            record_metric (RecordIdempotencyHit ''refund'');
            State_Monad.return (Some None)
          }
        | Inr None \<Rightarrow> State_Monad.return None
      })"

text \<open>The request is a pointer; its fields \<open>Period\<close> and \<open>IdempotencyKeyTTL\<close> are set for the storage.\<close>

definition Refund :: "('s, 't) Manager \<Rightarrow> time \<Rightarrow> RefundRequest \<Rightarrow> ('s, 't, goerr option) call" where
  "Refund m now0 req =
     (if rr_Amount req < 0 then State_Monad.return (Some ErrInvalidAmount)
      else if rr_Amount req = 0 then State_Monad.return None
      else do {
        replay \<leftarrow> refund_replay m now0 req;
        case replay of
          Some err \<Rightarrow> State_Monad.return err
        | None \<Rightarrow> do {
            ent \<leftarrow> GetEntitlement m now0 (rr_UserID req);
            now \<leftarrow> mgr_now m now0;
            case period_for (found ent) now (rr_PeriodType req) of
              None \<Rightarrow> State_Monad.return (Some ErrInvalidPeriod)
            | Some period \<Rightarrow> do {
                err \<leftarrow> on_storage (st_RefundQuota (m_storage m) now0
                  (req\<lparr>rr_Period := period, rr_IdempotencyKeyTTL := c_IdempotencyKeyTTL (m_config m)\<rparr>));
                record_metric (RecordStorageOperation ''RefundQuota'' err);
                only_if (err = None) (do {
                  do_cache (cache_InvalidateUsage (usage_cache_key (rr_UserID req) (rr_Resource req) period));
                  record_metric (RecordQuotaRefund (rr_Resource req)
                    (if rr_Reason req = '''' then ''unknown'' else rr_Reason req));
                  record_metric (RecordQuotaRefundAmount (rr_Resource req) (rr_Amount req))
                });
                State_Monad.return err
              }
          }
      })"

section \<open>Administration\<close>

definition logAuditEntry :: "('s, 't) Manager \<Rightarrow> AuditLogEntry \<Rightarrow> ('s, 't, unit) call" where
  "logAuditEntry m entry = (case st_LogAuditEntry (m_storage m) of
     None \<Rightarrow> State_Monad.return ()
   | Some logEntry \<Rightarrow> do { _ \<leftarrow> on_storage (logEntry entry); State_Monad.return () })"

definition GetAuditLogs :: "('s, 't) Manager \<Rightarrow> AuditLogFilter \<Rightarrow> ('s, 't, goerr + AuditLogEntry list) call" where
  "GetAuditLogs m flt = (case st_GetAuditLogs (m_storage m) of
     None \<Rightarrow> State_Monad.return (Inl (ErrText ''storage does not implement AuditLogger''))
   | Some getLogs \<Rightarrow> on_storage (getLogs flt))"

text \<open>The text of a period type.\<close>

fun period_type_text :: "PeriodType \<Rightarrow> string" where
  "period_type_text PeriodTypeDaily = ''daily''"
| "period_type_text PeriodTypeMonthly = ''monthly''"
| "period_type_text PeriodTypeForever = ''forever''"
| "period_type_text PeriodTypeAuto = ''auto''"
| "period_type_text (PeriodTypeOther s) = s"

text \<open>The audit entry of an administrative operation; its id and time come from two clock readings.\<close>

definition audit_entry :: "string \<Rightarrow> string \<Rightarrow> string \<Rightarrow> goint \<Rightarrow> time \<Rightarrow> time \<Rightarrow> string
    \<Rightarrow> (string \<times> string) list \<Rightarrow> AuditLogEntry" where
  "audit_entry userID resource action amount t1 t2 reason metadata =
     \<lparr>al_ID = userID @ ''-'' @ resource @ ''-'' @ show_int t1, al_UserID = userID, al_Resource = resource,
      al_Action = action, al_Amount = amount, al_Timestamp = t2, al_Actor = ''system'',
      al_Reason = reason, al_Metadata = metadata\<rparr>"

definition SetUsage :: "('s, 't) Manager \<Rightarrow> time \<Rightarrow> string \<Rightarrow> string \<Rightarrow> PeriodType \<Rightarrow> goint
    \<Rightarrow> ('s, 't, goerr option) call" where
  "SetUsage m now0 userID resource periodType amount =
     (if amount < 0 then State_Monad.return (Some ErrInvalidAmount)
      else do {
        ent \<leftarrow> GetEntitlement m now0 userID;
        let tier = tier_of (m_config m) ent;
        now \<leftarrow> mgr_now m now0;
        case period_for (found ent) now periodType of
          None \<Rightarrow> State_Monad.return (Some ErrInvalidPeriod)
        | Some period \<Rightarrow> do {
            let limit0 = getLimitForResource (m_config m) resource tier periodType;
            lim \<leftarrow> (if periodType = PeriodTypeForever then do {
                r \<leftarrow> on_storage (st_GetUsage (m_storage m) now0 userID resource period);
                State_Monad.return (case r of
                  Inl err \<Rightarrow> Inl (Wrapped ''failed to get usage for forever period'' err)
                | Inr (Some usage) \<Rightarrow> Inr (if u_Limit usage > 0 then u_Limit usage else limit0)
                | Inr None \<Rightarrow> Inr limit0)
              }
              else State_Monad.return (Inr limit0));
            case lim of
              Inl err \<Rightarrow> State_Monad.return (Some err)
            | Inr lmt \<Rightarrow> do {
                updated \<leftarrow> mgr_now m now0;
                err \<leftarrow> on_storage (st_SetUsage (m_storage m) now0 userID resource
                  \<lparr>u_UserID = userID, u_Resource = resource, u_Used = amount, u_Limit = lmt,
                   u_Period = period, u_Tier = tier, u_UpdatedAt = updated\<rparr> period);
                record_metric (RecordStorageOperation ''SetUsage'' err);
                if err \<noteq> None then State_Monad.return err
                else do {
                  do_cache (cache_InvalidateUsage (usage_cache_key userID resource period));
                  t1 \<leftarrow> mgr_now m now0;
                  t2 \<leftarrow> mgr_now m now0;
                  logAuditEntry m (audit_entry userID resource ''admin_set'' amount t1 t2 ''administrative_set''
                    [(''periodType'', period_type_text periodType), (''limit'', show_int lmt)]);
                  State_Monad.return None
                }
              }
          }
      })"

definition GrantOneTimeCredit :: "('s, 't) Manager \<Rightarrow> time \<Rightarrow> string \<Rightarrow> string \<Rightarrow> goint
    \<Rightarrow> ('s, 't, goerr option) call" where
  "GrantOneTimeCredit m now userID resource amount =
     (if amount \<le> 0 then State_Monad.return (Some ErrInvalidAmount)
      else do {
        err \<leftarrow> TopUpLimit m now userID resource amount '''';
        if err \<noteq> None then State_Monad.return err
        else do {
          t1 \<leftarrow> mgr_now m now;
          t2 \<leftarrow> mgr_now m now;
          logAuditEntry m (audit_entry userID resource ''admin_grant_credit'' amount t1 t2 ''one_time_credit''
            [(''periodType'', ''forever'')]);
          State_Monad.return None
        }
      })"

definition ResetUsage :: "('s, 't) Manager \<Rightarrow> time \<Rightarrow> string \<Rightarrow> string \<Rightarrow> PeriodType
    \<Rightarrow> ('s, 't, goerr option) call" where
  "ResetUsage m now userID resource periodType = SetUsage m now userID resource periodType 0"

end
