(* ===== verification/ManagerLedger.thy ===== *)
theory ManagerLedger
  imports ManagerConsume
begin

text \<open>
  What \<open>Consume\<close> does to the ledger of any storage that keeps the contract \<open>quota_backend\<close>,
  proved inside that locale, and its consequences for the in-memory storage.

  \<open>keeps\<close> says that a call leaves the ledger as it is. Every part of \<open>Consume\<close> but the single
  \<open>ConsumeQuota\<close> keeps it, so a call either keeps the ledger or performs one
  \<open>spec_consume\<close>, with the limit of the tier or of the forever record.
\<close>

named_theorems keeps_intros \<open>calls that leave the ledger as it is\<close>

lemma run_state_parts [simp]:
  "run_state (record_metric ev) w = ((), w\<lparr>w_metrics := ev # w_metrics w\<rparr>)"
  "run_state (do_cache g) w = ((), w\<lparr>w_cache := g (w_cache w)\<rparr>)"
  "run_state get_fallback w = (w_fallback w, w)"
  "run_state (on_storage f) w = (fst (f (w_storage w)), w\<lparr>w_storage := snd (f (w_storage w))\<rparr>)"
  "run_state (on_cache h) w = (fst (h (w_cache w)), w\<lparr>w_cache := snd (h (w_cache w))\<rparr>)"
  by (simp_all add: record_metric_def do_cache_def get_fallback_def on_storage_def on_cache_def case_prod_unfold Let_def)

lemma flights [simp]:
  "flights_alone m \<Longrightarrow> m_entitlementGroup m k f = f" "flights_alone m \<Longrightarrow> m_usageGroup m k g = g"
  by (simp_all add: flights_alone_def)

context quota_backend
begin

definition keeps :: "('s, 't, 'a) call \<Rightarrow> bool" where
  "keeps c \<longleftrightarrow> (\<forall>w. view (w_storage (snd (run_state c w))) = view (w_storage w))"

lemma keepsD: "keeps c \<Longrightarrow> run_state c w = (r, w') \<Longrightarrow> view (w_storage w') = view (w_storage w)"
  by (metis keeps_def snd_conv)

lemma keeps_return [keeps_intros]: "keeps (State_Monad.return x)"
  by (simp add: keeps_def)

lemma keeps_bind [keeps_intros]: "keeps c \<Longrightarrow> (\<And>x. keeps (f x)) \<Longrightarrow> keeps (c \<bind> f)"
  by (simp add: keeps_def case_prod_unfold)

lemma keeps_only_if [keeps_intros]: "keeps c \<Longrightarrow> keeps (only_if b c)"
  by (simp add: only_if_def keeps_return)

lemma keeps_parts [keeps_intros]:
  "keeps (record_metric ev)" "keeps (do_cache g)" "keeps get_fallback" "keeps (on_cache h)"
  by (simp_all add: keeps_def)

lemma keeps_fallback [keeps_intros]: "keeps (on_fallback f s)"
  by (simp add: keeps_def on_fallback_def case_prod_unfold Let_def)

lemma keeps_optimistic [keeps_intros]: "keeps (allow_optimistic u n)"
  by (simp add: keeps_def allow_optimistic_def case_prod_unfold Let_def split: option.split)

lemma keeps_storage: "(\<And>s. view (snd (f s)) = view s) \<Longrightarrow> keeps (on_storage f)"
  by (simp add: keeps_def)

lemma keeps_reads [keeps_intros]:
  "keeps (on_storage (st_GetEntitlement st now u))" "keeps (on_storage (st_GetUsage st now u r p))"
  "keeps (on_storage (st_GetConsumptionRecord st now key))"
  by (simp_all add: keeps_def GetEntitlement_view GetUsage_view GetConsumptionRecord_view)

lemma keeps_allow [keeps_intros]: "keeps (on_storage (srl_Allow st now u r config))"
proof (rule keeps_storage)
  fix s
  define rq where "rq = \<lparr>rq_UserID = u, rq_Resource = r, rq_Algorithm = rl_Algorithm config,
    rq_Rate = rl_Rate config, rq_Window = rl_Window config, rq_Burst = rl_Burst config, rq_Now = now\<rparr>"
  obtain x s' where c: "st_CheckRateLimit st now rq s = (x, s')" by fastforce
  then have "view s' = view s" using CheckRateLimit_view by (metis snd_conv)
  then show "view (snd (srl_Allow st now u r config s)) = view s"
    by (simp add: srl_Allow_def rq_def [symmetric] c Let_def RecordRateLimitRequest_view split: sum.split prod.split)
qed

lemma keeps_now [keeps_intros]:
  assumes "m_storage m = st"
  shows "keeps (mgr_now m now)"
  unfolding mgr_now_def assms by (auto split: option.split intro!: keeps_intros keeps_storage Now_view)

lemma keeps_tryFallback [keeps_intros]: "keeps (tryFallbackEntitlement m now u e)"
  unfolding tryFallbackEntitlement_def by (auto split: option.split intro!: keeps_intros)

lemma keeps_GetEntitlement [keeps_intros]:
  assumes "m_storage m = st" "flights_alone m"
  shows "keeps (GetEntitlement m now u)"
  unfolding GetEntitlement_def fetch_entitlement_def flights(1) [OF assms(2)] assms(1)
  by (auto split: option.split sum.split intro!: keeps_intros)

lemma keeps_checkRateLimit [keeps_intros]:
  assumes "m_storage m = st"
  shows "keeps (checkRateLimit m now u r tier)"
  unfolding checkRateLimit_def assms by (auto split: option.split sum.split intro!: keeps_intros)

lemma keeps_warning_loop [keeps_intros]:
  assumes "m_storage m = st"
  shows "keeps (warning_loop m ctx now u r tier lmt prev cur p ts)"
  by (induction ts) (auto simp: Let_def assms split: option.split intro!: keeps_intros)

lemma keeps_checkWarnings [keeps_intros]:
  assumes "m_storage m = st"
  shows "keeps (checkWarnings m ctx now u r tier lmt cur n p)"
  unfolding checkWarnings_def Let_def by (auto simp: assms intro!: keeps_intros)

lemma keeps_dry_run [keeps_intros]:
  assumes "m_storage m = st"
  shows "keeps (consume_dry_run m now u r tier n lmt p)"
  unfolding consume_dry_run_def Let_def assms by (auto split: sum.split intro!: keeps_intros)

lemma keeps_consume_done [keeps_intros]:
  assumes "m_storage m = st"
  shows "keeps (consume_done m ctx now u r tier pt n lmt p new)"
  unfolding consume_done_def assms by (auto simp: assms intro!: keeps_intros)

lemma keeps_consume_limit [keeps_intros]:
  assumes "m_storage m = st"
  shows "keeps (consume_limit m now u r tier pt p)"
  unfolding consume_limit_def Let_def assms by (auto split: sum.split option.split intro!: keeps_intros)

lemma keeps_replay [keeps_intros]:
  assumes "m_storage m = st"
  shows "keeps (consume_replay m now opts)"
  unfolding consume_replay_def assms by (auto split: sum.split option.split intro!: keeps_intros)

text \<open>The limit a consumption is held to: the tier's, or that of the forever record.\<close>

definition limit_in_force :: "Config \<Rightarrow> string \<Rightarrow> string \<Rightarrow> string \<Rightarrow> PeriodType \<Rightarrow> Period \<Rightarrow> 'b ledger
    \<Rightarrow> goint \<Rightarrow> bool" where
  "limit_in_force c u r tier pt p l lmt \<longleftrightarrow> (lmt = -1 \<or> 0 < lmt)
     \<and> (if pt = PeriodTypeForever then \<exists>used. lg_acct l (bucket u r p) = Some (used, lmt)
        else lmt = getLimitForResource c r tier pt)"

lemma consume_limit_result:
  assumes "m_storage m = st" "run_state (consume_limit m now u r tier pt p) w = (Inr lmt, w')"
  shows "limit_in_force (m_config m) u r tier pt p (view (w_storage w)) lmt"
proof (cases "pt = PeriodTypeForever")
  case True
  obtain uo where uo: "fst (st_GetUsage st now u r p (w_storage w)) = Inr uo"
    "map_option (\<lambda>x. (u_Used x, u_Limit x)) uo = lg_acct (view (w_storage w)) (bucket u r p)"
    using GetUsage_result by blast
  show ?thesis
  proof (cases uo)
    case None
    then show ?thesis using assms(2) True by (simp add: consume_limit_def assms(1) uo(1) Let_def)
  next
    case (Some x)
    have "0 < u_Limit x \<and> lmt = u_Limit x"
      using assms(2) True by (simp add: consume_limit_def assms(1) uo(1) Some Let_def split: if_splits)
    then show ?thesis using uo(2) [symmetric] Some True by (auto simp: limit_in_force_def)
  qed
next
  case False
  then show ?thesis using assms(2)
    by (auto simp: consume_limit_def limit_in_force_def Let_def split: if_splits)
qed

lemma consume_done_result:
  "fst (run_state (consume_done m ctx now u r tier pt n lmt p new) w) = (new, None)"
  by (simp add: consume_done_def case_prod_unfold)

lemma consume_dry_run_result: "snd (fst (run_state (consume_dry_run m now u r tier n lmt p) w)) = None"
  by (simp add: consume_dry_run_def Let_def case_prod_unfold split: sum.split)

text \<open>What a consumption of a positive amount does to the ledger: nothing, or one \<open>spec_consume\<close>.\<close>

definition period_effect :: "Config \<Rightarrow> string \<Rightarrow> string \<Rightarrow> goint \<Rightarrow> ConsumeOptions \<Rightarrow> 'b ledger
    \<Rightarrow> goint \<times> goerr option \<Rightarrow> 'b ledger \<Rightarrow> string \<Rightarrow> PeriodType \<Rightarrow> Period \<Rightarrow> bool" where
  "period_effect c u r n opts l res l' tier pt p \<longleftrightarrow>
     (if snd res \<noteq> None \<or> co_DryRun opts then l' = l
      else \<exists>lmt. limit_in_force c u r tier pt p l lmt
        \<and> spec_consume (bucket u r p) (consume_request c u r n opts tier p lmt) l = (res, l'))"

lemma consume_period_effect:
  assumes "m_storage m = st" "0 < n"
    and "run_state (consume_period m ctx now u r n pt opts tier p) w = (res, w')"
  shows "period_effect (m_config m) u r n opts (view (w_storage w)) res (view (w_storage w')) tier pt p"
proof -
  obtain rate w1 where 1: "run_state (checkRateLimit m now u r tier) w = (rate, w1)" by fastforce
  have v1: "view (w_storage w1) = view (w_storage w)" by (rule keepsD [OF keeps_checkRateLimit 1]) fact
  show ?thesis
  proof (cases "rate_refusal now rate")
    case (Some err)
    then show ?thesis using assms(3) v1 by (auto simp: consume_period_def 1 period_effect_def)
  next
    case allowed: None
    obtain lim w2 where 2: "run_state (consume_limit m now u r tier pt p) w1 = (lim, w2)" by fastforce
    have v2: "view (w_storage w2) = view (w_storage w)"
      using keepsD [OF keeps_consume_limit 2] assms(1) v1 by simp
    show ?thesis
    proof (cases lim)
      case (Inl err)
      then show ?thesis using assms(3) allowed v2 by (auto simp: consume_period_def 1 2 period_effect_def)
    next
      case (Inr lmt)
      have lf: "limit_in_force (m_config m) u r tier pt p (view (w_storage w)) lmt"
        using consume_limit_result [OF assms(1), of now u r tier pt p w1 lmt w2] 2 Inr v1 by simp
      let ?q = "consume_request (m_config m) u r n opts tier p lmt"
      obtain used e s3 where 3: "st_ConsumeQuota st now ?q (w_storage w2) = ((used, e), s3)" by (metis prod.collapse)
      have sp: "spec_consume (bucket u r p) ?q (view (w_storage w)) = ((used, e), view s3)"
        using consume_refines [of ?q "w_storage w2" now] 3 v2 by (simp add: consume_request_def)
      have e: "e = None \<or> e = Some ErrQuotaExceeded \<and> view s3 = view (w_storage w)"
        using sp assms(2) by (auto simp: spec_consume_def consume_request_def Let_def split: if_splits option.splits)
      show ?thesis
      proof (cases "co_DryRun opts")
        case True
        then show ?thesis
          using assms(3) allowed Inr keepsD [OF keeps_dry_run, of m now u r tier n lmt p w2 res w'] v2 assms(1)
          by (auto simp: consume_period_def 1 2 period_effect_def)
      next
        case False
        note step = consume_period_def 1 2 3 allowed Inr assms(1) False
        show ?thesis
        proof (cases e)
          case None
          let ?w = "w2\<lparr>w_storage := s3, w_metrics := RecordStorageOperation ''ConsumeQuota'' None # w_metrics w2\<rparr>"
          have "run_state (consume_done m ctx now u r tier pt n lmt p used) ?w = (res, w')"
            using assms(3) None by (simp add: step)
          then have "view (w_storage w') = view s3 \<and> res = (used, None)"
            using keepsD [OF keeps_consume_done, of m] consume_done_result [of m ctx now u r tier pt n lmt p used ?w]
              assms(1) by fastforce
          then show ?thesis using sp lf None False by (auto simp: period_effect_def)
        next
          case (Some err)
          then show ?thesis using assms(3) e by (auto simp: step period_effect_def only_if_def split: if_splits)
        qed
      qed
    qed
  qed
qed

text \<open>
  The same for a whole call: refused, failed and dry-run calls and replays of a key keep the ledger, any
  other one is one \<open>spec_consume\<close> in a period of the requested type, or of some type for
  \<open>PeriodTypeAuto\<close>.
\<close>

definition consume_effect :: "Config \<Rightarrow> string \<Rightarrow> string \<Rightarrow> goint \<Rightarrow> PeriodType \<Rightarrow> ConsumeOptions \<Rightarrow> 'b ledger
    \<Rightarrow> goint \<times> goerr option \<Rightarrow> 'b ledger \<Rightarrow> bool" where
  "consume_effect c u r n pt opts l res l' \<longleftrightarrow>
     (if snd res \<noteq> None \<or> co_DryRun opts \<or> n = 0 then l' = l
      else 0 < n \<and> (case keyed (co_IdempotencyKey opts) (lg_done l (co_IdempotencyKey opts)) of
          Some d \<Rightarrow> res = (d, None) \<and> l' = l
        | None \<Rightarrow> \<exists>tier pt' ent t p. (pt' = pt \<or> pt = PeriodTypeAuto) \<and> period_for ent t pt' = Some p
            \<and> period_effect c u r n opts l res l' tier pt' p))"

lemma consume_replay_result:
  assumes "m_storage m = st" "run_state (consume_replay m now opts) w = (replay, w')"
  shows "replay = map_option (\<lambda>d. (d, None))
    (keyed (co_IdempotencyKey opts) (lg_done (view (w_storage w)) (co_IdempotencyKey opts)))"
proof -
  obtain ro where "fst (st_GetConsumptionRecord st now (co_IdempotencyKey opts) (w_storage w)) = Inr ro"
    "lg_done (view (w_storage w)) (co_IdempotencyKey opts) = map_option cn_NewUsed ro"
    using GetConsumptionRecord_result by (metis (no_types))
  then show ?thesis
    using assms by (auto simp: consume_replay_def keyed_def split: option.splits if_splits)
qed

lemma consume_effect_refused:
  "snd res \<noteq> None \<Longrightarrow> consume_effect c u r n pt opts l res l' \<longleftrightarrow> l' = l"
  by (simp add: consume_effect_def)

lemma consume_effect_auto:
  "consume_effect c u r n pt opts l res l' \<Longrightarrow> consume_effect c u r n PeriodTypeAuto opts l res l'"
  by (cases "keyed (co_IdempotencyKey opts) (lg_done l (co_IdempotencyKey opts))"; cases "snd res = None";
      cases "co_DryRun opts"; cases "n = 0") (simp_all add: consume_effect_def, blast)

lemma consume_in_order_effect:
  assumes each: "\<And>pt w res w'. view (w_storage w) = l \<Longrightarrow> run_state (f pt) w = (res, w') \<Longrightarrow>
      consume_effect c u r n pt opts l res (view (w_storage w'))"
    and "view (w_storage w) = l" "run_state (consume_in_order f pts e) w = (res, w')" "pts = [] \<Longrightarrow> e \<noteq> None"
  shows "consume_effect c u r n PeriodTypeAuto opts l res (view (w_storage w'))"
  using assms(2-)
proof (induction pts arbitrary: w e)
  case (Cons pt pts)
  obtain used e1 w1 where 1: "run_state (f pt) w = ((used, e1), w1)" by (metis prod.collapse)
  have eff: "consume_effect c u r n pt opts l (used, e1) (view (w_storage w1))"
    using each [OF Cons.prems(1) 1] .
  show ?case
  proof (cases e1)
    case None
    then show ?thesis using Cons.prems(2) consume_effect_auto [OF eff] by (simp add: 1)
  next
    case (Some err)
    then have l1: "view (w_storage w1) = l" using eff by (simp add: consume_effect_def)
    show ?thesis
    proof (cases "err = ErrQuotaExceeded")
      case True
      then show ?thesis using Cons.IH [OF l1, of "Some err"] Cons.prems(2) Some by (simp add: 1)
    next
      case False
      then show ?thesis using Cons.prems(2) Some l1 by (auto simp: 1 consume_effect_def)
    qed
  qed
qed (auto simp: consume_effect_def)

lemma consumption_order_nonempty: "consumption_order c tier \<noteq> []"
  by (simp add: consumption_order_def split: option.split)

lemma Consume_fuel_effect:
  assumes "m_storage m = st" "flights_alone m" "view (w_storage w) = l"
    and "run_state (Consume_fuel k m ctx now u r n pt opts) w = (res, w')"
  shows "consume_effect (m_config m) u r n pt opts l res (view (w_storage w'))"
  using assms(3,4)
proof (induction k arbitrary: pt w res w')
  case 0
  then show ?case by (auto simp: consume_effect_def)
next
  case (Suc k)
  show ?case
  proof (cases "ctx_Err ctx = None \<and> 0 < n")
    case False
    then consider "ctx_Err ctx \<noteq> None" | "ctx_Err ctx = None" "n < 0" | "ctx_Err ctx = None" "n = 0" by force
    then have "(res = (0, ctx_Err ctx) \<and> ctx_Err ctx \<noteq> None \<or> res = (0, Some ErrInvalidAmount)
        \<or> n = 0) \<and> w' = w"
      by cases (use Suc.prems(2) in \<open>auto simp del: not_None_eq\<close>)
    then show ?thesis using Suc.prems(1) by (auto simp: consume_effect_def)
  next
    case True
    obtain replay w1 where 1: "run_state (consume_replay m now opts) w = (replay, w1)" by fastforce
    have v1: "view (w_storage w1) = l" using keepsD [OF keeps_replay 1] assms(1) Suc.prems(1) by simp
    note rep = consume_replay_result [OF assms(1) 1, unfolded Suc.prems(1)]
    show ?thesis
    proof (cases replay)
      case (Some x)
      then show ?thesis using Suc.prems(2) rep v1 True
        by (auto simp: 1 consume_effect_def)
    next
      case None
      then have key: "keyed (co_IdempotencyKey opts) (lg_done l (co_IdempotencyKey opts)) = None" using rep by simp
      obtain ent w2 where 2: "run_state (GetEntitlement m now u) w1 = (ent, w2)" by fastforce
      have v2: "view (w_storage w2) = l" using keepsD [OF keeps_GetEntitlement 2] assms(1,2) v1 by simp
      obtain t w3 where 3: "run_state (mgr_now m now) w2 = (t, w3)" by fastforce
      have v3: "view (w_storage w3) = l" using keepsD [OF keeps_now 3] assms(1) v2 by simp
      note step = Suc.prems(2) [unfolded Consume_fuel.simps(2) Let_def] 1 2 3 None True
      show ?thesis
      proof (cases "\<exists>err. ent = Inl err \<and> err \<noteq> ErrEntitlementNotFound")
        case True
        then show ?thesis using step v2 by (auto simp: consume_effect_def)
      next
        case False
        then have ok: "(case ent of Inl err \<Rightarrow> if err \<noteq> ErrEntitlementNotFound then Some err else None | Inr _ \<Rightarrow> None) = None"
          by (auto split: sum.split)
        show ?thesis
        proof (cases "pt = PeriodTypeAuto")
          case auto: True
          have "run_state (consume_in_order (\<lambda>pt. Consume_fuel k m ctx now u r n pt opts)
              (consumption_order (m_config m) (tier_of (m_config m) ent)) None) w3 = (res, w')"
            using step ok auto by simp
          from consume_in_order_effect [OF Suc.IH v3 this] consumption_order_nonempty auto
          show ?thesis by simp
        next
          case expl: False
          show ?thesis
          proof (cases "period_for (found ent) t pt")
            case none: None
            then show ?thesis using step ok expl v3 by (auto simp: consume_effect_def)
          next
            case (Some p)
            have "run_state (consume_period m ctx now u r n pt opts (tier_of (m_config m) ent) p) w3 = (res, w')"
              using step ok expl Some by simp
            from consume_period_effect [OF assms(1) _ this] True v3
            have "period_effect (m_config m) u r n opts l res (view (w_storage w')) (tier_of (m_config m) ent) pt p"
              by simp
            moreover from this have "snd res \<noteq> None \<or> co_DryRun opts \<Longrightarrow> view (w_storage w') = l"
              by (simp add: period_effect_def)
            ultimately show ?thesis using True key Some
              unfolding consume_effect_def by (simp split: if_split) blast
          qed
        qed
      qed
    qed
  qed
qed

lemma Consume_effect:
  assumes "m_storage m = st" "flights_alone m"
    and "run_state (Consume m ctx now u r n pt opts) w = (res, w')"
  shows "consume_effect (m_config m) u r n pt opts (view (w_storage w)) res (view (w_storage w'))"
  using Consume_fuel_effect [OF assms(1,2) refl] assms(3) unfolding Consume_def by blast

end

section \<open>The manager over the in-memory storage\<close>

lemma spec_consume_accepted:
  assumes "spec_consume b q l = ((n, None), l')" "0 < cq_Amount q"
    and "keyed (cq_IdempotencyKey q) (lg_done l (cq_IdempotencyKey q)) = None"
  shows "n = iadd (lg_used l b) (cq_Amount q) \<and> (cq_Limit q = -1 \<or> n \<le> cq_Limit q)
      \<and> lg_acct l' b = Some (n, cq_Limit q) \<and> (\<forall>k. k \<noteq> b \<longrightarrow> lg_acct l' k = lg_acct l k)"
    and "cq_IdempotencyKey q \<noteq> '''' \<Longrightarrow> lg_done l' (cq_IdempotencyKey q) = Some n"
  using assms by (auto simp: spec_consume_def Let_def split: if_splits)

text \<open>An accepted consumption charges one record; with a key it is also recorded under it.\<close>

definition charged :: "Config \<Rightarrow> string \<Rightarrow> string \<Rightarrow> goint \<Rightarrow> PeriodType \<Rightarrow> string ledger \<Rightarrow> goint \<Rightarrow> string ledger
    \<Rightarrow> bool" where
  "charged c u r n pt l used l' \<longleftrightarrow> (\<exists>pt' ent t p key. (pt' = pt \<or> pt = PeriodTypeAuto) \<and> period_for ent t pt' = Some p
    \<and> key = mem_usageKey u r p \<and> used = iadd (lg_used l key) n
    \<and> (\<exists>tier lmt. memory.limit_in_force c u r tier pt' p l lmt \<and> (lmt = -1 \<or> used \<le> lmt)
        \<and> lg_acct l' key = Some (used, lmt))
    \<and> (\<forall>k. k \<noteq> key \<longrightarrow> lg_acct l' k = lg_acct l k))"

lemma effect_charged:
  assumes "memory.consume_effect c u r n pt opts l (used, None) l'" "0 < n" "\<not> co_DryRun opts"
    and "keyed (co_IdempotencyKey opts) (lg_done l (co_IdempotencyKey opts)) = None"
  shows "charged c u r n pt l used l'"
    and "co_IdempotencyKey opts \<noteq> '''' \<Longrightarrow> lg_done l' (co_IdempotencyKey opts) = Some used"
proof -
  obtain tier pt' ent t p where p: "pt' = pt \<or> pt = PeriodTypeAuto" "period_for ent t pt' = Some p"
    and eff: "memory.period_effect c u r n opts l (used, None) l' tier pt' p"
    using assms by (simp add: memory.consume_effect_def) blast
  let ?key = "mem_usageKey u r p"
  obtain lmt where lmt: "memory.limit_in_force c u r tier pt' p l lmt"
    and sp: "spec_consume ?key (consume_request c u r n opts tier p lmt) l = ((used, None), l')"
    using eff assms(3) by (auto simp: memory.period_effect_def)
  note acc = spec_consume_accepted [OF sp, unfolded consume_request_def ConsumeRequest.simps, OF assms(2,4)]
  show "charged c u r n pt l used l'" unfolding charged_def using p lmt acc(1) by blast
  show "co_IdempotencyKey opts \<noteq> '''' \<Longrightarrow> lg_done l' (co_IdempotencyKey opts) = Some used" by (rule acc(2))
qed

lemma consumption_recorded:
  assumes "m_storage m = memory_storage" "flights_alone m"
    and "run_state (Consume m ctx now u r n pt opts) w = ((used, None), w1)"
    and "0 < n" "\<not> co_DryRun opts" "co_IdempotencyKey opts \<noteq> ''''"
  shows "\<exists>rec. ms_consumptions (w_storage w1) (co_IdempotencyKey opts) = Some rec \<and> cn_NewUsed rec = used"
proof -
  let ?l = "mem_view (w_storage w)"
  let ?key = "co_IdempotencyKey opts"
  note eff = memory.Consume_effect [OF assms(1-3)]
  have "lg_done (mem_view (w_storage w1)) ?key = Some used"
  proof (cases "keyed ?key (lg_done ?l ?key)")
    case (Some d)
    then show ?thesis
      using eff assms(4-6) by (auto simp: memory.consume_effect_def keyed_def simp del: mem_view_simps)
  next
    case None
    with effect_charged(2) [OF eff assms(4,5)] assms(6) show ?thesis by blast
  qed
  then show ?thesis by auto
qed

lemma Consume_replayed:
  assumes "m_storage m = memory_storage" "ms_consumptions (w_storage w) (co_IdempotencyKey opts) = Some rec"
    and "co_IdempotencyKey opts \<noteq> ''''" "ctx_Err ctx = None" "0 < n"
  shows "run_state (Consume m ctx now u r n pt opts) w
    = ((cn_NewUsed rec, None), w\<lparr>w_metrics := RecordIdempotencyHit ''consume'' # w_metrics w\<rparr>)"
  using assms by (simp add: Consume_def numeral_2_eq_2 consume_replay_def mem_GetConsumptionRecord_def)

text \<open>C5: A Consume call that returns an error, of whatever kind, and a dry run leave every usage record, every
  limit and every idempotency record of the storage as they were; also for PeriodTypeAuto.\<close>

theorem Consume_refused_keeps_ledger:
  assumes "m_storage m = memory_storage" "flights_alone m"
    and "run_state (Consume m ctx now u r n pt opts) w = (res, w')"
    and "snd res \<noteq> None \<or> co_DryRun opts"
  shows "mem_view (w_storage w') = mem_view (w_storage w)"
  using memory.Consume_effect [OF assms(1-3)] assms(4) by (auto simp: memory.consume_effect_def split: if_splits)


text \<open>C4: A Consume call repeated with its idempotency key returns what the first one returned and leaves the
  storage as it is, even for another amount, resource, user or period type.\<close>

theorem Consume_idempotent:
  assumes "m_storage m = memory_storage" "flights_alone m"
    and "run_state (Consume m ctx now u r n pt opts) w = ((used, None), w1)"
    and "0 < n" "\<not> co_DryRun opts" "co_IdempotencyKey opts \<noteq> ''''"
    and "w_storage w2 = w_storage w1" "ctx_Err ctx' = None" "0 < n'"
    and "co_IdempotencyKey opts' = co_IdempotencyKey opts"
  shows "\<exists>w'. run_state (Consume m ctx' now' u' r' n' pt' opts') w2 = ((used, None), w') \<and> w_storage w' = w_storage w2"
proof -
  obtain rec where "ms_consumptions (w_storage w2) (co_IdempotencyKey opts') = Some rec" "cn_NewUsed rec = used"
    using consumption_recorded [OF assms(1-6)] assms(7,10) by auto
  with Consume_replayed [OF assms(1), of w2 opts' rec ctx' n' now' u' r' pt'] assms(6,8-10)
  show ?thesis by simp
qed

end
