(* ===== verification/ManagerCache.thy ===== *)
theory ManagerCache
  imports ManagerOps ManagerLedger
begin

text \<open>
  The manager's cache against the in-memory storage. Every operation of the manager that changes
  a used amount or an entitlement invalidates the cache entry for it, so the cache never returns
  an outdated one: \<open>cache_inv {} {}\<close> is an invariant of every operation (\<open>mgr_step\<close>), with the
  keys between a write and its invalidation in its two sets. Limits are not covered: a change of
  tier leaves cached limits as they are until they expire.

  \<open>stable\<close> is the invariant form of a pre- and postcondition triple over the state monad.
\<close>

definition used_in :: "MemState \<Rightarrow> string \<Rightarrow> goint option" where
  "used_in s k = map_option u_Used (ms_usage s k)"

definition cache_inv :: "string set \<Rightarrow> string set \<Rightarrow> (MemState, 't) World \<Rightarrow> bool" where
  "cache_inv X E w \<longleftrightarrow> cache_ok (w_cache w) \<and> uc.coherent u_Used X (used_in (w_storage w)) (w_cache w)
     \<and> ec.coherent id E (ms_entitlements (w_storage w)) (w_cache w)"

definition triple :: "('w \<Rightarrow> bool) \<Rightarrow> ('w, 'a) state \<Rightarrow> ('a \<Rightarrow> 'w \<Rightarrow> bool) \<Rightarrow> bool" where
  "triple P c Q \<longleftrightarrow> (\<forall>w. P w \<longrightarrow> Q (fst (run_state c w)) (snd (run_state c w)))"

definition stable :: "string set \<Rightarrow> string set \<Rightarrow> (MemState, 't, 'a) call \<Rightarrow> bool" where
  "stable X E c \<longleftrightarrow> triple (cache_inv X E) c (\<lambda>_. cache_inv X E)"

named_theorems stable_intros \<open>calls that keep the cache invariant\<close>

lemma triple_bind:
  "triple P c R \<Longrightarrow> (\<And>x. triple (R x) (f x) Q) \<Longrightarrow> triple P (c \<bind> f) Q"
  by (simp add: triple_def case_prod_unfold)

lemma triple_conseq: "triple P c Q \<Longrightarrow> (\<And>w. P' w \<Longrightarrow> P w) \<Longrightarrow> (\<And>x w. Q x w \<Longrightarrow> Q' x w) \<Longrightarrow> triple P' c Q'"
  by (simp add: triple_def)

lemma triple_return: "(\<And>w. P w \<Longrightarrow> Q x w) \<Longrightarrow> triple P (State_Monad.return x) Q"
  by (simp add: triple_def)

lemma stable_return [stable_intros]: "stable X E (State_Monad.return x)"
  by (simp add: stable_def triple_def)

lemma stable_bind [stable_intros]: "stable X E c \<Longrightarrow> (\<And>x. stable X E (f x)) \<Longrightarrow> stable X E (c \<bind> f)"
  unfolding stable_def by (rule triple_bind)

lemma stable_only_if [stable_intros]: "stable X E c \<Longrightarrow> stable X E (only_if b c)"
  by (simp add: only_if_def stable_return)

lemma stable_parts [stable_intros]:
  "stable X E (record_metric ev)" "stable X E get_fallback" "stable X E (allow_optimistic u n)"
  by (simp_all add: stable_def triple_def cache_inv_def allow_optimistic_def case_prod_unfold Let_def
      split: option.split)

lemma stable_storage:
  assumes "\<And>s. ms_usage (snd (f s)) = ms_usage s" "\<And>s. ms_entitlements (snd (f s)) = ms_entitlements s"
  shows "stable X E (on_storage f)"
  using assms by (simp add: stable_def triple_def cache_inv_def used_in_def [abs_def])

lemma stable_gets [stable_intros]:
  "stable X E (on_cache (cache_GetUsage now k))" "stable X E (on_cache (cache_GetEntitlement now k))"
  using uc.coherent_get ec.coherent_get uc.ok_get ec.ok_get
  by (auto simp: stable_def triple_def cache_inv_def uc.coherent_def ec.coherent_def ec.get_keeps uc.get_keeps)

section \<open>Reads of the storage\<close>

lemma mem_reads:
  "snd (mem_GetEntitlement now u s) = s" "snd (mem_GetUsage now u r p s) = s"
  "snd (mem_GetConsumptionRecord now key s) = s" "snd (mem_GetRefundRecord now key s) = s"
  "snd (mem_RecordRateLimitRequest now rq s) = s" "snd (mem_Now now s) = s"
  by (simp_all add: mem_GetEntitlement_def mem_GetUsage_def mem_GetConsumptionRecord_def mem_GetRefundRecord_def
      mem_RecordRateLimitRequest_def mem_Now_def split: option.split)

lemma mem_rate_limit_frame:
  "ms_usage (snd (mem_CheckRateLimit now rq s)) = ms_usage s"
  "ms_entitlements (snd (mem_CheckRateLimit now rq s)) = ms_entitlements s"
  by (simp_all add: mem_CheckRateLimit_def mem_checkTokenBucket_def mem_checkSlidingWindow_def Let_def
      split: list.split)

lemma stable_reads [stable_intros]:
  "stable X E (on_storage (mem_GetEntitlement now u))" "stable X E (on_storage (mem_GetUsage now u r p))"
  "stable X E (on_storage (mem_GetConsumptionRecord now key))" "stable X E (on_storage (mem_GetRefundRecord now key))"
  "stable X E (on_storage (mem_Now now))"
  by (rule stable_storage; simp add: mem_reads)+

lemma stable_allow [stable_intros]: "stable X E (on_storage (srl_Allow memory_storage now u r config))"
proof (rule stable_storage)
  fix s
  define rq where "rq = \<lparr>rq_UserID = u, rq_Resource = r, rq_Algorithm = rl_Algorithm config,
    rq_Rate = rl_Rate config, rq_Window = rl_Window config, rq_Burst = rl_Burst config, rq_Now = now\<rparr>"
  obtain x s' where c: "mem_CheckRateLimit now rq s = (x, s')" by fastforce
  then have "ms_usage s' = ms_usage s" "ms_entitlements s' = ms_entitlements s"
    using mem_rate_limit_frame [of now rq s] by simp_all
  then show "ms_usage (snd (srl_Allow memory_storage now u r config s)) = ms_usage s"
    "ms_entitlements (snd (srl_Allow memory_storage now u r config s)) = ms_entitlements s"
    by (simp_all add: srl_Allow_def rq_def [symmetric] c Let_def mem_reads split: sum.split prod.split)
qed

section \<open>The fallback reads the cache\<close>

definition same_cache :: "Cache \<Rightarrow> Cache \<Rightarrow> bool" where
  "same_cache c c' \<longleftrightarrow> (cache_ok c \<longrightarrow> cache_ok c'
     \<and> (\<forall>t k. peek_usage t k c' = peek_usage t k c) \<and> (\<forall>t k. peek_entitlement t k c' = peek_entitlement t k c))"

lemma same_cache_refl [simp]: "same_cache c c"
  by (simp add: same_cache_def)

lemma same_cache_trans: "same_cache a b \<Longrightarrow> same_cache b c \<Longrightarrow> same_cache a c"
  by (auto simp: same_cache_def)

lemma same_cache_gets: "same_cache c (snd (cache_GetUsage now k c))" "same_cache c (snd (cache_GetEntitlement now k c))"
  by (simp_all add: same_cache_def uc.ok_get ec.ok_get uc.get_keeps ec.get_keeps)

lemma same_cache_GetFallbackUsage:
  "same_cache (fe_cache env) (fe_cache (snd (GetFallbackUsage sec now u r p s env)))"
  "same_cache (fe_cache env) (fe_cache (snd (GetFallbackUsage_loop sec now u r p ss e env)))"
proof (induction sec now u r p s env and sec now u r p ss e env
    rule: GetFallbackUsage_GetFallbackUsage_loop.induct)
  case (6 sec now u r p s ss e env)
  obtain res env' where g: "GetFallbackUsage sec now u r p s env = (res, env')" by fastforce
  have "same_cache (fe_cache env) (fe_cache env')" using 6(1) g by simp
  with 6(2,3) g show ?case
    by (auto simp: Let_def intro: same_cache_trans split: sum.split option.split)
qed (auto simp: cache_fallback_usage_def secondary_fallback_usage_def Let_def case_prod_unfold same_cache_gets
    split: option.split sum.split)

lemma same_cache_GetFallbackEntitlement:
  "same_cache (fe_cache env) (fe_cache (snd (GetFallbackEntitlement sec now u s env)))"
  "same_cache (fe_cache env) (fe_cache (snd (GetFallbackEntitlement_loop sec now u ss e env)))"
proof (induction sec now u s env and sec now u ss e env
    rule: GetFallbackEntitlement_GetFallbackEntitlement_loop.induct)
  case (6 sec now u s ss e env)
  obtain res env' where g: "GetFallbackEntitlement sec now u s env = (res, env')" by fastforce
  have "same_cache (fe_cache env) (fe_cache env')" using 6(1) g by simp
  with 6(2,3) g show ?case
    by (auto simp: Let_def intro: same_cache_trans split: sum.split option.split)
qed (auto simp: cache_fallback_entitlement_def secondary_fallback_entitlement_def Let_def case_prod_unfold
    same_cache_gets split: option.split sum.split)

lemma cache_inv_same:
  "same_cache (w_cache w) c' \<Longrightarrow> cache_inv X E w \<Longrightarrow> w_cache w' = c' \<Longrightarrow> w_storage w' = w_storage w \<Longrightarrow> cache_inv X E w'"
  by (auto simp: cache_inv_def same_cache_def uc.coherent_def ec.coherent_def)

lemma stable_on_fallback:
  assumes "\<And>env. same_cache (fe_cache env) (fe_cache (snd (f s env)))"
  shows "stable X E (on_fallback f s)"
  unfolding stable_def triple_def
proof (intro allI impI)
  fix w :: "(MemState, 'a) World" assume inv: "cache_inv X E w"
  define env where "env = \<lparr>fe_cache = w_cache w, fe_secondary = w_secondary w, fe_metrics = w_metrics w\<rparr>"
  have "same_cache (w_cache w) (fe_cache (snd (f s env)))" using assms [of env] by (simp add: env_def)
  then show "cache_inv X E (snd (run_state (on_fallback f s) w))"
    by (rule cache_inv_same [OF _ inv]) (simp_all add: on_fallback_def env_def [symmetric] case_prod_unfold Let_def)
qed

lemmas stable_fallback [stable_intros] =
  stable_on_fallback [OF same_cache_GetFallbackUsage(1)] stable_on_fallback [OF same_cache_GetFallbackEntitlement(1)]

section \<open>Reads of the manager\<close>

lemma run_bind: "run_state (c \<bind> f) w = run_state (f (fst (run_state c w))) (snd (run_state c w))"
  by (simp add: case_prod_unfold)

lemma stable_now [stable_intros]:
  assumes "m_storage m = memory_storage"
  shows "stable X E (mgr_now m now)"
  unfolding mgr_now_def assms by (auto intro!: stable_intros)

lemma stable_tryFallback [stable_intros]: "stable X E (tryFallbackEntitlement m now u e)"
  unfolding tryFallbackEntitlement_def by (auto split: option.split intro!: stable_intros)

lemma stableD: "stable X E c \<Longrightarrow> cache_inv X E w \<Longrightarrow> cache_inv X E (snd (run_state c w))"
  by (simp add: stable_def triple_def)

lemma stableI: "(\<And>w. cache_inv X E w \<Longrightarrow> cache_inv X E (snd (run_state c w))) \<Longrightarrow> stable X E c"
  by (simp add: stable_def triple_def)

lemma cache_inv_metrics [simp]: "cache_inv X E (w\<lparr>w_metrics := ms\<rparr>) = cache_inv X E w"
  by (simp add: cache_inv_def)

lemma coherent_cross [simp]:
  "uc.coherent pr X st (cache_SetEntitlement now u ent ttl c) = uc.coherent pr X st c"
  "uc.coherent pr X st (cache_InvalidateEntitlement u c) = uc.coherent pr X st c"
  "ec.coherent pr' X st' (cache_SetUsage now k v ttl c) = ec.coherent pr' X st' c"
  "ec.coherent pr' X st' (cache_InvalidateUsage k c) = ec.coherent pr' X st' c"
  "ec.coherent pr' X st' (cache_alias_usage k v c) = ec.coherent pr' X st' c"
  by (simp_all add: uc.coherent_def ec.coherent_def)

text \<open>What was read from the storage may be cached.\<close>

lemma cache_inv_put:
  "cache_inv X E w \<Longrightarrow> ms_entitlements (w_storage w) u = Some ent \<Longrightarrow>
    cache_inv X E (w\<lparr>w_cache := cache_SetEntitlement now u ent ttl (w_cache w)\<rparr>)"
  "cache_inv X E w \<Longrightarrow> used_in (w_storage w) k = Some (u_Used v) \<Longrightarrow>
    cache_inv X E (w\<lparr>w_cache := cache_SetUsage now k v ttl (w_cache w)\<rparr>)"
  by (simp_all add: cache_inv_def ec.ok_put uc.ok_put ec.coherent_put uc.coherent_put)

lemma stable_fetch_entitlement [stable_intros]:
  assumes "m_storage m = memory_storage"
  shows "stable X E (fetch_entitlement m now u)"
proof (rule stableI)
  fix w :: "(MemState, 'a) World" assume "cache_inv X E w"
  define w1 where "w1 = w\<lparr>w_cache := snd (cache_GetEntitlement now u (w_cache w))\<rparr>"
  have inv: "cache_inv X E w1"
    using stableD [OF stable_gets(2) \<open>cache_inv X E w\<close>, of now u] by (simp add: w1_def)
  show "cache_inv X E (snd (run_state (fetch_entitlement m now u) w))"
  proof (cases "fst (cache_GetEntitlement now u (w_cache w))")
    case None
    show ?thesis
    proof (cases "ms_entitlements (w_storage w) u")
      case (Some ent)
      then show ?thesis
        using cache_inv_put(1) [OF inv, of u ent now "entitlement_ttl (m_config m)"] \<open>fst _ = None\<close>
        by (simp add: fetch_entitlement_def assms mem_GetEntitlement_def sum_error_def w1_def cache_inv_def)
    next
      case none: None
      then show ?thesis using inv None
        by (simp add: fetch_entitlement_def assms mem_GetEntitlement_def w1_def)
    qed
  qed (use inv in \<open>simp add: fetch_entitlement_def w1_def\<close>)
qed

lemma stable_GetEntitlement [stable_intros]:
  assumes "m_storage m = memory_storage" "flights_alone m"
  shows "stable X E (GetEntitlement m now u)"
  unfolding GetEntitlement_def flights(1) [OF assms(2)]
  by (auto simp: assms split: option.split intro!: stable_intros)

lemma stable_checkRateLimit [stable_intros]:
  assumes "m_storage m = memory_storage"
  shows "stable X E (checkRateLimit m now u r tier)"
  unfolding checkRateLimit_def assms by (auto split: option.split sum.split intro!: stable_intros)

lemma stable_warning_loop [stable_intros]:
  assumes "m_storage m = memory_storage"
  shows "stable X E (warning_loop m ctx now u r tier lmt prev cur p ts)"
  by (induction ts) (auto simp: Let_def assms split: option.split intro!: stable_intros)

lemma stable_checkWarnings [stable_intros]:
  assumes "m_storage m = memory_storage"
  shows "stable X E (checkWarnings m ctx now u r tier lmt cur n p)"
  unfolding checkWarnings_def Let_def by (auto simp: assms intro!: stable_intros)

lemma stable_fallback_usage [stable_intros]: "stable X E (fallback_usage m now u r p s)"
  unfolding fallback_usage_def by (auto intro!: stable_intros)

text \<open>A usage fetched for \<open>GetQuota\<close> has the used amount of the storage, if it came from there.\<close>

lemma fetch_usage_spec:
  assumes "m_storage m = memory_storage" "cache_inv {} {} w"
    and "run_state (fetch_usage m now u r tier pt p) w = (res, w')"
  shows "cache_inv {} {} w' \<and> (\<exists>x. res = Inr x \<and> map_option (\<lambda>(v, b). u_Used v) x = used_in (w_storage w) (mem_usageKey u r p))
    \<and> w_storage w' = w_storage w"
proof -
  let ?k = "usage_cache_key u r p"
  have k: "mem_usageKey u r p = ?k" by (simp add: mem_usageKey_def usage_cache_key_def)
  define w1 where "w1 = w\<lparr>w_cache := snd (cache_GetUsage now ?k (w_cache w))\<rparr>"
  have inv: "cache_inv {} {} w1"
    using stableD [OF stable_gets(1) assms(2), of now ?k] by (simp add: w1_def)
  show ?thesis
  proof (cases "fst (cache_GetUsage now ?k (w_cache w))")
    case (Some v)
    have "used_in (w_storage w) ?k = Some (u_Used v)"
      using assms(2) Some uc.coherent_get_value [of u_Used "{}" "used_in (w_storage w)" "w_cache w" now ?k v]
      by (simp add: cache_inv_def)
    with Some show ?thesis using assms(3) inv by (auto simp: fetch_usage_def Let_def w1_def k)
  next
    case None
    show ?thesis
    proof (cases "ms_usage (w_storage w) ?k")
      case (Some v)
      then show ?thesis
        using assms(3) None cache_inv_put(2) [OF inv, of ?k v now "usage_ttl (m_config m)"]
        by (auto simp: fetch_usage_def Let_def assms(1) mem_GetUsage_def sum_error_def w1_def used_in_def k
            cache_inv_def)
    next
      case none: None
      then show ?thesis using assms(3) inv None
        by (auto simp: fetch_usage_def Let_def assms(1) mem_GetUsage_def w1_def used_in_def k)
    qed
  qed
qed

lemma mgr_now_memory [simp]: "m_storage m = memory_storage \<Longrightarrow> run_state (mgr_now m now) w = (now, w)"
  by (simp add: mgr_now_def mem_Now_def)

text \<open>Over the in-memory storage the entitlement is the stored one, whether it was cached or not.\<close>

lemma GetEntitlement_spec:
  assumes "m_storage m = memory_storage" "flights_alone m" "cache_inv X {} w"
    and "run_state (GetEntitlement m now u) w = (res, w')"
  shows "res = (case ms_entitlements (w_storage w) u of None \<Rightarrow> Inl ErrEntitlementNotFound | Some e \<Rightarrow> Inr e)
    \<and> w_storage w' = w_storage w \<and> cache_inv X {} w'"
proof -
  let ?c = "w_cache w"
  have ok: "cache_ok ?c" and coh: "ec.coherent id {} (ms_entitlements (w_storage w)) ?c"
    using assms(3) by (simp_all add: cache_inv_def)
  have inv: "cache_inv X {} w'"
    using stableD [OF stable_GetEntitlement [OF assms(1,2)] assms(3), of now u] assms(4) by simp
  show ?thesis
  proof (cases "fst (cache_GetEntitlement now u ?c)")
    case (Some e)
    then have "ms_entitlements (w_storage w) u = Some e" using ec.coherent_get_value [OF coh] by fastforce
    then show ?thesis using assms(4) Some inv by (auto simp: GetEntitlement_def)
  next
    case None
    have "fst (cache_GetEntitlement now u (snd (cache_GetEntitlement now u ?c))) = None"
      using None ec.get_result [of now u] ec.get_keeps [OF ok] by metis
    then show ?thesis using assms(4) None inv
      by (auto simp: GetEntitlement_def fetch_entitlement_def assms(1,2) mem_GetEntitlement_def split: option.splits)
  qed
qed

lemma cache_inv_alias:
  assumes "cache_inv X E w" "used_in (w_storage w) k = Some (u_Used v)"
  shows "cache_inv X E (w\<lparr>w_cache := cache_alias_usage k v (w_cache w)\<rparr>)"
  using assms by (auto simp: cache_inv_def cache_ok_alias uc.coherent_def peek_usage_alias)

lemma with_limit_used [simp]: "u_Used (with_limit c r tier pt v) = u_Used v"
  by (simp add: with_limit_def)

lemma quota_result_spec:
  assumes "cache_inv {} {} w" "map_option (\<lambda>(v, b). u_Used v) x = used_in (w_storage w) (usage_cache_key u r p)"
    and "run_state (quota_result m u r tier pt p (Inr x)) w = (res, w')"
  shows "cache_inv {} {} w' \<and> w_storage w' = w_storage w
    \<and> (\<exists>v. res = Inr v \<and> u_Used v = (case used_in (w_storage w) (usage_cache_key u r p) of None \<Rightarrow> 0 | Some n \<Rightarrow> n))"
proof (cases x)
  case None
  then show ?thesis using assms by (auto simp: quota_result_def zero_usage_def Let_def)
next
  case (Some vb)
  obtain v b where vb: "vb = (v, b)" by fastforce
  let ?v = "with_limit (m_config m) r tier pt v"
  have u: "used_in (w_storage w) (usage_cache_key u r p) = Some (u_Used ?v)"
    using assms(2) Some vb by simp
  note al = cache_inv_alias [OF assms(1) u]
  show ?thesis
    using assms(1,3) al u Some vb by (auto simp: quota_result_def Let_def only_if_def split: if_splits)
qed

lemma GetQuota_spec:
  assumes "m_storage m = memory_storage" "flights_alone m" "cache_inv {} {} w"
    and "run_state (GetQuota m now u r pt) w = (res, w')"
  shows "cache_inv {} {} w' \<and> w_storage w' = w_storage w
    \<and> (case period_for (ms_entitlements (w_storage w) u) now pt of
         None \<Rightarrow> res = Inl ErrInvalidPeriod
       | Some p \<Rightarrow> \<exists>v. res = Inr v
           \<and> u_Used v = (case used_in (w_storage w) (mem_usageKey u r p) of None \<Rightarrow> 0 | Some n \<Rightarrow> n))"
proof -
  obtain ent w1 where 1: "run_state (GetEntitlement m now u) w = (ent, w1)" by fastforce
  note e = GetEntitlement_spec [OF assms(1-3) 1]
  then have f: "found ent = ms_entitlements (w_storage w) u" by (auto simp: found_def split: option.splits)
  let ?tier = "tier_of (m_config m) ent"
  show ?thesis
  proof (cases "period_for (found ent) now pt")
    case None
    then show ?thesis using assms(4) e f by (auto simp: GetQuota_def get_quota_def 1 assms(1) Let_def)
  next
    case (Some p)
    let ?k = "usage_cache_key u r p"
    have k: "mem_usageKey u r p = ?k" by (simp add: mem_usageKey_def usage_cache_key_def)
    define w2 where "w2 = w1\<lparr>w_cache := snd (cache_GetUsage now ?k (w_cache w1))\<rparr>"
    have i2: "cache_inv {} {} w2" and s2: "w_storage w2 = w_storage w"
      using stableD [OF stable_gets(1), of "{}" "{}" w1 now ?k] e by (simp_all add: w2_def)
    show ?thesis
    proof (cases "fst (cache_GetUsage now ?k (w_cache w1))")
      case cached: (Some v)
      have "used_in (w_storage w) ?k = Some (u_Used v)"
        using uc.coherent_get_value [of u_Used "{}" "used_in (w_storage w1)" "w_cache w1" now ?k v] e cached
        by (auto simp: cache_inv_def)
      then show ?thesis using assms(4) Some cached f i2 s2
        by (auto simp: GetQuota_def get_quota_def 1 assms(1) Let_def k w2_def)
    next
      case none: None
      let ?w = "w2\<lparr>w_metrics := RecordCacheMiss ''usage'' # w_metrics w2\<rparr>"
      obtain x w3 where 3: "run_state (fetch_usage m now u r ?tier pt p) ?w = (x, w3)" by fastforce
      obtain y where y: "x = Inr y" "map_option (\<lambda>(v, b). u_Used v) y = used_in (w_storage w) ?k"
        and i3: "cache_inv {} {} w3" and s3: "w_storage w3 = w_storage w"
        using fetch_usage_spec [OF assms(1) _ 3] i2 s2 by (auto simp: k)
      obtain z w4 where 4: "run_state (quota_result m u r ?tier pt p (Inr y)) w3 = (z, w4)" by fastforce
      have q: "cache_inv {} {} w4 \<and> w_storage w4 = w_storage w3 \<and> (\<exists>v. z = Inr v
          \<and> u_Used v = (case used_in (w_storage w3) ?k of None \<Rightarrow> 0 | Some n \<Rightarrow> n))"
        by (rule quota_result_spec [OF i3 _ 4]) (use y s3 in simp)
      have "res = z \<and> w' = w4\<lparr>w_metrics := RecordQuotaCheck u r # w_metrics w4\<rparr>"
        using assms(4) 3 4 Some none y(1)
        by (auto simp: GetQuota_def get_quota_def 1 assms(1,2) Let_def w2_def)
      then show ?thesis using q s3 f Some by (auto simp: k)
    qed
  qed
qed

section \<open>Writes and invalidations\<close>

text \<open>What a storage operation may change: used amounts at the keys \<open>Y\<close>, and new records.\<close>

definition mem_touches :: "string set \<Rightarrow> MemState \<Rightarrow> MemState \<Rightarrow> bool" where
  "mem_touches Y s s' \<longleftrightarrow> ms_entitlements s' = ms_entitlements s
     \<and> (\<forall>k. k \<notin> Y \<longrightarrow> used_in s k \<noteq> None \<longrightarrow> used_in s' k = used_in s k)"

lemma cache_inv_write:
  assumes "cache_inv X E w" "mem_touches Y (w_storage w) s'"
  shows "cache_inv (X \<union> Y) E (w\<lparr>w_storage := s'\<rparr>)"
  using assms uc.coherent_store [of u_Used X "used_in (w_storage w)" "w_cache w" Y "used_in s'"]
  by (simp add: cache_inv_def mem_touches_def)

lemma cache_inv_invalidate:
  "cache_inv X E w \<Longrightarrow> cache_inv (X - {k}) E (w\<lparr>w_cache := cache_InvalidateUsage k (w_cache w)\<rparr>)"
  by (simp add: cache_inv_def uc.coherent_invalidate uc.ok_invalidate)

lemma stable_touches:
  assumes "\<And>s. mem_touches {} s (snd (f s))"
  shows "stable X E (on_storage f)"
proof (rule stableI)
  fix w :: "(MemState, 'b) World" assume "cache_inv X E w"
  from cache_inv_write [OF this assms] show "cache_inv X E (snd (run_state (on_storage f) w))" by simp
qed

lemma stable_invalidate [stable_intros]: "stable {} E (do_cache (cache_InvalidateUsage k))"
  using cache_inv_invalidate [of "{}"] by (intro stableI) simp

lemma mem_touches_refl [simp]: "mem_touches Y s s"
  by (simp add: mem_touches_def)

lemma mem_touches_consume:
  "mem_touches {mem_usageKey (cq_UserID q) (cq_Resource q) (cq_Period q)} s (snd (mem_ConsumeQuota now q s))"
  "snd (fst (mem_ConsumeQuota now q s)) \<noteq> None \<Longrightarrow> snd (mem_ConsumeQuota now q s) = s"
  by (auto simp: mem_ConsumeQuota_def mem_touches_def used_in_def Let_def split: option.split)

lemma mem_touches_refund:
  assumes "p_Start (rr_Period q) \<noteq> zero_time"
  shows "mem_touches {mem_usageKey (rr_UserID q) (rr_Resource q) (rr_Period q)} s (snd (mem_RefundQuota now q s))"
    "fst (mem_RefundQuota now q s) \<noteq> None \<Longrightarrow> snd (mem_RefundQuota now q s) = s"
  using assms
  by (auto simp: mem_RefundQuota_def mem_refund_period_def mem_touches_def used_in_def Let_def split: option.split)

lemma mem_touches_limits:
  "mem_touches {} s (snd (mem_AddLimit now u r n p key s))"
  "mem_touches {} s (snd (mem_SubtractLimit now u r n p key s))"
  "mem_touches {} s (snd (mem_ApplyTierChange now q s))"
  by (auto simp: mem_AddLimit_def mem_SubtractLimit_def mem_ApplyTierChange_def mem_touches_def used_in_def
      Let_def split: option.split)

lemma mem_touches_set:
  "mem_touches {mem_usageKey u r p} s (snd (mem_SetUsage now u r v p s))"
  "fst (mem_SetUsage now u r v p s) = None"
  by (simp_all add: mem_SetUsage_def mem_touches_def used_in_def)

lemma stable_limits [stable_intros]:
  "stable X E (on_storage (mem_AddLimit now u r n p key))"
  "stable X E (on_storage (mem_SubtractLimit now u r n p key))"
  "stable X E (on_storage (mem_ApplyTierChange now q))"
  by (rule stable_touches, rule mem_touches_limits)+

section \<open>Consume\<close>

lemma stable_consume_parts [stable_intros]:
  assumes "m_storage m = memory_storage"
  shows "stable X E (consume_replay m now opts)" "stable X E (consume_limit m now u r tier pt p)"
    "stable X E (consume_dry_run m now u r tier n lmt p)"
  unfolding consume_replay_def consume_limit_def consume_dry_run_def Let_def assms
  by (auto simp: memory_storage_simps split: option.split sum.split intro!: stable_intros)

lemma stable_consume_failed [stable_intros]:
  assumes "m_storage m = memory_storage"
  shows "stable {} E (consume_failed m ctx now u r tier pt n lmt p err)"
  unfolding consume_failed_def Let_def
  by (auto simp: assms split: option.split intro!: stable_intros)

lemma after_do_cache:
  "cache_inv X E (w\<lparr>w_cache := f (w_cache w)\<rparr>) \<Longrightarrow> stable X E (g ()) \<Longrightarrow>
    cache_inv X E (snd (run_state (do_cache f \<bind> g) w))"
  by (simp add: stable_def triple_def)

lemma consume_done_inv:
  assumes "m_storage m = memory_storage" "cache_inv {mem_usageKey u r p} E w"
  shows "cache_inv {} E (snd (run_state (consume_done m ctx now u r tier pt n lmt p new) w))"
proof -
  have k: "mem_usageKey u r p = usage_cache_key u r p" by (simp add: mem_usageKey_def usage_cache_key_def)
  let ?w = "w\<lparr>w_cache := cache_InvalidateUsage (usage_cache_key u r p) (w_cache w)\<rparr>"
  have inv: "cache_inv {} E ?w"
    using cache_inv_invalidate [OF assms(2), of "usage_cache_key u r p"] by (simp add: k)
  show ?thesis
    unfolding consume_done_def
    by (rule after_do_cache) (use inv in \<open>auto simp: assms(1) intro!: stable_intros\<close>)
qed

lemma stable_consume_period [stable_intros]:
  assumes "m_storage m = memory_storage"
  shows "stable {} E (consume_period m ctx now u r n pt opts tier p)"
proof -
  let ?q = "consume_request (m_config m) u r n opts tier p"
  have commit: "stable {} E (on_storage (mem_ConsumeQuota now (?q lmt)) \<bind> (\<lambda>x.
      record_metric (RecordStorageOperation ''ConsumeQuota'' (snd x)) \<bind> (\<lambda>_. case snd x of
        None \<Rightarrow> consume_done m ctx now u r tier pt n lmt p (fst x)
      | Some err \<Rightarrow> f x err)))"
    if f: "\<And>x err. stable {} E (f x err)" for lmt f
  proof (rule stableI)
    fix w :: "(MemState, 'a) World" assume inv: "cache_inv {} E w"
    obtain x s' where x: "mem_ConsumeQuota now (?q lmt) (w_storage w) = (x, s')" by fastforce
    let ?w = "w\<lparr>w_storage := s', w_metrics := RecordStorageOperation ''ConsumeQuota'' (snd x) # w_metrics w\<rparr>"
    have t: "mem_touches {mem_usageKey u r p} (w_storage w) s'" "snd x \<noteq> None \<Longrightarrow> s' = w_storage w"
      using mem_touches_consume [where q = "?q lmt" and now = now and s = "w_storage w"] x
      by (simp_all add: consume_request_def)
    have "cache_inv {mem_usageKey u r p} E ?w" using cache_inv_write [OF inv t(1)] by simp
    moreover have "cache_inv {} E ?w" if "snd x \<noteq> None" using t(2) [OF that] inv by (simp add: cache_inv_def)
    ultimately show "cache_inv {} E (snd (run_state (on_storage (mem_ConsumeQuota now (?q lmt)) \<bind> (\<lambda>x.
        record_metric (RecordStorageOperation ''ConsumeQuota'' (snd x)) \<bind> (\<lambda>_. case snd x of
          None \<Rightarrow> consume_done m ctx now u r tier pt n lmt p (fst x) | Some err \<Rightarrow> f x err))) w))"
      using consume_done_inv [OF assms] stableD [OF f] by (simp add: x split: option.split)
  qed
  show ?thesis
    unfolding consume_period_def assms memory_storage_simps
    by (auto simp: assms split: option.split sum.split intro!: stable_intros commit)
qed

lemma stable_in_order:
  "(\<And>pt. stable X E (f pt)) \<Longrightarrow> stable X E (consume_in_order f pts e)"
  by (induction pts arbitrary: e) (auto split: option.split intro!: stable_intros)

lemma stable_Consume_fuel:
  assumes "m_storage m = memory_storage" "flights_alone m"
  shows "stable {} E (Consume_fuel k m ctx now u r n pt opts)"
proof (induction k arbitrary: pt)
  case (Suc k)
  then show ?case
    by (auto simp: assms Let_def split: option.split intro!: stable_intros stable_in_order)
qed (simp add: stable_return)

lemma stable_Consume [stable_intros]:
  assumes "m_storage m = memory_storage" "flights_alone m"
  shows "stable {} E (Consume m ctx now u r n pt opts)"
  unfolding Consume_def by (rule stable_Consume_fuel [OF assms])

section \<open>The other operations\<close>

lemma stable_GetQuota [stable_intros]:
  assumes "m_storage m = memory_storage" "flights_alone m"
  shows "stable {} {} (GetQuota m now u r pt)"
  using GetQuota_spec [OF assms] by (intro stableI) (metis prod.collapse)

lemma stable_variants [stable_intros]:
  assumes "m_storage m = memory_storage" "flights_alone m"
  shows "stable {} {} (ConsumeWithResult m ctx now u r n pt opts)"
    "stable {} {} (GetUsageAfterConsume m ctx now u r n pt opts)"
    "stable {} {} (TryConsume m ctx now u r n pt opts)"
  unfolding ConsumeWithResult_def GetUsageAfterConsume_def TryConsume_def tryConsumeZeroAmount_def
    tryConsumeFailureResult_def Let_def
  by (auto simp: assms split: option.split intro!: stable_intros)

lemma stable_limits_mgr [stable_intros]:
  assumes "m_storage m = memory_storage"
  shows "stable {} E (TopUpLimit m now u r n key)" "stable {} E (RefundCredits m now u r n reason key)"
    "stable {} E (ApplyTierChange m now u old new r)" "stable {} E (GrantOneTimeCredit m now u r n)"
  unfolding TopUpLimit_def RefundCredits_def ApplyTierChange_def GetCurrentCycle_def GrantOneTimeCredit_def
    logAuditEntry_def Let_def
  by (auto simp: assms split: option.split sum.split intro!: stable_intros)

text \<open>A period that a clock after 1970 yields does not start at Go's zero time.\<close>

lemma before_next_month: "t < month_start (month_no t + 1) * ns_per_day"
proof -
  have "day_of t + 1 \<le> month_start (month_no t + 1)"
    using day_of_split [of t] month_start_Suc [of "month_no t"] by linarith
  then have "(day_of t + 1) * ns_per_day \<le> month_start (month_no t + 1) * ns_per_day"
    by (intro mult_right_mono) (simp_all add: ns_per_day_def)
  moreover have "t < (day_of t + 1) * ns_per_day"
    using time_split [of t] time_of_day_range [of t] by (simp add: distrib_right)
  ultimately show ?thesis by linarith
qed

lemma cycle_end_after: "CurrentCycleForStart start now = (a, b) \<Longrightarrow> now < b"
proof (cases rule: CurrentCycle_cases [of now start])
  case 1
  moreover assume "CurrentCycleForStart start now = (a, b)"
  moreover have "nth_cycle start 0 < nth_cycle start 1" by (rule nth_cycle_less) simp
  ultimately show ?thesis by simp
qed simp

lemma cycle_month_step:
  assumes "CurrentCycleForStart start now = (a, b)"
  shows "month_no b = month_no a + 1"
  using assms by (cases rule: CurrentCycle_cases [of now start]) (auto simp: nth_cycle_day simp del: nth_cycle_0)

lemma cycle_start_nonzero:
  assumes "CurrentCycleForStart start now = (a, b)" "0 \<le> now"
  shows "a \<noteq> zero_time"
proof
  assume a: "a = zero_time"
  have "b < month_start (month_no zero_time + 2) * ns_per_day"
    using before_next_month [of b] cycle_month_step [OF assms(1)] a by (simp add: add.assoc)
  moreover have "month_start (month_no zero_time + 2) * ns_per_day < 0" by code_simp
  ultimately show False using cycle_end_after [OF assms(1)] assms(2) by linarith
qed

lemma period_for_start_nonzero:
  assumes "period_for ent now pt = Some p" "0 \<le> now"
  shows "p_Start p \<noteq> zero_time"
proof -
  have "zero_time + ns_per_day < 0" by code_simp
  then have day: "startOfDayUTC now \<noteq> zero_time" using startOfDayUTC_le [of now] assms(2) by linarith
  obtain a b where "CurrentCycleForStart (case ent of Some e \<Rightarrow> e_SubscriptionStartDate e | None \<Rightarrow> startOfDayUTC now) now = (a, b)"
    by fastforce
  with cycle_start_nonzero [OF this assms(2)] day assms(1) show ?thesis
    by (auto simp: period_for_def monthly_cycle_def daily_period_def forever_period_def Let_def
        split: PeriodType.splits option.splits prod.splits)
qed

lemma stable_refund_replay [stable_intros]:
  assumes "m_storage m = memory_storage"
  shows "stable X E (refund_replay m now req)"
  unfolding refund_replay_def assms by (auto split: option.split sum.split intro!: stable_intros)

lemma mgr_now_bind: "m_storage m = memory_storage \<Longrightarrow> mgr_now m now \<bind> f = f now"
  by (rule state_ext) simp

lemma stable_Refund [stable_intros]:
  assumes m: "m_storage m = memory_storage" "flights_alone m" and now: "0 \<le> now"
  shows "stable {} E (Refund m now req)"
proof -
  let ?q = "\<lambda>p. req\<lparr>rr_Period := p, rr_IdempotencyKeyTTL := c_IdempotencyKeyTTL (m_config m)\<rparr>"
  have commit: "stable {} E (on_storage (mem_RefundQuota now (?q p)) \<bind> (\<lambda>err.
      record_metric (RecordStorageOperation ''RefundQuota'' err) \<bind> (\<lambda>_.
      only_if (err = None) (do_cache (cache_InvalidateUsage (usage_cache_key (rr_UserID req) (rr_Resource req) p)) \<bind> g)
        \<bind> (\<lambda>_. State_Monad.return err))))"
    if p: "p_Start p \<noteq> zero_time" and g: "\<And>x. stable {} E (g x)"
    for p and g :: "unit \<Rightarrow> (MemState, 'a, unit) call"
  proof (rule stableI)
    fix w :: "(MemState, 'a) World" assume inv: "cache_inv {} E w"
    obtain err s' where x: "mem_RefundQuota now (?q p) (w_storage w) = (err, s')" by fastforce
    let ?k = "usage_cache_key (rr_UserID req) (rr_Resource req) p"
    have k: "mem_usageKey (rr_UserID req) (rr_Resource req) p = ?k" by (simp add: mem_usageKey_def usage_cache_key_def)
    have t: "mem_touches {?k} (w_storage w) s'" "err \<noteq> None \<Longrightarrow> s' = w_storage w"
      using mem_touches_refund [where q = "?q p" and now = now and s = "w_storage w"] x p by (simp_all add: k)
    let ?w = "w\<lparr>w_storage := s', w_metrics := RecordStorageOperation ''RefundQuota'' err # w_metrics w\<rparr>"
    have "cache_inv {?k} E ?w" using cache_inv_write [OF inv t(1)] by simp
    from cache_inv_invalidate [OF this, of ?k]
    have "cache_inv {} E (?w\<lparr>w_cache := cache_InvalidateUsage ?k (w_cache ?w)\<rparr>)" by simp
    from stableD [OF g this] t(2) inv
    show "cache_inv {} E (snd (run_state (on_storage (mem_RefundQuota now (?q p)) \<bind> (\<lambda>err.
      record_metric (RecordStorageOperation ''RefundQuota'' err) \<bind> (\<lambda>_.
      only_if (err = None) (do_cache (cache_InvalidateUsage ?k) \<bind> g) \<bind> (\<lambda>_. State_Monad.return err)))) w))"
      by (auto simp: x only_if_def case_prod_unfold cache_inv_def)
  qed
  show ?thesis
    unfolding Refund_def mgr_now_bind [OF m(1)] unfolding m(1) memory_storage_simps
    by (auto simp: m split: option.split intro!: stable_intros commit)
      (metis period_for_start_nonzero now)+
qed

lemma stable_audit [stable_intros]:
  "m_storage m = memory_storage \<Longrightarrow> stable X E (logAuditEntry m entry)"
  by (simp add: logAuditEntry_def stable_return)

lemma stable_SetUsage [stable_intros]:
  assumes m: "m_storage m = memory_storage" "flights_alone m"
  shows "stable {} E (SetUsage m now u r pt n)"
proof -
  have commit: "stable {} E (on_storage (mem_SetUsage now u r v p) \<bind> (\<lambda>err.
      record_metric (RecordStorageOperation ''SetUsage'' err) \<bind> (\<lambda>_. if \<exists>y. err = Some y then State_Monad.return err
        else do_cache (cache_InvalidateUsage (usage_cache_key u r p)) \<bind> g)))"
    if g: "\<And>x. stable {} E (g x)" for v p and g :: "unit \<Rightarrow> (MemState, 'a, goerr option) call"
  proof (rule stableI)
    fix w :: "(MemState, 'a) World" assume inv: "cache_inv {} E w"
    let ?k = "usage_cache_key u r p"
    have k: "mem_usageKey u r p = ?k" by (simp add: mem_usageKey_def usage_cache_key_def)
    obtain s' where x: "mem_SetUsage now u r v p (w_storage w) = (None, s')" by (simp add: mem_SetUsage_def)
    have t: "mem_touches {?k} (w_storage w) s'"
      using mem_touches_set(1) [of u r p "w_storage w" now v] x by (simp add: k)
    let ?w = "w\<lparr>w_storage := s', w_metrics := RecordStorageOperation ''SetUsage'' None # w_metrics w\<rparr>"
    have "cache_inv {?k} E ?w" using cache_inv_write [OF inv t(1)] by simp
    from cache_inv_invalidate [OF this, of ?k]
    have "cache_inv {} E (?w\<lparr>w_cache := cache_InvalidateUsage ?k (w_cache ?w)\<rparr>)" by simp
    from stableD [OF g this]
    show "cache_inv {} E (snd (run_state (on_storage (mem_SetUsage now u r v p) \<bind> (\<lambda>err.
      record_metric (RecordStorageOperation ''SetUsage'' err) \<bind> (\<lambda>_. if \<exists>y. err = Some y then State_Monad.return err
        else do_cache (cache_InvalidateUsage ?k) \<bind> g))) w))"
      by (simp add: x)
  qed
  show ?thesis
    unfolding SetUsage_def Let_def mgr_now_bind [OF m(1)] unfolding m(1) memory_storage_simps
    by (auto simp: m split: option.split sum.split intro!: stable_intros commit)
qed

lemma stable_ResetUsage [stable_intros]:
  assumes "m_storage m = memory_storage" "flights_alone m"
  shows "stable {} E (ResetUsage m now u r pt)"
  unfolding ResetUsage_def by (rule stable_SetUsage [OF assms])

lemma stable_apply_initial [stable_intros]:
  assumes "m_storage m = memory_storage"
  shows "stable {} E (apply_initial_credits m now u cs)"
  by (induction cs) (auto simp: assms intro!: stable_intros)

lemma cache_inv_set_entitlement:
  assumes "cache_inv X E w"
  shows "cache_inv X E (w\<lparr>w_storage := (w_storage w)\<lparr>ms_entitlements := (ms_entitlements (w_storage w))(u \<mapsto> ent)\<rparr>,
      w_cache := cache_InvalidateEntitlement u (w_cache w)\<rparr>)"
proof -
  let ?st = "ms_entitlements (w_storage w)"
  have "ec.coherent id (E \<union> {u}) (?st(u \<mapsto> ent)) (w_cache w)"
    by (rule ec.coherent_store [of id E ?st]) (use assms in \<open>auto simp: cache_inv_def\<close>)
  from ec.coherent_invalidate [OF _ this, of u] assms
  have "ec.coherent id (E \<union> {u} - {u}) (?st(u \<mapsto> ent)) (cache_InvalidateEntitlement u (w_cache w))"
    by (simp add: cache_inv_def)
  then have "ec.coherent id E (?st(u \<mapsto> ent)) (cache_InvalidateEntitlement u (w_cache w))"
    unfolding ec.coherent_def by blast
  with assms show ?thesis by (simp add: cache_inv_def used_in_def [abs_def] ec.ok_invalidate)
qed

lemma stable_SetEntitlement [stable_intros]:
  assumes m: "m_storage m = memory_storage"
  shows "stable {} E (SetEntitlement m now ent)"
proof (rule stableI)
  fix w :: "(MemState, 'a) World" assume inv: "cache_inv {} E w"
  show "cache_inv {} E (snd (run_state (SetEntitlement m now ent) w))"
  proof (cases "e_UserID ent = ''''")
    case True
    then show ?thesis using inv by (simp add: SetEntitlement_def m mem_SetEntitlement_def only_if_def)
  next
    case False
    define s' where "s' = (w_storage w)\<lparr>ms_entitlements := (ms_entitlements (w_storage w))(e_UserID ent \<mapsto> ent)\<rparr>"
    define w1 where "w1 = w\<lparr>w_storage := s', w_metrics := RecordStorageOperation ''SetEntitlement'' None # w_metrics w,
      w_cache := cache_InvalidateEntitlement (e_UserID ent) (w_cache w)\<rparr>"
    have "cache_inv {} E w1"
      using cache_inv_set_entitlement [OF inv, of "e_UserID ent" ent] by (simp add: w1_def s'_def cache_inv_def)
    then have "cache_inv {} E (snd (run_state (apply_initial_credits m now (e_UserID ent) cs) w1))" for cs
      by (rule stableD [OF stable_apply_initial [OF m]])
    with \<open>cache_inv {} E w1\<close> False show ?thesis
      by (auto simp: SetEntitlement_def m mem_SetEntitlement_def only_if_def w1_def s'_def case_prod_unfold
          split: option.split)
  qed
qed

section \<open>The invariant of a running manager\<close>

text \<open>One operation of the manager, at any clock reading after 1970.\<close>

inductive mgr_step :: "(MemState, 't) Manager \<Rightarrow> (MemState, 't) World \<Rightarrow> (MemState, 't) World \<Rightarrow> bool"
  for m :: "(MemState, 't) Manager" where
  step_GetQuota: "mgr_step m w (snd (run_state (GetQuota m now u r pt) w))"
| step_GetEntitlement: "mgr_step m w (snd (run_state (GetEntitlement m now u) w))"
| step_GetCurrentCycle: "mgr_step m w (snd (run_state (GetCurrentCycle m now u) w))"
| step_Consume: "mgr_step m w (snd (run_state (Consume m ctx now u r n pt opts) w))"
| step_ConsumeWithResult: "mgr_step m w (snd (run_state (ConsumeWithResult m ctx now u r n pt opts) w))"
| step_GetUsageAfterConsume: "mgr_step m w (snd (run_state (GetUsageAfterConsume m ctx now u r n pt opts) w))"
| step_TryConsume: "mgr_step m w (snd (run_state (TryConsume m ctx now u r n pt opts) w))"
| step_ApplyTierChange: "mgr_step m w (snd (run_state (ApplyTierChange m now u old new r) w))"
| step_SetEntitlement: "mgr_step m w (snd (run_state (SetEntitlement m now ent) w))"
| step_Refund: "0 \<le> now \<Longrightarrow> mgr_step m w (snd (run_state (Refund m now req) w))"
| step_TopUpLimit: "mgr_step m w (snd (run_state (TopUpLimit m now u r n key) w))"
| step_RefundCredits: "mgr_step m w (snd (run_state (RefundCredits m now u r n reason key) w))"
| step_SetUsage: "mgr_step m w (snd (run_state (SetUsage m now u r pt n) w))"
| step_GrantOneTimeCredit: "mgr_step m w (snd (run_state (GrantOneTimeCredit m now u r n) w))"
| step_ResetUsage: "mgr_step m w (snd (run_state (ResetUsage m now u r pt) w))"

lemma stable_GetCurrentCycle [stable_intros]:
  "m_storage m = memory_storage \<Longrightarrow> stable X E (GetCurrentCycle m now u)"
  unfolding GetCurrentCycle_def by (auto split: sum.split intro!: stable_intros)

lemma mgr_step_inv:
  assumes "mgr_step m w w'" "m_storage m = memory_storage" "flights_alone m" "cache_inv {} {} w"
  shows "cache_inv {} {} w'"
  using assms(1)
  by cases (auto simp: assms intro!: stableD stable_intros)

lemma mgr_steps_inv:
  assumes "(mgr_step m)\<^sup>*\<^sup>* w w'" "m_storage m = memory_storage" "flights_alone m" "cache_inv {} {} w"
  shows "cache_inv {} {} w'"
  using assms(1,4) by induction (blast intro: mgr_step_inv assms(2,3))+

lemma cache_inv_New:
  "w_cache w = NoopCache \<or> (\<exists>a b. w_cache w = LRU (NewLRUCache a b)) \<Longrightarrow> cache_inv {} {} w"
  by (auto simp: cache_inv_def uc.coherent_def ec.coherent_def NewLRUCache_def)


end
