(* ===== verification/ManagerExact.thy ===== *)
theory ManagerExact
  imports ManagerCache
begin

text \<open>
  The exact result of \<open>Consume\<close> over the in-memory storage: which calls are accepted, what they
  return, what the storage is afterwards, and which period a cascading call is charged to. The
  worlds are those a manager reaches from an empty cache (\<open>cache_inv {} {}\<close>), so the entitlement a
  call sees is the stored one.
\<close>

section \<open>One call in an explicit period\<close>

text \<open>The tier of a user as stored.\<close>

definition stored_tier :: "Config \<Rightarrow> MemState \<Rightarrow> string \<Rightarrow> string" where
  "stored_tier c s u = (case ms_entitlements s u of None \<Rightarrow> c_DefaultTier c | Some e \<Rightarrow> e_Tier e)"

lemma Consume_explicit:
  assumes "m_storage m = memory_storage" "flights_alone m" "cache_inv {} {} w" "ctx_Err ctx = None" "0 < n"
    and "pt \<noteq> PeriodTypeAuto" "period_for (ms_entitlements (w_storage w) u) now pt = Some p"
    and "co_IdempotencyKey opts = ''''"
  obtains w1 where "w_storage w1 = w_storage w" "cache_inv {} {} w1"
    and "run_state (Consume_fuel (Suc k) m ctx now u r n pt opts) w
      = run_state (consume_period m ctx now u r n pt opts (stored_tier (m_config m) (w_storage w) u) p) w1"
proof -
  obtain e w1 where 1: "run_state (GetEntitlement m now u) w = (e, w1)" by fastforce
  note spec = GetEntitlement_spec [OF assms(1-3) 1]
  have e: "tier_of (m_config m) e = stored_tier (m_config m) (w_storage w) u"
    "found e = ms_entitlements (w_storage w) u"
    "(case e of Inl err \<Rightarrow> if err \<noteq> ErrEntitlementNotFound then Some err else None | Inr _ \<Rightarrow> None) = None"
    using spec by (auto simp: tier_of_def stored_tier_def found_def split: option.splits)
  have "run_state (Consume_fuel (Suc k) m ctx now u r n pt opts) w
      = run_state (consume_period m ctx now u r n pt opts (stored_tier (m_config m) (w_storage w) u) p) w1"
    using assms(4-8) e by (simp add: consume_replay_def 1 Let_def assms(1))
  with that spec show thesis by blast
qed

lemma warning_loop_storage:
  assumes "m_storage m = memory_storage"
  shows "w_storage (snd (run_state (warning_loop m ctx now u r tier lmt prev cur p ts) w)) = w_storage w"
proof (induction ts arbitrary: w)
  case (Cons t ts)
  then show ?case
    by (simp add: Let_def case_prod_unfold only_if_def assms split: option.split)
qed simp

lemma consume_done_storage:
  assumes "m_storage m = memory_storage" "pt \<noteq> PeriodTypeForever"
  shows "w_storage (snd (run_state (consume_done m ctx now u r tier pt n lmt p used) w)) = w_storage w"
  using warning_loop_storage [OF assms(1)] assms(2)
  by (simp add: consume_done_def only_if_def checkWarnings_def Let_def case_prod_unfold)

definition unlimited_rate :: "Config \<Rightarrow> string \<Rightarrow> string \<Rightarrow> bool" where
  "unlimited_rate c tier r \<longleftrightarrow> (\<forall>tc. tier_or_default c tier = Some tc \<longrightarrow> map_of (tc_RateLimits tc) r = None)"

text \<open>What a call in a monthly or daily period has to answer.\<close>

definition consume_answer :: "goint \<Rightarrow> goint \<Rightarrow> goint \<Rightarrow> goint \<times> goerr option" where
  "consume_answer lmt used n =
     (if lmt \<noteq> -1 \<and> lmt \<le> 0 then (0, Some ErrQuotaExceeded)
      else if lmt \<noteq> -1 \<and> used + n > lmt then (used, Some ErrQuotaExceeded)
      else (used + n, None))"

lemma consume_period_exact:
  assumes "m_storage m = memory_storage" "0 < n" "pt = PeriodTypeMonthly \<or> pt = PeriodTypeDaily"
    and "unlimited_rate (m_config m) tier r" "\<not> co_DryRun opts" "co_IdempotencyKey opts = ''''"
    and "int64_ok (lg_used (mem_view (w_storage w)) (mem_usageKey u r p) + n)"
    and "run_state (consume_period m ctx now u r n pt opts tier p) w = (res, w')"
  shows "res = consume_answer (getLimitForResource (m_config m) r tier pt)
      (lg_used (mem_view (w_storage w)) (mem_usageKey u r p)) n
    \<and> (snd res \<noteq> None \<longrightarrow> w_storage w' = w_storage w)
    \<and> (snd res = None \<longrightarrow> w_storage w' = snd (mem_ConsumeQuota now
        (consume_request (m_config m) u r n opts tier p (getLimitForResource (m_config m) r tier pt)) (w_storage w)))"
proof -
  let ?lmt = "getLimitForResource (m_config m) r tier pt"
  let ?used = "lg_used (mem_view (w_storage w)) (mem_usageKey u r p)"
  let ?q = "consume_request (m_config m) u r n opts tier p ?lmt"
  have rate: "run_state (checkRateLimit m now u r tier) w = (Inr (True, None), w)"
    using assms(4) by (auto simp: checkRateLimit_def unlimited_rate_def split: option.split)
  have pt: "pt \<noteq> PeriodTypeForever" using assms(3) by auto
  have lim: "run_state (consume_limit m now u r tier pt p) w
      = (if ?lmt = -1 then Inr ?lmt else if ?lmt \<le> 0 then Inl ErrQuotaExceeded else Inr ?lmt, w)"
    using pt by (simp add: consume_limit_def Let_def)
  show ?thesis
  proof (cases "?lmt \<noteq> -1 \<and> ?lmt \<le> 0")
    case True
    then show ?thesis using assms(8) by (auto simp: consume_period_def rate rate_refusal_def lim consume_answer_def)
  next
    case False
    have l: "run_state (consume_limit m now u r tier pt p) w = (Inr ?lmt, w)"
      unfolding lim using False by auto
    have used: "(case ms_usage (w_storage w) (mem_usageKey u r p) of None \<Rightarrow> 0 | Some v \<Rightarrow> u_Used v) = ?used"
      by (simp add: lg_used_def split: option.split)
    have add: "iadd ?used n = ?used + n" using assms(7) by (simp add: iadd_id)
    have q: "cq_UserID ?q = u" "cq_Resource ?q = r" "cq_Period ?q = p" "cq_Amount ?q = n" "cq_Limit ?q = ?lmt"
      "cq_IdempotencyKey ?q = ''''" "\<not> n < 0" "n \<noteq> 0"
      using assms(2,6) by (simp_all add: consume_request_def)
    have c: "fst (mem_ConsumeQuota now ?q (w_storage w))
        = (if ?lmt \<noteq> -1 \<and> ?used + n > ?lmt then (?used, Some ErrQuotaExceeded) else (?used + n, None))"
      "?lmt \<noteq> -1 \<and> ?used + n > ?lmt \<Longrightarrow> snd (mem_ConsumeQuota now ?q (w_storage w)) = w_storage w"
      by (simp_all only: mem_ConsumeQuota_def Let_def q if_False not_True_eq_False simp_thms option.case used add
          if_True fst_conv snd_conv if_distrib [of fst])
    show ?thesis
    proof (cases "?lmt \<noteq> -1 \<and> ?used + n > ?lmt")
      case True
      then have c': "mem_ConsumeQuota now ?q (w_storage w) = ((?used, Some ErrQuotaExceeded), w_storage w)"
        using c by (simp add: prod_eq_iff)
      have "res = (?used, Some ErrQuotaExceeded) \<and> w_storage w' = w_storage w"
        using assms(8) unfolding consume_period_def run_bind rate l
        by (auto simp: rate_refusal_def assms(1,5) c' only_if_def pt l)
      then show ?thesis using True False by (simp add: consume_answer_def)
    next
      case accepted: False
      define w1 where "w1 = w\<lparr>w_storage := snd (mem_ConsumeQuota now ?q (w_storage w)),
        w_metrics := RecordStorageOperation ''ConsumeQuota'' None # w_metrics w\<rparr>"
      have c': "fst (mem_ConsumeQuota now ?q (w_storage w)) = (?used + n, None)" using c accepted by simp
      have "run_state (consume_done m ctx now u r tier pt n ?lmt p (?used + n)) w1 = (res, w')"
        using assms(8) unfolding consume_period_def run_bind rate l
        by (simp add: rate_refusal_def assms(1,5) c' l w1_def)
      then show ?thesis
        using consume_done_storage [OF assms(1) pt, of ctx now u r tier n ?lmt p "?used + n" w1]
          memory.consume_done_result [of m ctx now u r tier pt n ?lmt p "?used + n" w1] False accepted
        by (auto simp: consume_answer_def w1_def)
    qed
  qed
qed

lemma spec_consume_fits:
  assumes "0 < cq_Amount q" "cq_IdempotencyKey q = ''''" "int64_ok (lg_used l b + cq_Amount q)"
    and "cq_Limit q = -1 \<or> lg_used l b + cq_Amount q \<le> cq_Limit q"
  shows "lg_acct (snd (spec_consume b q l)) b = Some (lg_used l b + cq_Amount q, cq_Limit q)"
  using assms by (auto simp: spec_consume_def keyed_def Let_def iadd_id)

text \<open>A call whose period and entitlement are those the storage holds at \<open>now\<close>.\<close>

lemma Consume_fuel_exact:
  assumes "m_storage m = memory_storage" "flights_alone m" "cache_inv {} {} w" "ctx_Err ctx = None" "0 < n"
    and "pt = PeriodTypeMonthly \<or> pt = PeriodTypeDaily"
    and "period_for (ms_entitlements (w_storage w) u) now pt = Some p"
    and "tier = stored_tier (m_config m) (w_storage w) u" "unlimited_rate (m_config m) tier r"
    and "used = lg_used (mem_view (w_storage w)) (mem_usageKey u r p)" "int64_ok (used + n)"
    and "run_state (Consume_fuel (Suc k) m ctx now u r n pt no_options) w = (res, w')"
  shows "res = consume_answer (getLimitForResource (m_config m) r tier pt) used n
    \<and> (snd res \<noteq> None \<longrightarrow> w_storage w' = w_storage w)
    \<and> (snd res = None \<longrightarrow> w_storage w' = snd (mem_ConsumeQuota now
        (consume_request (m_config m) u r n no_options tier p (getLimitForResource (m_config m) r tier pt)) (w_storage w)))"
proof -
  have "pt \<noteq> PeriodTypeAuto" "co_IdempotencyKey no_options = ''''" "\<not> co_DryRun no_options"
    using assms(6) by (auto simp: no_options_def)
  from Consume_explicit [OF assms(1-5) this(1) assms(7) this(2)] obtain w1
    where w1: "w_storage w1 = w_storage w"
      "run_state (Consume_fuel (Suc k) m ctx now u r n pt no_options) w
        = run_state (consume_period m ctx now u r n pt no_options tier p) w1"
    unfolding assms(8) by blast
  have "run_state (consume_period m ctx now u r n pt no_options tier p) w1 = (res, w')"
    using w1(2) assms(12) by simp
  from consume_period_exact [OF assms(1,5,6,9) \<open>\<not> co_DryRun no_options\<close> \<open>co_IdempotencyKey no_options = ''''\<close> _ this]
  show ?thesis using w1(1) assms(10,11) by simp
qed

lemma Consume_exact_inv:
  assumes "m_storage m = memory_storage" "flights_alone m"
    and "cache_inv {} {} w"
    and "ctx_Err ctx = None" "0 < n" "pt = PeriodTypeMonthly \<or> pt = PeriodTypeDaily"
    and "period_for (ms_entitlements (w_storage w) u) now pt = Some p"
    and "tier = stored_tier (m_config m) (w_storage w) u" "unlimited_rate (m_config m) tier r"
    and "used = lg_used (mem_view (w_storage w)) (mem_usageKey u r p)" "int64_ok (used + n)"
    and "run_state (Consume m ctx now u r n pt no_options) w = (res, w')"
  shows "res = consume_answer (getLimitForResource (m_config m) r tier pt) used n
    \<and> (if snd res = None
       then lg_acct (mem_view (w_storage w')) (mem_usageKey u r p)
           = Some (used + n, getLimitForResource (m_config m) r tier pt)
       else w_storage w' = w_storage w)"
proof -
  let ?lmt = "getLimitForResource (m_config m) r tier pt"
  let ?q = "consume_request (m_config m) u r n no_options tier p ?lmt"
  have "run_state (Consume_fuel (Suc 1) m ctx now u r n pt no_options) w = (res, w')"
    using assms(12) by (simp add: Consume_def numeral_2_eq_2)
  note ex = Consume_fuel_exact [OF assms(1-11) this]
  show ?thesis
  proof (cases "snd res = None")
    case True
    then have ok: "?lmt = -1 \<or> used + n \<le> ?lmt"
      using ex by (auto simp: consume_answer_def split: if_splits)
    have "lg_acct (mem_view (snd (mem_ConsumeQuota now ?q (w_storage w)))) (mem_usageKey u r p) = Some (used + n, ?lmt)"
      using spec_consume_fits [of ?q "mem_view (w_storage w)" "mem_usageKey u r p"] assms(5,10,11) ok
      by (simp add: mem.consume_view mem.bucket_of_def consume_request_def no_options_def del: mem_view_simps)
    then show ?thesis using ex True by simp
  next
    case False
    then show ?thesis using ex by (simp only: if_False simp_thms)
  qed
qed

lemma Consume_entitlements:
  assumes "m_storage m = memory_storage" "flights_alone m" "cache_inv {} {} w" "ctx_Err ctx = None" "0 < n"
    and "pt = PeriodTypeMonthly \<or> pt = PeriodTypeDaily"
    and "period_for (ms_entitlements (w_storage w) u) now pt = Some p"
    and "tier = stored_tier (m_config m) (w_storage w) u" "unlimited_rate (m_config m) tier r"
    and "used = lg_used (mem_view (w_storage w)) (mem_usageKey u r p)" "int64_ok (used + n)"
    and "run_state (Consume m ctx now u r n pt no_options) w = (res, w')"
  shows "ms_entitlements (w_storage w') = ms_entitlements (w_storage w)"
proof -
  have "run_state (Consume_fuel (Suc 1) m ctx now u r n pt no_options) w = (res, w')"
    using assms(12) by (simp add: Consume_def numeral_2_eq_2)
  from Consume_fuel_exact [OF assms(1-11) this] show ?thesis
    by (cases "snd res") (auto simp: mem_ConsumeQuota_def Let_def split: option.split)
qed

text \<open>C1: Whatever a manager over the in-memory storage has done before, Consume in a monthly or daily period
  is accepted exactly when the tier has a quota for the resource and the used amount of the current
  period plus the request fits it (or the quota is unlimited). An accepted call returns and records
  the sum, a refused one returns ErrQuotaExceeded (with the used amount, if there is a quota) and
  leaves the storage as it is.\<close>

theorem Consume_exact:
  assumes "m_storage m = memory_storage" "flights_alone m"
    and "w_cache w0 = NoopCache \<or> (\<exists>a b. w_cache w0 = LRU (NewLRUCache a b))" "(mgr_step m)\<^sup>*\<^sup>* w0 w"
    and "ctx_Err ctx = None" "0 < n" "pt = PeriodTypeMonthly \<or> pt = PeriodTypeDaily"
    and "period_for (ms_entitlements (w_storage w) u) now pt = Some p"
    and "tier = stored_tier (m_config m) (w_storage w) u" "unlimited_rate (m_config m) tier r"
    and "used = lg_used (mem_view (w_storage w)) (mem_usageKey u r p)" "int64_ok (used + n)"
    and "run_state (Consume m ctx now u r n pt no_options) w = (res, w')"
  shows "res = consume_answer (getLimitForResource (m_config m) r tier pt) used n
    \<and> (if snd res = None
       then lg_acct (mem_view (w_storage w')) (mem_usageKey u r p)
           = Some (used + n, getLimitForResource (m_config m) r tier pt)
       else w_storage w' = w_storage w)"
proof -
  have "cache_inv {} {} w"
    by (rule mgr_steps_inv [OF assms(4,1,2)]) (use assms(3) in \<open>rule cache_inv_New\<close>)
  from Consume_exact_inv [OF assms(1,2) this assms(5-13)] show ?thesis .
qed

section \<open>A cascading call\<close>

text \<open>The answer of one period, from the stored usage and the tier's quota.\<close>

definition period_answer :: "Config \<Rightarrow> MemState \<Rightarrow> string \<Rightarrow> string \<Rightarrow> time \<Rightarrow> goint \<Rightarrow> PeriodType
    \<Rightarrow> goint \<times> goerr option" where
  "period_answer c s u r now n pt = (case period_for (ms_entitlements s u) now pt of
     None \<Rightarrow> (0, Some ErrInvalidPeriod)
   | Some p \<Rightarrow> consume_answer (getLimitForResource c r (stored_tier c s u) pt)
       (lg_used (mem_view s) (mem_usageKey u r p)) n)"

lemma period_for_explicit: "pt = PeriodTypeMonthly \<or> pt = PeriodTypeDaily \<Longrightarrow> period_for ent now pt \<noteq> None"
  by (auto simp: period_for_def)

lemma consume_in_order_exact:
  assumes "m_storage m = memory_storage" "flights_alone m" "ctx_Err ctx = None" "0 < n"
    and "unlimited_rate (m_config m) (stored_tier (m_config m) s u) r"
    and "cache_inv {} {} w" "w_storage w = s"
    and "\<forall>pt \<in> set pts. (pt = PeriodTypeMonthly \<or> pt = PeriodTypeDaily)
      \<and> int64_ok (lg_used (mem_view s) (mem_usageKey u r (the (period_for (ms_entitlements s u) now pt))) + n)"
    and "run_state (consume_in_order (\<lambda>pt. Consume_fuel (Suc k) m ctx now u r n pt no_options) pts e) w = (res, w')"
  shows "case find (\<lambda>pt. snd (period_answer (m_config m) s u r now n pt) = None) pts of
      None \<Rightarrow> res = (0, if pts = [] then e else Some ErrQuotaExceeded) \<and> w_storage w' = s
    | Some pt \<Rightarrow> res = period_answer (m_config m) s u r now n pt
        \<and> w_storage w' = snd (mem_ConsumeQuota now (consume_request (m_config m) u r n no_options
            (stored_tier (m_config m) s u) (the (period_for (ms_entitlements s u) now pt))
            (getLimitForResource (m_config m) r (stored_tier (m_config m) s u) pt)) s)"
  using assms(6-9)
proof (induction pts arbitrary: w e)
  case (Cons pt pts)
  let ?ans = "period_answer (m_config m) s u r now n"
  obtain x w1 where 1: "run_state (Consume_fuel (Suc k) m ctx now u r n pt no_options) w = (x, w1)" by fastforce
  have pt: "pt = PeriodTypeMonthly \<or> pt = PeriodTypeDaily" using Cons.prems(3) by simp
  obtain p where p: "period_for (ms_entitlements s u) now pt = Some p" using period_for_explicit [OF pt] by fastforce
  have ok: "int64_ok (lg_used (mem_view s) (mem_usageKey u r p) + n)" using Cons.prems(3) p by simp
  have ex: "x = ?ans pt" "snd x \<noteq> None \<Longrightarrow> w_storage w1 = s"
    "snd x = None \<Longrightarrow> w_storage w1 = snd (mem_ConsumeQuota now (consume_request (m_config m) u r n no_options
        (stored_tier (m_config m) s u) p (getLimitForResource (m_config m) r (stored_tier (m_config m) s u) pt)) s)"
    using Consume_fuel_exact [OF assms(1,2) Cons.prems(1) assms(3,4) pt _ refl _ refl _ 1] Cons.prems(2) assms(5) p ok
    by (simp_all add: period_answer_def)
  have refused: "snd x = None \<or> snd x = Some ErrQuotaExceeded"
    using ex(1) p by (auto simp: period_answer_def consume_answer_def split: if_splits)
  show ?case
  proof (cases "snd x = None")
    case True
    then have "res = x \<and> w' = w1"
      using Cons.prems(4) by (cases x) (auto simp: 1 simp del: Consume_fuel.simps)
    then show ?thesis using True ex(1) ex(3) [OF True] p by simp
  next
    case False
    have inv: "cache_inv {} {} w1"
      using stableD [OF stable_Consume_fuel [OF assms(1,2)] Cons.prems(1), of "Suc k" ctx now u r n pt no_options] 1
      by simp
    have "run_state (consume_in_order (\<lambda>pt. Consume_fuel (Suc k) m ctx now u r n pt no_options) pts
        (Some ErrQuotaExceeded)) w1 = (res, w')"
      using Cons.prems(4) False refused by (auto simp: 1 simp del: Consume_fuel.simps)
    from Cons.IH [OF inv ex(2) [OF False] _ this] Cons.prems(3) False ex(1)
    show ?thesis by (simp split: option.splits if_splits)
  qed
qed simp


end
