(* ===== verification/ManagerProps.thy ===== *)
theory ManagerProps
  imports ManagerExact
begin

text \<open>
  Properties of the manager's other operations: construction, non-throwing consumption, the order
  of cascading consumption, top-ups and initial credits, proration, warnings, and what users
  without an entitlement get.
\<close>

section \<open>Construction\<close>

lemma valid_config_cache:
  assumes "valid_config c" "c_CacheConfig c = Some cc" "cc_Enabled cc"
  shows "valid_config (c\<lparr>c_CacheConfig := Some (cache_defaults cc)\<rparr>)"
  using assms
  by (simp add: valid_config_def tier_lookup_def cache_defaults_def ns_per_minute_def ns_per_sec_def)

lemma valid_config_breaker:
  assumes "valid_config c" "c_CircuitBreakerConfig c = Some cb" "cb_Enabled cb"
  shows "valid_config (c\<lparr>c_CircuitBreakerConfig := Some (breaker_defaults cb)\<rparr>)"
    and "0 < cb_FailureThreshold (breaker_defaults cb)" "0 < cb_ResetTimeout (breaker_defaults cb)"
proof -
  have cb: "0 \<le> cb_FailureThreshold cb" "0 \<le> cb_ResetTimeout cb"
    using assms by (simp_all add: valid_config_def)
  then show pos: "0 < cb_FailureThreshold (breaker_defaults cb)" "0 < cb_ResetTimeout (breaker_defaults cb)"
    by (simp_all add: breaker_defaults_def ns_per_sec_def)
  show "valid_config (c\<lparr>c_CircuitBreakerConfig := Some (breaker_defaults cb)\<rparr>)"
    using assms(1) pos by (simp add: valid_config_def tier_lookup_def)
qed

lemma valid_initialize:
  assumes "valid_config c" "initializeCache (applyConfigDefaults c) = (cache, c1)" "initializeCircuitBreaker c1 = (cb, c2)"
  shows "valid_config c2"
    and "cb = Some b \<Longrightarrow> 0 < cbr_failureThreshold b \<and> 0 < cbr_resetTimeout b \<and> cbr_state b = StateClosed"
    and "cache = NoopCache \<or> (\<exists>x y. cache = LRU (NewLRUCache x y))"
    and "0 < c_IdempotencyKeyTTL c2"
proof -
  have d: "valid_config (applyConfigDefaults c)" by (rule valid_applyConfigDefaults) fact
  have "0 \<le> c_IdempotencyKeyTTL c" using assms(1) by (simp add: valid_config_def)
  then have t: "0 < c_IdempotencyKeyTTL (applyConfigDefaults c)"
    by (simp add: applyConfigDefaults_def ns_per_day_def)
  show "cache = NoopCache \<or> (\<exists>x y. cache = LRU (NewLRUCache x y))"
    using assms(2) by (auto simp: initializeCache_def Let_def split: option.splits if_splits)
  have c1: "valid_config c1 \<and> c_IdempotencyKeyTTL c1 = c_IdempotencyKeyTTL (applyConfigDefaults c)"
    using assms(2) d valid_config_cache [OF d]
    by (simp add: initializeCache_def Let_def split: option.splits if_splits) fastforce+
  show "valid_config c2" "0 < c_IdempotencyKeyTTL c2"
    using assms(3) c1 t valid_config_breaker(1) [of c1]
    by (simp_all add: initializeCircuitBreaker_def Let_def split: option.splits if_splits) fastforce+
  show "cb = Some b \<Longrightarrow> 0 < cbr_failureThreshold b \<and> 0 < cbr_resetTimeout b \<and> cbr_state b = StateClosed"
    using assms(3) c1 valid_config_breaker(2,3) [of c1]
    by (simp add: initializeCircuitBreaker_def NewDefaultCircuitBreaker_def Let_def split: option.splits if_splits) fastforce+
qed

text \<open>C34: NewManager succeeds exactly for a present storage and a valid configuration; the manager it builds has a
  valid configuration with a positive idempotency TTL, an empty cache, and, if it is guarded, a
  closed breaker with positive threshold and timeout.\<close>

theorem NewManager_establishes:
  "case NewManager flights gflights storage config sec of
     Inl err \<Rightarrow> storage = None \<and> err = ErrStorageUnavailable \<or> storage \<noteq> None \<and> \<not> valid_config config
   | Inr (Unguarded m w) \<Rightarrow> storage = Some (m_storage m, w_storage w) \<and> valid_config config
       \<and> valid_config (m_config m) \<and> 0 < c_IdempotencyKeyTTL (m_config m)
       \<and> (w_cache w = NoopCache \<or> (\<exists>x y. w_cache w = LRU (NewLRUCache x y)))
   | Inr (Guarded m w) \<Rightarrow> (\<exists>st cb s. storage = Some (st, s) \<and> m_storage m = circuit_breaker_storage st
       \<and> w_storage w = (cb, s) \<and> cbr_state cb = StateClosed \<and> 0 < cbr_failureThreshold cb \<and> 0 < cbr_resetTimeout cb)
       \<and> valid_config config \<and> valid_config (m_config m) \<and> 0 < c_IdempotencyKeyTTL (m_config m)
       \<and> (w_cache w = NoopCache \<or> (\<exists>x y. w_cache w = LRU (NewLRUCache x y)))"
proof (cases storage)
  case None
  then show ?thesis by (simp add: NewManager_def)
next
  case (Some sts)
  obtain st s where sts: "sts = (st, s)" by fastforce
  show ?thesis
  proof (cases "valid_config config")
    case False
    then show ?thesis using Some sts Validate_Nil by (simp add: NewManager_def)
  next
    case True
    obtain cache c1 where 1: "initializeCache (applyConfigDefaults config) = (cache, c1)" by fastforce
    obtain cb c2 where 2: "initializeCircuitBreaker c1 = (cb, c2)" by fastforce
    note init = valid_initialize [OF True 1 2]
    show ?thesis
      using Some sts True Validate_Nil init 1 2
      by (auto simp: NewManager_def Let_def assemble_def split: option.split)
  qed
qed

section \<open>Consuming without errors\<close>

lemma calculateRemaining_within:
  "0 \<le> used \<Longrightarrow> used \<le> lmt \<Longrightarrow> int64_ok lmt \<Longrightarrow> calculateRemaining lmt used = lmt - used"
  by (simp add: calculateRemaining_def Let_def isub_id int64_ok_def)

lemma tryConsumeFailureResult_spec:
  assumes "m_storage m = memory_storage" "flights_alone m" "cache_inv {} {} w"
    and "period_for (ms_entitlements (w_storage w) u) now pt = Some p"
    and "run_state (tryConsumeFailureResult m now u r pt lmt) w = (res, w')"
  shows "w_storage w' = w_storage w
    \<and> (let used = lg_used (mem_view (w_storage w)) (mem_usageKey u r p)
       in res = Inr \<lparr>tr_Success = False, tr_Remaining = calculateRemaining lmt used, tr_Consumed = 0, tr_NewUsed = used\<rparr>)"
proof -
  obtain q w1 where q: "run_state (GetQuota m now u r pt) w = (q, w1)" by fastforce
  from GetQuota_spec [OF assms(1-3) q] assms(4) obtain v where v: "q = Inr v" "w_storage w1 = w_storage w"
    "u_Used v = lg_used (mem_view (w_storage w)) (mem_usageKey u r p)"
    by (auto simp: used_in_def lg_used_def split: option.splits)
  show ?thesis
    using assms(5) v by (simp add: tryConsumeFailureResult_def q Let_def)
qed

text \<open>C8: TryConsume never turns an exhausted quota into an error: with the quota of the tier and the stored
  usage of the current period, it reports success with the new usage and what remains exactly when
  the amount fits, and otherwise reports the stored usage as it is, having charged nothing.\<close>

theorem TryConsume_exact:
  assumes "m_storage m = memory_storage" "flights_alone m"
    and "w_cache w0 = NoopCache \<or> (\<exists>a b. w_cache w0 = LRU (NewLRUCache a b))" "(mgr_step m)\<^sup>*\<^sup>* w0 w"
    and "ctx_Err ctx = None" "0 < n" "pt = PeriodTypeMonthly \<or> pt = PeriodTypeDaily"
    and "period_for (ms_entitlements (w_storage w) u) now pt = Some p"
    and "tier = stored_tier (m_config m) (w_storage w) u" "unlimited_rate (m_config m) tier r"
    and "used = lg_used (mem_view (w_storage w)) (mem_usageKey u r p)" "int64_ok (used + n)"
    and "lmt = getLimitForResource (m_config m) r tier pt"
    and "run_state (TryConsume m ctx now u r n pt no_options) w = (res, w')"
  shows "if lmt = -1 \<or> 0 < lmt \<and> used + n \<le> lmt
    then res = Inr \<lparr>tr_Success = True, tr_Remaining = calculateRemaining lmt (used + n), tr_Consumed = n, tr_NewUsed = used + n\<rparr>
      \<and> lg_acct (mem_view (w_storage w')) (mem_usageKey u r p) = Some (used + n, lmt)
    else res = Inr \<lparr>tr_Success = False, tr_Remaining = calculateRemaining lmt used, tr_Consumed = 0, tr_NewUsed = used\<rparr>
      \<and> w_storage w' = w_storage w"
proof -
  have inv: "cache_inv {} {} w"
    by (rule mgr_steps_inv [OF assms(4,1,2)]) (use assms(3) in \<open>rule cache_inv_New\<close>)
  obtain e w1 where 1: "run_state (GetEntitlement m now u) w = (e, w1)" by fastforce
  note spec = GetEntitlement_spec [OF assms(1,2) inv 1]
  have w1: "w_storage w1 = w_storage w" "cache_inv {} {} w1" "tier_of (m_config m) e = tier"
    using spec assms(9) by (auto simp: tier_of_def stored_tier_def split: option.splits)
  have tc: "run_state (TryConsume m ctx now u r n pt no_options) w
      = (if lmt \<noteq> -1 \<and> lmt \<le> 0 then run_state (tryConsumeFailureResult m now u r pt lmt) w1
         else let (x, w2) = run_state (Consume m ctx now u r n pt no_options) w1 in
           case snd x of
             Some err \<Rightarrow> if err = ErrQuotaExceeded then run_state (tryConsumeFailureResult m now u r pt lmt) w2
               else (Inl err, w2)
           | None \<Rightarrow> (Inr \<lparr>tr_Success = True, tr_Remaining = calculateRemaining lmt (fst x), tr_Consumed = n,
               tr_NewUsed = fst x\<rparr>, w2))"
    using assms(6,7,13) w1(3) 1 by (auto simp: TryConsume_def Let_def split: option.split prod.split)
  show ?thesis
  proof (cases "lmt \<noteq> -1 \<and> lmt \<le> 0")
    case True
    then have "run_state (tryConsumeFailureResult m now u r pt lmt) w1 = (res, w')" using tc assms(14) by simp
    from tryConsumeFailureResult_spec [OF assms(1,2) w1(2) _ this] assms(8,11) w1(1) True
    show ?thesis by (simp add: Let_def)
  next
    case False
    obtain x w2 where 2: "run_state (Consume m ctx now u r n pt no_options) w1 = (x, w2)" by fastforce
    note ex = Consume_exact_inv [OF assms(1,2) w1(2) assms(5-7) _ _ _ _ assms(12) 2, of p tier,
        unfolded w1(1), OF assms(8-11), folded assms(13)]
    show ?thesis
    proof (cases "lmt = -1 \<or> used + n \<le> lmt")
      case True
      then have "x = (used + n, None)" using ex False by (auto simp: consume_answer_def)
      then show ?thesis using tc assms(14) False True ex 2 by (auto simp del: mem_view_simps)
    next
      case refused: False
      then have x: "x = (used, Some ErrQuotaExceeded)" "w_storage w2 = w_storage w"
        using ex False by (auto simp: consume_answer_def)
      have inv2: "cache_inv {} {} w2"
        using stableD [OF stable_Consume [OF assms(1,2)] w1(2), of ctx now u r n pt no_options] 2 by simp
      have "run_state (tryConsumeFailureResult m now u r pt lmt) w2 = (res, w')"
        using tc assms(14) x 2 False by simp
      from tryConsumeFailureResult_spec [OF assms(1,2) inv2 _ this] assms(8,11) x(2) refused
      show ?thesis by (simp add: Let_def)
    qed
  qed
qed

text \<open>GetUsageAfterConsume reads its own write: after an accepted consumption it returns the usage before
  plus the amount, whatever the cache held.\<close>

theorem GetUsageAfterConsume_reads_write:
  assumes "m_storage m = memory_storage" "flights_alone m"
    and "w_cache w0 = NoopCache \<or> (\<exists>a b. w_cache w0 = LRU (NewLRUCache a b))" "(mgr_step m)\<^sup>*\<^sup>* w0 w"
    and "ctx_Err ctx = None" "0 < n" "pt = PeriodTypeMonthly \<or> pt = PeriodTypeDaily"
    and "period_for (ms_entitlements (w_storage w) u) now pt = Some p"
    and "tier = stored_tier (m_config m) (w_storage w) u" "unlimited_rate (m_config m) tier r"
    and "used = lg_used (mem_view (w_storage w)) (mem_usageKey u r p)" "int64_ok (used + n)"
    and "snd (consume_answer (getLimitForResource (m_config m) r tier pt) used n) = None"
  shows "\<exists>v. fst (run_state (GetUsageAfterConsume m ctx now u r n pt no_options) w) = Inr v \<and> u_Used v = used + n"
proof -
  have inv: "cache_inv {} {} w"
    by (rule mgr_steps_inv [OF assms(4,1,2)]) (use assms(3) in \<open>rule cache_inv_New\<close>)
  obtain x w1 where 1: "run_state (Consume m ctx now u r n pt no_options) w = (x, w1)" by fastforce
  note ex = Consume_exact_inv [OF assms(1,2) inv assms(5-12) 1]
  have x: "snd x = None" "lg_acct (mem_view (w_storage w1)) (mem_usageKey u r p)
      = Some (used + n, getLimitForResource (m_config m) r tier pt)"
    using ex assms(13) by (simp_all del: mem_view_simps)
  have inv1: "cache_inv {} {} w1"
    using stableD [OF stable_Consume [OF assms(1,2)] inv, of ctx now u r n pt no_options] 1 by simp
  have ents: "ms_entitlements (w_storage w1) = ms_entitlements (w_storage w)"
    by (rule Consume_entitlements [OF assms(1,2) inv assms(5-12) 1])
  obtain q w2 where 2: "run_state (GetQuota m now u r pt) w1 = (q, w2)" by fastforce
  from GetQuota_spec [OF assms(1,2) inv1 2] assms(8) ents x(2)
  obtain v where "q = Inr v" "u_Used v = used + n" by (auto simp: used_in_def)
  then show ?thesis by (simp add: GetUsageAfterConsume_def 1 x(1) 2)
qed

end
