(* ===== verification/ManagerTiers.thy ===== *)
theory ManagerTiers
  imports ManagerExact
begin

text \<open>
  What the manager does around a tier: the prorated limit of a tier change, the warnings of a
  rising usage, the initial credits of a new entitlement, and the periods of a user without one.
\<close>

section \<open>Proration\<close>

lemma f_of_int_mono: "a \<le> b \<Longrightarrow> f_of_int a \<le> f_of_int b"
  by (simp add: f_of_int_def fl_mono)

lemma f_of_int_exact: "\<bar>n\<bar> \<le> 2 ^ 53 \<Longrightarrow> f_of_int n = of_int n"
  by (simp add: f_of_int_def fl_of_int)

lemma remaining_fraction_range: "0 \<le> remaining_fraction p now" "remaining_fraction p now \<le> 1"
  by (simp_all add: remaining_fraction_def Let_def)

lemma remaining_fraction_antimono:
  assumes "now \<le> now'"
  shows "remaining_fraction p now' \<le> remaining_fraction p now"
proof -
  define len where "len = (let l = time_Sub (p_End p) (p_Start p) in if l \<le> 0 then 30 * ns_per_day else l)"
  have pos: "0 < len" by (simp add: len_def Let_def ns_per_day_def)
  have "0 < f_of_int len" using fl_pos [of "of_int len"] pos by (simp add: f_of_int_def)
  define rest where "rest t = max 0 (time_Sub (p_End p) t)" for t
  have le: "rest now' \<le> rest now" using assms by (auto simp: rest_def time_Sub_def)
  have frac: "remaining_fraction p t = min 1 (max 0 (fl (f_of_int (rest t) / f_of_int len)))" for t
  proof -
    have l: "(if time_Sub (p_End p) (p_Start p) \<le> 0 then 30 * ns_per_day else time_Sub (p_End p) (p_Start p)) = len"
      by (simp add: len_def Let_def)
    have r: "(if time_Sub (p_End p) t < 0 then 0 else time_Sub (p_End p) t) = rest t"
      by (simp add: rest_def)
    have "f_div (f_of_int (rest t)) (f_of_int len) = Some (fl (f_of_int (rest t) / f_of_int len))"
      using \<open>0 < f_of_int len\<close> by (simp add: f_div_def)
    then show ?thesis unfolding remaining_fraction_def Let_def l r by simp
  qed
  have "f_of_int (rest now') / f_of_int len \<le> f_of_int (rest now) / f_of_int len"
    using f_of_int_mono [OF le] \<open>0 < f_of_int len\<close> by (simp add: divide_right_mono)
  then show ?thesis unfolding frac using fl_mono by (metis max.mono min.mono order_refl)
qed

text \<open>The prorated part of a limit.\<close>

lemma prorated:
  assumes "0 \<le> n" "n \<le> 2 ^ 53" "0 \<le> x" "x \<le> 1"
  shows "f_to_int (Some (f_round (f_mul (f_of_int n) x))) = \<lfloor>fl (of_int n * x) + 1 / 2\<rfloor>"
    and "0 \<le> \<lfloor>fl (of_int n * x) + 1 / 2\<rfloor>" "\<lfloor>fl (of_int n * x) + 1 / 2\<rfloor> \<le> n"
proof -
  let ?y = "fl (of_int n * x)"
  have n: "f_of_int n = of_int n" using assms(1,2) by (simp add: f_of_int_exact)
  have "of_int n * x \<le> of_int n * 1" using assms by (intro mult_left_mono) auto
  then have "?y \<le> fl (of_int n)" by (intro fl_mono) simp
  then have y: "0 \<le> ?y" "?y \<le> of_int n"
    using n assms by (simp_all add: f_of_int_def fl_nonneg)
  then show fl: "0 \<le> \<lfloor>?y + 1 / 2\<rfloor>" "\<lfloor>?y + 1 / 2\<rfloor> \<le> n" by (auto simp: le_floor_iff floor_le_iff)
  then show "f_to_int (Some (f_round (f_mul (f_of_int n) x))) = \<lfloor>?y + 1 / 2\<rfloor>"
    using y assms(2) by (simp add: f_to_int_def f_round_def f_mul_def n rat_trunc_def int64_ok_def)
qed

text \<open>C35: The limit ApplyTierChange sets lies between the amount already used and that amount plus the full
  limit of the new tier, and it only shrinks as the cycle runs out.\<close>

theorem tier_change_prorated:
  assumes "0 \<le> newLimit" "newLimit \<le> 2 ^ 53" "int64_ok used" "int64_ok (used + newLimit)" "now \<le> now'"
  shows "used \<le> adjusted_limit used newLimit (remaining_fraction p now)
    \<and> adjusted_limit used newLimit (remaining_fraction p now) \<le> used + newLimit
    \<and> adjusted_limit used newLimit (remaining_fraction p now') \<le> adjusted_limit used newLimit (remaining_fraction p now)"
proof -
  define part where "part t = \<lfloor>fl (of_int newLimit * remaining_fraction p t) + 1 / 2\<rfloor>" for t
  have adj: "adjusted_limit used newLimit (remaining_fraction p t) = used + part t \<and> 0 \<le> part t \<and> part t \<le> newLimit" for t
  proof -
    note pr = prorated [OF assms(1,2) remaining_fraction_range [of p t], folded part_def]
    then have "int64_ok (used + part t)" using assms(3,4) by (simp add: int64_ok_def)
    then show ?thesis using pr by (simp add: adjusted_limit_def iadd_id Let_def)
  qed
  have "of_int newLimit * remaining_fraction p now' \<le> of_int newLimit * remaining_fraction p now"
    using remaining_fraction_antimono [OF assms(5)] assms(1) by (intro mult_left_mono) auto
  then have "part now' \<le> part now"
    unfolding part_def by (intro floor_mono add_right_mono fl_mono)
  with adj [of now] adj [of now'] show ?thesis by simp
qed

lemma tier_change_prorated_witness:
  "let p = \<lparr>p_Start = 0, p_End = 30 * ns_per_day, p_Type = PeriodTypeMonthly\<rparr>
   in adjusted_limit 40 1000 (remaining_fraction p (20 * ns_per_day)) \<in> {40..1040}"
  unfolding Let_def using tier_change_prorated [of 1000 40 "20 * ns_per_day" "20 * ns_per_day"]
  by (simp add: int64_ok_def)

text \<open>A change to an unlimited tier (limit -1) freezes the user instead: whatever is left of the cycle, the
  adjusted limit is the amount already used.\<close>

theorem tier_change_unlimited:
  assumes "int64_ok (used - 1)" "int64_ok used"
  shows "adjusted_limit used (-1) (remaining_fraction p now) = used"
proof -
  let ?x = "remaining_fraction p now"
  have "f_of_int (-1) = -1" using f_of_int_exact [of "-1"] by simp
  then have m: "f_mul (f_of_int (-1)) ?x = - fl ?x" by (simp add: f_mul_def fl_minus)
  have "fl ?x \<le> fl (of_int 1)" using remaining_fraction_range(2) by (intro fl_mono) simp
  then have y: "0 \<le> fl ?x" "fl ?x \<le> 1"
    using fl_of_int [of 1] remaining_fraction_range(1) by (auto intro: fl_nonneg)
  have "f_round (- fl ?x) = 0 \<or> f_round (- fl ?x) = -1"
  proof (cases "fl ?x < 1 / 2")
    case True
    then have "\<lceil>- fl ?x - 1 / 2\<rceil> = 0" using y by (simp add: ceiling_eq_iff)
    moreover have "\<lfloor>1 / 2 :: rat\<rfloor> = 0" by (simp add: floor_eq_iff)
    ultimately show ?thesis using y by (cases "fl ?x = 0") (simp_all add: f_round_def)
  next
    case False
    then have "\<lceil>- fl ?x - 1 / 2\<rceil> = -1" using y by (simp add: ceiling_eq_iff)
    then show ?thesis using y False by (auto simp: f_round_def)
  qed
  then have "f_to_int (Some (f_round (f_mul (f_of_int (-1)) ?x))) \<in> {0, -1}"
    by (auto simp: m f_to_int_def rat_trunc_def int64_ok_def ceiling_eq_iff)
  then show ?thesis using assms by (auto simp: adjusted_limit_def Let_def iadd_id)
qed

lemma tier_change_unlimited_witness:
  "adjusted_limit 40 (-1) (remaining_fraction \<lparr>p_Start = 0, p_End = 30 * ns_per_day, p_Type = PeriodTypeMonthly\<rparr> 0) = 40"
  by (rule tier_change_unlimited) (simp_all add: int64_ok_def)

section \<open>Warnings\<close>

text \<open>
  The warnings of a usage that grows by one accepted amount after another, and how often the
  warning metric of a threshold is recorded.
\<close>

fun warn_run :: "('s, 't) Manager \<Rightarrow> Context \<Rightarrow> time \<Rightarrow> string \<Rightarrow> string \<Rightarrow> string \<Rightarrow> goint \<Rightarrow> Period \<Rightarrow> goint
    \<Rightarrow> goint list \<Rightarrow> ('s, 't, unit) call" where
  "warn_run m ctx now u r tier lmt p used [] = State_Monad.return ()"
| "warn_run m ctx now u r tier lmt p used (n # ns) = do {
     checkWarnings m ctx now u r tier lmt (used + n) n p;
     warn_run m ctx now u r tier lmt p (used + n) ns
   }"

definition warned :: "string \<Rightarrow> string \<Rightarrow> float64 \<Rightarrow> ('s, 't) World \<Rightarrow> nat" where
  "warned r tier threshold w = count_list (w_metrics w) (RecordQuotaWarning r tier threshold)"

lemma warned_metrics [simp]:
  "warned r tier th (w\<lparr>w_metrics := ev # ms\<rparr>)
    = (if ev = RecordQuotaWarning r tier th then 1 else 0) + count_list ms (RecordQuotaWarning r tier th)"
  by (simp add: warned_def)

lemma warning_loop_warned:
  assumes "m_storage m = memory_storage"
  shows "warned r tier th (snd (run_state (warning_loop m ctx now u r tier lmt prev cur p ts) w))
    = warned r tier th w + (if crossed lmt prev cur th then count_list ts th else 0)"
proof (induction ts arbitrary: w)
  case (Cons t ts)
  then show ?case
    by (simp add: Let_def case_prod_unfold only_if_def assms warned_def split: option.split)
qed simp

lemma crossed_trans:
  assumes "a \<le> b" "b \<le> c"
  shows "crossed lmt a c th \<longleftrightarrow> crossed lmt a b th \<or> crossed lmt b c th" "\<not> (crossed lmt a b th \<and> crossed lmt b c th)"
  using f_of_int_mono [OF assms(1)] f_of_int_mono [OF assms(2)] by (auto simp: crossed_def Let_def)

lemma count_list_distinct: "distinct xs \<Longrightarrow> count_list xs x = (if x \<in> set xs then 1 else 0)"
  by (induction xs) auto

text \<open>C36: However a rising usage is split into consumptions, each configured threshold is warned about exactly
  once if the whole rise crosses it, and otherwise never.\<close>

theorem warnings_once:
  assumes "m_storage m = memory_storage" "\<forall>n \<in> set ns. 0 < n" "0 \<le> used" "int64_ok (used + sum_list ns)"
    and "distinct (getWarningThresholds (m_config m) r tier)"
    and "run_state (warn_run m ctx now u r tier lmt p used ns) w = (x, w')"
  shows "warned r tier th w' = warned r tier th w
    + (if th \<in> set (getWarningThresholds (m_config m) r tier) \<and> crossed lmt used (used + sum_list ns) th then 1 else 0)"
  using assms(2-4,6)
proof (induction ns arbitrary: used w)
  case Nil
  then show ?case by (auto simp: crossed_def Let_def)
next
  case (Cons n ns)
  let ?ts = "getWarningThresholds (m_config m) r tier"
  obtain w1 where 1: "run_state (checkWarnings m ctx now u r tier lmt (used + n) n p) w = ((), w1)"
    by (metis old.unit.exhaust surj_pair)
  have n: "0 < n" using Cons.prems(1) by simp
  have ns: "0 \<le> sum_list ns" by (rule sum_list_nonneg) (use Cons.prems(1) in \<open>simp add: less_imp_le\<close>)
  have "int64_ok used" using Cons.prems(2,3) n ns by (simp add: int64_ok_def)
  then have prev: "isub (used + n) n = used" by (simp add: isub_id)
  have "warned r tier th w1 = warned r tier th w + (if crossed lmt used (used + n) th then count_list ?ts th else 0)"
    using warning_loop_warned [OF assms(1), of r tier th ctx now u lmt used "used + n" p ?ts w] 1
    by (auto simp: checkWarnings_def Let_def prev split: if_splits)
  moreover have "count_list ?ts th = (if th \<in> set ?ts then 1 else 0)"
    using count_list_distinct [OF assms(5)] .
  moreover have "warned r tier th w' = warned r tier th w1
      + (if th \<in> set ?ts \<and> crossed lmt (used + n) (used + n + sum_list ns) th then 1 else 0)"
    using Cons.IH [of "used + n" w1] Cons.prems n 1 by (simp add: add.assoc)
  ultimately show ?case
    using crossed_trans [of used "used + n" "used + n + sum_list ns" lmt th] n ns by (auto simp: add.assoc)
qed

section \<open>Credits\<close>

lemma TopUpLimit_view:
  assumes "m_storage m = memory_storage" "0 < n"
  shows "mem_view (w_storage (snd (run_state (TopUpLimit m now u r n key) w)))
      = snd (spec_add (mem_usageKey u r (forever_period now)) n key (mem_view (w_storage w)))"
    and "fst (run_state (TopUpLimit m now u r n key) w) = None"
proof -
  obtain e s where a: "mem_AddLimit now u r n (forever_period now) key (w_storage w) = (e, s)" by fastforce
  have "spec_add (mem_usageKey u r (forever_period now)) n key (mem_view (w_storage w)) = (e, mem_view s)"
    using mem.add_refines [of u r "forever_period now" n key "w_storage w" now] a by simp
  moreover from this have "e = None \<or> e = Some ErrIdempotencyKeyExists"
    by (auto simp: spec_add_def split: if_splits)
  ultimately show "mem_view (w_storage (snd (run_state (TopUpLimit m now u r n key) w)))
      = snd (spec_add (mem_usageKey u r (forever_period now)) n key (mem_view (w_storage w)))"
    "fst (run_state (TopUpLimit m now u r n key) w) = None"
    using assms a by (auto simp: TopUpLimit_def Let_def)
qed

lemma initial_bonus_key_nonempty [simp]: "initial_bonus_key u \<noteq> ''''"
  by (simp add: initial_bonus_key_def)

lemma spec_add_used: "key \<noteq> '''' \<Longrightarrow> lg_topUps l key \<Longrightarrow> snd (spec_add b n key l) = l"
  by (simp add: spec_add_def)

lemma initial_credits_used:
  assumes "m_storage m = memory_storage" "lg_topUps (mem_view (w_storage w)) (initial_bonus_key u)"
  shows "mem_view (w_storage (snd (run_state (apply_initial_credits m now u credits) w))) = mem_view (w_storage w)"
  using assms(2)
proof (induction credits arbitrary: w)
  case (Cons ra credits)
  obtain r a where ra: "ra = (r, a)" by fastforce
  show ?case
  proof (cases "0 < a")
    case True
    obtain e w1 where 1: "run_state (TopUpLimit m now u r a (initial_bonus_key u)) w = (e, w1)" by fastforce
    have "mem_view (w_storage w1) = mem_view (w_storage w)"
      using TopUpLimit_view(1) [OF assms(1) True, of now u r "initial_bonus_key u" w] 1
        spec_add_used [OF _ Cons.prems] by simp
    then show ?thesis using Cons.IH [of w1] Cons.prems True
      by (simp add: ra only_if_def 1 del: mem_view_simps)
  qed (use Cons in \<open>simp add: ra only_if_def del: mem_view_simps\<close>)
qed simp

lemma initial_credits_view:
  assumes "m_storage m = memory_storage"
  shows "mem_view (w_storage (snd (run_state (apply_initial_credits m now u credits) w)))
    = (case filter (\<lambda>(r, a). 0 < a) credits of
         [] \<Rightarrow> mem_view (w_storage w)
       | (r, a) # _ \<Rightarrow> snd (spec_add (mem_usageKey u r (forever_period now)) a (initial_bonus_key u)
           (mem_view (w_storage w))))"
proof (induction credits)
  case (Cons ra credits)
  obtain r a where ra: "ra = (r, a)" by fastforce
  show ?case
  proof (cases "0 < a")
    case True
    let ?key = "initial_bonus_key u"
    obtain e w1 where 1: "run_state (TopUpLimit m now u r a ?key) w = (e, w1)" by fastforce
    have v: "mem_view (w_storage w1) = snd (spec_add (mem_usageKey u r (forever_period now)) a ?key (mem_view (w_storage w)))"
      using TopUpLimit_view(1) [OF assms True, of now u r ?key w] 1 by simp
    then have "lg_topUps (mem_view (w_storage w1)) ?key" by (simp add: spec_add_def del: mem_view_simps split: if_split)
    from initial_credits_used [OF assms this] v True show ?thesis
      by (simp add: ra only_if_def 1 del: mem_view_simps)
  qed (use Cons in \<open>simp add: ra only_if_def del: mem_view_simps\<close>)
qed simp

lemma apply_initial_credits_entitlements:
  assumes "m_storage m = memory_storage"
  shows "ms_entitlements (w_storage (snd (run_state (apply_initial_credits m now u credits) w))) = ms_entitlements (w_storage w)"
proof (induction credits arbitrary: w)
  case (Cons ra credits)
  obtain r a where ra: "ra = (r, a)" by fastforce
  have "ms_entitlements (w_storage (snd (run_state (TopUpLimit m now u r a key) w))) = ms_entitlements (w_storage w)" for key w
    using assms by (auto simp: TopUpLimit_def Let_def mem_AddLimit_def split: option.split)
  then show ?case using Cons.IH by (simp add: ra only_if_def case_prod_unfold)
qed simp

text \<open>Setting an entitlement credits the user's initial forever credits for one resource only: the first one
  the loop visits. Its record grows by the configured amount, once per user; the credits of every
  other resource of the tier are never granted, since they share the idempotency key.\<close>

theorem SetEntitlement_credits_first:
  assumes "m_storage m = memory_storage" "e_UserID ent \<noteq> ''''" "tier_lookup (m_config m) (e_Tier ent) = Some tc"
    and "run_state (SetEntitlement m now ent) w = (res, w')"
  shows "res = None \<and> ms_entitlements (w_storage w') (e_UserID ent) = Some ent
    \<and> mem_view (w_storage w') = (case filter (\<lambda>(r, a). 0 < a) (tc_InitialForeverCredits tc) of
         [] \<Rightarrow> mem_view (w_storage w)
       | (r, a) # _ \<Rightarrow> snd (spec_add (mem_usageKey (e_UserID ent) r (forever_period now)) a
           (initial_bonus_key (e_UserID ent)) (mem_view (w_storage w))))"
proof -
  define s where "s = (w_storage w)\<lparr>ms_entitlements := (ms_entitlements (w_storage w))(e_UserID ent \<mapsto> ent)\<rparr>"
  define w1 where "w1 = w\<lparr>w_storage := s, w_metrics := RecordStorageOperation ''SetEntitlement'' None # w_metrics w,
    w_cache := cache_InvalidateEntitlement (e_UserID ent) (w_cache w)\<rparr>"
  have run: "res = None" "w' = snd (run_state (apply_initial_credits m now (e_UserID ent) (tc_InitialForeverCredits tc)) w1)"
    using assms by (auto simp: SetEntitlement_def mem_SetEntitlement_def only_if_def s_def w1_def case_prod_unfold)
  have v: "mem_view (w_storage w1) = mem_view (w_storage w)" by (simp add: w1_def s_def mem_view_def)
  have "ms_entitlements (w_storage w') = ms_entitlements s"
    unfolding run(2) apply_initial_credits_entitlements [OF assms(1)] by (simp add: w1_def)
  then show ?thesis
    using run initial_credits_view [OF assms(1), of now "e_UserID ent" "tc_InitialForeverCredits tc" w1, unfolded v]
    by (simp add: s_def del: mem_view_simps)
qed

section \<open>Users without an entitlement\<close>

text \<open>A user without an entitlement gets a monthly cycle that starts today, every day anew: the monthly record
  of such a user is the daily one, so a monthly consumption also counts against the daily quota.\<close>

theorem unsubscribed_month_is_day:
  "p_Start (monthly_cycle None now) = day_of now * ns_per_day
    \<and> mem_usageKey u r (monthly_cycle None now) = mem_usageKey u r (daily_period now)"
proof -
  let ?s = "startOfDayUTC now"
  have "?s < nth_cycle ?s 1" using nth_cycle_less [of 0 1 ?s] by simp
  moreover obtain k where k: "nth_cycle ?s 1 = k * ns_per_day"
    using nth_cycle_day(3) [of ?s 1] by (metis mod_0_imp_dvd dvd_div_mult_self)
  ultimately have "day_of now + 1 \<le> k" by (simp add: startOfDayUTC_eq ns_per_day_def)
  then have "(day_of now + 1) * ns_per_day \<le> nth_cycle ?s 1"
    unfolding k by (intro mult_right_mono) (simp_all add: ns_per_day_def)
  then have "now < nth_cycle ?s (Suc 0)"
    using startOfDayUTC_le(2) [of now] by (simp add: startOfDayUTC_eq algebra_simps)
  then have "CurrentCycleForStart ?s now = (?s, nth_cycle ?s (Suc 0))"
    using CurrentCycle_eq [of ?s 0 now] startOfDayUTC_le(1) [of now] by simp
  then show ?thesis
    by (simp add: monthly_cycle_def mem_usageKey_def daily_period_def Let_def startOfDayUTC_eq)
qed

end
