(* ===== verification/ManagerDemo.thy ===== *)
theory ManagerDemo
  imports ManagerProps ManagerTiers
begin

text \<open>
  A concrete manager over the in-memory storage, and the properties of the manager at it: one tier
  with ten requests a month and three a day and four documents a month, an LRU cache, and callers
  without competitors. Every
  run below is evaluated from the definitions.
\<close>

definition demo_tier :: TierConfig where
  "demo_tier = \<lparr>tc_Name = ''free'', tc_MonthlyQuotas = [(''api'', 10), (''doc'', 4)], tc_DailyQuotas = [(''api'', 3)],
     tc_WarningThresholds = [(''api'', [1 / 2])], tc_RateLimits = [], tc_ConsumptionOrder = [],
     tc_InitialForeverCredits = [(''api'', 5), (''img'', 7)]\<rparr>"

definition demo_config :: Config where
  "demo_config = \<lparr>c_Tiers = Some [(''free'', demo_tier)], c_DefaultTier = ''free'', c_CacheTTL = ns_per_minute,
     c_CacheConfig = None, c_WarningHandler = True, c_CircuitBreakerConfig = None,
     c_IdempotencyKeyTTL = ns_per_day, c_FallbackConfig = None\<rparr>"

definition demo_manager :: "(MemState, MemState) Manager" where
  "demo_manager = \<lparr>m_storage = memory_storage, m_secondary = memory_storage, m_config = demo_config,
     m_entitlementGroup = (\<lambda>k f. f), m_usageGroup = (\<lambda>k f. f)\<rparr>"

definition demo_world :: "(MemState, MemState) World" where
  "demo_world = \<lparr>w_storage = mem_New, w_cache = LRU (NewLRUCache 10 10), w_fallback = None,
     w_secondary = mem_New, w_metrics = []\<rparr>"

definition demo_ctx :: Context where
  "demo_ctx = \<lparr>ctx_Err = None, ctx_WarningHandler = False\<rparr>"

definition demo_now :: time where
  "demo_now = time_Date 2024 3 15 10 0 0 0"

lemma demo_manager_simps [simp]:
  "m_storage demo_manager = memory_storage" "flights_alone demo_manager" "m_config demo_manager = demo_config"
  by (simp_all add: demo_manager_def flights_alone_def)

definition demo_month :: Period where
  "demo_month = \<lparr>p_Start = 1710460800000000000, p_End = 1713139200000000000, p_Type = PeriodTypeMonthly\<rparr>"

text \<open>
  Evaluation: a call is unfolded from its first operation on, so the simplifier is kept out of
  what follows a bind. The calendar, the keys and the floats are evaluated on their own.
\<close>

lemma bind_weak_cong: "f = f' \<Longrightarrow> State_Monad.bind f g = State_Monad.bind f' g"
  by simp

lemma demo_period: "period_for None demo_now PeriodTypeMonthly = Some demo_month"
  by code_simp

lemma demo_keys:
  "mem_usageKey ''u'' ''api'' demo_month = ''u:api:2024-03-15''"
  "usage_cache_key ''u'' ''api'' demo_month = ''u:api:2024-03-15''"
  by code_simp+

lemma demo_crossed: "\<not> crossed 10 0 3 (1 / 2)"
  by code_simp

lemma demo_valid: "valid_config demo_config"
  by (rule Validate_Nil [THEN iffD1]) code_simp

lemmas demo_eval = Consume_def numeral_2_eq_2 consume_replay_def GetEntitlement_def demo_ctx_def
  no_options_def lru_GetEntitlement_def NewLRUCache_def fetch_entitlement_def mem_GetEntitlement_def
  mem_New_def demo_world_def found_def mgr_now_def mem_Now_def demo_period demo_keys demo_crossed Let_def
  tier_of_def consume_period_def checkRateLimit_def tier_or_default_def tier_lookup_def
  demo_config_def demo_tier_def rate_refusal_def consume_limit_def getLimitForResource_def
  mem_ConsumeQuota_def consume_request_def iadd_def isub_def wrap64_def consume_done_def only_if_def
  checkWarnings_def getWarningThresholds_def mem_GetConsumptionRecord_def

definition demo_consume :: "goint \<Rightarrow> string \<Rightarrow> (MemState, MemState, goint \<times> goerr option) call" where
  "demo_consume n key = Consume demo_manager demo_ctx demo_now ''u'' ''api'' n PeriodTypeMonthly
     \<lparr>co_IdempotencyKey = key, co_DryRun = False\<rparr>"

lemma demo_accepted: "fst (run_state (demo_consume 3 ''k'') demo_world) = (3, None)"
  by (simp add: demo_consume_def demo_eval cong: bind_weak_cong)

lemma demo_stored:
  "map_option u_Used (ms_usage (w_storage (snd (run_state (demo_consume 3 ''k'') demo_world))) ''u:api:2024-03-15'') = Some 3"
  "ms_entitlements (w_storage (snd (run_state (demo_consume 3 ''k'') demo_world))) ''u'' = None"
  by (simp_all add: demo_consume_def demo_eval lru_InvalidateUsage_def cong: bind_weak_cong)

lemma demo_refused: "fst (run_state (demo_consume 11 ''k'') demo_world) = (0, Some ErrQuotaExceeded)"
  by (simp add: demo_consume_def demo_eval cong: bind_weak_cong)

lemma demo_cache: "w_cache demo_world = NoopCache \<or> (\<exists>a b. w_cache demo_world = LRU (NewLRUCache a b))"
  by (auto simp: demo_world_def)

section \<open>The properties at the demo\<close>

lemma Consume_fuel_enough_witness:
  "Consume_fuel 7 demo_manager demo_ctx demo_now ''u'' ''api'' 3 PeriodTypeAuto no_options
    = Consume demo_manager demo_ctx demo_now ''u'' ''api'' 3 PeriodTypeAuto no_options"
  using Consume_fuel_enough [of demo_manager 7] demo_valid by simp

lemma Consume_refused_keeps_ledger_witness:
  "fst (run_state (demo_consume 11 ''k'') demo_world) = (0, Some ErrQuotaExceeded)
    \<and> mem_view (w_storage (snd (run_state (demo_consume 11 ''k'') demo_world))) = mem_view (w_storage demo_world)"
  using demo_refused
    Consume_refused_keeps_ledger [OF demo_manager_simps(1,2) surjective_pairing, of demo_ctx demo_now "''u''" "''api''" 11
      PeriodTypeMonthly "\<lparr>co_IdempotencyKey = ''k'', co_DryRun = False\<rparr>" demo_world]
  by (simp add: demo_consume_def)


lemma Consume_idempotent_witness:
  "\<exists>w1 w2. run_state (demo_consume 3 ''k'') demo_world = ((3, None), w1)
    \<and> run_state (demo_consume 4 ''k'') w1 = ((3, None), w2) \<and> w_storage w2 = w_storage w1"
proof -
  let ?w = "snd (run_state (demo_consume 3 ''k'') demo_world)"
  have 1: "run_state (demo_consume 3 ''k'') demo_world = ((3, None), ?w)"
    using demo_accepted by (metis surjective_pairing)
  show ?thesis
    using Consume_idempotent [OF demo_manager_simps(1,2) 1 [unfolded demo_consume_def], of _ demo_ctx 4] 1
    by (auto simp: demo_consume_def demo_ctx_def)
qed


lemma cbs_ConsumeQuota_transparent_witness:
  "let q = consume_request demo_config ''u'' ''api'' 2 no_options ''free'' demo_month 10
   in fst (cbs_ConsumeQuota memory_storage demo_now q (NewDefaultCircuitBreaker 2 10, mem_New))
     = fst (mem_ConsumeQuota demo_now q mem_New)"
proof -
  have "currentState demo_now (NewDefaultCircuitBreaker 2 10) \<noteq> StateOpen" by code_simp
  then show ?thesis by (simp add: Let_def cbs_ConsumeQuota_transparent)
qed

lemma demo_tier_of: "stored_tier demo_config mem_New ''u'' = ''free''" "unlimited_rate demo_config ''free'' ''api''"
  by (simp_all add: stored_tier_def mem_New_def demo_config_def unlimited_rate_def tier_or_default_def
      tier_lookup_def demo_tier_def)

lemma demo_parts:
  "w_storage demo_world = mem_New" "w_cache demo_world = LRU (NewLRUCache 10 10)" "ctx_Err demo_ctx = None"
  "ms_usage mem_New k = None" "ms_entitlements mem_New v = None"
  by (simp_all add: demo_world_def demo_ctx_def mem_New_def)

lemma Consume_exact_witness:
  "fst (run_state (Consume demo_manager demo_ctx demo_now ''u'' ''api'' 11 PeriodTypeMonthly no_options) demo_world)
    = (0, Some ErrQuotaExceeded)"
proof -
  have p: "period_for (ms_entitlements (w_storage demo_world) ''u'') demo_now PeriodTypeMonthly = Some demo_month"
    by (simp add: demo_world_def mem_New_def demo_period)
  have "getLimitForResource demo_config ''api'' ''free'' PeriodTypeMonthly = 10" by code_simp
  then show ?thesis
    using Consume_exact [OF demo_manager_simps(1,2) demo_cache rtranclp.rtrancl_refl _ _ _ p refl _ refl _ surjective_pairing,
        of demo_ctx 11 "''api''"] demo_tier_of
    by (simp add: demo_parts int64_ok_def lg_used_def consume_answer_def)
qed


lemma demo_limit: "getLimitForResource demo_config ''api'' ''free'' PeriodTypeMonthly = 10"
  by code_simp

lemma demo_world_period:
  "period_for (ms_entitlements (w_storage demo_world) ''u'') demo_now PeriodTypeMonthly = Some demo_month"
  by (simp add: demo_parts demo_period)

lemma TryConsume_exact_witness:
  "fst (run_state (TryConsume demo_manager demo_ctx demo_now ''u'' ''api'' 3 PeriodTypeMonthly no_options) demo_world)
    = Inr \<lparr>tr_Success = True, tr_Remaining = 7, tr_Consumed = 3, tr_NewUsed = 3\<rparr>"
proof -
  have "calculateRemaining 10 3 = 7" by code_simp
  then show ?thesis
    using TryConsume_exact [OF demo_manager_simps(1,2) demo_cache rtranclp.rtrancl_refl _ _ _ demo_world_period refl _
        refl _ refl surjective_pairing, of demo_ctx 3 "''api''"] demo_tier_of demo_limit
    by (simp add: demo_parts int64_ok_def lg_used_def)
qed

lemma GetUsageAfterConsume_reads_write_witness:
  "\<exists>v. fst (run_state (GetUsageAfterConsume demo_manager demo_ctx demo_now ''u'' ''api'' 3 PeriodTypeMonthly no_options)
      demo_world) = Inr v \<and> u_Used v = 3"
  using GetUsageAfterConsume_reads_write [OF demo_manager_simps(1,2) demo_cache rtranclp.rtrancl_refl _ _ _
      demo_world_period refl _ refl, of demo_ctx 3 "''api''"] demo_tier_of demo_limit
  by (simp add: demo_parts int64_ok_def lg_used_def consume_answer_def)

lemma warnings_once_witness:
  "warned ''api'' ''free'' (1 / 2) (snd (run_state
      (warn_run demo_manager demo_ctx demo_now ''u'' ''api'' ''free'' 10 demo_month 0 [3, 3]) demo_world)) = 1"
proof -
  have t: "getWarningThresholds demo_config ''api'' ''free'' = [1 / 2]" by code_simp
  have c: "crossed 10 0 6 (1 / 2)" by code_simp
  show ?thesis
    using warnings_once [OF demo_manager_simps(1) _ _ _ _ surjective_pairing, of "[3, 3]" 0 "''api''" "''free''" "1 / 2"
        demo_ctx demo_now "''u''" 10 demo_month demo_world] c
    by (simp add: t int64_ok_def warned_def demo_world_def)
qed

lemma SetEntitlement_credits_first_witness:
  "let ent = \<lparr>e_UserID = ''u'', e_Tier = ''free'', e_SubscriptionStartDate = 0, e_ExpiresAt = None, e_UpdatedAt = 0\<rparr>;
       s = w_storage (snd (run_state (SetEntitlement demo_manager demo_now ent) demo_world))
   in lg_acct (mem_view s) ''u:api:forever'' = Some (0, 5) \<and> lg_acct (mem_view s) ''u:img:forever'' = None"
proof -
  let ?ent = "\<lparr>e_UserID = ''u'', e_Tier = ''free'', e_SubscriptionStartDate = 0, e_ExpiresAt = None, e_UpdatedAt = 0\<rparr>"
  have t: "tier_lookup demo_config (e_Tier ?ent) = Some demo_tier" by (simp add: demo_config_def tier_lookup_def)
  have f: "filter (\<lambda>(r, a). 0 < a) (tc_InitialForeverCredits demo_tier) = [(''api'', 5), (''img'', 7)]"
    by (simp add: demo_tier_def)
  have k: "mem_usageKey ''u'' ''api'' (forever_period demo_now) = ''u:api:forever''"
    by (simp add: mem_usageKey_def forever_period_def)
  show ?thesis
    using SetEntitlement_credits_first [OF demo_manager_simps(1) _ _ surjective_pairing, of ?ent demo_tier demo_now demo_world] t
    by (simp add: f k Let_def demo_parts(1) del: mem_view_simps)
      (simp add: spec_add_def mem_view_def mem_New_def)
qed

end
