(* ===== verification/WebServer.thy ===== *)
theory WebServer
  imports QuotaTypes
begin

text \<open>
  What the HTTP front ends use of Go's \<open>net/http\<close>: a response writer, a request, header maps with
  canonical keys, \<open>http.Error\<close>, and the formatting verbs \<open>%d\<close>, \<open>%.0f\<close> and \<open>%.2f\<close>. A body chunk is a
  value of type \<open>'b\<close> (a text, or a value that is encoded as JSON).
\<close>

section \<open>Headers\<close>

type_synonym Header = "string \<Rightarrow> string list"

definition char_code :: "char \<Rightarrow> nat" where "char_code c = of_char c"

definition is_upper :: "char \<Rightarrow> bool" where "is_upper c \<longleftrightarrow> 65 \<le> char_code c \<and> char_code c \<le> 90"
definition is_lower :: "char \<Rightarrow> bool" where "is_lower c \<longleftrightarrow> 97 \<le> char_code c \<and> char_code c \<le> 122"

definition to_upper :: "char \<Rightarrow> char" where
  "to_upper c = (if is_lower c then char_of (char_code c - 32) else c)"

definition to_lower :: "char \<Rightarrow> char" where
  "to_lower c = (if is_upper c then char_of (char_code c + 32) else c)"

text \<open>The bytes a header name may have: letters, digits and some punctuation.\<close>

definition token_char :: "char \<Rightarrow> bool" where
  "token_char c \<longleftrightarrow> is_upper c \<or> is_lower c \<or> 48 \<le> char_code c \<and> char_code c \<le> 57
     \<or> char_code c \<in> set [33, 35, 36, 37, 38, 39, 42, 43, 45, 46, 94, 95, 96, 124, 126]"

fun canonical_from :: "bool \<Rightarrow> string \<Rightarrow> string" where
  "canonical_from up [] = []"
| "canonical_from up (c # s) =
     (if up then to_upper c else to_lower c) # canonical_from (c = CHR ''-'') s"

definition canonical_key :: "string \<Rightarrow> string" where
  "canonical_key s = (if list_all token_char s then canonical_from True s else s)"

definition header_Get :: "string \<Rightarrow> Header \<Rightarrow> string" where
  "header_Get k h = (case h (canonical_key k) of [] \<Rightarrow> '''' | v # _ \<Rightarrow> v)"

definition header_Set :: "string \<Rightarrow> string \<Rightarrow> Header \<Rightarrow> Header" where
  "header_Set k v h = h(canonical_key k := [v])"

definition header_Add :: "string \<Rightarrow> string \<Rightarrow> Header \<Rightarrow> Header" where
  "header_Add k v h = h(canonical_key k := h (canonical_key k) @ [v])"

definition header_Del :: "string \<Rightarrow> Header \<Rightarrow> Header" where
  "header_Del k h = h(canonical_key k := [])"

lemma header_Get_Set [simp]:
  "header_Get k (header_Set k' v h) = (if canonical_key k = canonical_key k' then v else header_Get k h)"
  by (simp add: header_Get_def header_Set_def)

section \<open>Responses\<close>

text \<open>
  The first \<open>WriteHeader\<close> fixes the status, and a write without one sends 200. \<open>rw_Broken\<close> says that
  the client is gone: every write fails.
\<close>

record 'b ResponseWriter =
  rw_Header :: Header
  rw_Status :: "goint option"
  rw_Body :: "'b list"
  rw_Broken :: bool

definition WriteHeader :: "goint \<Rightarrow> 'b ResponseWriter \<Rightarrow> 'b ResponseWriter" where
  "WriteHeader code w = (case rw_Status w of None \<Rightarrow> w\<lparr>rw_Status := Some code\<rparr> | Some _ \<Rightarrow> w)"

definition rw_Write :: "'b \<Rightarrow> 'b ResponseWriter \<Rightarrow> goerr option \<times> 'b ResponseWriter" where
  "rw_Write b w =
     (let w = WriteHeader 200 w
      in if rw_Broken w then (Some (ErrText ''write failed''), w)
         else (None, w\<lparr>rw_Body := rw_Body w @ [b]\<rparr>))"

definition set_header :: "string \<Rightarrow> string \<Rightarrow> 'b ResponseWriter \<Rightarrow> 'b ResponseWriter" where
  "set_header k v w = w\<lparr>rw_Header := header_Set k v (rw_Header w)\<rparr>"

definition add_header :: "string \<Rightarrow> string \<Rightarrow> 'b ResponseWriter \<Rightarrow> 'b ResponseWriter" where
  "add_header k v w = w\<lparr>rw_Header := header_Add k v (rw_Header w)\<rparr>"

text \<open>\<open>http.Error\<close>\<close>

definition http_Error :: "string \<Rightarrow> goint \<Rightarrow> string ResponseWriter \<Rightarrow> string ResponseWriter" where
  "http_Error msg code w =
     (let w = w\<lparr>rw_Header := header_Set ''X-Content-Type-Options'' ''nosniff''
            (header_Set ''Content-Type'' ''text/plain; charset=utf-8''
              (header_Del ''Content-Length'' (rw_Header w)))\<rparr>
      in snd (rw_Write (msg @ [CHR 0x0A]) (WriteHeader code w)))"

definition StatusOK :: goint where "StatusOK = 200"
definition StatusBadRequest :: goint where "StatusBadRequest = 400"
definition StatusUnauthorized :: goint where "StatusUnauthorized = 401"
definition StatusTooManyRequests :: goint where "StatusTooManyRequests = 429"
definition StatusInternalServerError :: goint where "StatusInternalServerError = 500"

lemmas status_defs = StatusOK_def StatusBadRequest_def StatusUnauthorized_def StatusTooManyRequests_def
  StatusInternalServerError_def

lemmas writer_defs = WriteHeader_def rw_Write_def set_header_def add_header_def http_Error_def Let_def

section \<open>Requests\<close>

text \<open>
  Of a request: its headers, the error and the values of its context, and its body: none, or the
  bytes that are left to read with a flag for a read that fails after them.
\<close>

datatype ctx_key = ContextKey string | OtherKey string

datatype ctx_value = CtxString string | CtxOther

record HttpRequest =
  hr_Header :: Header
  hr_Err :: "goerr option"
  hr_Values :: "ctx_key \<Rightarrow> ctx_value option"
  hr_Body :: "(string \<times> bool) option"

definition context_string :: "ctx_value option \<Rightarrow> string" where
  "context_string v = (case v of Some (CtxString s) \<Rightarrow> s | _ \<Rightarrow> '''')"

text \<open>\<open>io.ReadAll(r.Body)\<close> of a body that is there.\<close>

definition ReadAll :: "string \<times> bool \<Rightarrow> goerr + string" where
  "ReadAll body = (if snd body then Inl (ErrText ''read failed'') else Inr (fst body))"

section \<open>Formatting\<close>

text \<open>\<open>%.0f\<close> and \<open>%.2f\<close>: decimal rounding of the exact value, halves to even.\<close>

definition format_f0 :: "float64 \<Rightarrow> string" where
  "format_f0 x = show_int (round_half_even x)"

definition format_f2 :: "float64 \<Rightarrow> string" where
  "format_f2 x =
     (let n = round_half_even (\<bar>x\<bar> * 100)
      in (if x < 0 then ''-'' else '''') @ show_nat (nat (n div 100)) @ ''.'' @ pad2 (n mod 100))"

text \<open>\<open>Time.Unix\<close>\<close>

definition time_Unix :: "time \<Rightarrow> int" where
  "time_Unix t = t div ns_per_sec"

end
