(* ===== verification/UsageApi.thy ===== *)
theory UsageApi
  imports ManagerOps WebServer
begin

text \<open>
  The usage API, \<open>pkg/api\<close>: an HTTP handler that reports a user's combined quota per resource. A
  request ends with one response; \<open>status\<close> and \<open>errorType\<close>, locals of \<open>GetUsage\<close> the helpers write
  through pointers, are returned by them. The metrics of the handler's own recorder are added to
  the manager's trace. \<open>resourceSet\<close>, a Go map, is a list without duplicates in the order the loops
  happen to range over it.
\<close>

record QuotaBreakdown =
  qb_Source :: string
  qb_Limit :: goint
  qb_Used :: goint
  qb_Balance :: goint

record ResourceUsage =
  ru_Limit :: goint
  ru_Used :: goint
  ru_Remaining :: goint
  ru_ResetAt :: "time option"
  ru_Breakdown :: "QuotaBreakdown list"

record UsageResponse =
  ur_UserID :: string
  ur_Tier :: string
  ur_Status :: string
  ur_Resources :: "string \<Rightarrow> ResourceUsage option"

text \<open>The JSON documents the handler sends.\<close>

datatype ApiBody = UsageBody UsageResponse | ErrorBody goerr

text \<open>The configuration, with its required parts optional as before validation.\<close>

record ('s, 't) ApiConfig =
  ac_Manager :: "('s, 't) Manager option"
  ac_GetUserID :: "(HttpRequest \<Rightarrow> string) option"
  ac_ResourceFilter :: "(string list \<Rightarrow> string list) option"
  ac_KnownResources :: "string list"
  ac_OnError :: "(HttpRequest \<Rightarrow> goerr \<Rightarrow> ApiBody ResponseWriter \<Rightarrow> ApiBody ResponseWriter) option"
  ac_Metrics :: bool

definition api_Validate :: "('s, 't) ApiConfig \<Rightarrow> goerr option" where
  "api_Validate c =
     (if ac_Manager c = None then Some (ErrText ''manager is required'')
      else if ac_GetUserID c = None then Some (ErrText ''getUserID is required'')
      else None)"

text \<open>A handler: a validated configuration.\<close>

record ('s, 't) Handler =
  h_Manager :: "('s, 't) Manager"
  h_GetUserID :: "HttpRequest \<Rightarrow> string"
  h_config :: "('s, 't) ApiConfig"

definition NewHandler :: "('s, 't) ApiConfig \<Rightarrow> goerr + ('s, 't) Handler" where
  "NewHandler c = (case api_Validate c of
     Some err \<Rightarrow> Inl (Wrapped ''invalid config'' err)
   | None \<Rightarrow> Inr \<lparr>h_Manager = the (ac_Manager c), h_GetUserID = the (ac_GetUserID c), h_config = c\<rparr>)"

definition api_FromHeader :: "string \<Rightarrow> HttpRequest \<Rightarrow> string" where
  "api_FromHeader headerName r = header_Get headerName (hr_Header r)"

definition api_FromContext :: "ctx_key \<Rightarrow> HttpRequest \<Rightarrow> string" where
  "api_FromContext key r = context_string (hr_Values r key)"

section \<open>One resource\<close>

definition active_monthly :: "Usage \<Rightarrow> bool" where
  "active_monthly u \<longleftrightarrow> u_Limit u > 0 \<or> u_Used u > 0 \<or> u_Limit u = -1"

definition hasActiveQuota :: "('s, 't) Handler \<Rightarrow> time \<Rightarrow> string \<Rightarrow> string \<Rightarrow> ('s, 't, bool) call" where
  "hasActiveQuota h now userID resource = do {
     monthly \<leftarrow> GetQuota (h_Manager h) now userID resource PeriodTypeMonthly;
     if (case monthly of Inr u \<Rightarrow> active_monthly u | Inl _ \<Rightarrow> False) then State_Monad.return True
     else do {
       forever \<leftarrow> GetQuota (h_Manager h) now userID resource PeriodTypeForever;
       State_Monad.return (case forever of Inr u \<Rightarrow> u_Limit u > 0 \<or> u_Used u > 0 | Inl _ \<Rightarrow> False)
     }
   }"

record combinedQuota =
  cq'_Limit :: goint
  cq'_Used :: goint
  cq'_Remaining :: goint

definition forever_balance :: "Usage \<Rightarrow> goint" where
  "forever_balance forever =
     (let foreverBalance = isub (u_Limit forever) (u_Used forever)
      in if foreverBalance < 0 then 0 else foreverBalance)"

definition calculateCombinedQuota :: "Usage \<Rightarrow> Usage \<Rightarrow> combinedQuota" where
  "calculateCombinedQuota monthly forever =
     (if u_Limit monthly = -1
      then \<lparr>cq'_Limit = -1, cq'_Used = u_Used monthly, cq'_Remaining = -1\<rparr>
      else
        let foreverBalance = forever_balance forever;
            combinedLimit = iadd (u_Limit monthly) foreverBalance;
            combinedUsed = u_Used monthly;
            combinedRemaining = isub combinedLimit combinedUsed;
            combinedRemaining = (if combinedRemaining < 0 then 0 else combinedRemaining)
        in \<lparr>cq'_Limit = combinedLimit, cq'_Used = combinedUsed, cq'_Remaining = combinedRemaining\<rparr>)"

text \<open>The loop over the fixed order, monthly then forever.\<close>

definition buildBreakdown :: "Usage \<Rightarrow> Usage \<Rightarrow> QuotaBreakdown list" where
  "buildBreakdown monthly forever =
     (if active_monthly monthly
      then [\<lparr>qb_Source = ''monthly'', qb_Limit = u_Limit monthly, qb_Used = u_Used monthly, qb_Balance = 0\<rparr>]
      else [])
     @ (let foreverBalance = forever_balance forever in
        if u_Limit forever > 0 \<or> foreverBalance > 0
        then [\<lparr>qb_Source = ''forever'', qb_Limit = (if u_Limit forever > 0 then u_Limit forever else 0),
               qb_Used = (if u_Limit forever > 0 then u_Used forever else 0), qb_Balance = foreverBalance\<rparr>]
        else [])"

text \<open>A usage for an entitlement that was not found; only \<open>Used\<close> and \<open>Limit\<close> are read from it.\<close>

definition missing_usage :: "string \<Rightarrow> string \<Rightarrow> string \<Rightarrow> Usage" where
  "missing_usage userID resource tier =
     \<lparr>u_UserID = userID, u_Resource = resource, u_Used = 0, u_Limit = 0,
      u_Period = \<lparr>p_Start = zero_time, p_End = zero_time, p_Type = PeriodTypeOther ''''\<rparr>, u_Tier = tier,
      u_UpdatedAt = zero_time\<rparr>"

definition or_missing :: "string \<Rightarrow> goerr + Usage \<Rightarrow> Usage \<Rightarrow> goerr + Usage" where
  "or_missing msg r missing = (case r of
     Inr u \<Rightarrow> Inr u
   | Inl err \<Rightarrow> if err \<noteq> ErrEntitlementNotFound then Inl (Wrapped msg err) else Inr missing)"

definition buildResourceUsage :: "('s, 't) Handler \<Rightarrow> time \<Rightarrow> string \<Rightarrow> string \<Rightarrow> string \<Rightarrow> Entitlement option
    \<Rightarrow> ('s, 't, goerr + ResourceUsage) call" where
  "buildResourceUsage h now userID resource tier ent = do {
     r \<leftarrow> GetQuota (h_Manager h) now userID resource PeriodTypeMonthly;
     case or_missing ''failed to get monthly quota'' r (missing_usage userID resource tier) of
       Inl err \<Rightarrow> State_Monad.return (Inl err)
     | Inr monthlyUsage \<Rightarrow> do {
         r \<leftarrow> GetQuota (h_Manager h) now userID resource PeriodTypeForever;
         case or_missing ''failed to get forever quota'' r (missing_usage userID resource tier) of
           Inl err \<Rightarrow> State_Monad.return (Inl err)
         | Inr foreverUsage \<Rightarrow> do {
             resetAt \<leftarrow> (if ent = None then State_Monad.return None
               else do {
                 period \<leftarrow> GetCurrentCycle (h_Manager h) now userID;
                 State_Monad.return (case period of Inr p \<Rightarrow> Some (p_End p) | Inl _ \<Rightarrow> None)
               });
             let combined = calculateCombinedQuota monthlyUsage foreverUsage;
             State_Monad.return (Inr \<lparr>ru_Limit = cq'_Limit combined, ru_Used = cq'_Used combined,
               ru_Remaining = cq'_Remaining combined, ru_ResetAt = resetAt,
               ru_Breakdown = buildBreakdown monthlyUsage foreverUsage\<rparr>)
           }
       }
   }"

section \<open>The handler\<close>

fun active_loop :: "('s, 't) Handler \<Rightarrow> time \<Rightarrow> string \<Rightarrow> string list \<Rightarrow> string list \<Rightarrow> ('s, 't, string list) call" where
  "active_loop h now userID [] resourceSet = State_Monad.return resourceSet"
| "active_loop h now userID (resource # rest) resourceSet = do {
     active \<leftarrow> hasActiveQuota h now userID resource;
     active_loop h now userID rest (if active then List.insert resource resourceSet else resourceSet)
   }"

definition discover_candidates :: "('s, 't) ApiConfig \<Rightarrow> string list" where
  "discover_candidates c = (case ac_ResourceFilter c of
     None \<Rightarrow> ac_KnownResources c
   | Some f \<Rightarrow> f (ac_KnownResources c))"

definition discoverResources :: "('s, 't) Handler \<Rightarrow> time \<Rightarrow> string \<Rightarrow> ('s, 't, string list) call" where
  "discoverResources h now userID =
     (if ac_KnownResources (h_config h) = [] then State_Monad.return []
      else
        let resourceSet = fold List.insert (discover_candidates (h_config h)) []
        in active_loop h now userID resourceSet resourceSet)"

definition api_metric :: "('s, 't) Handler \<Rightarrow> metric \<Rightarrow> ('s, 't, unit) call" where
  "api_metric h ev = only_if (ac_Metrics (h_config h)) (record_metric ev)"

definition discoverResourcesWithMetrics :: "('s, 't) Handler \<Rightarrow> time \<Rightarrow> string \<Rightarrow> ('s, 't, string list) call" where
  "discoverResourcesWithMetrics h now userID = do {
     let totalResources = int (length (ac_KnownResources (h_config h)));
     resources \<leftarrow> discoverResources h now userID;
     let filteredCount = int (length resources);
     only_if (totalResources > 0) (do {
       only_if (ac_ResourceFilter (h_config h) \<noteq> None) (do {
         only_if (totalResources - filteredCount > 0)
           (api_metric h (RecordResourceFilterQueriesSaved (totalResources - filteredCount)));
         api_metric h (RecordResourceFilterEffectivenessRatio
           (case f_div (f_of_int filteredCount) (f_of_int totalResources) of Some x \<Rightarrow> x | None \<Rightarrow> 0));
         api_metric h (RecordUsageAPIResourceFilterEffectiveness filteredCount totalResources)
       });
       api_metric h (RecordUsageAPIResourcesDiscovered filteredCount)
     });
     State_Monad.return resources
   }"

fun buildResourceUsageMap :: "('s, 't) Handler \<Rightarrow> time \<Rightarrow> string \<Rightarrow> string list \<Rightarrow> string \<Rightarrow> Entitlement option
    \<Rightarrow> (string \<Rightarrow> ResourceUsage option) \<Rightarrow> string \<Rightarrow> ('s, 't, (string \<Rightarrow> ResourceUsage option) \<times> string) call" where
  "buildResourceUsageMap h now userID [] tier ent resourceUsage errorType =
     State_Monad.return (resourceUsage, errorType)"
| "buildResourceUsageMap h now userID (resource # rest) tier ent resourceUsage errorType = do {
     usage \<leftarrow> buildResourceUsage h now userID resource tier ent;
     case usage of
       Inl err \<Rightarrow> buildResourceUsageMap h now userID rest tier ent resourceUsage
         (if ac_Metrics (h_config h) \<and> errorType = '''' then ''partial_error'' else errorType)
     | Inr u \<Rightarrow> buildResourceUsageMap h now userID rest tier ent (resourceUsage(resource := Some u)) errorType
   }"

definition handleError :: "('s, 't) ApiConfig \<Rightarrow> HttpRequest \<Rightarrow> goerr \<Rightarrow> goint \<Rightarrow> ApiBody ResponseWriter
    \<Rightarrow> ApiBody ResponseWriter" where
  "handleError c r err statusCode w = (case ac_OnError c of
     Some f \<Rightarrow> f r err w
   | None \<Rightarrow> snd (rw_Write (ErrorBody err) (WriteHeader statusCode
       (set_header ''Content-Type'' ''application/json'' w))))"

text \<open>A refusal: the status and error type for the metrics, and the response.\<close>

definition validateUserID :: "('s, 't) Handler \<Rightarrow> HttpRequest \<Rightarrow> ApiBody ResponseWriter
    \<Rightarrow> (string \<times> ApiBody ResponseWriter) + string" where
  "validateUserID h r w =
     (let userID = h_GetUserID h r in
      if userID = '''' then Inl (''auth_error'',
        handleError (h_config h) r (ErrText ''user ID not found'') StatusUnauthorized w)
      else if length userID > 255 then Inl (''validation_error'',
        handleError (h_config h) r (ErrText ''invalid user ID format'') StatusBadRequest w)
      else Inr userID)"

definition getEntitlementAndTier :: "('s, 't) Handler \<Rightarrow> HttpRequest \<Rightarrow> time \<Rightarrow> string \<Rightarrow> ApiBody ResponseWriter
    \<Rightarrow> ('s, 't, (string \<times> ApiBody ResponseWriter) + Entitlement option \<times> string \<times> string) call" where
  "getEntitlementAndTier h r now userID w = do {
     e \<leftarrow> GetEntitlement (h_Manager h) now userID;
     State_Monad.return (case e of
       Inr ent \<Rightarrow> Inr (Some ent, e_Tier ent,
         case e_ExpiresAt ent of
           Some t \<Rightarrow> if t < now then ''expired'' else ''active''
         | None \<Rightarrow> ''active'')
     | Inl err \<Rightarrow>
         if err \<noteq> ErrEntitlementNotFound
         then Inl (''storage_error'', handleError (h_config h) r
           (Wrapped ''failed to get entitlement'' err) StatusInternalServerError w)
         else Inr (None, ''default'', ''default''))
   }"

definition sendUsageResponse :: "('s, 't) Handler \<Rightarrow> string \<Rightarrow> string \<Rightarrow> string \<Rightarrow> (string \<Rightarrow> ResourceUsage option)
    \<Rightarrow> string \<Rightarrow> ApiBody ResponseWriter \<Rightarrow> (string \<times> string) \<times> ApiBody ResponseWriter" where
  "sendUsageResponse h userID tier status resourceUsage errorType w =
     (let (err, w) = rw_Write (UsageBody \<lparr>ur_UserID = userID, ur_Tier = tier, ur_Status = status,
            ur_Resources = resourceUsage\<rparr>)
            (WriteHeader StatusOK (set_header ''Content-Type'' ''application/json'' w))
      in (if err \<noteq> None \<and> ac_Metrics (h_config h) then (''error'', ''encoding_error'') else (status, errorType), w))"

definition api_done :: "('s, 't) Handler \<Rightarrow> string \<Rightarrow> string \<Rightarrow> ApiBody ResponseWriter
    \<Rightarrow> ('s, 't, ApiBody ResponseWriter) call" where
  "api_done h status errorType w = do {
     api_metric h RecordUsageAPIRequestDuration;
     api_metric h (RecordUsageAPIRequest status errorType);
     State_Monad.return w
   }"

definition GetUsage :: "('s, 't) Handler \<Rightarrow> time \<Rightarrow> HttpRequest \<Rightarrow> ApiBody ResponseWriter
    \<Rightarrow> ('s, 't, ApiBody ResponseWriter) call" where
  "GetUsage h now r w = (case validateUserID h r w of
     Inl (errorType, w) \<Rightarrow> api_done h ''error'' errorType w
   | Inr userID \<Rightarrow> do {
       e \<leftarrow> getEntitlementAndTier h r now userID w;
       case e of
         Inl (errorType, w) \<Rightarrow> api_done h ''error'' errorType w
       | Inr (ent, tier, status) \<Rightarrow> do {
           resources \<leftarrow> discoverResourcesWithMetrics h now userID;
           built \<leftarrow> buildResourceUsageMap h now userID resources tier ent (\<lambda>_. None) '''';
           let sent = sendUsageResponse h userID tier status (fst built) (snd built) w;
           api_done h (fst (fst sent)) (snd (fst sent)) (snd sent)
         }
     })"

end
