(* ===== verification/UsageApiProps.thy ===== *)
theory UsageApiProps
  imports ManagerDemo UsageApi
begin

text \<open>
  The usage API over a manager with the in-memory storage: what a report contains, how its
  numbers relate to what \<open>Consume\<close> enforces, and where they do not.
\<close>

section \<open>The loops of the handler\<close>

lemma GetQuota_total:
  assumes "m_storage m = memory_storage" "flights_alone m" "cache_inv {} {} w"
    and "pt = PeriodTypeMonthly \<or> pt = PeriodTypeDaily \<or> pt = PeriodTypeForever"
    and "run_state (GetQuota m now u r pt) w = (res, w')"
  obtains v p where "res = Inr v" "cache_inv {} {} w'" "w_storage w' = w_storage w"
    "period_for (ms_entitlements (w_storage w) u) now pt = Some p"
    "u_Used v = lg_used (mem_view (w_storage w)) (mem_usageKey u r p)"
proof -
  obtain p where p: "period_for (ms_entitlements (w_storage w) u) now pt = Some p"
    using assms(4) by (auto simp: period_for_def)
  then show ?thesis
    using that GetQuota_spec [OF assms(1-3,5)] by (auto simp: used_in_def lg_used_mem_view split: option.splits)
qed

lemma hasActiveQuota_keeps:
  assumes "m_storage (h_Manager h) = memory_storage" "flights_alone (h_Manager h)" "cache_inv {} {} w"
    and "run_state (hasActiveQuota h now u r) w = (res, w')"
  shows "cache_inv {} {} w' \<and> w_storage w' = w_storage w"
proof -
  obtain a w1 where 1: "run_state (GetQuota (h_Manager h) now u r PeriodTypeMonthly) w = (a, w1)" by fastforce
  obtain v p where a: "a = Inr v" "cache_inv {} {} w1" "w_storage w1 = w_storage w"
    using GetQuota_total [OF assms(1-3) _ 1] by blast
  obtain b w2 where 2: "run_state (GetQuota (h_Manager h) now u r PeriodTypeForever) w1 = (b, w2)" by fastforce
  obtain v' p' where "cache_inv {} {} w2" "w_storage w2 = w_storage w"
    using GetQuota_total [OF assms(1,2) a(2) _ 2] a(3) by metis
  with assms(4) a 1 2 show ?thesis
    by (cases "active_monthly v") (auto simp: hasActiveQuota_def)
qed

text \<open>The search for active resources finds nothing new: it only warms the cache.\<close>

lemma active_loop_keeps:
  assumes "m_storage (h_Manager h) = memory_storage" "flights_alone (h_Manager h)"
    and "cache_inv {} {} w" "set rs \<subseteq> set acc"
    and "run_state (active_loop h now u rs acc) w = (res, w')"
  shows "res = acc \<and> cache_inv {} {} w' \<and> w_storage w' = w_storage w"
  using assms(3-5)
proof (induction rs arbitrary: w)
  case (Cons r rs)
  obtain b w1 where 1: "run_state (hasActiveQuota h now u r) w = (b, w1)" by fastforce
  note k = hasActiveQuota_keeps [OF assms(1,2) Cons.prems(1) 1]
  have "(if b then List.insert r acc else acc) = acc" using Cons.prems(2) by (simp add: List.insert_def)
  then have "run_state (active_loop h now u rs acc) w1 = (res, w')" using Cons.prems(3) 1 by simp
  from Cons.IH [OF _ _ this] k Cons.prems(2) show ?case by simp
qed simp

definition reported :: "('s, 't) ApiConfig \<Rightarrow> string set" where
  "reported c = (if ac_KnownResources c = [] then {} else set (discover_candidates c))"

lemma set_fold_insert: "set (fold List.insert xs acc) = set xs \<union> set acc"
  by (induction xs arbitrary: acc) auto

lemma discover_keeps:
  assumes "m_storage (h_Manager h) = memory_storage" "flights_alone (h_Manager h)" "cache_inv {} {} w"
    and "run_state (discoverResourcesWithMetrics h now u) w = (res, w')"
  shows "set res = reported (h_config h) \<and> cache_inv {} {} w' \<and> w_storage w' = w_storage w"
proof -
  obtain rs w1 where 1: "run_state (discoverResources h now u) w = (rs, w1)" by fastforce
  have "set rs = reported (h_config h) \<and> cache_inv {} {} w1 \<and> w_storage w1 = w_storage w"
  proof (cases "ac_KnownResources (h_config h) = []")
    case True
    then show ?thesis using 1 assms(3) by (auto simp: discoverResources_def reported_def)
  next
    case False
    let ?s = "fold List.insert (discover_candidates (h_config h)) []"
    have "run_state (active_loop h now u ?s ?s) w = (rs, w1)"
      using 1 False by (simp add: discoverResources_def Let_def)
    from active_loop_keeps [OF assms(1-3) _ this] False show ?thesis
      by (simp add: set_fold_insert reported_def)
  qed
  with assms(4) 1 show ?thesis
    by (auto simp: discoverResourcesWithMetrics_def Let_def only_if_def api_metric_def split: if_splits)
qed

lemma buildResourceUsage_spec:
  assumes "m_storage (h_Manager h) = memory_storage" "flights_alone (h_Manager h)" "cache_inv {} {} w"
    and "run_state (buildResourceUsage h now u r tier ent) w = (res, w')"
  shows "cache_inv {} {} w' \<and> w_storage w' = w_storage w \<and> (\<exists>p ru. res = Inr ru
    \<and> period_for (ms_entitlements (w_storage w) u) now PeriodTypeMonthly = Some p
    \<and> ru_Used ru = lg_used (mem_view (w_storage w)) (mem_usageKey u r p))"
proof -
  obtain a w1 where 1: "run_state (GetQuota (h_Manager h) now u r PeriodTypeMonthly) w = (a, w1)" by fastforce
  obtain v p where a: "a = Inr v" "cache_inv {} {} w1" "w_storage w1 = w_storage w"
    "period_for (ms_entitlements (w_storage w) u) now PeriodTypeMonthly = Some p"
    "u_Used v = lg_used (mem_view (w_storage w)) (mem_usageKey u r p)"
    using GetQuota_total [OF assms(1-3) _ 1] by blast
  obtain b w2 where 2: "run_state (GetQuota (h_Manager h) now u r PeriodTypeForever) w1 = (b, w2)" by fastforce
  obtain v' where b: "b = Inr v'" "cache_inv {} {} w2" "w_storage w2 = w_storage w"
    using GetQuota_total [OF assms(1,2) a(2) _ 2] a(3) by metis
  obtain c w3 where 3: "run_state (GetCurrentCycle (h_Manager h) now u) w2 = (c, w3)" by fastforce
  have "cache_inv {} {} w3 \<and> w_storage w3 = w_storage w2"
    using 3 b(2) assms(1) stableD [OF stable_GetCurrentCycle [OF assms(1)] b(2), of now u]
    by (auto simp: GetCurrentCycle_def mem_GetEntitlement_def mgr_now_def mem_Now_def split: option.splits)
  with assms(4) a b 1 2 3 show ?thesis
    by (auto simp: buildResourceUsage_def or_missing_def Let_def calculateCombinedQuota_def split: if_splits)
qed


lemma buildResourceUsageMap_spec:
  assumes "m_storage (h_Manager h) = memory_storage" "flights_alone (h_Manager h)" "cache_inv {} {} w"
    and "period_for (ms_entitlements (w_storage w) u) now PeriodTypeMonthly = Some p"
    and "run_state (buildResourceUsageMap h now u rs tier ent f et) w = (res, w')"
  shows "w_storage w' = w_storage w \<and> snd res = et \<and> dom (fst res) = set rs \<union> dom f
    \<and> (\<forall>r \<in> dom (fst res). r \<in> set rs \<and> (\<exists>ru. fst res r = Some ru
          \<and> ru_Used ru = lg_used (mem_view (w_storage w)) (mem_usageKey u r p))
        \<or> r \<notin> set rs \<and> fst res r = f r)"
  using assms(3-5)
proof (induction rs arbitrary: w f)
  case (Cons r rs)
  obtain a w1 where 1: "run_state (buildResourceUsage h now u r tier ent) w = (a, w1)" by fastforce
  obtain ru where a: "a = Inr ru" "cache_inv {} {} w1" "w_storage w1 = w_storage w"
    "ru_Used ru = lg_used (mem_view (w_storage w)) (mem_usageKey u r p)"
    using buildResourceUsage_spec [OF assms(1,2) Cons.prems(1) 1] Cons.prems(2) by auto
  have "run_state (buildResourceUsageMap h now u rs tier ent (f(r := Some ru)) et) w1 = (res, w')"
    using Cons.prems(3) 1 a(1) by simp
  note ih = Cons.IH [OF a(2) _ this, unfolded a(3), OF Cons.prems(2)]
  have "r \<in> dom (fst res)" "r \<notin> set rs \<Longrightarrow> fst res r = Some ru"
    using ih by (auto split: if_splits)
  with ih a(4) show ?case by (auto split: if_splits)
qed auto

section \<open>Reports\<close>

definition report_status :: "Entitlement option \<Rightarrow> time \<Rightarrow> string" where
  "report_status ent now = (case ent of
     None \<Rightarrow> ''default''
   | Some e \<Rightarrow> (case e_ExpiresAt e of Some t \<Rightarrow> if t < now then ''expired'' else ''active'' | None \<Rightarrow> ''active''))"

text \<open>C11: Whatever a manager over the in-memory storage has done before, a usage request of a user with a
  valid id is answered with status 200 and one report: the stored tier and its status, and for exactly
  the known resources that pass the filter the used amount that the storage records for the current
  month. A request changes nothing in the storage.\<close>

theorem usage_report_exact:
  assumes "m_storage (h_Manager h) = memory_storage" "flights_alone (h_Manager h)"
    and "w_cache w0 = NoopCache \<or> (\<exists>a b. w_cache w0 = LRU (NewLRUCache a b))" "(mgr_step (h_Manager h))\<^sup>*\<^sup>* w0 w"
    and "u = h_GetUserID h r" "u \<noteq> ''''" "length u \<le> 255" "rw_Status rw = None" "\<not> rw_Broken rw"
    and "period_for (ms_entitlements (w_storage w) u) now PeriodTypeMonthly = Some p"
    and "run_state (GetUsage h now r rw) w = (rw', w')"
  shows "w_storage w' = w_storage w \<and> rw_Status rw' = Some StatusOK
    \<and> (\<exists>R. rw_Body rw' = rw_Body rw @ [UsageBody \<lparr>ur_UserID = u,
            ur_Tier = (case ms_entitlements (w_storage w) u of None \<Rightarrow> ''default'' | Some e \<Rightarrow> e_Tier e),
            ur_Status = report_status (ms_entitlements (w_storage w) u) now, ur_Resources = R\<rparr>]
        \<and> dom R = reported (h_config h)
        \<and> (\<forall>x \<in> dom R. \<exists>ru. R x = Some ru \<and> ru_Used ru = lg_used (mem_view (w_storage w)) (mem_usageKey u x p)))"
proof -
  let ?ent = "ms_entitlements (w_storage w) u"
  let ?tier = "case ?ent of None \<Rightarrow> ''default'' | Some e \<Rightarrow> e_Tier e"
  have inv: "cache_inv {} {} w"
    by (rule mgr_steps_inv [OF assms(4,1,2)]) (use assms(3) in \<open>rule cache_inv_New\<close>)
  obtain e w1 where 1: "run_state (GetEntitlement (h_Manager h) now u) w = (e, w1)" by fastforce
  note e = GetEntitlement_spec [OF assms(1,2) inv 1]
  have e2: "run_state (getEntitlementAndTier h r now u rw) w = (Inr (?ent, ?tier, report_status ?ent now), w1)"
    using e 1 by (auto simp: getEntitlementAndTier_def report_status_def split: option.splits)
  obtain rs w2 where 2: "run_state (discoverResourcesWithMetrics h now u) w1 = (rs, w2)" by fastforce
  have d: "set rs = reported (h_config h)" "cache_inv {} {} w2" "w_storage w2 = w_storage w"
    using discover_keeps [OF assms(1,2) _ 2] e by auto
  obtain built w3 where 3: "run_state (buildResourceUsageMap h now u rs ?tier ?ent (\<lambda>_. None) '''') w2 = (built, w3)"
    by fastforce
  note b = buildResourceUsageMap_spec [OF assms(1,2) d(2) _ 3, unfolded d(1,3), OF assms(10)]
  have v: "validateUserID h r rw = Inr u" using assms(5-7) by (simp add: validateUserID_def)
  let ?sent = "sendUsageResponse h u ?tier (report_status ?ent now) (fst built) (snd built) rw"
  have "rw' = snd ?sent" "w_storage w' = w_storage w3"
    using assms(11) e2 2 3 by (auto simp: GetUsage_def v Let_def api_done_def api_metric_def only_if_def split: if_splits)
  moreover have "rw_Status (snd ?sent) = Some StatusOK" "rw_Body (snd ?sent) = rw_Body rw @ [UsageBody \<lparr>ur_UserID = u,
      ur_Tier = ?tier, ur_Status = report_status ?ent now, ur_Resources = fst built\<rparr>]"
    using assms(8,9) by (simp_all add: sendUsageResponse_def writer_defs)
  ultimately show ?thesis using b by auto
qed


section \<open>Reports and enforcement\<close>

lemma GetEntitlement_uncached:
  assumes "m_storage m = memory_storage" "flights_alone m" "w_cache w = NoopCache"
    and "run_state (GetEntitlement m now u) w = (res, w')"
  shows "res = (case ms_entitlements (w_storage w) u of None \<Rightarrow> Inl ErrEntitlementNotFound | Some e \<Rightarrow> Inr e)"
    and "w_cache w' = NoopCache" "w_storage w' = w_storage w"
proof -
  have g: "m_entitlementGroup m u = (\<lambda>f. f)"
    using assms(2) unfolding flights_alone_def by blast
  show "res = (case ms_entitlements (w_storage w) u of None \<Rightarrow> Inl ErrEntitlementNotFound | Some e \<Rightarrow> Inr e)"
    "w_cache w' = NoopCache" "w_storage w' = w_storage w"
    using assms(3,4) by (auto simp: GetEntitlement_def g fetch_entitlement_def mem_GetEntitlement_def assms(1)
        split: option.splits)
qed

text \<open>Without a cache, \<open>GetQuota\<close> answers from the record.\<close>

definition quota_read :: "Config \<Rightarrow> MemState \<Rightarrow> string \<Rightarrow> string \<Rightarrow> PeriodType \<Rightarrow> Period \<Rightarrow> Usage" where
  "quota_read c s u r pt p = (case ms_usage s (mem_usageKey u r p) of
     None \<Rightarrow> zero_usage c u r (stored_tier c s u) pt p
   | Some v \<Rightarrow> with_limit c r (stored_tier c s u) pt v)"

lemma GetQuota_uncached:
  assumes "m_storage m = memory_storage" "flights_alone m" "w_cache w = NoopCache"
    and "period_for (ms_entitlements (w_storage w) u) now pt = Some p"
    and "run_state (GetQuota m now u r pt) w = (res, w')"
  shows "res = Inr (quota_read (m_config m) (w_storage w) u r pt p)
    \<and> w_cache w' = NoopCache \<and> w_storage w' = w_storage w"
proof -
  obtain e w1 where 1: "run_state (GetEntitlement m now u) w = (e, w1)" by fastforce
  have e: "tier_of (m_config m) e = stored_tier (m_config m) (w_storage w) u" "w_cache w1 = NoopCache"
    "found e = ms_entitlements (w_storage w) u" "w_storage w1 = w_storage w"
    using GetEntitlement_uncached [OF assms(1-3) 1]
    by (auto simp: tier_of_def stored_tier_def found_def split: option.splits)
  have k: "mem_usageKey u r p = usage_cache_key u r p" by (simp add: mem_usageKey_def usage_cache_key_def)
  have g: "m_usageGroup m (usage_cache_key u r p) = (\<lambda>f. f)"
    using assms(2) unfolding flights_alone_def by blast
  let ?c = "m_config m" and ?tier = "stored_tier (m_config m) (w_storage w) u"
  define w2 where "w2 = w1\<lparr>w_cache := NoopCache, w_metrics := RecordCacheMiss ''usage'' # w_metrics w1\<rparr>"
  have w2: "w_cache w2 = NoopCache" "w_storage w2 = w_storage w" using e by (simp_all add: w2_def)
  obtain f w3 where 3: "run_state (fetch_usage m now u r ?tier pt p) w2 = (f, w3)" by fastforce
  have f: "f = Inr (map_option (\<lambda>v. (v, True)) (ms_usage (w_storage w) (mem_usageKey u r p)))"
    "w_cache w3 = NoopCache" "w_storage w3 = w_storage w"
    using 3 w2 by (auto simp: fetch_usage_def Let_def assms(1) mem_GetUsage_def k split: option.splits)
  obtain q w4 where 4: "run_state (quota_result m u r ?tier pt p f) w3 = (q, w4)" by fastforce
  have q: "q = Inr (quota_read ?c (w_storage w) u r pt p)" "w_cache w4 = NoopCache" "w_storage w4 = w_storage w"
    using 4 f by (auto simp: quota_result_def Let_def quota_read_def only_if_def split: option.splits if_splits)
  have "run_state (get_quota m now u r pt) w = (q, w4)"
    using 1 3 4 e assms(4) by (simp add: get_quota_def Let_def assms(1) mgr_now_def mem_Now_def g w2_def)
  with assms(5) q show ?thesis by (auto simp: GetQuota_def)
qed

lemma buildResourceUsage_uncached:
  assumes "m_storage (h_Manager h) = memory_storage" "flights_alone (h_Manager h)" "w_cache w = NoopCache"
    and "period_for (ms_entitlements (w_storage w) u) now PeriodTypeMonthly = Some p"
    and "fst (run_state (buildResourceUsage h now u r tier ent) w) = Inr ru"
  shows "ru_Remaining ru = cq'_Remaining (calculateCombinedQuota
      (quota_read (m_config (h_Manager h)) (w_storage w) u r PeriodTypeMonthly p)
      (quota_read (m_config (h_Manager h)) (w_storage w) u r PeriodTypeForever (forever_period now)))"
proof -
  let ?m = "h_Manager h"
  obtain a w1 where 1: "run_state (GetQuota ?m now u r PeriodTypeMonthly) w = (a, w1)" by fastforce
  note a = GetQuota_uncached [OF assms(1-4) 1]
  obtain b w2 where 2: "run_state (GetQuota ?m now u r PeriodTypeForever) w1 = (b, w2)" by fastforce
  have "period_for (ms_entitlements (w_storage w1) u) now PeriodTypeForever = Some (forever_period now)"
    by (simp add: period_for_def)
  from GetQuota_uncached [OF assms(1,2) _ this 2] a
  have b: "b = Inr (quota_read (m_config ?m) (w_storage w) u r PeriodTypeForever (forever_period now))" by simp
  from a b 1 2 assms(5) show ?thesis
    by (auto simp: buildResourceUsage_def or_missing_def Let_def case_prod_unfold split: if_splits)
qed

text \<open>A resource without forever credits, recorded under the limit of the tier.\<close>

definition monthly_only :: "Config \<Rightarrow> MemState \<Rightarrow> string \<Rightarrow> string \<Rightarrow> Period \<Rightarrow> time \<Rightarrow> bool" where
  "monthly_only c s u r p now \<longleftrightarrow>
     ms_usage s (mem_usageKey u r (forever_period now)) = None
     \<and> (\<forall>tc. tier_or_default c (stored_tier c s u) = Some tc \<longrightarrow> map_of (tc_InitialForeverCredits tc) r = None)
     \<and> (\<forall>v. ms_usage s (mem_usageKey u r p) = Some v \<longrightarrow>
          u_Limit v \<le> 0 \<or> u_Limit v = getLimitForResource c r (stored_tier c s u) PeriodTypeMonthly)"

lemma monthly_only_read:
  assumes "monthly_only c s u r p now"
  shows "u_Limit (quota_read c s u r PeriodTypeMonthly p) = getLimitForResource c r (stored_tier c s u) PeriodTypeMonthly"
    and "u_Used (quota_read c s u r PeriodTypeMonthly p) = lg_used (mem_view s) (mem_usageKey u r p)"
    and "forever_balance (quota_read c s u r PeriodTypeForever (forever_period now)) = 0"
proof -
  let ?l = "getLimitForResource c r (stored_tier c s u) PeriodTypeMonthly"
  have 1: "u_Limit v \<le> 0 \<or> u_Limit v = ?l" if "ms_usage s (mem_usageKey u r p) = Some v" for v
    using assms that by (simp add: monthly_only_def)
  show "u_Limit (quota_read c s u r PeriodTypeMonthly p) = ?l"
    using 1 by (auto simp: quota_read_def zero_usage_def with_limit_def Let_def split: option.split)
  show "u_Used (quota_read c s u r PeriodTypeMonthly p) = lg_used (mem_view s) (mem_usageKey u r p)"
    by (simp add: quota_read_def zero_usage_def Let_def split: option.split)
  have 2: "ms_usage s (mem_usageKey u r (forever_period now)) = None"
    "\<And>tc. tier_or_default c (stored_tier c s u) = Some tc \<Longrightarrow> map_of (tc_InitialForeverCredits tc) r = None"
    using assms by (simp_all add: monthly_only_def)
  have 3: "getLimitForResource c r (stored_tier c s u) PeriodTypeForever = 0"
    by (simp add: getLimitForResource_def split: option.split)
  have "quota_read c s u r PeriodTypeForever (forever_period now)
    = zero_usage c u r (stored_tier c s u) PeriodTypeForever (forever_period now)"
    using 2(1) by (simp add: quota_read_def)
  moreover have "u_Limit (zero_usage c u r (stored_tier c s u) PeriodTypeForever (forever_period now)) = 0"
    using 2(2) 3 by (auto simp: zero_usage_def Let_def split: option.split)
  ultimately show "forever_balance (quota_read c s u r PeriodTypeForever (forever_period now)) = 0"
    by (simp add: forever_balance_def Let_def isub_id zero_usage_def)
qed



text \<open>A user without forever credits who is on a tier with initial ones is told that they are
  available: GetQuota reports the whole initial credit as limit with nothing used, while Consume
  refuses any amount of them and changes nothing.\<close>

theorem initial_credits_phantom:
  assumes "m_storage m = memory_storage" "flights_alone m" "w_cache w = NoopCache" "ctx_Err ctx = None" "0 < n"
    and "tier = stored_tier (m_config m) (w_storage w) u" "tier_or_default (m_config m) tier = Some tc"
    and "map_of (tc_InitialForeverCredits tc) r = Some credits" "map_of (tc_RateLimits tc) r = None"
    and "ms_usage (w_storage w) (mem_usageKey u r (forever_period now)) = None"
    and "run_state (GetQuota m now u r PeriodTypeForever) w = (q, w1)"
    and "run_state (Consume m ctx now u r n PeriodTypeForever no_options) w = (res, w2)"
  shows "(\<exists>v. q = Inr v \<and> u_Limit v = credits \<and> u_Used v = 0) \<and> res = (0, Some ErrQuotaExceeded)
    \<and> w_storage w2 = w_storage w"
proof -
  have p: "period_for (ms_entitlements (w_storage w) u) now PeriodTypeForever = Some (forever_period now)"
    by (simp add: period_for_def)
  have l: "getLimitForResource (m_config m) r tier PeriodTypeForever = 0"
    by (simp add: getLimitForResource_def split: option.split)
  have q: "q = Inr (quota_read (m_config m) (w_storage w) u r PeriodTypeForever (forever_period now))"
    using GetQuota_uncached [OF assms(1-3) p assms(11)] by simp
  have inv: "cache_inv {} {} w" by (rule cache_inv_New) (simp add: assms(3))
  have "PeriodTypeForever \<noteq> PeriodTypeAuto" "co_IdempotencyKey no_options = ''''" by (simp_all add: no_options_def)
  from Consume_explicit [OF assms(1,2) inv assms(4,5) this(1) p this(2), of 1]
  obtain w' where w': "w_storage w' = w_storage w" "run_state (Consume m ctx now u r n PeriodTypeForever no_options) w
      = run_state (consume_period m ctx now u r n PeriodTypeForever no_options tier (forever_period now)) w'"
    unfolding assms(6) Consume_def numeral_2_eq_2 by (metis One_nat_def)
  have "run_state (consume_period m ctx now u r n PeriodTypeForever no_options tier (forever_period now)) w'
    = ((0, Some ErrQuotaExceeded), w')"
    using w'(1) by (simp add: consume_period_def checkRateLimit_def assms(1,7,9,10) rate_refusal_def consume_limit_def
        mem_GetUsage_def)
  with w' assms(12) have "res = (0, Some ErrQuotaExceeded)" "w_storage w2 = w_storage w" by simp_all
  moreover have "u_Limit (zero_usage (m_config m) u r tier PeriodTypeForever (forever_period now)) = credits"
    "u_Used (zero_usage (m_config m) u r tier PeriodTypeForever (forever_period now)) = 0"
    using l by (simp_all add: zero_usage_def Let_def assms(7,8))
  ultimately show ?thesis using q by (simp add: quota_read_def assms(10) assms(6) [symmetric])
qed

section \<open>The demo\<close>

definition demo_handler :: "(MemState, MemState) Handler" where
  "demo_handler = \<lparr>h_Manager = demo_manager, h_GetUserID = api_FromHeader ''x-user'',
     h_config = \<lparr>ac_Manager = Some demo_manager, ac_GetUserID = Some (api_FromHeader ''x-user''),
       ac_ResourceFilter = Some (filter (\<lambda>r. r \<noteq> ''img'')), ac_KnownResources = [''api'', ''img'', ''doc''],
       ac_OnError = None, ac_Metrics = True\<rparr>\<rparr>"

definition demo_request :: HttpRequest where
  "demo_request = \<lparr>hr_Header = header_Set ''X-User'' ''u'' (\<lambda>_. []), hr_Err = None, hr_Values = (\<lambda>_. None), hr_Body = None\<rparr>"

definition empty_response :: "'b ResponseWriter" where
  "empty_response = \<lparr>rw_Header = (\<lambda>_. []), rw_Status = None, rw_Body = [], rw_Broken = False\<rparr>"

lemma demo_user: "h_GetUserID demo_handler demo_request = ''u''"
  by code_simp

lemma demo_reported: "reported (h_config demo_handler) = {''api'', ''doc''}"
  by (simp add: reported_def demo_handler_def discover_candidates_def)

lemma usage_report_exact_witness:
  "\<exists>R. rw_Body (fst (run_state (GetUsage demo_handler demo_now demo_request empty_response) demo_world))
      = [UsageBody \<lparr>ur_UserID = ''u'', ur_Tier = ''default'', ur_Status = ''default'', ur_Resources = R\<rparr>]
    \<and> dom R = {''api'', ''doc''}"
proof -
  have h: "h_Manager demo_handler = demo_manager" by (simp add: demo_handler_def)
  have e: "rw_Status empty_response = None" "\<not> rw_Broken empty_response" "rw_Body empty_response = []"
    by (simp_all add: empty_response_def)
  have m: "m_storage (h_Manager demo_handler) = memory_storage" "flights_alone (h_Manager demo_handler)"
    by (simp_all add: h)
  have u: "''u'' \<noteq> ''''" "length ''u'' \<le> 255" by simp_all
  from usage_report_exact [OF m demo_cache rtranclp.rtrancl_refl demo_user [symmetric] u e(1,2) demo_world_period
      surjective_pairing]
  obtain R where "rw_Body (fst (run_state (GetUsage demo_handler demo_now demo_request empty_response) demo_world))
      = [UsageBody \<lparr>ur_UserID = ''u'', ur_Tier = ''default'', ur_Status = ''default'', ur_Resources = R\<rparr>]"
    "dom R = {''api'', ''doc''}"
    unfolding e(3) demo_parts report_status_def demo_reported option.case append_Nil by metis
  then show ?thesis by blast
qed

definition uncached_world :: "(MemState, MemState) World" where
  "uncached_world = demo_world\<lparr>w_cache := NoopCache\<rparr>"

lemma uncached_parts: "w_cache uncached_world = NoopCache" "w_storage uncached_world = mem_New"
  by (simp_all add: uncached_world_def demo_parts)


lemma initial_credits_phantom_witness:
  "\<exists>v. fst (run_state (GetQuota demo_manager demo_now ''u'' ''api'' PeriodTypeForever) uncached_world) = Inr v
    \<and> u_Limit v = 5
    \<and> fst (run_state (Consume demo_manager demo_ctx demo_now ''u'' ''api'' 1 PeriodTypeForever no_options) uncached_world)
      = (0, Some ErrQuotaExceeded)"
  using initial_credits_phantom [OF demo_manager_simps(1,2) uncached_parts(1) demo_parts(3) _ refl _ _ _ _ surjective_pairing
      surjective_pairing, of 1 "''u''" demo_tier "''api''" 5 demo_now] demo_tier_of
  by (auto simp: uncached_parts demo_parts tier_or_default_def tier_lookup_def demo_config_def demo_tier_def)

end
