(* ===== verification/HttpMiddleware.thy ===== *)
theory HttpMiddleware
  imports ManagerOps WebServer
begin

text \<open>
  The \<open>net/http\<close> middleware, \<open>middleware/http/middleware.go\<close>: a request is charged before it is
  handled. An exchange is the response writer with the request, both of which handlers and
  callbacks change. The outcome says what the middleware does with the exchange: pass it to the
  next handler, answer it itself, or panic.

  A warning handler only touches the exchange, which \<open>Consume\<close> does not read, so the warnings of a
  call are delivered to it, in order, when the call has returned.

  JSON decoding is the parameter \<open>json_Unmarshal\<close> of the extractors that use it: the object of a
  body, or an error.
\<close>

type_synonym exchange = "string ResponseWriter \<times> HttpRequest"

datatype 'x outcome = Passed 'x | Stopped 'x | Panicked goerr 'x

record HttpConfig =
  hc_GetUserID :: "HttpRequest \<Rightarrow> string"
  hc_GetResource :: "HttpRequest \<Rightarrow> string"
  hc_GetAmount :: "HttpRequest \<Rightarrow> (goerr + goint) \<times> HttpRequest"
  hc_PeriodType :: PeriodType
  hc_OnQuotaExceeded :: "(exchange \<Rightarrow> Usage \<Rightarrow> exchange) option"
  hc_OnUnauthorized :: "(exchange \<Rightarrow> exchange) option"
  hc_OnError :: "(exchange \<Rightarrow> goerr \<Rightarrow> exchange) option"
  hc_OnWarning :: "(exchange \<Rightarrow> Usage \<Rightarrow> float64 \<Rightarrow> exchange) option"

section \<open>Parts shared by the middlewares\<close>

text \<open>\<open>errors.As\<close> with a \<open>*RateLimitExceededError\<close> as its target.\<close>

fun as_rate_limit :: "goerr \<Rightarrow> (RateLimitInfo option \<times> duration) option" where
  "as_rate_limit (RateLimitExceededError info retryAfter) = Some (info, retryAfter)"
| "as_rate_limit (Wrapped s e) = as_rate_limit e"
| "as_rate_limit e = None"

text \<open>The default of the period type, an empty string.\<close>

definition default_period :: "PeriodType \<Rightarrow> PeriodType" where
  "default_period pt = (if pt = PeriodTypeOther '''' then PeriodTypeMonthly else pt)"

text \<open>The error for an amount that is missing or not positive.\<close>

definition amount_error :: "goerr + goint \<Rightarrow> goerr + goint" where
  "amount_error r = (case r of
     Inl err \<Rightarrow> Inl err
   | Inr amount \<Rightarrow> if amount \<le> 0 then Inl (ErrText (''invalid amount: '' @ show_int amount)) else Inr amount)"

text \<open>The headers of a rate limited answer, in order.\<close>

definition rate_limit_headers :: "RateLimitInfo option \<Rightarrow> duration \<Rightarrow> (string \<times> string) list" where
  "rate_limit_headers info retryAfter =
     (case info of
        None \<Rightarrow> []
      | Some i \<Rightarrow> [(''X-RateLimit-Limit'', show_int (rli_Limit i)),
                   (''X-RateLimit-Remaining'', show_int (rli_Remaining i)),
                   (''X-RateLimit-Reset'', show_int (time_Unix (rli_ResetTime i)))])
     @ (if retryAfter > 0 then [(''Retry-After'', format_f0 (duration_Seconds retryAfter))] else [])"

definition get_metrics :: "('s, 't, metric list) call" where
  "get_metrics = State (\<lambda>w. (w_metrics w, w))"

text \<open>The calls of the context's warning handler among the events of a call, oldest first.\<close>

fun context_warning :: "metric \<Rightarrow> (Usage \<times> float64) option" where
  "context_warning (OnWarning False usage threshold) = Some (usage, threshold)"
| "context_warning _ = None"

definition new_warnings :: "metric list \<Rightarrow> metric list \<Rightarrow> (Usage \<times> float64) list" where
  "new_warnings before after = List.map_filter context_warning (rev (take (length after - length before) after))"

definition deliver_warnings :: "('x \<Rightarrow> Usage \<Rightarrow> float64 \<Rightarrow> 'x) \<Rightarrow> (Usage \<times> float64) list \<Rightarrow> 'x \<Rightarrow> 'x" where
  "deliver_warnings f ws x = fold (\<lambda>(usage, threshold) x. f x usage threshold) ws x"

section \<open>The middleware\<close>

definition DefaultWarningHandler :: "exchange \<Rightarrow> Usage \<Rightarrow> float64 \<Rightarrow> exchange" where
  "DefaultWarningHandler x usage threshold = (case x of (w, r) \<Rightarrow>
     (add_header ''X-Quota-Warning-Limit'' (show_int (u_Limit usage))
       (add_header ''X-Quota-Warning-Used'' (show_int (u_Used usage))
         (add_header ''X-Quota-Warning-Threshold'' (format_f2 threshold) w)), r))"

definition http_unauthorized :: "HttpConfig \<Rightarrow> exchange \<Rightarrow> exchange" where
  "http_unauthorized config x = (case hc_OnUnauthorized config of
     Some f \<Rightarrow> f x
   | None \<Rightarrow> (http_Error ''Unauthorized'' StatusUnauthorized (fst x), snd x))"

definition http_error_or :: "HttpConfig \<Rightarrow> string \<Rightarrow> goint \<Rightarrow> goerr \<Rightarrow> exchange \<Rightarrow> exchange" where
  "http_error_or config msg code err x = (case hc_OnError config of
     Some f \<Rightarrow> f x err
   | None \<Rightarrow> (http_Error msg code (fst x), snd x))"

text \<open>
  After \<open>ErrQuotaExceeded\<close>: the answer names the usage, which is a nil pointer if \<open>GetQuota\<close>
  failed.
\<close>

definition http_exceeded :: "HttpConfig \<Rightarrow> string \<Rightarrow> goerr + Usage \<Rightarrow> exchange \<Rightarrow> exchange outcome" where
  "http_exceeded config resource r x = (case r of
     Inl err \<Rightarrow> Panicked (GoPanic ''nil pointer dereference'') x
   | Inr usage \<Rightarrow> (case hc_OnQuotaExceeded config of
       Some f \<Rightarrow> Stopped (f x usage)
     | None \<Rightarrow> Stopped (http_Error (''Quota exceeded: '' @ show_int (u_Used usage) @ ''/'' @ show_int (u_Limit usage)
           @ '' '' @ resource @ '' used'') StatusTooManyRequests (fst x), snd x)))"

definition http_refused :: "('s, 't) Manager \<Rightarrow> HttpConfig \<Rightarrow> time \<Rightarrow> string \<Rightarrow> string \<Rightarrow> PeriodType \<Rightarrow> goerr
    \<Rightarrow> exchange \<Rightarrow> ('s, 't, exchange outcome) call" where
  "http_refused m config now userID resource pt err x =
     (if is_panic err then State_Monad.return (Panicked err x)
      else case as_rate_limit err of
        Some (info, retryAfter) \<Rightarrow>
          State_Monad.return (Stopped (http_Error ''Rate limit exceeded'' StatusTooManyRequests
            (fold (\<lambda>(k, v). set_header k v) (rate_limit_headers info retryAfter) (fst x)), snd x))
      | None \<Rightarrow>
          if err = ErrQuotaExceeded then do {
            usage \<leftarrow> GetQuota m now userID resource pt;
            State_Monad.return (http_exceeded config resource usage x)
          }
          else State_Monad.return (Stopped (http_error_or config ''Internal Server Error'' StatusInternalServerError err x)))"

definition request_context :: "HttpRequest \<Rightarrow> Context" where
  "request_context r = \<lparr>ctx_Err = hr_Err r, ctx_WarningHandler = False\<rparr>"

definition http_Middleware :: "('s, 't) Manager \<Rightarrow> HttpConfig \<Rightarrow> time \<Rightarrow> exchange \<Rightarrow> ('s, 't, exchange outcome) call" where
  "http_Middleware m config now x = (case x of (w, r) \<Rightarrow>
     let pt = default_period (hc_PeriodType config);
         userID = hc_GetUserID config r
     in if userID = '''' then State_Monad.return (Stopped (http_unauthorized config x))
        else
          let resource = hc_GetResource config r;
              (amount, r) = hc_GetAmount config r
          in case amount_error amount of
            Inl err \<Rightarrow> State_Monad.return (Stopped (http_error_or config ''Bad Request'' StatusBadRequest err (w, r)))
          | Inr n \<Rightarrow> do {
              before \<leftarrow> get_metrics;
              res \<leftarrow> Consume m (WithWarningHandler (request_context r)) now userID resource n pt no_options;
              after \<leftarrow> get_metrics;
              let x = deliver_warnings (case hc_OnWarning config of Some f \<Rightarrow> f | None \<Rightarrow> DefaultWarningHandler)
                (new_warnings before after) (w, r);
              case snd res of
                None \<Rightarrow> State_Monad.return (Passed x)
              | Some err \<Rightarrow> http_refused m config now userID resource pt err x
            })"

section \<open>Extractors\<close>

definition http_FixedAmount :: "goint \<Rightarrow> HttpRequest \<Rightarrow> (goerr + goint) \<times> HttpRequest" where
  "http_FixedAmount amount r = (Inr amount, r)"

text \<open>A body that was read is replaced by one with the same bytes; a failed read leaves it spent.\<close>

definition http_FromBody :: "(string \<Rightarrow> goerr + goint) \<Rightarrow> HttpRequest \<Rightarrow> (goerr + goint) \<times> HttpRequest" where
  "http_FromBody costFunc r = (case hr_Body r of
     None \<Rightarrow> (Inr 0, r)
   | Some b \<Rightarrow> (case ReadAll b of
       Inl err \<Rightarrow> (Inl err, r\<lparr>hr_Body := Some ('''', True)\<rparr>)
     | Inr body \<Rightarrow> (costFunc body, r\<lparr>hr_Body := Some (body, False)\<rparr>)))"

text \<open>The reader of the package, which \<open>BodyLength\<close> puts in place of the body.\<close>

record bytesReader =
  br_data :: string
  br_pos :: nat

definition newBytesReader :: "string \<Rightarrow> bytesReader" where
  "newBytesReader data = \<lparr>br_data = data, br_pos = 0\<rparr>"

text \<open>\<open>Read\<close> into a buffer of n bytes: the bytes copied, or \<open>None\<close> for \<open>io.EOF\<close>.\<close>

definition br_Read :: "nat \<Rightarrow> bytesReader \<Rightarrow> string option \<times> bytesReader" where
  "br_Read n br =
     (if br_pos br \<ge> length (br_data br) then (None, br)
      else let chunk = take n (drop (br_pos br) (br_data br))
           in (Some chunk, br\<lparr>br_pos := br_pos br + length chunk\<rparr>))"

definition http_BodyLength :: "HttpRequest \<Rightarrow> (goerr + goint) \<times> HttpRequest" where
  "http_BodyLength r = (case hr_Body r of
     None \<Rightarrow> (Inr 0, r)
   | Some b \<Rightarrow> (case ReadAll b of
       Inl err \<Rightarrow> (Inl err, r\<lparr>hr_Body := Some ('''', True)\<rparr>)
     | Inr body \<Rightarrow> (Inr (int (length body)), r\<lparr>hr_Body := Some (br_data (newBytesReader body), False)\<rparr>)))"

definition UserIDKey :: ctx_key where "UserIDKey = ContextKey ''quota:userID''"

definition http_FromContext :: "string \<Rightarrow> HttpRequest \<Rightarrow> string" where
  "http_FromContext key r = context_string (hr_Values r (ContextKey key))"

definition http_FromHeader :: "string \<Rightarrow> HttpRequest \<Rightarrow> string" where
  "http_FromHeader headerName r = header_Get headerName (hr_Header r)"

definition http_FixedResource :: "string \<Rightarrow> HttpRequest \<Rightarrow> string" where
  "http_FixedResource resource r = resource"

definition WithUserID :: "string \<Rightarrow> HttpRequest \<Rightarrow> HttpRequest" where
  "WithUserID userID r = r\<lparr>hr_Values := (hr_Values r)(UserIDKey := Some (CtxString userID))\<rparr>"

text \<open>The dynamic types a field of a decoded object can have.\<close>

datatype json_value = JNumber float64 | JString string | JOther string

type_synonym json_decoder = "string \<Rightarrow> goerr + (string \<Rightarrow> json_value option)"

fun json_type :: "json_value \<Rightarrow> string" where
  "json_type (JNumber x) = ''float64''"
| "json_type (JString s) = ''string''"
| "json_type (JOther t) = t"

text \<open>\<open>%q\<close>, for a text without characters to escape.\<close>

definition quoted :: "string \<Rightarrow> string" where
  "quoted s = [CHR 0x22] @ s @ [CHR 0x22]"

definition json_field :: "json_decoder \<Rightarrow> string \<Rightarrow> string \<Rightarrow> goerr + json_value" where
  "json_field json_Unmarshal field body = (case json_Unmarshal body of
     Inl err \<Rightarrow> Inl (Wrapped ''failed to parse JSON'' err)
   | Inr data \<Rightarrow> (case data field of
       None \<Rightarrow> Inl (ErrText (''field '' @ quoted field @ '' not found''))
     | Some v \<Rightarrow> Inr v))"

definition not_a :: "string \<Rightarrow> string \<Rightarrow> json_value \<Rightarrow> goerr" where
  "not_a field what v = ErrText (''field '' @ quoted field @ '' is not a '' @ what @ '': '' @ json_type v)"

definition JSONIntField :: "json_decoder \<Rightarrow> string \<Rightarrow> HttpRequest \<Rightarrow> (goerr + goint) \<times> HttpRequest" where
  "JSONIntField json_Unmarshal field = http_FromBody (\<lambda>body. case json_field json_Unmarshal field body of
     Inl err \<Rightarrow> Inl err
   | Inr (JNumber v) \<Rightarrow> Inr (f_to_int (Some v))
   | Inr v \<Rightarrow> Inl (not_a field ''number'' v))"

definition millis_to_seconds :: "float64 \<Rightarrow> goint" where
  "millis_to_seconds millis = f_to_int (map_option (\<lambda>x. of_int \<lceil>x\<rceil>) (f_div millis 1000))"

definition JSONDurationMillisToSeconds :: "json_decoder \<Rightarrow> string \<Rightarrow> HttpRequest \<Rightarrow> (goerr + goint) \<times> HttpRequest" where
  "JSONDurationMillisToSeconds json_Unmarshal field = http_FromBody (\<lambda>body. case json_field json_Unmarshal field body of
     Inl err \<Rightarrow> Inl err
   | Inr (JNumber millis) \<Rightarrow> Inr (millis_to_seconds millis)
   | Inr v \<Rightarrow> Inl (not_a field ''number'' v))"

definition JSONStringByteLength :: "json_decoder \<Rightarrow> string \<Rightarrow> HttpRequest \<Rightarrow> (goerr + goint) \<times> HttpRequest" where
  "JSONStringByteLength json_Unmarshal field = http_FromBody (\<lambda>body. case json_field json_Unmarshal field body of
     Inl err \<Rightarrow> Inl err
   | Inr (JString s) \<Rightarrow> Inr (int (length s))
   | Inr v \<Rightarrow> Inl (not_a field ''string'' v))"

end
