(* ===== verification/WebMiddleware.thy ===== *)
theory WebMiddleware
  imports HttpMiddleware
begin

text \<open>
  The middlewares for Gin, Echo and Fiber, \<open>middleware/{gin,echo,fiber}\<close>. The frameworks are not
  part of the repository: what a middleware calls of a framework's context \<open>'c\<close> is a record of
  operations, and every definition takes it as a parameter. The three packages declare the same
  configuration and the same helpers over their own context types, so these are modelled once; the
  three handlers are modelled each.

  In Gin a callback changes the context (\<open>'o = 'c\<close>), and a refused request is aborted; in Echo and
  Fiber callbacks and answers return an error (\<open>'o = goerr option \<times> 'c\<close>). Extractors read the
  context.
\<close>

section \<open>The frameworks' contexts\<close>

datatype json_text = JText string | JInt goint | JFloat float64

type_synonym json_doc = "(string \<times> json_text) list"

record 'c GinContext =
  gin_JSON :: "goint \<Rightarrow> json_doc \<Rightarrow> 'c \<Rightarrow> 'c"
  gin_Header :: "string \<Rightarrow> string \<Rightarrow> 'c \<Rightarrow> 'c"
  gin_Abort :: "'c \<Rightarrow> 'c"
  gin_Err :: "'c \<Rightarrow> goerr option"
  gin_GetHeader :: "string \<Rightarrow> 'c \<Rightarrow> string"
  gin_Get :: "string \<Rightarrow> 'c \<Rightarrow> ctx_value option"
  gin_Param :: "string \<Rightarrow> 'c \<Rightarrow> string"
  gin_Query :: "string \<Rightarrow> 'c \<Rightarrow> string"
  gin_FullPath :: "'c \<Rightarrow> string"

record 'c EchoContext =
  echo_JSON :: "goint \<Rightarrow> json_doc \<Rightarrow> 'c \<Rightarrow> goerr option \<times> 'c"
  echo_SetHeader :: "string \<Rightarrow> string \<Rightarrow> 'c \<Rightarrow> 'c"
  echo_Err :: "'c \<Rightarrow> goerr option"
  echo_GetHeader :: "string \<Rightarrow> 'c \<Rightarrow> string"
  echo_Get :: "string \<Rightarrow> 'c \<Rightarrow> ctx_value option"
  echo_Param :: "string \<Rightarrow> 'c \<Rightarrow> string"
  echo_QueryParam :: "string \<Rightarrow> 'c \<Rightarrow> string"
  echo_Path :: "'c \<Rightarrow> string"

record 'c FiberContext =
  fiber_Status :: "goint \<Rightarrow> 'c \<Rightarrow> 'c"
  fiber_JSON :: "json_doc \<Rightarrow> 'c \<Rightarrow> goerr option \<times> 'c"
  fiber_Set :: "string \<Rightarrow> string \<Rightarrow> 'c \<Rightarrow> 'c"
  fiber_Err :: "'c \<Rightarrow> goerr option"
  fiber_Get :: "string \<Rightarrow> 'c \<Rightarrow> string"
  fiber_Locals :: "string \<Rightarrow> 'c \<Rightarrow> ctx_value option"
  fiber_Params :: "string \<Rightarrow> 'c \<Rightarrow> string"
  fiber_Query :: "string \<Rightarrow> 'c \<Rightarrow> string"
  fiber_RoutePath :: "'c \<Rightarrow> string"

section \<open>Extractors\<close>

definition gin_FromContext :: "'c GinContext \<Rightarrow> string \<Rightarrow> 'c \<Rightarrow> string" where
  "gin_FromContext G key c = context_string (gin_Get G key c)"

definition echo_FromContext :: "'c EchoContext \<Rightarrow> string \<Rightarrow> 'c \<Rightarrow> string" where
  "echo_FromContext E key c = context_string (echo_Get E key c)"

definition fiber_FromContext :: "'c FiberContext \<Rightarrow> string \<Rightarrow> 'c \<Rightarrow> string" where
  "fiber_FromContext F key c = context_string (fiber_Locals F key c)"

definition gin_FromHeader :: "'c GinContext \<Rightarrow> string \<Rightarrow> 'c \<Rightarrow> string" where
  "gin_FromHeader G headerName = gin_GetHeader G headerName"

definition echo_FromHeader :: "'c EchoContext \<Rightarrow> string \<Rightarrow> 'c \<Rightarrow> string" where
  "echo_FromHeader E headerName = echo_GetHeader E headerName"

definition fiber_FromHeader :: "'c FiberContext \<Rightarrow> string \<Rightarrow> 'c \<Rightarrow> string" where
  "fiber_FromHeader F headerName = fiber_Get F headerName"

definition gin_FromParam :: "'c GinContext \<Rightarrow> string \<Rightarrow> 'c \<Rightarrow> string" where
  "gin_FromParam G paramName = gin_Param G paramName"

definition echo_FromParam :: "'c EchoContext \<Rightarrow> string \<Rightarrow> 'c \<Rightarrow> string" where
  "echo_FromParam E paramName = echo_Param E paramName"

definition fiber_FromParam :: "'c FiberContext \<Rightarrow> string \<Rightarrow> 'c \<Rightarrow> string" where
  "fiber_FromParam F paramName = fiber_Params F paramName"

definition gin_FromQuery :: "'c GinContext \<Rightarrow> string \<Rightarrow> 'c \<Rightarrow> string" where
  "gin_FromQuery G queryName = gin_Query G queryName"

definition echo_FromQuery :: "'c EchoContext \<Rightarrow> string \<Rightarrow> 'c \<Rightarrow> string" where
  "echo_FromQuery E queryName = echo_QueryParam E queryName"

definition fiber_FromQuery :: "'c FiberContext \<Rightarrow> string \<Rightarrow> 'c \<Rightarrow> string" where
  "fiber_FromQuery F queryName = fiber_Query F queryName"

definition gin_FromRoute :: "'c GinContext \<Rightarrow> 'c \<Rightarrow> string" where
  "gin_FromRoute G = gin_FullPath G"

definition echo_FromRoute :: "'c EchoContext \<Rightarrow> 'c \<Rightarrow> string" where
  "echo_FromRoute E = echo_Path E"

definition fiber_FromRoute :: "'c FiberContext \<Rightarrow> 'c \<Rightarrow> string" where
  "fiber_FromRoute F = fiber_RoutePath F"

text \<open>The idempotency key of a request.\<close>

definition gin_IdempotencyKeyFromHeader :: "'c GinContext \<Rightarrow> string \<Rightarrow> 'c \<Rightarrow> string" where
  "gin_IdempotencyKeyFromHeader G headerName = gin_GetHeader G headerName"

definition echo_IdempotencyKeyFromHeader :: "'c EchoContext \<Rightarrow> string \<Rightarrow> 'c \<Rightarrow> string" where
  "echo_IdempotencyKeyFromHeader E headerName = echo_GetHeader E headerName"

definition fiber_IdempotencyKeyFromHeader :: "'c FiberContext \<Rightarrow> string \<Rightarrow> 'c \<Rightarrow> string" where
  "fiber_IdempotencyKeyFromHeader F headerName = fiber_Get F headerName"

definition gin_IdempotencyKeyFromContext :: "'c GinContext \<Rightarrow> string \<Rightarrow> 'c \<Rightarrow> string" where
  "gin_IdempotencyKeyFromContext G key c = context_string (gin_Get G key c)"

definition echo_IdempotencyKeyFromContext :: "'c EchoContext \<Rightarrow> string \<Rightarrow> 'c \<Rightarrow> string" where
  "echo_IdempotencyKeyFromContext E key c = context_string (echo_Get E key c)"

definition fiber_IdempotencyKeyFromContext :: "'c FiberContext \<Rightarrow> string \<Rightarrow> 'c \<Rightarrow> string" where
  "fiber_IdempotencyKeyFromContext F key c = context_string (fiber_Locals F key c)"

text \<open>The same in the three packages: fixed and computed amounts, fixed resources.\<close>

definition web_FixedAmount :: "goint \<Rightarrow> 'c \<Rightarrow> goerr + goint" where
  "web_FixedAmount amount c = Inr amount"

definition web_DynamicCost :: "('c \<Rightarrow> goint) \<Rightarrow> 'c \<Rightarrow> goerr + goint" where
  "web_DynamicCost costFunc c = Inr (costFunc c)"

definition web_FixedResource :: "string \<Rightarrow> 'c \<Rightarrow> string" where
  "web_FixedResource resource c = resource"

lemmas key_from_header [simp] = gin_IdempotencyKeyFromHeader_def echo_IdempotencyKeyFromHeader_def
  fiber_IdempotencyKeyFromHeader_def

section \<open>Configuration\<close>

record ('s, 't, 'c, 'o) WebConfig =
  wc_Manager :: "('s, 't) Manager option"
  wc_GetUserID :: "('c \<Rightarrow> string) option"
  wc_GetResource :: "('c \<Rightarrow> string) option"
  wc_GetAmount :: "('c \<Rightarrow> goerr + goint) option"
  wc_GetIdempotencyKey :: "('c \<Rightarrow> string) option"
  wc_PeriodType :: PeriodType
  wc_QuotaExceededStatusCode :: goint
  wc_OnRateLimitExceeded :: "('c \<Rightarrow> duration \<Rightarrow> RateLimitInfo option \<Rightarrow> 'o) option"
  wc_OnQuotaExceeded :: "('c \<Rightarrow> Usage \<Rightarrow> 'o) option"
  wc_OnUnauthorized :: "('c \<Rightarrow> 'o) option"
  wc_OnError :: "('c \<Rightarrow> goerr \<Rightarrow> 'o) option"
  wc_OnWarning :: "('c \<Rightarrow> Usage \<Rightarrow> float64 \<Rightarrow> 'c) option"

text \<open>
  What \<open>Middleware\<close> does before it returns the handler: panic on a missing part, else the
  configuration with its defaults. \<open>pkg\<close> is the name of the package.
\<close>

definition web_required :: "string \<Rightarrow> ('s, 't, 'c, 'o) WebConfig \<Rightarrow> goerr option" where
  "web_required pkg cfg =
     (let missing = (\<lambda>field. Some (GoPanic (''goquota/'' @ pkg @ '': Config.'' @ field @ '' is required'')))
      in if wc_Manager cfg = None then missing ''Manager''
         else if wc_GetUserID cfg = None then missing ''GetUserID''
         else if wc_GetResource cfg = None then missing ''GetResource''
         else if wc_GetAmount cfg = None then missing ''GetAmount''
         else None)"

definition web_defaults :: "('c \<Rightarrow> string) \<Rightarrow> ('s, 't, 'c, 'o) WebConfig \<Rightarrow> ('s, 't, 'c, 'o) WebConfig" where
  "web_defaults request_id cfg =
     cfg\<lparr>wc_PeriodType := default_period (wc_PeriodType cfg),
         wc_QuotaExceededStatusCode := (if wc_QuotaExceededStatusCode cfg = 0 then StatusTooManyRequests
           else wc_QuotaExceededStatusCode cfg),
         wc_GetIdempotencyKey := Some (case wc_GetIdempotencyKey cfg of Some f \<Rightarrow> f | None \<Rightarrow> request_id)\<rparr>"

text \<open>A key that was found, as the option of \<open>Consume\<close>.\<close>

definition key_options :: "string \<Rightarrow> ConsumeOptions" where
  "key_options key = (if key = '''' then no_options else WithIdempotencyKey key no_options)"

definition web_context :: "goerr option \<Rightarrow> Context" where
  "web_context err = WithWarningHandler \<lparr>ctx_Err = err, ctx_WarningHandler = False\<rparr>"

section \<open>Answers and warnings\<close>

definition doc_error :: "string \<Rightarrow> json_doc" where
  "doc_error msg = [(''error'', JText msg)]"

definition doc_rate_limit :: "duration \<Rightarrow> json_doc" where
  "doc_rate_limit retryAfter =
     [(''error'', JText ''Rate limit exceeded''), (''retry_after'', JFloat (duration_Seconds retryAfter))]"

definition doc_quota :: "Usage option \<Rightarrow> json_doc" where
  "doc_quota usage = (case usage of
     Some u \<Rightarrow> [(''error'', JText ''Quota exceeded''), (''used'', JInt (u_Used u)), (''limit'', JInt (u_Limit u))]
   | None \<Rightarrow> doc_error ''Quota exceeded'')"

definition default_warning :: "(string \<Rightarrow> string \<Rightarrow> 'c \<Rightarrow> 'c) \<Rightarrow> 'c \<Rightarrow> Usage \<Rightarrow> float64 \<Rightarrow> 'c" where
  "default_warning put c usage threshold =
     put ''X-Quota-Warning-Limit'' (show_int (u_Limit usage))
       (put ''X-Quota-Warning-Used'' (show_int (u_Used usage))
         (put ''X-Quota-Warning-Threshold'' (format_f2 threshold) c))"

definition add_headers :: "(string \<Rightarrow> string \<Rightarrow> 'c \<Rightarrow> 'c) \<Rightarrow> (string \<times> string) list \<Rightarrow> 'c \<Rightarrow> 'c" where
  "add_headers put hs c = fold (\<lambda>(k, v). put k v) hs c"

text \<open>\<open>Consume\<close> with the warnings it hands to the context's handler.\<close>

definition consume_warned :: "('s, 't) Manager \<Rightarrow> Context \<Rightarrow> time \<Rightarrow> string \<Rightarrow> string \<Rightarrow> goint \<Rightarrow> PeriodType
    \<Rightarrow> ConsumeOptions \<Rightarrow> ('c \<Rightarrow> Usage \<Rightarrow> float64 \<Rightarrow> 'c) \<Rightarrow> 'c \<Rightarrow> ('s, 't, goerr option \<times> 'c) call" where
  "consume_warned m ctx now userID resource n pt opts handler c = do {
     before \<leftarrow> get_metrics;
     res \<leftarrow> Consume m ctx now userID resource n pt opts;
     after \<leftarrow> get_metrics;
     State_Monad.return (snd res, deliver_warnings handler (new_warnings before after) c)
   }"

section \<open>Gin\<close>

text \<open>The answers and the warning headers of an application that configures none.\<close>

definition gin_defaultUnauthorized :: "'c GinContext \<Rightarrow> 'c \<Rightarrow> 'c" where
  "gin_defaultUnauthorized G c = gin_JSON G StatusUnauthorized (doc_error ''Unauthorized'') c"

definition gin_defaultRateLimitExceeded :: "'c GinContext \<Rightarrow> 'c \<Rightarrow> duration \<Rightarrow> 'c" where
  "gin_defaultRateLimitExceeded G c retryAfter = gin_JSON G StatusTooManyRequests (doc_rate_limit retryAfter) c"

definition gin_defaultQuotaExceeded :: "'c GinContext \<Rightarrow> 'c \<Rightarrow> Usage option \<Rightarrow> goint \<Rightarrow> 'c" where
  "gin_defaultQuotaExceeded G c usage statusCode = gin_JSON G statusCode (doc_quota usage) c"

definition gin_defaultError :: "'c GinContext \<Rightarrow> 'c \<Rightarrow> goerr \<Rightarrow> 'c" where
  "gin_defaultError G c err = gin_JSON G StatusInternalServerError (doc_error ''Internal Server Error'') c"

definition gin_defaultWarningHandler :: "'c GinContext \<Rightarrow> 'c \<Rightarrow> Usage \<Rightarrow> float64 \<Rightarrow> 'c" where
  "gin_defaultWarningHandler G = default_warning (gin_Header G)"

lemmas gin_default_defs [simp] = gin_defaultUnauthorized_def gin_defaultRateLimitExceeded_def
  gin_defaultQuotaExceeded_def gin_defaultError_def

definition gin_refused :: "'c GinContext \<Rightarrow> ('s, 't, 'c, 'c) WebConfig \<Rightarrow> time \<Rightarrow> string \<Rightarrow> string \<Rightarrow> goerr \<Rightarrow> 'c
    \<Rightarrow> ('s, 't, 'c outcome) call" where
  "gin_refused G cfg now userID resource err c =
     (if is_panic err then State_Monad.return (Panicked err c)
      else case as_rate_limit err of
        Some (info, retryAfter) \<Rightarrow>
          (let c = add_headers (gin_Header G) (rate_limit_headers info retryAfter) c
           in State_Monad.return (Stopped (gin_Abort G (case wc_OnRateLimitExceeded cfg of
                Some f \<Rightarrow> f c retryAfter info
              | None \<Rightarrow> gin_defaultRateLimitExceeded G c retryAfter))))
      | None \<Rightarrow>
          if err = ErrQuotaExceeded then do {
            usage \<leftarrow> GetQuota (the (wc_Manager cfg)) now userID resource (wc_PeriodType cfg);
            State_Monad.return (Stopped (gin_Abort G (case (usage, wc_OnQuotaExceeded cfg) of
                (Inr u, Some f) \<Rightarrow> f c u
              | (Inr u, None) \<Rightarrow> gin_defaultQuotaExceeded G c (Some u) (wc_QuotaExceededStatusCode cfg)
              | (Inl _, _) \<Rightarrow> gin_defaultQuotaExceeded G c None (wc_QuotaExceededStatusCode cfg))))
          }
          else State_Monad.return (Stopped (gin_Abort G (case wc_OnError cfg of
              Some f \<Rightarrow> f c err
            | None \<Rightarrow> gin_defaultError G c err))))"

definition gin_handler :: "'c GinContext \<Rightarrow> ('s, 't, 'c, 'c) WebConfig \<Rightarrow> time \<Rightarrow> 'c \<Rightarrow> ('s, 't, 'c outcome) call" where
  "gin_handler G cfg now c =
     (let userID = the (wc_GetUserID cfg) c in
      if userID = '''' then State_Monad.return (Stopped (gin_Abort G (case wc_OnUnauthorized cfg of
          Some f \<Rightarrow> f c
        | None \<Rightarrow> gin_defaultUnauthorized G c)))
      else
        let resource = the (wc_GetResource cfg) c
        in case amount_error (the (wc_GetAmount cfg) c) of
          Inl err \<Rightarrow> State_Monad.return (Stopped (gin_Abort G (case wc_OnError cfg of
              Some f \<Rightarrow> f c err
            | None \<Rightarrow> gin_JSON G StatusBadRequest (doc_error ''Bad Request'') c)))
        | Inr n \<Rightarrow> do {
            (err, c) \<leftarrow> consume_warned (the (wc_Manager cfg)) (web_context (gin_Err G c)) now userID resource n
              (wc_PeriodType cfg) (key_options (the (wc_GetIdempotencyKey cfg) c))
              (case wc_OnWarning cfg of Some f \<Rightarrow> f | None \<Rightarrow> gin_defaultWarningHandler G) c;
            case err of
              None \<Rightarrow> State_Monad.return (Passed c)
            | Some err \<Rightarrow> gin_refused G cfg now userID resource err c
          })"

definition gin_Middleware :: "'c GinContext \<Rightarrow> ('s, 't, 'c, 'c) WebConfig
    \<Rightarrow> goerr + (time \<Rightarrow> 'c \<Rightarrow> ('s, 't, 'c outcome) call)" where
  "gin_Middleware G cfg = (case web_required ''gin'' cfg of
     Some err \<Rightarrow> Inl err
   | None \<Rightarrow> Inr (gin_handler G (web_defaults (gin_IdempotencyKeyFromHeader G ''X-Request-ID'') cfg)))"

section \<open>Echo\<close>

text \<open>The answers and the warning headers of an application that configures none.\<close>

definition echo_defaultUnauthorized :: "'c EchoContext \<Rightarrow> 'c \<Rightarrow> goerr option \<times> 'c" where
  "echo_defaultUnauthorized E c = echo_JSON E StatusUnauthorized (doc_error ''Unauthorized'') c"

definition echo_defaultRateLimitExceeded :: "'c EchoContext \<Rightarrow> 'c \<Rightarrow> duration \<Rightarrow> goerr option \<times> 'c" where
  "echo_defaultRateLimitExceeded E c retryAfter = echo_JSON E StatusTooManyRequests (doc_rate_limit retryAfter) c"

definition echo_defaultQuotaExceeded :: "'c EchoContext \<Rightarrow> 'c \<Rightarrow> Usage option \<Rightarrow> goint \<Rightarrow> goerr option \<times> 'c" where
  "echo_defaultQuotaExceeded E c usage statusCode = echo_JSON E statusCode (doc_quota usage) c"

definition echo_defaultError :: "'c EchoContext \<Rightarrow> 'c \<Rightarrow> goerr \<Rightarrow> goerr option \<times> 'c" where
  "echo_defaultError E c err = echo_JSON E StatusInternalServerError (doc_error ''Internal Server Error'') c"

definition echo_defaultWarningHandler :: "'c EchoContext \<Rightarrow> 'c \<Rightarrow> Usage \<Rightarrow> float64 \<Rightarrow> 'c" where
  "echo_defaultWarningHandler E = default_warning (echo_SetHeader E)"

lemmas echo_default_defs [simp] = echo_defaultUnauthorized_def echo_defaultRateLimitExceeded_def
  echo_defaultQuotaExceeded_def echo_defaultError_def

definition echo_refused :: "'c EchoContext \<Rightarrow> ('s, 't, 'c, goerr option \<times> 'c) WebConfig \<Rightarrow> time \<Rightarrow> string \<Rightarrow> string
    \<Rightarrow> goerr \<Rightarrow> 'c \<Rightarrow> ('s, 't, (goerr option \<times> 'c) outcome) call" where
  "echo_refused E cfg now userID resource err c =
     (if is_panic err then State_Monad.return (Panicked err (None, c))
      else case as_rate_limit err of
        Some (info, retryAfter) \<Rightarrow>
          (let c = add_headers (echo_SetHeader E) (rate_limit_headers info retryAfter) c
           in State_Monad.return (Stopped (case wc_OnRateLimitExceeded cfg of
                Some f \<Rightarrow> f c retryAfter info
              | None \<Rightarrow> echo_defaultRateLimitExceeded E c retryAfter)))
      | None \<Rightarrow>
          if err = ErrQuotaExceeded then do {
            usage \<leftarrow> GetQuota (the (wc_Manager cfg)) now userID resource (wc_PeriodType cfg);
            State_Monad.return (Stopped (case (usage, wc_OnQuotaExceeded cfg) of
                (Inr u, Some f) \<Rightarrow> f c u
              | (Inr u, None) \<Rightarrow> echo_defaultQuotaExceeded E c (Some u) (wc_QuotaExceededStatusCode cfg)
              | (Inl _, _) \<Rightarrow> echo_defaultQuotaExceeded E c None (wc_QuotaExceededStatusCode cfg)))
          }
          else State_Monad.return (Stopped (case wc_OnError cfg of
              Some f \<Rightarrow> f c err
            | None \<Rightarrow> echo_defaultError E c err)))"

definition echo_handler :: "'c EchoContext \<Rightarrow> ('s, 't, 'c, goerr option \<times> 'c) WebConfig \<Rightarrow> time \<Rightarrow> 'c
    \<Rightarrow> ('s, 't, (goerr option \<times> 'c) outcome) call" where
  "echo_handler E cfg now c =
     (let userID = the (wc_GetUserID cfg) c in
      if userID = '''' then State_Monad.return (Stopped (case wc_OnUnauthorized cfg of
          Some f \<Rightarrow> f c
        | None \<Rightarrow> echo_defaultUnauthorized E c))
      else
        let resource = the (wc_GetResource cfg) c
        in case amount_error (the (wc_GetAmount cfg) c) of
          Inl err \<Rightarrow> State_Monad.return (Stopped (case wc_OnError cfg of
              Some f \<Rightarrow> f c err
            | None \<Rightarrow> echo_JSON E StatusBadRequest (doc_error ''Bad Request'') c))
        | Inr n \<Rightarrow> do {
            (err, c) \<leftarrow> consume_warned (the (wc_Manager cfg)) (web_context (echo_Err E c)) now userID resource n
              (wc_PeriodType cfg) (key_options (the (wc_GetIdempotencyKey cfg) c))
              (case wc_OnWarning cfg of Some f \<Rightarrow> f | None \<Rightarrow> echo_defaultWarningHandler E) c;
            case err of
              None \<Rightarrow> State_Monad.return (Passed (None, c))
            | Some err \<Rightarrow> echo_refused E cfg now userID resource err c
          })"

definition echo_Middleware :: "'c EchoContext \<Rightarrow> ('s, 't, 'c, goerr option \<times> 'c) WebConfig
    \<Rightarrow> goerr + (time \<Rightarrow> 'c \<Rightarrow> ('s, 't, (goerr option \<times> 'c) outcome) call)" where
  "echo_Middleware E cfg = (case web_required ''echo'' cfg of
     Some err \<Rightarrow> Inl err
   | None \<Rightarrow> Inr (echo_handler E (web_defaults (echo_IdempotencyKeyFromHeader E ''X-Request-ID'') cfg)))"

section \<open>Fiber\<close>

text \<open>\<open>c.Status(code).JSON(doc)\<close>\<close>

definition fiber_answer :: "'c FiberContext \<Rightarrow> goint \<Rightarrow> json_doc \<Rightarrow> 'c \<Rightarrow> goerr option \<times> 'c" where
  "fiber_answer F code doc c = fiber_JSON F doc (fiber_Status F code c)"

text \<open>The answers and the warning headers of an application that configures none.\<close>

definition fiber_defaultUnauthorized :: "'c FiberContext \<Rightarrow> 'c \<Rightarrow> goerr option \<times> 'c" where
  "fiber_defaultUnauthorized F c = fiber_answer F StatusUnauthorized (doc_error ''Unauthorized'') c"

definition fiber_defaultRateLimitExceeded :: "'c FiberContext \<Rightarrow> 'c \<Rightarrow> duration \<Rightarrow> goerr option \<times> 'c" where
  "fiber_defaultRateLimitExceeded F c retryAfter = fiber_answer F StatusTooManyRequests (doc_rate_limit retryAfter) c"

definition fiber_defaultQuotaExceeded :: "'c FiberContext \<Rightarrow> 'c \<Rightarrow> Usage option \<Rightarrow> goint \<Rightarrow> goerr option \<times> 'c" where
  "fiber_defaultQuotaExceeded F c usage statusCode = fiber_answer F statusCode (doc_quota usage) c"

definition fiber_defaultError :: "'c FiberContext \<Rightarrow> 'c \<Rightarrow> goerr \<Rightarrow> goerr option \<times> 'c" where
  "fiber_defaultError F c err = fiber_answer F StatusInternalServerError (doc_error ''Internal Server Error'') c"

definition fiber_defaultWarningHandler :: "'c FiberContext \<Rightarrow> 'c \<Rightarrow> Usage \<Rightarrow> float64 \<Rightarrow> 'c" where
  "fiber_defaultWarningHandler F = default_warning (fiber_Set F)"

lemmas fiber_default_defs [simp] = fiber_defaultUnauthorized_def fiber_defaultRateLimitExceeded_def
  fiber_defaultQuotaExceeded_def fiber_defaultError_def

definition fiber_refused :: "'c FiberContext \<Rightarrow> ('s, 't, 'c, goerr option \<times> 'c) WebConfig \<Rightarrow> time \<Rightarrow> string \<Rightarrow> string
    \<Rightarrow> goerr \<Rightarrow> 'c \<Rightarrow> ('s, 't, (goerr option \<times> 'c) outcome) call" where
  "fiber_refused F cfg now userID resource err c =
     (if is_panic err then State_Monad.return (Panicked err (None, c))
      else case as_rate_limit err of
        Some (info, retryAfter) \<Rightarrow>
          (let c = add_headers (fiber_Set F) (rate_limit_headers info retryAfter) c
           in State_Monad.return (Stopped (case wc_OnRateLimitExceeded cfg of
                Some f \<Rightarrow> f c retryAfter info
              | None \<Rightarrow> fiber_defaultRateLimitExceeded F c retryAfter)))
      | None \<Rightarrow>
          if err = ErrQuotaExceeded then do {
            usage \<leftarrow> GetQuota (the (wc_Manager cfg)) now userID resource (wc_PeriodType cfg);
            State_Monad.return (Stopped (case (usage, wc_OnQuotaExceeded cfg) of
                (Inr u, Some f) \<Rightarrow> f c u
              | (Inr u, None) \<Rightarrow> fiber_defaultQuotaExceeded F c (Some u) (wc_QuotaExceededStatusCode cfg)
              | (Inl _, _) \<Rightarrow> fiber_defaultQuotaExceeded F c None (wc_QuotaExceededStatusCode cfg)))
          }
          else State_Monad.return (Stopped (case wc_OnError cfg of
              Some f \<Rightarrow> f c err
            | None \<Rightarrow> fiber_defaultError F c err)))"

definition fiber_handler :: "'c FiberContext \<Rightarrow> ('s, 't, 'c, goerr option \<times> 'c) WebConfig \<Rightarrow> time \<Rightarrow> 'c
    \<Rightarrow> ('s, 't, (goerr option \<times> 'c) outcome) call" where
  "fiber_handler F cfg now c =
     (let userID = the (wc_GetUserID cfg) c in
      if userID = '''' then State_Monad.return (Stopped (case wc_OnUnauthorized cfg of
          Some f \<Rightarrow> f c
        | None \<Rightarrow> fiber_defaultUnauthorized F c))
      else
        let resource = the (wc_GetResource cfg) c
        in case amount_error (the (wc_GetAmount cfg) c) of
          Inl err \<Rightarrow> State_Monad.return (Stopped (case wc_OnError cfg of
              Some f \<Rightarrow> f c err
            | None \<Rightarrow> fiber_answer F StatusBadRequest (doc_error ''Bad Request'') c))
        | Inr n \<Rightarrow> do {
            (err, c) \<leftarrow> consume_warned (the (wc_Manager cfg)) (web_context (fiber_Err F c)) now userID resource n
              (wc_PeriodType cfg) (key_options (the (wc_GetIdempotencyKey cfg) c))
              (case wc_OnWarning cfg of Some f \<Rightarrow> f | None \<Rightarrow> fiber_defaultWarningHandler F) c;
            case err of
              None \<Rightarrow> State_Monad.return (Passed (None, c))
            | Some err \<Rightarrow> fiber_refused F cfg now userID resource err c
          })"

definition fiber_Middleware :: "'c FiberContext \<Rightarrow> ('s, 't, 'c, goerr option \<times> 'c) WebConfig
    \<Rightarrow> goerr + (time \<Rightarrow> 'c \<Rightarrow> ('s, 't, (goerr option \<times> 'c) outcome) call)" where
  "fiber_Middleware F cfg = (case web_required ''fiber'' cfg of
     Some err \<Rightarrow> Inl err
   | None \<Rightarrow> Inr (fiber_handler F (web_defaults (fiber_IdempotencyKeyFromHeader F ''X-Request-ID'') cfg)))"

end
