(* ===== verification/MiddlewareProps.thy ===== *)
theory MiddlewareProps
  imports ManagerDemo WebMiddleware
begin

text \<open>
  The middlewares over a manager with the in-memory storage: which requests are charged, what a
  repeated request id does, the panic of the \<open>net/http\<close> middleware, and that the three framework
  middlewares behave alike.
\<close>

context quota_backend
begin

lemma keeps_GetQuota [keeps_intros]:
  assumes "m_storage m = st" "flights_alone m"
  shows "keeps (GetQuota m now u r pt)"
proof -
  have "keeps (fetch_usage m now u r tier pt p)" for tier p
    unfolding fetch_usage_def Let_def fallback_usage_def assms(1)
    by (auto split: sum.split option.split intro!: keeps_intros)
  moreover have "keeps (quota_result m u r tier pt p x)" for tier p x
    unfolding quota_result_def Let_def by (auto split: sum.split option.split intro!: keeps_intros)
  ultimately show ?thesis
    unfolding GetQuota_def get_quota_def Let_def
    by (auto simp: assms split: option.split intro!: keeps_intros)
qed

lemma keeps_get_metrics [keeps_intros]: "keeps get_metrics"
  by (simp add: keeps_def get_metrics_def)

lemma keeps_http_refused:
  assumes "m_storage m = st" "flights_alone m"
  shows "keeps (http_refused m config now u r pt err x)"
  unfolding http_refused_def by (auto simp: assms split: option.split intro!: keeps_intros)

lemma keeps_gin_refused:
  assumes "m_storage (the (wc_Manager cfg)) = st" "flights_alone (the (wc_Manager cfg))"
  shows "keeps (gin_refused G cfg now u r err c)"
  unfolding gin_refused_def by (auto simp: assms Let_def split: option.split intro!: keeps_intros)

end

lemma run_get_metrics [simp]: "run_state get_metrics w = (w_metrics w, w)"
  by (simp add: get_metrics_def)

section \<open>The net/http middleware\<close>

lemma http_refused_stops: "fst (run_state (http_refused m config now u r pt err x) w) \<noteq> Passed y"
  by (auto simp: http_refused_def http_exceeded_def case_prod_unfold split: option.split sum.split)

text \<open>C9: A request is handled exactly if it is paid for. A request that the middleware passes on was
  charged: for the user, the resource and the positive amount extracted from it, one usage record
  grew by that amount, within its limit, and nothing else changed. A request the middleware answers
  itself, or panics on, leaves usage, limits and idempotency records as they were.\<close>

theorem http_charged_iff_passed:
  assumes "m_storage m = memory_storage" "flights_alone m"
    and "run_state (http_Middleware m config now (wr, r)) w = (out, w')"
  shows "case out of
      Passed y \<Rightarrow> \<exists>n used. fst (hc_GetAmount config r) = Inr n \<and> 0 < n \<and> hc_GetUserID config r \<noteq> ''''
        \<and> charged (m_config m) (hc_GetUserID config r) (hc_GetResource config r) n
            (default_period (hc_PeriodType config)) (mem_view (w_storage w)) used (mem_view (w_storage w'))
    | _ \<Rightarrow> mem_view (w_storage w') = mem_view (w_storage w)"
proof -
  let ?u = "hc_GetUserID config r" and ?res = "hc_GetResource config r" and ?pt = "default_period (hc_PeriodType config)"
  obtain a r' where a: "hc_GetAmount config r = (a, r')" by fastforce
  show ?thesis
  proof (cases "?u = '''' \<or> (\<exists>err. amount_error a = Inl err)")
    case True
    then show ?thesis using assms(3) a by (auto simp: http_Middleware_def Let_def split: if_splits)
  next
    case False
    then obtain n where n: "amount_error a = Inr n" "?u \<noteq> ''''" by (cases "amount_error a") auto
    then have pos: "a = Inr n" "0 < n" by (auto simp: amount_error_def split: sum.splits if_splits)
    let ?ctx = "WithWarningHandler (request_context r')"
    obtain used e w1 where 1: "run_state (Consume m ?ctx now ?u ?res n ?pt no_options) w = ((used, e), w1)"
      by (metis prod.collapse)
    note eff = memory.Consume_effect [OF assms(1,2) 1]
    define x where "x = deliver_warnings (case hc_OnWarning config of Some f \<Rightarrow> f | None \<Rightarrow> DefaultWarningHandler)
      (new_warnings (w_metrics w) (w_metrics w1)) (wr, r')"
    have opts: "\<not> co_DryRun no_options" "co_IdempotencyKey no_options = ''''" by (simp_all add: no_options_def)
    show ?thesis
    proof (cases e)
      case None
      then have "out = Passed x" "w' = w1"
        using assms(3) a n 1 by (auto simp: http_Middleware_def Let_def x_def)
      with effect_charged(1) [OF eff [unfolded None] pos(2) opts(1)] n a pos opts(2) show ?thesis
        by (auto simp: keyed_def)
    next
      case (Some err)
      then have run: "run_state (http_refused m config now ?u ?res ?pt err x) w1 = (out, w')"
        using assms(3) a n 1 by (simp add: http_Middleware_def Let_def x_def)
      have "mem_view (w_storage w1) = mem_view (w_storage w)"
        using eff Some by (auto simp: memory.consume_effect_def split: if_splits)
      with memory.keepsD [OF memory.keeps_http_refused [OF assms(1,2)] run]
        http_refused_stops [of m config now ?u ?res ?pt err x w1] run
      show ?thesis by (cases out) auto
    qed
  qed
qed

text \<open>With the cascading period type the middleware panics whenever the quota is exhausted: GetQuota
  does not accept that type, so the usage of the answer is a nil pointer.\<close>

theorem http_auto_panics:
  assumes "hc_PeriodType config = PeriodTypeAuto" "hc_GetUserID config r \<noteq> ''''"
    and "hc_GetAmount config r = (Inr n, r')" "0 < n"
    and "snd (fst (run_state (Consume m (WithWarningHandler (request_context r')) now (hc_GetUserID config r)
      (hc_GetResource config r) n PeriodTypeAuto no_options) w)) = Some ErrQuotaExceeded"
  shows "\<exists>y. fst (run_state (http_Middleware m config now (wr, r)) w) = Panicked (GoPanic ''nil pointer dereference'') y"
proof -
  let ?u = "hc_GetUserID config r" and ?res = "hc_GetResource config r"
  obtain used w1 where 1: "run_state (Consume m (WithWarningHandler (request_context r')) now ?u ?res n PeriodTypeAuto
      no_options) w = ((used, Some ErrQuotaExceeded), w1)"
    using assms(5) by (metis prod.collapse)
  have quota: "fst (run_state (GetQuota m now ?u ?res PeriodTypeAuto) v) = Inl ErrInvalidPeriod" for v
    by (simp add: GetQuota_def get_quota_def period_for_def Let_def case_prod_unfold)
  have "amount_error (Inr n) = Inr n" using assms(4) by (simp add: amount_error_def)
  then show ?thesis
    using assms(1-3) 1 quota
    by (simp add: http_Middleware_def Let_def default_period_def http_refused_def http_exceeded_def case_prod_unfold)
qed


text \<open>A duration field in whole milliseconds, up to 1114 years, is charged as its seconds rounded up: the
  division by 1000 in floating point never loses or adds a second.\<close>

theorem millis_rounds_up:
  assumes "0 \<le> n" "n < 2 ^ 45"
  shows "millis_to_seconds (f_of_int n) = (n + 999) div 1000"
proof -
  let ?x = "rat_of_int n / 1000"
  define k where "k = n div 1000"
  have k: "0 \<le> k" "k < 2 ^ 36" using assms by (simp_all add: k_def pos_imp_zdiv_nonneg_iff)
  have n: "f_of_int n = of_int n" using assms by (simp add: f_of_int_def fl_of_int)
  have ceil: "\<lceil>fl ?x\<rceil> = (n + 999) div 1000"
  proof (cases "n mod 1000 = 0")
    case True
    then have m: "n = 1000 * k" using mult_div_mod_eq [of 1000 n] by (simp add: k_def)
    have q: "(n + 999) div 1000 = k" by (rule int_div_pos_eq [of _ _ _ 999]) (simp_all add: m)
    have "\<bar>k\<bar> \<le> 2 ^ 53" using k by simp
    moreover have "?x = of_int k" unfolding m by simp
    ultimately have "fl ?x = of_int k" using fl_of_int by metis
    then show ?thesis using q by simp
  next
    case False
    define r where "r = n mod 1000"
    have m: "n = 1000 * k + r" "1 \<le> r" "r < 1000"
      using False mult_div_mod_eq [of 1000 n] pos_mod_bound [of 1000 n] pos_mod_sign [of 1000 n]
      by (simp_all add: k_def r_def)
    then have "rat_of_int n = 1000 * of_int k + of_int r" "1 \<le> rat_of_int r" "rat_of_int r < 1000" by simp_all
    then have x: "of_int k + 1 / 1000 \<le> ?x" "?x \<le> of_int (k + 1)" by (simp_all add: field_simps)
    have q: "(n + 999) div 1000 = k + 1" by (rule int_div_pos_eq [of _ _ _ "r - 1"]) (use m in simp_all)
    have "fl ?x \<le> fl (of_int (k + 1))" using x(2) by (rule fl_mono)
    then have upper: "fl ?x \<le> of_int (k + 1)" using fl_of_int [of "k + 1"] k by simp
    have "rat_of_int (k + 1) \<le> rat_of_int (2 ^ 36)" "0 \<le> rat_of_int k" using k by simp_all
    then have "?x \<le> 2 ^ 36" "0 < ?x" using x by simp_all
    with fl_error [of ?x 36] have "\<bar>fl ?x - ?x\<bar> \<le> 2 powi (int 36 - 53)" by blast
    moreover have "(2::rat) powi (int 36 - 53) = 1 / 131072" by (simp add: power_int_def power_divide)
    ultimately have "?x - 1 / 131072 \<le> fl ?x" by linarith
    then have "of_int k < fl ?x" using x(1) by simp
    with upper show ?thesis unfolding q by (intro ceiling_unique) simp_all
  qed
  have "rat_trunc (of_int ((n + 999) div 1000)) = (n + 999) div 1000" for n by (simp add: rat_trunc_def)
  moreover have "int64_ok ((n + 999) div 1000)" using assms by (simp add: int64_ok_def) linarith
  ultimately show ?thesis
    by (simp add: millis_to_seconds_def f_div_def n ceil f_to_int_def)
qed

section \<open>The framework middlewares\<close>

text \<open>The part of a handler after the extraction: one charge and its consequences.\<close>

lemma run_consume_warned:
  assumes "run_state (Consume m ctx now u r n pt opts) w = ((used, e), w1)"
  shows "run_state (consume_warned m ctx now u r n pt opts f c) w
    = ((e, deliver_warnings f (new_warnings (w_metrics w) (w_metrics w1)) c), w1)"
  using assms by (simp add: consume_warned_def)

lemma gin_refused_stops: "fst (run_state (gin_refused G cfg now u r err c) w) \<noteq> Passed y"
  by (auto simp: gin_refused_def case_prod_unfold Let_def split: option.split sum.split)

lemma key_options_simps [simp]:
  "\<not> co_DryRun (key_options k)" "co_IdempotencyKey (key_options k) = k"
  by (simp_all add: key_options_def no_options_def WithIdempotencyKey_def)

text \<open>C10: The same for the handlers of the frameworks, stated for Gin: a request that is passed on was either
  charged, or carried an idempotency key the storage already knows; every other request leaves the
  records as they were.\<close>

theorem gin_charged_iff_passed:
  assumes "wc_Manager cfg = Some m" "wc_GetUserID cfg = Some getUserID" "wc_GetResource cfg = Some getResource"
    and "wc_GetAmount cfg = Some getAmount" "wc_GetIdempotencyKey cfg = Some getKey"
    and "m_storage m = memory_storage" "flights_alone m"
    and "run_state (gin_handler G cfg now c) w = (out, w')"
  shows "case out of
      Passed y \<Rightarrow> \<exists>n used. getAmount c = Inr n \<and> 0 < n \<and> getUserID c \<noteq> ''''
        \<and> ((getKey c = '''' \<or> ms_consumptions (w_storage w) (getKey c) = None) \<longrightarrow>
            charged (m_config m) (getUserID c) (getResource c) n (wc_PeriodType cfg)
              (mem_view (w_storage w)) used (mem_view (w_storage w')))
    | _ \<Rightarrow> mem_view (w_storage w') = mem_view (w_storage w)"
proof -
  let ?u = "getUserID c" and ?res = "getResource c" and ?pt = "wc_PeriodType cfg" and ?opts = "key_options (getKey c)"
  note cfg = assms(1-5)
  show ?thesis
  proof (cases "?u = '''' \<or> (\<exists>err. amount_error (getAmount c) = Inl err)")
    case True
    then show ?thesis using assms(8) by (auto simp: gin_handler_def Let_def cfg split: if_splits)
  next
    case False
    then obtain n where n: "amount_error (getAmount c) = Inr n" "?u \<noteq> ''''" by (cases "amount_error (getAmount c)") auto
    then have pos: "getAmount c = Inr n" "0 < n" by (auto simp: amount_error_def split: sum.splits if_splits)
    obtain used e w1 where 1: "run_state (Consume m (web_context (gin_Err G c)) now ?u ?res n ?pt ?opts) w = ((used, e), w1)"
      by (metis prod.collapse)
    note eff = memory.Consume_effect [OF assms(6,7) 1]
    note cw = run_consume_warned [OF 1, of "case wc_OnWarning cfg of Some f \<Rightarrow> f | None \<Rightarrow> gin_defaultWarningHandler G" c]
    show ?thesis
    proof (cases e)
      case None
      then have "\<exists>y. out = Passed y" "w' = w1"
        using assms(8) n cw by (auto simp: gin_handler_def Let_def cfg)
      moreover have "charged (m_config m) ?u ?res n ?pt (mem_view (w_storage w)) used (mem_view (w_storage w1))"
        if "getKey c = '''' \<or> ms_consumptions (w_storage w) (getKey c) = None"
        using effect_charged(1) [OF eff [unfolded None] pos(2)] that by (auto simp: keyed_def)
      ultimately show ?thesis using n pos by (auto intro!: exI [of _ used])
    next
      case (Some err)
      then obtain c' where run: "run_state (gin_refused G cfg now ?u ?res err c') w1 = (out, w')"
        using assms(8) n cw by (auto simp: gin_handler_def Let_def cfg)
      have "mem_view (w_storage w1) = mem_view (w_storage w)"
        using eff Some by (auto simp: memory.consume_effect_def split: if_splits)
      moreover have "m_storage (the (wc_Manager cfg)) = memory_storage" "flights_alone (the (wc_Manager cfg))"
        using assms(6,7) by (simp_all add: cfg)
      from memory.keepsD [OF memory.keeps_gin_refused [OF this] run]
      have "mem_view (w_storage w') = mem_view (w_storage w1)" .
      ultimately show ?thesis
        using gin_refused_stops [of G cfg now ?u ?res err c' w1] run by (cases out) auto
    qed
  qed
qed

text \<open>A request that repeats the idempotency key of an accepted one is passed on without being charged,
  for any resource, amount and user, and as often as it is repeated; by default the key is whatever
  the client sends as X-Request-ID.\<close>

theorem repeated_request_free:
  assumes "wc_Manager cfg = Some m" "wc_GetUserID cfg = Some getUserID" "wc_GetResource cfg = Some getResource"
    and "wc_GetAmount cfg = Some getAmount" "wc_GetIdempotencyKey cfg = None"
    and "gin_Middleware G cfg = Inr handler" "m_storage m = memory_storage" "flights_alone m"
    and "run_state (handler now c) w = (Passed y, w1)" "gin_GetHeader G ''X-Request-ID'' c \<noteq> ''''"
    and "w_storage w2 = w_storage w1" "getUserID c' \<noteq> ''''" "getAmount c' = Inr n'" "0 < n'" "gin_Err G c' = None"
    and "gin_GetHeader G ''X-Request-ID'' c' = gin_GetHeader G ''X-Request-ID'' c"
  shows "\<exists>y' w'. run_state (handler now' c') w2 = (Passed y', w') \<and> w_storage w' = w_storage w2"
proof -
  let ?cfg = "web_defaults (gin_GetHeader G ''X-Request-ID'') cfg" and ?k = "gin_GetHeader G ''X-Request-ID''"
  have cfg: "wc_Manager ?cfg = Some m" "wc_GetUserID ?cfg = Some getUserID" "wc_GetResource ?cfg = Some getResource"
    "wc_GetAmount ?cfg = Some getAmount" "wc_GetIdempotencyKey ?cfg = Some ?k"
    using assms(1-5) by (simp_all add: web_defaults_def)
  have h: "handler = gin_handler G ?cfg"
    using assms(6) by (auto simp: gin_Middleware_def split: option.splits)
  have n: "getUserID c \<noteq> ''''" "\<exists>n. amount_error (getAmount c) = Inr n"
    using assms(9) by (auto simp: h gin_handler_def Let_def cfg split: if_splits sum.splits)
  then obtain n where n: "getUserID c \<noteq> ''''" "amount_error (getAmount c) = Inr n" by blast
  then have pos: "0 < n" by (auto simp: amount_error_def split: sum.splits if_splits)
  obtain used e w3 where 1: "run_state (Consume m (web_context (gin_Err G c)) now (getUserID c) (getResource c) n
      (wc_PeriodType ?cfg) (key_options (?k c))) w = ((used, e), w3)"
    by (metis prod.collapse)
  let ?f = "case wc_OnWarning ?cfg of Some f \<Rightarrow> f | None \<Rightarrow> gin_defaultWarningHandler G"
  have "e = None \<and> w3 = w1"
  proof (cases e)
    case None
    then show ?thesis
      using assms(9) n run_consume_warned [OF 1, of ?f c] by (auto simp: h gin_handler_def Let_def cfg)
  next
    case (Some err)
    then obtain x where "run_state (gin_refused G ?cfg now (getUserID c) (getResource c) err x) w3 = (Passed y, w1)"
      using assms(9) n run_consume_warned [OF 1, of ?f c] by (auto simp: h gin_handler_def Let_def cfg)
    then show ?thesis using gin_refused_stops by (metis fst_conv)
  qed
  then have "e = None" "w3 = w1" by simp_all
  from consumption_recorded [OF assms(7,8) 1 [unfolded this] pos] assms(10,11)
  obtain rec where rec: "ms_consumptions (w_storage w2) (?k c') = Some rec" by (auto simp: assms(16))
  have "ctx_Err (web_context (gin_Err G c')) = None"
    using assms(15) by (simp add: web_context_def WithWarningHandler_def)
  from Consume_replayed [OF assms(7), of w2 "key_options (?k c')" rec, OF _ _ this assms(14)] rec assms(10,16)
  have "run_state (Consume m (web_context (gin_Err G c')) now' (getUserID c') (getResource c') n'
      (wc_PeriodType ?cfg) (key_options (?k c'))) w2
    = ((cn_NewUsed rec, None), w2\<lparr>w_metrics := RecordIdempotencyHit ''consume'' # w_metrics w2\<rparr>)" by simp
  from run_consume_warned [OF this, of ?f c'] assms(12-14) show ?thesis
    by (simp add: h gin_handler_def Let_def cfg amount_error_def)
qed


definition gin_of_echo :: "'c EchoContext \<Rightarrow> 'c GinContext" where
  "gin_of_echo E = \<lparr>gin_JSON = (\<lambda>code doc c. snd (echo_JSON E code doc c)), gin_Header = echo_SetHeader E,
     gin_Abort = (\<lambda>c. c), gin_Err = echo_Err E, gin_GetHeader = echo_GetHeader E, gin_Get = echo_Get E,
     gin_Param = echo_Param E, gin_Query = echo_QueryParam E, gin_FullPath = echo_Path E\<rparr>"

definition echo_of_fiber :: "'c FiberContext \<Rightarrow> 'c EchoContext" where
  "echo_of_fiber F = \<lparr>echo_JSON = fiber_answer F, echo_SetHeader = fiber_Set F, echo_Err = fiber_Err F,
     echo_GetHeader = fiber_Get F, echo_Get = fiber_Locals F,
     echo_Param = fiber_Params F, echo_QueryParam = fiber_Query F, echo_Path = fiber_RoutePath F\<rparr>"

text \<open>The configuration for Gin whose callbacks drop the errors that Echo's return.\<close>

definition gin_config :: "('s, 't, 'c, goerr option \<times> 'c) WebConfig \<Rightarrow> ('s, 't, 'c, 'c) WebConfig" where
  "gin_config cfg = \<lparr>wc_Manager = wc_Manager cfg, wc_GetUserID = wc_GetUserID cfg, wc_GetResource = wc_GetResource cfg,
     wc_GetAmount = wc_GetAmount cfg, wc_GetIdempotencyKey = wc_GetIdempotencyKey cfg,
     wc_PeriodType = wc_PeriodType cfg, wc_QuotaExceededStatusCode = wc_QuotaExceededStatusCode cfg,
     wc_OnRateLimitExceeded = map_option (\<lambda>f c d i. snd (f c d i)) (wc_OnRateLimitExceeded cfg),
     wc_OnQuotaExceeded = map_option (\<lambda>f c u. snd (f c u)) (wc_OnQuotaExceeded cfg),
     wc_OnUnauthorized = map_option (\<lambda>f c. snd (f c)) (wc_OnUnauthorized cfg),
     wc_OnError = map_option (\<lambda>f c e. snd (f c e)) (wc_OnError cfg), wc_OnWarning = wc_OnWarning cfg\<rparr>"

lemmas gin_echo_defs = gin_of_echo_def gin_config_def

definition map_call :: "('a \<Rightarrow> 'b) \<Rightarrow> ('s, 't, 'a) call \<Rightarrow> ('s, 't, 'b) call" where
  "map_call f c = do { x \<leftarrow> c; State_Monad.return (f x) }"

lemma run_map_call: "run_state (map_call f c) w = (f (fst (run_state c w)), snd (run_state c w))"
  by (simp add: map_call_def case_prod_unfold)

lemma gin_echo_refused:
  "run_state (gin_refused (gin_of_echo E) (gin_config cfg) now u r err c) w
    = run_state (map_call (map_outcome snd) (echo_refused E cfg now u r err c)) w"
  by (simp add: gin_refused_def echo_refused_def run_map_call gin_echo_defs Let_def case_prod_unfold
      split: option.split sum.split)

text \<open>C17: The three framework middlewares are the same program: over Echo's operations the Gin handler does
  what Echo's does but for the returned errors, and Fiber's is Echo's over Fiber's operations.\<close>

theorem web_middlewares_agree:
  "gin_handler (gin_of_echo E) (gin_config cfg) now c = map_call (map_outcome snd) (echo_handler E cfg now c)
    \<and> fiber_handler F cfg now c = echo_handler (echo_of_fiber F) cfg now c"
proof
  have "run_state (gin_handler (gin_of_echo E) (gin_config cfg) now c) w
    = run_state (map_call (map_outcome snd) (echo_handler E cfg now c)) w" for w
  proof (cases "the (wc_GetUserID cfg) c = '''' \<or> (\<exists>err. amount_error (the (wc_GetAmount cfg) c) = Inl err)")
    case True
    then show ?thesis
      by (auto simp: gin_handler_def echo_handler_def Let_def run_map_call gin_echo_defs split: option.split)
  next
    case False
    then obtain n where n: "the (wc_GetUserID cfg) c \<noteq> ''''" "amount_error (the (wc_GetAmount cfg) c) = Inr n"
      by (cases "amount_error (the (wc_GetAmount cfg) c)") auto
    have same: "wc_GetUserID (gin_config cfg) = wc_GetUserID cfg" "wc_GetResource (gin_config cfg) = wc_GetResource cfg"
      "wc_GetAmount (gin_config cfg) = wc_GetAmount cfg" "wc_Manager (gin_config cfg) = wc_Manager cfg"
      "wc_GetIdempotencyKey (gin_config cfg) = wc_GetIdempotencyKey cfg" "wc_OnWarning (gin_config cfg) = wc_OnWarning cfg"
      "wc_PeriodType (gin_config cfg) = wc_PeriodType cfg" "gin_Err (gin_of_echo E) = echo_Err E"
      "gin_defaultWarningHandler (gin_of_echo E) = echo_defaultWarningHandler E"
      by (simp_all add: gin_echo_defs gin_defaultWarningHandler_def echo_defaultWarningHandler_def)
    show ?thesis
      using n by (simp add: gin_handler_def echo_handler_def Let_def run_map_call same case_prod_unfold
          gin_echo_refused split: option.split)
  qed
  then show "gin_handler (gin_of_echo E) (gin_config cfg) now c = map_call (map_outcome snd) (echo_handler E cfg now c)"
    by (simp add: state.expand ext)
  have of_fiber: "echo_JSON (echo_of_fiber F) = fiber_answer F" "echo_SetHeader (echo_of_fiber F) = fiber_Set F"
    "echo_Err (echo_of_fiber F) = fiber_Err F"
    "echo_defaultUnauthorized (echo_of_fiber F) = fiber_defaultUnauthorized F"
    "echo_defaultRateLimitExceeded (echo_of_fiber F) = fiber_defaultRateLimitExceeded F"
    "echo_defaultQuotaExceeded (echo_of_fiber F) = fiber_defaultQuotaExceeded F"
    "echo_defaultError (echo_of_fiber F) = fiber_defaultError F"
    "echo_defaultWarningHandler (echo_of_fiber F) = fiber_defaultWarningHandler F"
    by (simp_all add: echo_of_fiber_def echo_defaultWarningHandler_def fiber_defaultWarningHandler_def fun_eq_iff)
  have refused: "fiber_refused F cfg = echo_refused (echo_of_fiber F) cfg"
    unfolding fiber_refused_def [abs_def] echo_refused_def [abs_def] of_fiber by (rule refl)
  show "fiber_handler F cfg now c = echo_handler (echo_of_fiber F) cfg now c"
    unfolding fiber_handler_def echo_handler_def of_fiber refused by (rule refl)
qed


section \<open>The demo\<close>

definition demo_http :: "goint \<Rightarrow> PeriodType \<Rightarrow> HttpConfig" where
  "demo_http n pt = \<lparr>hc_GetUserID = http_FromHeader ''X-User-ID'', hc_GetResource = http_FixedResource ''api'',
     hc_GetAmount = http_FixedAmount n, hc_PeriodType = pt, hc_OnQuotaExceeded = None, hc_OnUnauthorized = None,
     hc_OnError = None, hc_OnWarning = None\<rparr>"

definition user_request :: HttpRequest where
  "user_request = \<lparr>hr_Header = header_Set ''x-user-id'' ''u'' (\<lambda>_. []), hr_Err = None, hr_Values = (\<lambda>_. None), hr_Body = None\<rparr>"

definition plain_response :: "string ResponseWriter" where
  "plain_response = \<lparr>rw_Header = (\<lambda>_. []), rw_Status = None, rw_Body = [], rw_Broken = False\<rparr>"

lemma demo_http_parts:
  "hc_GetUserID (demo_http n pt) user_request = ''u''" "hc_GetResource (demo_http n pt) r = ''api''"
  "hc_GetAmount (demo_http n pt) r = (Inr n, r)" "hc_PeriodType (demo_http n pt) = pt"
  by (simp_all add: demo_http_def http_FixedResource_def http_FixedAmount_def) code_simp

lemma demo_http_accepted:
  "fst (run_state (Consume demo_manager (WithWarningHandler (request_context user_request)) demo_now ''u'' ''api'' 3
    PeriodTypeMonthly no_options) demo_world) = (3, None)"
  by (simp add: demo_eval WithWarningHandler_def request_context_def user_request_def cong: bind_weak_cong)

lemma http_charged_iff_passed_witness:
  "\<exists>y used. fst (run_state (http_Middleware demo_manager (demo_http 3 (PeriodTypeOther '''')) demo_now
      (plain_response, user_request)) demo_world) = Passed y
    \<and> charged demo_config ''u'' ''api'' 3 PeriodTypeMonthly (mem_view mem_New) used
        (mem_view (w_storage (snd (run_state (http_Middleware demo_manager (demo_http 3 (PeriodTypeOther '''')) demo_now
          (plain_response, user_request)) demo_world))))"
proof -
  let ?run = "run_state (http_Middleware demo_manager (demo_http 3 (PeriodTypeOther '''')) demo_now
      (plain_response, user_request)) demo_world"
  have "amount_error (Inr 3) = Inr 3" by (simp add: amount_error_def)
  then obtain y where "fst ?run = Passed y"
    using demo_http_accepted
    by (auto simp: http_Middleware_def demo_http_parts default_period_def Let_def case_prod_unfold)
  then show ?thesis
    using http_charged_iff_passed [OF demo_manager_simps(1,2) surjective_pairing,
        where config = "demo_http 3 (PeriodTypeOther '''')" and now = demo_now and wr = plain_response
          and r = user_request and w = demo_world]
    by (simp add: demo_http_parts default_period_def demo_parts)
qed

lemma http_auto_panics_witness:
  "\<exists>y. fst (run_state (http_Middleware demo_manager (demo_http 11 PeriodTypeAuto) demo_now
      (plain_response, user_request)) demo_world) = Panicked (GoPanic ''nil pointer dereference'') y"
proof -
  have "period_for None demo_now PeriodTypeDaily \<noteq> None" by (simp add: period_for_def)
  then obtain d where d: "period_for None demo_now PeriodTypeDaily = Some d" by blast
  have "snd (fst (run_state (Consume demo_manager (WithWarningHandler (request_context user_request)) demo_now ''u'' ''api'' 11
    PeriodTypeAuto no_options) demo_world)) = Some ErrQuotaExceeded"
    by (simp add: demo_eval consumption_order_def d WithWarningHandler_def request_context_def user_request_def
        cong: bind_weak_cong)
  from http_auto_panics [of "demo_http 11 PeriodTypeAuto" user_request 11 user_request demo_manager demo_now demo_world
      plain_response] this
  show ?thesis by (simp add: demo_http_parts)
qed

lemma millis_rounds_up_witness: "millis_to_seconds (f_of_int 1500) = 2"
  using millis_rounds_up [of 1500] by simp

text \<open>A Gin context of the demo: the headers of the request, and the answers given so far.\<close>

type_synonym demo_gin_context = "Header \<times> (goint \<times> json_doc) list"

definition demo_gin :: "demo_gin_context GinContext" where
  "demo_gin = \<lparr>gin_JSON = (\<lambda>code doc (h, out). (h, (code, doc) # out)), gin_Header = (\<lambda>k v c. c), gin_Abort = (\<lambda>c. c),
     gin_Err = (\<lambda>c. None), gin_GetHeader = (\<lambda>k (h, out). header_Get k h), gin_Get = (\<lambda>k c. None),
     gin_Param = (\<lambda>k c. ''''), gin_Query = (\<lambda>k c. ''''), gin_FullPath = (\<lambda>c. '''')\<rparr>"

definition demo_web :: "goint \<Rightarrow> (MemState, MemState, demo_gin_context, demo_gin_context) WebConfig" where
  "demo_web n = \<lparr>wc_Manager = Some demo_manager, wc_GetUserID = Some (\<lambda>c. ''u''), wc_GetResource = Some (web_FixedResource ''api''),
     wc_GetAmount = Some (web_FixedAmount n), wc_GetIdempotencyKey = None, wc_PeriodType = PeriodTypeMonthly,
     wc_QuotaExceededStatusCode = 402, wc_OnRateLimitExceeded = None, wc_OnQuotaExceeded = None,
     wc_OnUnauthorized = None, wc_OnError = None, wc_OnWarning = None\<rparr>"

definition demo_gin_request :: demo_gin_context where
  "demo_gin_request = (header_Set ''X-Request-ID'' ''k'' (\<lambda>_. []), [])"

lemma demo_web_parts:
  "wc_Manager (demo_web n) = Some demo_manager" "wc_GetUserID (demo_web n) = Some (\<lambda>c. ''u'')"
  "wc_GetResource (demo_web n) = Some (web_FixedResource ''api'')" "wc_GetAmount (demo_web n) = Some (web_FixedAmount n)"
  "wc_GetIdempotencyKey (demo_web n) = None" "wc_PeriodType (demo_web n) = PeriodTypeMonthly"
  "gin_GetHeader demo_gin ''X-Request-ID'' demo_gin_request = ''k''" "gin_Err demo_gin c = None"
  by (simp_all add: demo_web_def demo_gin_def demo_gin_request_def)

definition demo_web_handler :: "goint \<Rightarrow> time \<Rightarrow> demo_gin_context \<Rightarrow> (MemState, MemState, demo_gin_context outcome) call" where
  "demo_web_handler n = gin_handler demo_gin (web_defaults (gin_GetHeader demo_gin ''X-Request-ID'') (demo_web n))"

lemma demo_web_Middleware: "gin_Middleware demo_gin (demo_web n) = Inr (demo_web_handler n)"
  by (simp add: gin_Middleware_def web_required_def demo_web_handler_def Let_def demo_web_parts)

lemma demo_web_accepted:
  "fst (run_state (Consume demo_manager (web_context None) demo_now ''u'' ''api'' 3
    PeriodTypeMonthly (key_options ''k'')) demo_world) = (3, None)"
  by (simp add: demo_eval WithWarningHandler_def web_context_def key_options_def WithIdempotencyKey_def cong: bind_weak_cong)

lemma demo_web_defaults:
  "wc_Manager (web_defaults f (demo_web n)) = Some demo_manager" "wc_GetUserID (web_defaults f (demo_web n)) = Some (\<lambda>c. ''u'')"
  "wc_GetResource (web_defaults f (demo_web n)) = Some (web_FixedResource ''api'')"
  "wc_GetAmount (web_defaults f (demo_web n)) = Some (web_FixedAmount n)"
  "wc_GetIdempotencyKey (web_defaults f (demo_web n)) = Some f"
  "wc_PeriodType (web_defaults f (demo_web n)) = PeriodTypeMonthly"
  by (simp_all add: web_defaults_def demo_web_parts default_period_def)

lemma demo_web_passes: "\<exists>y w1. run_state (demo_web_handler 3 demo_now demo_gin_request) demo_world = (Passed y, w1)"
proof -
  let ?run = "run_state (Consume demo_manager (web_context None) demo_now ''u'' ''api'' 3 PeriodTypeMonthly
    (key_options ''k'')) demo_world"
  have "?run = ((3, None), snd ?run)" using demo_web_accepted by (metis surjective_pairing)
  note cw = run_consume_warned [OF this, of "case wc_OnWarning (web_defaults (gin_GetHeader demo_gin ''X-Request-ID'')
    (demo_web 3)) of Some f \<Rightarrow> f | None \<Rightarrow> gin_defaultWarningHandler demo_gin" demo_gin_request]
  have "amount_error (Inr 3) = Inr 3" by (simp add: amount_error_def)
  with cw show ?thesis
    by (simp add: demo_web_handler_def gin_handler_def demo_web_defaults web_FixedResource_def web_FixedAmount_def Let_def
        demo_web_parts)
qed

lemma gin_charged_iff_passed_witness:
  "\<exists>used. charged demo_config ''u'' ''api'' 3 PeriodTypeMonthly (mem_view mem_New) used
     (mem_view (w_storage (snd (run_state (demo_web_handler 3 demo_now demo_gin_request) demo_world))))"
proof -
  obtain y w1 where 1: "run_state (demo_web_handler 3 demo_now demo_gin_request) demo_world = (Passed y, w1)"
    using demo_web_passes by blast
  have "ms_consumptions mem_New k = None" for k by (simp add: mem_New_def)
  with gin_charged_iff_passed [OF demo_web_defaults(1-5) demo_manager_simps(1,2) 1 [unfolded demo_web_handler_def]]
  show ?thesis by (simp add: 1 demo_parts demo_web_defaults web_FixedAmount_def web_FixedResource_def)
qed

lemma repeated_request_free_witness:
  "\<exists>y1 y2 w1 w2. run_state (demo_web_handler 3 demo_now demo_gin_request) demo_world = (Passed y1, w1)
    \<and> run_state (demo_web_handler 3 demo_now demo_gin_request) w1 = (Passed y2, w2) \<and> w_storage w2 = w_storage w1"
proof -
  obtain y w1 where 1: "run_state (demo_web_handler 3 demo_now demo_gin_request) demo_world = (Passed y, w1)"
    using demo_web_passes by blast
  have k: "gin_GetHeader demo_gin ''X-Request-ID'' demo_gin_request \<noteq> ''''" by (simp add: demo_web_parts)
  show ?thesis
    using repeated_request_free [OF demo_web_parts(1-5) demo_web_Middleware demo_manager_simps(1,2) 1 k refl _ _ _ _ refl,
        of 3 demo_now] 1 by (auto simp: web_FixedAmount_def demo_web_parts)
qed

end
