(* ===== verification/TieredStorage.thy ===== *)
theory TieredStorage
  imports MemoryStorage
begin

text \<open>
  The tiered backend, \<open>storage/tiered/tiered.go\<close>: a hot and a cold storage, both parameters, with
  read-through, write-through, hot-only and hot-primary operations, and the queue of consumptions
  the background worker writes to the cold one.

  A queued job is the request it closes over; running it is \<open>ConsumeQuota\<close> of the cold storage at
  the worker's instant. \<open>ti_step\<close> interleaves consumptions with the worker. Calls of the error
  handler are recorded in \<open>ti_errors\<close>, newest first.
\<close>

record TieredConfig =
  ti_AsyncUsageSync :: bool
  ti_SyncBufferSize :: goint
  ti_AsyncErrorHandler :: bool

text \<open>The worker's goroutine: not started, in its loop, draining after the shutdown, returned.\<close>

datatype worker = NoWorker | Looping | Draining | Returned

record ('h, 'c) Tiered =
  ti_hot :: 'h
  ti_cold :: 'c
  ti_queue :: "ConsumeRequest list"
  ti_shutdown :: bool
  ti_worker :: worker
  ti_errors :: "goerr list"

text \<open>The storages come with their state.\<close>

definition ti_New :: "TieredConfig \<Rightarrow> ('h Storage \<times> 'h) option \<Rightarrow> ('c Storage \<times> 'c) option
    \<Rightarrow> goerr + TieredConfig \<times> ('h, 'c) Tiered" where
  "ti_New config hot cold = (case (hot, cold) of
     (Some (_, h), Some (_, c)) \<Rightarrow>
       (let config = (if ti_SyncBufferSize config \<le> 0 then config\<lparr>ti_SyncBufferSize := 1000\<rparr> else config)
        in Inr (config, \<lparr>ti_hot = h, ti_cold = c, ti_queue = [], ti_shutdown = False,
             ti_worker = (if ti_AsyncUsageSync config then Looping else NoWorker), ti_errors = []\<rparr>))
   | _ \<Rightarrow> Inl (ErrText ''tiered storage: both hot and cold storage are required''))"

definition on_hot :: "('h \<Rightarrow> 'a \<times> 'h) \<Rightarrow> ('h, 'c) Tiered \<Rightarrow> 'a \<times> ('h, 'c) Tiered" where
  "on_hot f s = (let (r, h) = f (ti_hot s) in (r, s\<lparr>ti_hot := h\<rparr>))"

definition on_cold :: "('c \<Rightarrow> 'a \<times> 'c) \<Rightarrow> ('h, 'c) Tiered \<Rightarrow> 'a \<times> ('h, 'c) Tiered" where
  "on_cold f s = (let (r, c) = f (ti_cold s) in (r, s\<lparr>ti_cold := c\<rparr>))"

lemma on_parts [simp]:
  "fst (on_hot f s) = fst (f (ti_hot s))" "snd (on_hot f s) = s\<lparr>ti_hot := snd (f (ti_hot s))\<rparr>"
  "fst (on_cold g s) = fst (g (ti_cold s))" "snd (on_cold g s) = s\<lparr>ti_cold := snd (g (ti_cold s))\<rparr>"
  by (simp_all add: on_hot_def on_cold_def case_prod_unfold Let_def)

definition ti_report :: "TieredConfig \<Rightarrow> goerr \<Rightarrow> ('h, 'c) Tiered \<Rightarrow> ('h, 'c) Tiered" where
  "ti_report conf err s = (if ti_AsyncErrorHandler conf then s\<lparr>ti_errors := err # ti_errors s\<rparr> else s)"

section \<open>The worker\<close>

text \<open>\<open>ti_Close\<close> up to its wait; the wait ends when the worker has returned.\<close>

definition ti_Close :: "TieredConfig \<Rightarrow> ('h, 'c) Tiered \<Rightarrow> ('h, 'c) Tiered" where
  "ti_Close conf s = (if ti_AsyncUsageSync conf \<and> \<not> ti_shutdown s then s\<lparr>ti_shutdown := True\<rparr> else s)"

definition run_job :: "'c Storage \<Rightarrow> time \<Rightarrow> ConsumeRequest \<Rightarrow> ('h, 'c) Tiered \<Rightarrow> goerr option \<times> ('h, 'c) Tiered" where
  "run_job cold now req s = (let (r, s1) = on_cold (st_ConsumeQuota cold now req) s in (snd r, s1))"

inductive worker_step :: "'c Storage \<Rightarrow> TieredConfig \<Rightarrow> ('h, 'c) Tiered \<Rightarrow> ('h, 'c) Tiered \<Rightarrow> bool"
  for cold :: "'c Storage" and conf :: TieredConfig where
  work: "ti_worker s = Looping \<Longrightarrow> ti_queue s = req # reqs \<Longrightarrow>
    run_job cold now req (s\<lparr>ti_queue := reqs\<rparr>) = (e, s1) \<Longrightarrow>
    s' = (case e of None \<Rightarrow> s1 | Some err \<Rightarrow> ti_report conf (Wrapped ''tiered sync failed'' err) s1) \<Longrightarrow>
    worker_step cold conf s s'"
| see_shutdown: "ti_worker s = Looping \<Longrightarrow> ti_shutdown s \<Longrightarrow> worker_step cold conf s (s\<lparr>ti_worker := Draining\<rparr>)"
| drain: "ti_worker s = Draining \<Longrightarrow> ti_queue s = req # reqs \<Longrightarrow>
    run_job cold now req (s\<lparr>ti_queue := reqs\<rparr>) = (e, s1) \<Longrightarrow> worker_step cold conf s s1"
| drained: "ti_worker s = Draining \<Longrightarrow> ti_queue s = [] \<Longrightarrow> worker_step cold conf s (s\<lparr>ti_worker := Returned\<rparr>)"

section \<open>Read-through\<close>

definition ti_GetEntitlement :: "'h Storage \<Rightarrow> 'c Storage \<Rightarrow> time \<Rightarrow> string \<Rightarrow> ('h, 'c) Tiered
    \<Rightarrow> (goerr + Entitlement) \<times> ('h, 'c) Tiered" where
  "ti_GetEntitlement hot cold now userID s =
     (let (r, s1) = on_hot (st_GetEntitlement hot now userID) s in
      case r of
        Inr ent \<Rightarrow> (Inr ent, s1)
      | Inl _ \<Rightarrow>
          let (r, s2) = on_cold (st_GetEntitlement cold now userID) s1 in
          case r of
            Inl err \<Rightarrow> (Inl err, s2)
          | Inr ent \<Rightarrow> (Inr ent, snd (on_hot (st_SetEntitlement hot now ent) s2)))"

definition ti_GetUsage :: "'h Storage \<Rightarrow> 'c Storage \<Rightarrow> time \<Rightarrow> string \<Rightarrow> string \<Rightarrow> Period \<Rightarrow> ('h, 'c) Tiered
    \<Rightarrow> (goerr + Usage option) \<times> ('h, 'c) Tiered" where
  "ti_GetUsage hot cold now userID resource period s =
     (let (r, s1) = on_hot (st_GetUsage hot now userID resource period) s in
      case r of
        Inr (Some usage) \<Rightarrow> (Inr (Some usage), s1)
      | _ \<Rightarrow>
          let (r, s2) = on_cold (st_GetUsage cold now userID resource period) s1 in
          case r of
            Inl err \<Rightarrow> (Inl err, s2)
          | Inr None \<Rightarrow> (Inr None, s2)
          | Inr (Some usage) \<Rightarrow> (Inr (Some usage), snd (on_hot (st_SetUsage hot now userID resource usage period) s2)))"

definition ti_GetRefundRecord :: "'h Storage \<Rightarrow> 'c Storage \<Rightarrow> time \<Rightarrow> string \<Rightarrow> ('h, 'c) Tiered
    \<Rightarrow> (goerr + RefundRecord option) \<times> ('h, 'c) Tiered" where
  "ti_GetRefundRecord hot cold now key s =
     (let (r, s1) = on_hot (st_GetRefundRecord hot now key) s in
      case r of Inr (Some rec) \<Rightarrow> (Inr (Some rec), s1) | _ \<Rightarrow> on_cold (st_GetRefundRecord cold now key) s1)"

definition ti_GetConsumptionRecord :: "'h Storage \<Rightarrow> 'c Storage \<Rightarrow> time \<Rightarrow> string \<Rightarrow> ('h, 'c) Tiered
    \<Rightarrow> (goerr + ConsumptionRecord option) \<times> ('h, 'c) Tiered" where
  "ti_GetConsumptionRecord hot cold now key s =
     (let (r, s1) = on_hot (st_GetConsumptionRecord hot now key) s in
      case r of Inr (Some rec) \<Rightarrow> (Inr (Some rec), s1) | _ \<Rightarrow> on_cold (st_GetConsumptionRecord cold now key) s1)"

section \<open>Write-through\<close>

text \<open>The shape of every write-through method: the cold write decides, the hot one is best effort.\<close>

definition write_through :: "('c \<Rightarrow> goerr option \<times> 'c) \<Rightarrow> ('h \<Rightarrow> goerr option \<times> 'h) \<Rightarrow> ('h, 'c) Tiered
    \<Rightarrow> goerr option \<times> ('h, 'c) Tiered" where
  "write_through write_cold write_hot s =
     (let (err, s1) = on_cold write_cold s in
      if err \<noteq> None then (err, s1) else (None, snd (on_hot write_hot s1)))"

definition ti_SetEntitlement :: "'h Storage \<Rightarrow> 'c Storage \<Rightarrow> time \<Rightarrow> Entitlement \<Rightarrow> ('h, 'c) Tiered
    \<Rightarrow> goerr option \<times> ('h, 'c) Tiered" where
  "ti_SetEntitlement hot cold now ent =
     write_through (st_SetEntitlement cold now ent) (st_SetEntitlement hot now ent)"

definition ti_SetUsage :: "'h Storage \<Rightarrow> 'c Storage \<Rightarrow> time \<Rightarrow> string \<Rightarrow> string \<Rightarrow> Usage \<Rightarrow> Period \<Rightarrow> ('h, 'c) Tiered
    \<Rightarrow> goerr option \<times> ('h, 'c) Tiered" where
  "ti_SetUsage hot cold now userID resource usage period =
     write_through (st_SetUsage cold now userID resource usage period) (st_SetUsage hot now userID resource usage period)"

definition ti_ApplyTierChange :: "'h Storage \<Rightarrow> 'c Storage \<Rightarrow> time \<Rightarrow> TierChangeRequest \<Rightarrow> ('h, 'c) Tiered
    \<Rightarrow> goerr option \<times> ('h, 'c) Tiered" where
  "ti_ApplyTierChange hot cold now req =
     write_through (st_ApplyTierChange cold now req) (st_ApplyTierChange hot now req)"

definition ti_AddLimit :: "'h Storage \<Rightarrow> 'c Storage \<Rightarrow> time \<Rightarrow> string \<Rightarrow> string \<Rightarrow> goint \<Rightarrow> Period \<Rightarrow> string
    \<Rightarrow> ('h, 'c) Tiered \<Rightarrow> goerr option \<times> ('h, 'c) Tiered" where
  "ti_AddLimit hot cold now userID resource amount period idempotencyKey =
     write_through (st_AddLimit cold now userID resource amount period idempotencyKey)
       (st_AddLimit hot now userID resource amount period idempotencyKey)"

definition ti_SubtractLimit :: "'h Storage \<Rightarrow> 'c Storage \<Rightarrow> time \<Rightarrow> string \<Rightarrow> string \<Rightarrow> goint \<Rightarrow> Period \<Rightarrow> string
    \<Rightarrow> ('h, 'c) Tiered \<Rightarrow> goerr option \<times> ('h, 'c) Tiered" where
  "ti_SubtractLimit hot cold now userID resource amount period idempotencyKey =
     write_through (st_SubtractLimit cold now userID resource amount period idempotencyKey)
       (st_SubtractLimit hot now userID resource amount period idempotencyKey)"

definition ti_RefundQuota :: "'h Storage \<Rightarrow> 'c Storage \<Rightarrow> time \<Rightarrow> RefundRequest \<Rightarrow> ('h, 'c) Tiered
    \<Rightarrow> goerr option \<times> ('h, 'c) Tiered" where
  "ti_RefundQuota hot cold now req =
     write_through (st_RefundQuota cold now req) (st_RefundQuota hot now req)"

section \<open>Hot-primary and hot-only\<close>

definition ti_enqueue :: "TieredConfig \<Rightarrow> ConsumeRequest \<Rightarrow> ('h, 'c) Tiered \<Rightarrow> ('h, 'c) Tiered" where
  "ti_enqueue conf req s =
     (if int (length (ti_queue s)) < ti_SyncBufferSize conf then s\<lparr>ti_queue := ti_queue s @ [req]\<rparr>
      else ti_report conf (ErrText ''tiered storage: sync queue full, dropping cold write'') s)"

definition ti_ConsumeQuota :: "'h Storage \<Rightarrow> 'c Storage \<Rightarrow> TieredConfig \<Rightarrow> time \<Rightarrow> ConsumeRequest \<Rightarrow> ('h, 'c) Tiered
    \<Rightarrow> (goint \<times> goerr option) \<times> ('h, 'c) Tiered" where
  "ti_ConsumeQuota hot cold conf now req s =
     (let (r, s1) = on_hot (st_ConsumeQuota hot now req) s in
      if snd r \<noteq> None then (r, s1)
      else if ti_AsyncUsageSync conf then ((fst r, None), ti_enqueue conf req s1)
      else
        let (rc, s2) = on_cold (st_ConsumeQuota cold now req) s1;
            s3 = (case snd rc of None \<Rightarrow> s2
              | Some err \<Rightarrow> ti_report conf (Wrapped ''tiered storage: sync cold write failed'' err) s2)
        in ((fst r, None), s3))"

definition ti_CheckRateLimit :: "'h Storage \<Rightarrow> time \<Rightarrow> RateLimitRequest \<Rightarrow> ('h, 'c) Tiered
    \<Rightarrow> (goerr + bool \<times> goint \<times> time) \<times> ('h, 'c) Tiered" where
  "ti_CheckRateLimit hot now req = on_hot (st_CheckRateLimit hot now req)"

definition ti_RecordRateLimitRequest :: "'h Storage \<Rightarrow> time \<Rightarrow> RateLimitRequest \<Rightarrow> ('h, 'c) Tiered
    \<Rightarrow> goerr option \<times> ('h, 'c) Tiered" where
  "ti_RecordRateLimitRequest hot now req = on_hot (st_RecordRateLimitRequest hot now req)"

definition ti_Now :: "'h Storage \<Rightarrow> 'c Storage \<Rightarrow> time \<Rightarrow> ('h, 'c) Tiered \<Rightarrow> (goerr + time) \<times> ('h, 'c) Tiered" where
  "ti_Now hot cold now s = (case st_Now hot of
     Some f \<Rightarrow> on_hot (f now) s
   | None \<Rightarrow> (case st_Now cold of
       Some f \<Rightarrow> on_cold (f now) s
     | None \<Rightarrow> (Inr now, s)))"

definition tiered_storage :: "'h Storage \<Rightarrow> 'c Storage \<Rightarrow> TieredConfig \<Rightarrow> ('h, 'c) Tiered Storage" where
  "tiered_storage hot cold conf = \<lparr>
     st_GetEntitlement = ti_GetEntitlement hot cold, st_SetEntitlement = ti_SetEntitlement hot cold,
     st_GetUsage = ti_GetUsage hot cold, st_ConsumeQuota = ti_ConsumeQuota hot cold conf,
     st_ApplyTierChange = ti_ApplyTierChange hot cold, st_SetUsage = ti_SetUsage hot cold,
     st_RefundQuota = ti_RefundQuota hot cold, st_GetRefundRecord = ti_GetRefundRecord hot cold,
     st_GetConsumptionRecord = ti_GetConsumptionRecord hot cold, st_CheckRateLimit = ti_CheckRateLimit hot,
     st_RecordRateLimitRequest = ti_RecordRateLimitRequest hot, st_AddLimit = ti_AddLimit hot cold,
     st_SubtractLimit = ti_SubtractLimit hot cold, st_Now = Some (ti_Now hot cold),
     st_LogAuditEntry = None, st_GetAuditLogs = None\<rparr>"

end
