(* ===== verification/TieredProps.thy ===== *)
theory TieredProps
  imports TieredStorage
begin

text \<open>
  What the tiered backend promises, over any two storages that keep the contract \<open>quota_store\<close>
  with the same buckets (locale \<open>tiered_pair\<close>): the hot storage alone enforces quotas, and the
  cold ledger is the hot one but for the queued consumptions (\<open>synced\<close>). Then the cases in which
  the two ledgers part, over the in-memory storage.
\<close>

section \<open>Two storages in step\<close>

text \<open>Consumptions of a full queue are dropped; these are the steps that lose none.\<close>

inductive tiered_step :: "'h Storage \<Rightarrow> 'c Storage \<Rightarrow> TieredConfig \<Rightarrow> ('h, 'c) Tiered \<Rightarrow> ('h, 'c) Tiered \<Rightarrow> bool"
  for hot :: "'h Storage" and cold :: "'c Storage" and conf :: TieredConfig where
  consume: "ti_AsyncUsageSync conf \<longrightarrow> int (length (ti_queue s)) < ti_SyncBufferSize conf \<Longrightarrow>
    tiered_step hot cold conf s (snd (ti_ConsumeQuota hot cold conf now req s))"
| worker: "worker_step cold conf s s' \<Longrightarrow> tiered_step hot cold conf s s'"
| close: "tiered_step hot cold conf s (ti_Close conf s)"

lemma ti_parts [simp]:
  "ti_hot (ti_report conf e s) = ti_hot s" "ti_cold (ti_report conf e s) = ti_cold s"
  "ti_queue (ti_report conf e s) = ti_queue s" "ti_worker (ti_report conf e s) = ti_worker s"
  "ti_hot (ti_Close conf s) = ti_hot s" "ti_cold (ti_Close conf s) = ti_cold s"
  "ti_queue (ti_Close conf s) = ti_queue s"
  "ti_hot (ti_enqueue conf q s) = ti_hot s" "ti_cold (ti_enqueue conf q s) = ti_cold s"
  by (simp_all add: ti_report_def ti_Close_def ti_enqueue_def)

lemma run_job_parts [simp]:
  "ti_hot (snd (run_job cold now q s)) = ti_hot s" "ti_queue (snd (run_job cold now q s)) = ti_queue s"
  "ti_worker (snd (run_job cold now q s)) = ti_worker s"
  "ti_cold (snd (run_job cold now q s)) = snd (st_ConsumeQuota cold now q (ti_cold s))"
  by (simp_all add: run_job_def case_prod_unfold Let_def)

locale tiered_pair = hot: quota_store "st_ConsumeQuota hot" bucket viewh + cold: quota_store "st_ConsumeQuota cold" bucket viewc
  for hot :: "'h Storage" and cold :: "'c Storage"
    and bucket :: "string \<Rightarrow> string \<Rightarrow> Period \<Rightarrow> 'b"
    and viewh :: "'h \<Rightarrow> 'b ledger" and viewc :: "'c \<Rightarrow> 'b ledger" +
  fixes conf :: TieredConfig
begin

text \<open>Whatever the cold storage does, the tiered storage keeps the contract on the hot ledger.\<close>

lemma consume_hot:
  "fst (ti_ConsumeQuota hot cold conf now q s) = fst (st_ConsumeQuota hot now q (ti_hot s))
    \<and> ti_hot (snd (ti_ConsumeQuota hot cold conf now q s)) = snd (st_ConsumeQuota hot now q (ti_hot s))"
  by (auto simp: ti_ConsumeQuota_def Let_def case_prod_unfold prod_eq_iff split: option.split)

sublocale tiered: quota_store "ti_ConsumeQuota hot cold conf" bucket "\<lambda>s. viewh (ti_hot s)"
  by unfold_locales (simp add: consume_hot hot.consume_refines)

text \<open>The cold ledger after the queued consumptions.\<close>

definition replayed :: "ConsumeRequest list \<Rightarrow> 'b ledger \<Rightarrow> 'b ledger" where
  "replayed qs l = fold (\<lambda>q l. snd (spec_consume (cold.bucket_of q) q l)) qs l"

definition synced :: "('h, 'c) Tiered \<Rightarrow> bool" where
  "synced s \<longleftrightarrow> viewh (ti_hot s) = replayed (ti_queue s) (viewc (ti_cold s))
     \<and> (\<not> ti_AsyncUsageSync conf \<longrightarrow> ti_queue s = [])"

lemma replayed_simps [simp]:
  "replayed [] l = l" "replayed (q # qs) l = replayed qs (snd (spec_consume (cold.bucket_of q) q l))"
  "replayed (qs @ [q]) l = snd (spec_consume (cold.bucket_of q) q (replayed qs l))"
  by (simp_all add: replayed_def)

lemma synced_parts:
  "synced (ti_report conf e s) = synced s" "synced (s\<lparr>ti_worker := x\<rparr>) = synced s"
  "synced (ti_Close conf s) = synced s"
  by (simp_all add: synced_def)

lemma synced_consume:
  assumes "synced s" "ti_AsyncUsageSync conf \<longrightarrow> int (length (ti_queue s)) < ti_SyncBufferSize conf"
  shows "synced (snd (ti_ConsumeQuota hot cold conf now q s))"
proof -
  let ?h = "st_ConsumeQuota hot now q (ti_hot s)"
  let ?c = "st_ConsumeQuota cold now q (ti_cold s)"
  let ?s = "s\<lparr>ti_hot := snd ?h\<rparr>"
  have v: "viewh (snd ?h) = snd (spec_consume (cold.bucket_of q) q (viewh (ti_hot s)))"
    by (rule hot.consume_view)
  consider "snd (fst ?h) \<noteq> None" | "snd (fst ?h) = None" "ti_AsyncUsageSync conf"
    | "snd (fst ?h) = None" "\<not> ti_AsyncUsageSync conf" by blast
  then show ?thesis
  proof cases
    case 1
    then have "snd (ti_ConsumeQuota hot cold conf now q s) = ?s"
      by (simp add: ti_ConsumeQuota_def Let_def case_prod_unfold)
    then show ?thesis using assms(1) hot.refused_unchanged [OF 1] by (simp add: synced_def)
  next
    case 2
    then have "snd (ti_ConsumeQuota hot cold conf now q s) = ?s\<lparr>ti_queue := ti_queue s @ [q]\<rparr>"
      using assms(2) by (simp add: ti_ConsumeQuota_def Let_def case_prod_unfold ti_enqueue_def)
    then show ?thesis using assms(1) v 2 by (simp add: synced_def)
  next
    case 3
    let ?s2 = "?s\<lparr>ti_cold := snd ?c\<rparr>"
    have s2: "snd (ti_ConsumeQuota hot cold conf now q s)
        = (case snd (fst ?c) of None \<Rightarrow> ?s2
           | Some err \<Rightarrow> ti_report conf (Wrapped ''tiered storage: sync cold write failed'' err) ?s2)"
      using 3 by (simp add: ti_ConsumeQuota_def Let_def case_prod_unfold split: option.split)
    have "synced ?s2" using assms(1) v 3 by (simp add: synced_def cold.consume_view)
    then show ?thesis unfolding s2 by (simp add: synced_parts split: option.split)
  qed
qed

lemma synced_job:
  assumes "synced s" "ti_queue s = q # qs"
  shows "synced (snd (run_job cold now q (s\<lparr>ti_queue := qs\<rparr>)))"
  using assms by (auto simp: synced_def cold.consume_view)

lemma synced_worker:
  assumes "worker_step cold conf s s'" "synced s"
  shows "synced s'"
  using assms
proof cases
  case (work req reqs now e s1)
  then have "synced s1" using synced_job [OF assms(2) work(2), of now] by simp
  with work(4) show ?thesis by (simp add: synced_parts split: option.split)
next
  case (drain req reqs now e)
  then show ?thesis using synced_job [OF assms(2) drain(2), of now] by simp
qed (simp_all add: synced_parts assms(2))

lemma synced_steps:
  assumes "(tiered_step hot cold conf)\<^sup>*\<^sup>* s s'" "synced s"
  shows "synced s'"
  using assms
proof induction
  case (step s1 s2)
  from step(2) show ?case
    using step(3,4) by cases (auto simp: synced_consume synced_parts intro: synced_worker)
qed

text \<open>A running worker empties its queue and leaves the hot storage alone.\<close>

lemma worker_empties:
  assumes "ti_worker s = Looping"
  shows "\<exists>s'. (worker_step cold conf)\<^sup>*\<^sup>* s s' \<and> ti_queue s' = [] \<and> ti_hot s' = ti_hot s"
  using assms
proof (induction "ti_queue s" arbitrary: s)
  case Nil
  then show ?case by (intro exI [of _ s]) simp
next
  case (Cons q qs)
  obtain e s1 where j: "run_job cold 0 q (s\<lparr>ti_queue := qs\<rparr>) = (e, s1)" by fastforce
  define s2 where "s2 = (case e of None \<Rightarrow> s1 | Some err \<Rightarrow> ti_report conf (Wrapped ''tiered sync failed'' err) s1)"
  have step: "worker_step cold conf s s2"
    using worker_step.work [OF Cons.prems Cons.hyps(2) [symmetric] j s2_def] .
  have "s1 = snd (run_job cold 0 q (s\<lparr>ti_queue := qs\<rparr>))" by (simp add: j)
  then have "ti_queue s1 = qs" "ti_hot s1 = ti_hot s" "ti_worker s1 = Looping" using Cons.prems by simp_all
  then have "qs = ti_queue s2" "ti_hot s2 = ti_hot s" "ti_worker s2 = Looping"
    by (simp_all add: s2_def split: option.split)
  from Cons.hyps(1) [OF this(1,3)] this(2) step show ?case
    by (metis converse_rtranclp_into_rtranclp)
qed

lemma drains:
  assumes "(tiered_step hot cold conf)\<^sup>*\<^sup>* s s1" "synced s" "ti_worker s1 = Looping"
  shows "\<exists>s'. (worker_step cold conf)\<^sup>*\<^sup>* s1 s' \<and> ti_hot s' = ti_hot s1 \<and> viewc (ti_cold s') = viewh (ti_hot s')"
proof -
  obtain s' where s': "(worker_step cold conf)\<^sup>*\<^sup>* s1 s'" "ti_queue s' = []" "ti_hot s' = ti_hot s1"
    using worker_empties [OF assms(3)] by blast
  have "(tiered_step hot cold conf)\<^sup>*\<^sup>* s1 s'"
    using s'(1) by induction (auto intro: tiered_step.worker rtranclp.rtrancl_into_rtrancl)
  then have "synced s'" using synced_steps [OF _ synced_steps [OF assms(1,2)]] by blast
  with s' show ?thesis by (auto simp: synced_def)
qed

end

section \<open>Over the in-memory storage\<close>

interpretation memory_pair: tiered_pair memory_storage memory_storage mem_usageKey mem_view mem_view conf for conf
  by unfold_locales


text \<open>The tiered storage enforces quota on its hot ledger exactly as the hot storage would: any run of
  requests on one bucket records the accepted amounts and never exceeds the limit, whatever the cold
  storage, the queue and the mode.\<close>

theorem tiered_run_exact:
  assumes "\<forall>(now, q) \<in> set qs. mem_usageKey (cq_UserID q) (cq_Resource q) (cq_Period q) = key
      \<and> 0 < cq_Amount q \<and> cq_Amount q < 2 ^ 62 \<and> cq_IdempotencyKey q = '''' \<and> cq_Limit q = lmt"
    and "0 \<le> lmt" "lmt < 2 ^ 62" "0 \<le> lg_used (mem_view (ti_hot s)) key" "lg_used (mem_view (ti_hot s)) key \<le> lmt"
    and "quota_store.run (ti_ConsumeQuota memory_storage memory_storage conf) qs s = (rs, s')"
  shows "lg_used (mem_view (ti_hot s')) key = lg_used (mem_view (ti_hot s)) key + quota_store.accepted qs rs
    \<and> lg_used (mem_view (ti_hot s')) key \<le> lmt"
proof -
  have "\<forall>(now, q) \<in> set qs. memory_pair.tiered.bucket_of q = key \<and> 0 < cq_Amount q \<and> cq_IdempotencyKey q = ''''
      \<and> cq_Limit q = lmt \<and> cq_Amount q < 2 ^ 62"
    using assms(1) by (auto simp: memory_pair.tiered.bucket_of_def)
  from memory_pair.tiered.run_exact [OF this assms(2-6)] show ?thesis .
qed

text \<open>A write-through operation is durable first: when it returns an error the cold storage returned it and
  the hot storage and the queue are as before; when it returns none the cold storage has done it.\<close>

theorem tiered_write_through:
  assumes "(op, write_cold) \<in> {(ti_SetEntitlement hot cold now ent, st_SetEntitlement cold now ent),
      (ti_SetUsage hot cold now u r v p, st_SetUsage cold now u r v p),
      (ti_ApplyTierChange hot cold now tq, st_ApplyTierChange cold now tq),
      (ti_AddLimit hot cold now u r n p key, st_AddLimit cold now u r n p key),
      (ti_SubtractLimit hot cold now u r n p key, st_SubtractLimit cold now u r n p key),
      (ti_RefundQuota hot cold now rq, st_RefundQuota cold now rq)}"
    and "op s = (err, s')"
  shows "write_cold (ti_cold s) = (err, ti_cold s') \<and> ti_queue s' = ti_queue s \<and> (err \<noteq> None \<longrightarrow> ti_hot s' = ti_hot s)"
proof -
  obtain write_hot where "op = write_through write_cold write_hot"
    using assms(1) by (auto simp: ti_SetEntitlement_def ti_SetUsage_def ti_ApplyTierChange_def ti_AddLimit_def
        ti_SubtractLimit_def ti_RefundQuota_def)
  with assms(2) show ?thesis
    by (auto simp: write_through_def Let_def case_prod_unfold prod_eq_iff split: if_splits)
qed

text \<open>A write-through operation overtakes the queue: when a user without a record consumes and is refunded
  before the worker runs, the cold storage ignores the refund and then records the consumption, so
  the user's usage is zero in the hot ledger and the full amount in the cold one, the source of truth.\<close>

theorem tiered_refund_overtaken:
  assumes "ti_AsyncUsageSync conf" "0 < ti_SyncBufferSize conf" "ti_worker s = Looping" "ti_queue s = []"
    and "key = mem_usageKey (cq_UserID q) (cq_Resource q) (cq_Period q)"
    and "lg_acct (mem_view (ti_hot s)) key = None" "lg_acct (mem_view (ti_cold s)) key = None"
    and "0 < cq_Amount q" "cq_Amount q \<le> cq_Limit q" "int64_ok (cq_Amount q)" "cq_IdempotencyKey q = ''''"
    and "rr_UserID rq = cq_UserID q" "rr_Resource rq = cq_Resource q" "rr_Period rq = cq_Period q"
    and "rr_Amount rq = cq_Amount q" "rr_IdempotencyKey rq = ''''" "p_Start (cq_Period q) \<noteq> zero_time"
    and "s1 = snd (ti_ConsumeQuota memory_storage memory_storage conf now q s)"
    and "ti_RefundQuota memory_storage memory_storage now rq s1 = (err, s2)"
  shows "err = None \<and> (\<exists>s3. worker_step memory_storage conf s2 s3 \<and> ti_queue s3 = []
    \<and> lg_used (mem_view (ti_hot s3)) key = 0 \<and> lg_used (mem_view (ti_cold s3)) key = cq_Amount q)"
proof -
  let ?h = "mem_ConsumeQuota now q (ti_hot s)"
  have add: "iadd 0 (cq_Amount q) = cq_Amount q" using assms(10) by (simp add: iadd_id)
  have sp: "spec_consume key q l = ((cq_Amount q, None), l\<lparr>lg_acct := (lg_acct l)(key \<mapsto> (cq_Amount q, cq_Limit q))\<rparr>)"
    if "lg_acct l key = None" for l
    using that assms(8,9,11) add by (simp add: spec_consume_def keyed_def lg_used_def Let_def)
  have h: "fst ?h = (cq_Amount q, None)" "mem_view (snd ?h) = (mem_view (ti_hot s))\<lparr>lg_acct := (lg_acct (mem_view (ti_hot s)))(key \<mapsto> (cq_Amount q, cq_Limit q))\<rparr>"
    using mem.consume_result [of now q "ti_hot s"] mem.consume_view [of now q "ti_hot s"] sp [OF assms(6)]
    by (simp_all add: mem.bucket_of_def assms(5) [symmetric])
  have s1: "s1 = s\<lparr>ti_hot := snd ?h, ti_queue := [q]\<rparr>"
    using h(1) assms(1,2,4,18) by (simp add: ti_ConsumeQuota_def Let_def case_prod_unfold ti_enqueue_def)
  have "bucket_rq = key" if "bucket_rq = mem_usageKey (rr_UserID rq) (rr_Resource rq) (rr_Period rq)" for bucket_rq
    using that assms(5,12-14) by simp
  note rq = assms(5,8,12-17)
  have c: "mem_RefundQuota now rq (ti_cold s) = (None, ti_cold s)"
    using assms(7) rq by (simp add: mem_RefundQuota_def mem_refund_period_def)
  let ?h2 = "snd (mem_RefundQuota now rq (snd ?h))"
  have s2: "err = None" "s2 = s1\<lparr>ti_hot := ?h2\<rparr>"
    using assms(19) c s1 by (simp_all add: ti_RefundQuota_def write_through_def on_hot_def on_cold_def case_prod_unfold Let_def)
  have "lg_used (mem_view ?h2) key = max 0 (isub (cq_Amount q) (cq_Amount q))"
    using mem.refund_view [of rq now "snd ?h"] rq h(2)
    by (simp add: spec_refund_def lg_used_def del: mem_view_simps lg_used_mem_view)
  then have hot0: "lg_used (mem_view ?h2) key = 0" by (simp add: isub_def wrap64_def)
  obtain e s3 where j: "run_job memory_storage now q (s2\<lparr>ti_queue := []\<rparr>) = (e, s3)" by fastforce
  have "ti_cold s2 = ti_cold s" using s1 s2(2) by simp
  then have e: "e = None" "mem_view (ti_cold s3) = (mem_view (ti_cold s))\<lparr>lg_acct := (lg_acct (mem_view (ti_cold s)))(key \<mapsto> (cq_Amount q, cq_Limit q))\<rparr>"
    using j mem.consume_result [of now q "ti_cold s"] mem.consume_view [of now q "ti_cold s"] sp [OF assms(7)]
    by (auto simp: run_job_def case_prod_unfold Let_def mem.bucket_of_def assms(5) [symmetric])
  have "worker_step memory_storage conf s2 s3"
    by (rule worker_step.work [where req = q and reqs = "[]" and e = None and ?s1.0 = s3 and now = now])
      (use assms(3) s1 s2(2) j e(1) in simp_all)
  moreover have "ti_queue s3 = [] \<and> ti_hot s3 = ?h2" using j s2(2) run_job_parts [of memory_storage now q "s2\<lparr>ti_queue := []\<rparr>"] by simp
  ultimately show ?thesis using s2(1) hot0 e(2) by (intro conjI exI [of _ s3]) (simp_all add: lg_used_def)
qed

text \<open>The hot storage forgets: when it has no record of a bucket (a restart, an eviction), ConsumeQuota admits
  the full limit again, whatever the cold storage has recorded, and a top-up creates a hot record
  with its amount alone, which from then on hides the usage and the credits in the cold one.\<close>

theorem tiered_hot_loss:
  assumes "key = mem_usageKey (cq_UserID q) (cq_Resource q) (cq_Period q)" "lg_acct (mem_view (ti_hot s)) key = None"
    and "0 < cq_Amount q" "cq_Amount q \<le> cq_Limit q" "int64_ok (cq_Amount q)" "cq_IdempotencyKey q = ''''"
    and "ti_AddLimit memory_storage memory_storage now (cq_UserID q) (cq_Resource q) n (cq_Period q) '''' s = (err, s')"
  shows "fst (ti_ConsumeQuota memory_storage memory_storage conf now q s) = (cq_Amount q, None)
    \<and> (\<exists>v. fst (ti_GetUsage memory_storage memory_storage now' (cq_UserID q) (cq_Resource q) (cq_Period q) s') = Inr (Some v)
        \<and> u_Used v = 0 \<and> u_Limit v = n)"
proof -
  have none: "ms_usage (ti_hot s) key = None" using assms(2) by simp
  have "iadd 0 (cq_Amount q) = cq_Amount q" using assms(5) by (simp add: iadd_id)
  then have 1: "fst (ti_ConsumeQuota memory_storage memory_storage conf now q s) = (cq_Amount q, None)"
    using memory_pair.consume_hot [of conf now q s] assms(1,3,4,6) none by (simp add: mem_ConsumeQuota_def Let_def)
  have "err = None \<or> err = Some ErrIdempotencyKeyExists" "err = None"
    using assms(7) by (auto simp: ti_AddLimit_def write_through_def on_hot_def on_cold_def case_prod_unfold Let_def
        mem_AddLimit_def split: option.splits if_splits)
  then have "ms_usage (ti_hot s') key = Some \<lparr>u_UserID = cq_UserID q, u_Resource = cq_Resource q, u_Used = 0,
      u_Limit = n, u_Period = cq_Period q, u_Tier = ''default'', u_UpdatedAt = now\<rparr>"
    using assms(7) none by (auto simp: ti_AddLimit_def write_through_def on_hot_def on_cold_def case_prod_unfold
        Let_def mem_AddLimit_def assms(1) split: if_splits)
  then show ?thesis using 1
    by (simp add: ti_GetUsage_def on_hot_def mem_GetUsage_def assms(1) [symmetric])
qed

section \<open>The properties at a demo\<close>

definition ti_demo_conf :: TieredConfig where
  "ti_demo_conf = \<lparr>ti_AsyncUsageSync = True, ti_SyncBufferSize = 2, ti_AsyncErrorHandler = True\<rparr>"

definition ti_demo :: "(MemState, MemState) Tiered" where
  "ti_demo = \<lparr>ti_hot = mem_New, ti_cold = mem_New, ti_queue = [], ti_shutdown = False, ti_worker = Looping,
     ti_errors = []\<rparr>"

definition ti_demo_request :: ConsumeRequest where
  "ti_demo_request = \<lparr>cq_UserID = ''u'', cq_Resource = ''api'', cq_Amount = 7, cq_Tier = ''free'',
     cq_Period = \<lparr>p_Start = 0, p_End = 1, p_Type = PeriodTypeMonthly\<rparr>, cq_Limit = 10, cq_IdempotencyKey = '''',
     cq_IdempotencyKeyTTL = 0\<rparr>"

definition ti_demo_refund :: RefundRequest where
  "ti_demo_refund = \<lparr>rr_UserID = ''u'', rr_Resource = ''api'', rr_Amount = 7, rr_PeriodType = PeriodTypeMonthly,
     rr_Period = \<lparr>p_Start = 0, p_End = 1, p_Type = PeriodTypeMonthly\<rparr>, rr_IdempotencyKey = '''',
     rr_IdempotencyKeyTTL = 0, rr_Reason = '''', rr_Metadata = []\<rparr>"

lemmas ti_demo_defs = ti_demo_conf_def ti_demo_def ti_demo_request_def ti_demo_refund_def mem_New_def


lemma tiered_run_exact_witness:
  "let (rs, s') = quota_store.run (ti_ConsumeQuota memory_storage memory_storage ti_demo_conf)
     [(1, ti_demo_request), (2, ti_demo_request)] ti_demo
   in lg_used (mem_view (ti_hot s')) (mem_usageKey ''u'' ''api'' (cq_Period ti_demo_request)) \<le> 10"
  using tiered_run_exact [OF _ _ _ _ _ surjective_pairing, of "[(1, ti_demo_request), (2, ti_demo_request)]"
      "mem_usageKey ''u'' ''api'' (cq_Period ti_demo_request)" 10 ti_demo ti_demo_conf]
  by (simp add: case_prod_unfold ti_demo_defs)

lemma tiered_write_through_witness:
  "let (err, s') = ti_SetEntitlement memory_storage memory_storage 5 \<lparr>e_UserID = '''', e_Tier = ''t'',
       e_SubscriptionStartDate = 0, e_ExpiresAt = None, e_UpdatedAt = 0\<rparr> ti_demo
   in err = Some (ErrText ''invalid entitlement'') \<and> ti_hot s' = mem_New"
proof -
  define ent where "ent = \<lparr>e_UserID = '''', e_Tier = ''t'', e_SubscriptionStartDate = 0, e_ExpiresAt = None, e_UpdatedAt = 0\<rparr>"
  have "fst (ti_SetEntitlement memory_storage memory_storage 5 ent ti_demo) = Some (ErrText ''invalid entitlement'')"
    by (simp add: ti_SetEntitlement_def write_through_def on_cold_def mem_SetEntitlement_def ent_def)
  moreover have "ti_hot (snd (ti_SetEntitlement memory_storage memory_storage 5 ent ti_demo)) = ti_hot ti_demo"
    using calculation tiered_write_through [where op = "ti_SetEntitlement memory_storage memory_storage 5 ent"
        and write_cold = "st_SetEntitlement memory_storage 5 ent" and hot = memory_storage and cold = memory_storage
        and now = 5 and ent = ent and s = ti_demo, OF _ surjective_pairing]
    by simp
  ultimately show ?thesis by (simp add: case_prod_unfold ti_demo_def flip: ent_def)
qed

lemma tiered_refund_overtaken_witness:
  "\<exists>s3 :: (MemState, MemState) Tiered. ti_queue s3 = [] \<and> lg_used (mem_view (ti_hot s3)) ''u:api:1970-01-01'' = 0
    \<and> lg_used (mem_view (ti_cold s3)) ''u:api:1970-01-01'' = 7"
proof -
  have key: "''u:api:1970-01-01'' = mem_usageKey (cq_UserID ti_demo_request) (cq_Resource ti_demo_request) (cq_Period ti_demo_request)"
    by code_simp
  have z: "p_Start (cq_Period ti_demo_request) \<noteq> zero_time" by code_simp
  obtain err s2 where r: "ti_RefundQuota memory_storage memory_storage 5 ti_demo_refund
      (snd (ti_ConsumeQuota memory_storage memory_storage ti_demo_conf 5 ti_demo_request ti_demo)) = (err, s2)"
    by fastforce
  have "err = None \<and> (\<exists>s3. worker_step memory_storage ti_demo_conf s2 s3 \<and> ti_queue s3 = []
      \<and> lg_used (mem_view (ti_hot s3)) ''u:api:1970-01-01'' = 0
      \<and> lg_used (mem_view (ti_cold s3)) ''u:api:1970-01-01'' = cq_Amount ti_demo_request)"
    by (rule tiered_refund_overtaken [OF _ _ _ _ key _ _ _ _ _ _ _ _ _ _ _ z refl r])
      (simp_all add: ti_demo_defs int64_ok_def)
  then obtain s3 :: "(MemState, MemState) Tiered" where "ti_queue s3 = []" "lg_used (mem_view (ti_hot s3)) ''u:api:1970-01-01'' = 0"
    "lg_used (mem_view (ti_cold s3)) ''u:api:1970-01-01'' = cq_Amount ti_demo_request" by blast
  moreover have "cq_Amount ti_demo_request = 7" by (simp add: ti_demo_request_def)
  ultimately show ?thesis by metis
qed

lemma tiered_hot_loss_witness:
  "let s = ti_demo\<lparr>ti_cold := snd (mem_ConsumeQuota 5 (ti_demo_request\<lparr>cq_Amount := 10\<rparr>) mem_New)\<rparr>
   in fst (ti_ConsumeQuota memory_storage memory_storage ti_demo_conf 6 ti_demo_request s) = (7, None)"
  using tiered_hot_loss [OF refl _ _ _ _ _ surjective_pairing, of
      "ti_demo\<lparr>ti_cold := snd (mem_ConsumeQuota 5 (ti_demo_request\<lparr>cq_Amount := 10\<rparr>) mem_New)\<rparr>" ti_demo_request]
  by (simp add: ti_demo_def ti_demo_request_def mem_New_def int64_ok_def)

end
