(* ===== verification/RedisServer.thy ===== *)
theory RedisServer
  imports StorageApi "HOL-Library.State_Monad"
begin

text \<open>
  What the Redis backend uses of a Redis server and its client, neither of which is part of the
  repository: a client is a parameter that executes commands on the server's state \<open>'r\<close>. The
  locale \<open>redis_server\<close> states what the documentation of Redis promises of these commands, as the
  effect \<open>redis_exec\<close> on a keyspace whose entries have a type and an optional deadline;
  \<open>keyspace_client\<close> is the client of a server that is nothing but such a keyspace.

  A stored value is the decimal text of an integer, that of another number (\<open>%.17g\<close>, which is not a
  plain integer from \<open>10\<close> to the \<open>17\<close> on), the JSON document of one of the package's structs, or
  another text.
\<close>

section \<open>Values, commands and replies\<close>

datatype json_struct =
  DocEntitlement Entitlement | DocUsage Usage | DocConsumption ConsumptionRecord | DocRefund RefundRecord

datatype rval = RInteger int | RNumber float64 | RDoc json_struct | RText string

text \<open>A sorted set is a list of members with their scores; both are numbers here.\<close>

datatype rkey = RString rval | RHash "string \<Rightarrow> rval option" | RZset "(float64 \<times> float64) list"

datatype command =
    EXISTS string | GET string | SET string rval duration | HGET string string | HMGET string "string list"
  | HSET string "(string \<times> rval) list" | EXPIRE string int | HINCRBY string string goint | ZADD string float64 float64 | ZCARD string
  | ZFIRST string | ZREMRANGEBYSCORE string float64 | TIME

datatype reply =
  ReplyNil | ReplyOk | ReplyVal rval | ReplyVals "rval option list" | ReplyInt int | ReplyTime time | ReplyErr goerr

text \<open>
  A client: \<open>rc_trip\<close> is one round trip to the server, which may fail before the command runs, and
  \<open>rc_call\<close> a command executed there at an instant. A script is one trip with several commands.
\<close>

record 'r RedisClient =
  rc_trip :: "'r \<Rightarrow> goerr option \<times> 'r"
  rc_call :: "time \<Rightarrow> command \<Rightarrow> 'r \<Rightarrow> reply \<times> 'r"

section \<open>The documented effect of the commands\<close>

type_synonym keyspace = "string \<Rightarrow> (rkey \<times> time option) option"

definition live :: "time \<Rightarrow> keyspace \<Rightarrow> string \<Rightarrow> (rkey \<times> time option) option" where
  "live now ks k = (case ks k of
     Some (v, Some d) \<Rightarrow> if d \<le> now then None else Some (v, Some d)
   | e \<Rightarrow> e)"

definition wrong_type :: reply where
  "wrong_type = ReplyErr (ErrText ''WRONGTYPE Operation against a key holding the wrong kind of value'')"

text \<open>The hash or the sorted set of a key, empty if there is none, with the deadline it keeps.\<close>

definition hash_at :: "time \<Rightarrow> keyspace \<Rightarrow> string \<Rightarrow> ((string \<Rightarrow> rval option) \<times> time option) option" where
  "hash_at now ks k = (case live now ks k of
     None \<Rightarrow> Some (\<lambda>_. None, None)
   | Some (RHash h, d) \<Rightarrow> Some (h, d)
   | Some _ \<Rightarrow> None)"

definition zset_at :: "time \<Rightarrow> keyspace \<Rightarrow> string \<Rightarrow> ((float64 \<times> float64) list \<times> time option) option" where
  "zset_at now ks k = (case live now ks k of
     None \<Rightarrow> Some ([], None)
   | Some (RZset z, d) \<Rightarrow> Some (z, d)
   | Some _ \<Rightarrow> None)"

text \<open>An empty sorted set does not exist. \<open>TIME\<close> has microseconds.\<close>

definition put_zset :: "string \<Rightarrow> (float64 \<times> float64) list \<Rightarrow> time option \<Rightarrow> keyspace \<Rightarrow> keyspace" where
  "put_zset k z d ks = ks(k := if z = [] then None else Some (RZset z, d))"

definition min_score :: "(float64 \<times> float64) list \<Rightarrow> float64 option" where
  "min_score z = (case map snd z of [] \<Rightarrow> None | s # ss \<Rightarrow> Some (foldl min s ss))"

definition option_reply :: "rval option \<Rightarrow> reply" where
  "option_reply v = (case v of None \<Rightarrow> ReplyNil | Some v \<Rightarrow> ReplyVal v)"

text \<open>The integer a counter field holds, if its text is one; a field that does not exist counts as 0.\<close>

definition counter_value :: "rval option \<Rightarrow> goint option" where
  "counter_value v = (case v of None \<Rightarrow> Some 0 | Some (RInteger n) \<Rightarrow> Some n | Some _ \<Rightarrow> None)"

definition redis_exec :: "time \<Rightarrow> command \<Rightarrow> keyspace \<Rightarrow> reply \<times> keyspace" where
  "redis_exec now c ks = (case c of
     EXISTS k \<Rightarrow> (ReplyInt (if live now ks k = None then 0 else 1), ks)
   | GET k \<Rightarrow> (case live now ks k of
       None \<Rightarrow> (ReplyNil, ks)
     | Some (RString v, _) \<Rightarrow> (ReplyVal v, ks)
     | Some _ \<Rightarrow> (wrong_type, ks))
   | SET k v ttl \<Rightarrow> (ReplyOk, ks(k \<mapsto> (RString v, if ttl > 0 then Some (now + ttl) else None)))
   | HGET k f \<Rightarrow> (case hash_at now ks k of
       None \<Rightarrow> (wrong_type, ks)
     | Some (h, _) \<Rightarrow> (option_reply (h f), ks))
   | HMGET k fs \<Rightarrow> (case hash_at now ks k of
       None \<Rightarrow> (wrong_type, ks)
     | Some (h, _) \<Rightarrow> (ReplyVals (map h fs), ks))
   | HSET k fvs \<Rightarrow> (case hash_at now ks k of
       None \<Rightarrow> (wrong_type, ks)
     | Some (h, d) \<Rightarrow> (ReplyInt (int (card (set (map fst fvs) - dom h))), ks(k \<mapsto> (RHash (h ++ map_of (rev fvs)), d))))
   | EXPIRE k secs \<Rightarrow> (case live now ks k of
       None \<Rightarrow> (ReplyInt 0, ks)
     | Some (v, _) \<Rightarrow> (ReplyInt 1, ks(k := if secs > 0 then Some (v, Some (now + secs * ns_per_sec)) else None)))
   | HINCRBY k f n \<Rightarrow> (case hash_at now ks k of
       None \<Rightarrow> (wrong_type, ks)
     | Some (h, d) \<Rightarrow> (case counter_value (h f) of
         None \<Rightarrow> (ReplyErr (ErrText ''ERR hash value is not an integer''), ks)
       | Some old \<Rightarrow>
           if int64_ok (old + n)
           then (ReplyInt (old + n), ks(k \<mapsto> (RHash (h(f \<mapsto> RInteger (old + n))), d)))
           else (ReplyErr (ErrText ''ERR increment or decrement would overflow''), ks)))
   | ZADD k score member \<Rightarrow> (case zset_at now ks k of
       None \<Rightarrow> (wrong_type, ks)
     | Some (z, d) \<Rightarrow> (ReplyInt (if map_of z member = None then 1 else 0),
         put_zset k (AList.update member score z) d ks))
   | ZCARD k \<Rightarrow> (case zset_at now ks k of
       None \<Rightarrow> (wrong_type, ks)
     | Some (z, _) \<Rightarrow> (ReplyInt (int (length z)), ks))
   | ZFIRST k \<Rightarrow> (case zset_at now ks k of
       None \<Rightarrow> (wrong_type, ks)
     | Some (z, _) \<Rightarrow> (case min_score z of None \<Rightarrow> ReplyNil | Some s \<Rightarrow> ReplyVal (RNumber s), ks))
   | ZREMRANGEBYSCORE k to \<Rightarrow> (case zset_at now ks k of
       None \<Rightarrow> (wrong_type, ks)
     | Some (z, d) \<Rightarrow> (ReplyInt (int (length (filter (\<lambda>(m, s). s \<le> to) z))),
         if live now ks k = None then ks else put_zset k (filter (\<lambda>(m, s). \<not> s \<le> to) z) d ks))
   | TIME \<Rightarrow> (ReplyTime (now - now mod 1000), ks))"

definition keyspace_client :: "keyspace RedisClient" where
  "keyspace_client = \<lparr>rc_trip = (\<lambda>ks. (None, ks)), rc_call = redis_exec\<rparr>"

section \<open>Computations on a server\<close>

text \<open>
  A computation that fails ends with its error. \<open>redis_do\<close> is a command inside a script, and
  \<open>redis_trip\<close> a round trip around a command or script; \<open>k\<close> is what follows a success.
\<close>

definition redis_do :: "'r RedisClient \<Rightarrow> time \<Rightarrow> command \<Rightarrow> (reply \<Rightarrow> ('r, goerr + 'a) state) \<Rightarrow> ('r, goerr + 'a) state" where
  "redis_do C now c k = do {
     r \<leftarrow> State (rc_call C now c);
     case r of ReplyErr err \<Rightarrow> State_Monad.return (Inl err) | _ \<Rightarrow> k r
   }"

definition redis_trip :: "'r RedisClient \<Rightarrow> ('r, goerr + 'a) state \<Rightarrow> ('r, goerr + 'a) state" where
  "redis_trip C f = do {
     e \<leftarrow> State (rc_trip C);
     case e of Some err \<Rightarrow> State_Monad.return (Inl err) | None \<Rightarrow> f
   }"

text \<open>A pipeline: every command is executed in order, and the first error is its result.\<close>

primrec redis_pipeline :: "'r RedisClient \<Rightarrow> time \<Rightarrow> command list \<Rightarrow> ('r, goerr + unit) state" where
  "redis_pipeline C now [] = State_Monad.return (Inr ())"
| "redis_pipeline C now (c # cs) = do {
     r \<leftarrow> State (rc_call C now c);
     rest \<leftarrow> redis_pipeline C now cs;
     State_Monad.return (case r of ReplyErr err \<Rightarrow> Inl err | _ \<Rightarrow> rest)
   }"

section \<open>The contract of a server\<close>

text \<open>A computation does on the server what the same one does on its keyspace.\<close>

definition sim :: "('r \<Rightarrow> keyspace) \<Rightarrow> ('r, 'a) state \<Rightarrow> (keyspace, 'a) state \<Rightarrow> bool" where
  "sim ks c d \<longleftrightarrow> (\<forall>r. run_state d (ks r) = (fst (run_state c r), ks (snd (run_state c r))))"

named_theorems sim_intros \<open>computations that do the same on a server and on its keyspace\<close>

locale redis_server =
  fixes C :: "'r RedisClient"
    and ks :: "'r \<Rightarrow> keyspace"
  assumes call_effect: "redis_exec now c (ks r) = (fst (rc_call C now c r), ks (snd (rc_call C now c r)))"
    and no_outage: "fst (rc_trip C r) = None" "ks (snd (rc_trip C r)) = ks r"
begin

lemma sim_return [sim_intros]: "sim ks (State_Monad.return x) (State_Monad.return x)"
  by (simp add: sim_def)

lemma sim_bind [sim_intros]:
  assumes "sim ks c d" "\<And>x. sim ks (f x) (g x)"
  shows "sim ks (c \<bind> f) (d \<bind> g)"
  using assms by (simp add: sim_def case_prod_unfold)

lemma sim_call [sim_intros]: "sim ks (State (rc_call C now c)) (State (rc_call keyspace_client now c))"
  using call_effect by (simp add: sim_def keyspace_client_def)

lemma sim_do [sim_intros]:
  assumes "\<And>x. sim ks (f x) (g x)"
  shows "sim ks (redis_do C now c f) (redis_do keyspace_client now c g)"
  unfolding redis_do_def by (rule sim_bind [OF sim_call]) (auto split: reply.split intro: assms sim_return)

lemma sim_pipeline [sim_intros]:
  "sim ks (redis_pipeline C now cs) (redis_pipeline keyspace_client now cs)"
  by (induction cs) (auto intro!: sim_bind sim_call sim_return)

lemma sim_trip [sim_intros]:
  assumes "sim ks f g"
  shows "sim ks (redis_trip C f) (redis_trip keyspace_client g)"
  unfolding sim_def
proof
  fix r
  have "run_state g (ks (snd (rc_trip C r)))
    = (fst (run_state f (snd (rc_trip C r))), ks (snd (run_state f (snd (rc_trip C r)))))"
    using assms by (simp only: sim_def)
  then show "run_state (redis_trip keyspace_client g) (ks r)
    = (fst (run_state (redis_trip C f) r), ks (snd (run_state (redis_trip C f) r)))"
    using no_outage by (simp add: redis_trip_def keyspace_client_def case_prod_unfold)
qed

end

lemmas sim_splits = option.split sum.split rval.split json_struct.split

interpretation keyspace: redis_server keyspace_client "\<lambda>ks. ks"
  by standard (simp_all add: keyspace_client_def)

lemma simD: "sim ks c d \<Longrightarrow> fst (run_state c r) = fst (run_state d (ks r))
    \<and> ks (snd (run_state c r)) = snd (run_state d (ks r))"
  by (simp add: sim_def)

end
