(* ===== verification/RedisStorage.thy ===== *)
theory RedisStorage
  imports RedisServer MemoryStorage
begin

text \<open>
  The Redis backend, \<open>storage/redis/redis.go\<close>: the Go methods and the Lua scripts they run. Each
  script is one definition over the commands of a client \<open>C\<close>, which is a parameter; it is one round
  trip, during which no other command runs. The clocks of application and server agree.

  Lua's numbers are floats, so a script computes in floats; \<open>lua_number\<close> is \<open>tonumber\<close>, \<open>lua_text\<close> the
  text of a number in a command, and a number a script returns is truncated to a 64-bit integer. JSON text is not built: the document of a
  struct stands for it, and \<open>json.Unmarshal\<close> of anything else is an error. The lookup of \<open>newUsed\<close>
  in a consumption record finds nothing, since the Go field is encoded under its own name,
  \<open>NewUsed\<close>.
\<close>

type_synonym ('r, 'a) redis = "('r, goerr + 'a) state"

record RedisConfig =
  rd_KeyPrefix :: string
  rd_EntitlementTTL :: duration
  rd_UsageTTL :: duration
  rd_MaxRetries :: goint

definition redis_DefaultConfig :: RedisConfig where
  "redis_DefaultConfig = \<lparr>rd_KeyPrefix = ''goquota:'', rd_EntitlementTTL = 24 * 3600 * ns_per_sec,
     rd_UsageTTL = 0, rd_MaxRetries = 3\<rparr>"

text \<open>\<open>New\<close>: the configuration of the storage over a client, if there is one.\<close>

definition redis_New :: "'r RedisClient option \<Rightarrow> RedisConfig \<Rightarrow> goerr + ('r RedisClient \<times> RedisConfig)" where
  "redis_New client config = (case client of
     None \<Rightarrow> Inl (ErrText ''redis client is required'')
   | Some C \<Rightarrow> Inr (C, config\<lparr>
       rd_KeyPrefix := (if rd_KeyPrefix config = '''' then ''goquota:'' else rd_KeyPrefix config),
       rd_MaxRetries := (if rd_MaxRetries config = 0 then 3 else rd_MaxRetries config)\<rparr>))"

section \<open>Keys\<close>

definition redis_entitlementKey :: "RedisConfig \<Rightarrow> string \<Rightarrow> string" where
  "redis_entitlementKey c userID = rd_KeyPrefix c @ ''entitlement:'' @ userID"

definition redis_usageKey :: "RedisConfig \<Rightarrow> string \<Rightarrow> string \<Rightarrow> Period \<Rightarrow> string" where
  "redis_usageKey c userID resource period =
     rd_KeyPrefix c @ ''usage:'' @ userID @ '':'' @ resource @ '':'' @ period_Key period"

definition redis_refundKey :: "RedisConfig \<Rightarrow> string \<Rightarrow> string" where
  "redis_refundKey c key = rd_KeyPrefix c @ ''refund:'' @ key"

definition redis_consumptionKey :: "RedisConfig \<Rightarrow> string \<Rightarrow> string" where
  "redis_consumptionKey c key = rd_KeyPrefix c @ ''consumption:'' @ key"

definition redis_rateLimitKey :: "RedisConfig \<Rightarrow> string \<Rightarrow> string \<Rightarrow> string" where
  "redis_rateLimitKey c userID resource = rd_KeyPrefix c @ ''ratelimit:'' @ userID @ '':'' @ resource"

definition redis_topUpKey :: "RedisConfig \<Rightarrow> string \<Rightarrow> string" where
  "redis_topUpKey c key = rd_KeyPrefix c @ ''topup:'' @ key"

section \<open>Conversions\<close>

text \<open>\<open>int64(d.Seconds())\<close>, and the seconds of an \<open>EXPIRE\<close> the client sends for a duration.\<close>

definition whole_seconds :: "duration \<Rightarrow> goint" where
  "whole_seconds d = f_to_int (Some (duration_Seconds d))"

definition expire_seconds :: "duration \<Rightarrow> goint" where
  "expire_seconds d = (if 0 < d \<and> d < ns_per_sec then 1 else d div ns_per_sec)"

text \<open>A TTL of a request or its default of 24 hours, in seconds.\<close>

definition record_ttl :: "duration \<Rightarrow> goint" where
  "record_ttl d = (if d > 0 then whole_seconds d else 24 * 60 * 60)"

definition lua_number :: "rval \<Rightarrow> float64 option" where
  "lua_number v = (case v of RInteger n \<Rightarrow> Some (fl (of_int n)) | RNumber x \<Rightarrow> Some x | _ \<Rightarrow> None)"

definition lua_text :: "float64 \<Rightarrow> rval" where
  "lua_text x = (if x = of_int \<lfloor>x\<rfloor> \<and> \<bar>x\<bar> < 10 ^ 17 then RInteger \<lfloor>x\<rfloor> else RNumber x)"

definition script_error :: goerr where
  "script_error = ErrText ''attempt to perform arithmetic on a nil value''"

definition to_reply_int :: "float64 \<Rightarrow> goint" where
  "to_reply_int x = f_to_int (Some x)"

text \<open>
  \<open>fmt.Sscanf(text, "%d", &used)\<close>: the digits up to the first other character, which in the
  scientific notation of a large number is the decimal point after the first digit.
\<close>

definition leading_digit :: "int \<Rightarrow> int" where
  "leading_digit n =
     (let e = int (length (show_nat (nat n))) - 1; d = round_half_even (of_int n / 10 ^ nat (e - 16))
      in if d = 10 ^ 17 then 1 else d div 10 ^ 16)"

definition scan_int :: "rval \<Rightarrow> goint option" where
  "scan_int v = (case v of
     RInteger n \<Rightarrow> if int64_ok n then Some n else None
   | RNumber x \<Rightarrow> (let n = rat_trunc x in
       Some (if \<bar>n\<bar> < 10 ^ 17 then n else sgn n * leading_digit \<bar>n\<bar>))
   | _ \<Rightarrow> None)"

text \<open>A time is encoded if its year has at most four digits.\<close>

definition json_time :: "time \<Rightarrow> bool" where
  "json_time t \<longleftrightarrow> 0 \<le> time_Year t \<and> time_Year t \<le> 9999"

definition json_period :: "Period \<Rightarrow> bool" where
  "json_period p \<longleftrightarrow> json_time (p_Start p) \<and> json_time (p_End p)"

definition marshal_if :: "bool \<Rightarrow> string \<Rightarrow> json_struct \<Rightarrow> goerr + rval" where
  "marshal_if ok msg doc =
     (if ok then Inr (RDoc doc)
      else Inl (Wrapped msg (ErrText ''Time.MarshalJSON: year outside of range [0,9999]'')))"

definition marshal_usage :: "Usage \<Rightarrow> goerr + rval" where
  "marshal_usage u =
     marshal_if (json_period (u_Period u) \<and> json_time (u_UpdatedAt u)) ''failed to marshal usage'' (DocUsage u)"

section \<open>Entitlements\<close>

definition redis_GetEntitlement :: "'r RedisClient \<Rightarrow> RedisConfig \<Rightarrow> time \<Rightarrow> string \<Rightarrow> ('r, Entitlement) redis" where
  "redis_GetEntitlement C c now userID = do {
     r \<leftarrow> redis_trip C (redis_do C now (GET (redis_entitlementKey c userID)) (\<lambda>r. State_Monad.return (Inr r)));
     State_Monad.return (case r of
       Inl err \<Rightarrow> Inl (Wrapped ''failed to get entitlement'' err)
     | Inr (ReplyVal (RDoc (DocEntitlement ent))) \<Rightarrow> Inr ent
     | Inr (ReplyVal _) \<Rightarrow> Inl (Wrapped ''failed to unmarshal entitlement'' (ErrText ''json''))
     | Inr _ \<Rightarrow> Inl ErrEntitlementNotFound)
   }"

definition redis_SetEntitlement :: "'r RedisClient \<Rightarrow> RedisConfig \<Rightarrow> time \<Rightarrow> Entitlement \<Rightarrow> ('r, unit) redis" where
  "redis_SetEntitlement C c now ent =
     (if e_UserID ent = '''' then State_Monad.return (Inl (ErrText ''invalid entitlement''))
      else case marshal_if (json_time (e_SubscriptionStartDate ent) \<and> json_time (e_UpdatedAt ent)
            \<and> (case e_ExpiresAt ent of None \<Rightarrow> True | Some t \<Rightarrow> json_time t))
          ''failed to marshal entitlement'' (DocEntitlement ent) of
        Inl err \<Rightarrow> State_Monad.return (Inl err)
      | Inr data \<Rightarrow> do {
          r \<leftarrow> redis_trip C (redis_do C now (SET (redis_entitlementKey c (e_UserID ent)) data
                 (if rd_EntitlementTTL c > 0 then rd_EntitlementTTL c else 0)) (\<lambda>_. State_Monad.return (Inr ())));
          State_Monad.return (case r of
            Inl err \<Rightarrow> Inl (Wrapped ''failed to set entitlement'' err)
          | Inr _ \<Rightarrow> Inr ())
        })"

section \<open>Usage\<close>

definition redis_GetUsage :: "'r RedisClient \<Rightarrow> RedisConfig \<Rightarrow> time \<Rightarrow> string \<Rightarrow> string \<Rightarrow> Period
    \<Rightarrow> ('r, Usage option) redis" where
  "redis_GetUsage C c now userID resource period = do {
     r \<leftarrow> redis_trip C (redis_do C now (HMGET (redis_usageKey c userID resource period) [''data'', ''used''])
            (\<lambda>r. State_Monad.return (Inr r)));
     State_Monad.return (case r of
       Inl err \<Rightarrow> Inl (Wrapped ''failed to get usage'' err)
     | Inr (ReplyVals [Some (RDoc (DocUsage usage)), used]) \<Rightarrow> (case used of
         None \<Rightarrow> Inr (Some usage)
       | Some v \<Rightarrow> (case scan_int v of
           Some n \<Rightarrow> Inr (Some (usage\<lparr>u_Used := n\<rparr>))
         | None \<Rightarrow> Inl (Wrapped ''failed to parse usage'' (ErrText ''expected integer''))))
     | Inr (ReplyVals [Some _, _]) \<Rightarrow> Inl (Wrapped ''failed to unmarshal usage'' (ErrText ''json''))
     | Inr _ \<Rightarrow> Inr None)
   }"

definition redis_SetUsage :: "'r RedisClient \<Rightarrow> RedisConfig \<Rightarrow> time \<Rightarrow> string \<Rightarrow> string \<Rightarrow> Usage \<Rightarrow> Period
    \<Rightarrow> ('r, unit) redis" where
  "redis_SetUsage C c now userID resource usage period = (case marshal_usage usage of
     Inl err \<Rightarrow> State_Monad.return (Inl err)
   | Inr data \<Rightarrow> do {
       let key = redis_usageKey c userID resource period;
       r \<leftarrow> redis_trip C (redis_pipeline C now
              ([HSET key [(''used'', RInteger (u_Used usage))], HSET key [(''data'', data)]]
               @ (if p_Type period \<noteq> PeriodTypeForever \<and> rd_UsageTTL c > 0
                  then [EXPIRE key (expire_seconds (rd_UsageTTL c))] else [])));
       State_Monad.return (case r of
         Inl err \<Rightarrow> Inl (Wrapped ''failed to set usage'' err)
       | Inr _ \<Rightarrow> Inr ())
     })"

section \<open>Parts the scripts share\<close>

text \<open>\<open>if ttl > 0 then redis.call('EXPIRE', key, ttl) end\<close>\<close>

definition expire_if :: "'r RedisClient \<Rightarrow> time \<Rightarrow> string \<Rightarrow> goint \<Rightarrow> ('r, 'a) redis \<Rightarrow> ('r, 'a) redis" where
  "expire_if C now key ttl k = (if ttl > 0 then redis_do C now (EXPIRE key ttl) (\<lambda>_. k) else k)"

text \<open>A record under an idempotency key, with its deadline, if there is a key.\<close>

definition record_if :: "'r RedisClient \<Rightarrow> time \<Rightarrow> bool \<Rightarrow> string \<Rightarrow> rval \<Rightarrow> goint \<Rightarrow> ('r, 'a) redis \<Rightarrow> ('r, 'a) redis" where
  "record_if C now cond key data ttl k =
     (if cond then redis_do C now (SET key data 0) (\<lambda>_. expire_if C now key ttl k) else k)"

text \<open>The usage counter, 0 if there is none; a text that is no number gives \<open>nil\<close>.\<close>

definition lua_used :: "reply \<Rightarrow> float64 option" where
  "lua_used r = (case r of ReplyVal v \<Rightarrow> lua_number v | _ \<Rightarrow> Some 0)"

section \<open>Consumption\<close>

definition consumption_record :: "time \<Rightarrow> ConsumeRequest \<Rightarrow> goint \<Rightarrow> ConsumptionRecord" where
  "consumption_record now req newUsed =
     \<lparr>cn_ConsumptionID = cq_IdempotencyKey req, cn_UserID = cq_UserID req, cn_Resource = cq_Resource req,
      cn_Amount = cq_Amount req, cn_Period = cq_Period req, cn_Timestamp = now,
      cn_IdempotencyKey = cq_IdempotencyKey req, cn_NewUsed = newUsed, cn_Metadata = []\<rparr>"

definition marshal_consumption :: "ConsumptionRecord \<Rightarrow> goerr + rval" where
  "marshal_consumption r = marshal_if (json_period (cn_Period r) \<and> json_time (cn_Timestamp r))
     ''failed to marshal consumption record'' (DocConsumption r)"

definition prepareConsumptionRecord :: "time \<Rightarrow> ConsumeRequest \<Rightarrow> goerr + rval" where
  "prepareConsumptionRecord now req =
     (if cq_IdempotencyKey req = '''' then Inr (RText '''')
      else marshal_consumption (consumption_record now req 0))"

text \<open>The rest of the script after the idempotency check.\<close>

definition consume_main :: "'r RedisClient \<Rightarrow> time \<Rightarrow> string \<Rightarrow> string \<Rightarrow> float64 \<Rightarrow> float64 \<Rightarrow> rval \<Rightarrow> goint
    \<Rightarrow> rval \<Rightarrow> goint \<Rightarrow> ('r, float64 option \<times> string) redis" where
  "consume_main C now usageKey consumptionKey amount limit data ttl consumptionData consumptionTTL =
     redis_do C now (HGET usageKey ''used'') (\<lambda>current.
       case lua_used current of
         None \<Rightarrow> State_Monad.return (Inl script_error)
       | Some currentUsed \<Rightarrow>
           let newUsed = fl (currentUsed + amount) in
           if limit \<noteq> -1 \<and> newUsed > limit
           then State_Monad.return (Inr (Some currentUsed, ''quota_exceeded''))
           else
             redis_do C now (HSET usageKey [(''used'', lua_text newUsed)]) (\<lambda>_.
             redis_do C now (HSET usageKey [(''data'', data)]) (\<lambda>_.
             expire_if C now usageKey ttl (
             record_if C now (consumptionKey \<noteq> '''' \<and> consumptionData \<noteq> RText '''')
               consumptionKey consumptionData consumptionTTL (
             State_Monad.return (Inr (Some newUsed, ''ok'')))))))"

text \<open>
  The \<open>consume\<close> script. A record that exists is decoded, but has no field \<open>newUsed\<close>, so the answer
  to a repeated request is the usage counter as it stands; \<open>{nil, 'ok'}\<close> is an empty reply.
\<close>

definition consume_script :: "'r RedisClient \<Rightarrow> time \<Rightarrow> string \<Rightarrow> string \<Rightarrow> float64 \<Rightarrow> float64 \<Rightarrow> rval \<Rightarrow> goint
    \<Rightarrow> rval \<Rightarrow> goint \<Rightarrow> ('r, float64 option \<times> string) redis" where
  "consume_script C now usageKey consumptionKey amount limit data ttl consumptionData consumptionTTL =
     (let main = consume_main C now usageKey consumptionKey amount limit data ttl consumptionData consumptionTTL in
      if consumptionKey = '''' then main
      else redis_do C now (EXISTS consumptionKey) (\<lambda>exists.
        if exists \<noteq> ReplyInt 1 then main
        else redis_do C now (GET consumptionKey) (\<lambda>record.
          if record = ReplyNil then main
          else redis_do C now (HGET usageKey ''used'') (\<lambda>current.
            State_Monad.return (Inr (lua_used current, ''ok''))))))"

definition updateConsumptionRecord :: "'r RedisClient \<Rightarrow> time \<Rightarrow> ConsumeRequest \<Rightarrow> string \<Rightarrow> goint \<Rightarrow> ('r, unit) redis" where
  "updateConsumptionRecord C now req consumptionKey newUsed =
     (if cq_IdempotencyKey req = '''' \<or> consumptionKey = '''' then State_Monad.return (Inr ())
      else case marshal_consumption (consumption_record now req newUsed) of
        Inl err \<Rightarrow> State_Monad.return (Inr ())
      | Inr data \<Rightarrow> redis_trip C (redis_do C now
          (SET consumptionKey data (record_ttl (cq_IdempotencyKeyTTL req) * ns_per_sec))
          (\<lambda>_. State_Monad.return (Inr ()))))"

definition redis_ConsumeQuota :: "'r RedisClient \<Rightarrow> RedisConfig \<Rightarrow> time \<Rightarrow> ConsumeRequest
    \<Rightarrow> ('r, goint \<times> goerr option) state" where
  "redis_ConsumeQuota C c now req =
     (if cq_Amount req < 0 then State_Monad.return (0, Some ErrInvalidAmount)
      else if cq_Amount req = 0 then State_Monad.return (0, None)
      else
        let usageKey = redis_usageKey c (cq_UserID req) (cq_Resource req) (cq_Period req);
            consumptionKey = (if cq_IdempotencyKey req \<noteq> '''' then redis_consumptionKey c (cq_IdempotencyKey req) else '''')
        in case marshal_usage \<lparr>u_UserID = cq_UserID req, u_Resource = cq_Resource req, u_Used = 0,
             u_Limit = cq_Limit req, u_Period = cq_Period req, u_Tier = cq_Tier req, u_UpdatedAt = now\<rparr> of
          Inl err \<Rightarrow> State_Monad.return (0, Some err)
        | Inr usageData \<Rightarrow>
            let ttl = (if p_Type (cq_Period req) \<noteq> PeriodTypeForever \<and> rd_UsageTTL c > 0
                       then whole_seconds (rd_UsageTTL c) else 0)
            in case prepareConsumptionRecord now req of
              Inl err \<Rightarrow> State_Monad.return (0, Some err)
            | Inr consumptionData \<Rightarrow> do {
                result \<leftarrow> redis_trip C (consume_script C now usageKey consumptionKey (f_of_int (cq_Amount req))
                  (f_of_int (cq_Limit req)) usageData ttl consumptionData (record_ttl (cq_IdempotencyKeyTTL req)));
                case result of
                  Inl err \<Rightarrow> State_Monad.return (0, Some (Wrapped ''failed to execute consume script'' err))
                | Inr (None, _) \<Rightarrow> State_Monad.return (0, Some (ErrText ''unexpected script result format''))
                | Inr (Some x, status) \<Rightarrow>
                    let newUsed = to_reply_int x in
                    if status = ''quota_exceeded'' then State_Monad.return (newUsed, Some ErrQuotaExceeded)
                    else do {
                      _ \<leftarrow> updateConsumptionRecord C now req consumptionKey newUsed;
                      State_Monad.return (newUsed, None)
                    }
              })"

section \<open>Tier changes and refunds\<close>

definition tierChange_script :: "'r RedisClient \<Rightarrow> time \<Rightarrow> string \<Rightarrow> float64 \<Rightarrow> rval \<Rightarrow> goint \<Rightarrow> ('r, unit) redis" where
  "tierChange_script C now key newLimit data ttl =
     redis_do C now (HSET key [(''limit'', lua_text newLimit)]) (\<lambda>_.
     redis_do C now (HSET key [(''data'', data)]) (\<lambda>_.
     expire_if C now key ttl (State_Monad.return (Inr ()))))"

text \<open>The key is built from a fixed resource name; the resource of the request is not read.\<close>

definition redis_ApplyTierChange :: "'r RedisClient \<Rightarrow> RedisConfig \<Rightarrow> time \<Rightarrow> TierChangeRequest \<Rightarrow> ('r, unit) redis" where
  "redis_ApplyTierChange C c now req =
     (let key = redis_usageKey c (tq_UserID req) ''audio_seconds'' (tq_Period req) in
      case marshal_usage \<lparr>u_UserID = tq_UserID req, u_Resource = ''audio_seconds'', u_Used = tq_CurrentUsed req,
          u_Limit = tq_NewLimit req, u_Period = tq_Period req, u_Tier = tq_NewTier req, u_UpdatedAt = now\<rparr> of
        Inl err \<Rightarrow> State_Monad.return (Inl err)
      | Inr usageData \<Rightarrow> do {
          r \<leftarrow> redis_trip C (tierChange_script C now key (f_of_int (tq_NewLimit req)) usageData
                 (if rd_UsageTTL c > 0 then whole_seconds (rd_UsageTTL c) else 0));
          State_Monad.return (case r of
            Inl err \<Rightarrow> Inl (Wrapped ''failed to execute tier change script'' err)
          | Inr _ \<Rightarrow> Inr ())
        })"

definition record_refund :: "time \<Rightarrow> RefundRequest \<Rightarrow> Period \<Rightarrow> RefundRecord" where
  "record_refund now req period =
     \<lparr>rf_RefundID = rr_IdempotencyKey req, rf_UserID = rr_UserID req, rf_Resource = rr_Resource req,
      rf_Amount = rr_Amount req, rf_Period = period, rf_Timestamp = now,
      rf_IdempotencyKey = rr_IdempotencyKey req, rf_Reason = rr_Reason req, rf_Metadata = rr_Metadata req\<rparr>"

text \<open>The \<open>refund\<close> script without and with the idempotency check; its results \<open>'ok'\<close> and
  \<open>'idempotent'\<close> are treated alike.\<close>

definition refund_main :: "'r RedisClient \<Rightarrow> time \<Rightarrow> string \<Rightarrow> string \<Rightarrow> float64 \<Rightarrow> rval \<Rightarrow> goint \<Rightarrow> goint
    \<Rightarrow> ('r, string) redis" where
  "refund_main C now usageKey refundKey amount refundData usageTTL refundTTL =
     (let ok = record_if C now (refundKey \<noteq> '''') refundKey refundData refundTTL (State_Monad.return (Inr ''ok'')) in
      redis_do C now (HGET usageKey ''used'') (\<lambda>current.
        if current = ReplyNil then ok
        else case lua_used current of
          None \<Rightarrow> State_Monad.return (Inl script_error)
        | Some currentUsed \<Rightarrow>
            let newUsed = fl (currentUsed - amount);
                newUsed = (if newUsed < 0 then 0 else newUsed)
            in redis_do C now (HSET usageKey [(''used'', lua_text newUsed)]) (\<lambda>_.
               expire_if C now usageKey usageTTL ok)))"

definition refund_script :: "'r RedisClient \<Rightarrow> time \<Rightarrow> string \<Rightarrow> string \<Rightarrow> float64 \<Rightarrow> rval \<Rightarrow> goint \<Rightarrow> goint
    \<Rightarrow> ('r, string) redis" where
  "refund_script C now usageKey refundKey amount refundData usageTTL refundTTL =
     (let main = refund_main C now usageKey refundKey amount refundData usageTTL refundTTL in
      if refundKey = '''' then main
      else redis_do C now (EXISTS refundKey) (\<lambda>exists.
        if exists = ReplyInt 1 then State_Monad.return (Inr ''idempotent'') else main))"

text \<open>The period is found as in the in-memory backend (\<open>mem_refund_period\<close>, the same code).\<close>

definition redis_RefundQuota :: "'r RedisClient \<Rightarrow> RedisConfig \<Rightarrow> time \<Rightarrow> RefundRequest \<Rightarrow> ('r, unit) redis" where
  "redis_RefundQuota C c now req =
     (if rr_Amount req < 0 then State_Monad.return (Inl ErrInvalidAmount)
      else if rr_Amount req = 0 then State_Monad.return (Inr ())
      else case mem_refund_period now req of
        Inl err \<Rightarrow> State_Monad.return (Inl err)
      | Inr period \<Rightarrow>
          let usageKey = redis_usageKey c (rr_UserID req) (rr_Resource req) period;
              refundKey = (if rr_IdempotencyKey req \<noteq> '''' then redis_refundKey c (rr_IdempotencyKey req) else '''')
          in case marshal_if (json_period period \<and> json_time now) ''failed to marshal refund record''
              (DocRefund (record_refund now req period)) of
            Inl err \<Rightarrow> State_Monad.return (Inl err)
          | Inr refundData \<Rightarrow> do {
              res \<leftarrow> redis_trip C (refund_script C now usageKey refundKey (f_of_int (rr_Amount req)) refundData
                (if rd_UsageTTL c > 0 then whole_seconds (rd_UsageTTL c) else 0)
                (record_ttl (rr_IdempotencyKeyTTL req)));
              State_Monad.return (case res of
                Inl err \<Rightarrow> Inl (Wrapped ''failed to execute refund script'' err)
              | Inr _ \<Rightarrow> Inr ())
            })"

definition redis_GetRefundRecord :: "'r RedisClient \<Rightarrow> RedisConfig \<Rightarrow> time \<Rightarrow> string \<Rightarrow> ('r, RefundRecord option) redis" where
  "redis_GetRefundRecord C c now idempotencyKey =
     (if idempotencyKey = '''' then State_Monad.return (Inr None)
      else do {
        r \<leftarrow> redis_trip C (redis_do C now (GET (redis_refundKey c idempotencyKey)) (\<lambda>r. State_Monad.return (Inr r)));
        State_Monad.return (case r of
          Inl err \<Rightarrow> Inl (Wrapped ''failed to get refund record'' err)
        | Inr (ReplyVal (RDoc (DocRefund record))) \<Rightarrow> Inr (Some record)
        | Inr (ReplyVal _) \<Rightarrow> Inl (Wrapped ''failed to unmarshal refund record'' (ErrText ''json''))
        | Inr _ \<Rightarrow> Inr None)
      })"

definition redis_GetConsumptionRecord :: "'r RedisClient \<Rightarrow> RedisConfig \<Rightarrow> time \<Rightarrow> string
    \<Rightarrow> ('r, ConsumptionRecord option) redis" where
  "redis_GetConsumptionRecord C c now idempotencyKey =
     (if idempotencyKey = '''' then State_Monad.return (Inr None)
      else do {
        r \<leftarrow> redis_trip C (redis_do C now (GET (redis_consumptionKey c idempotencyKey)) (\<lambda>r. State_Monad.return (Inr r)));
        State_Monad.return (case r of
          Inl err \<Rightarrow> Inl (Wrapped ''failed to get consumption record'' err)
        | Inr (ReplyVal (RDoc (DocConsumption record))) \<Rightarrow> Inr (Some record)
        | Inr (ReplyVal _) \<Rightarrow> Inl (Wrapped ''failed to unmarshal consumption record'' (ErrText ''json''))
        | Inr _ \<Rightarrow> Inr None)
      })"

section \<open>Credit limits\<close>

text \<open>
  \<open>AddLimit\<close> and \<open>SubtractLimit\<close> count in the field \<open>limit\<close> of the usage hash; \<open>True\<close> is the status 1
  of their scripts, \<open>False\<close> that the key was processed before.
\<close>

definition addLimit_script :: "'r RedisClient \<Rightarrow> time \<Rightarrow> string \<Rightarrow> string \<Rightarrow> goint \<Rightarrow> goint \<Rightarrow> ('r, bool) redis" where
  "addLimit_script C now usageKey topUpKey amount ttl =
     (let main = redis_do C now (HINCRBY usageKey ''limit'' amount) (\<lambda>_.
        let rest = expire_if C now usageKey ttl (State_Monad.return (Inr True)) in
        if topUpKey \<noteq> '''' then redis_do C now (SET topUpKey (RInteger 1) (86400 * ns_per_sec)) (\<lambda>_. rest) else rest)
      in if topUpKey = '''' then main
         else redis_do C now (EXISTS topUpKey) (\<lambda>exists.
           if exists = ReplyInt 1 then State_Monad.return (Inr False) else main))"

definition redis_AddLimit :: "'r RedisClient \<Rightarrow> RedisConfig \<Rightarrow> time \<Rightarrow> string \<Rightarrow> string \<Rightarrow> goint \<Rightarrow> Period \<Rightarrow> string
    \<Rightarrow> ('r, unit) redis" where
  "redis_AddLimit C c now userID resource amount period idempotencyKey = do {
     let usageKey = redis_usageKey c userID resource period;
     let topUpKey = (if idempotencyKey \<noteq> '''' then redis_topUpKey c idempotencyKey else '''');
     let ttl = (if p_Type period \<noteq> PeriodTypeForever \<and> rd_UsageTTL c > 0
                then whole_seconds (rd_UsageTTL c) else 0);
     r \<leftarrow> redis_trip C (addLimit_script C now usageKey topUpKey amount ttl);
     State_Monad.return (case r of
       Inl err \<Rightarrow> Inl (Wrapped ''failed to execute add limit script'' err)
     | Inr status \<Rightarrow> if status then Inr () else Inl ErrIdempotencyKeyExists)
   }"

definition subtractLimit_script :: "'r RedisClient \<Rightarrow> time \<Rightarrow> string \<Rightarrow> string \<Rightarrow> float64 \<Rightarrow> ('r, bool) redis" where
  "subtractLimit_script C now usageKey refundKey amount =
     (let main = redis_do C now (HGET usageKey ''limit'') (\<lambda>current.
        case lua_used current of
          None \<Rightarrow> State_Monad.return (Inl script_error)
        | Some currentLimit \<Rightarrow>
            let newLimit = max 0 (fl (currentLimit - amount)) in
            redis_do C now (HSET usageKey [(''limit'', lua_text newLimit)]) (\<lambda>_.
            if refundKey \<noteq> ''''
            then redis_do C now (SET refundKey (RInteger 1) (86400 * ns_per_sec)) (\<lambda>_. State_Monad.return (Inr True))
            else State_Monad.return (Inr True)))
      in if refundKey = '''' then main
         else redis_do C now (EXISTS refundKey) (\<lambda>exists.
           if exists = ReplyInt 1 then State_Monad.return (Inr False) else main))"

definition redis_SubtractLimit :: "'r RedisClient \<Rightarrow> RedisConfig \<Rightarrow> time \<Rightarrow> string \<Rightarrow> string \<Rightarrow> goint \<Rightarrow> Period \<Rightarrow> string
    \<Rightarrow> ('r, unit) redis" where
  "redis_SubtractLimit C c now userID resource amount period idempotencyKey = do {
     let usageKey = redis_usageKey c userID resource period;
     let refundKey = (if idempotencyKey \<noteq> '''' then redis_refundKey c idempotencyKey else '''');
     r \<leftarrow> redis_trip C (subtractLimit_script C now usageKey refundKey (f_of_int amount));
     State_Monad.return (case r of
       Inl err \<Rightarrow> Inl (Wrapped ''failed to execute subtract limit script'' err)
     | Inr status \<Rightarrow> if status then Inr () else Inl ErrIdempotencyKeyExists)
   }"

section \<open>Rate limits\<close>

text \<open>
  \<open>redis_refill\<close> and \<open>token_decision\<close> are the arithmetic of the \<open>tokenBucket\<close> script on whole seconds.
  A division by a zero window is an infinity of the sign of its dividend (or not a number), a
  reset time that is no number is \<open>None\<close>.
\<close>

definition redis_refill :: "float64 \<Rightarrow> float64 \<Rightarrow> float64 \<Rightarrow> float64 \<Rightarrow> float64 \<Rightarrow> float64 \<Rightarrow> float64 \<times> float64" where
  "redis_refill now rate window burst tokens lastRefill =
     (let elapsed = fl (now - lastRefill) in
      if elapsed > 0 then
        case f_div (f_mul rate elapsed) window of
          None \<Rightarrow> if f_mul rate elapsed > 0 then (burst, now) else (tokens, lastRefill)
        | Some q \<Rightarrow>
            let tokensToAdd = of_int \<lfloor>q\<rfloor> in
            if tokensToAdd > 0 then (min (fl (tokens + tokensToAdd)) burst, now) else (tokens, lastRefill)
      else (tokens, lastRefill))"

definition plus_ceil :: "float64 \<Rightarrow> float64 option \<Rightarrow> float64 option" where
  "plus_ceil t x = (case x of None \<Rightarrow> None | Some q \<Rightarrow> Some (fl (t + of_int \<lceil>q\<rceil>)))"

definition token_decision :: "float64 \<Rightarrow> float64 \<Rightarrow> float64 \<Rightarrow> float64 \<Rightarrow> float64 \<times> float64
    \<Rightarrow> float64 \<times> bool \<times> float64 \<times> float64 option" where
  "token_decision now rate window burst = (\<lambda>(tokens, lastRefill).
     if tokens \<le> 0 then (tokens, False, 0, plus_ceil lastRefill (f_div window rate))
     else
       let tokens = fl (tokens - 1) in
       (tokens, True, tokens,
        if tokens < burst then plus_ceil now (f_div (f_mul (fl (burst - tokens)) window) rate)
        else Some (fl (now + window))))"

text \<open>The state of a bucket: both fields or a full bucket.\<close>

definition bucket_fields :: "float64 \<Rightarrow> float64 \<Rightarrow> reply \<Rightarrow> float64 \<times> float64" where
  "bucket_fields now burst data = (case data of
     ReplyVals [Some t, Some l] \<Rightarrow>
       ((case lua_number t of None \<Rightarrow> burst | Some x \<Rightarrow> x), (case lua_number l of None \<Rightarrow> now | Some x \<Rightarrow> x))
   | _ \<Rightarrow> (burst, now))"

definition tokenBucket_script :: "'r RedisClient \<Rightarrow> time \<Rightarrow> string \<Rightarrow> float64 \<Rightarrow> float64 \<Rightarrow> float64 \<Rightarrow> float64 \<Rightarrow> goint
    \<Rightarrow> ('r, bool \<times> float64 \<times> float64 option) redis" where
  "tokenBucket_script C clock key now rate window burst ttl =
     redis_do C clock (HMGET key [''tokens'', ''lastRefill'']) (\<lambda>data.
       let (tokens, lastRefill) = bucket_fields now burst data;
           (tokens, lastRefill) = redis_refill now rate window burst tokens lastRefill;
           (tokens, allowed, remaining, resetTime) = token_decision now rate window burst (tokens, lastRefill)
       in redis_do C clock (HSET key [(''tokens'', lua_text tokens), (''lastRefill'', lua_text lastRefill)]) (\<lambda>_.
          expire_if C clock key ttl (State_Monad.return (Inr (allowed, remaining, resetTime)))))"

definition window_reset :: "float64 \<Rightarrow> float64 \<Rightarrow> reply \<Rightarrow> float64" where
  "window_reset now window oldest = (case oldest of
     ReplyVal v \<Rightarrow> (case lua_number v of None \<Rightarrow> fl (now + window) | Some oldestTime \<Rightarrow> fl (oldestTime + window))
   | _ \<Rightarrow> fl (now + window))"

definition reply_number :: "reply \<Rightarrow> float64" where
  "reply_number r = (case r of ReplyInt n \<Rightarrow> of_int n | _ \<Rightarrow> 0)"

text \<open>A request is a member of the set under its second, so the requests of one second are one member.\<close>

definition slidingWindow_script :: "'r RedisClient \<Rightarrow> time \<Rightarrow> string \<Rightarrow> float64 \<Rightarrow> float64 \<Rightarrow> float64 \<Rightarrow> goint
    \<Rightarrow> ('r, bool \<times> float64 \<times> float64 option) redis" where
  "slidingWindow_script C clock key now limit window ttl =
     redis_do C clock (ZREMRANGEBYSCORE key (fl (now - window))) (\<lambda>_.
     redis_do C clock (ZCARD key) (\<lambda>card.
       let count = reply_number card in
       if count \<ge> limit then
         redis_do C clock (ZFIRST key) (\<lambda>oldest.
         expire_if C clock key ttl (State_Monad.return (Inr (False, 0, Some (window_reset now window oldest)))))
       else
         redis_do C clock (ZADD key now now) (\<lambda>_.
         redis_do C clock (ZFIRST key) (\<lambda>oldest.
         expire_if C clock key ttl
           (State_Monad.return (Inr (True, fl (fl (limit - count) - 1), Some (window_reset now window oldest))))))))"

definition redis_CheckRateLimit :: "'r RedisClient \<Rightarrow> RedisConfig \<Rightarrow> time \<Rightarrow> RateLimitRequest
    \<Rightarrow> ('r, bool \<times> goint \<times> time) redis" where
  "redis_CheckRateLimit C c now req =
     (let key = redis_rateLimitKey c (rq_UserID req) (rq_Resource req);
          nowUnix = rq_Now req div ns_per_sec;
          ttl = f_to_int (Some (f_mul (duration_Seconds (rq_Window req)) 2));
          window = f_of_int (whole_seconds (rq_Window req));
          finish = (\<lambda>result. State_Monad.return (case result of
              Inl err \<Rightarrow> Inl (Wrapped ''failed to execute rate limit script'' err)
            | Inr (allowed, remaining, resetTime) \<Rightarrow>
                Inr (allowed, to_reply_int remaining, f_to_int resetTime * ns_per_sec)))
      in if rq_Algorithm req = ''token_bucket'' then
           redis_trip C (tokenBucket_script C now key (f_of_int nowUnix) (f_of_int (rq_Rate req)) window
             (f_of_int (if rq_Burst req \<le> 0 then rq_Rate req else rq_Burst req)) ttl) \<bind> finish
         else if rq_Algorithm req = ''sliding_window'' then
           redis_trip C (slidingWindow_script C now key (f_of_int nowUnix) (f_of_int (rq_Rate req)) window ttl) \<bind> finish
         else State_Monad.return (Inl (ErrText (''unknown rate limit algorithm: '' @ rq_Algorithm req))))"

definition redis_RecordRateLimitRequest :: "time \<Rightarrow> RateLimitRequest \<Rightarrow> ('r, unit) redis" where
  "redis_RecordRateLimitRequest now req = State_Monad.return (Inr ())"

section \<open>The method table\<close>

definition redis_Now :: "'r RedisClient \<Rightarrow> time \<Rightarrow> ('r, time) redis" where
  "redis_Now C now = do {
     r \<leftarrow> redis_trip C (redis_do C now TIME (\<lambda>r. State_Monad.return (Inr r)));
     State_Monad.return (case r of
       Inl err \<Rightarrow> Inl (Wrapped ''failed to get Redis time, using local time'' err)
     | Inr (ReplyTime t) \<Rightarrow> Inr t
     | Inr _ \<Rightarrow> Inl (ErrText ''got unexpected reply''))
   }"

definition run_error :: "('r, unit) redis \<Rightarrow> 'r \<Rightarrow> goerr option \<times> 'r" where
  "run_error f r = (case run_state f r of (Inl err, r') \<Rightarrow> (Some err, r') | (Inr _, r') \<Rightarrow> (None, r'))"

definition redis_storage :: "'r RedisClient \<Rightarrow> RedisConfig \<Rightarrow> 'r Storage" where
  "redis_storage C c = \<lparr>
     st_GetEntitlement = (\<lambda>now u. run_state (redis_GetEntitlement C c now u)),
     st_SetEntitlement = (\<lambda>now ent. run_error (redis_SetEntitlement C c now ent)),
     st_GetUsage = (\<lambda>now u r p. run_state (redis_GetUsage C c now u r p)),
     st_ConsumeQuota = (\<lambda>now q. run_state (redis_ConsumeQuota C c now q)),
     st_ApplyTierChange = (\<lambda>now q. run_error (redis_ApplyTierChange C c now q)),
     st_SetUsage = (\<lambda>now u r usage p. run_error (redis_SetUsage C c now u r usage p)),
     st_RefundQuota = (\<lambda>now q. run_error (redis_RefundQuota C c now q)),
     st_GetRefundRecord = (\<lambda>now key. run_state (redis_GetRefundRecord C c now key)),
     st_GetConsumptionRecord = (\<lambda>now key. run_state (redis_GetConsumptionRecord C c now key)),
     st_CheckRateLimit = (\<lambda>now q. run_state (redis_CheckRateLimit C c now q)),
     st_RecordRateLimitRequest = (\<lambda>now q. run_error (redis_RecordRateLimitRequest now q)),
     st_AddLimit = (\<lambda>now u r n p key. run_error (redis_AddLimit C c now u r n p key)),
     st_SubtractLimit = (\<lambda>now u r n p key. run_error (redis_SubtractLimit C c now u r n p key)),
     st_Now = Some (\<lambda>now. run_state (redis_Now C now)),
     st_LogAuditEntry = None, st_GetAuditLogs = None\<rparr>"

end
