(* ===== verification/RedisProps.thy ===== *)
theory RedisProps
  imports RedisStorage
begin

text \<open>
  What the Redis backend promises on a server that keeps its contract (\<open>redis_server\<close>). The lemmas
  compute a method on a keyspace; \<open>sim\<close> carries their result over to any such server.
\<close>

section \<open>Methods on a keyspace\<close>

lemma run_redis_do [simp]:
  "run_state (redis_do keyspace_client now c k) ks =
    (let (r, ks') = redis_exec now c ks in case r of ReplyErr e \<Rightarrow> (Inl e, ks') | _ \<Rightarrow> run_state (k r) ks')"
  by (simp add: redis_do_def keyspace_client_def case_prod_unfold Let_def split: reply.split)

lemma case_option_reply [simp]:
  "(case option_reply v of ReplyErr e \<Rightarrow> f e | ReplyNil \<Rightarrow> x | ReplyOk \<Rightarrow> x | ReplyVal _ \<Rightarrow> x
      | ReplyVals _ \<Rightarrow> x | ReplyInt _ \<Rightarrow> x | ReplyTime _ \<Rightarrow> x) = x"
  by (simp add: option_reply_def split: option.split)

lemma run_redis_trip [simp]: "run_state (redis_trip keyspace_client f) ks = run_state f ks"
  by (simp add: redis_trip_def keyspace_client_def)

definition expired :: "time \<Rightarrow> time option \<Rightarrow> bool" where
  "expired now d = (case d of None \<Rightarrow> False | Some t \<Rightarrow> t \<le> now)"

lemma expired_simps [simp]: "\<not> expired now None" "expired now (Some t) \<longleftrightarrow> t \<le> now"
  by (simp_all add: expired_def)

lemma live_update:
  "live now (ks(k \<mapsto> (v, d))) k' =
    (if k' = k then if expired now d then None else Some (v, d) else live now ks k')"
  by (auto simp: live_def expired_def split: option.split)

lemma hash_at_update:
  "\<not> expired now d \<Longrightarrow>
    hash_at now (ks(k \<mapsto> (RHash h, d))) k' = (if k' = k then Some (h, d) else hash_at now ks k')"
  "k' \<noteq> k \<Longrightarrow> hash_at now (ks(k \<mapsto> (RString v, d))) k' = hash_at now ks k'"
  by (auto simp: hash_at_def live_update split: option.split)

lemma hash_deadline: "hash_at now ks k = Some (h, d) \<Longrightarrow> \<not> expired now d"
  by (auto simp: hash_at_def live_def split: option.splits rkey.splits if_splits)

lemma seconds_pos [simp]: "0 < s * ns_per_sec \<longleftrightarrow> 0 < s" "s * ns_per_sec \<le> 0 \<longleftrightarrow> s \<le> 0"
  by (simp_all add: ns_per_sec_def zero_less_mult_iff mult_le_0_iff)

text \<open>The keys of different kinds, and of different records of one kind, are different.\<close>

lemma key_kinds [simp]:
  "redis_usageKey c u r p \<noteq> redis_consumptionKey c k" "redis_usageKey c u r p \<noteq> redis_refundKey c k"
  "redis_usageKey c u r p \<noteq> redis_topUpKey c k" "redis_consumptionKey c k' \<noteq> redis_refundKey c k"
  "redis_consumptionKey c k' \<noteq> redis_topUpKey c k" "redis_refundKey c k' \<noteq> redis_topUpKey c k"
  "redis_usageKey c u r p \<noteq> redis_entitlementKey c u'"
  "redis_consumptionKey c k = redis_consumptionKey c k' \<longleftrightarrow> k = k'"
  "redis_refundKey c k = redis_refundKey c k' \<longleftrightarrow> k = k'"
  "redis_topUpKey c k = redis_topUpKey c k' \<longleftrightarrow> k = k'"
  by (simp_all add: redis_usageKey_def redis_consumptionKey_def redis_refundKey_def redis_topUpKey_def
      redis_entitlementKey_def)

lemmas key_kinds' [simp] = key_kinds [symmetric]

lemma consumptionKey_nonempty [simp]: "redis_consumptionKey c k \<noteq> ''''" "redis_refundKey c k \<noteq> ''''"
  "redis_topUpKey c k \<noteq> ''''" "redis_usageKey c u r p \<noteq> ''''"
  by (simp_all add: redis_usageKey_def redis_consumptionKey_def redis_refundKey_def redis_topUpKey_def)

section \<open>The ledger of a keyspace\<close>

definition redis_used :: "time \<Rightarrow> keyspace \<Rightarrow> string \<Rightarrow> goint" where
  "redis_used now ks k = (case hash_at now ks k of
     Some (h, _) \<Rightarrow> (case h ''used'' of Some (RInteger n) \<Rightarrow> n | _ \<Rightarrow> 0) | None \<Rightarrow> 0)"

text \<open>A usage record is absent or has its counter, below \<open>2\<close> to the \<open>52\<close>, and its document.\<close>

definition counted :: "time \<Rightarrow> keyspace \<Rightarrow> string \<Rightarrow> bool" where
  "counted now ks k \<longleftrightarrow> (\<exists>h d. hash_at now ks k = Some (h, d) \<and>
     (h ''used'' = None \<and> h ''data'' = None
      \<or> (\<exists>n u. h ''used'' = Some (RInteger n) \<and> \<bar>n\<bar> \<le> 2 ^ 52 \<and> h ''data'' = Some (RDoc (DocUsage u)))))"

definition redis_acct :: "time \<Rightarrow> keyspace \<Rightarrow> string \<Rightarrow> (goint \<times> goint) option" where
  "redis_acct now ks k = (case hash_at now ks k of
     Some (h, _) \<Rightarrow> (case (h ''used'', h ''data'') of
       (Some (RInteger n), Some (RDoc (DocUsage u))) \<Rightarrow> Some (n, u_Limit u) | _ \<Rightarrow> None)
   | None \<Rightarrow> None)"

definition redis_ledger :: "RedisConfig \<Rightarrow> time \<Rightarrow> keyspace \<Rightarrow> string ledger" where
  "redis_ledger c now ks = \<lparr>
     lg_acct = redis_acct now ks,
     lg_done = (\<lambda>key. case live now ks (redis_consumptionKey c key) of
       Some (RString (RDoc (DocConsumption r)), _) \<Rightarrow> Some (cn_NewUsed r) | _ \<Rightarrow> None),
     lg_refunds = (\<lambda>key. live now ks (redis_refundKey c key) \<noteq> None),
     lg_topUps = (\<lambda>key. live now ks (redis_topUpKey c key) \<noteq> None)\<rparr>"

lemma redis_ledger_used: "counted now ks k \<Longrightarrow> lg_used (redis_ledger c now ks) k = redis_used now ks k"
  by (auto simp: counted_def redis_ledger_def redis_acct_def lg_used_def redis_used_def)

lemma redis_acct_string:
  "redis_acct now (ks(k \<mapsto> (RString v, d))) k' = (if k' = k then None else redis_acct now ks k')"
  by (simp add: redis_acct_def hash_at_update(2)) (simp add: redis_acct_def hash_at_def live_update)

lemma redis_acct_hash:
  "\<not> expired now d \<Longrightarrow> redis_acct now (ks(k \<mapsto> (RHash h, d))) k' =
    (if k' = k then (case (h ''used'', h ''data'') of
       (Some (RInteger n), Some (RDoc (DocUsage u))) \<Rightarrow> Some (n, u_Limit u) | _ \<Rightarrow> None) else redis_acct now ks k')"
  by (simp add: redis_acct_def hash_at_update)

lemma redis_acct_none: "live now ks k = None \<Longrightarrow> redis_acct now ks k = None"
  by (simp add: redis_acct_def hash_at_def)

lemma redis_ledger_done:
  "redis_acct now ks (redis_consumptionKey c key) = None \<Longrightarrow> \<not> expired now d \<Longrightarrow>
    redis_ledger c now (ks(redis_consumptionKey c key \<mapsto> (RString (RDoc (DocConsumption x)), d)))
      = (redis_ledger c now ks)\<lparr>lg_done := (lg_done (redis_ledger c now ks))(key \<mapsto> cn_NewUsed x)\<rparr>"
  by (auto simp: redis_ledger_def redis_acct_string live_update fun_eq_iff)

section \<open>Consumption\<close>

text \<open>The request's times can be encoded, and its numbers are exact as floats.\<close>

definition sendable :: "time \<Rightarrow> ConsumeRequest \<Rightarrow> bool" where
  "sendable now q \<longleftrightarrow> json_period (cq_Period q) \<and> json_time now
     \<and> \<bar>cq_Amount q\<bar> \<le> 2 ^ 52 \<and> \<bar>cq_Limit q\<bar> \<le> 2 ^ 53"

definition request_key :: "RedisConfig \<Rightarrow> ConsumeRequest \<Rightarrow> string" where
  "request_key c q = redis_usageKey c (cq_UserID q) (cq_Resource q) (cq_Period q)"

lemma request_key_kind [simp]: "request_key c q \<noteq> redis_consumptionKey c x" "request_key c q \<noteq> redis_refundKey c x"
  "request_key c q \<noteq> redis_topUpKey c x" "request_key c q \<noteq> ''''"
  by (simp_all add: request_key_def)

lemmas request_key_kind' [simp] = request_key_kind(1-3) [symmetric]

definition usage_deadline :: "RedisConfig \<Rightarrow> time \<Rightarrow> Period \<Rightarrow> time option \<Rightarrow> time option" where
  "usage_deadline c now p d =
     (let ttl = (if p_Type p \<noteq> PeriodTypeForever \<and> rd_UsageTTL c > 0 then whole_seconds (rd_UsageTTL c) else 0)
      in if ttl > 0 then Some (now + ttl * ns_per_sec) else d)"

lemma usage_deadline_live: "\<not> expired now d \<Longrightarrow> \<not> expired now (usage_deadline c now p d)"
  by (simp add: usage_deadline_def Let_def)

definition consumed_keyspace :: "RedisConfig \<Rightarrow> time \<Rightarrow> ConsumeRequest \<Rightarrow> keyspace \<Rightarrow> keyspace" where
  "consumed_keyspace c now q ks =
     (let k = request_key c q; (h, d) = the (hash_at now ks k); n = redis_used now ks k + cq_Amount q;
          ks1 = ks(k \<mapsto> (RHash (h(''used'' \<mapsto> RInteger n, ''data'' \<mapsto> RDoc (DocUsage
            \<lparr>u_UserID = cq_UserID q, u_Resource = cq_Resource q, u_Used = 0, u_Limit = cq_Limit q,
             u_Period = cq_Period q, u_Tier = cq_Tier q, u_UpdatedAt = now\<rparr>))), usage_deadline c now (cq_Period q) d))
      in if cq_IdempotencyKey q = '''' then ks1
         else ks1(redis_consumptionKey c (cq_IdempotencyKey q) \<mapsto>
           (RString (RDoc (DocConsumption (consumption_record now q n))),
            if record_ttl (cq_IdempotencyKeyTTL q) > 0
            then Some (now + record_ttl (cq_IdempotencyKeyTTL q) * ns_per_sec) else None)))"

lemma lua_text_int: "\<bar>n\<bar> < 10 ^ 17 \<Longrightarrow> lua_text (of_int n) = RInteger n"
  by (simp add: lua_text_def)

lemma reply_int: "\<bar>n\<bar> < 2 ^ 62 \<Longrightarrow> to_reply_int (of_int n) = n"
  by (auto simp: to_reply_int_def f_to_int_def rat_trunc_def int64_ok_def)

lemma redis_consume_new:
  assumes q: "0 < cq_Amount q" "sendable now q" and k: "counted now ks (request_key c q)"
    and new: "cq_IdempotencyKey q \<noteq> '''' \<Longrightarrow> live now ks (redis_consumptionKey c (cq_IdempotencyKey q)) = None"
  shows "run_state (redis_ConsumeQuota keyspace_client c now q) ks =
    (let u = redis_used now ks (request_key c q) in
     if cq_Limit q \<noteq> -1 \<and> u + cq_Amount q > cq_Limit q then ((u, Some ErrQuotaExceeded), ks)
     else ((u + cq_Amount q, None), consumed_keyspace c now q ks))"
proof -
  let ?k = "request_key c q"
  obtain h d where h: "hash_at now ks ?k = Some (h, d)"
    "h ''used'' = None \<and> h ''data'' = None \<or> (\<exists>n u. h ''used'' = Some (RInteger n) \<and> \<bar>n\<bar> \<le> 2 ^ 52)"
    using k by (auto simp: counted_def)
  define n where "n = redis_used now ks ?k"
  have n: "\<bar>n\<bar> \<le> 2 ^ 52" "lua_used (option_reply (h ''used'')) = Some (of_int n)"
    using h by (auto simp: n_def redis_used_def lua_used_def option_reply_def lua_number_def fl_of_int)
  have a: "fl (of_int (n + cq_Amount q)) = of_int (n + cq_Amount q)" "\<bar>n + cq_Amount q\<bar> < 10 ^ 17"
    "\<bar>n + cq_Amount q\<bar> < 2 ^ 62"
    using fl_of_int [of "n + cq_Amount q"] n(1) q by (auto simp: sendable_def)
  have f: "f_of_int (cq_Amount q) = of_int (cq_Amount q)" "f_of_int (cq_Limit q) = of_int (cq_Limit q)"
    using q fl_of_int [of "cq_Amount q"] fl_of_int [of "cq_Limit q"] by (auto simp: sendable_def f_of_int_def)
  have "of_int (cq_Limit q) = (-1 :: rat) \<longleftrightarrow> cq_Limit q = -1"
    by (metis of_int_eq_iff of_int_minus of_int_1)
  note facts = h(1) n(2) a f this
  have key: "redis_usageKey c (cq_UserID q) (cq_Resource q) (cq_Period q) = ?k" by (simp add: request_key_def)
  have kc: "?k \<noteq> redis_consumptionKey c x" for x by (simp add: request_key_def)
  have d: "\<not> expired now d" using hash_deadline [OF h(1)] .
  have js: "json_period (cq_Period q)" "json_time now" using q by (simp_all add: sendable_def)
  have main: "run_state (consume_main keyspace_client now ?k ck (f_of_int (cq_Amount q)) (f_of_int (cq_Limit q)) data ttl cdata cttl) ks =
    (if cq_Limit q \<noteq> -1 \<and> n + cq_Amount q > cq_Limit q then (Inr (Some (of_int n), ''quota_exceeded''), ks)
     else (Inr (Some (of_int (n + cq_Amount q)), ''ok''),
       let ks1 = ks(?k \<mapsto> (RHash (h(''used'' \<mapsto> RInteger (n + cq_Amount q), ''data'' \<mapsto> data)),
            if ttl > 0 then Some (now + ttl * ns_per_sec) else d))
       in if ck \<noteq> '''' \<and> cdata \<noteq> RText '''' then ks1(ck \<mapsto> (RString cdata, if cttl > 0 then Some (now + cttl * ns_per_sec) else None)) else ks1))"
    if "ck \<noteq> ?k" for ck data ttl cdata cttl
    using that d facts
    by (simp add: consume_main_def redis_exec_def expire_if_def record_if_def hash_at_update live_update Let_def
        lua_text_int of_int_add [symmetric] del: of_int_add)
  have ne: "'''' \<noteq> ?k" by (metis consumptionKey_nonempty(4) request_key_def)
  have amount: "\<not> cq_Amount q < 0" "cq_Amount q \<noteq> 0" using q(1) by simp_all
  show ?thesis
  proof (cases "cq_IdempotencyKey q = ''''")
    case True
    then show ?thesis
      using main [OF ne] amount js n(1) q a(3)
      by (simp add: redis_ConsumeQuota_def key marshal_usage_def marshal_if_def prepareConsumptionRecord_def
          consume_script_def updateConsumptionRecord_def consumed_keyspace_def usage_deadline_def reply_int
          h(1) n_def [symmetric] Let_def del: of_int_add)
  next
    case False
    have scr: "run_state (consume_script keyspace_client now ?k (redis_consumptionKey c (cq_IdempotencyKey q))
        amt lmt data ttl cdata cttl) ks
      = run_state (consume_main keyspace_client now ?k (redis_consumptionKey c (cq_IdempotencyKey q))
        amt lmt data ttl cdata cttl) ks" for amt lmt data ttl cdata cttl
      using new [OF False] by (simp add: consume_script_def redis_exec_def Let_def)
    show ?thesis
      using main [OF kc [symmetric]] amount js n(1) q False a(3)
      by (simp add: redis_ConsumeQuota_def key marshal_usage_def marshal_if_def prepareConsumptionRecord_def
          scr marshal_consumption_def consumption_record_def updateConsumptionRecord_def consumed_keyspace_def
          usage_deadline_def reply_int h(1) n_def [symmetric] redis_exec_def Let_def del: of_int_add)
  qed
qed

lemma counted_consumed:
  assumes q: "0 < cq_Amount q" "sendable now q" and k: "counted now ks (request_key c q)"
    and n: "redis_used now ks (request_key c q) + cq_Amount q \<le> 2 ^ 52"
  shows "counted now (consumed_keyspace c now q ks) (request_key c q)
    \<and> redis_used now (consumed_keyspace c now q ks) (request_key c q) = redis_used now ks (request_key c q) + cq_Amount q"
proof -
  let ?k = "request_key c q"
  obtain h d where h: "hash_at now ks ?k = Some (h, d)"
    using k by (auto simp: counted_def)
  have lo: "- (2 ^ 52) \<le> redis_used now ks ?k"
    using k by (auto simp: counted_def redis_used_def)
  have d: "\<not> expired now (usage_deadline c now (cq_Period q) d)"
    using hash_deadline [OF h] by (rule usage_deadline_live)
  have kc: "?k \<noteq> redis_consumptionKey c x" for x by (simp add: request_key_def)
  show ?thesis
    using h d kc lo n q(1)
    by (simp add: consumed_keyspace_def Let_def counted_def hash_at_update redis_used_def [of _ "_(_ := _)"])
qed

text \<open>On a fresh request the script refines the ledger: \<open>consumed_keyspace\<close> is what \<open>spec_consume\<close> says.\<close>

lemma consumed_ledger:
  assumes q: "0 < cq_Amount q" "sendable now q" and k: "counted now ks (request_key c q)"
    and new: "cq_IdempotencyKey q \<noteq> '''' \<Longrightarrow> live now ks (redis_consumptionKey c (cq_IdempotencyKey q)) = None"
  shows "(let u = redis_used now ks (request_key c q) in
     if cq_Limit q \<noteq> -1 \<and> u + cq_Amount q > cq_Limit q then ((u, Some ErrQuotaExceeded), redis_ledger c now ks)
     else ((u + cq_Amount q, None), redis_ledger c now (consumed_keyspace c now q ks)))
    = spec_consume (request_key c q) q (redis_ledger c now ks)"
proof -
  let ?k = "request_key c q" and ?u = "redis_used now ks (request_key c q)"
  obtain h d where h: "hash_at now ks ?k = Some (h, d)"
    using k by (auto simp: counted_def)
  have u: "lg_used (redis_ledger c now ks) ?k = ?u" by (rule redis_ledger_used [OF k])
  have "\<bar>?u\<bar> \<le> 2 ^ 52" using k by (auto simp: counted_def redis_used_def)
  then have add: "iadd ?u (cq_Amount q) = ?u + cq_Amount q"
    using q by (intro iadd_id) (auto simp: sendable_def int64_ok_def)
  have d: "\<not> expired now (usage_deadline c now (cq_Period q) d)"
    using hash_deadline [OF h] by (rule usage_deadline_live)

  have "keyed (cq_IdempotencyKey q) (lg_done (redis_ledger c now ks) (cq_IdempotencyKey q)) = None"
    using new by (simp add: redis_ledger_def keyed_def)
  moreover have "redis_ledger c now (consumed_keyspace c now q ks) = (redis_ledger c now ks)
    \<lparr>lg_acct := (lg_acct (redis_ledger c now ks))(?k \<mapsto> (?u + cq_Amount q, cq_Limit q)),
     lg_done := (if cq_IdempotencyKey q = '''' then lg_done (redis_ledger c now ks)
        else (lg_done (redis_ledger c now ks))(cq_IdempotencyKey q \<mapsto> ?u + cq_Amount q))\<rparr>"
    using h d new redis_acct_none [OF new]
    by (auto simp: redis_ledger_def consumed_keyspace_def Let_def fun_eq_iff hash_at_update live_update
        consumption_record_def redis_acct_string redis_acct_hash)
  ultimately show ?thesis
    using q(1) u add by (simp add: spec_consume_def Let_def)
qed

section \<open>From the keyspace to a server\<close>

context redis_server
begin

lemma sim_expire_if [sim_intros]:
  "sim ks k k' \<Longrightarrow> sim ks (expire_if C now key ttl k) (expire_if keyspace_client now key ttl k')"
  by (simp add: expire_if_def sim_do)

lemma sim_record_if [sim_intros]:
  "sim ks k k' \<Longrightarrow> sim ks (record_if C now b key data ttl k) (record_if keyspace_client now b key data ttl k')"
  by (simp add: record_if_def sim_do sim_expire_if)

lemma sim_consume_main:
  "sim ks (consume_main C now uk ck amt lmt data ttl cdata cttl) (consume_main keyspace_client now uk ck amt lmt data ttl cdata cttl)"
  unfolding consume_main_def Let_def by (auto intro!: sim_intros split: option.split)

lemma sim_consume_script:
  "sim ks (consume_script C now uk ck amt lmt data ttl cdata cttl) (consume_script keyspace_client now uk ck amt lmt data ttl cdata cttl)"
  unfolding consume_script_def Let_def by (auto intro!: sim_intros sim_consume_main)

lemma sim_update: "sim ks (updateConsumptionRecord C now q ck n) (updateConsumptionRecord keyspace_client now q ck n)"
  unfolding updateConsumptionRecord_def by (auto intro!: sim_intros split: sum.split)

lemma sim_consume: "sim ks (redis_ConsumeQuota C c now q) (redis_ConsumeQuota keyspace_client c now q)"
  unfolding redis_ConsumeQuota_def Let_def
  by (auto intro!: sim_intros sim_consume_script sim_update split: sum.split option.split prod.split)

lemma sim_usage: "sim ks (redis_GetUsage C c now u rs p) (redis_GetUsage keyspace_client c now u rs p)"
  unfolding redis_GetUsage_def by (intro sim_intros)

lemma sim_limits:
  "sim ks (redis_AddLimit C c now u rs n p key) (redis_AddLimit keyspace_client c now u rs n p key)"
  "sim ks (redis_SubtractLimit C c now u rs n p key) (redis_SubtractLimit keyspace_client c now u rs n p key)"
  unfolding redis_AddLimit_def addLimit_script_def redis_SubtractLimit_def subtractLimit_script_def Let_def
  by (auto intro!: sim_intros split: option.split)

lemma sim_refund: "sim ks (redis_RefundQuota C c now rq) (redis_RefundQuota keyspace_client c now rq)"
  unfolding redis_RefundQuota_def refund_script_def refund_main_def Let_def
  by (auto intro!: sim_intros split: sum.split option.split)

lemma sim_window: "sim ks (slidingWindow_script C clock key now lmt window ttl)
    (slidingWindow_script keyspace_client clock key now lmt window ttl)"
  unfolding slidingWindow_script_def Let_def by (auto intro!: sim_intros)

lemma sim_bucket: "sim ks (tokenBucket_script C clock key now rate window burst ttl)
    (tokenBucket_script keyspace_client clock key now rate window burst ttl)"
  unfolding tokenBucket_script_def Let_def case_prod_unfold by (intro sim_intros)

lemma sim_rate: "sim ks (redis_CheckRateLimit C c now rl) (redis_CheckRateLimit keyspace_client c now rl)"
  unfolding redis_CheckRateLimit_def Let_def by (auto intro!: sim_intros sim_window sim_bucket)

lemma sim_entitlement:
  "sim ks (redis_GetEntitlement C c now u) (redis_GetEntitlement keyspace_client c now u)"
  "sim ks (redis_SetEntitlement C c now ent) (redis_SetEntitlement keyspace_client c now ent)"
  unfolding redis_GetEntitlement_def redis_SetEntitlement_def by (auto intro!: sim_intros split: sum.split)

lemma sim_refund_record:
  "sim ks (redis_GetRefundRecord C c now key) (redis_GetRefundRecord keyspace_client c now key)"
  unfolding redis_GetRefundRecord_def by (auto intro!: sim_intros)

lemma sim_tier_change:
  "sim ks (redis_ApplyTierChange C c now tq) (redis_ApplyTierChange keyspace_client c now tq)"
  unfolding redis_ApplyTierChange_def tierChange_script_def Let_def by (auto intro!: sim_intros split: sum.split)

lemma sim_methods:
  "sim ks (redis_ConsumeQuota C c now q) (redis_ConsumeQuota keyspace_client c now q)"
  "sim ks (redis_GetUsage C c now u r p) (redis_GetUsage keyspace_client c now u r p)"
  "sim ks (redis_AddLimit C c now u r n p key) (redis_AddLimit keyspace_client c now u r n p key)"
  "sim ks (redis_SubtractLimit C c now u r n p key) (redis_SubtractLimit keyspace_client c now u r n p key)"
  "sim ks (redis_RefundQuota C c now rq) (redis_RefundQuota keyspace_client c now rq)"
  "sim ks (redis_CheckRateLimit C c now rl) (redis_CheckRateLimit keyspace_client c now rl)"
  "sim ks (redis_GetEntitlement C c now u) (redis_GetEntitlement keyspace_client c now u)"
  "sim ks (redis_SetEntitlement C c now ent) (redis_SetEntitlement keyspace_client c now ent)"
  "sim ks (redis_GetRefundRecord C c now key) (redis_GetRefundRecord keyspace_client c now key)"
  "sim ks (redis_ApplyTierChange C c now tq) (redis_ApplyTierChange keyspace_client c now tq)"
  by (rule sim_consume sim_usage sim_limits sim_refund sim_rate sim_entitlement sim_refund_record sim_tier_change)+

lemma run_sim: "sim ks c d \<Longrightarrow> run_state d (ks r) = (x, s) \<Longrightarrow> fst (run_state c r) = x \<and> ks (snd (run_state c r)) = s"
  using simD [of ks c d r] by simp

lemma run_error_sim: "sim ks c d \<Longrightarrow>
    run_error d (ks r) = (fst (run_error c r), ks (snd (run_error c r)))"
  using simD [of ks c d r] by (auto simp: run_error_def split: prod.splits sum.splits)

end

section \<open>Properties\<close>


text \<open>A run of requests without keys on a record that has no deadline, and gets none.\<close>

fun redis_run :: "'r RedisClient \<Rightarrow> RedisConfig \<Rightarrow> (time \<times> ConsumeRequest) list \<Rightarrow> 'r
    \<Rightarrow> (goint \<times> goerr option) list \<times> 'r" where
  "redis_run C c [] r = ([], r)"
| "redis_run C c ((now, q) # qs) r =
     (let (x, r1) = st_ConsumeQuota (redis_storage C c) now q r; (xs, r2) = redis_run C c qs r1 in (x # xs, r2))"

fun accepted_sum :: "(time \<times> ConsumeRequest) list \<Rightarrow> (goint \<times> goerr option) list \<Rightarrow> goint" where
  "accepted_sum ((_, q) # qs) ((_, e) # xs) = (if e = None then cq_Amount q else 0) + accepted_sum qs xs"
| "accepted_sum _ _ = 0"

definition lasting :: "keyspace \<Rightarrow> string \<Rightarrow> bool" where
  "lasting ks k \<longleftrightarrow> (\<forall>v d. ks k = Some (v, d) \<longrightarrow> d = None)"

lemma lasting_live: "lasting ks k \<Longrightarrow> live now ks k = ks k"
  by (auto simp: lasting_def live_def split: option.split)

lemma lasting_any_time:
  assumes "lasting ks k"
  shows "hash_at now ks k = hash_at 0 ks k" "counted now ks k \<longleftrightarrow> counted 0 ks k" "redis_used now ks k = redis_used 0 ks k"
  using lasting_live [OF assms] by (simp_all add: hash_at_def counted_def redis_used_def)

lemma lasting_consumed:
  assumes "lasting ks (request_key c q)" "rd_UsageTTL c \<le> 0" "counted now ks (request_key c q)" "cq_IdempotencyKey q = ''''"
  shows "lasting (consumed_keyspace c now q ks) (request_key c q)"
proof -
  obtain h d where h: "hash_at now ks (request_key c q) = Some (h, d)" using assms(3) by (auto simp: counted_def)
  then have "d = None"
    using assms(1) lasting_live [OF assms(1), of now]
    by (auto simp: hash_at_def lasting_def split: option.splits rkey.splits)
  then show ?thesis
    using assms(2,4) h by (simp add: consumed_keyspace_def lasting_def usage_deadline_def Let_def)
qed

text \<open>C24: Without a usage TTL, any run of requests without keys on one record of a Redis server charges exactly the
  accepted amounts and never passes the limit.\<close>

theorem redis_run_exact:
  assumes "redis_server C ks" "rd_UsageTTL c \<le> 0" "0 \<le> lmt" "lmt \<le> 2 ^ 52"
    and "\<forall>(now, q) \<in> set qs. request_key c q = k \<and> 0 < cq_Amount q \<and> cq_IdempotencyKey q = ''''
      \<and> cq_Limit q = lmt \<and> sendable now q"
    and "lasting (ks r) k" "counted 0 (ks r) k" "redis_used 0 (ks r) k \<le> lmt"
    and "redis_run C c qs r = (xs, r')"
  shows "redis_used 0 (ks r') k = redis_used 0 (ks r) k + accepted_sum qs xs \<and> redis_used 0 (ks r') k \<le> lmt"
  using assms
proof (induction qs arbitrary: r xs)
  case Nil
  then show ?case by simp
next
  case (Cons nq qs)
  obtain now q where nq: "nq = (now, q)" by fastforce
  obtain x r1 where x: "st_ConsumeQuota (redis_storage C c) now q r = (x, r1)" by fastforce
  obtain xs' where xs: "redis_run C c qs r1 = (xs', r')" "xs = x # xs'"
    using Cons.prems(9) x by (auto simp: nq split: prod.splits)
  have q: "request_key c q = k" "0 < cq_Amount q" "cq_IdempotencyKey q = ''''" "cq_Limit q = lmt" "sendable now q"
    using Cons.prems(5) nq by auto
  note any = lasting_any_time [OF Cons.prems(6), of now]
  have cnt: "counted now (ks r) (request_key c q)" using any(2) Cons.prems(7) q(1) by simp
  have step: "(x, ks r1) = (let u = redis_used 0 (ks r) k in
      if u + cq_Amount q > lmt then ((u, Some ErrQuotaExceeded), ks r)
      else ((u + cq_Amount q, None), consumed_keyspace c now q (ks r)))"
    using simD [OF redis_server.sim_methods(1) [OF assms(1)], of c now q r]
      redis_consume_new [OF q(2,5) cnt] q x any(3) Cons.prems(3)
    by (auto simp: redis_storage_def Let_def split: if_splits)
  have next_ok: "lasting (ks r1) k \<and> counted 0 (ks r1) k \<and> redis_used 0 (ks r1) k \<le> lmt
      \<and> redis_used 0 (ks r1) k = redis_used 0 (ks r) k + (if snd x = None then cq_Amount q else 0)"
  proof (cases "redis_used 0 (ks r) k + cq_Amount q > lmt")
    case True
    then show ?thesis using step Cons.prems(6-8) by (simp add: Let_def)
  next
    case False
    then have r1: "ks r1 = consumed_keyspace c now q (ks r)" "snd x = None"
      using step by (simp_all add: Let_def)
    have las: "lasting (ks r1) k"
      using lasting_consumed [of "ks r" c q now] Cons.prems(2,6) cnt q r1 by simp
    show ?thesis
      using counted_consumed [OF q(2,5) cnt] False Cons.prems(4) las lasting_any_time [OF las, of now] any q(1) r1
      by simp
  qed
  from Cons.IH [OF Cons.prems(1-4) _ _ _ _ xs(1)] Cons.prems(5) next_ok
  have "redis_used 0 (ks r') k = redis_used 0 (ks r1) k + accepted_sum qs xs' \<and> redis_used 0 (ks r') k \<le> lmt"
    by auto
  then show ?case using next_ok by (cases x) (simp add: nq xs(2))
qed

lemma redis_replay_run:
  assumes "0 < cq_Amount q" "sendable now q" "counted now ks (request_key c q)" "cq_IdempotencyKey q \<noteq> ''''"
    and "live now ks (redis_consumptionKey c (cq_IdempotencyKey q)) = Some (RString v, d)"
  shows "run_state (redis_ConsumeQuota keyspace_client c now q) ks =
    ((redis_used now ks (request_key c q), None),
     ks(redis_consumptionKey c (cq_IdempotencyKey q) \<mapsto>
        (RString (RDoc (DocConsumption (consumption_record now q (redis_used now ks (request_key c q))))),
         if record_ttl (cq_IdempotencyKeyTTL q) > 0
         then Some (now + record_ttl (cq_IdempotencyKeyTTL q) * ns_per_sec) else None)))"
proof -
  let ?k = "request_key c q"
  obtain h d where h: "hash_at now ks ?k = Some (h, d)"
    "h ''used'' = None \<and> h ''data'' = None \<or> (\<exists>n u. h ''used'' = Some (RInteger n) \<and> \<bar>n\<bar> \<le> 2 ^ 52)"
    using assms(3) by (auto simp: counted_def)
  have u: "lua_used (option_reply (h ''used'')) = Some (of_int (redis_used now ks ?k))" "\<bar>redis_used now ks ?k\<bar> < 2 ^ 62"
    using h by (auto simp: redis_used_def lua_used_def option_reply_def lua_number_def fl_of_int)
  have key: "redis_usageKey c (cq_UserID q) (cq_Resource q) (cq_Period q) = ?k" by (simp add: request_key_def)
  show ?thesis
    using assms h(1) u
    by (simp add: redis_ConsumeQuota_def key marshal_usage_def marshal_if_def prepareConsumptionRecord_def
        marshal_consumption_def consumption_record_def consume_script_def updateConsumptionRecord_def
        redis_exec_def reply_int Let_def sendable_def)
qed

text \<open>A request that repeats an idempotency key is not charged. It is answered with the usage as it stands, not
  with the one recorded for the key, and the record is overwritten with that.\<close>

theorem redis_replay_current:
  assumes "redis_server C ks" "0 < cq_Amount q" "sendable now q" "counted now (ks r) (request_key c q)"
    and "cq_IdempotencyKey q \<noteq> ''''" "live now (ks r) (redis_consumptionKey c (cq_IdempotencyKey q)) = Some (RString v, d)"
    and "st_ConsumeQuota (redis_storage C c) now q r = (x, r')"
  shows "x = (redis_used now (ks r) (request_key c q), None)
    \<and> redis_ledger c now (ks r') = (redis_ledger c now (ks r))\<lparr>lg_done :=
        (lg_done (redis_ledger c now (ks r)))(cq_IdempotencyKey q \<mapsto> redis_used now (ks r) (request_key c q))\<rparr>"
proof -
  have none: "redis_acct now (ks r) (redis_consumptionKey c (cq_IdempotencyKey q)) = None"
    using assms(6) by (simp add: redis_acct_def hash_at_def)
  have r': "x = (redis_used now (ks r) (request_key c q), None)"
    "ks r' = snd (run_state (redis_ConsumeQuota keyspace_client c now q) (ks r))"
    using simD [OF redis_server.sim_methods(1) [OF assms(1)], of c now q r] redis_replay_run [OF assms(2-6)] assms(7)
    by (simp_all add: redis_storage_def)
  then show ?thesis
    unfolding redis_replay_run [OF assms(2-6)]
    using none by (simp add: redis_ledger_done consumption_record_def)
qed

section \<open>Credit limits, refunds, entitlements\<close>

lemma hash_at_later:
  "hash_at now ks k = Some (h, d) \<Longrightarrow> now \<le> now' \<Longrightarrow>
    hash_at now' ks k = (if expired now' d then Some (\<lambda>_. None, None) else Some (h, d))"
  by (auto simp: hash_at_def live_def expired_def split: option.splits rkey.splits if_splits)

lemma run_GetUsage:
  assumes "hash_at now ks (redis_usageKey c u rs p) = Some (h, d)" "h' ''data'' = h ''data''" "h' ''used'' = h ''used''"
    and "hash_at now ks' (redis_usageKey c u rs p) = Some (h', d')"
  shows "fst (run_state (redis_GetUsage keyspace_client c now u rs p) ks')
    = fst (run_state (redis_GetUsage keyspace_client c now u rs p) ks)"
  using assms by (simp add: redis_GetUsage_def redis_exec_def)

lemma redis_topup_run:
  assumes "run_state (redis_AddLimit keyspace_client c now u rs n p key) ks = (Inr (), ks')"
    and "p_Type p = PeriodTypeForever" "now \<le> now'"
  shows "fst (run_state (redis_GetUsage keyspace_client c now' u rs p) ks')
    = fst (run_state (redis_GetUsage keyspace_client c now' u rs p) ks)"
proof -
  let ?k = "redis_usageKey c u rs p"
  obtain h d where h: "hash_at now ks ?k = Some (h, d)"
    using assms(1) by (auto simp: redis_AddLimit_def addLimit_script_def Let_def redis_exec_def wrong_type_def
        split: option.splits if_splits)
  obtain m where m: "hash_at now ks' ?k = Some (h(''limit'' \<mapsto> RInteger m), d)"
    using assms(1,2) h hash_deadline [OF h]
    by (auto simp: redis_AddLimit_def addLimit_script_def Let_def redis_exec_def expire_if_def hash_at_update
        split: option.splits if_splits)
  show ?thesis
    using hash_at_later [OF h assms(3)] hash_at_later [OF m assms(3)]
    by (cases "expired now' d") (auto simp: redis_GetUsage_def redis_exec_def)
qed

text \<open>A top-up of a forever period is counted in a field that is not read back: \<open>GetUsage\<close> answers at any
  later time as it would have without the top-up.\<close>

theorem redis_topup_lost:
  assumes "redis_server C ks" "p_Type p = PeriodTypeForever" "now \<le> now'"
    and "st_AddLimit (redis_storage C c) now u rs n p key r = (None, r')"
  shows "fst (st_GetUsage (redis_storage C c) now' u rs p r') = fst (st_GetUsage (redis_storage C c) now' u rs p r)"
proof -
  have "run_state (redis_AddLimit keyspace_client c now u rs n p key) (ks r) = (Inr (), ks r')"
    using simD [OF redis_server.sim_methods(3) [OF assms(1)], of c now u rs n p key r] assms(4)
    by (auto simp: redis_storage_def run_error_def prod_eq_iff split: prod.splits sum.splits)
  from redis_topup_run [OF this assms(2,3)] show ?thesis
    using simD [OF redis_server.sim_methods(2) [OF assms(1)], of c now' u rs p r]
      simD [OF redis_server.sim_methods(2) [OF assms(1)], of c now' u rs p r']
    by (simp add: redis_storage_def)
qed

text \<open>A refund that can be sent, of a period that is given.\<close>

definition sendable_refund :: "time \<Rightarrow> RefundRequest \<Rightarrow> bool" where
  "sendable_refund now q \<longleftrightarrow> 0 < rr_Amount q \<and> rr_Amount q \<le> 2 ^ 52 \<and> p_Start (rr_Period q) \<noteq> zero_time
     \<and> json_period (rr_Period q) \<and> json_time now"

definition refunded_key :: "RedisConfig \<Rightarrow> RefundRequest \<Rightarrow> string" where
  "refunded_key c q = redis_usageKey c (rr_UserID q) (rr_Resource q) (rr_Period q)"

lemma refunded_key_kind [simp]: "refunded_key c q \<noteq> redis_consumptionKey c x" "refunded_key c q \<noteq> redis_refundKey c x"
  "refunded_key c q \<noteq> redis_topUpKey c x"
  by (simp_all add: refunded_key_def)

lemmas refunded_key_kind' [simp] = refunded_key_kind [symmetric]

definition refund_deadline :: "RedisConfig \<Rightarrow> time \<Rightarrow> time option \<Rightarrow> time option" where
  "refund_deadline c now d =
     (let ttl = (if rd_UsageTTL c > 0 then whole_seconds (rd_UsageTTL c) else 0)
      in if ttl > 0 then Some (now + ttl * ns_per_sec) else d)"

lemma redis_refund_run:
  assumes "sendable_refund now q" "hash_at now ks (refunded_key c q) = Some (h, d)" "h ''used'' = Some (RInteger n)"
    and "\<bar>n\<bar> \<le> 2 ^ 52"
    and "rr_IdempotencyKey q \<noteq> '''' \<Longrightarrow> live now ks (redis_refundKey c (rr_IdempotencyKey q)) = None"
  shows "run_state (redis_RefundQuota keyspace_client c now q) ks = (Inr (),
    let ks1 = ks(refunded_key c q \<mapsto> (RHash (h(''used'' \<mapsto> RInteger (max 0 (n - rr_Amount q)))), refund_deadline c now d))
    in if rr_IdempotencyKey q = '''' then ks1
       else ks1(redis_refundKey c (rr_IdempotencyKey q) \<mapsto>
         (RString (RDoc (DocRefund (record_refund now q (rr_Period q)))),
          if record_ttl (rr_IdempotencyKeyTTL q) > 0
          then Some (now + record_ttl (rr_IdempotencyKeyTTL q) * ns_per_sec) else None)))"
proof -
  let ?a = "rr_Amount q"
  have f: "f_of_int ?a = of_int ?a" "fl (of_int n) = of_int n" "fl (of_int (n - ?a)) = of_int (n - ?a)"
    using fl_of_int [of ?a] fl_of_int [of n] fl_of_int [of "n - ?a"] assms(1,4)
    by (auto simp: sendable_refund_def f_of_int_def)
  have t: "(if (of_int (n - ?a) :: rat) < 0 then 0 else of_int (n - ?a)) = (of_int (max 0 (n - ?a)) :: rat)"
    by (simp add: max_def)
  have l: "lua_text (of_int (max 0 (n - ?a))) = RInteger (max 0 (n - ?a))"
    using assms(1,4) by (intro lua_text_int) (auto simp: sendable_refund_def)
  have key: "redis_usageKey c (rr_UserID q) (rr_Resource q) (rr_Period q) = refunded_key c q"
    by (simp add: refunded_key_def)
  have main: "run_state (refund_main keyspace_client now (refunded_key c q) rk (f_of_int ?a) data
      (if rd_UsageTTL c > 0 then whole_seconds (rd_UsageTTL c) else 0) rttl) ks = (Inr ''ok'',
    let ks1 = ks(refunded_key c q \<mapsto> (RHash (h(''used'' \<mapsto> RInteger (max 0 (n - ?a)))), refund_deadline c now d))
    in if rk = '''' then ks1 else ks1(rk \<mapsto> (RString data, if rttl > 0 then Some (now + rttl * ns_per_sec) else None)))"
    if "rk \<noteq> refunded_key c q" for rk data rttl
    using that assms(2,3) hash_deadline [OF assms(2)] f t l
    by (simp add: refund_main_def redis_exec_def option_reply_def lua_used_def lua_number_def expire_if_def
        record_if_def hash_at_update live_update refund_deadline_def Let_def
        of_int_diff [symmetric] del: of_int_diff)
  have ne: "'''' \<noteq> refunded_key c q" by (metis consumptionKey_nonempty(4) refunded_key_def)
  show ?thesis
  proof (cases "rr_IdempotencyKey q = ''''")
    case True
    then show ?thesis
      using assms(1) main [OF ne]
      by (simp add: redis_RefundQuota_def mem_refund_period_def key marshal_if_def refund_script_def sendable_refund_def Let_def)
  next
    case False
    then show ?thesis
      using assms(1,5) main [OF refunded_key_kind'(2)]
      by (simp add: redis_RefundQuota_def mem_refund_period_def key marshal_if_def refund_script_def
          sendable_refund_def redis_exec_def Let_def)
  qed
qed

text \<open>A refund puts the usage TTL on the record whatever its period, so the record of a forever period is gone
  once that time has passed.\<close>

theorem redis_refund_expires:
  assumes "redis_server C ks" "sendable_refund now q" "hash_at now (ks r) (refunded_key c q) = Some (h, d)"
    and "h ''used'' = Some (RInteger n)" "\<bar>n\<bar> \<le> 2 ^ 52"
    and "rr_IdempotencyKey q \<noteq> '''' \<Longrightarrow> live now (ks r) (redis_refundKey c (rr_IdempotencyKey q)) = None"
    and "p_Type (rr_Period q) = PeriodTypeForever" "ns_per_sec \<le> rd_UsageTTL c" "0 < whole_seconds (rd_UsageTTL c)"
    and "now + whole_seconds (rd_UsageTTL c) * ns_per_sec \<le> later"
  shows "fst (st_RefundQuota (redis_storage C c) now q r) = None
    \<and> fst (st_GetUsage (redis_storage C c) later (rr_UserID q) (rr_Resource q) (rr_Period q)
        (snd (st_RefundQuota (redis_storage C c) now q r))) = Inr None"
proof -
  obtain r' where r': "st_RefundQuota (redis_storage C c) now q r = (None, r')"
    and run: "run_state (redis_RefundQuota keyspace_client c now q) (ks r) = (Inr (), ks r')"
    using simD [OF redis_server.sim_methods(5) [OF assms(1)], of c now q r] redis_refund_run [OF assms(2-6)]
    by (cases "run_state (redis_RefundQuota C c now q) r") (auto simp: redis_storage_def run_error_def)
  have ttl: "0 < rd_UsageTTL c" using assms(8) by (simp add: ns_per_sec_def)
  have "hash_at now (ks r') (refunded_key c q) = Some (h(''used'' \<mapsto> RInteger (max 0 (n - rr_Amount q))),
      Some (now + whole_seconds (rd_UsageTTL c) * ns_per_sec))"
  proof -
    have "ks r' = snd (run_state (redis_RefundQuota keyspace_client c now q) (ks r))" using run by simp
    then show ?thesis
      using redis_refund_run [OF assms(2-6)] assms(9) ttl
      by (simp add: refund_deadline_def Let_def hash_at_update)
  qed
  from hash_at_later [OF this, of later] have "hash_at later (ks r') (refunded_key c q) = Some (\<lambda>_. None, None)"
    using assms(9,10) by (smt (verit) expired_simps(2) seconds_pos(1))
  then have "fst (run_state (redis_GetUsage keyspace_client c later (rr_UserID q) (rr_Resource q) (rr_Period q)) (ks r'))
      = Inr None"
    by (simp add: redis_GetUsage_def redis_exec_def refunded_key_def)
  then show ?thesis
    using r' simD [OF redis_server.sim_methods(2) [OF assms(1)], of c later "rr_UserID q" "rr_Resource q" "rr_Period q" r']
    by (simp add: redis_storage_def)
qed

lemma redis_acct_counter:
  assumes "counted now ks k" "redis_acct now ks k = Some (n, lmt)"
  obtains h d u where "hash_at now ks k = Some (h, d)" "h ''used'' = Some (RInteger n)" "\<bar>n\<bar> \<le> 2 ^ 52"
    "h ''data'' = Some (RDoc (DocUsage u))" "u_Limit u = lmt"
  using assms by (auto simp: counted_def redis_acct_def)

text \<open>A refund of an existing record, without a key or under a fresh one, does on the server's records what the
  contract says: the usage goes down by the amount, not below 0, and the key is taken.\<close>

theorem redis_refund_refines:
  assumes "redis_server C ks" "sendable_refund now q" "counted now (ks r) (refunded_key c q)"
    and "redis_acct now (ks r) (refunded_key c q) = Some (n, lmt)"
    and "rr_IdempotencyKey q \<noteq> '''' \<Longrightarrow> live now (ks r) (redis_refundKey c (rr_IdempotencyKey q)) = None"
    and "st_RefundQuota (redis_storage C c) now q r = (e, r')"
  shows "spec_refund (refunded_key c q) q (redis_ledger c now (ks r)) = (e, redis_ledger c now (ks r'))"
proof -
  let ?k = "refunded_key c q" and ?a = "rr_Amount q"
  obtain h d u where h: "hash_at now (ks r) ?k = Some (h, d)" "h ''used'' = Some (RInteger n)" "\<bar>n\<bar> \<le> 2 ^ 52"
    "h ''data'' = Some (RDoc (DocUsage u))" "u_Limit u = lmt"
    using redis_acct_counter [OF assms(3,4)] .
  note run = redis_refund_run [OF assms(2) h(1-3) assms(5)]
  have e: "e = None" and r': "ks r' = snd (run_state (redis_RefundQuota keyspace_client c now q) (ks r))"
    using simD [OF redis_server.sim_methods(5) [OF assms(1)], of c now q r] run assms(6)
    by (auto simp: redis_storage_def run_error_def split: prod.splits sum.splits)
  have d: "\<not> expired now (refund_deadline c now d)"
    using hash_deadline [OF h(1)] by (simp add: refund_deadline_def Let_def)
  have a: "0 < ?a" "isub n ?a = n - ?a"
  proof -
    show "0 < ?a" using assms(2) by (simp add: sendable_refund_def)
    have "int64_ok (n - ?a)"
      using assms(2) h(3) by (simp add: sendable_refund_def int64_ok_def abs_le_iff)
    then show "isub n ?a = n - ?a" by (rule isub_id)
  qed
  have none: "rr_IdempotencyKey q \<noteq> '''' \<Longrightarrow> redis_acct now (ks r) (redis_refundKey c (rr_IdempotencyKey q)) = None"
    using assms(5) by (rule redis_acct_none)
  have "redis_ledger c now (ks r') = (redis_ledger c now (ks r))
    \<lparr>lg_acct := (redis_acct now (ks r))(?k \<mapsto> (max 0 (n - ?a), lmt)),
     lg_refunds := (\<lambda>k. lg_refunds (redis_ledger c now (ks r)) k \<or> k \<noteq> '''' \<and> k = rr_IdempotencyKey q)\<rparr>"
    unfolding r' using h(4,5) d none
    by (auto simp: run redis_ledger_def Let_def fun_eq_iff redis_acct_hash redis_acct_string live_update)
  moreover have "\<not> (rr_IdempotencyKey q \<noteq> '''' \<and> lg_refunds (redis_ledger c now (ks r)) (rr_IdempotencyKey q))"
    using assms(5) by (auto simp: redis_ledger_def)
  moreover have "lg_acct (redis_ledger c now (ks r)) = redis_acct now (ks r)" by (simp add: redis_ledger_def)
  ultimately show ?thesis
    using a e assms(4) unfolding spec_refund_def by (simp del: de_Morgan_conj)
qed

text \<open>A stored entitlement is read back until its TTL has passed; then the user has none.\<close>

theorem redis_entitlement_roundtrip:
  assumes "redis_server C ks" "st_SetEntitlement (redis_storage C c) now ent r = (None, r')" "now \<le> later"
  shows "fst (st_GetEntitlement (redis_storage C c) later (e_UserID ent) r') =
    (if 0 < rd_EntitlementTTL c \<and> now + rd_EntitlementTTL c \<le> later
     then Inl ErrEntitlementNotFound else Inr ent)"
proof -
  have "run_state (redis_SetEntitlement keyspace_client c now ent) (ks r) = (Inr (), ks r')"
    using simD [OF redis_server.sim_methods(8) [OF assms(1)], of c now ent r] assms(2)
    by (auto simp: redis_storage_def run_error_def prod_eq_iff split: prod.splits sum.splits)
  then have "ks r' = (ks r)(redis_entitlementKey c (e_UserID ent) \<mapsto> (RString (RDoc (DocEntitlement ent)),
      if rd_EntitlementTTL c > 0 then Some (now + rd_EntitlementTTL c) else None))"
    by (auto simp: redis_SetEntitlement_def marshal_if_def redis_exec_def Let_def split: if_splits)
  then have "fst (run_state (redis_GetEntitlement keyspace_client c later (e_UserID ent)) (ks r')) =
    (if 0 < rd_EntitlementTTL c \<and> now + rd_EntitlementTTL c \<le> later then Inl ErrEntitlementNotFound else Inr ent)"
    by (simp add: redis_GetEntitlement_def redis_exec_def live_update)
  then show ?thesis
    using simD [OF redis_server.sim_methods(7) [OF assms(1)], of c later "e_UserID ent" r']
    by (simp add: redis_storage_def)
qed

text \<open>A tier change leaves the record of the resource it is for as it was, unless that is \<open>audio_seconds\<close>.\<close>

lemma usageKey_resource: "rs \<noteq> rs' \<Longrightarrow> redis_usageKey c u rs p \<noteq> redis_usageKey c u rs' p"
  by (simp add: redis_usageKey_def del: period_Key.simps)

theorem redis_tier_change_ignored:
  assumes "redis_server C ks" "tq_Resource q \<noteq> ''audio_seconds''"
    and "st_ApplyTierChange (redis_storage C c) now q r = (e, r')"
  shows "fst (st_GetUsage (redis_storage C c) later (tq_UserID q) (tq_Resource q) (tq_Period q) r')
    = fst (st_GetUsage (redis_storage C c) later (tq_UserID q) (tq_Resource q) (tq_Period q) r)"
proof -
  have "ks r' = snd (run_state (redis_ApplyTierChange keyspace_client c now q) (ks r))"
    using simD [OF redis_server.sim_methods(10) [OF assms(1)], of c now q r] assms(3)
    by (auto simp: redis_storage_def run_error_def split: prod.splits sum.splits)
  then have "ks r' (redis_usageKey c (tq_UserID q) (tq_Resource q) (tq_Period q))
      = ks r (redis_usageKey c (tq_UserID q) (tq_Resource q) (tq_Period q))"
    using usageKey_resource [OF assms(2), of c "tq_UserID q" "tq_Period q"]
    by (auto simp: redis_ApplyTierChange_def tierChange_script_def marshal_usage_def marshal_if_def expire_if_def
        redis_exec_def wrong_type_def Let_def split: option.splits prod.splits)
  then have "fst (run_state (redis_GetUsage keyspace_client c later (tq_UserID q) (tq_Resource q) (tq_Period q)) (ks r'))
      = fst (run_state (redis_GetUsage keyspace_client c later (tq_UserID q) (tq_Resource q) (tq_Period q)) (ks r))"
    by (simp add: redis_GetUsage_def redis_exec_def hash_at_def live_def wrong_type_def split: option.split)
  then show ?thesis
    using simD [OF redis_server.sim_methods(2) [OF assms(1)], of c later "tq_UserID q" "tq_Resource q" "tq_Period q"]
    by (simp add: redis_storage_def)
qed

section \<open>Rate limits\<close>

text \<open>The window of a user in which all requests fell into second \<open>t\<close>.\<close>

definition one_second :: "float64 \<Rightarrow> keyspace \<Rightarrow> string \<Rightarrow> bool" where
  "one_second t ks k \<longleftrightarrow> ks k = None \<or> (\<exists>d. ks k = Some (RZset [(t, t)], d))"

lemma one_second_zset:
  "one_second t ks k \<Longrightarrow> zset_at now ks k = Some ([], None) \<or> (\<exists>d. \<not> expired now d \<and> zset_at now ks k = Some ([(t, t)], d))"
  by (auto simp: one_second_def zset_at_def live_def expired_def split: option.split)

lemma zset_at_put:
  "\<not> expired now d \<Longrightarrow> zset_at now (put_zset k z d ks) k = (if z = [] then Some ([], None) else Some (z, d))"
  by (simp add: zset_at_def put_zset_def live_update) (simp add: live_def)

lemma live_put_zset: "\<not> expired now d \<Longrightarrow> z \<noteq> [] \<Longrightarrow> live now (put_zset k z d ks) k = Some (RZset z, d)"
  by (simp add: put_zset_def live_update)

lemma window_script_run:
  assumes "one_second t ks k" "fl (t - w) < t" "2 \<le> lmt"
  shows "\<exists>n x ks'. run_state (slidingWindow_script keyspace_client now k t lmt w ttl) ks = (Inr (True, n, Some x), ks')
    \<and> one_second t ks' k"
proof -
  have t: "\<not> t \<le> fl (t - w)" "\<not> lmt \<le> 0" "\<not> lmt \<le> 1" using assms(2,3) by simp_all
  show ?thesis
  proof (cases "live now ks k")
    case None
    then have "zset_at now ks k = Some ([], None)" by (simp add: zset_at_def)
    then show ?thesis
      using None t
      by (simp add: slidingWindow_script_def redis_exec_def reply_number_def Let_def zset_at_put live_put_zset
          min_score_def expire_if_def window_reset_def lua_number_def one_second_def)
        (simp add: put_zset_def)
  next
    case (Some e)
    then obtain d where d: "\<not> expired now d" "zset_at now ks k = Some ([(t, t)], d)" "e = (RZset [(t, t)], d)"
      using assms(1) that [of "snd e"]
      by (auto simp: one_second_def zset_at_def live_def split: option.splits if_splits)
    then show ?thesis
      using Some t
      by (simp add: slidingWindow_script_def redis_exec_def reply_number_def Let_def zset_at_put live_put_zset
          min_score_def expire_if_def window_reset_def lua_number_def one_second_def)
        (simp add: put_zset_def)
  qed
qed

text \<open>Requests to the limiter in a row, with the clock readings of the calls.\<close>

fun redis_rate_run :: "'r RedisClient \<Rightarrow> RedisConfig \<Rightarrow> (time \<times> RateLimitRequest) list \<Rightarrow> 'r
    \<Rightarrow> (goerr + bool \<times> goint \<times> time) list \<times> 'r" where
  "redis_rate_run C c [] r = ([], r)"
| "redis_rate_run C c ((now, q) # qs) r =
     (let (x, r1) = st_CheckRateLimit (redis_storage C c) now q r; (xs, r2) = redis_rate_run C c qs r1 in (x # xs, r2))"

definition admitted :: "goerr + bool \<times> goint \<times> time \<Rightarrow> bool" where
  "admitted x \<longleftrightarrow> (case x of Inr (True, _) \<Rightarrow> True | _ \<Rightarrow> False)"

text \<open>
  The sliding window keeps one member per second. From an empty window, every request of one second is
  admitted, however many there are, if the rate is at least 2.
\<close>

theorem redis_window_uncounted:
  assumes "redis_server C ks"
    and "\<forall>(now, q) \<in> set qs. rq_UserID q = u \<and> rq_Resource q = rs \<and> rq_Algorithm q = ''sliding_window''
      \<and> rq_Now q div ns_per_sec = sec \<and> 2 \<le> rq_Rate q \<and> rq_Rate q \<le> 2 ^ 52
      \<and> 1 \<le> whole_seconds (rq_Window q) \<and> whole_seconds (rq_Window q) \<le> 2 ^ 52"
    and "0 \<le> sec" "sec \<le> 2 ^ 52"
    and "one_second (of_int sec) (ks r) (redis_rateLimitKey c u rs)"
  shows "length (filter admitted (fst (redis_rate_run C c qs r))) = length qs"
  using assms(2,5)
proof (induction qs arbitrary: r)
  case Nil
  then show ?case by simp
next
  case (Cons nq qs)
  obtain now q where nq: "nq = (now, q)" by fastforce
  have q: "rq_UserID q = u" "rq_Resource q = rs" "rq_Algorithm q = ''sliding_window''"
    "rq_Now q div ns_per_sec = sec" "2 \<le> rq_Rate q" "rq_Rate q \<le> 2 ^ 52"
    "1 \<le> whole_seconds (rq_Window q)" "whole_seconds (rq_Window q) \<le> 2 ^ 52"
    using Cons.prems(1) nq by auto
  let ?w = "whole_seconds (rq_Window q)"
  have f: "f_of_int sec = of_int sec" "f_of_int ?w = of_int ?w" "f_of_int (rq_Rate q) = of_int (rq_Rate q)"
    "fl (of_int (sec - ?w)) = of_int (sec - ?w)"
    using fl_of_int [of sec] fl_of_int [of ?w] fl_of_int [of "rq_Rate q"] fl_of_int [of "sec - ?w"] q assms(3,4)
    by (auto simp: f_of_int_def abs_le_iff)
  have "fl (of_int sec - of_int ?w) < (of_int sec :: rat)"
    using f(4) q(7) by simp
  moreover have "2 \<le> (of_int (rq_Rate q) :: rat)" using q(5) by (metis of_int_le_iff of_int_numeral)
  ultimately obtain n x ks' where w: "run_state (slidingWindow_script keyspace_client now (redis_rateLimitKey c u rs)
      (of_int sec) (of_int (rq_Rate q)) (of_int ?w) (f_to_int (Some (f_mul (duration_Seconds (rq_Window q)) 2)))) (ks r)
      = (Inr (True, n, Some x), ks')" "one_second (of_int sec) ks' (redis_rateLimitKey c u rs)"
    using window_script_run [OF Cons.prems(2), of _ _ now] by blast
  obtain y r1 where y: "st_CheckRateLimit (redis_storage C c) now q r = (y, r1)" by fastforce
  have "y = Inr (True, to_reply_int n, f_to_int (Some x) * ns_per_sec) \<and> ks r1 = ks'"
    using simD [OF redis_server.sim_methods(6) [OF assms(1)], of c now q r] y w(1) q f
    by (simp add: redis_storage_def redis_CheckRateLimit_def Let_def)
  then have "admitted y" "one_second (of_int sec) (ks r1) (redis_rateLimitKey c u rs)"
    using w(2) by (simp_all add: admitted_def)
  then show ?case
    using Cons.IH [of r1] Cons.prems(1) by (simp add: nq y case_prod_unfold Let_def)
qed

text \<open>A bucket without a state is full; else it holds between 0 and \<open>burst\<close> tokens.\<close>

definition bucket_inv :: "time \<Rightarrow> keyspace \<Rightarrow> string \<Rightarrow> goint \<Rightarrow> bool" where
  "bucket_inv now ks k burst \<longleftrightarrow> (\<exists>h d. hash_at now ks k = Some (h, d)
     \<and> (h ''tokens'' = None
        \<or> (\<exists>n l. h ''tokens'' = Some (RInteger n) \<and> 0 \<le> n \<and> n \<le> burst
             \<and> h ''lastRefill'' = Some (RInteger l) \<and> \<bar>l\<bar> \<le> 2 ^ 52)))"

definition stored_tokens :: "time \<Rightarrow> keyspace \<Rightarrow> string \<Rightarrow> goint option" where
  "stored_tokens now ks k = (case hash_at now ks k of
     Some (h, _) \<Rightarrow> (case h ''tokens'' of Some (RInteger n) \<Rightarrow> Some n | _ \<Rightarrow> None) | None \<Rightarrow> None)"

lemma redis_refill_range:
  assumes "0 \<le> n" "n \<le> burst" "burst \<le> 2 ^ 52" "redis_refill now rate window (of_int burst) (of_int n) l0 = (t, l)"
  shows "\<exists>m. t = of_int m \<and> n \<le> m \<and> m \<le> burst \<and> (l = l0 \<or> l = now)"
proof -
  consider "t = of_int n" "l = l0" | "t = of_int burst" "l = now"
    | a where "t = min (fl (of_int n + of_int a)) (of_int burst)" "0 < a" "l = now"
    using assms(4) by (auto simp: redis_refill_def Let_def f_div_def split: if_splits)
  then show ?thesis
  proof cases
    case 3
    show ?thesis
    proof (cases "n + a \<le> 2 ^ 53")
      case True
      then have "fl (of_int (n + a)) = of_int (n + a)" using assms 3 by (intro fl_of_int) auto
      then have "t = of_int (min (n + a) burst)" using 3(1) by (simp add: min_def flip: of_int_add)
      then show ?thesis using 3 assms by (intro exI [of _ "min (n + a) burst"]) auto
    next
      case False
      have "fl (of_int (2 ^ 53)) \<le> fl (of_int (n + a))" using False by (intro fl_mono) (simp only: of_int_le_iff)
      then have "of_int burst \<le> fl (of_int n + of_int a)"
        using fl_of_int [of "2 ^ 53"] assms(3) by (simp add: order_trans [of _ "2 ^ 53"])
      then have "t = of_int burst" using 3(1) by simp
      then show ?thesis using 3 assms by auto
    qed
  qed (use assms in auto)
qed

lemma redis_bucket_fields:
  assumes "bucket_inv now ks k burst" "0 < burst" "burst \<le> 2 ^ 52" "0 \<le> sec" "sec \<le> 2 ^ 52"
  obtains h d n l where "hash_at now ks k = Some (h, d)" "0 \<le> n" "n \<le> burst" "\<bar>l\<bar> \<le> 2 ^ 52"
    "bucket_fields (of_int sec) (of_int burst) (ReplyVals [h ''tokens'', h ''lastRefill'']) = (of_int n, of_int l)"
    "n = (case stored_tokens now ks k of None \<Rightarrow> burst | Some m \<Rightarrow> m)"
proof -
  obtain h d where h: "hash_at now ks k = Some (h, d)"
    and c: "h ''tokens'' = None \<or> (\<exists>n l. h ''tokens'' = Some (RInteger n) \<and> 0 \<le> n \<and> n \<le> burst
      \<and> h ''lastRefill'' = Some (RInteger l) \<and> \<bar>l\<bar> \<le> 2 ^ 52)"
    using assms(1) by (auto simp: bucket_inv_def)
  from c show thesis
  proof
    assume "h ''tokens'' = None"
    then show thesis
      using assms(2-5) h by (intro that [OF h, of burst sec]) (simp_all add: bucket_fields_def stored_tokens_def)
  next
    assume "\<exists>n l. h ''tokens'' = Some (RInteger n) \<and> 0 \<le> n \<and> n \<le> burst
      \<and> h ''lastRefill'' = Some (RInteger l) \<and> \<bar>l\<bar> \<le> 2 ^ 52"
    then obtain n l where nl: "h ''tokens'' = Some (RInteger n)" "0 \<le> n" "n \<le> burst"
      "h ''lastRefill'' = Some (RInteger l)" "\<bar>l\<bar> \<le> 2 ^ 52" by blast
    then show thesis
      using assms(3) h
      by (intro that [OF h, of n l]) (simp_all add: bucket_fields_def stored_tokens_def lua_number_def fl_of_int)
  qed
qed

lemma token_script_run:
  assumes "bucket_inv now ks k burst" "0 < burst" "burst \<le> 2 ^ 52" "0 \<le> sec" "sec \<le> 2 ^ 52"
  shows "\<exists>m reset ks'. run_state (tokenBucket_script keyspace_client now k (of_int sec) rate window (of_int burst) ttl) ks
      = (Inr (0 < m, of_int (max 0 (m - 1)), reset), ks')
    \<and> (case stored_tokens now ks k of None \<Rightarrow> burst | Some n \<Rightarrow> n) \<le> m \<and> m \<le> burst
    \<and> stored_tokens now ks' k = Some (max 0 (m - 1)) \<and> bucket_inv now ks' k burst"
proof -
  obtain h d n l where h: "hash_at now ks k = Some (h, d)" "0 \<le> n" "n \<le> burst" "\<bar>l\<bar> \<le> 2 ^ 52"
    "bucket_fields (of_int sec) (of_int burst) (ReplyVals [h ''tokens'', h ''lastRefill'']) = (of_int n, of_int l)"
    "n = (case stored_tokens now ks k of None \<Rightarrow> burst | Some m \<Rightarrow> m)"
    using redis_bucket_fields [OF assms] .
  obtain t l' where rf: "redis_refill (of_int sec) rate window (of_int burst) (of_int n) (of_int l) = (t, l')"
    by fastforce
  obtain m where m: "t = of_int m" "n \<le> m" "m \<le> burst" "l' = of_int l \<or> l' = of_int sec"
    using redis_refill_range [OF h(2,3) assms(3) rf] by blast
  obtain l2 where l2: "l' = of_int l2" "\<bar>l2\<bar> \<le> 2 ^ 52" using m(4) h(4) assms(4,5) by auto
  define n2 where "n2 = max 0 (m - 1)"
  have n2: "0 \<le> n2" "n2 \<le> burst" "\<bar>n2\<bar> < 10 ^ 17" "\<bar>l2\<bar> < 10 ^ 17"
    using m(3) l2 assms(2,3) by (auto simp: n2_def)
  have dec: "\<exists>reset. token_decision (of_int sec) rate window (of_int burst) (of_int m, l')
      = (of_int n2, 0 < m, of_int n2, reset)"
  proof (cases "0 < m")
    case True
    then have "fl (of_int (m - 1)) = of_int (m - 1)" using m(3) assms(3) by (intro fl_of_int) auto
    then show ?thesis using True by (simp add: token_decision_def Let_def n2_def)
  next
    case False
    then have "m = 0" using h(2) m(2) by simp
    then show ?thesis by (simp add: token_decision_def n2_def)
  qed
  then obtain reset where dec: "token_decision (of_int sec) rate window (of_int burst) (of_int m, l')
      = (of_int n2, 0 < m, of_int n2, reset)" by blast
  let ?h = "h(''tokens'' \<mapsto> RInteger n2, ''lastRefill'' \<mapsto> RInteger l2)"
  define d' where "d' = (if ttl > 0 then Some (now + ttl * ns_per_sec) else d)"
  have d': "\<not> expired now d'"
    "run_state (tokenBucket_script keyspace_client now k (of_int sec) rate window (of_int burst) ttl) ks
      = (Inr (0 < m, of_int n2, reset), ks(k \<mapsto> (RHash ?h, d')))"
    using h(1,5) hash_deadline [OF h(1)] rf m(1) dec l2(1) n2
    by (simp_all add: d'_def tokenBucket_script_def redis_exec_def Let_def lua_text_int expire_if_def live_update
        fun_upd_twist)
  have "bucket_inv now (ks(k \<mapsto> (RHash ?h, d'))) k burst" "stored_tokens now (ks(k \<mapsto> (RHash ?h, d'))) k = Some n2"
    using d'(1) n2 l2(2) by (simp_all add: bucket_inv_def stored_tokens_def hash_at_update)
  then show ?thesis
    using d'(2) m(2,3) h(6) unfolding n2_def by metis
qed

text \<open>A token bucket request finds between the stored tokens and the burst in the refilled bucket. It is admitted
  exactly when that is at least one token, takes one, and the stored tokens stay between 0 and the burst.\<close>

theorem redis_token_bucket:
  assumes "redis_server C ks" "rq_Algorithm q = ''token_bucket''" "k = redis_rateLimitKey c (rq_UserID q) (rq_Resource q)"
    and "burst = (if rq_Burst q \<le> 0 then rq_Rate q else rq_Burst q)" "0 < burst" "burst \<le> 2 ^ 52"
    and "0 \<le> rq_Now q div ns_per_sec" "rq_Now q div ns_per_sec \<le> 2 ^ 52"
    and "bucket_inv now (ks r) k burst" "st_CheckRateLimit (redis_storage C c) now q r = (x, r')"
  shows "\<exists>m reset. x = Inr (0 < m, max 0 (m - 1), reset)
    \<and> (case stored_tokens now (ks r) k of None \<Rightarrow> burst | Some n \<Rightarrow> n) \<le> m \<and> m \<le> burst
    \<and> stored_tokens now (ks r') k = Some (max 0 (m - 1)) \<and> bucket_inv now (ks r') k burst"
proof -
  have f: "f_of_int (rq_Now q div ns_per_sec) = of_int (rq_Now q div ns_per_sec)" "f_of_int burst = of_int burst"
    using fl_of_int [of "rq_Now q div ns_per_sec"] fl_of_int [of burst] assms(5-8) by (simp_all add: f_of_int_def)
  obtain m reset ks' where m: "run_state (tokenBucket_script keyspace_client now k (of_int (rq_Now q div ns_per_sec))
      (f_of_int (rq_Rate q)) (f_of_int (whole_seconds (rq_Window q))) (of_int burst)
      (f_to_int (Some (f_mul (duration_Seconds (rq_Window q)) 2)))) (ks r)
      = (Inr (0 < m, of_int (max 0 (m - 1)), reset), ks')"
    "(case stored_tokens now (ks r) k of None \<Rightarrow> burst | Some n \<Rightarrow> n) \<le> m" "m \<le> burst"
    "stored_tokens now ks' k = Some (max 0 (m - 1))" "bucket_inv now ks' k burst"
    using token_script_run [OF assms(9,5-8)] by blast
  have "to_reply_int (of_int (max 0 (m - 1))) = max 0 (m - 1)"
    using m(3) assms(6) by (intro reply_int) simp
  then have "x = Inr (0 < m, max 0 (m - 1), f_to_int reset * ns_per_sec) \<and> ks r' = ks'"
    using simD [OF redis_server.sim_methods(6) [OF assms(1)], of c now q r] assms(2,3,10) m(1) f
    unfolding assms(4) [symmetric]
    by (simp add: redis_storage_def redis_CheckRateLimit_def Let_def assms(4) [symmetric])
  then show ?thesis using m(2-5) by blast
qed

section \<open>Witnesses\<close>

definition demo_credits :: Period where
  "demo_credits = \<lparr>p_Start = 0, p_End = 0, p_Type = PeriodTypeForever\<rparr>"

definition demo_charge :: "goint \<Rightarrow> string \<Rightarrow> ConsumeRequest" where
  "demo_charge n key = \<lparr>cq_UserID = ''u'', cq_Resource = ''api'', cq_Amount = n, cq_Tier = ''free'',
     cq_Period = demo_credits, cq_Limit = 10, cq_IdempotencyKey = key, cq_IdempotencyKeyTTL = 0\<rparr>"

definition redis_demo_config :: RedisConfig where
  "redis_demo_config = redis_DefaultConfig\<lparr>rd_UsageTTL := 3600 * ns_per_sec\<rparr>"

definition demo_usage_key :: string where
  "demo_usage_key = ''goquota:usage:u:api:forever''"

text \<open>A record of 9 after a consumption of 7 with a key and another of 2.\<close>

definition demo_records :: keyspace where
  "demo_records = Map.empty(
     demo_usage_key \<mapsto> (RHash [''used'' \<mapsto> RInteger 9, ''data'' \<mapsto> RDoc (DocUsage
       \<lparr>u_UserID = ''u'', u_Resource = ''api'', u_Used = 0, u_Limit = 10, u_Period = demo_credits,
        u_Tier = ''free'', u_UpdatedAt = 0\<rparr>)], None),
     redis_consumptionKey redis_demo_config ''k'' \<mapsto> (RString (RDoc (DocConsumption
       (consumption_record 0 (demo_charge 7 ''k'') 7))), None))"

lemma demo_fields: "cq_Amount (demo_charge n key) = n" "cq_IdempotencyKey (demo_charge n key) = key"
  "cq_Limit (demo_charge n key) = 10" "rd_UsageTTL redis_DefaultConfig = 0"
  by (simp_all add: demo_charge_def redis_DefaultConfig_def)

lemma demo_json: "json_time 0"
  unfolding json_time_def by code_simp

lemma demo_sendable: "\<bar>n\<bar> \<le> 10 \<Longrightarrow> sendable 0 (demo_charge n key)"
  using demo_json by (simp add: sendable_def demo_charge_def demo_credits_def json_period_def)

lemma demo_key: "request_key redis_demo_config (demo_charge n key) = demo_usage_key"
  "request_key redis_DefaultConfig (demo_charge n key) = demo_usage_key"
  "redis_usageKey redis_demo_config ''u'' ''api'' demo_credits = demo_usage_key"
  by (simp_all add: request_key_def redis_usageKey_def redis_demo_config_def redis_DefaultConfig_def demo_charge_def
      demo_credits_def demo_usage_key_def)

lemma demo_counted: "counted 0 Map.empty k" "redis_used 0 Map.empty k = 0" "counted 0 demo_records demo_usage_key"
  "redis_used 0 demo_records demo_usage_key = 9"
  by (simp_all add: counted_def redis_used_def hash_at_def live_def demo_records_def demo_usage_key_def
      redis_consumptionKey_def redis_demo_config_def redis_DefaultConfig_def)


theorem redis_run_exact_witness:
  "let qs = [(0, demo_charge 7 ''''), (0, demo_charge 4 ''''), (0, demo_charge 3 '''')];
       (xs, ks) = redis_run keyspace_client redis_DefaultConfig qs Map.empty
   in redis_used 0 ks demo_usage_key = accepted_sum qs xs \<and> redis_used 0 ks demo_usage_key \<le> 10"
proof -
  let ?qs = "[(0, demo_charge 7 ''''), (0, demo_charge 4 ''''), (0, demo_charge 3 '''')]"
  obtain xs ks where run: "redis_run keyspace_client redis_DefaultConfig ?qs Map.empty = (xs, ks)" by fastforce
  have used: "redis_used 0 ks demo_usage_key = redis_used 0 Map.empty demo_usage_key + accepted_sum ?qs xs
      \<and> redis_used 0 ks demo_usage_key \<le> 10"
    by (rule redis_run_exact [OF keyspace.redis_server_axioms _ _ _ _ _ _ _ run])
      (simp_all add: demo_key demo_counted demo_sendable lasting_def demo_fields)
  show ?thesis
    unfolding Let_def run prod.case using used by (simp add: demo_counted)
qed

theorem redis_replay_current_witness:
  "fst (st_ConsumeQuota (redis_storage keyspace_client redis_demo_config) 0 (demo_charge 7 ''k'') demo_records) = (9, None)"
proof -
  obtain x ks where run: "st_ConsumeQuota (redis_storage keyspace_client redis_demo_config) 0 (demo_charge 7 ''k'') demo_records
      = (x, ks)" by fastforce
  have live: "live 0 demo_records (redis_consumptionKey redis_demo_config (cq_IdempotencyKey (demo_charge 7 ''k''))) =
      Some (RString (RDoc (DocConsumption (consumption_record 0 (demo_charge 7 ''k'') 7))), None)"
    by (simp add: demo_fields live_def demo_records_def)
  have "x = (redis_used 0 demo_records demo_usage_key, None)"
    using redis_replay_current [OF keyspace.redis_server_axioms _ _ _ _ live run] demo_counted demo_key demo_sendable [of 7 "''k''"]
    by (simp add: demo_fields)
  then show ?thesis by (simp add: run demo_counted)
qed

theorem redis_topup_lost_witness:
  "let topped = snd (st_AddLimit (redis_storage keyspace_client redis_demo_config) 0 ''u'' ''api'' 100 demo_credits ''t'' Map.empty)
   in fst (st_AddLimit (redis_storage keyspace_client redis_demo_config) 0 ''u'' ''api'' 100 demo_credits ''t'' Map.empty) = None
    \<and> fst (st_GetUsage (redis_storage keyspace_client redis_demo_config) 1 ''u'' ''api'' demo_credits topped) = Inr None"
proof -
  obtain ks where run: "st_AddLimit (redis_storage keyspace_client redis_demo_config) 0 ''u'' ''api'' 100 demo_credits ''t''
      Map.empty = (None, ks)"
    by (simp add: redis_storage_def run_error_def redis_AddLimit_def addLimit_script_def redis_exec_def hash_at_def
        live_def counter_value_def int64_ok_def expire_if_def demo_credits_def Let_def del: period_Key.simps)
  have "fst (st_GetUsage (redis_storage keyspace_client redis_demo_config) 1 ''u'' ''api'' demo_credits ks)
      = fst (st_GetUsage (redis_storage keyspace_client redis_demo_config) 1 ''u'' ''api'' demo_credits Map.empty)"
    by (rule redis_topup_lost [OF keyspace.redis_server_axioms _ _ run]) (simp_all add: demo_credits_def)
  also have "\<dots> = Inr None"
    by (simp add: redis_storage_def redis_GetUsage_def redis_exec_def hash_at_def live_def)
  finally show ?thesis by (simp add: run)
qed

definition demo_back :: RefundRequest where
  "demo_back = \<lparr>rr_UserID = ''u'', rr_Resource = ''api'', rr_Amount = 4, rr_PeriodType = PeriodTypeForever,
     rr_Period = demo_credits, rr_IdempotencyKey = ''k'', rr_IdempotencyKeyTTL = 0, rr_Reason = '''', rr_Metadata = []\<rparr>"

lemma demo_refund: "sendable_refund 0 demo_back" "refunded_key redis_demo_config demo_back = demo_usage_key"
  "rr_IdempotencyKey demo_back = ''k''" "rr_UserID demo_back = ''u''" "rr_Resource demo_back = ''api''"
  "rr_Period demo_back = demo_credits" "p_Type demo_credits = PeriodTypeForever" "rr_Amount demo_back = 4"
  using demo_key(3) demo_json
  by (simp_all add: sendable_refund_def demo_back_def demo_credits_def json_period_def refunded_key_def zero_time_def
      ns_per_sec_def)

lemma demo_no_refund: "live 0 demo_records (redis_refundKey redis_demo_config k) = None"
  by (simp add: live_def demo_records_def demo_key(3) [symmetric])

lemma demo_hash: "\<exists>h. hash_at 0 demo_records demo_usage_key = Some (h, None) \<and> h ''used'' = Some (RInteger 9)"
  "redis_acct 0 demo_records demo_usage_key = Some (9, 10)"
  "\<exists>h u. hash_at 0 demo_records demo_usage_key = Some (h, None) \<and> h ''used'' = Some (RInteger 9)
    \<and> h ''data'' = Some (RDoc (DocUsage u)) \<and> u_Limit u = 10"
  by (simp_all add: hash_at_def redis_acct_def live_def demo_records_def demo_usage_key_def
      redis_consumptionKey_def redis_demo_config_def redis_DefaultConfig_def)

theorem redis_refund_refines_witness:
  "case st_RefundQuota (redis_storage keyspace_client redis_demo_config) 0 demo_back demo_records of
     (e, ks) \<Rightarrow> e = None \<and> lg_acct (redis_ledger redis_demo_config 0 ks) demo_usage_key = Some (5, 10)"
proof -
  obtain e ks where run: "st_RefundQuota (redis_storage keyspace_client redis_demo_config) 0 demo_back demo_records = (e, ks)"
    by fastforce
  have "spec_refund demo_usage_key demo_back (redis_ledger redis_demo_config 0 demo_records) = (e, redis_ledger redis_demo_config 0 ks)"
    using redis_refund_refines [OF keyspace.redis_server_axioms demo_refund(1) _ _ _ run, of 9 10]
    by (simp add: demo_refund demo_no_refund demo_counted demo_hash)
  moreover have "lg_acct (redis_ledger redis_demo_config 0 demo_records) = redis_acct 0 demo_records"
    "\<not> lg_refunds (redis_ledger redis_demo_config 0 demo_records) ''k''"
    by (simp_all add: redis_ledger_def demo_no_refund)
  ultimately have "(e, redis_ledger redis_demo_config 0 ks) = (None, (redis_ledger redis_demo_config 0 demo_records)
      \<lparr>lg_acct := (redis_acct 0 demo_records)(demo_usage_key \<mapsto> (5, 10)),
       lg_refunds := (\<lambda>k. lg_refunds (redis_ledger redis_demo_config 0 demo_records) k \<or> k \<noteq> '''' \<and> k = ''k'')\<rparr>)"
    by (simp add: spec_refund_def demo_refund demo_hash isub_def wrap64_def)
  then show ?thesis by (simp add: run)
qed

lemma demo_ttl: "whole_seconds (rd_UsageTTL redis_demo_config) = 3600"
  using fl_of_int [of 3600]
  by (simp add: redis_demo_config_def whole_seconds_def duration_Seconds_def iquot_def irem_def ns_per_sec_def
      wrap64_def f_of_int_def f_add_def f_to_int_def rat_trunc_def int64_ok_def)

theorem redis_refund_expires_witness:
  "case st_RefundQuota (redis_storage keyspace_client redis_demo_config) 0 demo_back demo_records of
     (e, ks) \<Rightarrow> e = None \<and>
       fst (st_GetUsage (redis_storage keyspace_client redis_demo_config) (3600 * ns_per_sec) ''u'' ''api'' demo_credits ks) = Inr None"
proof -
  obtain h where h: "hash_at 0 demo_records demo_usage_key = Some (h, None)" "h ''used'' = Some (RInteger 9)"
    using demo_hash by blast
  have "ns_per_sec \<le> rd_UsageTTL redis_demo_config" by (simp add: redis_demo_config_def ns_per_sec_def)
  then show ?thesis
    using redis_refund_expires [where c = redis_demo_config and r = demo_records and h = h and d = None and n = 9
        and later = "3600 * ns_per_sec", OF keyspace.redis_server_axioms demo_refund(1)] h
    by (simp add: demo_refund demo_no_refund demo_ttl case_prod_unfold)
qed

definition demo_burst :: RateLimitRequest where
  "demo_burst = \<lparr>rq_UserID = ''u'', rq_Resource = ''api'', rq_Algorithm = ''sliding_window'', rq_Rate = 2,
     rq_Window = 60 * ns_per_sec, rq_Burst = 0, rq_Now = 0\<rparr>"

lemma demo_window: "whole_seconds (60 * ns_per_sec) = 60"
  using fl_of_int [of 60]
  by (simp add: whole_seconds_def duration_Seconds_def iquot_def irem_def ns_per_sec_def
      wrap64_def f_of_int_def f_add_def f_to_int_def rat_trunc_def int64_ok_def)

text \<open>Five requests against a limit of two per minute.\<close>

theorem redis_window_uncounted_witness:
  "length (filter admitted (fst (redis_rate_run keyspace_client redis_demo_config
     [(0, demo_burst), (1, demo_burst), (2, demo_burst), (3, demo_burst), (4, demo_burst)] Map.empty))) = 5"
proof -
  have "one_second (of_int 0) Map.empty (redis_rateLimitKey redis_demo_config ''u'' ''api'')"
    by (simp add: one_second_def)
  then show ?thesis
    using redis_window_uncounted [where u = "''u''" and rs = "''api''" and sec = 0 and r = Map.empty and c = redis_demo_config
        and qs = "[(0, demo_burst), (1, demo_burst), (2, demo_burst), (3, demo_burst), (4, demo_burst)]",
        OF keyspace.redis_server_axioms]
    by (simp add: demo_burst_def demo_window del: redis_rate_run.simps)
qed

theorem redis_token_bucket_witness:
  "\<exists>m reset ks. st_CheckRateLimit (redis_storage keyspace_client redis_demo_config) 0
      (demo_burst\<lparr>rq_Algorithm := ''token_bucket'', rq_Burst := 5\<rparr>) Map.empty = (Inr (0 < m, max 0 (m - 1), reset), ks)
    \<and> 5 \<le> m \<and> m \<le> 5"
proof -
  let ?q = "demo_burst\<lparr>rq_Algorithm := ''token_bucket'', rq_Burst := 5\<rparr>"
  obtain x ks where run: "st_CheckRateLimit (redis_storage keyspace_client redis_demo_config) 0 ?q Map.empty = (x, ks)"
    by fastforce
  have "bucket_inv 0 Map.empty k 5" "stored_tokens 0 Map.empty k = None" for k
    by (simp_all add: bucket_inv_def stored_tokens_def hash_at_def live_def)
  with redis_token_bucket [OF keyspace.redis_server_axioms _ refl refl _ _ _ _ _ run]
  have "\<exists>m reset. x = Inr (0 < m, max 0 (m - 1), reset) \<and> 5 \<le> m \<and> m \<le> 5"
    by (fastforce simp: demo_burst_def)
  then show ?thesis by (auto simp: run)
qed

theorem redis_entitlement_roundtrip_witness:
  "let ent = \<lparr>e_UserID = ''u'', e_Tier = ''pro'', e_SubscriptionStartDate = 0, e_ExpiresAt = None, e_UpdatedAt = 0\<rparr>;
       day = 24 * 3600 * ns_per_sec; (e, ks) = st_SetEntitlement (redis_storage keyspace_client redis_DefaultConfig) 0 ent Map.empty
   in e = None \<and> fst (st_GetEntitlement (redis_storage keyspace_client redis_DefaultConfig) (day - 1) ''u'' ks) = Inr ent
    \<and> fst (st_GetEntitlement (redis_storage keyspace_client redis_DefaultConfig) day ''u'' ks) = Inl ErrEntitlementNotFound"
proof -
  let ?ent = "\<lparr>e_UserID = ''u'', e_Tier = ''pro'', e_SubscriptionStartDate = 0, e_ExpiresAt = None, e_UpdatedAt = 0\<rparr>"
  obtain ks where run: "st_SetEntitlement (redis_storage keyspace_client redis_DefaultConfig) 0 ?ent Map.empty = (None, ks)"
    using demo_json by (simp add: redis_storage_def run_error_def redis_SetEntitlement_def marshal_if_def redis_exec_def)
  have "fst (st_GetEntitlement (redis_storage keyspace_client redis_DefaultConfig) t ''u'' ks)
      = (if 24 * 3600 * ns_per_sec \<le> t then Inl ErrEntitlementNotFound else Inr ?ent)" if "0 \<le> t" for t
    using redis_entitlement_roundtrip [OF keyspace.redis_server_axioms run that]
    by (simp add: redis_DefaultConfig_def ns_per_sec_def)
  from this [of "24 * 3600 * ns_per_sec - 1"] this [of "24 * 3600 * ns_per_sec"] show ?thesis
    by (simp add: run ns_per_sec_def)
qed

text \<open>The limit of the record stays 10 after a tier change to 1000.\<close>

theorem redis_tier_change_ignored_witness:
  "let q = \<lparr>tq_UserID = ''u'', tq_Resource = ''api'', tq_OldTier = ''free'', tq_NewTier = ''pro'', tq_Period = demo_credits,
         tq_OldLimit = 10, tq_NewLimit = 1000, tq_CurrentUsed = 9\<rparr>;
       ks = snd (st_ApplyTierChange (redis_storage keyspace_client redis_demo_config) 0 q demo_records)
   in map_option u_Limit (projr (fst (st_GetUsage (redis_storage keyspace_client redis_demo_config) 0 ''u'' ''api'' demo_credits ks)))
      = Some 10"
proof -
  let ?q = "\<lparr>tq_UserID = ''u'', tq_Resource = ''api'', tq_OldTier = ''free'', tq_NewTier = ''pro'', tq_Period = demo_credits,
         tq_OldLimit = 10, tq_NewLimit = 1000, tq_CurrentUsed = 9\<rparr>"
  obtain e ks where run: "st_ApplyTierChange (redis_storage keyspace_client redis_demo_config) 0 ?q demo_records = (e, ks)"
    by fastforce
  have "map_option u_Limit (projr (fst (st_GetUsage (redis_storage keyspace_client redis_demo_config) 0 ''u'' ''api''
      demo_credits demo_records))) = Some 10"
    using demo_hash(3)
    by (auto simp: redis_storage_def redis_GetUsage_def redis_exec_def demo_key scan_int_def int64_ok_def)
  then show ?thesis
    using redis_tier_change_ignored [OF keyspace.redis_server_axioms _ run, of 0] by (simp add: run)
qed

end
