(* ===== verification/PostgresStorage.thy ===== *)
theory PostgresStorage
  imports MemoryStorage "HOL-Library.State_Monad"
begin

text \<open>
  The PostgreSQL backend, \<open>storage/postgres/postgres.go\<close> with the tables of its migrations. A
  statement of the source is a definition on the tables, with the unique constraints, column sizes
  and integer ranges the migrations declare; a method sends statements to the server, alone or in a
  transaction.

  The server and the network are outside of the repository: the state holds the outcomes of the
  round trips to come. A round trip is answered, or fails before anything is done, or its reply is
  lost after the statement has run (which matters for a commit and a statement of its own). A
  transaction that is not committed leaves the tables as they were. Within a transaction \<open>NOW()\<close> is its
  start, and timestamps have microseconds. Rate limits are those of the embedded in-memory storage.
\<close>

section \<open>Tables\<close>

record QuotaRow =
  qr_end :: "time option"
  qr_type :: PeriodType
  qr_used :: goint
  qr_limit :: goint
  qr_tier :: string
  qr_updated :: time

record ConsumptionRow =
  cr_id :: string
  cr_user :: string
  cr_resource :: string
  cr_amount :: goint
  cr_period :: Period
  cr_new_used :: goint
  cr_timestamp :: time
  cr_expires :: time

record RefundRow =
  fr_id :: string
  fr_user :: string
  fr_resource :: string
  fr_amount :: goint
  fr_period :: Period
  fr_timestamp :: time
  fr_expires :: time
  fr_reason :: string
  fr_metadata :: "(string \<times> string) list option"

text \<open>
  A table with a unique constraint the code conflicts on is a map from those columns; the rows of the
  record tables are also searched by key alone, so they are lists. Of a top-up row only the key is
  ever read.
\<close>

record PgTables =
  tb_entitlements :: "string \<rightharpoonup> Entitlement"
  tb_usage :: "string \<times> string \<times> time \<rightharpoonup> QuotaRow"
  tb_consumptions :: "ConsumptionRow list"
  tb_refunds :: "RefundRow list"
  tb_topUps :: "string \<rightharpoonup> string \<times> string \<times> goint \<times> Period"

datatype fault = NotDone goerr | ReplyLost goerr

record PgState =
  pg_tables :: PgTables
  pg_faults :: "fault option list"
  pg_memory :: MemState

record PgConfig =
  pc_ConnectionString :: string
  pc_MaxConns :: goint
  pc_MinConns :: goint
  pc_MaxConnLifetime :: duration
  pc_MaxConnIdleTime :: duration
  pc_CleanupEnabled :: bool
  pc_CleanupInterval :: duration
  pc_RecordTTL :: duration

definition pg_DefaultConfig :: PgConfig where
  "pg_DefaultConfig = \<lparr>pc_ConnectionString = '''', pc_MaxConns = 10, pc_MinConns = 2,
     pc_MaxConnLifetime = 3600 * ns_per_sec, pc_MaxConnIdleTime = 30 * 60 * ns_per_sec, pc_CleanupEnabled = True,
     pc_CleanupInterval = 1 * 3600 * ns_per_sec, pc_RecordTTL = 7 * 24 * 3600 * ns_per_sec\<rparr>"

section \<open>Round trips and transactions\<close>

type_synonym 'a statement = "PgTables \<Rightarrow> (goerr + 'a) \<times> PgTables"

definition pg_trip :: "'a statement \<Rightarrow> (PgState, goerr + 'a) state" where
  "pg_trip f = State (\<lambda>s. let (r, t) = f (pg_tables s) in
     case pg_faults s of
       [] \<Rightarrow> (r, s\<lparr>pg_tables := t\<rparr>)
     | None # fs \<Rightarrow> (r, s\<lparr>pg_tables := t, pg_faults := fs\<rparr>)
     | Some (NotDone e) # fs \<Rightarrow> (Inl e, s\<lparr>pg_faults := fs\<rparr>)
     | Some (ReplyLost e) # fs \<Rightarrow> (Inl e, s\<lparr>pg_tables := t, pg_faults := fs\<rparr>))"

text \<open>
  The body of a transaction ends with its result and whether it commits. A failed statement ends it
  with an error; \<open>fail\<close> makes a result of an error.
\<close>

type_synonym 'b tx = "(PgState, bool \<times> 'b) state"

definition pg_stmt :: "(goerr \<Rightarrow> 'b) \<Rightarrow> string \<Rightarrow> 'a statement \<Rightarrow> ('a \<Rightarrow> 'b tx) \<Rightarrow> 'b tx" where
  "pg_stmt fail msg f k = do {
     r \<leftarrow> pg_trip f;
     case r of Inl e \<Rightarrow> State_Monad.return (False, fail (Wrapped msg e)) | Inr x \<Rightarrow> k x
   }"

definition pg_rollback :: "PgTables \<Rightarrow> PgState \<Rightarrow> PgState" where
  "pg_rollback t s = s\<lparr>pg_tables := t\<rparr>"

definition pg_commit :: "(goerr \<Rightarrow> 'b) \<Rightarrow> PgTables \<Rightarrow> 'b \<Rightarrow> (PgState, 'b) state" where
  "pg_commit lost t x = State (\<lambda>s. case pg_faults s of
     [] \<Rightarrow> (x, s)
   | None # fs \<Rightarrow> (x, s\<lparr>pg_faults := fs\<rparr>)
   | Some (NotDone e) # fs \<Rightarrow> (lost e, pg_rollback t (s\<lparr>pg_faults := fs\<rparr>))
   | Some (ReplyLost e) # fs \<Rightarrow> (lost e, s\<lparr>pg_faults := fs\<rparr>))"

text \<open>\<open>lost\<close> is what the method returns if the commit fails.\<close>

definition pg_transaction :: "(goerr \<Rightarrow> 'b) \<Rightarrow> (goerr \<Rightarrow> 'b) \<Rightarrow> 'b tx \<Rightarrow> (PgState, 'b) state" where
  "pg_transaction fail lost body = do {
     b \<leftarrow> pg_trip (\<lambda>t. (Inr (), t));
     case b of
       Inl e \<Rightarrow> State_Monad.return (fail (Wrapped ''failed to begin transaction'' e))
     | Inr _ \<Rightarrow> do {
         s \<leftarrow> State_Monad.get;
         r \<leftarrow> body;
         if fst r then pg_commit lost (pg_tables s) (snd r)
         else do {
           State_Monad.update (pg_rollback (pg_tables s));
           State_Monad.return (snd r)
         }
       }
   }"

section \<open>Column types\<close>

definition pg_time :: "time \<Rightarrow> time" where
  "pg_time t = t - t mod 1000"

definition pg_period :: "Period \<Rightarrow> Period" where
  "pg_period p = \<lparr>p_Start = pg_time (p_Start p), p_End = pg_time (p_End p), p_Type = p_Type p\<rparr>"

definition varchar :: "nat \<Rightarrow> string \<Rightarrow> bool" where
  "varchar n s \<longleftrightarrow> length s \<le> n"

fun type_fits :: "PeriodType \<Rightarrow> bool" where
  "type_fits (PeriodTypeOther s) = varchar 20 s"
| "type_fits _ = True"

definition too_long :: goerr where
  "too_long = ErrText ''ERROR: value too long for type character varying (SQLSTATE 22001)''"

definition out_of_range :: goerr where
  "out_of_range = ErrText ''ERROR: bigint out of range (SQLSTATE 22003)''"

definition usage_row :: "string \<Rightarrow> string \<Rightarrow> Period \<Rightarrow> string \<times> string \<times> time" where
  "usage_row userID resource period = (userID, resource, pg_time (p_Start period))"

definition usage_fits :: "string \<Rightarrow> string \<Rightarrow> Period \<Rightarrow> string \<Rightarrow> bool" where
  "usage_fits userID resource period tier \<longleftrightarrow>
     varchar 255 userID \<and> varchar 50 resource \<and> type_fits (p_Type period) \<and> varchar 50 tier"

definition new_row :: "time \<Rightarrow> Period \<Rightarrow> goint \<Rightarrow> goint \<Rightarrow> string \<Rightarrow> QuotaRow" where
  "new_row now period used lmt tier = \<lparr>qr_end = Some (pg_time (p_End period)), qr_type = p_Type period,
     qr_used = used, qr_limit = lmt, qr_tier = tier, qr_updated = pg_time now\<rparr>"

section \<open>Entitlements and usage\<close>

definition pg_GetEntitlement :: "time \<Rightarrow> string \<Rightarrow> (PgState, goerr + Entitlement) state" where
  "pg_GetEntitlement now userID = do {
     r \<leftarrow> pg_trip (\<lambda>t. (Inr (tb_entitlements t userID), t));
     State_Monad.return (case r of
       Inl e \<Rightarrow> Inl (Wrapped ''failed to get entitlement'' e)
     | Inr None \<Rightarrow> Inl ErrEntitlementNotFound
     | Inr (Some ent) \<Rightarrow> Inr ent)
   }"

definition upsert_entitlement :: "time \<Rightarrow> Entitlement \<Rightarrow> unit statement" where
  "upsert_entitlement now ent t =
     (if varchar 255 (e_UserID ent) \<and> varchar 50 (e_Tier ent)
      then (Inr (), t\<lparr>tb_entitlements := (tb_entitlements t)(e_UserID ent \<mapsto>
        ent\<lparr>e_SubscriptionStartDate := pg_time (e_SubscriptionStartDate ent),
            e_ExpiresAt := map_option pg_time (e_ExpiresAt ent), e_UpdatedAt := pg_time now\<rparr>)\<rparr>)
      else (Inl too_long, t))"

definition pg_SetEntitlement :: "time \<Rightarrow> Entitlement \<Rightarrow> (PgState, goerr option) state" where
  "pg_SetEntitlement now ent =
     (if e_UserID ent = '''' then State_Monad.return (Some (ErrText ''invalid entitlement''))
      else do {
        r \<leftarrow> pg_trip (upsert_entitlement now ent);
        State_Monad.return (case r of Inl e \<Rightarrow> Some (Wrapped ''failed to set entitlement'' e) | Inr _ \<Rightarrow> None)
      })"

definition far_future :: time where
  "far_future = time_Date 9999 12 31 23 59 59 0"

definition usage_of_row :: "string \<times> string \<times> time \<Rightarrow> QuotaRow \<Rightarrow> Usage" where
  "usage_of_row = (\<lambda>(userID, resource, start) r.
     \<lparr>u_UserID = userID, u_Resource = resource, u_Used = qr_used r, u_Limit = qr_limit r,
      u_Period = \<lparr>p_Start = start, p_End = (case qr_end r of Some e \<Rightarrow> e | None \<Rightarrow> far_future), p_Type = qr_type r\<rparr>,
      u_Tier = qr_tier r, u_UpdatedAt = qr_updated r\<rparr>)"

definition pg_GetUsage :: "time \<Rightarrow> string \<Rightarrow> string \<Rightarrow> Period \<Rightarrow> (PgState, goerr + Usage option) state" where
  "pg_GetUsage now userID resource period = do {
     let k = usage_row userID resource period;
     r \<leftarrow> pg_trip (\<lambda>t. (Inr (tb_usage t k), t));
     State_Monad.return (case r of
       Inl e \<Rightarrow> Inl (Wrapped ''failed to get usage'' e)
     | Inr row \<Rightarrow> Inr (map_option (usage_of_row k) row))
   }"

definition upsert_usage :: "time \<Rightarrow> string \<Rightarrow> string \<Rightarrow> Usage \<Rightarrow> Period \<Rightarrow> unit statement" where
  "upsert_usage now userID resource usage period t =
     (if usage_fits userID resource period (u_Tier usage)
      then let k = usage_row userID resource period in
        (Inr (), t\<lparr>tb_usage := (tb_usage t)(k \<mapsto> (case tb_usage t k of
           None \<Rightarrow> new_row now period (u_Used usage) (u_Limit usage) (u_Tier usage)
         | Some row \<Rightarrow> row\<lparr>qr_used := u_Used usage, qr_limit := u_Limit usage, qr_tier := u_Tier usage,
             qr_updated := pg_time now\<rparr>))\<rparr>)
      else (Inl too_long, t))"

definition pg_SetUsage :: "time \<Rightarrow> string \<Rightarrow> string \<Rightarrow> Usage \<Rightarrow> Period \<Rightarrow> (PgState, goerr option) state" where
  "pg_SetUsage now userID resource usage period = do {
     r \<leftarrow> pg_trip (upsert_usage now userID resource usage period);
     State_Monad.return (case r of Inl e \<Rightarrow> Some (Wrapped ''failed to set usage'' e) | Inr _ \<Rightarrow> None)
   }"

section \<open>Consumption\<close>

definition find_consumption :: "string \<Rightarrow> string \<Rightarrow> ConsumptionRow option statement" where
  "find_consumption userID key t =
     (Inr (find (\<lambda>r. cr_user r = userID \<and> cr_id r = key) (tb_consumptions t)), t)"

text \<open>\<open>INSERT ... ON CONFLICT DO NOTHING\<close> of a row with the request's limit.\<close>

definition ensure_usage :: "time \<Rightarrow> ConsumeRequest \<Rightarrow> unit statement" where
  "ensure_usage now req t =
     (if usage_fits (cq_UserID req) (cq_Resource req) (cq_Period req) (cq_Tier req)
      then let k = usage_row (cq_UserID req) (cq_Resource req) (cq_Period req) in
        (Inr (), case tb_usage t k of Some _ \<Rightarrow> t
         | None \<Rightarrow> t\<lparr>tb_usage := (tb_usage t)(k \<mapsto> new_row now (cq_Period req) 0 (cq_Limit req) (cq_Tier req))\<rparr>)
      else (Inl too_long, t))"

definition lock_usage :: "string \<times> string \<times> time \<Rightarrow> QuotaRow option statement" where
  "lock_usage k t = (Inr (tb_usage t k), t)"

definition update_used :: "time \<Rightarrow> string \<times> string \<times> time \<Rightarrow> goint \<Rightarrow> unit statement" where
  "update_used now k newUsed t = (Inr (), case tb_usage t k of None \<Rightarrow> t
     | Some row \<Rightarrow> t\<lparr>tb_usage := (tb_usage t)(k \<mapsto> row\<lparr>qr_used := newUsed, qr_updated := pg_time now\<rparr>)\<rparr>)"

definition record_expiry :: "PgConfig \<Rightarrow> time \<Rightarrow> duration \<Rightarrow> time" where
  "record_expiry c now ttl = pg_time (time_Add now (if ttl > 0 then ttl else pc_RecordTTL c))"

definition insert_consumption :: "PgConfig \<Rightarrow> time \<Rightarrow> ConsumeRequest \<Rightarrow> goint \<Rightarrow> unit statement" where
  "insert_consumption c now req newUsed t =
     (if varchar 255 (cq_IdempotencyKey req) \<and> usage_fits (cq_UserID req) (cq_Resource req) (cq_Period req) ''''
      then (Inr (), if \<exists>r \<in> set (tb_consumptions t). cr_user r = cq_UserID req \<and> cr_id r = cq_IdempotencyKey req then t
        else t\<lparr>tb_consumptions := tb_consumptions t @ [\<lparr>cr_id = cq_IdempotencyKey req, cr_user = cq_UserID req,
          cr_resource = cq_Resource req, cr_amount = cq_Amount req, cr_period = pg_period (cq_Period req),
          cr_new_used = newUsed, cr_timestamp = pg_time now,
          cr_expires = record_expiry c now (cq_IdempotencyKeyTTL req)\<rparr>]\<rparr>)
      else (Inl too_long, t))"

definition consume_fail :: "goerr \<Rightarrow> goint \<times> goerr option" where
  "consume_fail e = (0, Some e)"

definition no_rows :: goerr where
  "no_rows = ErrText ''no rows in result set''"

text \<open>
  From the upsert on, the transaction holds the lock of the usage row (the upsert and the \<open>SELECT ... FOR
  UPDATE\<close> wait for it), so on one row these parts follow each other.
\<close>

definition pg_consume_charge :: "PgConfig \<Rightarrow> time \<Rightarrow> ConsumeRequest \<Rightarrow> (goint \<times> goerr option) tx" where
  "pg_consume_charge c now req =
     (let k = usage_row (cq_UserID req) (cq_Resource req) (cq_Period req) in
      pg_stmt consume_fail ''failed to ensure usage record exists'' (ensure_usage now req) (\<lambda>_.
      pg_stmt consume_fail ''failed to get usage for update'' (lock_usage k) (\<lambda>row.
        case row of
          None \<Rightarrow> State_Monad.return (False, consume_fail (Wrapped ''failed to get usage for update'' no_rows))
        | Some row \<Rightarrow>
            let newUsed = iadd (qr_used row) (cq_Amount req) in
            if qr_limit row \<noteq> -1 \<and> newUsed > qr_limit row
            then State_Monad.return (False, (qr_used row, Some ErrQuotaExceeded))
            else
              pg_stmt consume_fail ''failed to update usage'' (update_used now k newUsed) (\<lambda>_.
              if cq_IdempotencyKey req = '''' then State_Monad.return (True, (newUsed, None))
              else
                pg_stmt consume_fail ''failed to re-check idempotency''
                  (find_consumption (cq_UserID req) (cq_IdempotencyKey req)) (\<lambda>existing.
                  case existing of
                    Some r \<Rightarrow> pg_stmt consume_fail ''failed to rollback'' (\<lambda>t. (Inr (), t))
                      (\<lambda>_. State_Monad.return (False, (cr_new_used r, None)))
                  | None \<Rightarrow> pg_stmt consume_fail ''failed to record consumption''
                      (insert_consumption c now req newUsed) (\<lambda>_. State_Monad.return (True, (newUsed, None))))))))"

definition pg_consume_body :: "PgConfig \<Rightarrow> time \<Rightarrow> ConsumeRequest \<Rightarrow> (goint \<times> goerr option) tx" where
  "pg_consume_body c now req =
     (if cq_IdempotencyKey req = '''' then pg_consume_charge c now req
      else pg_stmt consume_fail ''failed to check idempotency''
        (find_consumption (cq_UserID req) (cq_IdempotencyKey req)) (\<lambda>existing.
        case existing of
          Some r \<Rightarrow> State_Monad.return (True, (cr_new_used r, None))
        | None \<Rightarrow> pg_consume_charge c now req))"

definition pg_ConsumeQuota :: "PgConfig \<Rightarrow> time \<Rightarrow> ConsumeRequest \<Rightarrow> (PgState, goint \<times> goerr option) state" where
  "pg_ConsumeQuota c now req =
     (if cq_Amount req < 0 then State_Monad.return (0, Some ErrInvalidAmount)
      else if cq_Amount req = 0 then State_Monad.return (0, None)
      else pg_transaction consume_fail (\<lambda>e. consume_fail (Wrapped ''failed to commit'' e)) (pg_consume_body c now req))"

section \<open>Refunds and tier changes\<close>

definition metadata_column :: "(string \<times> string) list \<Rightarrow> (string \<times> string) list option" where
  "metadata_column m = (if m = [] then None else Some m)"

definition insert_refund :: "PgConfig \<Rightarrow> time \<Rightarrow> RefundRequest \<Rightarrow> Period \<Rightarrow> unit statement" where
  "insert_refund c now req period t =
     (if varchar 255 (rr_IdempotencyKey req) \<and> usage_fits (rr_UserID req) (rr_Resource req) period ''''
      then (Inr (), if \<exists>r \<in> set (tb_refunds t). fr_user r = rr_UserID req \<and> fr_id r = rr_IdempotencyKey req then t
        else t\<lparr>tb_refunds := tb_refunds t @ [\<lparr>fr_id = rr_IdempotencyKey req, fr_user = rr_UserID req,
          fr_resource = rr_Resource req, fr_amount = rr_Amount req, fr_period = pg_period period,
          fr_timestamp = pg_time now, fr_expires = record_expiry c now (rr_IdempotencyKeyTTL req),
          fr_reason = rr_Reason req, fr_metadata = metadata_column (rr_Metadata req)\<rparr>]\<rparr>)
      else (Inl too_long, t))"

definition refund_exists :: "string \<Rightarrow> string \<Rightarrow> bool statement" where
  "refund_exists userID key t = (Inr (\<exists>r \<in> set (tb_refunds t). fr_user r = userID \<and> fr_id r = key), t)"

definition pg_record_refund :: "PgConfig \<Rightarrow> time \<Rightarrow> RefundRequest \<Rightarrow> Period \<Rightarrow> goerr option tx" where
  "pg_record_refund c now req period =
     (if rr_IdempotencyKey req = '''' then State_Monad.return (True, None)
      else pg_stmt Some ''failed to record refund'' (insert_refund c now req period)
        (\<lambda>_. State_Monad.return (True, None)))"

definition pg_refund_usage :: "PgConfig \<Rightarrow> time \<Rightarrow> RefundRequest \<Rightarrow> Period \<Rightarrow> goerr option tx" where
  "pg_refund_usage c now req period =
     (let k = usage_row (rr_UserID req) (rr_Resource req) period in
      pg_stmt Some ''failed to get usage'' (lock_usage k) (\<lambda>row.
        case row of
          None \<Rightarrow> pg_record_refund c now req period
        | Some row \<Rightarrow>
            let newUsed = isub (qr_used row) (rr_Amount req);
                newUsed = (if newUsed < 0 then 0 else newUsed)
            in pg_stmt Some ''failed to update usage'' (update_used now k newUsed)
                 (\<lambda>_. pg_record_refund c now req period)))"

text \<open>The period is found as in the in-memory backend (\<open>mem_refund_period\<close>, the same code).\<close>

definition pg_RefundQuota :: "PgConfig \<Rightarrow> time \<Rightarrow> RefundRequest \<Rightarrow> (PgState, goerr option) state" where
  "pg_RefundQuota c now req =
     (if rr_Amount req < 0 then State_Monad.return (Some ErrInvalidAmount)
      else if rr_Amount req = 0 then State_Monad.return None
      else case mem_refund_period now req of
        Inl e \<Rightarrow> State_Monad.return (Some e)
      | Inr period \<Rightarrow>
          pg_transaction Some (\<lambda>e. Some (Wrapped ''failed to commit'' e))
            (if rr_IdempotencyKey req = '''' then pg_refund_usage c now req period
             else pg_stmt Some ''failed to check idempotency'' (refund_exists (rr_UserID req) (rr_IdempotencyKey req))
               (\<lambda>exists. if exists then State_Monad.return (True, None) else pg_refund_usage c now req period)))"

definition update_tier :: "time \<Rightarrow> TierChangeRequest \<Rightarrow> unit statement" where
  "update_tier now req t =
     (let k = usage_row (tq_UserID req) (tq_Resource req) (tq_Period req) in
      case tb_usage t k of
        None \<Rightarrow> (Inr (), t)
      | Some row \<Rightarrow>
          if varchar 50 (tq_NewTier req)
          then (Inr (), t\<lparr>tb_usage := (tb_usage t)(k \<mapsto>
            row\<lparr>qr_limit := tq_NewLimit req, qr_tier := tq_NewTier req, qr_updated := pg_time now\<rparr>)\<rparr>)
          else (Inl too_long, t))"

definition pg_ApplyTierChange :: "time \<Rightarrow> TierChangeRequest \<Rightarrow> (PgState, goerr option) state" where
  "pg_ApplyTierChange now req = do {
     r \<leftarrow> pg_trip (update_tier now req);
     State_Monad.return (case r of Inl e \<Rightarrow> Some (Wrapped ''failed to apply tier change'' e) | Inr _ \<Rightarrow> None)
   }"

section \<open>Records by key\<close>

text \<open>\<open>ORDER BY timestamp DESC LIMIT 1\<close>; among rows of one timestamp the server is free to choose.\<close>

fun latest :: "('a \<Rightarrow> time) \<Rightarrow> 'a list \<Rightarrow> 'a option" where
  "latest f [] = None"
| "latest f (x # xs) = (case latest f xs of
     None \<Rightarrow> Some x
   | Some y \<Rightarrow> if f x < f y then Some y else Some x)"

definition pg_GetRefundRecord :: "time \<Rightarrow> string \<Rightarrow> (PgState, goerr + RefundRecord option) state" where
  "pg_GetRefundRecord now idempotencyKey =
     (if idempotencyKey = '''' then State_Monad.return (Inr None)
      else do {
        r \<leftarrow> pg_trip (\<lambda>t. (Inr (latest fr_timestamp (filter (\<lambda>r. fr_id r = idempotencyKey) (tb_refunds t))), t));
        State_Monad.return (case r of
          Inl e \<Rightarrow> Inl (Wrapped ''failed to get refund record'' e)
        | Inr row \<Rightarrow> Inr (map_option (\<lambda>r. \<lparr>rf_RefundID = fr_id r, rf_UserID = fr_user r,
            rf_Resource = fr_resource r, rf_Amount = fr_amount r, rf_Period = fr_period r,
            rf_Timestamp = fr_timestamp r, rf_IdempotencyKey = idempotencyKey, rf_Reason = fr_reason r,
            rf_Metadata = (case fr_metadata r of None \<Rightarrow> [] | Some m \<Rightarrow> m)\<rparr>) row))
      })"

definition pg_GetConsumptionRecord :: "time \<Rightarrow> string \<Rightarrow> (PgState, goerr + ConsumptionRecord option) state" where
  "pg_GetConsumptionRecord now idempotencyKey =
     (if idempotencyKey = '''' then State_Monad.return (Inr None)
      else do {
        r \<leftarrow> pg_trip (\<lambda>t. (Inr (latest cr_timestamp (filter (\<lambda>r. cr_id r = idempotencyKey) (tb_consumptions t))), t));
        State_Monad.return (case r of
          Inl e \<Rightarrow> Inl (Wrapped ''failed to get consumption record'' e)
        | Inr row \<Rightarrow> Inr (map_option (\<lambda>r. \<lparr>cn_ConsumptionID = cr_id r, cn_UserID = cr_user r,
            cn_Resource = cr_resource r, cn_Amount = cr_amount r, cn_Period = cr_period r,
            cn_Timestamp = cr_timestamp r, cn_IdempotencyKey = idempotencyKey, cn_NewUsed = cr_new_used r,
            cn_Metadata = []\<rparr>) row))
      })"

text \<open>One tick of the cleanup worker, or a call of \<open>Cleanup\<close>.\<close>

definition cleanupExpiredRecords :: "time \<Rightarrow> (PgState, goerr option) state" where
  "cleanupExpiredRecords now = do {
     r \<leftarrow> pg_trip (\<lambda>t. (Inr (), t\<lparr>tb_consumptions := filter (\<lambda>r. \<not> cr_expires r < pg_time now) (tb_consumptions t)\<rparr>));
     case r of
       Inl e \<Rightarrow> State_Monad.return (Some (Wrapped ''failed to cleanup consumption records'' e))
     | Inr _ \<Rightarrow> do {
         r \<leftarrow> pg_trip (\<lambda>t. (Inr (), t\<lparr>tb_refunds := filter (\<lambda>r. \<not> fr_expires r < pg_time now) (tb_refunds t)\<rparr>));
         State_Monad.return (case r of
           Inl e \<Rightarrow> Some (Wrapped ''failed to cleanup refund records'' e)
         | Inr _ \<Rightarrow> None)
       }
   }"

section \<open>Credit limits\<close>

text \<open>\<open>INSERT ... ON CONFLICT DO NOTHING RETURNING id\<close>: \<open>False\<close> if there is such a row.\<close>

definition insert_topUp :: "string \<Rightarrow> string \<Rightarrow> goint \<Rightarrow> Period \<Rightarrow> string \<Rightarrow> bool statement" where
  "insert_topUp userID resource amount period key t =
     (if \<not> (varchar 255 key \<and> usage_fits userID resource period '''') then (Inl too_long, t)
      else if tb_topUps t key \<noteq> None then (Inr False, t)
      else (Inr True, t\<lparr>tb_topUps := (tb_topUps t)(key \<mapsto> (userID, resource, amount, pg_period period))\<rparr>))"

definition increment_limit :: "time \<Rightarrow> string \<Rightarrow> string \<Rightarrow> goint \<Rightarrow> Period \<Rightarrow> unit statement" where
  "increment_limit now userID resource amount period t =
     (let k = usage_row userID resource period in
      if \<not> usage_fits userID resource period ''default'' then (Inl too_long, t)
      else case tb_usage t k of
        None \<Rightarrow> (Inr (), t\<lparr>tb_usage := (tb_usage t)(k \<mapsto> new_row now period 0 amount ''default'')\<rparr>)
      | Some row \<Rightarrow>
          if int64_ok (qr_limit row + amount)
          then (Inr (), t\<lparr>tb_usage := (tb_usage t)(k \<mapsto>
            row\<lparr>qr_limit := qr_limit row + amount, qr_updated := pg_time now\<rparr>)\<rparr>)
          else (Inl out_of_range, t))"

definition pg_AddLimit :: "time \<Rightarrow> string \<Rightarrow> string \<Rightarrow> goint \<Rightarrow> Period \<Rightarrow> string \<Rightarrow> (PgState, goerr option) state" where
  "pg_AddLimit now userID resource amount period idempotencyKey =
     (let increment = pg_stmt Some ''failed to increment limit'' (increment_limit now userID resource amount period)
            (\<lambda>_. State_Monad.return (True, None))
      in pg_transaction Some Some
        (if idempotencyKey = '''' then increment
         else pg_stmt Some ''failed to check idempotency'' (insert_topUp userID resource amount period idempotencyKey)
           (\<lambda>inserted. if inserted then increment else State_Monad.return (False, Some ErrIdempotencyKeyExists))))"

definition insert_subtraction :: "time \<Rightarrow> string \<Rightarrow> string \<Rightarrow> goint \<Rightarrow> Period \<Rightarrow> string \<Rightarrow> bool statement" where
  "insert_subtraction now userID resource amount period key t =
     (if \<not> (varchar 255 key \<and> usage_fits userID resource period '''') then (Inl too_long, t)
      else if \<exists>r \<in> set (tb_refunds t). fr_user r = userID \<and> fr_id r = key then (Inr False, t)
      else (Inr True, t\<lparr>tb_refunds := tb_refunds t @ [\<lparr>fr_id = key, fr_user = userID, fr_resource = resource,
        fr_amount = amount, fr_period = pg_period period, fr_timestamp = pg_time now,
        fr_expires = pg_time now + ns_per_day, fr_reason = '''', fr_metadata = None\<rparr>]\<rparr>))"

definition decrement_limit :: "time \<Rightarrow> string \<Rightarrow> string \<Rightarrow> goint \<Rightarrow> Period \<Rightarrow> unit statement" where
  "decrement_limit now userID resource amount period t =
     (let k = usage_row userID resource period in
      case tb_usage t k of
        None \<Rightarrow> (Inr (), t)
      | Some row \<Rightarrow>
          if int64_ok (qr_limit row - amount)
          then (Inr (), t\<lparr>tb_usage := (tb_usage t)(k \<mapsto>
            row\<lparr>qr_limit := max 0 (qr_limit row - amount), qr_updated := pg_time now\<rparr>)\<rparr>)
          else (Inl out_of_range, t))"

definition pg_SubtractLimit :: "time \<Rightarrow> string \<Rightarrow> string \<Rightarrow> goint \<Rightarrow> Period \<Rightarrow> string \<Rightarrow> (PgState, goerr option) state" where
  "pg_SubtractLimit now userID resource amount period idempotencyKey =
     (let decrement = pg_stmt Some ''failed to decrement limit'' (decrement_limit now userID resource amount period)
            (\<lambda>_. State_Monad.return (True, None))
      in pg_transaction Some Some
        (if idempotencyKey = '''' then decrement
         else pg_stmt Some ''failed to check idempotency''
           (insert_subtraction now userID resource amount period idempotencyKey)
           (\<lambda>inserted. if inserted then decrement else State_Monad.return (False, Some ErrIdempotencyKeyExists))))"

section \<open>The method table\<close>

definition pg_Now :: "time \<Rightarrow> (PgState, goerr + time) state" where
  "pg_Now now = do {
     r \<leftarrow> pg_trip (\<lambda>t. (Inr (pg_time now), t));
     State_Monad.return (case r of
       Inl e \<Rightarrow> Inl (Wrapped ''failed to get PostgreSQL time, using local time'' e)
     | Inr t \<Rightarrow> Inr t)
   }"

definition on_memory :: "(MemState \<Rightarrow> 'a \<times> MemState) \<Rightarrow> PgState \<Rightarrow> 'a \<times> PgState" where
  "on_memory f s = (let (x, m) = f (pg_memory s) in (x, s\<lparr>pg_memory := m\<rparr>))"

definition postgres_storage :: "PgConfig \<Rightarrow> PgState Storage" where
  "postgres_storage c = \<lparr>
     st_GetEntitlement = (\<lambda>now u. run_state (pg_GetEntitlement now u)),
     st_SetEntitlement = (\<lambda>now ent. run_state (pg_SetEntitlement now ent)),
     st_GetUsage = (\<lambda>now u r p. run_state (pg_GetUsage now u r p)),
     st_ConsumeQuota = (\<lambda>now q. run_state (pg_ConsumeQuota c now q)),
     st_ApplyTierChange = (\<lambda>now q. run_state (pg_ApplyTierChange now q)),
     st_SetUsage = (\<lambda>now u r usage p. run_state (pg_SetUsage now u r usage p)),
     st_RefundQuota = (\<lambda>now q. run_state (pg_RefundQuota c now q)),
     st_GetRefundRecord = (\<lambda>now key. run_state (pg_GetRefundRecord now key)),
     st_GetConsumptionRecord = (\<lambda>now key. run_state (pg_GetConsumptionRecord now key)),
     st_CheckRateLimit = (\<lambda>now q. on_memory (mem_CheckRateLimit now q)),
     st_RecordRateLimitRequest = (\<lambda>now q. on_memory (mem_RecordRateLimitRequest now q)),
     st_AddLimit = (\<lambda>now u r n p key. run_state (pg_AddLimit now u r n p key)),
     st_SubtractLimit = (\<lambda>now u r n p key. run_state (pg_SubtractLimit now u r n p key)),
     st_Now = Some (\<lambda>now. run_state (pg_Now now)),
     st_LogAuditEntry = None, st_GetAuditLogs = None\<rparr>"

section \<open>Construction\<close>

text \<open>
  \<open>New\<close> over the functions of the driver it calls: parsing the connection string, opening a pool and
  the ping. \<open>cleanup\<close> says whether the cleanup worker runs; \<open>Close\<close> stops it and closes the pool.
\<close>

record PoolConfig =
  pool_MaxConns :: goint
  pool_MinConns :: goint
  pool_MaxConnLifetime :: duration
  pool_MaxConnIdleTime :: duration

record PgHandle =
  ph_pool_open :: bool
  ph_cleanup :: bool
  ph_config :: PgConfig

definition pool_settings :: "PgConfig \<Rightarrow> PoolConfig \<Rightarrow> PoolConfig" where
  "pool_settings c p = p\<lparr>
     pool_MaxConns := (if pc_MaxConns c > 0 then pc_MaxConns c else pool_MaxConns p),
     pool_MinConns := (if pc_MinConns c > 0 then pc_MinConns c else pool_MinConns p),
     pool_MaxConnLifetime := (if pc_MaxConnLifetime c > 0 then pc_MaxConnLifetime c else pool_MaxConnLifetime p),
     pool_MaxConnIdleTime := (if pc_MaxConnIdleTime c > 0 then pc_MaxConnIdleTime c else pool_MaxConnIdleTime p)\<rparr>"

definition pg_New :: "(string \<Rightarrow> goerr + PoolConfig) \<Rightarrow> (PoolConfig \<Rightarrow> goerr option) \<Rightarrow> goerr option \<Rightarrow> PgConfig
    \<Rightarrow> goerr + PgHandle" where
  "pg_New parseConfig newPool ping c =
     (if pc_ConnectionString c = '''' then Inl (ErrText ''connection string is required'')
      else case parseConfig (pc_ConnectionString c) of
        Inl e \<Rightarrow> Inl (Wrapped ''failed to parse connection string'' e)
      | Inr poolConfig \<Rightarrow> (case newPool (pool_settings c poolConfig) of
          Some e \<Rightarrow> Inl (Wrapped ''failed to create connection pool'' e)
        | None \<Rightarrow> (case ping of
            Some e \<Rightarrow> Inl (Wrapped ''failed to ping database'' e)
          | None \<Rightarrow> Inr \<lparr>ph_pool_open = True, ph_cleanup = pc_CleanupEnabled c, ph_config = c\<rparr>)))"

definition pg_Close :: "PgHandle \<Rightarrow> PgHandle" where
  "pg_Close h = h\<lparr>ph_cleanup := False, ph_pool_open := False\<rparr>"

end
