(* ===== verification/PostgresProps.thy ===== *)
theory PostgresProps
  imports PostgresStorage ManagerLedger
begin

text \<open>
  What the PostgreSQL backend promises: its transactions are atomic whatever round trips fail, on an
  undisturbed server its methods refine the ledger of \<open>StorageApi\<close>, and concurrent repetitions of a
  request are charged once.
\<close>

section \<open>Failures\<close>

definition quiet :: "PgState \<Rightarrow> PgState" where
  "quiet s = s\<lparr>pg_faults := []\<rparr>"

text \<open>A body that, when a round trip fails, ends with an error and does not ask for a commit.\<close>

definition honest :: "(goerr \<Rightarrow> 'b) \<Rightarrow> 'b tx \<Rightarrow> bool" where
  "honest fail B \<longleftrightarrow> (\<forall>s. pg_faults (snd (run_state B (quiet s))) = [] \<and>
     ((fst (run_state B s) = fst (run_state B (quiet s))
       \<and> pg_tables (snd (run_state B s)) = pg_tables (snd (run_state B (quiet s)))
       \<and> set (pg_faults (snd (run_state B s))) \<subseteq> set (pg_faults s))
     \<or> (\<exists>m e. fst (run_state B s) = (False, fail (Wrapped m e)))))"

lemma quiet_simps [simp]: "pg_tables (quiet s) = pg_tables s" "pg_faults (quiet s) = []" "quiet (quiet s) = quiet s"
  "quiet (s\<lparr>pg_tables := t\<rparr>) = (quiet s)\<lparr>pg_tables := t\<rparr>" "quiet (s\<lparr>pg_faults := fs\<rparr>) = quiet s"
  by (simp_all add: quiet_def)

lemma quiet_tables [simp]: "(quiet s)\<lparr>pg_tables := pg_tables s\<rparr> = quiet s"
  by (simp add: quiet_def)

lemma honest_return: "honest fail (State_Monad.return x)"
  by (simp add: honest_def)

lemma run_trip_cases:
  obtains (answered) fs where "run_state (pg_trip f) s = (fst (f (pg_tables s)), s\<lparr>pg_tables := snd (f (pg_tables s)), pg_faults := fs\<rparr>)"
      "set fs \<subseteq> set (pg_faults s)"
  | (refused) e fs where "run_state (pg_trip f) s = (Inl e, s\<lparr>pg_faults := fs\<rparr>)"
  | (lost) e fs where "run_state (pg_trip f) s = (Inl e, s\<lparr>pg_tables := snd (f (pg_tables s)), pg_faults := fs\<rparr>)"
      "Some (ReplyLost e) \<in> set (pg_faults s)"
proof (cases "pg_faults s")
  case Nil
  then have "s\<lparr>pg_faults := []\<rparr> = s" by simp
  then show thesis using Nil by (intro answered [of "[]"]) (simp_all add: pg_trip_def case_prod_unfold Let_def)
next
  case (Cons f' fs)
  consider "f' = None" | e where "f' = Some (NotDone e)" | e where "f' = Some (ReplyLost e)"
    by (metis fault.exhaust not_Some_eq)
  then show thesis
  proof cases
    case 1
    then show thesis using Cons by (intro answered [of fs]) (auto simp: pg_trip_def case_prod_unfold Let_def)
  next
    case (2 e)
    then show thesis using Cons by (intro refused [of e fs]) (simp add: pg_trip_def case_prod_unfold Let_def)
  next
    case (3 e)
    then show thesis using Cons by (intro lost [of e fs]) (simp_all add: pg_trip_def case_prod_unfold Let_def)
  qed
qed

lemma run_trip_quiet [simp]:
  "run_state (pg_trip f) (quiet s) = (fst (f (pg_tables s)), (quiet s)\<lparr>pg_tables := snd (f (pg_tables s))\<rparr>)"
  by (simp add: pg_trip_def case_prod_unfold Let_def)

lemma honest_stmt:
  assumes "\<And>x. honest fail (k x)"
  shows "honest fail (pg_stmt fail msg f k)"
  unfolding honest_def
proof
  fix s
  show "pg_faults (snd (run_state (pg_stmt fail msg f k) (quiet s))) = [] \<and>
    ((fst (run_state (pg_stmt fail msg f k) s) = fst (run_state (pg_stmt fail msg f k) (quiet s))
       \<and> pg_tables (snd (run_state (pg_stmt fail msg f k) s)) = pg_tables (snd (run_state (pg_stmt fail msg f k) (quiet s)))
       \<and> set (pg_faults (snd (run_state (pg_stmt fail msg f k) s))) \<subseteq> set (pg_faults s))
     \<or> (\<exists>m e. fst (run_state (pg_stmt fail msg f k) s) = (False, fail (Wrapped m e))))"
  proof (intro conjI, goal_cases)
    case 1
    have "pg_faults (snd (run_state (k x) ((quiet s)\<lparr>pg_tables := t\<rparr>))) = []" for x t
      using assms [of x] unfolding honest_def by (metis quiet_simps(3,4))
    then show ?case by (simp add: pg_stmt_def split: sum.split)
  next
    case 2
    show ?case
  proof (cases rule: run_trip_cases [of f s])
    case (answered fs)
    let ?s = "s\<lparr>pg_tables := snd (f (pg_tables s)), pg_faults := fs\<rparr>"
    show ?thesis
    proof (cases "fst (f (pg_tables s))")
      case (Inl e)
      then show ?thesis by (auto simp: pg_stmt_def answered)
    next
      case (Inr x)
      then show ?thesis
        using assms [of x] answered(2) unfolding honest_def
        by (simp add: pg_stmt_def answered(1)) (erule allE [of _ ?s], auto)
    qed
  qed (auto simp: pg_stmt_def)
  qed
qed

text \<open>
  What a transaction is: it does what it does on an undisturbed server, or it fails without a trace; only
  if the reply to a commit is lost, a call that fails may have taken effect.
\<close>

definition atomic :: "('b \<Rightarrow> bool) \<Rightarrow> (PgState, 'b) state \<Rightarrow> PgState \<Rightarrow> bool" where
  "atomic failed M s \<longleftrightarrow>
     (let (x, s') = run_state M s; (y, s1) = run_state M (quiet s) in
      (x = y \<and> pg_tables s' = pg_tables s1)
      \<or> (failed x \<and> pg_tables s' = pg_tables s)
      \<or> (failed x \<and> pg_tables s' = pg_tables s1 \<and> (\<exists>e. Some (ReplyLost e) \<in> set (pg_faults s))))"

lemma atomic_return: "atomic failed (State_Monad.return x) s"
  by (simp add: atomic_def)

lemma atomic_transaction:
  assumes B: "honest fail B" and f: "\<And>e. failed (fail e)" "\<And>e. failed (lost e)"
  shows "atomic failed (pg_transaction fail lost B) s"
proof (cases rule: run_trip_cases [of "\<lambda>t. (Inr () :: goerr + unit, t)" s])
  case (answered fs)
  note [simp] = Let_def
  define s1 where "s1 = s\<lparr>pg_faults := fs\<rparr>"
  have s1: "run_state (pg_trip (\<lambda>t. (Inr () :: goerr + unit, t))) s = (Inr (), s1)" "quiet s1 = quiet s"
    "pg_tables s1 = pg_tables s" "set (pg_faults s1) \<subseteq> set (pg_faults s)"
    using answered by (simp_all add: s1_def)
  obtain x s2 where x: "run_state B s1 = (x, s2)" by fastforce
  obtain y s3 where y: "run_state B (quiet s) = (y, s3)" by fastforce
  consider "x = y" "pg_tables s2 = pg_tables s3" "set (pg_faults s2) \<subseteq> set (pg_faults s)"
    | m e where "x = (False, fail (Wrapped m e))"
    using B s1 x y unfolding honest_def by (metis fst_conv snd_conv subset_trans)
  then show ?thesis
  proof cases
    case 1
    show ?thesis
    proof (cases "fst x")
      case False
      then show ?thesis
        using 1 s1 x y by (simp add: atomic_def pg_transaction_def pg_rollback_def State_Monad.update_def)
    next
      case True
      have q: "pg_faults s3 = []" using B y unfolding honest_def by (metis snd_conv)
      then have commit: "run_state (pg_commit lost (pg_tables s) (snd y)) s3 = (snd y, s3)" by (simp add: pg_commit_def)
      show ?thesis
        using 1 s1 x y True f(2) commit
        by (auto simp: atomic_def pg_transaction_def pg_rollback_def State_Monad.update_def case_prod_unfold pg_commit_def
            split: list.splits option.splits fault.splits)
    qed
  next
    case (2 m e)
    then show ?thesis
      using f(1) s1 x by (simp add: atomic_def pg_transaction_def pg_rollback_def State_Monad.update_def case_prod_unfold)
  qed
next
  case (refused e fs)
  then show ?thesis using f(1) by (simp add: atomic_def pg_transaction_def case_prod_unfold)
next
  case (lost e fs)
  then show ?thesis using f(1) by (simp add: atomic_def pg_transaction_def case_prod_unfold)
qed

lemma honest_bodies:
  "honest consume_fail (pg_consume_body c now q)"
  "honest Some (pg_refund_usage c now rq period)"
  unfolding pg_consume_body_def pg_consume_charge_def pg_refund_usage_def pg_record_refund_def Let_def consume_fail_def
  by (auto intro!: honest_stmt honest_return split: option.split)

text \<open>C25: Whatever round trips fail, \<open>ConsumeQuota\<close>, \<open>RefundQuota\<close>, \<open>AddLimit\<close> and \<open>SubtractLimit\<close> either do all they
  do on an undisturbed server and say so, or return an error and leave the tables as they were; only
  when the reply to a commit is lost, a call that returns an error may have taken effect.\<close>

theorem pg_atomic:
  "atomic (\<lambda>x. snd x \<noteq> None) (pg_ConsumeQuota c now q) s
    \<and> atomic (\<lambda>x. x \<noteq> None) (pg_RefundQuota c now rq) s
    \<and> atomic (\<lambda>x. x \<noteq> None) (pg_AddLimit now u rs n p key) s
    \<and> atomic (\<lambda>x. x \<noteq> None) (pg_SubtractLimit now u rs n p key) s"
  unfolding pg_ConsumeQuota_def pg_RefundQuota_def pg_AddLimit_def pg_SubtractLimit_def Let_def
  by (auto intro!: atomic_return atomic_transaction honest_bodies honest_stmt honest_return
      simp: consume_fail_def split: sum.split)

section \<open>The ledger of a user\<close>

text \<open>Keys of consumptions and refunds belong to a user, so the ledger is that of one user.\<close>

definition pg_ledger :: "string \<Rightarrow> PgTables \<Rightarrow> (string \<times> string \<times> time) ledger" where
  "pg_ledger u t = \<lparr>
     lg_acct = (\<lambda>k. map_option (\<lambda>r. (qr_used r, qr_limit r)) (tb_usage t k)),
     lg_done = (\<lambda>key. map_option cr_new_used (find (\<lambda>r. cr_user r = u \<and> cr_id r = key) (tb_consumptions t))),
     lg_refunds = (\<lambda>key. \<exists>r \<in> set (tb_refunds t). fr_user r = u \<and> fr_id r = key),
     lg_topUps = (\<lambda>key. tb_topUps t key \<noteq> None)\<rparr>"

definition charged_row :: "ConsumeRequest \<Rightarrow> string \<times> string \<times> time" where
  "charged_row q = usage_row (cq_UserID q) (cq_Resource q) (cq_Period q)"

definition request_fits :: "ConsumeRequest \<Rightarrow> bool" where
  "request_fits q \<longleftrightarrow> usage_fits (cq_UserID q) (cq_Resource q) (cq_Period q) (cq_Tier q)
     \<and> varchar 255 (cq_IdempotencyKey q)"

lemma run_stmt_quiet [simp]:
  "pg_faults s = [] \<Longrightarrow> run_state (pg_stmt fail msg f k) s =
    (case f (pg_tables s) of (Inl e, t) \<Rightarrow> ((False, fail (Wrapped msg e)), s\<lparr>pg_tables := t\<rparr>)
     | (Inr x, t) \<Rightarrow> run_state (k x) (s\<lparr>pg_tables := t\<rparr>))"
  by (simp add: pg_stmt_def pg_trip_def split: prod.split sum.split)

lemma run_transaction_quiet:
  "pg_faults s = [] \<Longrightarrow> (\<And>x s'. run_state B s = (x, s') \<Longrightarrow> pg_faults s' = []) \<Longrightarrow>
    run_state (pg_transaction fail lost B) s =
      (case run_state B s of (x, s') \<Rightarrow> (snd x, if fst x then s' else pg_rollback (pg_tables s) s'))"
  by (simp add: pg_transaction_def pg_trip_def pg_commit_def State_Monad.update_def split: prod.split)

lemma find_append_fresh:
  "find P (xs @ [x]) = (case find P xs of Some y \<Rightarrow> Some y | None \<Rightarrow> if P x then Some x else None)"
  by (induction xs) auto


text \<open>What a row holds, or would hold once it is created, and the tables after a charge.\<close>

definition stored :: "ConsumeRequest \<Rightarrow> PgTables \<Rightarrow> goint \<times> goint" where
  "stored q t = (case tb_usage t (charged_row q) of None \<Rightarrow> (0, cq_Limit q) | Some row \<Rightarrow> (qr_used row, qr_limit row))"

definition known :: "ConsumeRequest \<Rightarrow> PgTables \<Rightarrow> ConsumptionRow option" where
  "known q t = (if cq_IdempotencyKey q = '''' then None
     else find (\<lambda>r. cr_user r = cq_UserID q \<and> cr_id r = cq_IdempotencyKey q) (tb_consumptions t))"

definition charged_tables :: "PgConfig \<Rightarrow> time \<Rightarrow> ConsumeRequest \<Rightarrow> PgTables \<Rightarrow> PgTables" where
  "charged_tables c now q t =
     (let row = (case tb_usage t (charged_row q) of Some row \<Rightarrow> row
            | None \<Rightarrow> new_row now (cq_Period q) 0 (cq_Limit q) (cq_Tier q));
          n = iadd (fst (stored q t)) (cq_Amount q);
          t1 = t\<lparr>tb_usage := (tb_usage t)(charged_row q \<mapsto> row\<lparr>qr_used := n, qr_updated := pg_time now\<rparr>)\<rparr>
      in if cq_IdempotencyKey q = '''' then t1
         else t1\<lparr>tb_consumptions := tb_consumptions t @ [\<lparr>cr_id = cq_IdempotencyKey q, cr_user = cq_UserID q,
          cr_resource = cq_Resource q, cr_amount = cq_Amount q, cr_period = pg_period (cq_Period q),
          cr_new_used = n, cr_timestamp = pg_time now,
          cr_expires = record_expiry c now (cq_IdempotencyKeyTTL q)\<rparr>]\<rparr>)"

definition over_stored :: "ConsumeRequest \<Rightarrow> PgTables \<Rightarrow> bool" where
  "over_stored q t \<longleftrightarrow> snd (stored q t) \<noteq> -1 \<and> iadd (fst (stored q t)) (cq_Amount q) > snd (stored q t)"

lemma find_None: "find P xs = None \<longleftrightarrow> \<not> (\<exists>x \<in> set xs. P x)"
  by (induction xs) auto


lemma request_fits_row: "request_fits q \<Longrightarrow> usage_fits (cq_UserID q) (cq_Resource q) (cq_Period q) (cq_Tier q)"
  "request_fits q \<Longrightarrow> usage_fits (cq_UserID q) (cq_Resource q) (cq_Period q) ''''"
  "request_fits q \<Longrightarrow> varchar 255 (cq_IdempotencyKey q)"
  by (auto simp: request_fits_def usage_fits_def varchar_def)

lemmas charge_defs = pg_consume_charge_def charged_row_def [symmetric] ensure_usage_def lock_usage_def update_used_def
  over_stored_def stored_def known_def Let_def find_consumption_def insert_consumption_def request_fits_row

lemma run_charge_new:
  assumes "pg_faults s = []" "request_fits q" "\<not> over_stored q (pg_tables s)" "known q (pg_tables s) = None"
  shows "run_state (pg_consume_charge c now q) s =
    ((True, iadd (fst (stored q (pg_tables s))) (cq_Amount q), None), s\<lparr>pg_tables := charged_tables c now q (pg_tables s)\<rparr>)"
proof -
  have "cq_IdempotencyKey q = '''' \<or>
      find (\<lambda>r. cr_user r = cq_UserID q \<and> cr_id r = cq_IdempotencyKey q) (tb_consumptions (pg_tables s)) = None
      \<and> \<not> (\<exists>r \<in> set (tb_consumptions (pg_tables s)). cr_user r = cq_UserID q \<and> cr_id r = cq_IdempotencyKey q)"
  proof (cases "cq_IdempotencyKey q = ''''")
    case False
    then have "find (\<lambda>r. cr_user r = cq_UserID q \<and> cr_id r = cq_IdempotencyKey q) (tb_consumptions (pg_tables s)) = None"
      using assms(4) by (simp add: known_def)
    then show ?thesis unfolding find_None by blast
  qed simp
  then show ?thesis
    using assms(1-3)
    by (cases "tb_usage (pg_tables s) (charged_row q)"; elim disjE conjE)
      (simp_all add: charge_defs new_row_def charged_tables_def)
qed

lemma some_tables [simp]: "\<exists>t. s = s\<lparr>pg_tables := t\<rparr>"
  by (rule exI [of _ "pg_tables s"]) simp

lemma run_charge_over:
  assumes "pg_faults s = []" "request_fits q" "over_stored q (pg_tables s)"
  shows "\<exists>t. run_state (pg_consume_charge c now q) s =
    ((False, fst (stored q (pg_tables s)), Some ErrQuotaExceeded), s\<lparr>pg_tables := t\<rparr>)"
  using assms by (cases "tb_usage (pg_tables s) (charged_row q)") (auto simp: charge_defs new_row_def)

lemma run_charge_known:
  assumes "pg_faults s = []" "request_fits q" "\<not> over_stored q (pg_tables s)" "known q (pg_tables s) = Some r"
  shows "\<exists>t. run_state (pg_consume_charge c now q) s = ((False, cr_new_used r, None), s\<lparr>pg_tables := t\<rparr>)"
  using assms
  by (cases "tb_usage (pg_tables s) (charged_row q)") (auto simp: charge_defs new_row_def split: if_splits)

lemma run_consume_body:
  assumes "pg_faults s = []" "request_fits q"
  shows "case known q (pg_tables s) of
      Some r \<Rightarrow> run_state (pg_consume_body c now q) s = ((True, cr_new_used r, None), s)
    | None \<Rightarrow> if over_stored q (pg_tables s)
        then \<exists>t. run_state (pg_consume_body c now q) s = ((False, fst (stored q (pg_tables s)), Some ErrQuotaExceeded), s\<lparr>pg_tables := t\<rparr>)
        else run_state (pg_consume_body c now q) s =
          ((True, iadd (fst (stored q (pg_tables s))) (cq_Amount q), None), s\<lparr>pg_tables := charged_tables c now q (pg_tables s)\<rparr>)"
proof (cases "known q (pg_tables s)")
  case (Some r)
  then show ?thesis
    using assms(1) by (auto simp: pg_consume_body_def known_def find_consumption_def split: if_splits)
next
  case None
  have "run_state (pg_consume_body c now q) s = run_state (pg_consume_charge c now q) s"
    using None assms(1) by (auto simp: pg_consume_body_def known_def find_consumption_def split: if_splits)
  then show ?thesis
    using None run_charge_over [OF assms] run_charge_new [OF assms] by simp
qed

lemma run_consume:
  assumes "pg_faults s = []" "request_fits q" "0 < cq_Amount q"
  shows "run_state (pg_ConsumeQuota c now q) s = (case known q (pg_tables s) of
      Some r \<Rightarrow> ((cr_new_used r, None), s)
    | None \<Rightarrow> if over_stored q (pg_tables s) then ((fst (stored q (pg_tables s)), Some ErrQuotaExceeded), s)
        else ((iadd (fst (stored q (pg_tables s))) (cq_Amount q), None), s\<lparr>pg_tables := charged_tables c now q (pg_tables s)\<rparr>))"
proof -
  note body = run_consume_body [OF assms(1,2), of c now]
  have keeps: "pg_faults s' = []" if "run_state (pg_consume_body c now q) s = (x, s')" for x s'
    using body that assms(1) by (auto split: option.splits if_splits)
  show ?thesis
    using body assms(3)
    by (auto simp: pg_ConsumeQuota_def run_transaction_quiet [OF assms(1) keeps] pg_rollback_def split: option.splits)
qed

text \<open>The ledger after a charge.\<close>

lemma charged_ledger:
  assumes "known q t = None"
  shows "pg_ledger (cq_UserID q) (charged_tables c now q t) = (pg_ledger (cq_UserID q) t)
    \<lparr>lg_acct := (lg_acct (pg_ledger (cq_UserID q) t))(charged_row q \<mapsto>
       (iadd (fst (stored q t)) (cq_Amount q), snd (stored q t))),
     lg_done := (if cq_IdempotencyKey q = '''' then lg_done (pg_ledger (cq_UserID q) t)
        else (lg_done (pg_ledger (cq_UserID q) t))(cq_IdempotencyKey q \<mapsto> iadd (fst (stored q t)) (cq_Amount q)))\<rparr>"
  using assms
  by (auto simp: pg_ledger_def charged_tables_def Let_def stored_def known_def fun_eq_iff find_append_fresh new_row_def
      split: option.split)

text \<open>C27: On an undisturbed server, with the request's limit stored in the row if there is one, \<open>ConsumeQuota\<close> does on
  the tables what the contract of the interface says, for the keys of the request's user.\<close>

theorem pg_consume_refines:
  assumes "pg_faults s = []" "request_fits q" "snd (stored q (pg_tables s)) = cq_Limit q"
    and "st_ConsumeQuota (postgres_storage c) now q s = (x, s')"
  shows "spec_consume (charged_row q) q (pg_ledger (cq_UserID q) (pg_tables s)) = (x, pg_ledger (cq_UserID q) (pg_tables s'))"
proof (cases "0 < cq_Amount q")
  case False
  then show ?thesis
    using assms(4) by (auto simp: postgres_storage_def pg_ConsumeQuota_def spec_consume_def split: if_splits)
next
  case True
  let ?l = "pg_ledger (cq_UserID q) (pg_tables s)"
  have rec: "keyed (cq_IdempotencyKey q) (lg_done ?l (cq_IdempotencyKey q)) = map_option cr_new_used (known q (pg_tables s))"
    by (simp add: keyed_def pg_ledger_def known_def)
  have used: "lg_used ?l (charged_row q) = fst (stored q (pg_tables s))"
    by (simp add: lg_used_def pg_ledger_def stored_def split: option.split)
  have run: "run_state (pg_ConsumeQuota c now q) s = (x, s')" using assms(4) by (simp add: postgres_storage_def)
  show ?thesis
  proof (cases "known q (pg_tables s)")
    case (Some r)
    then have "x = (cr_new_used r, None)" "s' = s" using run by (simp_all add: run_consume [OF assms(1,2) True])
    then show ?thesis using True Some by (simp add: spec_consume_def rec)
  next
    case None
    then show ?thesis
      using run True charged_ledger [OF None, of c now] assms(3)
      by (auto simp: run_consume [OF assms(1,2) True] spec_consume_def rec used over_stored_def Let_def split: if_splits)
  qed
qed

text \<open>The limit that counts is the one stored in the row when it was created or last changed, not the one of the
  request: a request above the stored limit is refused even if the tier allows it by now, and one above the
  tier's limit passes if the stored limit allows it.\<close>

theorem pg_stored_limit_rules:
  assumes "pg_faults s = []" "request_fits q" "0 < cq_Amount q" "known q (pg_tables s) = None"
    and "tb_usage (pg_tables s) (charged_row q) = Some row" "int64_ok (qr_used row + cq_Amount q)"
    and "st_ConsumeQuota (postgres_storage c) now q s = (x, s')"
  shows "x = (if qr_limit row = -1 \<or> qr_used row + cq_Amount q \<le> qr_limit row
        then (qr_used row + cq_Amount q, None) else (qr_used row, Some ErrQuotaExceeded))
    \<and> map_option qr_limit (tb_usage (pg_tables s') (charged_row q)) = Some (qr_limit row)"
proof -
  have "run_state (pg_ConsumeQuota c now q) s = (x, s')" using assms(7) by (simp add: postgres_storage_def)
  then show ?thesis
    using assms(4-6) unfolding run_consume [OF assms(1-3)]
    by (auto simp: over_stored_def stored_def iadd_id charged_tables_def Let_def split: if_splits)
qed

section \<open>Concurrent repetitions\<close>

text \<open>
  Transactions of one request that is sent several times at once, as steps: the check of the key, which
  takes no lock, and the part that holds the lock of the usage row. A transaction may fail at any
  time, and the reply to its commit may be lost.
\<close>

datatype phase = Waiting | Checked | Answered "goint \<times> goerr option"

inductive pg_step :: "PgConfig \<Rightarrow> ConsumeRequest \<Rightarrow> PgTables \<times> phase list \<Rightarrow> PgTables \<times> phase list \<Rightarrow> bool"
  for c q where
  hit: "i < length ps \<Longrightarrow> ps ! i = Waiting \<Longrightarrow> known q t = Some r \<Longrightarrow>
    pg_step c q (t, ps) (t, ps[i := Answered (cr_new_used r, None)])"
| miss: "i < length ps \<Longrightarrow> ps ! i = Waiting \<Longrightarrow> known q t = None \<Longrightarrow> pg_step c q (t, ps) (t, ps[i := Checked])"
| charge: "i < length ps \<Longrightarrow> ps ! i = Checked \<Longrightarrow> pg_faults s = [] \<Longrightarrow> pg_tables s = t \<Longrightarrow>
    run_state (pg_consume_charge c now q) s = ((commit, x), s') \<Longrightarrow>
    pg_step c q (t, ps) (if commit then pg_tables s' else t, ps[i := Answered x])"
| lost: "i < length ps \<Longrightarrow> ps ! i = Checked \<Longrightarrow> pg_faults s = [] \<Longrightarrow> pg_tables s = t \<Longrightarrow>
    run_state (pg_consume_charge c now q) s = ((True, x), s') \<Longrightarrow>
    pg_step c q (t, ps) (pg_tables s', ps[i := Answered (consume_fail e)])"
| failed: "i < length ps \<Longrightarrow> ps ! i \<noteq> Answered x \<Longrightarrow> pg_step c q (t, ps) (t, ps[i := Answered (consume_fail e)])"

text \<open>Either nothing was charged and nobody was told so, or one charge is recorded and it is what all who were
  accepted were told.\<close>

definition once :: "ConsumeRequest \<Rightarrow> goint \<Rightarrow> goint \<Rightarrow> PgTables \<times> phase list \<Rightarrow> bool" where
  "once q u lmt = (\<lambda>(t, ps).
     (known q t = None \<and> stored q t = (u, lmt) \<and> (\<forall>m. Answered (m, None) \<notin> set ps))
     \<or> (\<exists>r. known q t = Some r \<and> cr_new_used r = iadd u (cq_Amount q) \<and> stored q t = (iadd u (cq_Amount q), lmt)
         \<and> (\<forall>m. Answered (m, None) \<in> set ps \<longrightarrow> m = iadd u (cq_Amount q))))"

lemma answered_update: "Answered y \<in> set (ps[i := z]) \<Longrightarrow> Answered y = z \<or> Answered y \<in> set ps"
  using set_update_subset_insert [of ps i z] by auto

lemma charged_known:
  assumes "cq_IdempotencyKey q \<noteq> ''''" "known q t = None"
  shows "\<exists>r. known q (charged_tables c now q t) = Some r \<and> cr_new_used r = iadd (fst (stored q t)) (cq_Amount q)"
    and "stored q (charged_tables c now q t) = (iadd (fst (stored q t)) (cq_Amount q), snd (stored q t))"
  using assms
  by (auto simp: known_def charged_tables_def Let_def find_append_fresh stored_def new_row_def split: option.split)

lemma charge_once:
  assumes "pg_faults s = []" "request_fits q" "cq_IdempotencyKey q \<noteq> ''''" "once q u lmt (pg_tables s, ps)"
    and "run_state (pg_consume_charge c now q) s = ((commit, x), s')"
  shows "once q u lmt (if commit then pg_tables s' else pg_tables s, ps[i := Answered x])
    \<and> (commit \<longrightarrow> once q u lmt (pg_tables s', ps[i := Answered (consume_fail e)]))"
proof (cases "over_stored q (pg_tables s)")
  case True
  then show ?thesis
    using run_charge_over [OF assms(1,2) True, of c now] assms(4,5)
    by (auto simp: once_def consume_fail_def dest: answered_update)
next
  case False
  show ?thesis
  proof (cases "known q (pg_tables s)")
    case None
    then have "stored q (pg_tables s) = (u, lmt)" "\<forall>m. Answered (m, None) \<notin> set ps"
      using assms(4) by (auto simp: once_def)
    moreover have "commit" "x = (iadd u (cq_Amount q), None)" "pg_tables s' = charged_tables c now q (pg_tables s)"
      using run_charge_new [OF assms(1,2) False None, of c now] assms(5) calculation(1) by auto
    ultimately show ?thesis
      using charged_known [OF assms(3) None, of c now]
      by (auto simp: once_def consume_fail_def dest: answered_update)
  next
    case (Some r)
    then show ?thesis
      using run_charge_known [OF assms(1,2) False Some, of c now] assms(4,5)
      by (auto simp: once_def dest: answered_update)
  qed
qed

lemma pg_step_once:
  assumes "pg_step c q x y" "once q u lmt x" "request_fits q" "cq_IdempotencyKey q \<noteq> ''''"
  shows "once q u lmt y"
  using assms
proof cases
  case (charge i ps s t now commit x s')
  then show ?thesis using charge_once [of s q u lmt ps c now commit x s' i] assms(2-4) by auto
next
  case (lost i ps s t now x s' e)
  then show ?thesis using charge_once [of s q u lmt ps c now True x s' i e] assms(2-4) by auto
qed (auto simp: once_def consume_fail_def dest: answered_update)

text \<open>C26: However the transactions of a request with an idempotency key are interleaved, it is charged at most once, and
  every sender that is told it was accepted is told the usage after that one charge.\<close>

theorem pg_concurrent_once:
  assumes "(pg_step c q)\<^sup>*\<^sup>* (t0, replicate n Waiting) (t, ps)"
    and "request_fits q" "cq_IdempotencyKey q \<noteq> ''''" "known q t0 = None"
  shows "(fst (stored q t) = fst (stored q t0) \<or> fst (stored q t) = iadd (fst (stored q t0)) (cq_Amount q))
    \<and> (\<forall>m. Answered (m, None) \<in> set ps \<longrightarrow> m = iadd (fst (stored q t0)) (cq_Amount q) \<and> fst (stored q t) = m)"
proof -
  obtain u lmt where u: "stored q t0 = (u, lmt)" by fastforce
  have "once q u lmt (t0, replicate n Waiting)" using assms(4) u by (simp add: once_def)
  with assms(1) have "once q u lmt (t, ps)"
    by (induction rule: rtranclp_induct) (use pg_step_once assms(2,3) in blast)+
  then show ?thesis by (auto simp: once_def u)
qed

section \<open>Records\<close>

lemma find_filter: "find P xs = Some x \<Longrightarrow> Q x \<Longrightarrow> find P (filter Q xs) = Some x"
  by (induction xs) (auto split: if_splits)

definition cleaned :: "time \<Rightarrow> PgState \<Rightarrow> PgState" where
  "cleaned now s = snd (run_state (cleanupExpiredRecords now) s)"

lemma cleaned_quiet:
  assumes "pg_faults s = []" "known q (pg_tables s) = Some r" "pg_time now \<le> cr_expires r"
  shows "pg_faults (cleaned now s) = [] \<and> known q (pg_tables (cleaned now s)) = Some r"
  using assms
  by (auto simp: cleaned_def cleanupExpiredRecords_def pg_trip_def known_def intro: find_filter split: if_splits)

lemma cleaned_all:
  assumes "pg_faults s = []" "known q (pg_tables s) = Some r" "\<forall>t \<in> set ts. pg_time t \<le> cr_expires r"
  shows "pg_faults (fold cleaned ts s) = [] \<and> known q (pg_tables (fold cleaned ts s)) = Some r"
  using assms by (induction ts arbitrary: s) (auto dest: cleaned_quiet)

lemma charged_record:
  assumes "cq_IdempotencyKey q \<noteq> ''''" "known q t = None"
  shows "\<exists>r. known q (charged_tables c now q t) = Some r \<and> cr_new_used r = iadd (fst (stored q t)) (cq_Amount q)
    \<and> cr_user r = cq_UserID q \<and> cr_expires r = record_expiry c now (cq_IdempotencyKeyTTL q)"
  using assms by (auto simp: known_def charged_tables_def Let_def find_append_fresh)

text \<open>C28: A request that was accepted under a key is answered with the same usage and not charged again, whatever the
  cleanup worker does until the record expires.\<close>

theorem pg_idempotent_until_expiry:
  assumes "pg_faults s = []" "request_fits q" "0 < cq_Amount q" "cq_IdempotencyKey q \<noteq> ''''" "known q (pg_tables s) = None"
    and "st_ConsumeQuota (postgres_storage c) now q s = ((n, None), s1)"
    and "\<forall>t \<in> set ts. pg_time t \<le> record_expiry c now (cq_IdempotencyKeyTTL q)"
  shows "st_ConsumeQuota (postgres_storage c) later q (fold cleaned ts s1) = ((n, None), fold cleaned ts s1)"
proof -
  have s1: "n = iadd (fst (stored q (pg_tables s))) (cq_Amount q)" "s1 = s\<lparr>pg_tables := charged_tables c now q (pg_tables s)\<rparr>"
    using assms(5,6) by (auto simp: postgres_storage_def run_consume [OF assms(1-3)] split: if_splits)
  obtain r where r: "known q (pg_tables s1) = Some r" "cr_new_used r = n"
    "cr_expires r = record_expiry c now (cq_IdempotencyKeyTTL q)"
    using charged_record [OF assms(4,5), of c now] s1 by auto
  have f: "pg_faults (fold cleaned ts s1) = []" "known q (pg_tables (fold cleaned ts s1)) = Some r"
    using cleaned_all [OF _ r(1)] assms(1,7) r(3) s1(2) by auto
  then show ?thesis by (simp add: postgres_storage_def run_consume [OF f(1) assms(2,3)] r(2))
qed

lemma run_transaction_simp:
  "pg_faults s = [] \<Longrightarrow> run_state (pg_transaction fail lost B) s =
    (case run_state B s of (x, s') \<Rightarrow>
       if fst x then run_state (pg_commit lost (pg_tables s) (snd x)) s' else (snd x, pg_rollback (pg_tables s) s'))"
  by (simp add: pg_transaction_def pg_trip_def State_Monad.update_def split: prod.split)

lemma run_commit_quiet [simp]: "pg_faults s = [] \<Longrightarrow> run_state (pg_commit lost t x) s = (x, s)"
  by (simp add: pg_commit_def)

lemma rollback_tables [simp]: "pg_tables (pg_rollback t s) = t"
  by (simp add: pg_rollback_def)

text \<open>A record is found by its key alone. So the manager answers a request of any user from the record of the user
  who used the key before, and charges nothing.\<close>

theorem pg_foreign_key_free:
  assumes "m_storage m = postgres_storage c" "pg_faults (w_storage w) = []" "ctx_Err ctx = None" "0 < n"
    and "tb_consumptions (pg_tables (w_storage w)) = [r]" "cr_id r = co_IdempotencyKey opts" "co_IdempotencyKey opts \<noteq> ''''"
  shows "run_state (Consume m ctx now u rs n pt opts) w
    = ((cr_new_used r, None), w\<lparr>w_metrics := RecordIdempotencyHit ''consume'' # w_metrics w\<rparr>)"
proof -
  obtain rec where "st_GetConsumptionRecord (postgres_storage c) now (co_IdempotencyKey opts) (w_storage w)
      = (Inr (Some rec), w_storage w)" "cn_NewUsed rec = cr_new_used r"
    using assms(2,5-7) by (simp add: postgres_storage_def pg_GetConsumptionRecord_def pg_trip_def)
  then show ?thesis using assms(1,3,4,7) by (simp add: Consume_def numeral_2_eq_2 consume_replay_def)
qed

section \<open>Refunds and credit limits\<close>

text \<open>On an undisturbed server, a refund of an existing row, or one without a key, does what the contract says.\<close>

theorem pg_refund_refines:
  assumes "pg_faults s = []" "p_Start (rr_Period q) \<noteq> zero_time" "varchar 255 (rr_IdempotencyKey q)"
    and "usage_fits (rr_UserID q) (rr_Resource q) (rr_Period q) ''''"
    and "k = usage_row (rr_UserID q) (rr_Resource q) (rr_Period q)"
    and "tb_usage (pg_tables s) k \<noteq> None \<or> rr_IdempotencyKey q = ''''"
    and "st_RefundQuota (postgres_storage c) now q s = (e, s')"
  shows "spec_refund k q (pg_ledger (rr_UserID q) (pg_tables s)) = (e, pg_ledger (rr_UserID q) (pg_tables s'))"
proof -
  have run: "run_state (pg_RefundQuota c now q) s = (e, s')" using assms(7) by (simp add: postgres_storage_def)
  have period: "mem_refund_period now q = Inr (rr_Period q)" using assms(2) by (simp add: mem_refund_period_def)
  note defs = pg_RefundQuota_def period run_transaction_simp pg_refund_usage_def assms(5) [symmetric] lock_usage_def
    update_used_def pg_record_refund_def insert_refund_def refund_exists_def assms(1,3,4) spec_refund_def pg_ledger_def Let_def
  show ?thesis
  proof (cases "tb_usage (pg_tables s) k")
    case None
    then have "rr_IdempotencyKey q = ''''" using assms(6) by simp
    with None show ?thesis using run by (auto simp: defs split: if_splits)
  next
    case (Some row)
    with run show ?thesis by (auto simp: defs fun_eq_iff max_def split: if_splits)
  qed
qed

text \<open>On an undisturbed server, top-ups and subtractions do what the contract says, as long as the limit stays in
  the range of its column.\<close>

theorem pg_limits_refine:
  assumes "pg_faults s = []" "varchar 255 key" "usage_fits u rs p ''default''" "k = usage_row u rs p"
    and "\<And>row. tb_usage (pg_tables s) k = Some row \<Longrightarrow> int64_ok (qr_limit row + n) \<and> int64_ok (qr_limit row - n)"
  shows "spec_add k n key (pg_ledger u (pg_tables s))
      = (fst (st_AddLimit (postgres_storage c) now u rs n p key s),
         pg_ledger u (pg_tables (snd (st_AddLimit (postgres_storage c) now u rs n p key s))))
    \<and> spec_subtract k n key (pg_ledger u (pg_tables s))
      = (fst (st_SubtractLimit (postgres_storage c) now u rs n p key s),
         pg_ledger u (pg_tables (snd (st_SubtractLimit (postgres_storage c) now u rs n p key s))))"
proof -
  have fits: "usage_fits u rs p ''''" using assms(3) by (simp add: usage_fits_def varchar_def)
  note defs = postgres_storage_def pg_AddLimit_def pg_SubtractLimit_def run_transaction_simp increment_limit_def
    decrement_limit_def insert_topUp_def insert_subtraction_def assms(1-3) fits assms(4) [symmetric]
    spec_add_def spec_subtract_def pg_ledger_def Let_def
  show ?thesis
  proof (cases "tb_usage (pg_tables s) k")
    case None
    then show ?thesis by (auto simp: defs fun_eq_iff new_row_def)
  next
    case (Some row)
    with assms(5) [OF Some] show ?thesis by (auto simp: defs fun_eq_iff iadd_id isub_id)
  qed
qed

section \<open>Witnesses\<close>

definition pg_demo_period :: Period where
  "pg_demo_period = \<lparr>p_Start = 0, p_End = ns_per_day, p_Type = PeriodTypeMonthly\<rparr>"

definition pg_demo_charge :: "goint \<Rightarrow> goint \<Rightarrow> string \<Rightarrow> ConsumeRequest" where
  "pg_demo_charge n lmt key = \<lparr>cq_UserID = ''u'', cq_Resource = ''api'', cq_Amount = n, cq_Tier = ''free'',
     cq_Period = pg_demo_period, cq_Limit = lmt, cq_IdempotencyKey = key, cq_IdempotencyKeyTTL = 0\<rparr>"

definition pg_demo_record :: ConsumptionRow where
  "pg_demo_record = \<lparr>cr_id = ''k'', cr_user = ''other'', cr_resource = ''api'', cr_amount = 7, cr_period = pg_demo_period,
     cr_new_used = 7, cr_timestamp = 0, cr_expires = 10 ^ 15\<rparr>"

definition pg_demo_key :: "string \<times> string \<times> time" where
  "pg_demo_key = (''u'', ''api'', 0)"

text \<open>A row of 8 out of 10, and no rows at all.\<close>

definition pg_demo_empty :: PgTables where
  "pg_demo_empty = \<lparr>tb_entitlements = Map.empty, tb_usage = Map.empty, tb_consumptions = [], tb_refunds = [],
     tb_topUps = Map.empty\<rparr>"

definition pg_demo_state :: "PgTables \<Rightarrow> PgState" where
  "pg_demo_state t = \<lparr>pg_tables = t, pg_faults = [], pg_memory = mem_New\<rparr>"

definition pg_demo_used :: PgTables where
  "pg_demo_used = pg_demo_empty\<lparr>tb_usage := [pg_demo_key \<mapsto> new_row 0 pg_demo_period 8 10 ''free'']\<rparr>"

lemma pg_demo_row: "charged_row (pg_demo_charge n lmt key) = pg_demo_key" "usage_row ''u'' ''api'' pg_demo_period = pg_demo_key"
  by (simp_all add: charged_row_def usage_row_def pg_demo_charge_def pg_demo_period_def pg_demo_key_def pg_time_def)

lemma pg_demo_fits: "request_fits (pg_demo_charge n lmt ''k'')" "usage_fits ''u'' ''api'' pg_demo_period ''default''"
  "usage_fits ''u'' ''api'' pg_demo_period ''''"
  by (simp_all add: request_fits_def usage_fits_def varchar_def pg_demo_charge_def pg_demo_period_def)

lemma pg_demo_simps [simp]: "pg_faults (pg_demo_state t) = []" "pg_tables (pg_demo_state t) = t"
  "known q pg_demo_empty = None" "known q pg_demo_used = None" "stored q pg_demo_empty = (0, cq_Limit q)"
  "tb_usage pg_demo_used pg_demo_key = Some (new_row 0 pg_demo_period 8 10 ''free'')"
  "cq_Amount (pg_demo_charge n lmt key) = n" "cq_Limit (pg_demo_charge n lmt key) = lmt"
  "cq_IdempotencyKey (pg_demo_charge n lmt key) = key" "cq_UserID (pg_demo_charge n lmt key) = ''u''"
  "stored (pg_demo_charge n lmt key) pg_demo_used = (8, 10)" "cq_IdempotencyKeyTTL (pg_demo_charge n lmt key) = 0"
  by (simp_all add: pg_demo_state_def known_def stored_def pg_demo_empty_def pg_demo_used_def pg_demo_row new_row_def)
    (simp_all add: pg_demo_charge_def)

theorem pg_consume_refines_witness:
  "fst (st_ConsumeQuota (postgres_storage pg_DefaultConfig) 0 (pg_demo_charge 2 10 ''k'') (pg_demo_state pg_demo_used)) = (10, None)
    \<and> fst (st_ConsumeQuota (postgres_storage pg_DefaultConfig) 0 (pg_demo_charge 3 10 ''k'') (pg_demo_state pg_demo_used))
      = (8, Some ErrQuotaExceeded)"
proof -
  have "spec_consume pg_demo_key (pg_demo_charge n 10 ''k'') (pg_ledger ''u'' pg_demo_used)
    = (fst (st_ConsumeQuota (postgres_storage pg_DefaultConfig) 0 (pg_demo_charge n 10 ''k'') (pg_demo_state pg_demo_used)),
       pg_ledger ''u'' (pg_tables (snd (st_ConsumeQuota (postgres_storage pg_DefaultConfig) 0 (pg_demo_charge n 10 ''k'')
         (pg_demo_state pg_demo_used)))))" for n
    using pg_consume_refines [OF _ pg_demo_fits(1), of "pg_demo_state pg_demo_used" n 10 pg_DefaultConfig 0]
    by (simp add: pg_demo_row prod_eq_iff)
  from this [of 2] this [of 3] show ?thesis
    by (auto simp: spec_consume_def keyed_def pg_ledger_def pg_demo_used_def pg_demo_empty_def lg_used_def new_row_def
        iadd_def wrap64_def Let_def prod_eq_iff)
qed

text \<open>The user's tier allows 1000 by now, the stored limit is 10.\<close>

theorem pg_stored_limit_rules_witness:
  "fst (st_ConsumeQuota (postgres_storage pg_DefaultConfig) 0 (pg_demo_charge 3 1000 ''k'') (pg_demo_state pg_demo_used))
    = (8, Some ErrQuotaExceeded)"
proof -
  obtain x s where run: "st_ConsumeQuota (postgres_storage pg_DefaultConfig) 0 (pg_demo_charge 3 1000 ''k'')
      (pg_demo_state pg_demo_used) = (x, s)" by fastforce
  from pg_stored_limit_rules [OF _ pg_demo_fits(1) _ _ _ _ run] show ?thesis
    by (simp add: run pg_demo_row new_row_def int64_ok_def)
qed

theorem pg_concurrent_once_witness:
  "\<exists>t. (pg_step pg_DefaultConfig (pg_demo_charge 7 20 ''k''))\<^sup>*\<^sup>* (pg_demo_empty, [Waiting, Waiting])
      (t, [Answered (7, None), Answered (7, None)]) \<and> fst (stored (pg_demo_charge 7 20 ''k'') t) = 7"
proof -
  let ?q = "pg_demo_charge 7 20 ''k''" and ?c = pg_DefaultConfig
  let ?t = "charged_tables ?c 0 ?q pg_demo_empty"
  have new: "\<not> over_stored ?q pg_demo_empty" by (simp add: over_stored_def iadd_def wrap64_def)
  have seven: "iadd 0 7 = 7" by (simp add: iadd_def wrap64_def)
  obtain r where r: "known ?q ?t = Some r" "cr_new_used r = 7"
    using charged_known(1) [of ?q pg_demo_empty ?c 0] seven by auto
  have st: "stored ?q ?t = (7, 20)"
    using charged_known(2) [of ?q pg_demo_empty ?c 0] seven by simp
  have "pg_step ?c ?q (pg_demo_empty, [Waiting, Waiting]) (pg_demo_empty, [Checked, Waiting])"
    using pg_step.miss [of 0 "[Waiting, Waiting]" ?q pg_demo_empty ?c] by simp
  moreover have "pg_step ?c ?q (pg_demo_empty, [Checked, Waiting]) (pg_demo_empty, [Checked, Checked])"
    using pg_step.miss [of 1 "[Checked, Waiting]" ?q pg_demo_empty ?c] by simp
  moreover have "pg_step ?c ?q (pg_demo_empty, [Checked, Checked]) (?t, [Answered (7, None), Checked])"
    using pg_step.charge [OF _ _ _ _ run_charge_new [OF _ pg_demo_fits(1)], of 0 "[Checked, Checked]"
        "pg_demo_state pg_demo_empty" pg_demo_empty 7 20 ?c 0] new seven
    by simp
  moreover have "pg_step ?c ?q (?t, [Answered (7, None), Checked]) (?t, [Answered (7, None), Answered (7, None)])"
  proof -
    have "\<not> over_stored ?q ?t" by (simp add: over_stored_def st iadd_def wrap64_def)
    then obtain t' where again: "run_state (pg_consume_charge ?c 0 ?q) (pg_demo_state ?t)
        = ((False, 7, None), (pg_demo_state ?t)\<lparr>pg_tables := t'\<rparr>)"
      using run_charge_known [OF _ pg_demo_fits(1), of "pg_demo_state ?t" 7 20 r ?c 0] r by auto
    then show ?thesis
      using pg_step.charge [OF _ _ _ _ again, of 1 "[Answered (7, None), Checked]" ?t] by simp
  qed
  ultimately have run: "(pg_step ?c ?q)\<^sup>*\<^sup>* (pg_demo_empty, replicate 2 Waiting) (?t, [Answered (7, None), Answered (7, None)])"
    by (simp add: numeral_2_eq_2)
  have "fst (stored ?q ?t) = 7"
    using pg_concurrent_once [OF run pg_demo_fits(1)] by auto
  then show ?thesis using run by (auto simp: numeral_2_eq_2)
qed

theorem pg_idempotent_until_expiry_witness:
  "\<exists>s. st_ConsumeQuota (postgres_storage pg_DefaultConfig) 0 (pg_demo_charge 2 10 ''k'') (pg_demo_state pg_demo_used)
      = ((10, None), s)
    \<and> st_ConsumeQuota (postgres_storage pg_DefaultConfig) ns_per_day (pg_demo_charge 2 10 ''k'') (fold cleaned [ns_per_day] s)
      = ((10, None), fold cleaned [ns_per_day] s)"
proof -
  have "\<not> over_stored (pg_demo_charge 2 10 ''k'') pg_demo_used" by (simp add: over_stored_def iadd_def wrap64_def)
  then obtain s where run: "st_ConsumeQuota (postgres_storage pg_DefaultConfig) 0 (pg_demo_charge 2 10 ''k'')
      (pg_demo_state pg_demo_used) = ((10, None), s)"
    by (simp add: postgres_storage_def run_consume pg_demo_fits iadd_def wrap64_def)
  have "st_ConsumeQuota (postgres_storage pg_DefaultConfig) ns_per_day (pg_demo_charge 2 10 ''k'') (fold cleaned [ns_per_day] s)
      = ((10, None), fold cleaned [ns_per_day] s)"
    by (rule pg_idempotent_until_expiry [OF _ pg_demo_fits(1) _ _ _ run])
      (simp_all add: record_expiry_def pg_DefaultConfig_def pg_time_def time_Add_def ns_per_day_def ns_per_sec_def)
  with run show ?thesis by blast
qed

theorem pg_foreign_key_free_witness:
  "let m = \<lparr>m_storage = postgres_storage pg_DefaultConfig, m_secondary = memory_storage,
         m_config = undefined, m_entitlementGroup = (\<lambda>k f. f), m_usageGroup = (\<lambda>k f. f)\<rparr>;
       s = pg_demo_state (pg_demo_empty\<lparr>tb_consumptions := [pg_demo_record]\<rparr>);
       w = \<lparr>w_storage = s, w_cache = undefined, w_fallback = None, w_secondary = mem_New, w_metrics = []\<rparr>
   in fst (run_state (Consume m \<lparr>ctx_Err = None, ctx_WarningHandler = False\<rparr> 0 ''u'' ''api'' 5 PeriodTypeMonthly
        (WithIdempotencyKey ''k'' no_options)) w) = (7, None)"
  unfolding Let_def
  by (subst pg_foreign_key_free [where r = pg_demo_record and c = pg_DefaultConfig])
    (simp_all add: WithIdempotencyKey_def no_options_def pg_demo_record_def)

theorem pg_refund_refines_witness:
  "let q = \<lparr>rr_UserID = ''u'', rr_Resource = ''api'', rr_Amount = 3, rr_PeriodType = PeriodTypeMonthly,
         rr_Period = pg_demo_period, rr_IdempotencyKey = ''k'', rr_IdempotencyKeyTTL = 0, rr_Reason = '''', rr_Metadata = []\<rparr>;
       (e, s) = st_RefundQuota (postgres_storage pg_DefaultConfig) 0 q (pg_demo_state pg_demo_used)
   in e = None \<and> lg_acct (pg_ledger ''u'' (pg_tables s)) pg_demo_key = Some (5, 10)"
proof -
  let ?q = "\<lparr>rr_UserID = ''u'', rr_Resource = ''api'', rr_Amount = 3, rr_PeriodType = PeriodTypeMonthly,
         rr_Period = pg_demo_period, rr_IdempotencyKey = ''k'', rr_IdempotencyKeyTTL = 0, rr_Reason = '''', rr_Metadata = []\<rparr>"
  obtain e s where run: "st_RefundQuota (postgres_storage pg_DefaultConfig) 0 ?q (pg_demo_state pg_demo_used) = (e, s)"
    by fastforce
  have "spec_refund pg_demo_key ?q (pg_ledger (rr_UserID ?q) pg_demo_used) = (e, pg_ledger (rr_UserID ?q) (pg_tables s))"
    using pg_refund_refines [OF _ _ _ _ refl _ run] pg_demo_fits(3)
    by (simp add: pg_demo_row varchar_def) (simp add: pg_demo_period_def zero_time_def ns_per_sec_def)
  from arg_cong [OF this, of fst] arg_cong [OF this, of "\<lambda>x. lg_acct (snd x) pg_demo_key"] show ?thesis
    by (simp add: run spec_refund_def)
      (simp add: pg_ledger_def pg_demo_used_def pg_demo_empty_def new_row_def isub_def wrap64_def)
qed

theorem pg_limits_refine_witness:
  "lg_acct (pg_ledger ''u'' (pg_tables (snd (st_AddLimit (postgres_storage pg_DefaultConfig) 0 ''u'' ''api'' 90 pg_demo_period
      ''t'' (pg_demo_state pg_demo_used))))) pg_demo_key = Some (8, 100)"
proof -
  have "spec_add pg_demo_key 90 ''t'' (pg_ledger ''u'' pg_demo_used)
      = (fst (st_AddLimit (postgres_storage pg_DefaultConfig) 0 ''u'' ''api'' 90 pg_demo_period ''t'' (pg_demo_state pg_demo_used)),
         pg_ledger ''u'' (pg_tables (snd (st_AddLimit (postgres_storage pg_DefaultConfig) 0 ''u'' ''api'' 90 pg_demo_period
           ''t'' (pg_demo_state pg_demo_used)))))"
    using pg_limits_refine [OF _ _ pg_demo_fits(2), of "pg_demo_state pg_demo_used" "''t''" pg_demo_key 90 pg_DefaultConfig 0]
    by (simp add: pg_demo_row varchar_def new_row_def int64_ok_def)
  from arg_cong [OF this, of "\<lambda>x. lg_acct (snd x) pg_demo_key"] show ?thesis
    by (simp add: spec_add_def) (simp add: pg_ledger_def pg_demo_used_def pg_demo_empty_def new_row_def iadd_def wrap64_def)
qed

end
