(* ===== verification/FirestoreClient.thy ===== *)
theory FirestoreClient
  imports StorageApi "HOL-Library.State_Monad"
begin

text \<open>
  What the Firestore backend uses of the Firestore client, which is not part of the repository:
  documents with fields of several types, the body of a transaction, and the client as a parameter
  over a state \<open>'s\<close>. The locale \<open>firestore_client\<close> states what the documentation promises of a server that
  is up: a transaction is serializable, its writes take effect together when it commits, and none
  does when its function returns an error.
\<close>

section \<open>Documents\<close>

text \<open>A path alternates collections and documents. A server timestamp is replaced when it is written.\<close>

type_synonym FsPath = "string list"

datatype FsValue =
  FsInt goint | FsFloat float64 | FsString string | FsTime time | FsServerTimestamp
  | FsMap "(string \<times> FsValue) list"

type_synonym FsDoc = "string \<rightharpoonup> FsValue"
type_synonym FsDocs = "FsPath \<Rightarrow> FsDoc option"

text \<open>The reply to a read: a missing document is an error of its own code.\<close>

datatype FsReply = FsFound FsDoc | FsNotFound | FsFailed goerr

text \<open>\<open>Set\<close>, with or without \<open>MergeAll\<close>, and \<open>Create\<close>.\<close>

datatype FsWrite = WSet FsPath FsDoc bool | WCreate FsPath FsDoc

section \<open>Transactions\<close>

text \<open>The variables that the functions of transactions assign, from their zero values.\<close>

record FsVars =
  fv_newUsed :: goint
  fv_allowed :: bool
  fv_remaining :: goint
  fv_resetTime :: time

definition fs_vars :: FsVars where
  "fs_vars = \<lparr>fv_newUsed = 0, fv_allowed = False, fv_remaining = 0, fv_resetTime = zero_time\<rparr>"

text \<open>
  The function of a transaction as the tree of its requests: a read of a document; a query for the
  documents of a collection whose field is a time after a cutoff, in the order of the times and up to
  a number; a new identifier in a collection; a write. Each goes on with the reply. It ends with the
  assignments and the error it returns.
\<close>

datatype FsTx =
    TxGet FsPath "FsReply \<Rightarrow> FsTx"
  | TxQuery FsPath string time goint "FsDoc list \<Rightarrow> FsTx"
  | TxNewDoc FsPath "FsPath \<Rightarrow> FsTx"
  | TxWrite FsWrite "goerr option \<Rightarrow> FsTx"
  | TxReturn "FsVars \<Rightarrow> FsVars" "goerr option"

text \<open>
  What a function does, given the replies: the documents it reads in the transaction, its writes in order,
  its assignments and its error.
\<close>

primrec tx_run :: "(FsPath \<Rightarrow> FsReply) \<Rightarrow> (FsPath \<Rightarrow> string \<Rightarrow> time \<Rightarrow> goint \<Rightarrow> FsDoc list) \<Rightarrow> (FsPath \<Rightarrow> FsPath) \<Rightarrow> FsTx
    \<Rightarrow> FsPath list \<times> FsWrite list \<times> (FsVars \<Rightarrow> FsVars) \<times> goerr option" where
  "tx_run get query new (TxGet p k) =
     (let (rs, ws, x) = tx_run get query new (k (get p)) in (p # rs, ws, x))"
| "tx_run get query new (TxQuery p f t n k) = tx_run get query new (k (query p f t n))"
| "tx_run get query new (TxNewDoc p k) = tx_run get query new (k (new p))"
| "tx_run get query new (TxWrite w k) =
     (let (rs, ws, x) = tx_run get query new (k None) in (rs, w # ws, x))"
| "tx_run get query new (TxReturn f e) = ([], [], f, e)"

text \<open>The documentation requires that all reads of a transaction come before its writes.\<close>

primrec tx_no_reads :: "FsTx \<Rightarrow> bool" where
  "tx_no_reads (TxGet p k) = False"
| "tx_no_reads (TxQuery p f t n k) = (\<forall>r. tx_no_reads (k r))"
| "tx_no_reads (TxNewDoc p k) = (\<forall>r. tx_no_reads (k r))"
| "tx_no_reads (TxWrite w k) = (\<forall>r. tx_no_reads (k r))"
| "tx_no_reads (TxReturn f e) = True"

primrec tx_reads_first :: "FsTx \<Rightarrow> bool" where
  "tx_reads_first (TxGet p k) = (\<forall>r. tx_reads_first (k r))"
| "tx_reads_first (TxQuery p f t n k) = (\<forall>r. tx_reads_first (k r))"
| "tx_reads_first (TxNewDoc p k) = (\<forall>r. tx_reads_first (k r))"
| "tx_reads_first (TxWrite w k) = (\<forall>r. tx_no_reads (k r))"
| "tx_reads_first (TxReturn f e) = True"

section \<open>A client\<close>

record 's FsClient =
  fc_Get :: "FsPath \<Rightarrow> 's \<Rightarrow> FsReply \<times> 's"
  fc_Set :: "FsPath \<Rightarrow> FsDoc \<Rightarrow> bool \<Rightarrow> 's \<Rightarrow> goerr option \<times> 's"
  fc_Delete :: "FsPath \<Rightarrow> 's \<Rightarrow> goerr option \<times> 's"
  fc_RunTransaction :: "FsTx \<Rightarrow> 's \<Rightarrow> (FsVars \<times> goerr option) \<times> 's"

section \<open>The documented effect of the operations\<close>

text \<open>Times are stored with microseconds, rounded down.\<close>

definition fs_micros :: "time \<Rightarrow> time" where
  "fs_micros t = t - t mod 1000"

fun fs_stored :: "time \<Rightarrow> FsValue \<Rightarrow> FsValue" where
  "fs_stored now (FsTime t) = FsTime (fs_micros t)"
| "fs_stored now FsServerTimestamp = FsTime (fs_micros now)"
| "fs_stored now (FsMap m) = FsMap (map (\<lambda>(k, v). (k, fs_stored now v)) m)"
| "fs_stored now v = v"

definition fs_stored_doc :: "time \<Rightarrow> FsDoc \<Rightarrow> FsDoc" where
  "fs_stored_doc now d = (\<lambda>f. map_option (fs_stored now) (d f))"

fun fs_write :: "time \<Rightarrow> FsWrite \<Rightarrow> FsDocs \<Rightarrow> FsDocs" where
  "fs_write now (WSet p d merge) D = D(p \<mapsto> (case D p of
     Some old \<Rightarrow> if merge then old ++ fs_stored_doc now d else fs_stored_doc now d
   | None \<Rightarrow> fs_stored_doc now d))"
| "fs_write now (WCreate p d) D = D(p \<mapsto> fs_stored_doc now d)"

definition fs_snapshot :: "FsDocs \<Rightarrow> FsPath \<Rightarrow> FsReply" where
  "fs_snapshot D p = (case D p of None \<Rightarrow> FsNotFound | Some d \<Rightarrow> FsFound d)"

fun fs_clash :: "FsDocs \<Rightarrow> FsWrite \<Rightarrow> bool" where
  "fs_clash D (WCreate p d) = (D p \<noteq> None)"
| "fs_clash D (WSet p d m) = False"

text \<open>The answer to a query: the matching documents that come first in the order of their times.\<close>

definition fs_matches :: "FsDocs \<Rightarrow> FsPath \<Rightarrow> string \<Rightarrow> time \<Rightarrow> FsPath set" where
  "fs_matches D c f cutoff = {p. (\<exists>i. p = c @ [i]) \<and> (\<exists>d t. D p = Some d \<and> d f = Some (FsTime t) \<and> cutoff < t)}"

definition fs_time :: "string \<Rightarrow> FsDoc \<Rightarrow> time" where
  "fs_time f d = (case d f of Some (FsTime t) \<Rightarrow> t | _ \<Rightarrow> zero_time)"

definition fs_answer :: "FsDocs \<Rightarrow> FsPath \<Rightarrow> string \<Rightarrow> time \<Rightarrow> goint \<Rightarrow> FsDoc list \<Rightarrow> bool" where
  "fs_answer D c f cutoff n ds \<longleftrightarrow> (\<exists>ps. distinct ps \<and> set ps = fs_matches D c f cutoff
     \<and> sorted (map (\<lambda>p. fs_time f (the (D p))) ps) \<and> ds = map (\<lambda>p. the (D p)) (take (nat n) ps))"

text \<open>A new identifier is unused, as long as the collection has some room.\<close>

definition fs_room :: "FsDocs \<Rightarrow> FsPath \<Rightarrow> bool" where
  "fs_room D c \<longleftrightarrow> finite {i. D (c @ [i]) \<noteq> None} \<and> card {i. D (c @ [i]) \<noteq> None} < 1000000"

section \<open>Limits of the service\<close>

text \<open>
  Identifiers and values within the documented limits; for texts and maps a condition that is enough: ASCII
  texts of up to 16384 characters, and maps of up to 20 of them, keep a document of this backend
  below a megabyte.
\<close>

definition ascii :: "string \<Rightarrow> bool" where
  "ascii s \<longleftrightarrow> (\<forall>c \<in> set s. (of_char c :: nat) < 128)"

definition valid_id :: "string \<Rightarrow> bool" where
  "valid_id s \<longleftrightarrow> s \<noteq> '''' \<and> length s \<le> 1500 \<and> ascii s \<and> CHR ''/'' \<notin> set s \<and> s \<noteq> ''.'' \<and> s \<noteq> ''..''
     \<and> take 2 s \<noteq> ''__''"

definition valid_path :: "FsPath \<Rightarrow> bool" where
  "valid_path p \<longleftrightarrow> (\<forall>i \<in> set p. valid_id i)"

definition valid_text :: "string \<Rightarrow> bool" where
  "valid_text s \<longleftrightarrow> length s \<le> 16384 \<and> ascii s"

definition valid_time :: "time \<Rightarrow> bool" where
  "valid_time t \<longleftrightarrow> zero_time \<le> t \<and> t < time_Date 10000 1 1 0 0 0 0"

fun valid_value :: "FsValue \<Rightarrow> bool" where
  "valid_value (FsString s) = valid_text s"
| "valid_value (FsTime t) = valid_time t"
| "valid_value (FsMap m) = (length m \<le> 20 \<and> (\<forall>(k, v) \<in> set m. k \<noteq> '''' \<and> valid_text k \<and> (\<exists>s. v = FsString s \<and> valid_text s)))"
| "valid_value _ = True"

definition valid_doc :: "FsDoc \<Rightarrow> bool" where
  "valid_doc d \<longleftrightarrow> (\<forall>v \<in> ran d. valid_value v)"

text \<open>\<open>MergeAll\<close> merges maps field by field; the effect is stated where that does not matter.\<close>

definition fs_plain :: "FsDocs \<Rightarrow> FsPath \<Rightarrow> FsDoc \<Rightarrow> bool" where
  "fs_plain D p d \<longleftrightarrow> D p = None \<or> (\<forall>m. FsMap m \<notin> ran d)"

fun valid_write :: "FsDocs \<Rightarrow> FsWrite \<Rightarrow> bool" where
  "valid_write D (WSet p d merge) = (valid_path p \<and> valid_doc d \<and> (merge \<longrightarrow> fs_plain D p d))"
| "valid_write D (WCreate p d) = (valid_path p \<and> valid_doc d)"

lemma valid_doc_update [simp]: "valid_doc Map.empty" "valid_value v \<Longrightarrow> valid_doc d \<Longrightarrow> valid_doc (d(k \<mapsto> v))"
  by (auto simp: valid_doc_def ran_def)

lemma fs_plain_update [simp]: "fs_plain D p Map.empty" "(\<forall>m. v \<noteq> FsMap m) \<Longrightarrow> fs_plain D p d \<Longrightarrow> fs_plain D p (d(k \<mapsto> v))"
  by (auto simp: fs_plain_def ran_def)

section \<open>The contract of a client\<close>

text \<open>
  \<open>docs\<close> reads the documents off the state, \<open>clock\<close> is the time of the server, and \<open>up\<close> says that the server
  answers. Retries of a transaction are part of \<open>RunTransaction\<close>.
\<close>

definition tx_outcome :: "time \<Rightarrow> FsDocs \<Rightarrow> FsPath list \<times> FsWrite list \<times> (FsVars \<Rightarrow> FsVars) \<times> goerr option
    \<Rightarrow> (FsVars \<times> goerr option) \<Rightarrow> FsDocs \<Rightarrow> bool" where
  "tx_outcome now D = (\<lambda>(rs, ws, f, e) r D'.
     (\<forall>p \<in> set rs. valid_path p) \<longrightarrow> (\<forall>w \<in> set ws. valid_write D w) \<longrightarrow>
     (if e \<noteq> None then r = (f fs_vars, e) \<and> D' = D
      else if \<exists>w \<in> set ws. fs_clash D w then (\<exists>err. r = (f fs_vars, Some err)) \<and> D' = D
      else r = (f fs_vars, None) \<and> D' = fold (fs_write now) ws D))"

locale firestore_client =
  fixes C :: "'s FsClient"
    and docs :: "'s \<Rightarrow> FsDocs"
    and clock :: "'s \<Rightarrow> time"
    and up :: "'s \<Rightarrow> bool"
  assumes get_doc: "\<lbrakk>up s; valid_path p; fc_Get C p s = (snap, s')\<rbrakk> \<Longrightarrow>
      snap = fs_snapshot (docs s) p \<and> docs s' = docs s \<and> up s'"
    and set_doc: "\<lbrakk>up s; valid_write (docs s) (WSet p d m); fc_Set C p d m s = (e, s')\<rbrakk> \<Longrightarrow>
      e = None \<and> docs s' = fs_write (clock s) (WSet p d m) (docs s) \<and> up s'"
    and delete_doc: "\<lbrakk>up s; valid_path p; fc_Delete C p s = (e, s')\<rbrakk> \<Longrightarrow>
      e = None \<and> docs s' = (docs s)(p := None) \<and> up s'"
    and transaction: "\<lbrakk>up s; tx_reads_first body; fc_RunTransaction C body s = (r, s')\<rbrakk> \<Longrightarrow> \<exists>query new.
      (\<forall>c f t n. fs_answer (docs s) c f t n (query c f t n))
      \<and> (\<forall>c. fs_room (docs s) c \<longrightarrow> (\<exists>i. new c = c @ [i] \<and> valid_id i \<and> docs s (c @ [i]) = None))
      \<and> tx_outcome (clock s) (docs s) (tx_run (fs_snapshot (docs s)) query new body) r (docs s')
      \<and> up s'"

section \<open>A client of a list of documents\<close>

record FsStore =
  fs_docs :: "(FsPath \<times> FsDoc) list"
  fs_clock :: time

definition store_docs :: "FsStore \<Rightarrow> FsDocs" where
  "store_docs s = map_of (fs_docs s)"

definition store_up :: "FsStore \<Rightarrow> bool" where
  "store_up s \<longleftrightarrow> distinct (map fst (fs_docs s))"

definition in_collection :: "FsPath \<Rightarrow> FsPath \<Rightarrow> bool" where
  "in_collection c p \<longleftrightarrow> p \<noteq> [] \<and> butlast p = c"

definition later_than :: "string \<Rightarrow> time \<Rightarrow> FsDoc \<Rightarrow> bool" where
  "later_than f cutoff d = (case d f of Some (FsTime t) \<Rightarrow> cutoff < t | _ \<Rightarrow> False)"

definition store_query :: "FsStore \<Rightarrow> FsPath \<Rightarrow> string \<Rightarrow> time \<Rightarrow> goint \<Rightarrow> FsDoc list" where
  "store_query s c f cutoff n = map snd (take (nat n) (sort_key (\<lambda>(p, d). fs_time f d)
     (filter (\<lambda>(p, d). in_collection c p \<and> later_than f cutoff d) (fs_docs s))))"

definition auto_id :: "nat \<Rightarrow> string" where
  "auto_id n = CHR ''n'' # show_nat n"

definition store_new :: "FsStore \<Rightarrow> FsPath \<Rightarrow> FsPath" where
  "store_new s c = (let used = filter (in_collection c) (map fst (fs_docs s)) in
     case find (\<lambda>n. c @ [auto_id n] \<notin> set used) [0..<Suc (length used)] of
       Some n \<Rightarrow> c @ [auto_id n] | None \<Rightarrow> c @ [''''])"

fun store_write :: "time \<Rightarrow> FsWrite \<Rightarrow> (FsPath \<times> FsDoc) list \<Rightarrow> (FsPath \<times> FsDoc) list" where
  "store_write now (WSet p d merge) D = AList.update p (case map_of D p of
     Some old \<Rightarrow> if merge then old ++ fs_stored_doc now d else fs_stored_doc now d
   | None \<Rightarrow> fs_stored_doc now d) D"
| "store_write now (WCreate p d) D = AList.update p (fs_stored_doc now d) D"

definition store_transaction :: "FsTx \<Rightarrow> FsStore \<Rightarrow> (FsVars \<times> goerr option) \<times> FsStore" where
  "store_transaction body s =
     (let (rs, ws, f, e) = tx_run (fs_snapshot (store_docs s)) (store_query s) (store_new s) body in
      if e \<noteq> None then ((f fs_vars, e), s)
      else if list_ex (fs_clash (store_docs s)) ws
      then ((f fs_vars, Some (ErrText ''rpc error: code = AlreadyExists'')), s)
      else ((f fs_vars, None), s\<lparr>fs_docs := fold (store_write (fs_clock s)) ws (fs_docs s)\<rparr>))"

definition store_client :: "FsStore FsClient" where
  "store_client = \<lparr>
     fc_Get = (\<lambda>p s. (fs_snapshot (store_docs s) p, s)),
     fc_Set = (\<lambda>p d m s. (None, s\<lparr>fs_docs := store_write (fs_clock s) (WSet p d m) (fs_docs s)\<rparr>)),
     fc_Delete = (\<lambda>p s. (None, s\<lparr>fs_docs := AList.delete p (fs_docs s)\<rparr>)),
     fc_RunTransaction = store_transaction\<rparr>"

lemma map_of_store_write: "map_of (store_write now w D) = fs_write now w (map_of D)"
  by (cases w) (simp_all add: update_conv')

lemma map_of_store_writes: "map_of (fold (store_write now) ws D) = fold (fs_write now) ws (map_of D)"
  by (induction ws arbitrary: D) (simp_all add: map_of_store_write)

lemma distinct_store_write: "distinct (map fst D) \<Longrightarrow> distinct (map fst (store_write now w D))"
  by (cases w) (simp_all add: distinct_update)

lemma distinct_store_writes: "distinct (map fst D) \<Longrightarrow> distinct (map fst (fold (store_write now) ws D))"
  by (induction ws arbitrary: D) (simp_all add: distinct_store_write)

lemma later_than_iff: "later_than f cutoff d \<longleftrightarrow> (\<exists>t. d f = Some (FsTime t) \<and> cutoff < t)"
  by (auto simp: later_than_def split: option.splits FsValue.splits)

lemma store_answer:
  assumes "store_up s"
  shows "fs_answer (store_docs s) c f cutoff n (store_query s c f cutoff n)"
proof -
  let ?L = "filter (\<lambda>(p, d). in_collection c p \<and> later_than f cutoff d) (fs_docs s)"
  let ?S = "sort_key (\<lambda>(p, d). fs_time f d) ?L"
  have dist: "distinct (map fst (fs_docs s))" using assms by (simp add: store_up_def)
  have docs: "the (store_docs s p) = d" if "(p, d) \<in> set (fs_docs s)" for p d
    using dist that by (simp add: store_docs_def)
  have "distinct (map fst ?L)" using dist by (simp add: distinct_map_filter)
  then have "distinct (map fst ?S)"
    by (simp add: distinct_map)
  moreover have "set (map fst ?S) = fs_matches (store_docs s) c f cutoff"
  proof
    show "set (map fst ?S) \<subseteq> fs_matches (store_docs s) c f cutoff"
    proof
      fix p assume "p \<in> set (map fst ?S)"
      then obtain d t where "(p, d) \<in> set (fs_docs s)" "p \<noteq> []" "butlast p = c" "d f = Some (FsTime t)" "cutoff < t"
        by (auto simp: in_collection_def later_than_iff)
      moreover from this have "store_docs s p = Some d" "p = c @ [last p]"
        using dist by (auto simp: store_docs_def)
      ultimately show "p \<in> fs_matches (store_docs s) c f cutoff" unfolding fs_matches_def by blast
    qed
    show "fs_matches (store_docs s) c f cutoff \<subseteq> set (map fst ?S)"
    proof
      fix p assume "p \<in> fs_matches (store_docs s) c f cutoff"
      then obtain i d t where "p = c @ [i]" "(p, d) \<in> set (fs_docs s)" "d f = Some (FsTime t)" "cutoff < t"
        by (auto simp: fs_matches_def store_docs_def dest: map_of_SomeD)
      then have "(p, d) \<in> set ?S" by (simp add: in_collection_def later_than_iff)
      then show "p \<in> set (map fst ?S)" unfolding set_map by (rule rev_image_eqI) simp
    qed
  qed
  moreover have "map (\<lambda>p. fs_time f (the (store_docs s p))) (map fst ?S) = map (\<lambda>(p, d). fs_time f d) ?S"
    using docs by auto
  moreover have "map snd (take (nat n) ?S) = map (\<lambda>p. the (store_docs s p)) (take (nat n) (map fst ?S))"
    using docs by (auto simp: take_map dest!: in_set_takeD)
  moreover have "sorted (map (\<lambda>(p, d). fs_time f d) ?S)" by (rule sorted_sort_key)
  ultimately show ?thesis
    unfolding fs_answer_def store_query_def by (intro exI [of _ "map fst ?S"] conjI) (simp_all only:)
qed

lemma show_nat_length:
  assumes "n < 1000000"
  shows "length (show_nat n) \<le> 6"
proof -
  have step: "length (show_nat n) \<le> k + 1" if "n div 10 = 0 \<or> length (show_nat (n div 10)) \<le> k" for n k
    using that by (subst show_nat.simps) (auto simp: div_eq_0_iff)
  have "n div 10 div 10 div 10 div 10 div 10 div 10 = 0"
    using assms unfolding div_mult2_eq [symmetric] by simp
  then have "length (show_nat (n div 10 div 10 div 10 div 10 div 10)) \<le> 0 + 1" by (rule step [OF disjI1])
  then have "length (show_nat (n div 10 div 10 div 10 div 10)) \<le> 0 + 1 + 1" by (rule step [OF disjI2])
  then have "length (show_nat (n div 10 div 10 div 10)) \<le> 0 + 1 + 1 + 1" by (rule step [OF disjI2])
  then have "length (show_nat (n div 10 div 10)) \<le> 0 + 1 + 1 + 1 + 1" by (rule step [OF disjI2])
  then have "length (show_nat (n div 10)) \<le> 0 + 1 + 1 + 1 + 1 + 1" by (rule step [OF disjI2])
  then have "length (show_nat n) \<le> 0 + 1 + 1 + 1 + 1 + 1 + 1" by (rule step [OF disjI2])
  then show ?thesis by simp
qed

lemma digit_ascii: "(of_char (digit n) :: nat) < 128" "digit n \<noteq> CHR ''/''"
proof -
  show "(of_char (digit n) :: nat) < 128" by (simp add: of_char_digit trans_less_add1)
  have "(of_char (CHR ''/'') :: nat) = 47" by simp
  then show "digit n \<noteq> CHR ''/''" using of_char_digit [of n] by fastforce
qed

lemma show_nat_chars: "ascii (show_nat n)" "CHR ''/'' \<notin> set (show_nat n)"
  by (induction n rule: show_nat.induct; subst show_nat.simps; auto simp: ascii_def digit_ascii digit_ascii(2) [symmetric])+

lemma auto_id_valid: "n < 1000000 \<Longrightarrow> valid_id (auto_id n)"
  using show_nat_length [of n] show_nat_chars [of n]
  by (auto simp: auto_id_def valid_id_def ascii_def)

lemma store_new_fresh:
  assumes "fs_room (store_docs s) c" "store_up s"
  shows "\<exists>i. store_new s c = c @ [i] \<and> valid_id i \<and> store_docs s (c @ [i]) = None"
proof -
  let ?used = "filter (in_collection c) (map fst (fs_docs s))"
  have split: "p = c @ [last p]" if "p \<in> set ?used" for p
    using that by (auto simp: in_collection_def)
  have used: "set (map last ?used) = {i. store_docs s (c @ [i]) \<noteq> None}"
    (is "?L = ?R")
  proof
    show "?L \<subseteq> ?R"
    proof
      fix i assume "i \<in> ?L"
      then obtain p where "p \<in> set ?used" "i = last p" by auto
      then have "c @ [i] \<in> fst ` set (fs_docs s)" using split by fastforce
      then show "i \<in> ?R" by (simp add: store_docs_def map_of_eq_None_iff)
    qed
    show "?R \<subseteq> ?L"
    proof
      fix i assume "i \<in> ?R"
      then have "c @ [i] \<in> set ?used"
        by (auto simp: store_docs_def in_collection_def dest!: map_of_SomeD intro: rev_image_eqI)
      then show "i \<in> ?L" by (metis image_eqI last_snoc set_map)
    qed
  qed
  have "distinct ?used" using assms(2) by (simp add: store_up_def)
  moreover have "inj_on last (set ?used)" by (metis split inj_onI)
  ultimately have "card {i. store_docs s (c @ [i]) \<noteq> None} = length ?used"
    by (metis used distinct_card distinct_map length_map)
  then have small: "length ?used < 1000000" using assms(1) by (simp add: fs_room_def)
  have "\<not> (\<lambda>n. c @ [auto_id n]) ` {0..<Suc (length ?used)} \<subseteq> set ?used"
  proof
    assume *: "(\<lambda>n. c @ [auto_id n]) ` {0..<Suc (length ?used)} \<subseteq> set ?used"
    have "inj (\<lambda>n. c @ [auto_id n])" by (rule injI) (simp add: auto_id_def show_nat_inj)
    then have "Suc (length ?used) = card ((\<lambda>n. c @ [auto_id n]) ` {0..<Suc (length ?used)})"
      by (simp add: card_image inj_on_subset)
    also have "\<dots> \<le> length ?used" using * by (meson card_length card_mono dual_order.trans finite_set)
    finally show False by simp
  qed
  then obtain n where found: "find (\<lambda>n. c @ [auto_id n] \<notin> set ?used) [0..<Suc (length ?used)] = Some n"
    by (metis (no_types, lifting) find_None_iff image_subsetI not_None_eq set_upt)
  moreover have "n \<in> set [0..<Suc (length ?used)]" "c @ [auto_id n] \<notin> set ?used"
    using found unfolding find_Some_iff by (metis nth_mem, metis)
  moreover from this(1) have "n \<le> length ?used" by (simp only: set_upt atLeastLessThan_iff less_Suc_eq_le)
  moreover from this have "n < 1000000" using small by (rule le_less_trans)
  ultimately show ?thesis
    using auto_id_valid [of n] by (auto simp: store_new_def Let_def store_docs_def in_collection_def map_of_eq_None_iff)
qed

interpretation store: firestore_client store_client store_docs fs_clock store_up
proof
  fix s p snap s'
  assume "store_up s" "fc_Get store_client p s = (snap, s')"
  then show "snap = fs_snapshot (store_docs s) p \<and> store_docs s' = store_docs s \<and> store_up s'"
    by (auto simp: store_client_def)
next
  fix s p d m e s'
  assume "store_up s" "fc_Set store_client p d m s = (e, s')"
  then show "e = None \<and> store_docs s' = fs_write (fs_clock s) (WSet p d m) (store_docs s) \<and> store_up s'"
    by (auto simp del: fs_write.simps store_write.simps
        simp: store_client_def store_docs_def map_of_store_write store_up_def distinct_store_write)
next
  fix s p e s'
  assume "store_up s" "fc_Delete store_client p s = (e, s')"
  then show "e = None \<and> store_docs s' = (store_docs s)(p := None) \<and> store_up s'"
    by (auto simp: store_client_def store_docs_def store_up_def delete_conv' distinct_delete)
next
  fix s body r s'
  assume *: "store_up s" "fc_RunTransaction store_client body s = (r, s')"
  have "tx_outcome (fs_clock s) (store_docs s)
      (tx_run (fs_snapshot (store_docs s)) (store_query s) (store_new s) body) r (store_docs s') \<and> store_up s'"
    using * by (auto simp: tx_outcome_def store_client_def store_transaction_def store_docs_def map_of_store_writes
        store_up_def distinct_store_writes list_ex_iff split: prod.splits if_splits)
  then show "\<exists>query new. (\<forall>c f t n. fs_answer (store_docs s) c f t n (query c f t n))
      \<and> (\<forall>c. fs_room (store_docs s) c \<longrightarrow> (\<exists>i. new c = c @ [i] \<and> valid_id i \<and> store_docs s (c @ [i]) = None))
      \<and> tx_outcome (fs_clock s) (store_docs s) (tx_run (fs_snapshot (store_docs s)) query new body) r (store_docs s')
      \<and> store_up s'"
    using store_answer [OF *(1)] store_new_fresh [OF _ *(1)] by blast
qed

end
