(* ===== verification/FirestoreStorage.thy ===== *)
theory FirestoreStorage
  imports FirestoreClient ManagerOps
begin

text \<open>
  The Firestore backend, \<open>storage/firestore/firestore.go\<close>, over a client \<open>C\<close>. A method that reads or writes
  one document is a call of the client; the others run a transaction, whose function is a tree of type
  \<open>FsTx\<close>. All clock readings of a call are \<open>now\<close>.
\<close>

record FsConfig =
  fs_EntitlementsCollection :: string
  fs_UsageCollection :: string
  fs_RefundsCollection :: string
  fs_ConsumptionsCollection :: string

definition fs_New :: "'s FsClient option \<Rightarrow> FsConfig \<Rightarrow> goerr + ('s FsClient \<times> FsConfig)" where
  "fs_New client config = (case client of
     None \<Rightarrow> Inl (ErrText ''firestore client is required'')
   | Some C \<Rightarrow> Inr (C, \<lparr>
       fs_EntitlementsCollection = (if fs_EntitlementsCollection config = '''' then ''billing_entitlements''
         else fs_EntitlementsCollection config),
       fs_UsageCollection = (if fs_UsageCollection config = '''' then ''billing_usage'' else fs_UsageCollection config),
       fs_RefundsCollection = (if fs_RefundsCollection config = '''' then ''billing_refunds''
         else fs_RefundsCollection config),
       fs_ConsumptionsCollection = (if fs_ConsumptionsCollection config = '''' then ''billing_consumptions''
         else fs_ConsumptionsCollection config)\<rparr>))"

section \<open>Paths and fields\<close>

definition fs_usageDoc :: "FsConfig \<Rightarrow> string \<Rightarrow> string \<Rightarrow> Period \<Rightarrow> FsPath" where
  "fs_usageDoc c userID resource period =
     [fs_UsageCollection c, userID, ''periods'', period_Key period @ ''_'' @ resource]"

definition fs_entitlementDoc :: "FsConfig \<Rightarrow> string \<Rightarrow> FsPath" where
  "fs_entitlementDoc c userID = [fs_EntitlementsCollection c, userID]"

definition fs_refundDoc :: "FsConfig \<Rightarrow> string \<Rightarrow> FsPath" where
  "fs_refundDoc c key = [fs_RefundsCollection c, key]"

definition fs_consumptionDoc :: "FsConfig \<Rightarrow> string \<Rightarrow> FsPath" where
  "fs_consumptionDoc c key = [fs_ConsumptionsCollection c, key]"

definition fs_topUpDoc :: "string \<Rightarrow> FsPath" where
  "fs_topUpDoc key = [''top_up_records'', key]"

definition fs_rateLimitDoc :: "string \<Rightarrow> string \<Rightarrow> FsPath" where
  "fs_rateLimitDoc userID resource = [''rate_limits'', userID @ ''_'' @ resource]"

definition fs_getString :: "FsDoc \<Rightarrow> string \<Rightarrow> string" where
  "fs_getString data key = (case data key of Some (FsString v) \<Rightarrow> v | _ \<Rightarrow> '''')"

definition fs_getInt :: "FsDoc \<Rightarrow> string \<Rightarrow> goint" where
  "fs_getInt data key = (case data key of
     Some (FsInt v) \<Rightarrow> v | Some (FsFloat v) \<Rightarrow> f_to_int (Some (f_round v)) | _ \<Rightarrow> 0)"

definition fs_getTime :: "FsDoc \<Rightarrow> string \<Rightarrow> time" where
  "fs_getTime data key = (case data key of Some (FsTime v) \<Rightarrow> v | _ \<Rightarrow> zero_time)"

text \<open>A time field that is present and not zero.\<close>

definition fs_optTime :: "FsDoc \<Rightarrow> string \<Rightarrow> time option" where
  "fs_optTime data key = (case data key of
     Some (FsTime v) \<Rightarrow> if v = zero_time then None else Some v | _ \<Rightarrow> None)"

definition fs_notFound :: goerr where
  "fs_notFound = ErrText ''rpc error: code = NotFound''"

section \<open>Time, entitlements and usage\<close>

definition fs_tempDoc :: FsPath where
  "fs_tempDoc = [''_goquota_temp'', ''_time_query'']"

definition fs_Now :: "'s FsClient \<Rightarrow> time \<Rightarrow> ('s, goerr + time) state" where
  "fs_Now C now = do {
     r \<leftarrow> State (fc_Set C fs_tempDoc [''timestamp'' \<mapsto> FsServerTimestamp] False);
     case r of
       Some err \<Rightarrow> State_Monad.return (Inl (Wrapped ''failed to get Firestore time, using local time'' err))
     | None \<Rightarrow> do {
         snap \<leftarrow> State (fc_Get C fs_tempDoc);
         _ \<leftarrow> State (fc_Delete C fs_tempDoc);
         State_Monad.return (case snap of
           FsNotFound \<Rightarrow> Inl (Wrapped ''failed to read Firestore time, using local time'' fs_notFound)
         | FsFailed err \<Rightarrow> Inl (Wrapped ''failed to read Firestore time, using local time'' err)
         | FsFound data \<Rightarrow> (case data ''timestamp'' of
             Some (FsTime ts) \<Rightarrow> Inr ts
           | _ \<Rightarrow> Inl (ErrText ''failed to extract Firestore server timestamp, using local time'')))
       }
   }"

definition fs_GetEntitlement :: "'s FsClient \<Rightarrow> FsConfig \<Rightarrow> time \<Rightarrow> string \<Rightarrow> ('s, goerr + Entitlement) state" where
  "fs_GetEntitlement C c now userID = do {
     snap \<leftarrow> State (fc_Get C (fs_entitlementDoc c userID));
     State_Monad.return (case snap of
       FsNotFound \<Rightarrow> Inl ErrEntitlementNotFound
     | FsFailed err \<Rightarrow> Inl (Wrapped ''failed to get entitlement'' err)
     | FsFound data \<Rightarrow> Inr \<lparr>e_UserID = userID, e_Tier = fs_getString data ''tier'',
         e_SubscriptionStartDate = fs_getTime data ''subscriptionStartDate'',
         e_ExpiresAt = fs_optTime data ''expiresAt'', e_UpdatedAt = fs_getTime data ''updatedAt''\<rparr>)
   }"

definition fs_entitlement_data :: "Entitlement \<Rightarrow> FsDoc" where
  "fs_entitlement_data ent =
     (let data = [''tier'' \<mapsto> FsString (e_Tier ent),
        ''subscriptionStartDate'' \<mapsto> FsTime (e_SubscriptionStartDate ent), ''updatedAt'' \<mapsto> FsTime (e_UpdatedAt ent)]
      in case e_ExpiresAt ent of None \<Rightarrow> data | Some t \<Rightarrow> data(''expiresAt'' \<mapsto> FsTime t))"

definition fs_SetEntitlement :: "'s FsClient \<Rightarrow> FsConfig \<Rightarrow> time \<Rightarrow> Entitlement \<Rightarrow> ('s, goerr option) state" where
  "fs_SetEntitlement C c now ent =
     (if e_UserID ent = '''' then State_Monad.return (Some (ErrText ''invalid entitlement''))
      else do {
        r \<leftarrow> State (fc_Set C (fs_entitlementDoc c (e_UserID ent)) (fs_entitlement_data ent) True);
        State_Monad.return (map_option (Wrapped ''failed to set entitlement'') r)
      })"

definition fs_usage :: "string \<Rightarrow> string \<Rightarrow> Period \<Rightarrow> FsDoc \<Rightarrow> Usage" where
  "fs_usage userID resource period data =
     \<lparr>u_UserID = userID, u_Resource = resource, u_Used = fs_getInt data ''used'', u_Limit = fs_getInt data ''limit'',
      u_Period = (case fs_optTime data ''cycleEnd'' of
          Some periodEnd \<Rightarrow> period\<lparr>p_End := periodEnd\<rparr>
        | None \<Rightarrow> if p_Type period = PeriodTypeForever then period\<lparr>p_End := time_Date 9999 12 31 23 59 59 0\<rparr> else period),
      u_Tier = fs_getString data ''tier'', u_UpdatedAt = fs_getTime data ''updatedAt''\<rparr>"

definition fs_GetUsage :: "'s FsClient \<Rightarrow> FsConfig \<Rightarrow> time \<Rightarrow> string \<Rightarrow> string \<Rightarrow> Period
    \<Rightarrow> ('s, goerr + Usage option) state" where
  "fs_GetUsage C c now userID resource period = do {
     snap \<leftarrow> State (fc_Get C (fs_usageDoc c userID resource period));
     State_Monad.return (case snap of
       FsNotFound \<Rightarrow> Inr None
     | FsFailed err \<Rightarrow> Inl (Wrapped ''failed to get usage'' err)
     | FsFound data \<Rightarrow> Inr (Some (fs_usage userID resource period data)))
   }"

text \<open>The end of a period is left out for forever periods.\<close>

definition fs_end_unless_forever :: "string \<Rightarrow> Period \<Rightarrow> FsDoc \<Rightarrow> FsDoc" where
  "fs_end_unless_forever field period data =
     (if p_Type period \<noteq> PeriodTypeForever then data(field \<mapsto> FsTime (p_End period)) else data)"

definition fs_SetUsage :: "'s FsClient \<Rightarrow> FsConfig \<Rightarrow> time \<Rightarrow> string \<Rightarrow> string \<Rightarrow> Usage \<Rightarrow> Period
    \<Rightarrow> ('s, goerr option) state" where
  "fs_SetUsage C c now userID resource usage period = do {
     let data = [''used'' \<mapsto> FsInt (u_Used usage), ''limit'' \<mapsto> FsInt (u_Limit usage),
       ''cycleStart'' \<mapsto> FsTime (p_Start period), ''tier'' \<mapsto> FsString (u_Tier usage),
       ''resource'' \<mapsto> FsString resource, ''updatedAt'' \<mapsto> FsTime (u_UpdatedAt usage)];
     r \<leftarrow> State (fc_Set C (fs_usageDoc c userID resource period) (fs_end_unless_forever ''cycleEnd'' period data) True);
     State_Monad.return (map_option (Wrapped ''failed to set usage'') r)
   }"

section \<open>Consumption\<close>

text \<open>A write whose error ends the function.\<close>

definition tx_then :: "FsWrite \<Rightarrow> (FsVars \<Rightarrow> FsVars) \<Rightarrow> FsTx \<Rightarrow> FsTx" where
  "tx_then w f k = TxWrite w (\<lambda>err. case err of Some e \<Rightarrow> TxReturn f (Some e) | None \<Rightarrow> k)"

definition fs_record_expiry :: "time \<Rightarrow> duration \<Rightarrow> time" where
  "fs_record_expiry now ttl = time_Add now (if ttl = 0 then 24 * 3600 * ns_per_sec else ttl)"

definition fs_consumption_data :: "time \<Rightarrow> ConsumeRequest \<Rightarrow> goint \<Rightarrow> FsDoc" where
  "fs_consumption_data now req newUsed = [
     ''consumptionId'' \<mapsto> FsString (cq_IdempotencyKey req), ''userId'' \<mapsto> FsString (cq_UserID req),
     ''resource'' \<mapsto> FsString (cq_Resource req), ''amount'' \<mapsto> FsInt (cq_Amount req),
     ''periodStart'' \<mapsto> FsTime (p_Start (cq_Period req)), ''periodEnd'' \<mapsto> FsTime (p_End (cq_Period req)),
     ''periodType'' \<mapsto> FsString (period_type_text (p_Type (cq_Period req))), ''timestamp'' \<mapsto> FsTime now,
     ''idempotencyKey'' \<mapsto> FsString (cq_IdempotencyKey req), ''newUsed'' \<mapsto> FsInt newUsed,
     ''expiresAt'' \<mapsto> FsTime (fs_record_expiry now (cq_IdempotencyKeyTTL req))]"

definition fs_usage_data :: "time \<Rightarrow> ConsumeRequest \<Rightarrow> goint \<Rightarrow> goint \<Rightarrow> FsDoc" where
  "fs_usage_data now req newUsed currentLimit = [
     ''used'' \<mapsto> FsInt newUsed, ''limit'' \<mapsto> FsInt currentLimit, ''cycleStart'' \<mapsto> FsTime (p_Start (cq_Period req)),
     ''cycleEnd'' \<mapsto> FsTime (p_End (cq_Period req)), ''tier'' \<mapsto> FsString (cq_Tier req),
     ''resource'' \<mapsto> FsString (cq_Resource req), ''updatedAt'' \<mapsto> FsTime now]"

text \<open>The usage and the limit a request is checked against; a failed read counts as no usage.\<close>

definition fs_current :: "goint \<Rightarrow> FsReply \<Rightarrow> goint \<times> goint" where
  "fs_current lmt snap = (case snap of
     FsFound data \<Rightarrow> (fs_getInt data ''used'',
       if fs_getInt data ''limit'' > 0 then fs_getInt data ''limit'' else lmt)
   | _ \<Rightarrow> (0, lmt))"

definition fs_charge :: "FsConfig \<Rightarrow> time \<Rightarrow> ConsumeRequest \<Rightarrow> FsTx" where
  "fs_charge c now req =
     (let doc = fs_usageDoc c (cq_UserID req) (cq_Resource req) (cq_Period req) in
      TxGet doc (\<lambda>snap.
        let (currentUsed, currentLimit) = fs_current (cq_Limit req) snap;
            newUsed = iadd currentUsed (cq_Amount req);
            assign = fv_newUsed_update (\<lambda>_. newUsed)
        in if currentLimit \<noteq> -1 \<and> newUsed > currentLimit then TxReturn assign (Some ErrQuotaExceeded)
           else tx_then (WSet doc (fs_usage_data now req newUsed currentLimit) True) assign
             (if cq_IdempotencyKey req = '''' then TxReturn assign None
              else tx_then (WCreate (fs_consumptionDoc c (cq_IdempotencyKey req)) (fs_consumption_data now req newUsed))
                assign (TxReturn assign None))))"

definition fs_consume_tx :: "FsConfig \<Rightarrow> time \<Rightarrow> ConsumeRequest \<Rightarrow> FsTx" where
  "fs_consume_tx c now req =
     (if cq_IdempotencyKey req = '''' then fs_charge c now req
      else TxGet (fs_consumptionDoc c (cq_IdempotencyKey req)) (\<lambda>snap. case snap of
        FsFailed err \<Rightarrow> TxReturn id (Some err)
      | FsFound data \<Rightarrow> TxReturn (fv_newUsed_update (\<lambda>_. fs_getInt data ''newUsed'')) None
      | FsNotFound \<Rightarrow> fs_charge c now req))"

definition fs_ConsumeQuota :: "'s FsClient \<Rightarrow> FsConfig \<Rightarrow> time \<Rightarrow> ConsumeRequest \<Rightarrow> ('s, goint \<times> goerr option) state" where
  "fs_ConsumeQuota C c now req =
     (if cq_Amount req < 0 then State_Monad.return (0, Some ErrInvalidAmount)
      else if cq_Amount req = 0 then State_Monad.return (0, None)
      else do {
        (vars, err) \<leftarrow> State (fc_RunTransaction C (fs_consume_tx c now req));
        State_Monad.return (fv_newUsed vars, err)
      })"

text \<open>The document is always that of the resource \<open>audio_seconds\<close>.\<close>

definition fs_tier_tx :: "FsConfig \<Rightarrow> time \<Rightarrow> TierChangeRequest \<Rightarrow> FsTx" where
  "fs_tier_tx c now req =
     (let doc = fs_usageDoc c (tq_UserID req) ''audio_seconds'' (tq_Period req) in
      TxGet doc (\<lambda>snap.
        let currentUsed = (case snap of FsFound data \<Rightarrow> fs_getInt data ''used'' | _ \<Rightarrow> tq_CurrentUsed req)
        in TxWrite (WSet doc [
             ''limit'' \<mapsto> FsInt (tq_NewLimit req), ''used'' \<mapsto> FsInt currentUsed,
             ''cycleStart'' \<mapsto> FsTime (p_Start (tq_Period req)), ''cycleEnd'' \<mapsto> FsTime (p_End (tq_Period req)),
             ''tier'' \<mapsto> FsString (tq_NewTier req), ''previousTier'' \<mapsto> FsString (tq_OldTier req),
             ''tierChangedAt'' \<mapsto> FsTime now, ''resource'' \<mapsto> FsString ''audio_seconds'', ''updatedAt'' \<mapsto> FsTime now] True)
           (TxReturn id)))"

definition fs_ApplyTierChange :: "'s FsClient \<Rightarrow> FsConfig \<Rightarrow> time \<Rightarrow> TierChangeRequest \<Rightarrow> ('s, goerr option) state" where
  "fs_ApplyTierChange C c now req = do {
     (_, err) \<leftarrow> State (fc_RunTransaction C (fs_tier_tx c now req));
     State_Monad.return err
   }"

section \<open>Refunds\<close>

definition fs_refund_data :: "time \<Rightarrow> RefundRequest \<Rightarrow> Period \<Rightarrow> FsDoc" where
  "fs_refund_data now req period = [
     ''refundId'' \<mapsto> FsString (rr_IdempotencyKey req), ''userId'' \<mapsto> FsString (rr_UserID req),
     ''resource'' \<mapsto> FsString (rr_Resource req), ''amount'' \<mapsto> FsInt (rr_Amount req),
     ''periodStart'' \<mapsto> FsTime (p_Start period), ''periodEnd'' \<mapsto> FsTime (p_End period),
     ''periodType'' \<mapsto> FsString (period_type_text (rr_PeriodType req)), ''timestamp'' \<mapsto> FsTime now,
     ''idempotencyKey'' \<mapsto> FsString (rr_IdempotencyKey req), ''reason'' \<mapsto> FsString (rr_Reason req),
     ''metadata'' \<mapsto> FsMap (map (\<lambda>(k, v). (k, FsString v)) (rr_Metadata req)),
     ''expiresAt'' \<mapsto> FsTime (fs_record_expiry now (rr_IdempotencyKeyTTL req))]"

definition createRefundRecord :: "FsConfig \<Rightarrow> time \<Rightarrow> RefundRequest \<Rightarrow> Period \<Rightarrow> FsTx" where
  "createRefundRecord c now req period =
     (if rr_IdempotencyKey req = '''' then TxReturn id None
      else TxWrite (WSet (fs_refundDoc c (rr_IdempotencyKey req)) (fs_refund_data now req period) True) (TxReturn id))"

definition updateRefundUsage :: "FsConfig \<Rightarrow> time \<Rightarrow> RefundRequest \<Rightarrow> Period \<Rightarrow> FsTx \<Rightarrow> FsTx" where
  "updateRefundUsage c now req period k =
     (let doc = fs_usageDoc c (rr_UserID req) (rr_Resource req) period in
      TxGet doc (\<lambda>snap. case snap of
        FsNotFound \<Rightarrow> k
      | FsFailed err \<Rightarrow> TxReturn id (Some err)
      | FsFound data \<Rightarrow>
          let newUsed = isub (fs_getInt data ''used'') (rr_Amount req);
              newUsed = (if newUsed < 0 then 0 else newUsed)
          in tx_then (WSet doc [''used'' \<mapsto> FsInt newUsed, ''updatedAt'' \<mapsto> FsTime now] True) id k))"

text \<open>A read of the record of a key: an error ends the function, as does \<open>hit\<close> if there is a record.\<close>

definition checkIdempotency :: "string \<Rightarrow> FsPath \<Rightarrow> goerr option \<Rightarrow> FsTx \<Rightarrow> FsTx" where
  "checkIdempotency key doc hit k =
     (if key = '''' then k
      else TxGet doc (\<lambda>snap. case snap of
        FsFailed err \<Rightarrow> TxReturn id (Some err)
      | FsFound _ \<Rightarrow> TxReturn id hit
      | FsNotFound \<Rightarrow> k))"

text \<open>The period is found as in the in-memory backend, which fails where \<open>calculateRefundPeriod\<close> returns an
  empty one. A period whose type is empty cannot be refunded.\<close>

definition fs_refund_period :: "time \<Rightarrow> RefundRequest \<Rightarrow> goerr + Period" where
  "fs_refund_period now req = (case mem_refund_period now req of
     Inl err \<Rightarrow> Inl err
   | Inr period \<Rightarrow> if p_Type period = PeriodTypeOther '''' then Inl ErrInvalidPeriod else Inr period)"

definition fs_refund_tx :: "FsConfig \<Rightarrow> time \<Rightarrow> RefundRequest \<Rightarrow> FsTx" where
  "fs_refund_tx c now req =
     checkIdempotency (rr_IdempotencyKey req) (fs_refundDoc c (rr_IdempotencyKey req)) None
       (case fs_refund_period now req of
          Inl err \<Rightarrow> TxReturn id (Some err)
        | Inr period \<Rightarrow> updateRefundUsage c now req period (createRefundRecord c now req period))"

definition fs_RefundQuota :: "'s FsClient \<Rightarrow> FsConfig \<Rightarrow> time \<Rightarrow> RefundRequest \<Rightarrow> ('s, goerr option) state" where
  "fs_RefundQuota C c now req =
     (if rr_Amount req < 0 then State_Monad.return (Some ErrInvalidAmount)
      else if rr_Amount req = 0 then State_Monad.return None
      else do {
        (_, err) \<leftarrow> State (fc_RunTransaction C (fs_refund_tx c now req));
        State_Monad.return err
      })"

section \<open>Records by key\<close>

definition fs_record_period :: "FsDoc \<Rightarrow> Period" where
  "fs_record_period data = \<lparr>p_Start = fs_getTime data ''periodStart'', p_End = fs_getTime data ''periodEnd'',
     p_Type = (if fs_getString data ''periodType'' = ''daily'' then PeriodTypeDaily else PeriodTypeMonthly)\<rparr>"

definition fs_metadata :: "FsDoc \<Rightarrow> (string \<times> string) list" where
  "fs_metadata data = (case data ''metadata'' of
     Some (FsMap m) \<Rightarrow> List.map_filter (\<lambda>(k, v). case v of FsString s \<Rightarrow> Some (k, s) | _ \<Rightarrow> None) m
   | _ \<Rightarrow> [])"

definition fs_GetRefundRecord :: "'s FsClient \<Rightarrow> FsConfig \<Rightarrow> time \<Rightarrow> string \<Rightarrow> ('s, goerr + RefundRecord option) state" where
  "fs_GetRefundRecord C c now idempotencyKey =
     (if idempotencyKey = '''' then State_Monad.return (Inr None)
      else do {
        snap \<leftarrow> State (fc_Get C (fs_refundDoc c idempotencyKey));
        State_Monad.return (case snap of
          FsNotFound \<Rightarrow> Inr None
        | FsFailed err \<Rightarrow> Inl (Wrapped ''failed to get refund record'' err)
        | FsFound data \<Rightarrow> Inr (Some \<lparr>rf_RefundID = fs_getString data ''refundId'', rf_UserID = fs_getString data ''userId'',
            rf_Resource = fs_getString data ''resource'', rf_Amount = fs_getInt data ''amount'',
            rf_Period = fs_record_period data, rf_Timestamp = fs_getTime data ''timestamp'',
            rf_IdempotencyKey = fs_getString data ''idempotencyKey'', rf_Reason = fs_getString data ''reason'',
            rf_Metadata = fs_metadata data\<rparr>))
      })"

definition fs_GetConsumptionRecord :: "'s FsClient \<Rightarrow> FsConfig \<Rightarrow> time \<Rightarrow> string
    \<Rightarrow> ('s, goerr + ConsumptionRecord option) state" where
  "fs_GetConsumptionRecord C c now idempotencyKey =
     (if idempotencyKey = '''' then State_Monad.return (Inr None)
      else do {
        snap \<leftarrow> State (fc_Get C (fs_consumptionDoc c idempotencyKey));
        State_Monad.return (case snap of
          FsNotFound \<Rightarrow> Inr None
        | FsFailed err \<Rightarrow> Inl (Wrapped ''failed to get consumption record'' err)
        | FsFound data \<Rightarrow> Inr (Some \<lparr>cn_ConsumptionID = fs_getString data ''consumptionId'',
            cn_UserID = fs_getString data ''userId'', cn_Resource = fs_getString data ''resource'',
            cn_Amount = fs_getInt data ''amount'', cn_Period = fs_record_period data,
            cn_Timestamp = fs_getTime data ''timestamp'', cn_IdempotencyKey = fs_getString data ''idempotencyKey'',
            cn_NewUsed = fs_getInt data ''newUsed'', cn_Metadata = fs_metadata data\<rparr>))
      })"

section \<open>Rate limits\<close>

definition fs_rate_vars :: "bool \<Rightarrow> goint \<Rightarrow> time \<Rightarrow> FsVars \<Rightarrow> FsVars" where
  "fs_rate_vars allowed remaining resetTime v =
     v\<lparr>fv_allowed := allowed, fv_remaining := remaining, fv_resetTime := resetTime\<rparr>"

definition fs_intMin :: "goint \<Rightarrow> goint \<Rightarrow> goint" where
  "fs_intMin a b = (if a < b then a else b)"

text \<open>The tokens and the last refill of a document, refilled for the time since.\<close>

definition fs_refill :: "RateLimitRequest \<Rightarrow> goint \<Rightarrow> FsReply \<Rightarrow> goint \<times> time" where
  "fs_refill req burst snap =
     (let (tokens, lastRefill) = (case snap of
            FsFound data \<Rightarrow> (fs_getInt data ''tokens'',
              if fs_getTime data ''lastRefill'' = zero_time then rq_Now req else fs_getTime data ''lastRefill'')
          | _ \<Rightarrow> (burst, rq_Now req));
          elapsed = time_Sub (rq_Now req) lastRefill;
          tokensToAdd = f_to_int (f_div (f_mul (f_of_int (rq_Rate req)) (duration_Seconds elapsed))
                          (duration_Seconds (rq_Window req)))
      in if elapsed > 0 \<and> tokensToAdd > 0 then (fs_intMin (iadd tokens tokensToAdd) burst, rq_Now req)
         else (tokens, lastRefill))"

definition fs_bucket_data :: "time \<Rightarrow> goint \<Rightarrow> time \<Rightarrow> FsDoc" where
  "fs_bucket_data now tokens lastRefill =
     [''tokens'' \<mapsto> FsInt tokens, ''lastRefill'' \<mapsto> FsTime lastRefill, ''updatedAt'' \<mapsto> FsTime now]"

definition fs_checkTokenBucket :: "time \<Rightarrow> FsPath \<Rightarrow> FsReply \<Rightarrow> RateLimitRequest \<Rightarrow> FsTx" where
  "fs_checkTokenBucket now doc snap req =
     (let burst = (if rq_Burst req \<le> 0 then rq_Rate req else rq_Burst req);
          (tokens, lastRefill) = fs_refill req burst snap;
          update = (\<lambda>tokens f. TxWrite (WSet doc (fs_bucket_data now tokens lastRefill) True) (TxReturn f));
          panic = TxReturn id (Some (GoPanic ''integer divide by zero''))
      in if tokens \<le> 0 then
           (if rq_Rate req = 0 then panic
            else update tokens (fs_rate_vars False 0 (time_Add lastRefill (iquot (rq_Window req) (rq_Rate req)))))
         else
           let tokens = isub tokens 1;
               tokensNeeded = isub burst tokens
           in if tokens < burst then
                (if rq_Rate req = 0 then panic
                 else update tokens (fs_rate_vars True tokens
                   (time_Add (rq_Now req) (iquot (wrap64 (tokensNeeded * rq_Window req)) (rq_Rate req)))))
              else update tokens (fs_rate_vars True tokens (time_Add (rq_Now req) (rq_Window req))))"

text \<open>The times of the documents a query returned, and the first of them.\<close>

definition fs_timestamps :: "FsDoc list \<Rightarrow> time list" where
  "fs_timestamps ds = List.map_filter (\<lambda>d. case d ''timestamp'' of Some (FsTime t) \<Rightarrow> Some t | _ \<Rightarrow> None) ds"

definition fs_oldest :: "time list \<Rightarrow> time" where
  "fs_oldest ts = fold (\<lambda>t oldest. if oldest = zero_time \<or> t < oldest then t else oldest) ts zero_time"

definition fs_timestampsRef :: "FsPath \<Rightarrow> FsPath" where
  "fs_timestampsRef doc = doc @ [''timestamps'']"

definition fs_checkSlidingWindow :: "FsPath \<Rightarrow> RateLimitRequest \<Rightarrow> FsTx" where
  "fs_checkSlidingWindow doc req =
     (let timestampsRef = fs_timestampsRef doc; cutoff = time_Add (rq_Now req) (wrap64 (- rq_Window req)) in
      TxQuery timestampsRef ''timestamp'' cutoff (iadd (rq_Rate req) 1) (\<lambda>docs.
        let timestamps = fs_timestamps docs; count = int (length timestamps); oldestTime = fs_oldest timestamps;
            resetTime = time_Add (if oldestTime \<noteq> zero_time then oldestTime else rq_Now req) (rq_Window req)
        in if count \<ge> rq_Rate req then TxReturn (fs_rate_vars False 0 resetTime) None
           else TxNewDoc timestampsRef (\<lambda>timestampDoc.
             TxWrite (WSet timestampDoc [''timestamp'' \<mapsto> FsTime (rq_Now req)] False) (\<lambda>err. case err of
               Some e \<Rightarrow> TxReturn id (Some (Wrapped ''failed to record timestamp'' e))
             | None \<Rightarrow> TxReturn (fs_rate_vars True (isub (isub (rq_Rate req) count) 1) resetTime) None))))"

definition fs_rate_tx :: "time \<Rightarrow> RateLimitRequest \<Rightarrow> FsTx" where
  "fs_rate_tx now req =
     (let doc = fs_rateLimitDoc (rq_UserID req) (rq_Resource req) in
      TxGet doc (\<lambda>snap. case snap of
        FsFailed err \<Rightarrow> TxReturn id (Some err)
      | _ \<Rightarrow>
          if rq_Algorithm req = ''token_bucket'' then fs_checkTokenBucket now doc snap req
          else if rq_Algorithm req = ''sliding_window'' then fs_checkSlidingWindow doc req
          else TxReturn id (Some (ErrText (''unknown rate limit algorithm: '' @ rq_Algorithm req)))))"

definition fs_CheckRateLimit :: "'s FsClient \<Rightarrow> time \<Rightarrow> RateLimitRequest \<Rightarrow> ('s, goerr + bool \<times> goint \<times> time) state" where
  "fs_CheckRateLimit C now req = do {
     (vars, err) \<leftarrow> State (fc_RunTransaction C (fs_rate_tx now req));
     State_Monad.return (case err of
       Some e \<Rightarrow> Inl (if is_panic e then e else Wrapped ''failed to check rate limit'' e)
     | None \<Rightarrow> Inr (fv_allowed vars, fv_remaining vars, fv_resetTime vars))
   }"

definition fs_RecordRateLimitRequest :: "time \<Rightarrow> RateLimitRequest \<Rightarrow> ('s, goerr option) state" where
  "fs_RecordRateLimitRequest now req = State_Monad.return None"

section \<open>Credit limits\<close>

text \<open>The limit and the usage of a reply.\<close>

definition fs_limit_used :: "FsReply \<Rightarrow> goint \<times> goint" where
  "fs_limit_used snap = (case snap of
     FsFound data \<Rightarrow> (fs_getInt data ''limit'', fs_getInt data ''used'') | _ \<Rightarrow> (0, 0))"

definition fs_record_if :: "string \<Rightarrow> FsPath \<Rightarrow> FsDoc \<Rightarrow> FsTx" where
  "fs_record_if key doc data =
     (if key = '''' then TxReturn id None else TxWrite (WSet doc data False) (TxReturn id))"

definition fs_add_tx :: "FsConfig \<Rightarrow> time \<Rightarrow> string \<Rightarrow> string \<Rightarrow> goint \<Rightarrow> Period \<Rightarrow> string \<Rightarrow> FsTx" where
  "fs_add_tx c now userID resource amount period idempotencyKey =
     (let doc = fs_usageDoc c userID resource period; topUpDoc = fs_topUpDoc idempotencyKey in
      checkIdempotency idempotencyKey topUpDoc (Some ErrIdempotencyKeyExists) (TxGet doc (\<lambda>snap.
        let (currentLimit, currentUsed) = fs_limit_used snap;
            newLimit = iadd currentLimit amount
        in tx_then (WSet doc (fs_end_unless_forever ''cycleEnd'' period [
             ''limit'' \<mapsto> FsInt newLimit, ''used'' \<mapsto> FsInt currentUsed, ''cycleStart'' \<mapsto> FsTime (p_Start period),
             ''tier'' \<mapsto> FsString ''default'', ''resource'' \<mapsto> FsString resource, ''updatedAt'' \<mapsto> FsTime now]) True) id
           (fs_record_if idempotencyKey topUpDoc (fs_end_unless_forever ''periodEnd'' period [
             ''userId'' \<mapsto> FsString userID, ''resource'' \<mapsto> FsString resource, ''amount'' \<mapsto> FsInt amount,
             ''periodStart'' \<mapsto> FsTime (p_Start period), ''periodType'' \<mapsto> FsString (period_type_text (p_Type period)),
             ''createdAt'' \<mapsto> FsTime now])))))"

definition fs_AddLimit :: "'s FsClient \<Rightarrow> FsConfig \<Rightarrow> time \<Rightarrow> string \<Rightarrow> string \<Rightarrow> goint \<Rightarrow> Period \<Rightarrow> string
    \<Rightarrow> ('s, goerr option) state" where
  "fs_AddLimit C c now userID resource amount period idempotencyKey = do {
     (_, err) \<leftarrow> State (fc_RunTransaction C (fs_add_tx c now userID resource amount period idempotencyKey));
     State_Monad.return err
   }"

definition fs_subtract_tx :: "FsConfig \<Rightarrow> time \<Rightarrow> string \<Rightarrow> string \<Rightarrow> goint \<Rightarrow> Period \<Rightarrow> string \<Rightarrow> FsTx" where
  "fs_subtract_tx c now userID resource amount period idempotencyKey =
     (let doc = fs_usageDoc c userID resource period; refundDoc = fs_refundDoc c idempotencyKey in
      checkIdempotency idempotencyKey refundDoc (Some ErrIdempotencyKeyExists) (TxGet doc (\<lambda>snap. case snap of
        FsFailed err \<Rightarrow> TxReturn id (Some err)
      | _ \<Rightarrow>
        let (currentLimit, currentUsed) = fs_limit_used snap;
            newLimit = isub currentLimit amount;
            newLimit = (if newLimit < 0 then 0 else newLimit)
        in tx_then (WSet doc [''limit'' \<mapsto> FsInt newLimit, ''used'' \<mapsto> FsInt currentUsed, ''updatedAt'' \<mapsto> FsTime now] True) id
           (fs_record_if idempotencyKey refundDoc (fs_end_unless_forever ''periodEnd'' period [
             ''refundId'' \<mapsto> FsString idempotencyKey, ''userId'' \<mapsto> FsString userID, ''resource'' \<mapsto> FsString resource,
             ''amount'' \<mapsto> FsInt amount, ''periodStart'' \<mapsto> FsTime (p_Start period),
             ''periodType'' \<mapsto> FsString (period_type_text (p_Type period)), ''timestamp'' \<mapsto> FsTime now])))))"

definition fs_SubtractLimit :: "'s FsClient \<Rightarrow> FsConfig \<Rightarrow> time \<Rightarrow> string \<Rightarrow> string \<Rightarrow> goint \<Rightarrow> Period \<Rightarrow> string
    \<Rightarrow> ('s, goerr option) state" where
  "fs_SubtractLimit C c now userID resource amount period idempotencyKey = do {
     (_, err) \<leftarrow> State (fc_RunTransaction C (fs_subtract_tx c now userID resource amount period idempotencyKey));
     State_Monad.return err
   }"

section \<open>The method table\<close>

definition firestore_storage :: "'s FsClient \<Rightarrow> FsConfig \<Rightarrow> 's Storage" where
  "firestore_storage C c = \<lparr>
     st_GetEntitlement = (\<lambda>now u. run_state (fs_GetEntitlement C c now u)),
     st_SetEntitlement = (\<lambda>now ent. run_state (fs_SetEntitlement C c now ent)),
     st_GetUsage = (\<lambda>now u r p. run_state (fs_GetUsage C c now u r p)),
     st_ConsumeQuota = (\<lambda>now q. run_state (fs_ConsumeQuota C c now q)),
     st_ApplyTierChange = (\<lambda>now q. run_state (fs_ApplyTierChange C c now q)),
     st_SetUsage = (\<lambda>now u r usage p. run_state (fs_SetUsage C c now u r usage p)),
     st_RefundQuota = (\<lambda>now q. run_state (fs_RefundQuota C c now q)),
     st_GetRefundRecord = (\<lambda>now key. run_state (fs_GetRefundRecord C c now key)),
     st_GetConsumptionRecord = (\<lambda>now key. run_state (fs_GetConsumptionRecord C c now key)),
     st_CheckRateLimit = (\<lambda>now q. run_state (fs_CheckRateLimit C now q)),
     st_RecordRateLimitRequest = (\<lambda>now q. run_state (fs_RecordRateLimitRequest now q)),
     st_AddLimit = (\<lambda>now u r n p key. run_state (fs_AddLimit C c now u r n p key)),
     st_SubtractLimit = (\<lambda>now u r n p key. run_state (fs_SubtractLimit C c now u r n p key)),
     st_Now = Some (\<lambda>now. run_state (fs_Now C now)),
     st_LogAuditEntry = None, st_GetAuditLogs = None\<rparr>"

end
