(* ===== verification/FirestoreProps.thy ===== *)
theory FirestoreProps
  imports FirestoreStorage
begin

text \<open>
  What the Firestore backend promises over any client that keeps its contract (\<open>firestore_client\<close>): its
  transactions read before they write, consumptions, refunds and credit limits refine the ledger, and
  where the backend leaves the contract. A lemma computes the function of a transaction on given
  documents; the law \<open>transaction\<close> carries the result over to the client.
\<close>

section \<open>Reads before writes\<close>

lemma no_reads_then [simp]: "tx_no_reads (tx_then w f k) \<longleftrightarrow> tx_no_reads k"
  by (auto simp: tx_then_def split: option.splits)

lemma reads_first_then [simp]: "tx_reads_first (tx_then w f k) \<longleftrightarrow> tx_no_reads k"
  by (auto simp: tx_then_def split: option.splits)

lemma no_reads_record_if [simp]: "tx_no_reads (fs_record_if key doc data)" "tx_no_reads (createRefundRecord c now q p)"
  by (simp_all add: fs_record_if_def createRefundRecord_def)

lemma no_reads_first: "tx_no_reads k \<Longrightarrow> tx_reads_first k"
  by (induction k) auto

lemma reads_first_check [simp]: "tx_reads_first k \<Longrightarrow> tx_reads_first (checkIdempotency key doc hit k)"
  by (auto simp: checkIdempotency_def split: FsReply.splits)

lemma reads_first_refund [simp]: "tx_no_reads k \<Longrightarrow> tx_reads_first (updateRefundUsage c now q p k)"
  by (auto simp: updateRefundUsage_def Let_def no_reads_first split: FsReply.splits)

lemma reads_first_consume: "tx_reads_first (fs_consume_tx c now q)"
  by (auto simp: fs_consume_tx_def fs_charge_def Let_def case_prod_unfold split: FsReply.splits)

lemma reads_first_refund_tx: "tx_reads_first (fs_refund_tx c now r)"
  unfolding fs_refund_tx_def by (rule reads_first_check) (simp split: sum.splits)

lemma reads_first_tier: "tx_reads_first (fs_tier_tx c now t)"
  by (simp add: fs_tier_tx_def Let_def)

lemma reads_first_limits: "tx_reads_first (fs_add_tx c now u rs n p key)" "tx_reads_first (fs_subtract_tx c now u rs n p key)"
  by (auto simp: fs_add_tx_def fs_subtract_tx_def Let_def case_prod_unfold split: FsReply.splits)

lemma reads_first_rate: "tx_reads_first (fs_rate_tx now l)"
  by (auto simp: fs_rate_tx_def fs_checkTokenBucket_def fs_checkSlidingWindow_def Let_def case_prod_unfold
      split: FsReply.splits option.splits)

lemmas reads_first = reads_first_consume reads_first_refund_tx reads_first_tier reads_first_limits reads_first_rate

section \<open>Transactions on given documents\<close>

lemma run_then [simp]:
  "tx_run g qs new (tx_then w f k) = (let (rs, ws, x) = tx_run g qs new k in (rs, w # ws, x))"
  by (simp add: tx_then_def)

lemma snapshot_simps [simp]: "D p = None \<Longrightarrow> fs_snapshot D p = FsNotFound" "D p = Some d \<Longrightarrow> fs_snapshot D p = FsFound d"
  by (simp_all add: fs_snapshot_def)

definition fs_bucket :: "FsConfig \<Rightarrow> ConsumeRequest \<Rightarrow> FsPath" where
  "fs_bucket c q = fs_usageDoc c (cq_UserID q) (cq_Resource q) (cq_Period q)"

text \<open>The ledger of the documents; usage documents have paths of four parts.\<close>

definition fs_ledger :: "FsConfig \<Rightarrow> FsDocs \<Rightarrow> FsPath ledger" where
  "fs_ledger c D = \<lparr>
     lg_acct = (\<lambda>p. if length p = 4 then map_option (\<lambda>d. (fs_getInt d ''used'', fs_getInt d ''limit'')) (D p) else None),
     lg_done = (\<lambda>key. map_option (\<lambda>d. fs_getInt d ''newUsed'') (D (fs_consumptionDoc c key))),
     lg_refunds = (\<lambda>key. D (fs_refundDoc c key) \<noteq> None),
     lg_topUps = (\<lambda>key. D (fs_topUpDoc key) \<noteq> None)\<rparr>"

definition separate_collections :: "FsConfig \<Rightarrow> bool" where
  "separate_collections c \<longleftrightarrow> fs_ConsumptionsCollection c \<noteq> fs_RefundsCollection c
     \<and> fs_ConsumptionsCollection c \<noteq> ''top_up_records'' \<and> fs_RefundsCollection c \<noteq> ''top_up_records''"

lemma doc_paths [simp]:
  "length (fs_usageDoc c u r p) = 4" "fs_usageDoc c u r p \<noteq> fs_consumptionDoc c k" "fs_usageDoc c u r p \<noteq> fs_refundDoc c k"
  "fs_usageDoc c u r p \<noteq> fs_topUpDoc k" "fs_consumptionDoc c k = fs_consumptionDoc c k' \<longleftrightarrow> k = k'"
  "fs_refundDoc c k = fs_refundDoc c k' \<longleftrightarrow> k = k'" "fs_topUpDoc k = fs_topUpDoc k' \<longleftrightarrow> k = k'"
  "length (fs_consumptionDoc c k) = 2" "length (fs_refundDoc c k) = 2" "length (fs_topUpDoc k) = 2"
  "length (fs_bucket c q) = 4" "fs_bucket c q \<noteq> fs_consumptionDoc c k" "fs_bucket c q \<noteq> fs_refundDoc c k"
  "fs_bucket c q \<noteq> fs_topUpDoc k"
  by (simp_all add: fs_usageDoc_def fs_consumptionDoc_def fs_refundDoc_def fs_topUpDoc_def fs_bucket_def)

lemmas doc_paths' [simp] = doc_paths(2,3,4,12,13,14) [symmetric]

lemma separate_paths: "separate_collections c \<Longrightarrow> fs_consumptionDoc c k \<noteq> fs_refundDoc c k'
    \<and> fs_consumptionDoc c k \<noteq> fs_topUpDoc k' \<and> fs_refundDoc c k \<noteq> fs_topUpDoc k'
    \<and> fs_refundDoc c k' \<noteq> fs_consumptionDoc c k \<and> fs_topUpDoc k' \<noteq> fs_consumptionDoc c k
    \<and> fs_topUpDoc k' \<noteq> fs_refundDoc c k"
  by (auto simp: separate_collections_def fs_consumptionDoc_def fs_refundDoc_def fs_topUpDoc_def)

text \<open>Integers of a document that was merged into another.\<close>

lemma getInt_stored:
  "fs_getInt (fs_stored_doc now d) f = fs_getInt d f"
  "fs_getInt (old ++ fs_stored_doc now d) f = (if d f = None then fs_getInt old f else fs_getInt d f)"
proof -
  have v: "(case fs_stored now v of FsInt n \<Rightarrow> n | FsFloat x \<Rightarrow> f_to_int (Some (f_round x)) | _ \<Rightarrow> 0)
      = (case v of FsInt n \<Rightarrow> n | FsFloat x \<Rightarrow> f_to_int (Some (f_round x)) | _ \<Rightarrow> 0)" for v
    by (cases v) simp_all
  show "fs_getInt (fs_stored_doc now d) f = fs_getInt d f"
    by (simp add: fs_getInt_def fs_stored_doc_def v split: option.split)
  show "fs_getInt (old ++ fs_stored_doc now d) f = (if d f = None then fs_getInt old f else fs_getInt d f)"
    by (simp add: fs_getInt_def fs_stored_doc_def map_add_def v split: option.split)
qed

text \<open>The effect of a write on the ledger.\<close>

lemma ledger_write_usage:
  assumes "length p = 4"
  shows "fs_ledger c (fs_write now (WSet p d True) D) = (fs_ledger c D)\<lparr>lg_acct := (lg_acct (fs_ledger c D))(p \<mapsto>
    (if d ''used'' = None then (case D p of Some old \<Rightarrow> fs_getInt old ''used'' | None \<Rightarrow> 0) else fs_getInt d ''used'',
     if d ''limit'' = None then (case D p of Some old \<Rightarrow> fs_getInt old ''limit'' | None \<Rightarrow> 0) else fs_getInt d ''limit''))\<rparr>"
proof -
  have "fs_consumptionDoc c k \<noteq> p" "fs_refundDoc c k \<noteq> p" "fs_topUpDoc k \<noteq> p" for k
    using assms by (auto simp: fs_consumptionDoc_def fs_refundDoc_def fs_topUpDoc_def)
  moreover have "fs_getInt d f = 0" if "d f = None" for f using that by (simp add: fs_getInt_def)
  ultimately show ?thesis
    using assms by (auto simp: fs_ledger_def fun_eq_iff getInt_stored split: option.splits)
qed

lemma ledger_create_consumption:
  assumes "separate_collections c"
  shows "fs_ledger c (fs_write now (WCreate (fs_consumptionDoc c key) d) D) = (fs_ledger c D)
    \<lparr>lg_done := (lg_done (fs_ledger c D))(key \<mapsto> fs_getInt d ''newUsed'')\<rparr>"
  using separate_paths [OF assms] by (auto simp: fs_ledger_def fun_eq_iff getInt_stored)

lemma ledger_write_refund:
  assumes "separate_collections c"
  shows "fs_ledger c (fs_write now (WSet (fs_refundDoc c key) d m) D) = (fs_ledger c D)
    \<lparr>lg_refunds := (\<lambda>k. lg_refunds (fs_ledger c D) k \<or> k = key)\<rparr>"
  using separate_paths [OF assms] by (auto simp: fs_ledger_def fun_eq_iff)

lemma ledger_write_topUp:
  assumes "separate_collections c"
  shows "fs_ledger c (fs_write now (WSet (fs_topUpDoc key) d m) D) = (fs_ledger c D)
    \<lparr>lg_topUps := (\<lambda>k. lg_topUps (fs_ledger c D) k \<or> k = key)\<rparr>"
  using separate_paths [OF assms] by (auto simp: fs_ledger_def fun_eq_iff)

lemmas ledger_writes = ledger_write_usage ledger_create_consumption ledger_write_refund ledger_write_topUp

section \<open>Consumption\<close>

text \<open>Identifiers, texts and times of a request within the limits of the service.\<close>

definition fs_fits :: "FsConfig \<Rightarrow> time \<Rightarrow> ConsumeRequest \<Rightarrow> bool" where
  "fs_fits c now q \<longleftrightarrow> valid_path (fs_bucket c q)
     \<and> (cq_IdempotencyKey q = '''' \<or> valid_path (fs_consumptionDoc c (cq_IdempotencyKey q)))
     \<and> (\<forall>x \<in> {cq_UserID q, cq_Resource q, cq_IdempotencyKey q, cq_Tier q, period_type_text (p_Type (cq_Period q))}. valid_text x)
     \<and> (\<forall>t \<in> {p_Start (cq_Period q), p_End (cq_Period q), now, fs_record_expiry now (cq_IdempotencyKeyTTL q)}. valid_time t)"

lemma fits_docs:
  assumes "fs_fits c now q"
  shows "valid_doc (fs_usage_data now q n l)" "valid_doc (fs_consumption_data now q n)" "fs_plain D p (fs_usage_data now q n l)"
  using assms
  by (simp_all add: fs_fits_def fs_usage_data_def fs_consumption_data_def)

definition fs_stored_used :: "FsDocs \<Rightarrow> FsPath \<Rightarrow> goint" where
  "fs_stored_used D p = (case D p of Some d \<Rightarrow> fs_getInt d ''used'' | None \<Rightarrow> 0)"

text \<open>The limit stored with the usage counts if it is positive.\<close>

definition fs_limit_for :: "FsDocs \<Rightarrow> FsPath \<Rightarrow> goint \<Rightarrow> goint" where
  "fs_limit_for D p lmt = (case D p of
     Some d \<Rightarrow> if fs_getInt d ''limit'' > 0 then fs_getInt d ''limit'' else lmt | None \<Rightarrow> lmt)"

lemma current_snapshot: "fs_current lmt (fs_snapshot D p) = (fs_stored_used D p, fs_limit_for D p lmt)"
  by (simp add: fs_current_def fs_snapshot_def fs_stored_used_def fs_limit_for_def split: option.split)

definition fs_known :: "FsConfig \<Rightarrow> FsDocs \<Rightarrow> ConsumeRequest \<Rightarrow> FsDoc option" where
  "fs_known c D q = (if cq_IdempotencyKey q = '''' then None else D (fs_consumptionDoc c (cq_IdempotencyKey q)))"

definition fs_over :: "FsConfig \<Rightarrow> FsDocs \<Rightarrow> ConsumeRequest \<Rightarrow> bool" where
  "fs_over c D q \<longleftrightarrow> fs_limit_for D (fs_bucket c q) (cq_Limit q) \<noteq> -1
     \<and> iadd (fs_stored_used D (fs_bucket c q)) (cq_Amount q) > fs_limit_for D (fs_bucket c q) (cq_Limit q)"

definition fs_charge_writes :: "FsConfig \<Rightarrow> time \<Rightarrow> FsDocs \<Rightarrow> ConsumeRequest \<Rightarrow> FsWrite list" where
  "fs_charge_writes c now D q = (let n = iadd (fs_stored_used D (fs_bucket c q)) (cq_Amount q) in
     WSet (fs_bucket c q) (fs_usage_data now q n (fs_limit_for D (fs_bucket c q) (cq_Limit q))) True
     # (if cq_IdempotencyKey q = '''' then []
        else [WCreate (fs_consumptionDoc c (cq_IdempotencyKey q)) (fs_consumption_data now q n)]))"

text \<open>What the function of \<open>ConsumeQuota\<close> does on given documents.\<close>

lemma run_consume_tx:
  "tx_run (fs_snapshot D) query new (fs_consume_tx c now q) =
    ((if cq_IdempotencyKey q = '''' then [] else [fs_consumptionDoc c (cq_IdempotencyKey q)])
       @ (if fs_known c D q = None then [fs_bucket c q] else []),
     case fs_known c D q of
       Some d \<Rightarrow> ([], fv_newUsed_update (\<lambda>_. fs_getInt d ''newUsed''), None)
     | None \<Rightarrow> (if fs_over c D q then [] else fs_charge_writes c now D q,
         fv_newUsed_update (\<lambda>_. iadd (fs_stored_used D (fs_bucket c q)) (cq_Amount q)),
         if fs_over c D q then Some ErrQuotaExceeded else None))"
  by (auto simp: fs_consume_tx_def fs_charge_def Let_def current_snapshot fs_bucket_def [symmetric] fs_known_def
      fs_over_def fs_charge_writes_def split: option.split)

context firestore_client
begin

text \<open>What \<open>ConsumeQuota\<close> does on a client that keeps its contract.\<close>

lemma consume_effect:
  assumes "up s" "fs_fits c now q" "0 < cq_Amount q" "run_state (fs_ConsumeQuota C c now q) s = (x, s')"
  shows "up s' \<and> (case fs_known c (docs s) q of
      Some d \<Rightarrow> x = (fs_getInt d ''newUsed'', None) \<and> docs s' = docs s
    | None \<Rightarrow> fst x = iadd (fs_stored_used (docs s) (fs_bucket c q)) (cq_Amount q)
        \<and> (if fs_over c (docs s) q then snd x = Some ErrQuotaExceeded \<and> docs s' = docs s
           else snd x = None \<and> docs s' = fold (fs_write (clock s)) (fs_charge_writes c now (docs s) q) (docs s)))"
proof -
  obtain r where r: "fc_RunTransaction C (fs_consume_tx c now q) s = (r, s')" "x = (fv_newUsed (fst r), snd r)"
    using assms(3,4) by (auto simp: fs_ConsumeQuota_def split: prod.splits)
  then obtain query new where
    o: "tx_outcome (clock s) (docs s) (tx_run (fs_snapshot (docs s)) query new (fs_consume_tx c now q)) r (docs s')" "up s'"
    using transaction [OF assms(1) reads_first_consume] by blast
  have "\<forall>p \<in> set ((if cq_IdempotencyKey q = '''' then [] else [fs_consumptionDoc c (cq_IdempotencyKey q)])
       @ (if fs_known c (docs s) q = None then [fs_bucket c q] else [])). valid_path p"
    using assms(2) by (auto simp: fs_fits_def)
  moreover have "\<forall>w \<in> set (fs_charge_writes c now (docs s) q). valid_write (docs s) w"
    using assms(2) fits_docs [OF assms(2)] by (auto simp: fs_charge_writes_def Let_def fs_fits_def)
  moreover have "\<forall>w \<in> set (fs_charge_writes c now (docs s) q). \<not> fs_clash (docs s) w" if "fs_known c (docs s) q = None"
    using that by (auto simp: fs_charge_writes_def Let_def fs_known_def)
  ultimately show ?thesis
    using o r(2) unfolding run_consume_tx
    by (auto simp: tx_outcome_def fs_vars_def split: option.splits if_splits)
qed

end

lemma charged_writes_ledger:
  assumes "separate_collections c" "fs_known c D q = None"
  shows "fs_ledger c (fold (fs_write t) (fs_charge_writes c now D q) D) = (fs_ledger c D)
    \<lparr>lg_acct := (lg_acct (fs_ledger c D))(fs_bucket c q \<mapsto>
       (iadd (fs_stored_used D (fs_bucket c q)) (cq_Amount q), fs_limit_for D (fs_bucket c q) (cq_Limit q))),
     lg_done := (if cq_IdempotencyKey q = '''' then lg_done (fs_ledger c D)
       else (lg_done (fs_ledger c D))(cq_IdempotencyKey q \<mapsto> iadd (fs_stored_used D (fs_bucket c q)) (cq_Amount q)))\<rparr>"
proof -
  have fields: "fs_usage_data now q n l ''used'' = Some (FsInt n)" "fs_usage_data now q n l ''limit'' = Some (FsInt l)"
    "fs_consumption_data now q n ''newUsed'' = Some (FsInt n)" for n l
    by (simp_all add: fs_usage_data_def fs_consumption_data_def)
  show ?thesis
    by (simp add: fs_charge_writes_def Let_def ledger_create_consumption [OF assms(1)] ledger_write_usage fields
        fs_getInt_def [of "fs_usage_data _ _ _ _"] fs_getInt_def [of "fs_consumption_data _ _ _"] del: fs_write.simps)
qed


text \<open>If the read of the usage fails in the transaction, the usage is taken for 0: a request up to its limit is
  accepted, and the stored usage is replaced by its amount alone.\<close>

theorem fs_failed_read_forgets:
  assumes "get (fs_bucket c q) = FsFailed err" "cq_IdempotencyKey q = '''' \<or> get (fs_consumptionDoc c (cq_IdempotencyKey q)) = FsNotFound"
    and "cq_Limit q = -1 \<or> cq_Amount q \<le> cq_Limit q" "int64_ok (cq_Amount q)"
    and "tx_run get query new (fs_consume_tx c now q) = (rs, ws, f, e)"
  shows "e = None \<and> fv_newUsed (f v) = cq_Amount q
    \<and> lg_acct (fs_ledger c (fold (fs_write t) ws D)) (fs_bucket c q) = Some (cq_Amount q, cq_Limit q)"
proof -
  have zero: "iadd 0 (cq_Amount q) = cq_Amount q" using assms(4) by (simp add: iadd_id)
  have ws: "e = None \<and> fv_newUsed (f v) = cq_Amount q \<and> (\<exists>l. ws = WSet (fs_bucket c q) (fs_usage_data now q (cq_Amount q) (cq_Limit q)) True # l
      \<and> (l = [] \<or> (\<exists>d. l = [WCreate (fs_consumptionDoc c (cq_IdempotencyKey q)) d])))"
    using assms(1,2,3,5)
    by (auto simp: fs_consume_tx_def fs_charge_def Let_def fs_bucket_def [symmetric] fs_current_def zero split: if_splits)
  have fields: "fs_usage_data now q n l ''used'' = Some (FsInt n)" "fs_usage_data now q n l ''limit'' = Some (FsInt l)" for n l
    by (simp_all add: fs_usage_data_def)
  have "lg_acct (fs_ledger c (fs_write t (WCreate (fs_consumptionDoc c k) d) D)) (fs_bucket c q)
      = lg_acct (fs_ledger c D) (fs_bucket c q)" for k d D
    by (simp add: fs_ledger_def)
  then show ?thesis
    using ws by (auto simp: ledger_write_usage fields fs_getInt_def [of "fs_usage_data _ _ _ _"] simp del: fs_write.simps)
qed

section \<open>Entitlements\<close>

definition entitlement_fits :: "FsConfig \<Rightarrow> Entitlement \<Rightarrow> bool" where
  "entitlement_fits c ent \<longleftrightarrow> valid_path (fs_entitlementDoc c (e_UserID ent)) \<and> valid_text (e_Tier ent)
     \<and> valid_time (e_SubscriptionStartDate ent) \<and> valid_time (e_UpdatedAt ent)
     \<and> (\<forall>t. e_ExpiresAt ent = Some t \<longrightarrow> valid_time t)"

lemma entitlement_data_ok:
  assumes "entitlement_fits c ent"
  shows "valid_write D (WSet (fs_entitlementDoc c (e_UserID ent)) (fs_entitlement_data ent) True)"
  using assms by (auto simp: entitlement_fits_def fs_entitlement_data_def Let_def split: option.split)

text \<open>C30: An entitlement is read back with its times in microseconds, but one without an expiry does not remove the
  expiry of the user's previous entitlement: the merged document keeps it, and a subscription renewed
  for good still ends.\<close>

theorem fs_expiry_kept:
  assumes "firestore_client C docs clock up" "up s" "entitlement_fits c ent"
    and "st_SetEntitlement (firestore_storage C c) now ent s = (None, s')"
    and "st_GetEntitlement (firestore_storage C c) later (e_UserID ent) s' = (r, s'')"
  shows "r = Inr (ent\<lparr>e_SubscriptionStartDate := fs_micros (e_SubscriptionStartDate ent), e_UpdatedAt := fs_micros (e_UpdatedAt ent),
    e_ExpiresAt := (case e_ExpiresAt ent of
       Some t \<Rightarrow> if fs_micros t = zero_time then None else Some (fs_micros t)
     | None \<Rightarrow> (case docs s (fs_entitlementDoc c (e_UserID ent)) of
         Some old \<Rightarrow> fs_optTime old ''expiresAt'' | None \<Rightarrow> None))\<rparr>)"
proof -
  let ?p = "fs_entitlementDoc c (e_UserID ent)"
  have "e_UserID ent \<noteq> ''''" using assms(3) by (auto simp: entitlement_fits_def valid_path_def fs_entitlementDoc_def valid_id_def)
  then obtain e where "fc_Set C ?p (fs_entitlement_data ent) True s = (e, s')"
    using assms(4) by (auto simp: firestore_storage_def fs_SetEntitlement_def split: prod.splits)
  then have s': "docs s' = fs_write (clock s) (WSet ?p (fs_entitlement_data ent) True) (docs s)" "up s'"
    using firestore_client.set_doc [OF assms(1,2) entitlement_data_ok [OF assms(3)]] by blast+
  obtain snap where "fc_Get C ?p s' = (snap, s'')" "r = fst (run_state (fs_GetEntitlement C c later (e_UserID ent)) s')"
    using assms(5) by (auto simp: firestore_storage_def fs_GetEntitlement_def split: prod.splits)
  moreover from this have "snap = fs_snapshot (docs s') ?p"
    using firestore_client.get_doc [OF assms(1) s'(2)] assms(3) by (auto simp: entitlement_fits_def)
  ultimately show ?thesis
    using s'(1)
    by (auto simp: fs_GetEntitlement_def fs_snapshot_def fs_getString_def fs_getTime_def fs_optTime_def
        fs_stored_doc_def fs_entitlement_data_def Let_def map_add_def split: option.splits)
qed

section \<open>Tier changes\<close>

lemma period_Key_no_underscore: "CHR ''_'' \<notin> set (period_Key p)"
proof -
  have d: "digit n \<noteq> CHR ''_''" for n
  proof
    assume "digit n = CHR ''_''"
    then have "48 + n mod 10 = (95::nat)" using of_char_digit [of n] by simp
    then have "n mod 10 = 47" by simp
    moreover have "n mod 10 < 10" by simp
    ultimately show False by simp
  qed
  have "CHR ''_'' \<notin> set (show_nat n)" for n
    by (induction n rule: show_nat.induct; subst show_nat.simps) (auto simp: d d [symmetric])
  then have "CHR ''_'' \<notin> set (format_date t)" for t
    by (auto simp: format_date_def pad4_def pad2_def Let_def d d [symmetric])
  then show ?thesis by (simp split: PeriodType.split)
qed

lemma split_at_underscore:
  assumes "a @ ''_'' @ r = b @ ''_'' @ r'" "CHR ''_'' \<notin> set a" "CHR ''_'' \<notin> set b"
  shows "a = b \<and> r = r'"
  using assms
proof (induction a arbitrary: b)
  case Nil
  then show ?case by (cases b) auto
next
  case (Cons x a)
  then show ?case by (cases b) auto
qed

lemma usageDoc_inj: "fs_usageDoc c u r p = fs_usageDoc c u' r' p' \<longleftrightarrow> u = u' \<and> r = r' \<and> period_Key p = period_Key p'"
  using split_at_underscore [of "period_Key p" r "period_Key p'" r'] period_Key_no_underscore
  by (auto simp: fs_usageDoc_def simp del: period_Key.simps)

definition tier_fits :: "FsConfig \<Rightarrow> time \<Rightarrow> TierChangeRequest \<Rightarrow> bool" where
  "tier_fits c now t \<longleftrightarrow> valid_path (fs_usageDoc c (tq_UserID t) ''audio_seconds'' (tq_Period t))
     \<and> valid_text (tq_NewTier t) \<and> valid_text (tq_OldTier t)
     \<and> valid_time (p_Start (tq_Period t)) \<and> valid_time (p_End (tq_Period t)) \<and> valid_time now"

text \<open>A tier change of any resource sets the new limit on the user's \<open>audio_seconds\<close>, which starts with the
  usage of the other resource if it had no record. The usage and limit of every other resource stay as
  they were, so a change of tier has no effect on them.\<close>

theorem fs_tier_change_misses:
  assumes "firestore_client C docs clock up" "up s" "separate_collections c" "tier_fits c now t"
    and "st_ApplyTierChange (firestore_storage C c) now t s = (e, s')"
  shows "e = None \<and> lg_acct (fs_ledger c (docs s')) = (lg_acct (fs_ledger c (docs s)))
      (fs_usageDoc c (tq_UserID t) ''audio_seconds'' (tq_Period t) \<mapsto>
        (case docs s (fs_usageDoc c (tq_UserID t) ''audio_seconds'' (tq_Period t)) of
           Some d \<Rightarrow> fs_getInt d ''used'' | None \<Rightarrow> tq_CurrentUsed t, tq_NewLimit t))
    \<and> (tq_Resource t \<noteq> ''audio_seconds'' \<longrightarrow>
        docs s' (fs_usageDoc c (tq_UserID t) (tq_Resource t) (tq_Period t))
          = docs s (fs_usageDoc c (tq_UserID t) (tq_Resource t) (tq_Period t)))"
proof -
  let ?p = "fs_usageDoc c (tq_UserID t) ''audio_seconds'' (tq_Period t)"
  let ?u = "case docs s ?p of Some d \<Rightarrow> fs_getInt d ''used'' | None \<Rightarrow> tq_CurrentUsed t"
  let ?d = "[''limit'' \<mapsto> FsInt (tq_NewLimit t), ''used'' \<mapsto> FsInt ?u, ''cycleStart'' \<mapsto> FsTime (p_Start (tq_Period t)),
      ''cycleEnd'' \<mapsto> FsTime (p_End (tq_Period t)), ''tier'' \<mapsto> FsString (tq_NewTier t),
      ''previousTier'' \<mapsto> FsString (tq_OldTier t), ''tierChangedAt'' \<mapsto> FsTime now,
      ''resource'' \<mapsto> FsString ''audio_seconds'', ''updatedAt'' \<mapsto> FsTime now]"
  obtain r where r: "fc_RunTransaction C (fs_tier_tx c now t) s = (r, s')" "e = snd r"
    using assms(5) by (auto simp: firestore_storage_def fs_ApplyTierChange_def split: prod.splits)
  then obtain query new where
    o: "tx_outcome (clock s) (docs s) (tx_run (fs_snapshot (docs s)) query new (fs_tier_tx c now t)) r (docs s')"
    using firestore_client.transaction [OF assms(1,2) reads_first_tier] by blast
  have "tx_run (fs_snapshot (docs s)) query new (fs_tier_tx c now t) = ([?p], [WSet ?p ?d True], id, None)"
    by (simp add: fs_tier_tx_def Let_def fs_snapshot_def split: option.split)
  moreover have "valid_path ?p" "valid_write (docs s) (WSet ?p ?d True)"
    using assms(4) by (simp_all add: tier_fits_def) (simp add: valid_text_def ascii_def)
  ultimately have "e = None" "docs s' = fs_write (clock s) (WSet ?p ?d True) (docs s)"
    using o r(2) by (simp_all add: tx_outcome_def del: fs_write.simps valid_write.simps)
  moreover have "?d ''used'' = Some (FsInt ?u)" "?d ''limit'' = Some (FsInt (tq_NewLimit t))" by simp_all
  moreover have "fs_getInt d f = n" if "d f = Some (FsInt n)" for d f n using that by (simp add: fs_getInt_def)
  ultimately show ?thesis
    using ledger_write_usage [of ?p c "clock s" ?d "docs s"] by (simp add: usageDoc_inj fun_upd_def)
qed

section \<open>Sliding windows\<close>

definition window_ref :: "RateLimitRequest \<Rightarrow> FsPath" where
  "window_ref q = fs_timestampsRef (fs_rateLimitDoc (rq_UserID q) (rq_Resource q))"

text \<open>The requests recorded in the window that ends now.\<close>

definition in_window :: "FsDocs \<Rightarrow> RateLimitRequest \<Rightarrow> FsPath set" where
  "in_window D q = fs_matches D (window_ref q) ''timestamp'' (time_Add (rq_Now q) (wrap64 (- rq_Window q)))"

definition window_query :: "(FsPath \<Rightarrow> string \<Rightarrow> time \<Rightarrow> goint \<Rightarrow> FsDoc list) \<Rightarrow> RateLimitRequest \<Rightarrow> FsDoc list" where
  "window_query query q =
     query (window_ref q) ''timestamp'' (time_Add (rq_Now q) (wrap64 (- rq_Window q))) (iadd (rq_Rate q) 1)"

text \<open>A request for the sliding window, with numbers in range.\<close>

definition window_request :: "RateLimitRequest \<Rightarrow> bool" where
  "window_request q \<longleftrightarrow> rq_Algorithm q = ''sliding_window'' \<and> 0 < rq_Rate q \<and> rq_Rate q < 2 ^ 62
     \<and> 1000 \<le> rq_Window q \<and> int64_ok (rq_Window q) \<and> valid_time (rq_Now q)
     \<and> valid_path (fs_rateLimitDoc (rq_UserID q) (rq_Resource q))"

lemma window_cutoff:
  assumes "window_request q"
  shows "time_Add (rq_Now q) (wrap64 (- rq_Window q)) = rq_Now q - rq_Window q"
  using assms wrap64_id [of "- rq_Window q"] by (simp add: window_request_def int64_ok_def time_Add_def)

lemma window_timestamps:
  assumes "fs_answer D c f cutoff n ds" "f = ''timestamp''"
  shows "length (fs_timestamps ds) = min (nat n) (card (fs_matches D c f cutoff))" "finite (fs_matches D c f cutoff)"
proof -
  obtain ps where ps: "distinct ps" "set ps = fs_matches D c f cutoff" "ds = map (\<lambda>p. the (D p)) (take (nat n) ps)"
    using assms(1) by (auto simp: fs_answer_def)
  have "length (fs_timestamps ds) = length ds"
    if "set ds \<subseteq> (\<lambda>p. the (D p)) ` fs_matches D c f cutoff" for ds
    using that
  proof (induction ds)
    case (Cons d ds)
    then obtain t where "d ''timestamp'' = Some (FsTime t)"
      using assms(2) by (auto simp: fs_matches_def)
    with Cons show ?case by (simp add: fs_timestamps_def)
  qed (simp add: fs_timestamps_def)
  from this [of ds] have "length (fs_timestamps ds) = length ds"
    unfolding ps(3) ps(2) [symmetric] by (auto dest: in_set_takeD)
  then show "length (fs_timestamps ds) = min (nat n) (card (fs_matches D c f cutoff))"
    using ps distinct_card [OF ps(1)] by simp
  show "finite (fs_matches D c f cutoff)" using ps(2) by (metis finite_set)
qed

lemma run_window_tx:
  assumes "window_request q"
    and "fs_answer D (window_ref q) ''timestamp'' (rq_Now q - rq_Window q) (iadd (rq_Rate q) 1) (window_query query q)"
  shows "\<exists>reset. tx_run (fs_snapshot D) query new (fs_rate_tx now q) =
    ([fs_rateLimitDoc (rq_UserID q) (rq_Resource q)],
     if int (card (in_window D q)) < rq_Rate q then [WSet (new (window_ref q)) [''timestamp'' \<mapsto> FsTime (rq_Now q)] False] else [],
     if int (card (in_window D q)) < rq_Rate q then fs_rate_vars True (rq_Rate q - int (card (in_window D q)) - 1) reset
       else fs_rate_vars False 0 reset, None)"
proof -
  let ?n = "card (in_window D q)"
  define ds where "ds = window_query query q"
  have rate: "0 < rq_Rate q" "rq_Rate q < 2 ^ 62" "rq_Algorithm q = ''sliding_window''" using assms(1) by (simp_all add: window_request_def)
  have plus: "iadd (rq_Rate q) 1 = rq_Rate q + 1" using rate by (intro iadd_id) (simp add: int64_ok_def)
  have len: "length (fs_timestamps ds) = min (nat (rq_Rate q + 1)) ?n"
    using window_timestamps(1) [OF assms(2)] by (simp add: ds_def plus in_window_def window_cutoff [OF assms(1)])
  have "isub (isub (rq_Rate q) (int ?n)) 1 = rq_Rate q - int ?n - 1" if "int ?n < rq_Rate q"
    using that rate by (simp add: isub_id int64_ok_def)
  moreover have "rq_Rate q \<le> int (length (fs_timestamps ds)) \<longleftrightarrow> \<not> int ?n < rq_Rate q" using len rate by auto
  moreover have "length (fs_timestamps ds) = ?n" if "int ?n < rq_Rate q" using len that by simp
  moreover have "tx_run (fs_snapshot D) query new (fs_rate_tx now q) = (let (rs, x) = tx_run (fs_snapshot D) query new
      (fs_checkSlidingWindow (fs_rateLimitDoc (rq_UserID q) (rq_Resource q)) q)
      in (fs_rateLimitDoc (rq_UserID q) (rq_Resource q) # rs, x))"
    by (simp add: fs_rate_tx_def Let_def rate(3) fs_snapshot_def split: option.split)
  ultimately show ?thesis
    by (intro exI [of _ "time_Add (if fs_oldest (fs_timestamps ds) \<noteq> zero_time then fs_oldest (fs_timestamps ds)
          else rq_Now q) (rq_Window q)"])
      (simp add: fs_checkSlidingWindow_def Let_def window_ref_def [symmetric] window_query_def [symmetric]
        ds_def [symmetric])
qed

lemma window_recorded:
  assumes "window_request q" "finite (in_window D q)" "D (window_ref q @ [i]) = None"
  shows "card (in_window (fs_write t (WSet (window_ref q @ [i]) [''timestamp'' \<mapsto> FsTime (rq_Now q)] False) D) q)
      = Suc (card (in_window D q))"
    and "finite (in_window (fs_write t (WSet (window_ref q @ [i]) [''timestamp'' \<mapsto> FsTime (rq_Now q)] False) D) q)"
proof -
  have "rq_Now q mod 1000 < 1000" "1000 \<le> rq_Window q" using assms(1) by (simp_all add: window_request_def)
  then have "rq_Now q - rq_Window q < fs_micros (rq_Now q)" unfolding fs_micros_def by linarith
  then have "in_window (fs_write t (WSet (window_ref q @ [i]) [''timestamp'' \<mapsto> FsTime (rq_Now q)] False) D) q
      = insert (window_ref q @ [i]) (in_window D q)"
    using assms(3) by (auto simp: in_window_def fs_matches_def window_cutoff [OF assms(1)] fs_stored_doc_def split: if_splits)
  moreover have "window_ref q @ [i] \<notin> in_window D q" using assms(3) by (simp add: in_window_def fs_matches_def)
  ultimately show "card (in_window (fs_write t (WSet (window_ref q @ [i]) [''timestamp'' \<mapsto> FsTime (rq_Now q)] False) D) q)
      = Suc (card (in_window D q))"
    "finite (in_window (fs_write t (WSet (window_ref q @ [i]) [''timestamp'' \<mapsto> FsTime (rq_Now q)] False) D) q)"
    using assms(2) by simp_all
qed

text \<open>A sliding window admits a request if fewer than the rate are recorded in the window, records it, and
  answers how many are left; a refused request is not recorded.\<close>

theorem fs_window_sequential:
  assumes "firestore_client C docs clock up" "up s" "window_request q" "fs_room (docs s) (window_ref q)"
    and "st_CheckRateLimit (firestore_storage C c) now q s = (r, s')"
  shows "\<exists>reset. if int (card (in_window (docs s) q)) < rq_Rate q
    then r = Inr (True, rq_Rate q - int (card (in_window (docs s) q)) - 1, reset)
      \<and> card (in_window (docs s') q) = Suc (card (in_window (docs s) q))
    else r = Inr (False, 0, reset) \<and> docs s' = docs s"
proof -
  define x where "x = fst (fc_RunTransaction C (fs_rate_tx now q) s)"
  have x: "fc_RunTransaction C (fs_rate_tx now q) s = (x, s')"
    "r = (case snd x of Some e \<Rightarrow> Inl (if is_panic e then e else Wrapped ''failed to check rate limit'' e)
       | None \<Rightarrow> Inr (fv_allowed (fst x), fv_remaining (fst x), fv_resetTime (fst x)))"
    using assms(5) by (auto simp: x_def firestore_storage_def fs_CheckRateLimit_def case_prod_unfold prod_eq_iff split: option.split)
  obtain query new i where q: "\<And>c f t n. fs_answer (docs s) c f t n (query c f t n)"
    "new (window_ref q) = window_ref q @ [i]" "valid_id i" "docs s (window_ref q @ [i]) = None"
    "tx_outcome (clock s) (docs s) (tx_run (fs_snapshot (docs s)) query new (fs_rate_tx now q)) x (docs s')"
    using firestore_client.transaction [OF assms(1,2) reads_first_rate x(1)] assms(4) by blast
  have answer: "fs_answer (docs s) (window_ref q) ''timestamp'' (rq_Now q - rq_Window q) (iadd (rq_Rate q) 1) (window_query query q)"
    unfolding window_query_def window_cutoff [OF assms(3)] by (rule q(1))
  have fin: "finite (in_window (docs s) q)"
    using window_timestamps(2) [OF answer refl] by (simp add: in_window_def window_cutoff [OF assms(3)])
  have path: "valid_path (fs_rateLimitDoc (rq_UserID q) (rq_Resource q))" "valid_time (rq_Now q)"
    using assms(3) by (simp_all add: window_request_def)
  moreover have "valid_path (window_ref q @ [i])"
    using path(1) q(3) by (auto simp: window_ref_def fs_timestampsRef_def valid_path_def) (simp add: valid_id_def ascii_def)
  ultimately show ?thesis
    using q(2,5) x(2) run_window_tx [OF assms(3) answer, of new now] window_recorded [OF assms(3) fin q(4)]
    by (auto simp: tx_outcome_def fs_rate_vars_def simp del: fs_write.simps)
qed

text \<open>The count is taken outside the transaction. So when one request of the window is left, two that come at the
  same time both count it as free and both are admitted: neither writes a document the other reads, so nothing
  makes one of the transactions start again, and the window holds one more than the rate.\<close>

theorem fs_window_race:
  assumes "window_request q" "int (card (in_window D q)) = rq_Rate q - 1"
    and "fs_answer D (window_ref q) ''timestamp'' (rq_Now q - rq_Window q) (iadd (rq_Rate q) 1) (window_query query q)"
    and "fs_answer D (window_ref q) ''timestamp'' (rq_Now q - rq_Window q) (iadd (rq_Rate q) 1) (window_query query' q)"
    and "new (window_ref q) = window_ref q @ [i]" "new' (window_ref q) = window_ref q @ [i']" "i \<noteq> i'"
      "D (window_ref q @ [i]) = None" "D (window_ref q @ [i']) = None"
    and "tx_run (fs_snapshot D) query new (fs_rate_tx now q) = (rs, ws, f, e)"
      "tx_run (fs_snapshot D) query' new' (fs_rate_tx now' q) = (rs', ws', f', e')"
  shows "e = None \<and> e' = None \<and> fv_allowed (f v) \<and> fv_allowed (f' v)
    \<and> (\<forall>w \<in> set ws. \<forall>p \<in> set rs'. fs_write t w D p = D p) \<and> (\<forall>w \<in> set ws'. \<forall>p \<in> set rs. fs_write t w D p = D p)
    \<and> int (card (in_window (fold (fs_write t') ws' (fold (fs_write t) ws D)) q)) = rq_Rate q + 1"
proof -
  let ?w = "\<lambda>i. WSet (window_ref q @ [i]) [''timestamp'' \<mapsto> FsTime (rq_Now q)] False"
  have fin: "finite (in_window D q)"
    using window_timestamps(2) [OF assms(3) refl] by (simp add: in_window_def window_cutoff [OF assms(1)])
  have other: "fs_write t (?w i) D (window_ref q @ [i']) = None" using assms(7,9) by simp
  have reads: "fs_write t (?w j) D (fs_rateLimitDoc (rq_UserID q) (rq_Resource q)) = D (fs_rateLimitDoc (rq_UserID q) (rq_Resource q))" for j
    by (simp add: window_ref_def fs_timestampsRef_def)
  have "int (card (in_window (fs_write t' (?w i') (fs_write t (?w i) D)) q)) = rq_Rate q + 1"
    using window_recorded [OF assms(1) fin assms(8), of t]
      window_recorded(1) [where D = "fs_write t (?w i) D" and i = i' and t = t', OF assms(1) _ other] assms(2)
    by (simp del: fs_write.simps)
  then show ?thesis
    using run_window_tx [OF assms(1,3), of new now] run_window_tx [OF assms(1,4), of new' now'] assms(2,5,6,10,11) reads
    by (auto simp: fs_rate_vars_def simp del: fs_write.simps)
qed

section \<open>Refunds and credit limits\<close>

definition fs_refunded :: "FsConfig \<Rightarrow> RefundRequest \<Rightarrow> FsPath" where
  "fs_refunded c q = fs_usageDoc c (rr_UserID q) (rr_Resource q) (rr_Period q)"

definition refund_fits :: "FsConfig \<Rightarrow> time \<Rightarrow> RefundRequest \<Rightarrow> bool" where
  "refund_fits c now q \<longleftrightarrow> valid_path (fs_refunded c q)
     \<and> (rr_IdempotencyKey q = '''' \<or> valid_path (fs_refundDoc c (rr_IdempotencyKey q)))
     \<and> (\<forall>x \<in> {rr_UserID q, rr_Resource q, rr_IdempotencyKey q, rr_Reason q, period_type_text (rr_PeriodType q)}. valid_text x)
     \<and> length (rr_Metadata q) \<le> 20 \<and> (\<forall>(k, v) \<in> set (rr_Metadata q). k \<noteq> '''' \<and> valid_text k \<and> valid_text v)
     \<and> (\<forall>t \<in> {p_Start (rr_Period q), p_End (rr_Period q), now, fs_record_expiry now (rr_IdempotencyKeyTTL q)}. valid_time t)"

lemma refund_data_ok:
  assumes "refund_fits c now q"
  shows "valid_doc (fs_refund_data now q (rr_Period q))"
proof -
  have "valid_value (FsMap (map (\<lambda>(k, v). (k, FsString v)) (rr_Metadata q)))"
    using assms by (auto simp: refund_fits_def)
  then show ?thesis
    using assms unfolding fs_refund_data_def by (simp add: refund_fits_def del: valid_value.simps(3))
qed

text \<open>What a transaction that ends without error or clash leaves.\<close>

lemma outcome_done:
  assumes "tx_outcome t D (rs, ws, f, e) r D'" "\<forall>p \<in> set rs. valid_path p" "\<forall>w \<in> set ws. valid_write D w"
    and "\<forall>w \<in> set ws. \<not> fs_clash D w"
  shows "r = (f fs_vars, e)" "D' = (if e = None then fold (fs_write t) ws D else D)"
  using assms by (auto simp: tx_outcome_def split: if_splits)

lemma keyed_record: "(\<lambda>k. R k \<or> k = key) = (\<lambda>k. R k \<or> k \<noteq> '''' \<and> k = key)" if "key \<noteq> ''''"
  using that by auto

definition fs_refund_known :: "FsConfig \<Rightarrow> FsDocs \<Rightarrow> RefundRequest \<Rightarrow> bool" where
  "fs_refund_known c D q \<longleftrightarrow> rr_IdempotencyKey q \<noteq> '''' \<and> D (fs_refundDoc c (rr_IdempotencyKey q)) \<noteq> None"

definition fs_refund_writes :: "FsConfig \<Rightarrow> time \<Rightarrow> FsDocs \<Rightarrow> RefundRequest \<Rightarrow> FsWrite list" where
  "fs_refund_writes c now D q =
     (case D (fs_refunded c q) of None \<Rightarrow> []
      | Some d \<Rightarrow> [WSet (fs_refunded c q)
          [''used'' \<mapsto> FsInt (max 0 (isub (fs_getInt d ''used'') (rr_Amount q))), ''updatedAt'' \<mapsto> FsTime now] True])
     @ (if rr_IdempotencyKey q = '''' then []
        else [WSet (fs_refundDoc c (rr_IdempotencyKey q)) (fs_refund_data now q (rr_Period q)) True])"

lemma run_refund_tx:
  assumes "p_Start (rr_Period q) \<noteq> zero_time" "p_Type (rr_Period q) \<noteq> PeriodTypeOther ''''"
  shows "tx_run (fs_snapshot D) query new (fs_refund_tx c now q) =
    ((if rr_IdempotencyKey q = '''' then [] else [fs_refundDoc c (rr_IdempotencyKey q)])
       @ (if fs_refund_known c D q then [] else [fs_refunded c q]),
     if fs_refund_known c D q then [] else fs_refund_writes c now D q, id, None)"
proof -
  have period: "fs_refund_period now q = Inr (rr_Period q)" using assms by (simp add: fs_refund_period_def mem_refund_period_def)
  show ?thesis
    by (cases "D (fs_refundDoc c (rr_IdempotencyKey q))"; cases "D (fs_refunded c q)")
      (simp_all add: fs_refund_tx_def checkIdempotency_def period updateRefundUsage_def createRefundRecord_def Let_def
        fs_refunded_def [symmetric] fs_refund_known_def fs_refund_writes_def max_def)
qed

lemma refund_writes_ok:
  assumes "refund_fits c now q" "\<not> fs_refund_known c D q"
  shows "\<forall>w \<in> set (fs_refund_writes c now D q). valid_write D w \<and> \<not> fs_clash D w"
proof -
  have "fs_plain D (fs_refundDoc c (rr_IdempotencyKey q)) d" if "rr_IdempotencyKey q \<noteq> ''''" for d
    using that assms(2) by (simp add: fs_refund_known_def fs_plain_def)
  then show ?thesis
    using assms(1) refund_data_ok [OF assms(1)]
    by (cases "rr_IdempotencyKey q = ''''"; cases "D (fs_refunded c q)") (auto simp: fs_refund_writes_def refund_fits_def)
qed

lemma refund_writes_ledger:
  assumes "separate_collections c" "D (fs_refunded c q) = Some d"
  shows "fs_ledger c (fold (fs_write t) (fs_refund_writes c now D q) D) = (fs_ledger c D)
    \<lparr>lg_acct := (lg_acct (fs_ledger c D))(fs_refunded c q \<mapsto>
        (max 0 (isub (fs_getInt d ''used'') (rr_Amount q)), fs_getInt d ''limit'')),
     lg_refunds := (\<lambda>k. lg_refunds (fs_ledger c D) k \<or> k \<noteq> '''' \<and> k = rr_IdempotencyKey q)\<rparr>"
proof -
  have "length (fs_refunded c q) = 4" by (simp add: fs_refunded_def)
  then show ?thesis
    using assms(2)
    by (auto simp: fs_refund_writes_def ledger_write_usage ledger_write_refund [OF assms(1)] keyed_record
        fs_getInt_def [of "[_ \<mapsto> _, _ \<mapsto> _]"] simp del: fs_write.simps)
qed

text \<open>On a server that is up, a refund of a period that is named and has usage, or one without a key, does what
  the contract says.\<close>

theorem fs_refund_refines:
  assumes "firestore_client C docs clock up" "up s" "separate_collections c" "refund_fits c now q"
    and "p_Start (rr_Period q) \<noteq> zero_time" "p_Type (rr_Period q) \<noteq> PeriodTypeOther ''''"
    and "docs s (fs_refunded c q) \<noteq> None \<or> rr_IdempotencyKey q = ''''"
    and "st_RefundQuota (firestore_storage C c) now q s = (e, s')"
  shows "spec_refund (fs_refunded c q) q (fs_ledger c (docs s)) = (e, fs_ledger c (docs s'))"
proof (cases "0 < rr_Amount q")
  case False
  then show ?thesis
    using assms(8) by (auto simp: firestore_storage_def fs_RefundQuota_def spec_refund_def split: if_splits)
next
  case True
  let ?D = "docs s" and ?k = "rr_IdempotencyKey q"
  obtain r where r: "fc_RunTransaction C (fs_refund_tx c now q) s = (r, s')" "e = snd r"
    using assms(8) True by (auto simp: firestore_storage_def fs_RefundQuota_def split: prod.splits)
  then obtain query new where o: "tx_outcome (clock s) ?D (tx_run (fs_snapshot ?D) query new (fs_refund_tx c now q)) r (docs s')"
    using firestore_client.transaction [OF assms(1,2) reads_first_refund_tx] by blast
  have "e = None \<and> docs s' = (if fs_refund_known c ?D q then ?D else fold (fs_write (clock s)) (fs_refund_writes c now ?D q) ?D)"
    using outcome_done [OF o [unfolded run_refund_tx [OF assms(5,6)]]] refund_writes_ok [OF assms(4)] assms(4) r(2)
    by (auto simp: refund_fits_def split: if_splits)
  moreover have "lg_acct (fs_ledger c ?D) (fs_refunded c q)
      = map_option (\<lambda>d. (fs_getInt d ''used'', fs_getInt d ''limit'')) (?D (fs_refunded c q))"
    "?k \<noteq> '''' \<and> lg_refunds (fs_ledger c ?D) ?k \<longleftrightarrow> fs_refund_known c ?D q"
    by (simp_all add: fs_ledger_def fs_refunded_def fs_refund_known_def)
  moreover have "fs_refund_writes c now ?D q = []" if "?D (fs_refunded c q) = None"
    using that assms(7) by (simp add: fs_refund_writes_def)
  ultimately show ?thesis
    using True refund_writes_ledger [OF assms(3), of ?D q _ "clock s" now]
    by (cases "?D (fs_refunded c q)") (simp_all add: spec_refund_def)
qed


definition limit_fits :: "FsConfig \<Rightarrow> time \<Rightarrow> string \<Rightarrow> string \<Rightarrow> Period \<Rightarrow> string \<Rightarrow> FsPath \<Rightarrow> bool" where
  "limit_fits c now u rs p key doc \<longleftrightarrow> valid_path (fs_usageDoc c u rs p) \<and> (key = '''' \<or> valid_path doc)
     \<and> (\<forall>x \<in> {u, rs, key, period_type_text (p_Type p)}. valid_text x)
     \<and> (\<forall>t \<in> {p_Start p, p_End p, now}. valid_time t)"

lemma end_unless_forever_ok [simp]:
  "valid_time (p_End p) \<Longrightarrow> valid_doc d \<Longrightarrow> valid_doc (fs_end_unless_forever f p d)"
  "fs_plain D q d \<Longrightarrow> fs_plain D q (fs_end_unless_forever f p d)"
  "f \<noteq> g \<Longrightarrow> fs_end_unless_forever f p d g = d g"
  by (simp_all add: fs_end_unless_forever_def)

text \<open>The two operations differ in the new limit and in the documents they write.\<close>

lemma limit_effect:
  assumes "firestore_client C docs clock up" "up s" "tx_reads_first body" "fc_RunTransaction C body s = (r, s')"
    and body: "\<And>query new. tx_run (fs_snapshot (docs s)) query new body =
      (if key \<noteq> '''' \<and> docs s rec \<noteq> None then ([rec], [], id, Some ErrIdempotencyKeyExists)
       else ((if key = '''' then [] else [rec]) @ [p], WSet p d True # (if key = '''' then [] else [WSet rec d' False]), id, None))"
    and valid: "valid_path p" "key = '''' \<or> valid_path rec" "valid_doc d" "fs_plain (docs s) p d" "valid_doc d'"
  shows "if key \<noteq> '''' \<and> docs s rec \<noteq> None then snd r = Some ErrIdempotencyKeyExists \<and> docs s' = docs s
    else snd r = None \<and> docs s' = fold (fs_write (clock s)) (WSet p d True # (if key = '''' then [] else [WSet rec d' False])) (docs s)"
proof -
  obtain query new where o: "tx_outcome (clock s) (docs s) (tx_run (fs_snapshot (docs s)) query new body) r (docs s')"
    using firestore_client.transaction [OF assms(1-4)] by blast
  show ?thesis
    using o valid unfolding body by (auto simp: tx_outcome_def simp del: fs_write.simps split: if_splits)
qed

lemma valid_default [simp]: "valid_text ''default''"
  by (simp add: valid_text_def ascii_def)

text \<open>The limit and the usage a transaction finds, and the ledger after they are written.\<close>

definition fs_found :: "FsDocs \<Rightarrow> FsPath \<Rightarrow> goint \<times> goint" where
  "fs_found D p = fs_limit_used (fs_snapshot D p)"

lemma found_acct: "length p = 4 \<Longrightarrow> lg_acct (fs_ledger c D) p = (case D p of None \<Rightarrow> None | Some d \<Rightarrow> Some (snd (fs_found D p), fst (fs_found D p)))"
  "D p = None \<Longrightarrow> fs_found D p = (0, 0)"
  by (auto simp: fs_found_def fs_ledger_def fs_limit_used_def fs_snapshot_def split: option.split)

lemma limit_written:
  "length p = 4 \<Longrightarrow> d ''limit'' = Some (FsInt l) \<Longrightarrow> d ''used'' = Some (FsInt m) \<Longrightarrow>
    fs_ledger c (fs_write t (WSet p d True) D) = (fs_ledger c D)\<lparr>lg_acct := (lg_acct (fs_ledger c D))(p \<mapsto> (m, l))\<rparr>"
  by (simp add: ledger_write_usage fs_getInt_def [of d] del: fs_write.simps)

text \<open>On a server that is up, a top-up does what the contract says.\<close>

theorem fs_add_refines:
  assumes "firestore_client C docs clock up" "up s" "separate_collections c" "limit_fits c now u rs p key (fs_topUpDoc key)"
    and "int64_ok n" "st_AddLimit (firestore_storage C c) now u rs n p key s = (e, s')"
  shows "spec_add (fs_usageDoc c u rs p) n key (fs_ledger c (docs s)) = (e, fs_ledger c (docs s'))"
proof -
  let ?D = "docs s" and ?p = "fs_usageDoc c u rs p"
  obtain l m where lm: "fs_found ?D ?p = (l, m)" by fastforce
  define d where "d = fs_end_unless_forever ''cycleEnd'' p [''limit'' \<mapsto> FsInt (iadd l n), ''used'' \<mapsto> FsInt m,
    ''cycleStart'' \<mapsto> FsTime (p_Start p), ''tier'' \<mapsto> FsString ''default'', ''resource'' \<mapsto> FsString rs, ''updatedAt'' \<mapsto> FsTime now]"
  define d' where "d' = fs_end_unless_forever ''periodEnd'' p [''userId'' \<mapsto> FsString u, ''resource'' \<mapsto> FsString rs,
    ''amount'' \<mapsto> FsInt n, ''periodStart'' \<mapsto> FsTime (p_Start p),
    ''periodType'' \<mapsto> FsString (period_type_text (p_Type p)), ''createdAt'' \<mapsto> FsTime now]"
  obtain r where r: "fc_RunTransaction C (fs_add_tx c now u rs n p key) s = (r, s')" "e = snd r"
    using assms(6) by (auto simp: firestore_storage_def fs_AddLimit_def split: prod.splits)
  have body: "tx_run (fs_snapshot ?D) query new (fs_add_tx c now u rs n p key) =
      (if key \<noteq> '''' \<and> ?D (fs_topUpDoc key) \<noteq> None then ([fs_topUpDoc key], [], id, Some ErrIdempotencyKeyExists)
       else ((if key = '''' then [] else [fs_topUpDoc key]) @ [?p],
         WSet ?p d True # (if key = '''' then [] else [WSet (fs_topUpDoc key) d' False]), id, None))" for query new
    by (cases "?D (fs_topUpDoc key)")
      (simp_all add: fs_add_tx_def checkIdempotency_def Let_def fs_record_if_def lm [unfolded fs_found_def] d_def d'_def)
  have ok: "valid_path ?p" "key = '''' \<or> valid_path (fs_topUpDoc key)" "valid_doc d" "fs_plain ?D ?p d" "valid_doc d'"
    using assms(4) by (auto simp: limit_fits_def d_def d'_def)
  have "d ''limit'' = Some (FsInt (iadd l n))" "d ''used'' = Some (FsInt m)" by (simp_all add: d_def)
  note written = limit_written [OF _ this]
  have "lg_topUps (fs_ledger c ?D) key \<longleftrightarrow> ?D (fs_topUpDoc key) \<noteq> None" by (simp add: fs_ledger_def)
  moreover have "(case lg_acct (fs_ledger c ?D) ?p of None \<Rightarrow> (0, n) | Some (u, lmt) \<Rightarrow> (u, iadd lmt n)) = (m, iadd l n)"
    using lm found_acct(1) [of ?p c ?D] found_acct(2) [of ?D ?p] assms(5) by (auto simp: iadd_id split: option.split)
  ultimately show ?thesis
    using limit_effect [OF assms(1,2) reads_first_limits(1) r(1) body ok] r(2) ledger_write_topUp [OF assms(3)] written
    by (cases "key = ''''") (simp_all add: spec_add_def keyed_record del: fs_write.simps)
qed


text \<open>On a server that is up, a subtraction from a usage that has a record does what the contract says. Without a
  record it makes an empty one, which the contract does not have.\<close>

theorem fs_subtract_refines:
  assumes "firestore_client C docs clock up" "up s" "separate_collections c" "limit_fits c now u rs p key (fs_refundDoc c key)"
    and "docs s (fs_usageDoc c u rs p) \<noteq> None" "st_SubtractLimit (firestore_storage C c) now u rs n p key s = (e, s')"
  shows "spec_subtract (fs_usageDoc c u rs p) n key (fs_ledger c (docs s)) = (e, fs_ledger c (docs s'))"
proof -
  let ?D = "docs s" and ?p = "fs_usageDoc c u rs p"
  obtain l m where lm: "fs_found ?D ?p = (l, m)" by fastforce
  define d where "d = [''limit'' \<mapsto> FsInt (max 0 (isub l n)), ''used'' \<mapsto> FsInt m, ''updatedAt'' \<mapsto> FsTime now]"
  define d' where "d' = fs_end_unless_forever ''periodEnd'' p [''refundId'' \<mapsto> FsString key, ''userId'' \<mapsto> FsString u,
    ''resource'' \<mapsto> FsString rs, ''amount'' \<mapsto> FsInt n, ''periodStart'' \<mapsto> FsTime (p_Start p),
    ''periodType'' \<mapsto> FsString (period_type_text (p_Type p)), ''timestamp'' \<mapsto> FsTime now]"
  obtain r where r: "fc_RunTransaction C (fs_subtract_tx c now u rs n p key) s = (r, s')" "e = snd r"
    using assms(6) by (auto simp: firestore_storage_def fs_SubtractLimit_def split: prod.splits)
  have body: "tx_run (fs_snapshot ?D) query new (fs_subtract_tx c now u rs n p key) =
      (if key \<noteq> '''' \<and> ?D (fs_refundDoc c key) \<noteq> None then ([fs_refundDoc c key], [], id, Some ErrIdempotencyKeyExists)
       else ((if key = '''' then [] else [fs_refundDoc c key]) @ [?p],
         WSet ?p d True # (if key = '''' then [] else [WSet (fs_refundDoc c key) d' False]), id, None))" for query new
    using lm [unfolded fs_found_def] assms(5)
    by (cases "?D (fs_refundDoc c key)")
      (auto simp: fs_subtract_tx_def checkIdempotency_def Let_def fs_record_if_def d_def d'_def max_def)
  have ok: "valid_path ?p" "key = '''' \<or> valid_path (fs_refundDoc c key)" "valid_doc d" "fs_plain ?D ?p d" "valid_doc d'"
    using assms(4) by (auto simp: limit_fits_def d_def d'_def)
  have "d ''limit'' = Some (FsInt (max 0 (isub l n)))" "d ''used'' = Some (FsInt m)" by (simp_all add: d_def)
  note written = limit_written [OF _ this]
  have "lg_refunds (fs_ledger c ?D) key \<longleftrightarrow> ?D (fs_refundDoc c key) \<noteq> None" by (simp add: fs_ledger_def)
  moreover have "lg_acct (fs_ledger c ?D) ?p = Some (m, l)" using lm found_acct(1) [of ?p c ?D] assms(5) by auto
  ultimately show ?thesis
    using limit_effect [OF assms(1,2) reads_first_limits(2) r(1) body ok] r(2) ledger_write_refund [OF assms(3)] written
    by (cases "key = ''''") (simp_all add: spec_subtract_def keyed_record del: fs_write.simps)
qed

section \<open>Keys and records\<close>

text \<open>The identifier of a rate limit joins user and resource by an underscore, so different pairs share a limit.\<close>

lemma fs_rate_limit_shared:
  "fs_rateLimitDoc (u @ ''_'' @ v) r = fs_rateLimitDoc u (v @ ''_'' @ r)"
  by (simp add: fs_rateLimitDoc_def)

text \<open>A record of a forever period is read back as one of a monthly period.\<close>

lemma fs_forever_record_monthly:
  "p_Type (cq_Period q) = PeriodTypeForever \<Longrightarrow>
    p_Type (fs_record_period (fs_stored_doc t (fs_consumption_data now q n))) = PeriodTypeMonthly"
  by (simp add: fs_record_period_def fs_consumption_data_def fs_stored_doc_def fs_getString_def)


section \<open>Witnesses\<close>

definition fs_demo_config :: FsConfig where
  "fs_demo_config = \<lparr>fs_EntitlementsCollection = ''e'', fs_UsageCollection = ''u'', fs_RefundsCollection = ''r'',
     fs_ConsumptionsCollection = ''c''\<rparr>"

definition fs_demo_period :: Period where
  "fs_demo_period = \<lparr>p_Start = 0, p_End = 0, p_Type = PeriodTypeForever\<rparr>"

definition fs_demo_charge :: "goint \<Rightarrow> string \<Rightarrow> ConsumeRequest" where
  "fs_demo_charge n key = \<lparr>cq_UserID = ''u'', cq_Resource = ''api'', cq_Amount = n, cq_Tier = ''t'',
     cq_Period = fs_demo_period, cq_Limit = 10, cq_IdempotencyKey = key, cq_IdempotencyKeyTTL = 0\<rparr>"

text \<open>A store with a usage of 8 out of 10, and an entitlement that expires.\<close>

definition fs_demo_store :: FsStore where
  "fs_demo_store = \<lparr>fs_docs = [([''u'', ''u'', ''periods'', ''forever_api''], [''used'' \<mapsto> FsInt 8, ''limit'' \<mapsto> FsInt 10]),
     ([''e'', ''u''], [''tier'' \<mapsto> FsString ''pro'', ''expiresAt'' \<mapsto> FsTime 5000])], fs_clock = 0\<rparr>"

lemma fs_demo_times [simp]: "valid_time 0" "valid_time 86400000000000" "valid_time 7000"
  by (simp_all add: valid_time_def zero_time_def ns_per_sec_def time_Date_def ns_per_day_def month_start_def year_start_def)

lemma fs_demo_paths [simp]:
  "fs_usageDoc fs_demo_config ''u'' ''api'' fs_demo_period = [''u'', ''u'', ''periods'', ''forever_api'']"
  "fs_bucket fs_demo_config (fs_demo_charge n key) = [''u'', ''u'', ''periods'', ''forever_api'']"
  "separate_collections fs_demo_config" "store_up fs_demo_store"
  by (simp_all add: fs_bucket_def fs_usageDoc_def fs_demo_config_def fs_demo_charge_def fs_demo_period_def
      separate_collections_def store_up_def fs_demo_store_def)

lemma fs_demo_fits: "fs_fits fs_demo_config 0 (fs_demo_charge n '''')"  "fs_fits fs_demo_config 0 (fs_demo_charge n ''k'')"
  unfolding fs_fits_def fs_demo_paths
  by (simp_all add: fs_demo_charge_def fs_demo_period_def fs_consumptionDoc_def fs_demo_config_def valid_path_def valid_id_def
      valid_text_def ascii_def fs_record_expiry_def time_Add_def ns_per_sec_def)

lemma fs_demo_limit: "fs_limit_for (store_docs fs_demo_store) (fs_bucket fs_demo_config (fs_demo_charge n key)) 10 = 10"
  by (simp add: fs_limit_for_def store_docs_def fs_demo_store_def fs_getInt_def)

lemma fs_demo_ledger:
  "lg_acct (fs_ledger fs_demo_config (store_docs fs_demo_store)) [''u'', ''u'', ''periods'', ''forever_api''] = Some (8, 10)"
  "lg_done (fs_ledger fs_demo_config (store_docs fs_demo_store)) key = None"
  "lg_refunds (fs_ledger fs_demo_config (store_docs fs_demo_store)) key = False"
  "lg_topUps (fs_ledger fs_demo_config (store_docs fs_demo_store)) key = False"
  by (simp_all add: fs_ledger_def store_docs_def fs_demo_store_def fs_getInt_def fs_consumptionDoc_def fs_refundDoc_def
      fs_topUpDoc_def fs_demo_config_def)


theorem fs_failed_read_forgets_witness:
  "lg_acct (fs_ledger fs_demo_config (fold (fs_write 0) (fst (snd (tx_run (\<lambda>_. FsFailed ErrStorageUnavailable) (store_query fs_demo_store)
      (store_new fs_demo_store) (fs_consume_tx fs_demo_config 0 (fs_demo_charge 3 ''''))))) (store_docs fs_demo_store)))
    [''u'', ''u'', ''periods'', ''forever_api''] = Some (3, 10)"
proof -
  obtain rs ws f e where run: "tx_run (\<lambda>_. FsFailed ErrStorageUnavailable) (store_query fs_demo_store) (store_new fs_demo_store)
      (fs_consume_tx fs_demo_config 0 (fs_demo_charge 3 '''')) = (rs, ws, f, e)" by (metis surj_pair)
  show ?thesis
    using fs_failed_read_forgets [OF _ _ _ _ run, of ErrStorageUnavailable fs_vars 0 "store_docs fs_demo_store"]
    by (simp add: run) (simp add: fs_demo_charge_def int64_ok_def)
qed


text \<open>The entitlement that ended at 5000 is renewed without an end, and still ends then.\<close>

theorem fs_expiry_kept_witness:
  "\<exists>ent. fst (st_GetEntitlement (firestore_storage store_client fs_demo_config) 7000 ''u''
      (snd (st_SetEntitlement (firestore_storage store_client fs_demo_config) 7000
        \<lparr>e_UserID = ''u'', e_Tier = ''pro'', e_SubscriptionStartDate = 0, e_ExpiresAt = None, e_UpdatedAt = 7000\<rparr> fs_demo_store)))
    = Inr ent \<and> e_ExpiresAt ent = Some 5000"
proof -
  let ?ent = "\<lparr>e_UserID = ''u'', e_Tier = ''pro'', e_SubscriptionStartDate = 0, e_ExpiresAt = None, e_UpdatedAt = 7000\<rparr>"
  have ent: "entitlement_fits fs_demo_config ?ent"
    by (simp add: entitlement_fits_def fs_entitlementDoc_def fs_demo_config_def valid_path_def valid_id_def valid_text_def ascii_def)
  obtain s where s: "st_SetEntitlement (firestore_storage store_client fs_demo_config) 7000 ?ent fs_demo_store = (None, s)"
    by (simp add: firestore_storage_def fs_SetEntitlement_def store_client_def)
  obtain r s' where r: "st_GetEntitlement (firestore_storage store_client fs_demo_config) 7000 (e_UserID ?ent) s = (r, s')" by fastforce
  have "store_docs fs_demo_store (fs_entitlementDoc fs_demo_config ''u'')
      = Some [''tier'' \<mapsto> FsString ''pro'', ''expiresAt'' \<mapsto> FsTime 5000]"
    by (simp add: store_docs_def fs_demo_store_def fs_entitlementDoc_def fs_demo_config_def)
  with fs_expiry_kept [OF store.firestore_client_axioms _ ent s r] r show ?thesis
    by (simp add: s fs_optTime_def zero_time_def ns_per_sec_def)
qed

definition fs_demo_tier :: TierChangeRequest where
  "fs_demo_tier = \<lparr>tq_UserID = ''u'', tq_Resource = ''api'', tq_OldTier = ''t'', tq_NewTier = ''pro'', tq_Period = fs_demo_period,
     tq_OldLimit = 10, tq_NewLimit = 100, tq_CurrentUsed = 8\<rparr>"

theorem fs_tier_change_misses_witness:
  "lg_acct (fs_ledger fs_demo_config (store_docs (snd (st_ApplyTierChange (firestore_storage store_client fs_demo_config) 0
      fs_demo_tier fs_demo_store)))) [''u'', ''u'', ''periods'', ''forever_audio_seconds''] = Some (8, 100)"
proof -
  obtain e s where run: "st_ApplyTierChange (firestore_storage store_client fs_demo_config) 0 fs_demo_tier fs_demo_store = (e, s)"
    by fastforce
  have path: "fs_usageDoc fs_demo_config (tq_UserID fs_demo_tier) ''audio_seconds'' (tq_Period fs_demo_tier)
      = [''u'', ''u'', ''periods'', ''forever_audio_seconds'']"
    by (simp add: fs_usageDoc_def fs_demo_config_def fs_demo_tier_def fs_demo_period_def)
  have fits: "tier_fits fs_demo_config 0 fs_demo_tier"
    unfolding tier_fits_def path
    by (simp add: fs_demo_tier_def fs_demo_period_def valid_path_def valid_id_def valid_text_def ascii_def)
  from fs_tier_change_misses [OF store.firestore_client_axioms _ _ fits run] show ?thesis
    unfolding path by (simp add: run) (simp add: fs_demo_tier_def store_docs_def fs_demo_store_def)
qed

definition fs_demo_window :: RateLimitRequest where
  "fs_demo_window = \<lparr>rq_UserID = ''u'', rq_Resource = ''api'', rq_Algorithm = ''sliding_window'', rq_Rate = 1, rq_Window = 1000,
     rq_Burst = 0, rq_Now = 0\<rparr>"

lemma fs_demo_in_window: "fs_matches (store_docs fs_demo_store) [''rate_limits'', ''u_api'', ''timestamps''] ''timestamp'' t = {}"
  by (auto simp: fs_matches_def store_docs_def fs_demo_store_def split: if_splits)

lemma fs_demo_window_simps:
  "window_request fs_demo_window" "window_ref fs_demo_window = [''rate_limits'', ''u_api'', ''timestamps'']"
  "in_window (store_docs fs_demo_store) fs_demo_window = {}"
proof -
  show ref: "window_ref fs_demo_window = [''rate_limits'', ''u_api'', ''timestamps'']"
    by (simp add: window_ref_def fs_timestampsRef_def fs_rateLimitDoc_def fs_demo_window_def)
  show "window_request fs_demo_window"
    by (simp add: window_request_def fs_demo_window_def int64_ok_def fs_rateLimitDoc_def valid_path_def valid_id_def ascii_def)
  show "in_window (store_docs fs_demo_store) fs_demo_window = {}"
    by (simp add: in_window_def ref fs_demo_in_window)
qed

theorem fs_window_sequential_witness:
  "\<exists>reset. fst (st_CheckRateLimit (firestore_storage store_client fs_demo_config) 0 fs_demo_window fs_demo_store) = Inr (True, 0, reset)"
proof -
  obtain r s where run: "st_CheckRateLimit (firestore_storage store_client fs_demo_config) 0 fs_demo_window fs_demo_store = (r, s)"
    by fastforce
  have "{i. store_docs fs_demo_store (window_ref fs_demo_window @ [i]) \<noteq> None} = {}"
    by (auto simp: fs_demo_window_simps store_docs_def fs_demo_store_def split: if_splits)
  then have "fs_room (store_docs fs_demo_store) (window_ref fs_demo_window)" by (simp add: fs_room_def)
  moreover have "rq_Rate fs_demo_window = 1" by (simp add: fs_demo_window_def)
  ultimately show ?thesis
    using fs_window_sequential [OF store.firestore_client_axioms _ fs_demo_window_simps(1) _ run]
    by (auto simp: run fs_demo_window_simps)
qed

text \<open>Two requests with a rate of 1.\<close>

theorem fs_window_race_witness:
  "\<exists>ws ws'. int (card (in_window (fold (fs_write 0) ws' (fold (fs_write 0) ws (store_docs fs_demo_store))) fs_demo_window)) = 2"
proof -
  let ?tx = "\<lambda>i. tx_run (fs_snapshot (store_docs fs_demo_store)) (store_query fs_demo_store) (\<lambda>p. p @ [i])
      (fs_rate_tx 0 fs_demo_window)"
  obtain rs ws f e where run: "?tx ''a'' = (rs, ws, f, e)" by (metis surj_pair)
  obtain rs' ws' f' e' where run': "?tx ''b'' = (rs', ws', f', e')" by (metis surj_pair)
  have free: "store_docs fs_demo_store (window_ref fs_demo_window @ [i]) = None" for i
    by (simp add: fs_demo_window_simps store_docs_def fs_demo_store_def)
  have answer: "fs_answer (store_docs fs_demo_store) (window_ref fs_demo_window) ''timestamp'' (rq_Now fs_demo_window - rq_Window fs_demo_window)
      (iadd (rq_Rate fs_demo_window) 1) (window_query (store_query fs_demo_store) fs_demo_window)"
    unfolding window_query_def window_cutoff [OF fs_demo_window_simps(1)] by (rule store_answer) simp
  have one: "int (card (in_window (store_docs fs_demo_store) fs_demo_window)) = rq_Rate fs_demo_window - 1"
    by (simp add: fs_demo_window_simps) (simp add: fs_demo_window_def)
  have "rq_Rate fs_demo_window + 1 = 2" by (simp add: fs_demo_window_def)
  then show ?thesis
    using fs_window_race [OF fs_demo_window_simps(1) one answer answer refl refl _ free free run run', of fs_vars 0 0] by auto
qed


definition fs_demo_refund :: RefundRequest where
  "fs_demo_refund = \<lparr>rr_UserID = ''u'', rr_Resource = ''api'', rr_Amount = 3, rr_PeriodType = PeriodTypeForever,
     rr_Period = fs_demo_period, rr_IdempotencyKey = ''k'', rr_IdempotencyKeyTTL = 0, rr_Reason = '''', rr_Metadata = []\<rparr>"

lemma fs_demo_used: "store_docs fs_demo_store [''u'', ''u'', ''periods'', ''forever_api''] \<noteq> None"
  by (simp add: store_docs_def fs_demo_store_def)

lemma fs_demo_valid:
  "valid_path [''u'', ''u'', ''periods'', ''forever_api'']" "valid_path [''r'', ''k'']" "valid_path [''top_up_records'', ''k'']"
  "valid_text ''u''" "valid_text ''api''" "valid_text ''k''" "valid_text ''forever''" "valid_text ''''"
  by (simp_all add: valid_path_def valid_id_def valid_text_def ascii_def)

text \<open>The refund of 3 leaves a usage of 5.\<close>

theorem fs_refund_refines_witness:
  "lg_acct (fs_ledger fs_demo_config (store_docs (snd (st_RefundQuota (firestore_storage store_client fs_demo_config) 0
      fs_demo_refund fs_demo_store)))) [''u'', ''u'', ''periods'', ''forever_api''] = Some (5, 10)"
proof -
  obtain e s where run: "st_RefundQuota (firestore_storage store_client fs_demo_config) 0 fs_demo_refund fs_demo_store = (e, s)"
    by fastforce
  have path: "fs_refunded fs_demo_config fs_demo_refund = [''u'', ''u'', ''periods'', ''forever_api'']"
    by (simp add: fs_refunded_def fs_demo_refund_def)
  have fits: "refund_fits fs_demo_config 0 fs_demo_refund"
    unfolding refund_fits_def path
    by (simp add: fs_demo_refund_def fs_demo_valid fs_refundDoc_def fs_demo_config_def fs_demo_period_def fs_record_expiry_def
        time_Add_def ns_per_sec_def)
  have "p_Start (rr_Period fs_demo_refund) \<noteq> zero_time" "p_Type (rr_Period fs_demo_refund) \<noteq> PeriodTypeOther ''''"
    "0 < rr_Amount fs_demo_refund" "isub 8 (rr_Amount fs_demo_refund) = 5"
    by (simp_all add: fs_demo_refund_def fs_demo_period_def zero_time_def ns_per_sec_def isub_id int64_ok_def)
  moreover from fs_refund_refines [OF store.firestore_client_axioms _ _ fits calculation(1,2) _ run]
  have "spec_refund [''u'', ''u'', ''periods'', ''forever_api''] fs_demo_refund (fs_ledger fs_demo_config (store_docs fs_demo_store))
      = (e, fs_ledger fs_demo_config (store_docs s))"
    using fs_demo_used by (simp add: path)
  then have "fs_ledger fs_demo_config (store_docs s) = snd (spec_refund [''u'', ''u'', ''periods'', ''forever_api''] fs_demo_refund
      (fs_ledger fs_demo_config (store_docs fs_demo_store)))" by simp
  ultimately show ?thesis by (simp add: run spec_refund_def fs_demo_ledger)
qed

lemma fs_demo_limit_fits:
  "limit_fits fs_demo_config 0 ''u'' ''api'' fs_demo_period ''k'' (fs_topUpDoc ''k'')"
  "limit_fits fs_demo_config 0 ''u'' ''api'' fs_demo_period ''k'' (fs_refundDoc fs_demo_config ''k'')"
  unfolding limit_fits_def fs_demo_paths
  by (simp_all add: fs_demo_valid fs_demo_period_def fs_refundDoc_def fs_topUpDoc_def fs_demo_config_def)

theorem fs_add_refines_witness:
  "lg_acct (fs_ledger fs_demo_config (store_docs (snd (st_AddLimit (firestore_storage store_client fs_demo_config) 0
      ''u'' ''api'' 5 fs_demo_period ''k'' fs_demo_store)))) [''u'', ''u'', ''periods'', ''forever_api''] = Some (8, 15)"
proof -
  obtain e s where run: "st_AddLimit (firestore_storage store_client fs_demo_config) 0 ''u'' ''api'' 5 fs_demo_period ''k'' fs_demo_store
      = (e, s)" by fastforce
  have n: "int64_ok 5" "iadd 10 5 = 15" by (simp_all add: iadd_id int64_ok_def)
  from fs_add_refines [OF store.firestore_client_axioms _ _ fs_demo_limit_fits(1) n(1) run]
  have "fs_ledger fs_demo_config (store_docs s) = snd (spec_add [''u'', ''u'', ''periods'', ''forever_api''] 5 ''k''
      (fs_ledger fs_demo_config (store_docs fs_demo_store)))" by simp
  then show ?thesis by (simp add: run spec_add_def fs_demo_ledger n)
qed

theorem fs_subtract_refines_witness:
  "lg_acct (fs_ledger fs_demo_config (store_docs (snd (st_SubtractLimit (firestore_storage store_client fs_demo_config) 0
      ''u'' ''api'' 15 fs_demo_period ''k'' fs_demo_store)))) [''u'', ''u'', ''periods'', ''forever_api''] = Some (8, 0)"
proof -
  obtain e s where run: "st_SubtractLimit (firestore_storage store_client fs_demo_config) 0 ''u'' ''api'' 15 fs_demo_period ''k'' fs_demo_store
      = (e, s)" by fastforce
  have n: "isub 10 15 = -5" by (simp add: isub_id int64_ok_def)
  from fs_subtract_refines [OF store.firestore_client_axioms _ _ fs_demo_limit_fits(2) _ run] fs_demo_used
  have "fs_ledger fs_demo_config (store_docs s) = snd (spec_subtract [''u'', ''u'', ''periods'', ''forever_api''] 15 ''k''
      (fs_ledger fs_demo_config (store_docs fs_demo_store)))" by simp
  then show ?thesis by (simp add: run spec_subtract_def fs_demo_ledger n)
qed

end
