(* ===== verification/BillingBase.thy ===== *)
theory BillingBase
  imports HttpMiddleware
begin

text \<open>
  What the billing providers share: \<open>pkg/billing\<close> (the webhook event, the metrics, the errors) and
  \<open>pkg/billing/internal\<close> (the limiter in front of the webhook handlers and the reader of request
  bodies), with the functions of \<open>strings\<close> and \<open>time\<close> the providers use.

  A provider works on a \<open>BillingWorld\<close>: the world of its manager, the limiter, the trace of billing
  metrics, and everything outside of the program that it calls (the application's callback, the
  payment service), whose state is of a type \<open>'c\<close>. Durations of metrics are left out. Texts are
  ASCII: \<open>ToLower\<close>, \<open>EqualFold\<close> and \<open>TrimSpace\<close> treat the other characters like letters without case.
\<close>

section \<open>Texts\<close>

text \<open>\<open>strings.ToLower\<close>, \<open>strings.EqualFold\<close>, \<open>strings.TrimSpace\<close>, \<open>strings.Contains\<close>, \<open>strings.HasPrefix\<close>\<close>

definition ToLower :: "string \<Rightarrow> string" where "ToLower s = map to_lower s"

definition EqualFold :: "string \<Rightarrow> string \<Rightarrow> bool" where "EqualFold s t \<longleftrightarrow> ToLower s = ToLower t"

definition is_space :: "char \<Rightarrow> bool" where
  "is_space c \<longleftrightarrow> char_code c \<in> set [9, 10, 11, 12, 13, 32]"

definition TrimSpace :: "string \<Rightarrow> string" where
  "TrimSpace s = rev (dropWhile is_space (rev (dropWhile is_space s)))"

fun HasPrefix :: "string \<Rightarrow> string \<Rightarrow> bool" where
  "HasPrefix s [] \<longleftrightarrow> True"
| "HasPrefix [] (d # p) \<longleftrightarrow> False"
| "HasPrefix (c # s) (d # p) \<longleftrightarrow> c = d \<and> HasPrefix s p"

fun Contains :: "string \<Rightarrow> string \<Rightarrow> bool" where
  "Contains [] p \<longleftrightarrow> p = []"
| "Contains (c # s) p \<longleftrightarrow> HasPrefix (c # s) p \<or> Contains s p"

text \<open>A token after \<open>bearer\<close> in any case: what the code strips from secrets and headers.\<close>

definition strip_bearer :: "string \<Rightarrow> string" where
  "strip_bearer s = (if HasPrefix (ToLower s) ''bearer '' then TrimSpace (drop 7 s) else s)"

section \<open>Times\<close>

text \<open>\<open>t.AddDate(years, months, days)\<close>, and \<open>time.Unix(sec, 0)\<close>.\<close>

definition time_AddDate :: "time \<Rightarrow> int \<Rightarrow> int \<Rightarrow> int \<Rightarrow> time" where
  "time_AddDate t years months days =
     time_Date (time_Year t + years) (time_Month t + months) (time_Day t + days)
       (time_Hour t) (time_Minute t) (time_Second t) (time_Nanosecond t)"

definition unix_time :: "goint \<Rightarrow> time" where "unix_time sec = sec * ns_per_sec"

text \<open>
  \<open>time.Parse\<close> with \<open>time.RFC3339\<close> or \<open>time.RFC3339Nano\<close>, which accept the same texts: an hour may have
  one digit, a fraction of any length may follow the seconds after a point or a comma, and its
  digits after the ninth are dropped.
\<close>

definition is_digit :: "char \<Rightarrow> bool" where "is_digit c \<longleftrightarrow> 48 \<le> char_code c \<and> char_code c \<le> 57"

definition digit_value :: "char \<Rightarrow> int" where "digit_value c = int (char_code c) - 48"

fun getnum :: "bool \<Rightarrow> string \<Rightarrow> (int \<times> string) option" where
  "getnum fixed [] = None"
| "getnum fixed [c] = (if is_digit c \<and> \<not> fixed then Some (digit_value c, []) else None)"
| "getnum fixed (c # d # s) =
     (if \<not> is_digit c then None
      else if is_digit d then Some (10 * digit_value c + digit_value d, s)
      else if fixed then None else Some (digit_value c, d # s))"

fun skip_char :: "char \<Rightarrow> string \<Rightarrow> string option" where
  "skip_char c [] = None"
| "skip_char c (d # s) = (if d = c then Some s else None)"

definition parse_year :: "string \<Rightarrow> (int \<times> string) option" where
  "parse_year s = (if length s \<ge> 4 \<and> list_all is_digit (take 4 s)
     then Some (int (read_nat (take 4 s)), drop 4 s) else None)"

definition parse_fraction :: "string \<Rightarrow> int \<times> string" where
  "parse_fraction s = (case s of
     c # d # r \<Rightarrow>
       if (c = CHR ''.'' \<or> c = CHR '','') \<and> is_digit d
       then (let ds = take 9 (takeWhile is_digit (d # r))
             in (int (read_nat ds) * 10 ^ (9 - length ds), dropWhile is_digit (d # r)))
       else (0, s)
   | _ \<Rightarrow> (0, s))"

definition parse_zone :: "string \<Rightarrow> (int \<times> string) option" where
  "parse_zone s =
     (if s \<noteq> [] \<and> hd s = CHR ''Z'' then Some (0, tl s)
      else if length s < 6 \<or> s ! 3 \<noteq> CHR '':'' then None
      else case (getnum True (take 2 (drop 1 s)), getnum True (take 2 (drop 4 s))) of
        (Some (hr, _), Some (mm, _)) \<Rightarrow>
          if hr > 24 \<or> mm > 60 then None
          else if hd s = CHR ''+'' then Some ((hr * 60 + mm) * 60, drop 6 s)
          else if hd s = CHR ''-'' then Some (- ((hr * 60 + mm) * 60), drop 6 s)
          else None
      | _ \<Rightarrow> None)"

definition time_ParseRFC3339 :: "string \<Rightarrow> time option" where
  "time_ParseRFC3339 s = do {
     (year, s) \<leftarrow> parse_year s;
     s \<leftarrow> skip_char (CHR ''-'') s;
     (month, s) \<leftarrow> getnum True s;
     s \<leftarrow> skip_char (CHR ''-'') s;
     (day, s) \<leftarrow> getnum True s;
     s \<leftarrow> skip_char (CHR ''T'') s;
     (hour, s) \<leftarrow> getnum False s;
     s \<leftarrow> skip_char (CHR '':'') s;
     (minute, s) \<leftarrow> getnum True s;
     s \<leftarrow> skip_char (CHR '':'') s;
     (second, s) \<leftarrow> getnum True s;
     let (nsec, s) = parse_fraction s;
     (offset, s) \<leftarrow> parse_zone s;
     if s \<noteq> [] \<or> month < 1 \<or> 12 < month \<or> day < 1 \<or> days_in_month (12 * year + (month - 1)) < day
       \<or> 24 \<le> hour \<or> 60 \<le> minute \<or> 60 \<le> second
     then None
     else Some (time_Date year month day hour minute second nsec - offset * ns_per_sec)
   }"

section \<open>Errors, events and metrics\<close>

text \<open>\<open>err.Error()\<close>\<close>

fun error_text :: "goerr \<Rightarrow> string" where
  "error_text ErrQuotaExceeded = ''quota exceeded''"
| "error_text ErrInvalidTier = ''invalid tier''"
| "error_text ErrInvalidAmount = ''invalid amount''"
| "error_text ErrEntitlementNotFound = ''entitlement not found''"
| "error_text ErrStorageUnavailable = ''storage unavailable''"
| "error_text ErrInvalidPeriod = ''invalid period''"
| "error_text ErrFallbackUnavailable = ''fallback unavailable''"
| "error_text ErrStaleCache = ''stale cache''"
| "error_text ErrOptimisticLimitExceeded = ''optimistic limit exceeded''"
| "error_text ErrRateLimitExceeded = ''rate limit exceeded''"
| "error_text ErrIdempotencyKeyExists = ''idempotency key already exists - operation already processed''"
| "error_text ErrCircuitOpen = ''circuit breaker is open''"
| "error_text ErrContextCanceled = ''context canceled''"
| "error_text ErrContextDeadlineExceeded = ''context deadline exceeded''"
| "error_text (RateLimitExceededError _ _) = ''rate limit exceeded''"
| "error_text (ErrText s) = s"
| "error_text (Wrapped s e) = s @ '': '' @ error_text e"
| "error_text (GoPanic s) = s"

text \<open>The sentinel errors of \<open>pkg/billing\<close> and of its \<open>internal\<close> package, which no other text equals.\<close>

definition ErrProviderNotConfigured :: goerr where "ErrProviderNotConfigured = ErrText ''billing provider not configured''"
definition ErrUserNotFound :: goerr where "ErrUserNotFound = ErrText ''user not found in billing provider''"
definition ErrTierNotConfigured :: goerr where "ErrTierNotConfigured = ErrText ''tier not configured in tier mapping''"
definition ErrCustomerNotFound :: goerr where "ErrCustomerNotFound = ErrText ''customer not found in billing provider''"
definition ErrNotSupported :: goerr where "ErrNotSupported = ErrText ''operation not supported by this provider''"
definition ErrPayloadTooLarge :: goerr where "ErrPayloadTooLarge = ErrText ''payload too large''"

lemmas billing_error_defs = ErrProviderNotConfigured_def ErrUserNotFound_def ErrTierNotConfigured_def
  ErrCustomerNotFound_def ErrNotSupported_def ErrPayloadTooLarge_def

datatype meta_value = MetaText string | MetaMap "(string \<times> string) list"

record WebhookEvent =
  we_UserID :: string
  we_PreviousTier :: string
  we_NewTier :: string
  we_Provider :: string
  we_EventType :: string
  we_EventTimestamp :: time
  we_ExpiresAt :: "time option"
  we_Metadata :: "(string \<times> meta_value) list"

text \<open>The calls of the \<open>Metrics\<close> interface, with their provider, but for the durations.\<close>

datatype billing_metric =
    RecordWebhookEvent string string string
  | RecordWebhookError string string
  | RecordUserSync string string
  | RecordTierChange string string string
  | RecordAPICall string string string
  | RecordCheckoutSessionCreated string string string
  | RecordCheckoutSessionCompleted string string string
  | RecordPortalSessionCreated string
  | RecordCreditPackPurchase string string string
  | RecordRevenueEstimate string string string float64


section \<open>The limiter in front of the webhooks\<close>

text \<open>
  \<open>internal.RateLimiter\<close>: a counter per client address, kept until its window is over and a request
  or a cleanup meets it. Every method holds the mutex, so it is one step.
\<close>

record bucket =
  bk_count :: goint
  bk_resetAt :: time

record WebhookLimiter =
  wl_requests :: "(string \<times> bucket) list"
  wl_limit :: goint
  wl_window :: duration
  wl_requestCount :: goint
  wl_cleanupEvery :: goint
  wl_cleanupAtSize :: goint

definition wl_NewRateLimiter :: "goint \<Rightarrow> duration \<Rightarrow> WebhookLimiter" where
  "wl_NewRateLimiter limit window =
     \<lparr>wl_requests = [], wl_limit = limit, wl_window = window, wl_requestCount = 0,
      wl_cleanupEvery = 100, wl_cleanupAtSize = 200\<rparr>"

definition cleanupExpired :: "time \<Rightarrow> WebhookLimiter \<Rightarrow> WebhookLimiter" where
  "cleanupExpired now rl =
     rl\<lparr>wl_requests := filter (\<lambda>(ip, b). \<not> now > bk_resetAt b) (wl_requests rl)\<rparr>"

text \<open>The part of \<open>allow\<close> before the lookup: the counter, and the cleanup when it is due.\<close>

definition wl_housekeeping :: "time \<Rightarrow> WebhookLimiter \<Rightarrow> WebhookLimiter" where
  "wl_housekeeping now rl =
     (let rl = rl\<lparr>wl_requestCount := iadd (wl_requestCount rl) 1\<rparr>;
          shouldCleanup = (irem (wl_requestCount rl) (wl_cleanupEvery rl) = 0
            \<or> int (length (wl_requests rl)) > wl_cleanupAtSize rl)
      in if shouldCleanup
         then (let rl = cleanupExpired now rl
               in if wl_requestCount rl \<ge> wl_cleanupEvery rl * 10 then rl\<lparr>wl_requestCount := 0\<rparr> else rl)
         else rl)"

definition wl_decide :: "time \<Rightarrow> string \<Rightarrow> WebhookLimiter \<Rightarrow> bool \<times> WebhookLimiter" where
  "wl_decide now ip rl =
     (let put = (\<lambda>b. rl\<lparr>wl_requests := AList.update ip b (wl_requests rl)\<rparr>);
          fresh = (True, put \<lparr>bk_count = 1, bk_resetAt = time_Add now (wl_window rl)\<rparr>)
      in case map_of (wl_requests rl) ip of
           None \<Rightarrow> fresh
         | Some b \<Rightarrow>
             if now > bk_resetAt b then fresh
             else if bk_count b \<ge> wl_limit rl then (False, rl)
             else (True, put (b\<lparr>bk_count := iadd (bk_count b) 1\<rparr>)))"

definition wl_allow :: "time \<Rightarrow> string \<Rightarrow> WebhookLimiter \<Rightarrow> bool \<times> WebhookLimiter" where
  "wl_allow now ip rl = wl_decide now ip (wl_housekeeping now rl)"

definition wl_Cleanup :: "time \<Rightarrow> WebhookLimiter \<Rightarrow> WebhookLimiter" where
  "wl_Cleanup now rl = cleanupExpired now rl"

section \<open>The world of a provider\<close>

record ('s, 't, 'c) BillingWorld =
  bw_manager :: "('s, 't) World"
  bw_limiter :: WebhookLimiter
  bw_metrics :: "billing_metric list"
  bw_outside :: 'c

type_synonym ('s, 't, 'c, 'a) billing = "(('s, 't, 'c) BillingWorld, 'a) state"

definition on_manager :: "('s, 't, 'a) call \<Rightarrow> ('s, 't, 'c, 'a) billing" where
  "on_manager f = State (\<lambda>w. let (r, m) = run_state f (bw_manager w) in (r, w\<lparr>bw_manager := m\<rparr>))"

definition on_outside :: "('c \<Rightarrow> 'a \<times> 'c) \<Rightarrow> ('s, 't, 'c, 'a) billing" where
  "on_outside f = State (\<lambda>w. let (r, c) = f (bw_outside w) in (r, w\<lparr>bw_outside := c\<rparr>))"

definition on_limiter :: "(WebhookLimiter \<Rightarrow> 'a \<times> WebhookLimiter) \<Rightarrow> ('s, 't, 'c, 'a) billing" where
  "on_limiter f = State (\<lambda>w. let (r, l) = f (bw_limiter w) in (r, w\<lparr>bw_limiter := l\<rparr>))"

definition record_billing :: "billing_metric \<Rightarrow> ('s, 't, 'c, unit) billing" where
  "record_billing ev = State (\<lambda>w. ((), w\<lparr>bw_metrics := ev # bw_metrics w\<rparr>))"

definition when_so :: "bool \<Rightarrow> ('s, 't, 'c, unit) billing \<Rightarrow> ('s, 't, 'c, unit) billing" where
  "when_so b c = (if b then c else State_Monad.return ())"

lemma run_billing [simp]:
  "run_state (on_manager f) w =
     (fst (run_state f (bw_manager w)), w\<lparr>bw_manager := snd (run_state f (bw_manager w))\<rparr>)"
  "run_state (on_outside g) w = (fst (g (bw_outside w)), w\<lparr>bw_outside := snd (g (bw_outside w))\<rparr>)"
  "run_state (on_limiter h) w = (fst (h (bw_limiter w)), w\<lparr>bw_limiter := snd (h (bw_limiter w))\<rparr>)"
  "run_state (record_billing ev) w = ((), w\<lparr>bw_metrics := ev # bw_metrics w\<rparr>)"
  "run_state (when_so b c) w = (if b then run_state c w else ((), w))"
  by (simp_all add: on_manager_def on_outside_def on_limiter_def record_billing_def when_so_def
      case_prod_unfold Let_def)

definition sync_metric :: "string \<Rightarrow> string \<Rightarrow> ('s, 't, 'c, unit) billing" where
  "sync_metric provider status = record_billing (RecordUserSync provider status)"

text \<open>The callback of the application, a function on the outside world.\<close>

type_synonym 'c webhook_callback = "WebhookEvent \<Rightarrow> 'c \<Rightarrow> goerr option \<times> 'c"

definition invokeWebhookCallback :: "'c webhook_callback option \<Rightarrow> string \<Rightarrow> string \<Rightarrow> string \<Rightarrow> string \<Rightarrow> string
    \<Rightarrow> time \<Rightarrow> time option \<Rightarrow> (string \<times> meta_value) list \<Rightarrow> ('s, 't, 'c, goerr option) billing" where
  "invokeWebhookCallback callback provider userID previousTier newTier eventType eventTimestamp expiresAt metadata =
     (case callback of
        None \<Rightarrow> State_Monad.return None
      | Some f \<Rightarrow> on_outside (f \<lparr>we_UserID = userID, we_PreviousTier = previousTier, we_NewTier = newTier,
          we_Provider = provider, we_EventType = eventType, we_EventTimestamp = eventTimestamp,
          we_ExpiresAt = expiresAt, we_Metadata = metadata\<rparr>))"

text \<open>
  \<open>billing.Config\<close>: a map the providers range over is an association list, in the order of that loop.
  An HTTP client sends a GET request for a URL with headers; the answer has a status and a body that
  may fail to be read.
\<close>

record HttpResponse =
  hp_StatusCode :: goint
  hp_Body :: "goerr + string"

type_synonym 'c HttpClient = "string \<Rightarrow> (string \<times> string) list \<Rightarrow> 'c \<Rightarrow> (goerr + HttpResponse) \<times> 'c"

record ('s, 't, 'c) BillingConfig =
  bc_Manager :: "('s, 't) Manager option"
  bc_TierMapping :: "(string \<times> string) list"
  bc_WebhookSecret :: string
  bc_APIKey :: string
  bc_HTTPClient :: "'c HttpClient option"
  bc_EnableHMAC :: bool
  bc_WebhookCallback :: "'c webhook_callback option"

text \<open>The tier mapping with its keys in lower case, and the default tier it names.\<close>

definition lower_mapping :: "(string \<times> string) list \<Rightarrow> (string \<times> string) list" where
  "lower_mapping tm = fold (\<lambda>(k, v) m. AList.update (ToLower k) v m) tm []"

definition mapped_default :: "string \<Rightarrow> (string \<times> string) list \<Rightarrow> string" where
  "mapped_default defaultTierName tm = (case map_of tm ''*'' of
     Some t \<Rightarrow> t
   | None \<Rightarrow> (case map_of tm ''default'' of Some t \<Rightarrow> t | None \<Rightarrow> defaultTierName))"

text \<open>The tier before an update, and the start date of the subscription after it.\<close>

definition tier_before :: "string \<Rightarrow> Entitlement option \<Rightarrow> string" where
  "tier_before defaultTier existing = (case existing of Some e \<Rightarrow> e_Tier e | None \<Rightarrow> defaultTier)"

definition start_date :: "Entitlement option \<Rightarrow> bool \<Rightarrow> time \<Rightarrow> time" where
  "start_date existing paid purchased = (case existing of
     Some e \<Rightarrow> if e_SubscriptionStartDate e \<noteq> zero_time then e_SubscriptionStartDate e
              else if paid then startOfDayUTC purchased else zero_time
   | None \<Rightarrow> if paid then startOfDayUTC purchased else zero_time)"

text \<open>
  The idempotency of webhook events by their time: an update runs with the existing entitlement, unless
  that is not older than the event.
\<close>

definition if_newer :: "('s, 't) Manager \<Rightarrow> time \<Rightarrow> string \<Rightarrow> time
    \<Rightarrow> (Entitlement option \<Rightarrow> ('s, 't, 'c, goerr option) billing) \<Rightarrow> ('s, 't, 'c, goerr option) billing" where
  "if_newer m now userID eventTimestamp update = do {
     r \<leftarrow> on_manager (GetEntitlement m now userID);
     case r of
       Inl err \<Rightarrow> if err \<noteq> ErrEntitlementNotFound then State_Monad.return (Some err) else update None
     | Inr e \<Rightarrow> if \<not> eventTimestamp > e_UpdatedAt e then State_Monad.return None else update (Some e)
   }"

section \<open>Webhook requests\<close>

record WebhookRequest = HttpRequest +
  wr_Method :: string
  wr_RemoteAddr :: string

definition MethodPost :: string where "MethodPost = ''POST''"
definition StatusMethodNotAllowed :: goint where "StatusMethodNotAllowed = 405"
definition StatusRequestTimeout :: goint where "StatusRequestTimeout = 408"
definition StatusRequestEntityTooLarge :: goint where "StatusRequestEntityTooLarge = 413"
definition StatusServiceUnavailable :: goint where "StatusServiceUnavailable = 503"

definition GetClientIP :: "WebhookRequest \<Rightarrow> string" where
  "GetClientIP r =
     (let xff = header_Get ''X-Forwarded-For'' (hr_Header r);
          ip = takeWhile (\<lambda>c. c \<noteq> CHR '','') xff
      in if xff \<noteq> '''' \<and> ip \<noteq> '''' then TrimSpace ip else wr_RemoteAddr r)"

text \<open>
  \<open>RateLimiter.Middleware\<close>. A handler answers (\<open>Stopped\<close>) or panics (\<open>Panicked\<close>), on the response
  writer it is given.
\<close>

type_synonym ('s, 't, 'c) handler =
  "string ResponseWriter \<Rightarrow> WebhookRequest \<Rightarrow> ('s, 't, 'c, string ResponseWriter outcome) billing"

definition wl_Middleware :: "time \<Rightarrow> ('s, 't, 'c) handler \<Rightarrow> ('s, 't, 'c) handler" where
  "wl_Middleware now next_handler w r = do {
     ok \<leftarrow> on_limiter (wl_allow now (GetClientIP r));
     if \<not> ok then State_Monad.return (Stopped (http_Error ''rate limit exceeded'' StatusTooManyRequests w))
     else next_handler w r
   }"

text \<open>
  \<open>ReadBodyStrict\<close> with \<open>http.MaxBytesReader\<close>: a body longer than the limit is an error, whatever
  would have come after, and the server then closes the connection. A server's request always has a
  body; without one the reader panics. (The text of the first error has its parts in another order.)
\<close>

definition ReadBodyStrict :: "goint \<Rightarrow> string ResponseWriter \<Rightarrow> WebhookRequest
    \<Rightarrow> (goerr + string) \<times> string ResponseWriter" where
  "ReadBodyStrict limit w r = (case hr_Body r of
     None \<Rightarrow> (Inl (GoPanic ''nil pointer dereference''), w)
   | Some body \<Rightarrow>
       if int (length (fst body)) > limit
       then (Inl (Wrapped ('' (max '' @ show_int limit @ '' bytes)'') ErrPayloadTooLarge), set_header ''Connection'' ''close'' w)
       else case ReadAll body of
         Inl err \<Rightarrow> (Inl err, w)
       | Inr body \<Rightarrow> if body = '''' then (Inl (ErrText ''empty body''), w) else (Inr body, w))"

definition setSecurityHeaders :: "string ResponseWriter \<Rightarrow> string ResponseWriter" where
  "setSecurityHeaders w = set_header ''X-Content-Type-Options'' ''nosniff'' (set_header ''Cache-Control'' ''no-store'' w)"

text \<open>An answer that is an error, and the one that is \<open>ok\<close>, with the error of its write.\<close>

definition answer_error :: "string \<Rightarrow> goint \<Rightarrow> string ResponseWriter
    \<Rightarrow> ('s, 't, 'c, string ResponseWriter outcome) billing" where
  "answer_error msg code w = State_Monad.return (Stopped (http_Error msg code w))"

definition write_ok :: "string ResponseWriter \<Rightarrow> goerr option \<times> string ResponseWriter" where
  "write_ok w = rw_Write ''ok'' (WriteHeader StatusOK w)"

end
