(* ===== verification/RevenueCat.thy ===== *)
theory RevenueCat
  imports BillingBase
begin

text \<open>
  The RevenueCat provider, \<open>pkg/billing/revenuecat\<close>: construction, the webhook handler with its
  authentication, the tier of an event, the update of the entitlement, and the synchronisation from
  the provider's API. Base64, HMAC-SHA256, JSON decoding, the parsing of URLs and the default HTTP
  client are parameters (\<open>RCLibrary\<close>). A method takes one clock reading, in the zone UTC.
\<close>

section \<open>Data\<close>

record rcEvent =
  ev_ID :: string
  ev_Type :: string
  ev_AppUserID :: string
  ev_EntitlementID :: string
  ev_EntitlementIDs :: "string list"
  ev_ProductID :: string
  ev_ExpirationReason :: string
  ev_ExpirationAtMs :: goint
  ev_TimestampMs :: goint
  ev_EventTimestampMs :: goint
  ev_PurchaseDateMs :: goint
  ev_PurchasedAtMs :: goint

record rcEntitlement =
  en_ProductIdentifier :: string
  en_IsActive :: bool
  en_ExpiresDate :: time
  en_ExpiresDateRaw :: string

text \<open>A container is \<open>None\<close> for a nil pointer; a nil map is an empty list.\<close>

record webhookPayload =
  wp_Event :: rcEvent
  wp_Subscriber :: "(string \<times> rcEntitlement) list option"
  wp_CustomerInfo :: "(string \<times> rcEntitlement) list option"

record revenueCatEntitlement =
  re_ExpiresDate :: "string option"
  re_ProductIdentifier :: string
  re_PurchaseDate :: "string option"

type_synonym revenueCatSubscriber = "(string \<times> revenueCatEntitlement) list"

text \<open>
  \<open>lib_Decode\<close>: \<open>Decode\<close> of a decoder over a text, and what \<open>More\<close> says after it; \<open>lib_NewRequest\<close>:
  the error of a request for a URL that cannot be parsed.
\<close>

record 'c RCLibrary =
  lib_DecodeString :: "string \<Rightarrow> goerr + string"
  lib_HMAC :: "string \<Rightarrow> string \<Rightarrow> string"
  lib_Decode :: "string \<Rightarrow> goerr + webhookPayload \<times> bool"
  lib_Unmarshal :: "string \<Rightarrow> goerr + revenueCatSubscriber"
  lib_NewRequest :: "string \<Rightarrow> goerr option"
  lib_DefaultClient :: "duration \<Rightarrow> 'c HttpClient"

record ('s, 't, 'c) RCProvider =
  rp_manager :: "('s, 't) Manager"
  rp_httpClient :: "'c HttpClient"
  rp_tierMapping :: "(string \<times> string) list"
  rp_defaultTier :: string
  rp_webhookSecret :: string
  rp_apiKey :: string
  rp_acceptHMAC :: bool
  rp_webhookCallback :: "'c webhook_callback option"

definition rc_providerName :: string where "rc_providerName = ''revenuecat''"
definition revenueCatAPIBaseURL :: string where "revenueCatAPIBaseURL = ''https://api.revenuecat.com/v1''"
definition rc_defaultTierName :: string where "rc_defaultTierName = ''explorer''"

text \<open>The provider, and the limiter it starts with.\<close>

definition rc_NewProvider :: "'c RCLibrary \<Rightarrow> ('s, 't, 'c) BillingConfig
    \<Rightarrow> goerr + ('s, 't, 'c) RCProvider \<times> WebhookLimiter" where
  "rc_NewProvider lib config = (case bc_Manager config of
     None \<Rightarrow> Inl ErrProviderNotConfigured
   | Some m \<Rightarrow>
       let tierMapping = lower_mapping (bc_TierMapping config)
       in Inr (\<lparr>rp_manager = m,
           rp_httpClient = (case bc_HTTPClient config of Some c \<Rightarrow> c | None \<Rightarrow> lib_DefaultClient lib (10 * ns_per_sec)),
           rp_tierMapping = tierMapping,
           rp_defaultTier = mapped_default rc_defaultTierName tierMapping,
           rp_webhookSecret = strip_bearer (TrimSpace (bc_WebhookSecret config)),
           rp_apiKey = strip_bearer (TrimSpace (bc_APIKey config)),
           rp_acceptHMAC = bc_EnableHMAC config,
           rp_webhookCallback = bc_WebhookCallback config\<rparr>,
         wl_NewRateLimiter 100 ns_per_minute))"

definition rc_CheckoutURL :: "string \<Rightarrow> string \<Rightarrow> string \<Rightarrow> string \<Rightarrow> string \<times> goerr option" where
  "rc_CheckoutURL userID tier successURL cancelURL = ('''', Some (Wrapped
     ''RevenueCat uses client-side SDKs for purchases. Use RevenueCat.presentPaywall() in your mobile app'' ErrNotSupported))"

definition rc_PortalURL :: "string \<Rightarrow> string \<Rightarrow> string \<times> goerr option" where
  "rc_PortalURL userID returnURL = ('''', Some (Wrapped
     ''RevenueCat subscriptions are managed through App Store/Play Store settings'' ErrNotSupported))"

section \<open>Tiers\<close>

definition reserved_key :: "string \<Rightarrow> bool" where
  "reserved_key k \<longleftrightarrow> k = ''*'' \<or> k = ''default''"

definition MapEntitlementToTier :: "('s, 't, 'c) RCProvider \<Rightarrow> string \<Rightarrow> string" where
  "MapEntitlementToTier p entitlementID =
     (if entitlementID = '''' then rp_defaultTier p
      else
        let key = ToLower (TrimSpace entitlementID)
        in case map_of (rp_tierMapping p) key of
             Some tier \<Rightarrow> tier
           | None \<Rightarrow>
               (case List.find (\<lambda>(mappingKey, tier). \<not> reserved_key mappingKey
                   \<and> (Contains key mappingKey \<or> Contains mappingKey key)) (rp_tierMapping p) of
                  Some (_, tier) \<Rightarrow> tier
                | None \<Rightarrow> rp_defaultTier p))"

section \<open>The payload of a webhook\<close>

definition parseTimes :: "rcEntitlement \<Rightarrow> rcEntitlement" where
  "parseTimes e =
     (if en_ExpiresDateRaw e = '''' then e\<lparr>en_ExpiresDate := zero_time\<rparr>
      else case time_ParseRFC3339 (en_ExpiresDateRaw e) of
        Some t \<Rightarrow> e\<lparr>en_ExpiresDate := t\<rparr>
      | None \<Rightarrow> e\<lparr>en_ExpiresDate := zero_time\<rparr>)"

definition in_container :: "(string \<times> rcEntitlement) list option \<Rightarrow> string \<Rightarrow> rcEntitlement option" where
  "in_container c k = Option.bind c (\<lambda>ents. map_of ents k)"

definition lookupEntitlement :: "webhookPayload \<Rightarrow> string \<Rightarrow> rcEntitlement option" where
  "lookupEntitlement p i =
     (let i = TrimSpace i
      in if i = '''' then None
         else case in_container (wp_Subscriber p) i of
           Some ent \<Rightarrow> Some (parseTimes ent)
         | None \<Rightarrow> map_option parseTimes (in_container (wp_CustomerInfo p) i))"

text \<open>The loop over a container for a key that is equal up to case.\<close>

definition folded_in :: "(string \<times> rcEntitlement) list option \<Rightarrow> string \<Rightarrow> rcEntitlement option" where
  "folded_in c k = Option.bind c (\<lambda>ents. map_option (parseTimes \<circ> snd) (List.find (\<lambda>(key, _). EqualFold key k) ents))"

definition resolveEntitlement :: "webhookPayload \<Rightarrow> string \<Rightarrow> rcEntitlement option" where
  "resolveEntitlement p entitlementID = (case lookupEntitlement p entitlementID of
     Some ent \<Rightarrow> Some ent
   | None \<Rightarrow>
       let eventID = TrimSpace (ev_EntitlementID (wp_Event p))
       in if TrimSpace entitlementID = '''' \<and> eventID \<noteq> '''' then lookupEntitlement p eventID
          else if entitlementID \<noteq> ''''
          then (case folded_in (wp_Subscriber p) entitlementID of
                  Some ent \<Rightarrow> Some ent
                | None \<Rightarrow> folded_in (wp_CustomerInfo p) entitlementID)
          else None)"

text \<open>Milliseconds become nanoseconds in an \<open>int64\<close>.\<close>

definition parseEventTimestamp :: "goint \<Rightarrow> time" where
  "parseEventTimestamp timestampMs = (if timestampMs \<le> 0 then zero_time else wrap64 (timestampMs * 1000000))"

definition getEventTimestamp :: "webhookPayload \<Rightarrow> goint" where
  "getEventTimestamp p =
     (if ev_EventTimestampMs (wp_Event p) > 0 then ev_EventTimestampMs (wp_Event p) else ev_TimestampMs (wp_Event p))"

definition getPurchaseTimestamp :: "webhookPayload \<Rightarrow> goint" where
  "getPurchaseTimestamp p =
     (if ev_PurchasedAtMs (wp_Event p) > 0 then ev_PurchasedAtMs (wp_Event p) else ev_PurchaseDateMs (wp_Event p))"

definition calculateDefaultExpiration :: "time \<Rightarrow> string \<Rightarrow> time" where
  "calculateDefaultExpiration now productID =
     (let i = ToLower productID
      in if Contains i ''annual'' \<or> Contains i ''year'' then time_AddDate now 1 0 0
         else if Contains i ''monthly'' \<or> Contains i ''month'' then time_AddDate now 0 1 0
         else if Contains i ''weekly'' \<or> Contains i ''week'' then time_AddDate now 0 0 7
         else time_AddDate now 0 1 0)"

text \<open>What the functions of this section return: tier, expiry, product and entitlement.\<close>

type_synonym tier_info = "string \<times> time option \<times> string \<times> string"

definition handleEntitlementFromEvent :: "('s, 't, 'c) RCProvider \<Rightarrow> time \<Rightarrow> webhookPayload \<Rightarrow> string \<Rightarrow> tier_info" where
  "handleEntitlementFromEvent p now payload entitlementID =
     (let productID = TrimSpace (ev_ProductID (wp_Event payload));
          tier = MapEntitlementToTier p entitlementID;
          fallback = calculateDefaultExpiration now productID;
          exp = (if ev_ExpirationAtMs (wp_Event payload) > 0
                 then parseEventTimestamp (ev_ExpirationAtMs (wp_Event payload))
                 else case resolveEntitlement payload entitlementID of
                   Some ent \<Rightarrow> if en_ExpiresDate ent \<noteq> zero_time then en_ExpiresDate ent else fallback
                 | None \<Rightarrow> fallback)
      in (tier, Some exp, productID, entitlementID))"

definition handleExpirationLike :: "('s, 't, 'c) RCProvider \<Rightarrow> time \<Rightarrow> webhookPayload \<Rightarrow> tier_info" where
  "handleExpirationLike p now payload =
     (let productID = TrimSpace (ev_ProductID (wp_Event payload))
      in if ev_ExpirationAtMs (wp_Event payload) \<le> 0 then (rp_defaultTier p, None, productID, '''')
         else
           let exp = parseEventTimestamp (ev_ExpirationAtMs (wp_Event payload))
           in if exp > now
              then (case List.find (\<lambda>candidate. MapEntitlementToTier p candidate \<noteq> rp_defaultTier p)
                      (ev_EntitlementIDs (wp_Event payload)) of
                      Some candidate \<Rightarrow> (MapEntitlementToTier p candidate, Some exp, productID, candidate)
                    | None \<Rightarrow> (rp_defaultTier p, Some exp, productID, ''''))
              else (rp_defaultTier p, Some exp, productID, ''''))"

definition handleEntitlementFromDetails :: "('s, 't, 'c) RCProvider \<Rightarrow> rcEntitlement \<Rightarrow> string \<Rightarrow> tier_info" where
  "handleEntitlementFromDetails p ent entitlementID =
     (let productID = TrimSpace (en_ProductIdentifier ent);
          tier = MapEntitlementToTier p entitlementID;
          expiresAt = (if en_ExpiresDate ent \<noteq> zero_time then Some (en_ExpiresDate ent) else None)
      in if en_IsActive ent then (tier, expiresAt, productID, entitlementID)
         else (rp_defaultTier p, expiresAt, productID, entitlementID))"

text \<open>The loop over the tier mapping for an entitlement of the payload that is active.\<close>

fun active_entitlement :: "webhookPayload \<Rightarrow> (string \<times> string) list \<Rightarrow> (rcEntitlement \<times> string) option" where
  "active_entitlement payload [] = None"
| "active_entitlement payload ((candidate, _) # rest) =
     (if reserved_key candidate then active_entitlement payload rest
      else case resolveEntitlement payload candidate of
        Some ent \<Rightarrow> if en_IsActive ent then Some (ent, candidate) else active_entitlement payload rest
      | None \<Rightarrow> active_entitlement payload rest)"

definition expiration_like :: "string \<Rightarrow> bool" where
  "expiration_like eventType \<longleftrightarrow>
     eventType \<in> set [''EXPIRATION'', ''CANCELLATION'', ''BILLING_ISSUE'', ''SUBSCRIPTION_PAUSED'']"

definition extractTierFromPayload :: "('s, 't, 'c) RCProvider \<Rightarrow> time \<Rightarrow> webhookPayload \<Rightarrow> tier_info" where
  "extractTierFromPayload p now payload =
     (let event = wp_Event payload;
          productID = TrimSpace (ev_ProductID event)
      in if expiration_like (TrimSpace (ev_Type event)) then handleExpirationLike p now payload
         else case List.find (\<lambda>candidate. MapEntitlementToTier p candidate \<noteq> rp_defaultTier p) (ev_EntitlementIDs event) of
           Some candidate \<Rightarrow> handleEntitlementFromEvent p now payload candidate
         | None \<Rightarrow>
             if ev_EntitlementID event \<noteq> '''' \<and> MapEntitlementToTier p (ev_EntitlementID event) \<noteq> rp_defaultTier p
             then handleEntitlementFromEvent p now payload (ev_EntitlementID event)
             else case active_entitlement payload (rp_tierMapping p) of
               Some (ent, candidate) \<Rightarrow> handleEntitlementFromDetails p ent candidate
             | None \<Rightarrow> (rp_defaultTier p, Some (calculateDefaultExpiration now productID), productID, ''''))"


section \<open>Webhook events\<close>

text \<open>The tier an event leads to: the default tier if what it grants has expired.\<close>

definition effective_tier :: "('s, 't, 'c) RCProvider \<Rightarrow> time \<Rightarrow> webhookPayload \<Rightarrow> string" where
  "effective_tier p now payload =
     (case extractTierFromPayload p now payload of (tier, expiresAt, _) \<Rightarrow>
       (case expiresAt of Some e \<Rightarrow> if e < now then rp_defaultTier p else tier | None \<Rightarrow> tier))"

text \<open>The entitlement an event stores, given the existing one.\<close>

definition event_entitlement :: "('s, 't, 'c) RCProvider \<Rightarrow> time \<Rightarrow> webhookPayload \<Rightarrow> string \<Rightarrow> Entitlement option
    \<Rightarrow> Entitlement" where
  "event_entitlement p now payload userID existing =
     (let (tier, expiresAt, productID, entitlementID) = extractTierFromPayload p now payload;
          effectiveTier = effective_tier p now payload;
          purchaseAt = parseEventTimestamp (getPurchaseTimestamp payload)
      in \<lparr>e_UserID = userID, e_Tier = effectiveTier,
          e_SubscriptionStartDate = start_date existing (effectiveTier \<noteq> rp_defaultTier p)
            (if purchaseAt \<noteq> zero_time then purchaseAt else now),
          e_ExpiresAt = expiresAt,
          e_UpdatedAt = parseEventTimestamp (getEventTimestamp payload)\<rparr>)"

text \<open>What follows the comparison of the timestamps: metric, entitlement, callback.\<close>

definition rc_update_entitlement :: "('s, 't, 'c) RCProvider \<Rightarrow> time \<Rightarrow> webhookPayload \<Rightarrow> string \<Rightarrow> Entitlement option
    \<Rightarrow> ('s, 't, 'c, goerr option) billing" where
  "rc_update_entitlement p now payload userID existing =
     (let (tier, expiresAt, productID, entitlementID) = extractTierFromPayload p now payload;
          effectiveTier = effective_tier p now payload;
          previousTier = tier_before (rp_defaultTier p) existing
      in do {
        when_so (previousTier \<noteq> effectiveTier)
          (record_billing (RecordTierChange rc_providerName previousTier effectiveTier));
        err \<leftarrow> on_manager (SetEntitlement (rp_manager p) now (event_entitlement p now payload userID existing));
        if err \<noteq> None then State_Monad.return err
        else invokeWebhookCallback (rp_webhookCallback p) rc_providerName userID previousTier effectiveTier
          (TrimSpace (ev_Type (wp_Event payload))) (parseEventTimestamp (getEventTimestamp payload)) expiresAt
          [(''product_id'', MetaText productID), (''entitlement_id'', MetaText entitlementID),
           (''event_type'', MetaText (ev_Type (wp_Event payload)))]
      })"

definition rc_processWebhookEvent :: "('s, 't, 'c) RCProvider \<Rightarrow> time \<Rightarrow> webhookPayload \<Rightarrow> string
    \<Rightarrow> ('s, 't, 'c, goerr option) billing" where
  "rc_processWebhookEvent p now payload userID =
     if_newer (rp_manager p) now userID (parseEventTimestamp (getEventTimestamp payload))
       (rc_update_entitlement p now payload userID)"

section \<open>Authentication\<close>

definition extractTokenOrSignature :: "WebhookRequest \<Rightarrow> string" where
  "extractTokenOrSignature r =
     (let authHeader = TrimSpace (header_Get ''Authorization'' (hr_Header r));
          sig = TrimSpace (header_Get ''X-RevenueCat-Signature'' (hr_Header r))
      in if HasPrefix (ToLower authHeader) ''bearer '' then TrimSpace (drop 7 authHeader)
         else if authHeader \<noteq> '''' then authHeader
         else if sig = '''' then TrimSpace (header_Get ''x-revenuecat-signature'' (hr_Header r))
         else sig)"

definition verifyRequest :: "'c RCLibrary \<Rightarrow> ('s, 't, 'c) RCProvider \<Rightarrow> string \<Rightarrow> string \<Rightarrow> bool" where
  "verifyRequest lib p tokenOrSig body =
     (if rp_webhookSecret p = '''' then False
      else if TrimSpace tokenOrSig = '''' then False
      else if tokenOrSig = rp_webhookSecret p then True
      else if \<not> rp_acceptHMAC p then False
      else case lib_DecodeString lib tokenOrSig of
        Inl err \<Rightarrow> False
      | Inr expected \<Rightarrow> expected = lib_HMAC lib (rp_webhookSecret p) body)"

definition parseWebhookPayload :: "'c RCLibrary \<Rightarrow> string \<Rightarrow> goerr + webhookPayload" where
  "parseWebhookPayload lib body =
     (if body = '''' then Inl (ErrText ''empty body'')
      else case lib_Decode lib body of
        Inl err \<Rightarrow> Inl (Wrapped ''failed to parse webhook payload'' err)
      | Inr (payload, rest) \<Rightarrow> if rest then Inl (ErrText ''multiple JSON objects in payload'') else Inr payload)"

section \<open>The webhook handler\<close>

text \<open>A rejected request: the answer, and the metric.\<close>

definition rc_reject :: "string \<Rightarrow> string \<Rightarrow> goint \<Rightarrow> string ResponseWriter
    \<Rightarrow> ('s, 't, 'c, string ResponseWriter outcome) billing" where
  "rc_reject errorType msg code w = do {
     record_billing (RecordWebhookError rc_providerName errorType);
     answer_error msg code w
   }"

text \<open>The event of an authenticated request with a user.\<close>

definition rc_dispatch :: "('s, 't, 'c) RCProvider \<Rightarrow> time \<Rightarrow> webhookPayload \<Rightarrow> string \<Rightarrow> string ResponseWriter
    \<Rightarrow> ('s, 't, 'c, string ResponseWriter outcome) billing" where
  "rc_dispatch p now payload userID w =
     (let trimmed = TrimSpace (ev_Type (wp_Event payload));
          eventType = (if trimmed = '''' then ''UNKNOWN'' else trimmed)
      in if EqualFold eventType ''TEST''
         then (case write_ok w of (err, w) \<Rightarrow> do {
             when_so (err = None) (record_billing (RecordWebhookEvent rc_providerName ''TEST'' ''success''));
             State_Monad.return (Stopped w)
           })
         else do {
           res \<leftarrow> rc_processWebhookEvent p now payload userID;
           case res of
             Some err \<Rightarrow>
               if is_panic err then State_Monad.return (Panicked err w)
               else do {
                 record_billing (RecordWebhookEvent rc_providerName eventType ''error'');
                 record_billing (RecordWebhookError rc_providerName ''processing_error'');
                 answer_error ''failed to process webhook'' StatusInternalServerError w
               }
           | None \<Rightarrow> (case write_ok w of (err, w) \<Rightarrow> do {
               when_so (err = None) (record_billing (RecordWebhookEvent rc_providerName eventType ''success''));
               State_Monad.return (Stopped w)
             })
         })"

definition rc_handleWebhook :: "'c RCLibrary \<Rightarrow> ('s, 't, 'c) RCProvider \<Rightarrow> time \<Rightarrow> ('s, 't, 'c) handler" where
  "rc_handleWebhook lib p now w r =
     (let w = setSecurityHeaders w
      in if wr_Method r \<noteq> MethodPost then answer_error ''method not allowed'' StatusMethodNotAllowed w
         else if rp_webhookSecret p = '''' then answer_error ''webhook not configured'' StatusServiceUnavailable w
         else if hr_Err r \<noteq> None then answer_error ''request timeout'' StatusRequestTimeout w
         else case ReadBodyStrict (256 * 1024) w r of
           (Inl err, w) \<Rightarrow>
             if is_panic err then State_Monad.return (Panicked err w)
             else if Contains (error_text err) ''too large''
             then rc_reject ''payload_too_large'' ''payload too large'' StatusRequestEntityTooLarge w
             else rc_reject ''invalid_payload'' (''invalid payload: '' @ error_text err) StatusBadRequest w
         | (Inr body, w) \<Rightarrow>
             if \<not> verifyRequest lib p (extractTokenOrSignature r) body
             then rc_reject ''auth_failed'' ''unauthorized'' StatusUnauthorized w
             else case parseWebhookPayload lib body of
               Inl err \<Rightarrow> rc_reject ''invalid_payload'' (''invalid payload: '' @ error_text err) StatusBadRequest w
             | Inr payload \<Rightarrow>
                 let userID = TrimSpace (ev_AppUserID (wp_Event payload))
                 in if userID = '''' then rc_reject ''missing_user_id'' ''missing user id'' StatusBadRequest w
                    else rc_dispatch p now payload userID w)"

definition rc_WebhookHandler :: "'c RCLibrary \<Rightarrow> ('s, 't, 'c) RCProvider \<Rightarrow> time \<Rightarrow> ('s, 't, 'c) handler" where
  "rc_WebhookHandler lib p now = wl_Middleware now (rc_handleWebhook lib p now)"

section \<open>Synchronisation from the API\<close>

definition parseRevenueCatTime :: "string \<Rightarrow> goerr + time" where
  "parseRevenueCatTime value =
     (let v = TrimSpace value
      in if v = '''' then Inl (ErrText ''empty time'')
         else case time_ParseRFC3339 v of
           Some t \<Rightarrow> Inr t
         | None \<Rightarrow> Inl (ErrText (''unable to parse time: '' @ v)))"

text \<open>A date of the response that is there and can be parsed.\<close>

definition optional_time :: "string option \<Rightarrow> time option" where
  "optional_time raw = (case raw of
     None \<Rightarrow> None
   | Some s \<Rightarrow> if TrimSpace s = '''' then None else found (parseRevenueCatTime s))"

definition subscriber_entitlement :: "revenueCatSubscriber \<Rightarrow> string \<Rightarrow> revenueCatEntitlement option" where
  "subscriber_entitlement subscriber candidateID = (case map_of subscriber candidateID of
     Some ent \<Rightarrow> Some ent
   | None \<Rightarrow> map_option snd (List.find (\<lambda>(k, _). EqualFold k candidateID) subscriber))"

text \<open>The loop over the tier mapping: tier, expiry and purchase date of the first entitlement in force.\<close>

fun extractTierFromSubscriber :: "('s, 't, 'c) RCProvider \<Rightarrow> time \<Rightarrow> revenueCatSubscriber \<Rightarrow> (string \<times> string) list
    \<Rightarrow> string \<times> time option \<times> time option \<times> string \<times> string" where
  "extractTierFromSubscriber p now subscriber [] = (rp_defaultTier p, None, None, '''', '''')"
| "extractTierFromSubscriber p now subscriber ((candidateID, _) # rest) =
     (if reserved_key candidateID then extractTierFromSubscriber p now subscriber rest
      else case subscriber_entitlement subscriber candidateID of
        None \<Rightarrow> extractTierFromSubscriber p now subscriber rest
      | Some ent \<Rightarrow>
          let expiresAt = optional_time (re_ExpiresDate ent)
          in if (case expiresAt of Some e \<Rightarrow> e < now | None \<Rightarrow> False)
             then extractTierFromSubscriber p now subscriber rest
             else (MapEntitlementToTier p candidateID, expiresAt, optional_time (re_PurchaseDate ent),
               TrimSpace (re_ProductIdentifier ent), candidateID))"

definition rc_syncToDefaultTier :: "('s, 't, 'c) RCProvider \<Rightarrow> time \<Rightarrow> string
    \<Rightarrow> ('s, 't, 'c, string \<times> goerr option) billing" where
  "rc_syncToDefaultTier p now userID = do {
     err \<leftarrow> on_manager (SetEntitlement (rp_manager p) now \<lparr>e_UserID = userID, e_Tier = rp_defaultTier p,
       e_SubscriptionStartDate = zero_time, e_ExpiresAt = None, e_UpdatedAt = now\<rparr>);
     State_Monad.return (rp_defaultTier p, map_option (Wrapped ''failed to set default tier'') err)
   }"

text \<open>From the subscriber of the response to the stored entitlement.\<close>

definition rc_store_synced :: "('s, 't, 'c) RCProvider \<Rightarrow> time \<Rightarrow> string \<Rightarrow> string \<Rightarrow> time option \<Rightarrow> time option
    \<Rightarrow> Entitlement option \<Rightarrow> ('s, 't, 'c, string \<times> goerr option) billing" where
  "rc_store_synced p now userID tier expiresAt purchaseAt existing = do {
     when_so (existing \<noteq> None \<and> tier_before (rp_defaultTier p) existing \<noteq> tier)
       (record_billing (RecordTierChange rc_providerName (tier_before (rp_defaultTier p) existing) tier));
     err \<leftarrow> on_manager (SetEntitlement (rp_manager p) now \<lparr>e_UserID = userID, e_Tier = tier,
       e_SubscriptionStartDate = start_date existing (tier \<noteq> rp_defaultTier p)
         (case purchaseAt of Some t \<Rightarrow> t | None \<Rightarrow> now),
       e_ExpiresAt = expiresAt, e_UpdatedAt = now\<rparr>);
     case err of
       Some err \<Rightarrow> do {
         sync_metric rc_providerName ''error'';
         State_Monad.return (tier, Some (Wrapped ''failed to set entitlement'' err))
       }
     | None \<Rightarrow> do { sync_metric rc_providerName ''success''; State_Monad.return (tier, None) }
   }"

definition rc_sync_subscriber :: "('s, 't, 'c) RCProvider \<Rightarrow> time \<Rightarrow> string \<Rightarrow> revenueCatSubscriber
    \<Rightarrow> ('s, 't, 'c, string \<times> goerr option) billing" where
  "rc_sync_subscriber p now userID subscriber =
     (let (tier, expiresAt, purchaseAt, _, _) = extractTierFromSubscriber p now subscriber (rp_tierMapping p)
      in do {
        r \<leftarrow> on_manager (GetEntitlement (rp_manager p) now userID);
        case r of
          Inl err \<Rightarrow>
            if err \<noteq> ErrEntitlementNotFound
            then do { sync_metric rc_providerName ''error''; State_Monad.return (tier, Some err) }
            else rc_store_synced p now userID tier expiresAt purchaseAt None
        | Inr e \<Rightarrow> rc_store_synced p now userID tier expiresAt purchaseAt (Some e)
      })"

definition rc_syncUserFromAPI :: "'c RCLibrary \<Rightarrow> ('s, 't, 'c) RCProvider \<Rightarrow> time \<Rightarrow> string
    \<Rightarrow> ('s, 't, 'c, string \<times> goerr option) billing" where
  "rc_syncUserFromAPI lib p now userID =
     (let failed = (\<lambda>err. do { sync_metric rc_providerName ''error''; State_Monad.return (rp_defaultTier p, Some err) });
          url = revenueCatAPIBaseURL @ ''/subscribers/'' @ userID;
          endpoint = ''/subscribers/{id}''
      in if TrimSpace (rp_apiKey p) = '''' then failed (ErrText ''revenuecat API key not configured'')
         else case lib_NewRequest lib url of
           Some err \<Rightarrow> failed (Wrapped ''failed to create request'' err)
         | None \<Rightarrow> do {
             res \<leftarrow> on_outside (rp_httpClient p url
               [(''Authorization'', ''Bearer '' @ rp_apiKey p), (''Accept'', ''application/json'')]);
             case res of
               Inl err \<Rightarrow> do {
                 record_billing (RecordAPICall rc_providerName endpoint ''error'');
                 failed (Wrapped ''failed to fetch subscriber'' err)
               }
             | Inr res \<Rightarrow> do {
                 record_billing (RecordAPICall rc_providerName endpoint (show_int (hp_StatusCode res)));
                 case hp_Body res of
                   Inl err \<Rightarrow> failed (Wrapped ''failed to read response'' err)
                 | Inr body \<Rightarrow>
                     if hp_StatusCode res = 404 then do {
                       r \<leftarrow> rc_syncToDefaultTier p now userID;
                       sync_metric rc_providerName (if snd r \<noteq> None then ''error'' else ''success'');
                       State_Monad.return r
                     }
                     else if hp_StatusCode res < 200 \<or> hp_StatusCode res \<ge> 300
                     then failed (ErrText (''revenuecat API error: status '' @ show_int (hp_StatusCode res)
                       @ '', body: '' @ body))
                     else case lib_Unmarshal lib body of
                       Inl err \<Rightarrow> failed (Wrapped ''failed to parse response'' err)
                     | Inr subscriber \<Rightarrow> rc_sync_subscriber p now userID subscriber
               }
           })"

end
