(* ===== verification/BillingContract.thy ===== *)
theory BillingContract
  imports BillingBase ManagerTiers
begin

text \<open>
  What the billing providers rely on: the manager as a register of one entitlement per user. The
  contract \<open>entitlement_register\<close> leaves open what exactly the storage keeps of an entitlement
  (\<open>stored\<close>); \<open>faithful_register\<close> is one that keeps its tier, its expiry and its timestamp. A manager
  over the in-memory storage is one, whatever its cache and its initial credits.
\<close>

locale entitlement_register =
  fixes ready :: "('s, 't) Manager \<Rightarrow> ('s, 't) World \<Rightarrow> bool"
    and ents :: "('s, 't) World \<Rightarrow> string \<Rightarrow> Entitlement option"
    and fits :: "Entitlement \<Rightarrow> bool"
    and stored :: "time \<Rightarrow> Entitlement \<Rightarrow> Entitlement"
  assumes get: "ready m w \<Longrightarrow> run_state (GetEntitlement m now u) w = (r, w') \<Longrightarrow>
      r = (case ents w u of None \<Rightarrow> Inl ErrEntitlementNotFound | Some e \<Rightarrow> Inr e)
      \<and> ents w' = ents w \<and> ready m w'"
    and set: "ready m w \<Longrightarrow> e_UserID e \<noteq> '''' \<Longrightarrow> fits e \<Longrightarrow> run_state (SetEntitlement m now e) w = (err, w') \<Longrightarrow>
      err = None \<and> ents w' = (ents w)(e_UserID e \<mapsto> stored now e) \<and> ready m w'"

locale faithful_register = entitlement_register +
  assumes keeps: "e_Tier (stored now e) = e_Tier e" "e_ExpiresAt (stored now e) = e_ExpiresAt e"
      "e_UpdatedAt (stored now e) = e_UpdatedAt e"

definition memory_ready :: "(MemState, 't) Manager \<Rightarrow> (MemState, 't) World \<Rightarrow> bool" where
  "memory_ready m w \<longleftrightarrow> m_storage m = memory_storage \<and> flights_alone m \<and> cache_inv {} {} w"

definition memory_ents :: "(MemState, 't) World \<Rightarrow> string \<Rightarrow> Entitlement option" where
  "memory_ents w = ms_entitlements (w_storage w)"

lemma memory_set:
  assumes "memory_ready m w" "e_UserID e \<noteq> ''''" "run_state (SetEntitlement m now e) w = (err, w')"
  shows "err = None \<and> memory_ents w' = (memory_ents w)(e_UserID e \<mapsto> e) \<and> memory_ready m w'"
proof -
  note m = assms(1) [unfolded memory_ready_def, THEN conjunct1]
  have "cache_inv {} {} w'"
    using stableD [OF stable_SetEntitlement [OF m], of "{}" w now e] assms(1,3) by (simp add: memory_ready_def)
  moreover have "err = None" "ms_entitlements (w_storage w') = (ms_entitlements (w_storage w))(e_UserID e \<mapsto> e)"
    using assms(2,3) by (auto simp: SetEntitlement_def m mem_SetEntitlement_def only_if_def case_prod_unfold
        apply_initial_credits_entitlements [OF m] split: option.splits)
  ultimately show ?thesis using assms(1) by (simp add: memory_ready_def memory_ents_def)
qed

interpretation mem_reg: faithful_register memory_ready memory_ents "\<lambda>_. True" "\<lambda>_ e. e"
proof
  fix m :: "(MemState, 'a) Manager" and w now u r w'
  assume "memory_ready m w" "run_state (GetEntitlement m now u) w = (r, w')"
  then show "r = (case memory_ents w u of None \<Rightarrow> Inl ErrEntitlementNotFound | Some e \<Rightarrow> Inr e)
      \<and> memory_ents w' = memory_ents w \<and> memory_ready m w'"
    using GetEntitlement_spec [of m "{}" w now u r w'] by (simp add: memory_ready_def memory_ents_def)
qed (use memory_set in blast | simp)+


section \<open>Events in the order of their timestamps\<close>

context entitlement_register
begin

lemma get_cases:
  assumes "ready m w"
  obtains w1 where "ents w1 = ents w" "ready m w1"
    "run_state (GetEntitlement m now u) w =
      ((case ents w u of None \<Rightarrow> Inl ErrEntitlementNotFound | Some e \<Rightarrow> Inr e), w1)"
  using get [OF assms, of now u] by (metis surjective_pairing)

lemma if_newer_skips:
  assumes "ready m (bw_manager w)" "ents (bw_manager w) u = Some e" "ts \<le> e_UpdatedAt e"
  shows "\<exists>w1. run_state (if_newer m now u ts f) w = (None, w\<lparr>bw_manager := w1\<rparr>)
    \<and> ents w1 = ents (bw_manager w) \<and> ready m w1"
  by (rule get_cases [OF assms(1), of now u]) (use assms in \<open>auto simp: if_newer_def\<close>)

lemma if_newer_runs:
  assumes "ready m (bw_manager w)" "\<And>e. ents (bw_manager w) u = Some e \<Longrightarrow> e_UpdatedAt e < ts"
  shows "\<exists>w1. run_state (if_newer m now u ts f) w = run_state (f (ents (bw_manager w) u)) (w\<lparr>bw_manager := w1\<rparr>)
    \<and> ents w1 = ents (bw_manager w) \<and> ready m w1"
  by (rule get_cases [OF assms(1), of now u]) (use assms in \<open>auto simp: if_newer_def split: option.split\<close>)

lemma set_run:
  assumes "ready m w" "e_UserID e \<noteq> ''''" "fits e"
  obtains w1 where "run_state (SetEntitlement m now e) w = (None, w1)"
    "ents w1 = (ents w)(e_UserID e \<mapsto> stored now e)" "ready m w1"
  using set [OF assms, of now] by (metis surjective_pairing)

end

end
