(* ===== verification/RevenueCatProps.thy ===== *)
theory RevenueCatProps
  imports RevenueCat BillingContract ManagerDemo
begin

text \<open>
  The RevenueCat provider over a manager that is an entitlement register: what an event does, which of
  several deliveries decides, who can make the handler change anything, and what becomes of an
  entitlement that is cancelled or expires.
\<close>

section \<open>Deliveries\<close>

definition event_time :: "webhookPayload \<Rightarrow> time" where
  "event_time payload = parseEventTimestamp (getEventTimestamp payload)"

definition event_expiry :: "('s, 't, 'c) RCProvider \<Rightarrow> time \<Rightarrow> webhookPayload \<Rightarrow> time option" where
  "event_expiry p now payload = fst (snd (extractTierFromPayload p now payload))"

text \<open>The events that are delivered for a user, one after the other, each at its own time.\<close>

fun rc_deliver :: "('s, 't, 'c) RCProvider \<Rightarrow> string \<Rightarrow> (time \<times> webhookPayload) list \<Rightarrow> ('s, 't, 'c) BillingWorld
    \<Rightarrow> goerr option list \<times> ('s, 't, 'c) BillingWorld" where
  "rc_deliver p u [] w = ([], w)"
| "rc_deliver p u ((now, payload) # ds) w =
     (let (res, w1) = run_state (rc_processWebhookEvent p now payload u) w;
          (rs, w2) = rc_deliver p u ds w1
      in (res # rs, w2))"

text \<open>What the callback answers after an update, and the world it leaves.\<close>

definition rc_notify :: "('s, 't, 'c) RCProvider \<Rightarrow> time \<Rightarrow> webhookPayload \<Rightarrow> string \<Rightarrow> Entitlement option \<Rightarrow> 'c
    \<Rightarrow> goerr option \<times> 'c" where
  "rc_notify p now payload u existing c = (case rp_webhookCallback p of
     None \<Rightarrow> (None, c)
   | Some f \<Rightarrow> f \<lparr>we_UserID = u, we_PreviousTier = tier_before (rp_defaultTier p) existing,
       we_NewTier = effective_tier p now payload, we_Provider = ''revenuecat'',
       we_EventType = TrimSpace (ev_Type (wp_Event payload)), we_EventTimestamp = event_time payload,
       we_ExpiresAt = event_expiry p now payload,
       we_Metadata = (case extractTierFromPayload p now payload of (_, _, productID, entitlementID) \<Rightarrow>
         [(''product_id'', MetaText productID), (''entitlement_id'', MetaText entitlementID),
          (''event_type'', MetaText (ev_Type (wp_Event payload)))])\<rparr> c)"

text \<open>A register that holds what an event grants.\<close>

definition holds :: "('s, 't, 'c) RCProvider \<Rightarrow> Entitlement option \<Rightarrow> time \<Rightarrow> webhookPayload \<Rightarrow> bool" where
  "holds p stored now payload \<longleftrightarrow> (\<exists>e. stored = Some e \<and> e_Tier e = effective_tier p now payload
     \<and> e_ExpiresAt e = event_expiry p now payload \<and> e_UpdatedAt e = event_time payload)"

lemma event_entitlement_simps [simp]:
  "e_UserID (event_entitlement p now payload u old) = u"
  "e_Tier (event_entitlement p now payload u old) = effective_tier p now payload"
  "e_ExpiresAt (event_entitlement p now payload u old) = event_expiry p now payload"
  "e_UpdatedAt (event_entitlement p now payload u old) = event_time payload"
  by (simp_all add: event_entitlement_def event_time_def event_expiry_def Let_def case_prod_unfold)

context entitlement_register
begin

lemma update_run:
  assumes "ready (rp_manager p) (bw_manager w)" "u \<noteq> ''''" "fits (event_entitlement p now payload u old)"
    and "run_state (rc_update_entitlement p now payload u old) w = (res, w')"
  shows "(res, bw_outside w') = rc_notify p now payload u old (bw_outside w)
    \<and> ents (bw_manager w') = (ents (bw_manager w))(u \<mapsto> stored now (event_entitlement p now payload u old))
    \<and> ready (rp_manager p) (bw_manager w')"
proof -
  obtain w1 where "run_state (SetEntitlement (rp_manager p) now (event_entitlement p now payload u old)) (bw_manager w)
      = (None, w1)"
    "ents w1 = (ents (bw_manager w))(u \<mapsto> stored now (event_entitlement p now payload u old))" "ready (rp_manager p) w1"
    using set_run [OF assms(1) _ assms(3)] assms(2) by auto
  with assms(4) show ?thesis
    by (auto simp: rc_update_entitlement_def rc_notify_def invokeWebhookCallback_def Let_def case_prod_unfold
        rc_providerName_def event_time_def event_expiry_def split: option.splits if_splits)
qed

lemma process_skips:
  assumes "ready (rp_manager p) (bw_manager w)" "ents (bw_manager w) u = Some e" "event_time payload \<le> e_UpdatedAt e"
    and "run_state (rc_processWebhookEvent p now payload u) w = (res, w')"
  shows "res = None \<and> bw_outside w' = bw_outside w \<and> bw_metrics w' = bw_metrics w
    \<and> ents (bw_manager w') = ents (bw_manager w) \<and> ready (rp_manager p) (bw_manager w')"
  using if_newer_skips [OF assms(1,2), of "event_time payload" now "rc_update_entitlement p now payload u"] assms(3,4)
  by (auto simp: rc_processWebhookEvent_def event_time_def)

lemma process_runs:
  assumes "ready (rp_manager p) (bw_manager w)" "u \<noteq> ''''"
    and "\<And>e. ents (bw_manager w) u = Some e \<Longrightarrow> e_UpdatedAt e < event_time payload"
    and "fits (event_entitlement p now payload u (ents (bw_manager w) u))"
    and "run_state (rc_processWebhookEvent p now payload u) w = (res, w')"
  shows "(res, bw_outside w') = rc_notify p now payload u (ents (bw_manager w) u) (bw_outside w)
    \<and> ents (bw_manager w') = (ents (bw_manager w))
        (u \<mapsto> stored now (event_entitlement p now payload u (ents (bw_manager w) u)))
    \<and> ready (rp_manager p) (bw_manager w')"
proof -
  let ?f = "rc_update_entitlement p now payload u"
  obtain w1 where 1: "run_state (rc_processWebhookEvent p now payload u) w
      = run_state (?f (ents (bw_manager w) u)) (w\<lparr>bw_manager := w1\<rparr>)"
    "ents w1 = ents (bw_manager w)" "ready (rp_manager p) w1"
    using if_newer_runs [OF assms(1), of u "event_time payload" now ?f] assms(3)
    by (auto simp: rc_processWebhookEvent_def event_time_def)
  show ?thesis
    using update_run [of p "w\<lparr>bw_manager := w1\<rparr>" u now payload "ents (bw_manager w) u" res w'] 1 assms by simp
qed

end

context faithful_register
begin

lemma deliver_older:
  assumes "ready (rp_manager p) (bw_manager w)" "holds p (ents (bw_manager w) u) now payload"
    and "\<forall>(t, q) \<in> set ds. event_time q \<le> event_time payload" "rc_deliver p u ds w = (rs, w')"
  shows "holds p (ents (bw_manager w') u) now payload"
  using assms
proof (induction ds arbitrary: w rs w')
  case (Cons d ds)
  obtain t q where d: "d = (t, q)" by fastforce
  obtain res w1 where 1: "run_state (rc_processWebhookEvent p t q u) w = (res, w1)" by fastforce
  obtain rs' where 2: "rc_deliver p u ds w1 = (rs', w')"
    using Cons.prems(4) by (auto simp: d 1 split: prod.splits)
  obtain e where e: "ents (bw_manager w) u = Some e" "event_time q \<le> e_UpdatedAt e"
    using Cons.prems(2,3) by (auto simp: holds_def d)
  note s = process_skips [OF Cons.prems(1) e 1]
  then have "holds p (ents (bw_manager w1) u) now payload" using Cons.prems(2) by (simp add: holds_def)
  from Cons.IH [OF _ this _ 2] s Cons.prems(3) show ?case by simp
qed simp

lemma deliver_before:
  assumes "ready (rp_manager p) (bw_manager w)" "u \<noteq> ''''"
    and "\<forall>(t, q) \<in> set ds. event_time q < b \<and> (\<forall>old. fits (event_entitlement p t q u old))"
    and "\<And>e. ents (bw_manager w) u = Some e \<Longrightarrow> e_UpdatedAt e < b" "rc_deliver p u ds w = (rs, w')"
  shows "ready (rp_manager p) (bw_manager w') \<and> (\<forall>e. ents (bw_manager w') u = Some e \<longrightarrow> e_UpdatedAt e < b)"
  using assms
proof (induction ds arbitrary: w rs w')
  case (Cons d ds)
  obtain t q where d: "d = (t, q)" by fastforce
  obtain res w1 where 1: "run_state (rc_processWebhookEvent p t q u) w = (res, w1)" by fastforce
  obtain rs' where 2: "rc_deliver p u ds w1 = (rs', w')"
    using Cons.prems(5) by (auto simp: d 1 split: prod.splits)
  have "ready (rp_manager p) (bw_manager w1) \<and> (\<forall>e. ents (bw_manager w1) u = Some e \<longrightarrow> e_UpdatedAt e < b)"
  proof (cases "\<exists>e. ents (bw_manager w) u = Some e \<and> event_time q \<le> e_UpdatedAt e")
    case True
    then show ?thesis using process_skips [OF Cons.prems(1) _ _ 1] Cons.prems(4) by auto
  next
    case False
    have "fits (event_entitlement p t q u (ents (bw_manager w) u))" "event_time q < b" using Cons.prems(3) by (auto simp: d)
    with process_runs [OF Cons.prems(1,2) _ _ 1] False show ?thesis by (fastforce simp: keeps)
  qed
  with Cons.IH [OF _ Cons.prems(2) _ _ 2] Cons.prems(3) show ?case by auto
qed simp

lemma newest_event_wins:
  assumes "ready (rp_manager p) (bw_manager w)" "u \<noteq> ''''" "ds = before @ (now, payload) # after"
    and "\<forall>(t, q) \<in> set ds. \<forall>old. fits (event_entitlement p t q u old)"
    and "\<And>e. ents (bw_manager w) u = Some e \<Longrightarrow> e_UpdatedAt e < event_time payload"
    and "\<forall>(t, q) \<in> set before. event_time q < event_time payload"
    and "\<forall>(t, q) \<in> set after. event_time q \<le> event_time payload"
    and "rc_deliver p u ds w = (rs, w')"
  shows "holds p (ents (bw_manager w') u) now payload"
proof -
  have append: "rc_deliver p u (xs @ ys) v = (let (r1, v1) = rc_deliver p u xs v; (r2, v2) = rc_deliver p u ys v1
      in (r1 @ r2, v2))" for xs ys v
    by (induction xs arbitrary: v) (auto simp: case_prod_unfold Let_def)
  obtain r1 w1 where 1: "rc_deliver p u before w = (r1, w1)" by fastforce
  obtain res w2 where 2: "run_state (rc_processWebhookEvent p now payload u) w1 = (res, w2)" by fastforce
  obtain r3 where 3: "rc_deliver p u after w2 = (r3, w')"
    using assms(8) by (auto simp: assms(3) append 1 2 split: prod.splits)
  have inv: "ready (rp_manager p) (bw_manager w1)" "\<And>e. ents (bw_manager w1) u = Some e \<Longrightarrow> e_UpdatedAt e < event_time payload"
    using deliver_before [OF assms(1,2) _ assms(5) 1] assms(3,4,6) by fastforce+
  have "fits (event_entitlement p now payload u old)" for old using assms(3,4) by simp
  from process_runs [OF inv(1) assms(2) inv(2) this 2]
  have "ready (rp_manager p) (bw_manager w2)" "holds p (ents (bw_manager w2) u) now payload"
    by (auto simp: holds_def keeps)
  from deliver_older [OF this assms(7) 3] show ?thesis .
qed

end


section \<open>Over the in-memory storage\<close>

text \<open>C13: The newest event decides. Whatever order the events of a user are delivered in, and however often,
  the entitlement that is stored in the end has the tier, the expiry and the timestamp of the event with
  the greatest timestamp, as it was first processed: older events that arrive late and repeated ones
  change nothing.\<close>

theorem rc_newest_event_wins:
  assumes "memory_ready (rp_manager p) (bw_manager w)" "u \<noteq> ''''" "ds = before @ (now, payload) # after"
    and "\<And>e. ms_entitlements (w_storage (bw_manager w)) u = Some e \<Longrightarrow> e_UpdatedAt e < event_time payload"
    and "\<forall>(t, q) \<in> set before. event_time q < event_time payload"
    and "\<forall>(t, q) \<in> set after. event_time q \<le> event_time payload"
    and "rc_deliver p u ds w = (rs, w')"
  shows "\<exists>e. ms_entitlements (w_storage (bw_manager w')) u = Some e \<and> e_Tier e = effective_tier p now payload
    \<and> e_ExpiresAt e = event_expiry p now payload \<and> e_UpdatedAt e = event_time payload"
  using mem_reg.newest_event_wins [OF assms(1-3) _ _ assms(5-7)] assms(4) by (simp add: holds_def memory_ents_def)

text \<open>C15: The application's callback is called at most once for an event, and not called again if it failed:
  after an event was processed, its repetition (or an older event) succeeds without a call of the
  callback and without any other effect, even if the first delivery was answered with the callback's
  error.\<close>

theorem rc_callback_at_most_once:
  assumes "memory_ready (rp_manager p) (bw_manager w)" "u \<noteq> ''''"
    and "\<And>e. ms_entitlements (w_storage (bw_manager w)) u = Some e \<Longrightarrow> e_UpdatedAt e < event_time payload"
    and "run_state (rc_processWebhookEvent p now payload u) w = (res, w1)"
    and "event_time again \<le> event_time payload"
    and "run_state (rc_processWebhookEvent p later again u) w1 = (res', w2)"
  shows "(res, bw_outside w1) = rc_notify p now payload u (ms_entitlements (w_storage (bw_manager w)) u) (bw_outside w)
    \<and> res' = None \<and> bw_outside w2 = bw_outside w1 \<and> bw_metrics w2 = bw_metrics w1
    \<and> ms_entitlements (w_storage (bw_manager w2)) = ms_entitlements (w_storage (bw_manager w1))"
proof -
  note 1 = mem_reg.process_runs [OF assms(1,2) _ _ assms(4), unfolded memory_ents_def, OF assms(3)]
  then have "memory_ents (bw_manager w1) u = Some (event_entitlement p now payload u (memory_ents (bw_manager w) u))"
    by (simp add: memory_ents_def)
  from mem_reg.process_skips [OF _ this _ assms(6)] 1 assms(5) show ?thesis by (simp add: memory_ents_def)
qed

section \<open>Who can change an entitlement\<close>

text \<open>C14: Only an authenticated request has an effect. If handling a request changed the manager's world or
  called out of the program, it was a POST request the limiter admitted, with a body of at most 256 KiB
  that was read completely, and its token was the configured secret or, where that is enabled, the
  HMAC of the body under the secret.\<close>

theorem rc_webhook_authenticated:
  assumes "run_state (rc_WebhookHandler lib p now wr r) w = (out, w')"
    and "bw_manager w' \<noteq> bw_manager w \<or> bw_outside w' \<noteq> bw_outside w"
  shows "\<exists>body. hr_Body r = Some (body, False) \<and> length body \<le> 262144 \<and> wr_Method r = ''POST''
    \<and> fst (wl_allow now (GetClientIP r) (bw_limiter w)) \<and> rp_webhookSecret p \<noteq> ''''
    \<and> (extractTokenOrSignature r = rp_webhookSecret p
       \<or> rp_acceptHMAC p \<and> lib_DecodeString lib (extractTokenOrSignature r) = Inr (lib_HMAC lib (rp_webhookSecret p) body))"
proof -
  let ?w1 = "w\<lparr>bw_limiter := snd (wl_allow now (GetClientIP r) (bw_limiter w))\<rparr>"
  have ok: "fst (wl_allow now (GetClientIP r) (bw_limiter w))"
    "run_state (rc_handleWebhook lib p now wr r) ?w1 = (out, w')"
    using assms by (auto simp: rc_WebhookHandler_def wl_Middleware_def split: if_splits)
  have quiet: "bw_manager v' = bw_manager v \<and> bw_outside v' = bw_outside v"
    if "run_state (rc_reject e m c x) v = (y, v')" for e m c x y v v'
    using that by (auto simp: rc_reject_def answer_error_def)
  obtain res wr' where read: "ReadBodyStrict (256 * 1024) (setSecurityHeaders wr) r = (res, wr')" by fastforce
  have guards: "wr_Method r = MethodPost" "rp_webhookSecret p \<noteq> ''''" "hr_Err r = None"
    using ok(2) assms(2) by (auto simp: rc_handleWebhook_def answer_error_def Let_def split: if_splits)
  note handle = ok(2) [unfolded rc_handleWebhook_def Let_def read]
  obtain body where body: "res = Inr body"
    using handle guards assms(2) quiet by (cases res) (fastforce split: if_splits)+
  have "verifyRequest lib p (extractTokenOrSignature r) body"
    using handle guards assms(2) quiet by (fastforce simp: body split: if_splits)
  moreover have "hr_Body r = Some (body, False)" "length body \<le> 262144"
    using read body by (auto simp: ReadBodyStrict_def ReadAll_def split: option.splits if_splits)
  ultimately show ?thesis
    using ok(1) guards by (auto simp: verifyRequest_def MethodPost_def split: if_splits sum.splits)
qed

section \<open>Tiers\<close>

text \<open>A cancelled subscription is over at once if the event names its entitlement in the field
  entitlement_id: unlike a renewal, which grants the tier of that entitlement, a cancellation looks at
  the list entitlement_ids only, so the default tier is stored although the subscription was paid until
  later.\<close>

theorem rc_cancellation_ends_at_once:
  assumes "ev_EntitlementIDs ev = []" "ev_EntitlementID ev = i" "i \<noteq> ''''" "MapEntitlementToTier p i \<noteq> rp_defaultTier p"
    and "0 < ev_ExpirationAtMs ev" "now < parseEventTimestamp (ev_ExpirationAtMs ev)"
  shows "effective_tier p now \<lparr>wp_Event = ev\<lparr>ev_Type := ''RENEWAL''\<rparr>, wp_Subscriber = s, wp_CustomerInfo = c\<rparr>
      = MapEntitlementToTier p i
    \<and> effective_tier p now \<lparr>wp_Event = ev\<lparr>ev_Type := ''CANCELLATION''\<rparr>, wp_Subscriber = s, wp_CustomerInfo = c\<rparr>
      = rp_defaultTier p"
proof -
  have "TrimSpace ''RENEWAL'' = ''RENEWAL''" "TrimSpace ''CANCELLATION'' = ''CANCELLATION''" by code_simp+
  then show ?thesis
    using assms by (auto simp: effective_tier_def extractTierFromPayload_def expiration_like_def
        handleEntitlementFromEvent_def handleExpirationLike_def Let_def)
qed

text \<open>The expiry of an entitlement is not enforced: a request of a user whose entitlement has expired is
  charged against the quota of the paid tier, until an event or a synchronisation replaces the
  entitlement.\<close>

theorem expired_tier_still_enforced:
  assumes "m_storage m = memory_storage" "flights_alone m" "cache_inv {} {} w" "ctx_Err ctx = None" "0 < n"
    and "pt = PeriodTypeMonthly \<or> pt = PeriodTypeDaily"
    and "ms_entitlements (w_storage w) u = Some e" "e_ExpiresAt e = Some t" "t < now"
    and "period_for (Some e) now pt = Some pd" "unlimited_rate (m_config m) (e_Tier e) r"
    and "used = lg_used (mem_view (w_storage w)) (mem_usageKey u r pd)" "int64_ok (used + n)"
    and "used + n \<le> getLimitForResource (m_config m) r (e_Tier e) pt" "0 \<le> used"
  shows "fst (run_state (Consume m ctx now u r n pt no_options) w) = (used + n, None)"
proof -
  obtain res w' where run: "run_state (Consume m ctx now u r n pt no_options) w = (res, w')" by fastforce
  have "stored_tier (m_config m) (w_storage w) u = e_Tier e" by (simp add: stored_tier_def assms(7))
  with Consume_exact_inv [OF assms(1-6) _ refl _ assms(12,13) run, unfolded assms(7), OF assms(10)] assms
  show ?thesis by (simp add: run consume_answer_def)
qed


section \<open>The properties at a demo\<close>

text \<open>A provider whose callback logs the event and fails, and an event for the tier \<open>pro\<close>.\<close>

definition rc_demo :: "(string \<times> string) list \<Rightarrow> (MemState, MemState, WebhookEvent list) RCProvider" where
  "rc_demo tm = \<lparr>rp_manager = demo_manager, rp_httpClient = (\<lambda>url hs c. (Inl (ErrText ''offline''), c)),
     rp_tierMapping = tm, rp_defaultTier = ''free'', rp_webhookSecret = ''s3'', rp_apiKey = ''k'',
     rp_acceptHMAC = False, rp_webhookCallback = Some (\<lambda>e log. (Some (ErrText ''down''), e # log))\<rparr>"

definition rc_demo_world :: "(MemState, MemState, WebhookEvent list) BillingWorld" where
  "rc_demo_world = \<lparr>bw_manager = demo_world, bw_limiter = wl_NewRateLimiter 100 ns_per_minute, bw_metrics = [],
     bw_outside = []\<rparr>"

definition rc_demo_event :: "string \<Rightarrow> goint \<Rightarrow> rcEvent" where
  "rc_demo_event ty ms = \<lparr>ev_ID = '''', ev_Type = ty, ev_AppUserID = ''u'', ev_EntitlementID = ''pro'',
     ev_EntitlementIDs = [], ev_ProductID = ''pro_monthly'', ev_ExpirationReason = '''', ev_ExpirationAtMs = 900,
     ev_TimestampMs = ms, ev_EventTimestampMs = 0, ev_PurchaseDateMs = 0, ev_PurchasedAtMs = 0\<rparr>"

definition rc_demo_payload :: "string \<Rightarrow> goint \<Rightarrow> webhookPayload" where
  "rc_demo_payload ty ms = \<lparr>wp_Event = rc_demo_event ty ms, wp_Subscriber = None, wp_CustomerInfo = None\<rparr>"

lemma rc_demo_simps [simp]:
  "rp_manager (rc_demo tm) = demo_manager" "bw_manager rc_demo_world = demo_world"
  "memory_ready demo_manager demo_world" "ms_entitlements (w_storage demo_world) = Map.empty"
  using cache_inv_New [OF demo_cache]
  by (simp_all add: rc_demo_def rc_demo_world_def memory_ready_def demo_world_def mem_New_def)

lemma rc_demo_times [simp]:
  "0 < ms \<Longrightarrow> ms < 1000 \<Longrightarrow> event_time (rc_demo_payload ty ms) = ms * 1000000"
  by (simp add: event_time_def rc_demo_payload_def rc_demo_event_def getEventTimestamp_def parseEventTimestamp_def
      wrap64_def)

lemma rc_demo_tier:
  "effective_tier (rc_demo [(''pro'', ''pro'')]) 5 (rc_demo_payload ''RENEWAL'' 3) = ''pro''"
  "effective_tier (rc_demo [(''pro'', ''pro'')]) 5 (rc_demo_payload ''CANCELLATION'' 3) = ''free''"
  by code_simp+

lemma rc_newest_event_wins_witness:
  "\<exists>e. ms_entitlements (w_storage (bw_manager (snd (rc_deliver (rc_demo [(''pro'', ''pro'')]) ''u''
      [(5, rc_demo_payload ''CANCELLATION'' 1), (5, rc_demo_payload ''RENEWAL'' 3),
       (6, rc_demo_payload ''CANCELLATION'' 2), (7, rc_demo_payload ''RENEWAL'' 3)] rc_demo_world)))) ''u'' = Some e
    \<and> e_Tier e = ''pro'' \<and> e_UpdatedAt e = 3000000"
proof -
  let ?ds = "[(5, rc_demo_payload ''CANCELLATION'' 1)] @ (5, rc_demo_payload ''RENEWAL'' 3) #
    [(6, rc_demo_payload ''CANCELLATION'' 2), (7, rc_demo_payload ''RENEWAL'' 3)]"
  obtain rs w' where run: "rc_deliver (rc_demo [(''pro'', ''pro'')]) ''u'' ?ds rc_demo_world = (rs, w')" by fastforce
  then have "snd (rc_deliver (rc_demo [(''pro'', ''pro'')]) ''u'' ?ds rc_demo_world) = w'" by simp
  with rc_newest_event_wins [OF _ _ refl _ _ _ run] show ?thesis
    by (simp add: rc_demo_tier del: rc_deliver.simps) blast
qed

lemma rc_callback_at_most_once_witness:
  "\<exists>w1 w2 e. run_state (rc_processWebhookEvent (rc_demo [(''pro'', ''pro'')]) 5 (rc_demo_payload ''RENEWAL'' 3) ''u'')
      rc_demo_world = (Some (ErrText ''down''), w1)
    \<and> run_state (rc_processWebhookEvent (rc_demo [(''pro'', ''pro'')]) 9 (rc_demo_payload ''RENEWAL'' 3) ''u'') w1 = (None, w2)
    \<and> bw_outside w1 = [e] \<and> bw_outside w2 = [e]"
proof -
  let ?p = "rc_demo [(''pro'', ''pro'')]" and ?pl = "rc_demo_payload ''RENEWAL'' 3"
  obtain res w1 where 1: "run_state (rc_processWebhookEvent ?p 5 ?pl ''u'') rc_demo_world = (res, w1)" by fastforce
  obtain res' w2 where 2: "run_state (rc_processWebhookEvent ?p 9 ?pl ''u'') w1 = (res', w2)" by fastforce
  show ?thesis
    using rc_callback_at_most_once [OF _ _ _ 1 order_refl 2] 1 2
    by (auto simp: rc_notify_def rc_demo_def rc_demo_world_def)
qed

definition rc_demo_library :: "'c RCLibrary" where
  "rc_demo_library = \<lparr>lib_DecodeString = Inr, lib_HMAC = (\<lambda>key msg. key @ msg),
     lib_Decode = (\<lambda>body. Inr (rc_demo_payload body 3, False)), lib_Unmarshal = (\<lambda>body. Inr []),
     lib_NewRequest = (\<lambda>url. None), lib_DefaultClient = (\<lambda>d url hs c. (Inl (ErrText ''offline''), c))\<rparr>"

definition rc_demo_request :: "string \<Rightarrow> WebhookRequest" where
  "rc_demo_request token = \<lparr>hr_Header = header_Set ''Authorization'' token (\<lambda>_. []), hr_Err = None,
     hr_Values = (\<lambda>_. None), hr_Body = Some (''RENEWAL'', False), wr_Method = ''POST'', wr_RemoteAddr = ''1.2.3.4''\<rparr>"

definition rc_demo_writer :: "string ResponseWriter" where
  "rc_demo_writer = \<lparr>rw_Header = (\<lambda>_. []), rw_Status = None, rw_Body = [], rw_Broken = False\<rparr>"

lemma rc_demo_parts:
  "fst (wl_allow 5 (GetClientIP (rc_demo_request t)) (bw_limiter rc_demo_world))"
  "setSecurityHeaders rc_demo_writer = wr \<Longrightarrow> ReadBodyStrict (256 * 1024) wr (rc_demo_request t) = (Inr ''RENEWAL'', wr)"
  "extractTokenOrSignature (rc_demo_request ''s3'') = ''s3''" "TrimSpace ''s3'' = ''s3''" "TrimSpace ''u'' = ''u''"
  "TrimSpace ''RENEWAL'' = ''RENEWAL''" "\<not> EqualFold ''RENEWAL'' ''TEST''"
proof -
  show "extractTokenOrSignature (rc_demo_request ''s3'') = ''s3''"
    by (simp add: extractTokenOrSignature_def rc_demo_request_def) code_simp
qed (auto simp: wl_allow_def wl_decide_def wl_housekeeping_def rc_demo_world_def wl_NewRateLimiter_def Let_def iadd_def irem_def
    wrap64_def cleanupExpired_def ReadBodyStrict_def rc_demo_request_def ReadAll_def | code_simp)+


lemma rc_webhook_authenticated_witness:
  "bw_outside (snd (run_state (rc_WebhookHandler rc_demo_library (rc_demo [(''pro'', ''pro'')]) 5 rc_demo_writer
      (rc_demo_request ''s3'')) rc_demo_world)) \<noteq> bw_outside rc_demo_world
    \<and> extractTokenOrSignature (rc_demo_request ''s3'') = rp_webhookSecret (rc_demo [(''pro'', ''pro'')])"
proof -
  let ?p = "rc_demo [(''pro'', ''pro'')]" and ?r = "rc_demo_request ''s3''"
  let ?w = "rc_demo_world\<lparr>bw_limiter := snd (wl_allow 5 (GetClientIP ?r) (bw_limiter rc_demo_world))\<rparr>"
  obtain out w' where run: "run_state (rc_WebhookHandler rc_demo_library ?p 5 rc_demo_writer ?r) rc_demo_world = (out, w')"
    by fastforce
  obtain res w1 where 1: "run_state (rc_processWebhookEvent ?p 5 (rc_demo_payload ''RENEWAL'' 3) ''u'') ?w = (res, w1)"
    by fastforce
  have "(res, bw_outside w1) = rc_notify ?p 5 (rc_demo_payload ''RENEWAL'' 3) ''u'' None []"
    using mem_reg.process_runs [OF _ _ _ _ 1] by (simp add: memory_ents_def rc_demo_world_def)
  then obtain e where e: "res = Some (ErrText ''down'')" "bw_outside w1 = [e]"
    by (auto simp: rc_notify_def rc_demo_def)
  have "bw_outside w' = bw_outside w1"
    using run 1 e(1) rc_demo_parts(2) [OF refl]
    by (auto simp: rc_WebhookHandler_def wl_Middleware_def rc_demo_parts rc_handleWebhook_def Let_def MethodPost_def
        rc_demo_request_def [THEN arg_cong [of _ _ wr_Method]] rc_demo_request_def [THEN arg_cong [of _ _ hr_Err]]
        verifyRequest_def parseWebhookPayload_def rc_demo_library_def rc_dispatch_def answer_error_def
        rc_demo_payload_def [THEN arg_cong [of _ _ wp_Event]] rc_demo_event_def rc_demo_def)
  then have "bw_outside w' \<noteq> bw_outside rc_demo_world" using e(2) by (simp add: rc_demo_world_def)
  with rc_webhook_authenticated [OF run] run show ?thesis by (auto simp: rc_demo_def)
qed

lemma rc_cancellation_ends_at_once_witness:
  "effective_tier (rc_demo [(''pro'', ''pro'')]) 5 (rc_demo_payload ''RENEWAL'' 3) = ''pro''
    \<and> effective_tier (rc_demo [(''pro'', ''pro'')]) 5 (rc_demo_payload ''CANCELLATION'' 3) = ''free''"
proof -
  have "MapEntitlementToTier (rc_demo [(''pro'', ''pro'')]) ''pro'' = ''pro''" by code_simp
  then show ?thesis
    using rc_cancellation_ends_at_once [of "rc_demo_event ''X'' 3" "''pro''" "rc_demo [(''pro'', ''pro'')]" 5 None None]
    by (simp add: rc_demo_event_def rc_demo_payload_def parseEventTimestamp_def wrap64_def) (simp add: rc_demo_def)
qed

text \<open>The same tier mapping, in two orders of the loop over it, maps one entitlement to two tiers.\<close>

lemma rc_mapping_order:
  "let a = [(''pro'', ''pro''), (''pro_plus'', ''premium'')]; b = [(''pro_plus'', ''premium''), (''pro'', ''pro'')]
   in map_of a = map_of b
     \<and> MapEntitlementToTier (rc_demo a) ''pro_plus_annual'' = ''pro''
     \<and> MapEntitlementToTier (rc_demo b) ''pro_plus_annual'' = ''premium''"
proof -
  have "MapEntitlementToTier (rc_demo [(''pro'', ''pro''), (''pro_plus'', ''premium'')]) ''pro_plus_annual'' = ''pro''"
    "MapEntitlementToTier (rc_demo [(''pro_plus'', ''premium''), (''pro'', ''pro'')]) ''pro_plus_annual'' = ''premium''"
    by code_simp+
  then show ?thesis by (auto simp: Let_def)
qed

definition expired_demo :: "(MemState, MemState) World" where
  "expired_demo = demo_world\<lparr>w_storage := mem_New\<lparr>ms_entitlements := [''u'' \<mapsto>
     \<lparr>e_UserID = ''u'', e_Tier = ''free'', e_SubscriptionStartDate = 0, e_ExpiresAt = Some 1, e_UpdatedAt = 0\<rparr>]\<rparr>\<rparr>"

lemma expired_tier_still_enforced_witness:
  "fst (run_state (Consume demo_manager demo_ctx demo_now ''u'' ''api'' 3 PeriodTypeDaily no_options) expired_demo) = (3, None)"
proof -
  let ?e = "\<lparr>e_UserID = ''u'', e_Tier = ''free'', e_SubscriptionStartDate = 0, e_ExpiresAt = Some 1, e_UpdatedAt = 0\<rparr>"
  have "cache_inv {} {} expired_demo"
    by (rule cache_inv_New) (use demo_cache in \<open>simp add: expired_demo_def\<close>)
  moreover have "getLimitForResource demo_config ''api'' ''free'' PeriodTypeDaily = 3" by code_simp
  moreover have "1 < demo_now" by code_simp
  ultimately show ?thesis
    using expired_tier_still_enforced [of demo_manager expired_demo demo_ctx 3 PeriodTypeDaily "''u''" ?e 1 demo_now
        "daily_period demo_now" "''api''" 0]
    by (simp add: expired_demo_def demo_ctx_def period_for_def lg_used_def mem_view_def mem_New_def int64_ok_def
        unlimited_rate_def tier_or_default_def tier_lookup_def demo_config_def demo_tier_def)
qed

end
