(* ===== verification/BillingBackends.thy ===== *)
theory BillingBackends
  imports RevenueCatProps PostgresProps
begin

text \<open>
  A billing provider over a manager with the PostgreSQL storage. It is an entitlement register too,
  but not a faithful one: SetEntitlement stores the time of the database as the timestamp of the
  entitlement, and the providers compare that with the times of events.
\<close>

definition pg_ready :: "(PgState, 't) Manager \<Rightarrow> (PgState, 't) World \<Rightarrow> bool" where
  "pg_ready m w \<longleftrightarrow> (\<exists>c. m_storage m = postgres_storage c) \<and> flights_alone m
     \<and> (\<forall>t tc. tier_lookup (m_config m) t = Some tc \<longrightarrow> tc_InitialForeverCredits tc = [])
     \<and> w_cache w = NoopCache \<and> pg_faults (w_storage w) = []"

definition pg_ents :: "(PgState, 't) World \<Rightarrow> string \<Rightarrow> Entitlement option" where
  "pg_ents w = tb_entitlements (pg_tables (w_storage w))"

definition pg_stored :: "time \<Rightarrow> Entitlement \<Rightarrow> Entitlement" where
  "pg_stored now ent = ent\<lparr>e_SubscriptionStartDate := pg_time (e_SubscriptionStartDate ent),
     e_ExpiresAt := map_option pg_time (e_ExpiresAt ent), e_UpdatedAt := pg_time now\<rparr>"

definition pg_fits :: "Entitlement \<Rightarrow> bool" where
  "pg_fits ent \<longleftrightarrow> varchar 255 (e_UserID ent) \<and> varchar 50 (e_Tier ent)"

lemma run_trip_answered:
  "pg_faults s = [] \<Longrightarrow> run_state (pg_trip f) s = (fst (f (pg_tables s)), s\<lparr>pg_tables := snd (f (pg_tables s))\<rparr>)"
  by (simp add: pg_trip_def case_prod_unfold Let_def)

interpretation pg_reg: entitlement_register pg_ready pg_ents pg_fits pg_stored
proof
  fix m :: "(PgState, 'a) Manager" and w now u r w'
  assume 1: "pg_ready m w" "run_state (GetEntitlement m now u) w = (r, w')"
  then obtain c where "m_storage m = postgres_storage c" by (auto simp: pg_ready_def)
  with 1 show "r = (case pg_ents w u of None \<Rightarrow> Inl ErrEntitlementNotFound | Some e \<Rightarrow> Inr e)
      \<and> pg_ents w' = pg_ents w \<and> pg_ready m w'"
    by (auto simp: pg_ready_def pg_ents_def GetEntitlement_def fetch_entitlement_def postgres_storage_def
        pg_GetEntitlement_def run_trip_answered split: option.splits)
next
  fix m :: "(PgState, 'a) Manager" and w e now err w'
  assume 1: "pg_ready m w" "e_UserID e \<noteq> ''''" "pg_fits e" "run_state (SetEntitlement m now e) w = (err, w')"
  then obtain c where "m_storage m = postgres_storage c" by (auto simp: pg_ready_def)
  with 1 show "err = None \<and> pg_ents w' = (pg_ents w)(e_UserID e \<mapsto> pg_stored now e) \<and> pg_ready m w'"
    by (auto simp: pg_ready_def pg_ents_def SetEntitlement_def postgres_storage_def pg_SetEntitlement_def
        run_trip_answered upsert_entitlement_def pg_fits_def pg_stored_def only_if_def split: option.splits)
qed

text \<open>C16: Over PostgreSQL a newer event can be lost. An event that happened before the previous one was
  processed is dropped, although its timestamp is newer than that of the previous event: the storage
  has replaced the event's timestamp by the time of its own clock. The sender is told that the event
  was processed.\<close>

theorem rc_postgres_drops_newer:
  assumes "pg_ready (rp_manager p) (bw_manager w)" "u \<noteq> ''''" "pg_ents (bw_manager w) u = None"
    and "pg_fits (event_entitlement p now payload u None)"
    and "run_state (rc_processWebhookEvent p now payload u) w = (res, w1)"
    and "event_time payload < event_time newer" "event_time newer \<le> pg_time now"
    and "run_state (rc_processWebhookEvent p later newer u) w1 = (res', w2)"
  shows "res' = None \<and> bw_outside w2 = bw_outside w1
    \<and> pg_ents (bw_manager w2) u = pg_ents (bw_manager w1) u
    \<and> (\<exists>e. pg_ents (bw_manager w2) u = Some e \<and> e_Tier e = effective_tier p now payload)"
proof -
  note 1 = pg_reg.process_runs [OF assms(1,2) _ _ assms(5)]
  have e: "pg_ents (bw_manager w1) u = Some (pg_stored now (event_entitlement p now payload u None))"
    and ready: "pg_ready (rp_manager p) (bw_manager w1)"
    using 1 assms(3,4) by simp_all
  have "event_time newer \<le> e_UpdatedAt (pg_stored now (event_entitlement p now payload u None))"
    using assms(7) by (simp add: pg_stored_def)
  from pg_reg.process_skips [OF ready e this assms(8)] e show ?thesis by (simp add: pg_stored_def)
qed

definition pg_billing :: "(PgState, MemState, WebhookEvent list) RCProvider" where
  "pg_billing = \<lparr>rp_manager = \<lparr>m_storage = postgres_storage pg_DefaultConfig, m_secondary = memory_storage,
       m_config = demo_config\<lparr>c_Tiers := None\<rparr>, m_entitlementGroup = (\<lambda>k f. f), m_usageGroup = (\<lambda>k f. f)\<rparr>,
     rp_httpClient = (\<lambda>url hs c. (Inl (ErrText ''offline''), c)),
     rp_tierMapping = [(''pro'', ''pro'')], rp_defaultTier = ''free'', rp_webhookSecret = ''s3'', rp_apiKey = ''k'',
     rp_acceptHMAC = False, rp_webhookCallback = None\<rparr>"

definition pg_billing_world :: "(PgState, MemState, WebhookEvent list) BillingWorld" where
  "pg_billing_world = \<lparr>bw_manager = \<lparr>w_storage = pg_demo_state pg_demo_empty, w_cache = NoopCache, w_fallback = None,
       w_secondary = mem_New, w_metrics = []\<rparr>,
     bw_limiter = wl_NewRateLimiter 100 ns_per_minute, bw_metrics = [], bw_outside = []\<rparr>"

text \<open>A renewal of the first millisecond, processed in the tenth, hides a cancellation of the third.\<close>

lemma rc_postgres_drops_newer_witness:
  "\<exists>w1 w2 e. run_state (rc_processWebhookEvent pg_billing 10000000 (rc_demo_payload ''RENEWAL'' 1) ''u'') pg_billing_world
      = (None, w1)
    \<and> run_state (rc_processWebhookEvent pg_billing 11000000 (rc_demo_payload ''CANCELLATION'' 3) ''u'') w1 = (None, w2)
    \<and> pg_ents (bw_manager w2) ''u'' = Some e \<and> e_Tier e = ''pro''"
proof -
  have tier: "effective_tier pg_billing 10000000 (rc_demo_payload ''RENEWAL'' 1) = ''pro''" by code_simp
  have ready: "pg_ready (rp_manager pg_billing) (bw_manager pg_billing_world)" "pg_ents (bw_manager pg_billing_world) ''u'' = None"
    by (auto simp: pg_ready_def pg_billing_def pg_billing_world_def flights_alone_def pg_demo_state_def pg_demo_empty_def
        pg_ents_def tier_lookup_def)
  obtain res w1 where 1: "run_state (rc_processWebhookEvent pg_billing 10000000 (rc_demo_payload ''RENEWAL'' 1) ''u'')
      pg_billing_world = (res, w1)" by fastforce
  obtain res' w2 where 2: "run_state (rc_processWebhookEvent pg_billing 11000000 (rc_demo_payload ''CANCELLATION'' 3) ''u'') w1
      = (res', w2)" by fastforce
  have fits: "pg_fits (event_entitlement pg_billing 10000000 (rc_demo_payload ''RENEWAL'' 1) ''u'' None)"
    by (simp add: pg_fits_def tier varchar_def)
  have "res = None"
    using pg_reg.process_runs [OF ready(1) _ _ _ 1] ready(2) fits by (simp add: rc_notify_def pg_billing_def)
  moreover have "''u'' \<noteq> []" "event_time (rc_demo_payload ''RENEWAL'' 1) < event_time (rc_demo_payload ''CANCELLATION'' 3)"
    "event_time (rc_demo_payload ''CANCELLATION'' 3) \<le> pg_time 10000000"
    by (simp_all add: pg_time_def)
  moreover note rc_postgres_drops_newer [OF ready(1) this(1) ready(2) fits 1 this(2,3) 2, unfolded tier]
  ultimately show ?thesis using 1 2 by blast
qed

end
