(* ===== verification/BillingLimits.thy ===== *)
theory BillingLimits
  imports BillingBase
begin

text \<open>
  The limiter in front of the webhooks: how many requests of one address it admits in an interval of
  the length of its window, whatever the cleanups in between, and what the address is worth.
\<close>

text \<open>The admitted requests of an address among calls, and the limiter after them.\<close>

fun wl_admitted :: "string \<Rightarrow> (time \<times> string) list \<Rightarrow> WebhookLimiter \<Rightarrow> int" where
  "wl_admitted ip [] rl = 0"
| "wl_admitted ip ((now, i) # calls) rl =
     (case wl_allow now i rl of (ok, rl) \<Rightarrow> (if ok \<and> i = ip then 1 else 0) + wl_admitted ip calls rl)"

definition wl_after :: "(time \<times> string) list \<Rightarrow> WebhookLimiter \<Rightarrow> WebhookLimiter" where
  "wl_after calls rl = fold (\<lambda>(now, i) rl. snd (wl_allow now i rl)) calls rl"

definition wl_inv :: "WebhookLimiter \<Rightarrow> bool" where
  "wl_inv rl \<longleftrightarrow> distinct (map fst (wl_requests rl)) \<and> (\<forall>(i, b) \<in> set (wl_requests rl). 1 \<le> bk_count b)
     \<and> 1 \<le> wl_limit rl \<and> int64_ok (wl_limit rl)"

abbreviation bucket_at :: "WebhookLimiter \<Rightarrow> string \<Rightarrow> bucket option" where
  "bucket_at rl ip \<equiv> map_of (wl_requests rl) ip"

text \<open>A cleanup removes expired buckets only.\<close>

lemma in_update: "(k, v) \<in> set (AList.update i b xs) \<Longrightarrow> (k, v) = (i, b) \<or> (k, v) \<in> set xs"
  by (induction xs) (auto split: if_splits)

lemma map_of_filter_live:
  "distinct (map fst xs) \<Longrightarrow> map_of (filter (\<lambda>(i, b). P b) xs) ip =
    (case map_of xs ip of Some b \<Rightarrow> if P b then Some b else None | None \<Rightarrow> None)"
proof (induction xs)
  case (Cons x xs)
  have "map_of (filter (\<lambda>(i, b). P b) xs) (fst x) = None"
    using Cons.prems by (auto simp: map_of_eq_None_iff)
  then show ?case using Cons by (cases x) (auto split: option.split)
qed simp

lemma cleanup_buckets:
  assumes "wl_inv rl"
  shows "wl_inv (cleanupExpired now rl)"
    "bucket_at (cleanupExpired now rl) ip = bucket_at rl ip
      \<or> bucket_at (cleanupExpired now rl) ip = None \<and> (\<exists>b. bucket_at rl ip = Some b \<and> bk_resetAt b < now)"
proof -
  have d: "distinct (map fst (wl_requests rl))" using assms by (simp add: wl_inv_def)
  show "wl_inv (cleanupExpired now rl)"
    using assms by (auto simp: wl_inv_def cleanupExpired_def distinct_map_filter)
  show "bucket_at (cleanupExpired now rl) ip = bucket_at rl ip
      \<or> bucket_at (cleanupExpired now rl) ip = None \<and> (\<exists>b. bucket_at rl ip = Some b \<and> bk_resetAt b < now)"
    using map_of_filter_live [OF d, of "\<lambda>b. \<not> bk_resetAt b < now" ip]
    by (auto simp: cleanupExpired_def split: option.splits)
qed

lemma inv_count [simp]: "wl_inv (rl\<lparr>wl_requestCount := n\<rparr>) = wl_inv rl"
  by (simp add: wl_inv_def)

lemma housekeeping_cases:
  obtains n where "wl_housekeeping now rl = rl\<lparr>wl_requestCount := n\<rparr>"
  | n where "wl_housekeeping now rl = cleanupExpired now (rl\<lparr>wl_requestCount := n\<rparr>)"
proof (cases "wl_housekeeping now rl = rl\<lparr>wl_requestCount := iadd (wl_requestCount rl) 1\<rparr>")
  case False
  then show thesis
    using that(2) [of "iadd (wl_requestCount rl) 1"] that(2) [of 0]
    by (auto simp: wl_housekeeping_def cleanupExpired_def Let_def split: if_splits)
qed (use that in blast)

lemma housekeeping_buckets:
  assumes "wl_inv rl"
  shows "wl_inv (wl_housekeeping now rl)" "wl_limit (wl_housekeeping now rl) = wl_limit rl"
    "wl_window (wl_housekeeping now rl) = wl_window rl"
    "bucket_at (wl_housekeeping now rl) ip = bucket_at rl ip
      \<or> bucket_at (wl_housekeeping now rl) ip = None \<and> (\<exists>b. bucket_at rl ip = Some b \<and> bk_resetAt b < now)"
proof -
  have "wl_inv (wl_housekeeping now rl) \<and> wl_limit (wl_housekeeping now rl) = wl_limit rl
    \<and> wl_window (wl_housekeeping now rl) = wl_window rl
    \<and> (bucket_at (wl_housekeeping now rl) ip = bucket_at rl ip
      \<or> bucket_at (wl_housekeeping now rl) ip = None \<and> (\<exists>b. bucket_at rl ip = Some b \<and> bk_resetAt b < now))"
  proof (rule housekeeping_cases [of now rl])
    fix n assume h: "wl_housekeeping now rl = cleanupExpired now (rl\<lparr>wl_requestCount := n\<rparr>)"
    have "wl_inv (rl\<lparr>wl_requestCount := n\<rparr>)" using assms by simp
    from cleanup_buckets [OF this, of now] cleanup_buckets(2) [OF this, of now ip] show ?thesis
      by (simp add: h) (simp add: cleanupExpired_def)
  qed (use assms in simp)
  then show "wl_inv (wl_housekeeping now rl)" "wl_limit (wl_housekeeping now rl) = wl_limit rl"
    "wl_window (wl_housekeeping now rl) = wl_window rl"
    "bucket_at (wl_housekeeping now rl) ip = bucket_at rl ip
      \<or> bucket_at (wl_housekeeping now rl) ip = None \<and> (\<exists>b. bucket_at rl ip = Some b \<and> bk_resetAt b < now)"
    by blast+
qed

lemma decide_inv:
  assumes "wl_inv rl"
  shows "wl_inv (snd (wl_decide now i rl))" "wl_limit (snd (wl_decide now i rl)) = wl_limit rl"
    "wl_window (snd (wl_decide now i rl)) = wl_window rl"
    "i \<noteq> ip \<Longrightarrow> bucket_at (snd (wl_decide now i rl)) ip = bucket_at rl ip"
proof -
  have up: "wl_inv (rl\<lparr>wl_requests := AList.update i b (wl_requests rl)\<rparr>)" if "1 \<le> bk_count b" for b
    using assms that in_update [of _ _ i b "wl_requests rl"] by (fastforce simp: wl_inv_def distinct_update)
  have count: "1 \<le> iadd (bk_count b) 1" if "bucket_at rl i = Some b" "bk_count b < wl_limit rl" for b
  proof -
    have "1 \<le> bk_count b" using assms that(1) by (fastforce simp: wl_inv_def dest: map_of_SomeD)
    then show ?thesis using that(2) assms by (subst iadd_id) (auto simp: wl_inv_def int64_ok_def)
  qed
  show "wl_inv (snd (wl_decide now i rl))"
    using assms up count by (auto simp: wl_decide_def Let_def split: option.split)
qed (auto simp: wl_decide_def Let_def update_conv split: option.split)

lemma allow_inv:
  assumes "wl_inv rl"
  shows "wl_inv (snd (wl_allow now i rl))" "wl_limit (snd (wl_allow now i rl)) = wl_limit rl"
    "wl_window (snd (wl_allow now i rl)) = wl_window rl"
  using housekeeping_buckets [OF assms] decide_inv [of "wl_housekeeping now rl"] by (simp_all add: wl_allow_def)

lemma after_inv:
  "wl_inv rl \<Longrightarrow> wl_inv (wl_after calls rl) \<and> wl_limit (wl_after calls rl) = wl_limit rl
    \<and> wl_window (wl_after calls rl) = wl_window rl"
  by (induction calls arbitrary: rl) (auto simp: wl_after_def allow_inv)

text \<open>What is left for an address until an instant: the rest of its bucket, and a full one if that ends before.\<close>

definition credit :: "time \<Rightarrow> string \<Rightarrow> WebhookLimiter \<Rightarrow> int" where
  "credit until ip rl = (case bucket_at rl ip of
     None \<Rightarrow> wl_limit rl
   | Some b \<Rightarrow> max 0 (wl_limit rl - bk_count b) + (if until \<le> bk_resetAt b then 0 else wl_limit rl))"

lemma credit_housekeeping:
  assumes "wl_inv rl" "now \<le> until"
  shows "credit until ip (wl_housekeeping now rl) \<le> credit until ip rl"
proof (cases "bucket_at (wl_housekeeping now rl) ip = bucket_at rl ip")
  case True
  then show ?thesis by (simp add: credit_def housekeeping_buckets(2) [OF assms(1)] split: option.split)
next
  case False
  then obtain b where "bucket_at (wl_housekeeping now rl) ip = None" "bucket_at rl ip = Some b" "bk_resetAt b < now"
    using housekeeping_buckets(4) [OF assms(1), of now ip] by auto
  then show ?thesis using assms(2) by (simp add: credit_def housekeeping_buckets(2) [OF assms(1)])
qed

lemma credit_decide:
  assumes "wl_inv rl" "now \<le> until" "until \<le> now + wl_window rl"
  shows "(if fst (wl_decide now ip rl) then 1 else 0) + credit until ip (snd (wl_decide now ip rl)) \<le> credit until ip rl"
proof (cases "bucket_at rl ip")
  case None
  then show ?thesis using assms by (auto simp: wl_decide_def credit_def Let_def update_conv time_Add_def wl_inv_def)
next
  case (Some b)
  have "1 \<le> bk_count b" using assms(1) Some by (fastforce simp: wl_inv_def dest: map_of_SomeD)
  moreover have "iadd (bk_count b) 1 = bk_count b + 1" if "bk_count b < wl_limit rl"
    using that assms(1) \<open>1 \<le> bk_count b\<close> by (intro iadd_id) (auto simp: wl_inv_def int64_ok_def)
  ultimately show ?thesis using assms Some
    by (auto simp: wl_decide_def credit_def Let_def update_conv time_Add_def wl_inv_def)
qed

lemma credit_allow:
  assumes "wl_inv rl" "now \<le> until" "until \<le> now + wl_window rl"
  shows "(if fst (wl_allow now i rl) \<and> i = ip then 1 else 0) + credit until ip (snd (wl_allow now i rl))
    \<le> credit until ip rl"
proof -
  let ?h = "wl_housekeeping now rl"
  note h = housekeeping_buckets [OF assms(1), of now]
  have "(if fst (wl_decide now i ?h) \<and> i = ip then 1 else 0) + credit until ip (snd (wl_decide now i ?h)) \<le> credit until ip ?h"
  proof (cases "i = ip")
    case True
    then show ?thesis using credit_decide [OF h(1), of now until ip] assms h(3) by simp
  next
    case False
    then show ?thesis by (simp add: credit_def decide_inv(2) [OF h(1)] decide_inv(4) [OF h(1) False] split: option.split)
  qed
  with credit_housekeeping [OF assms(1,2), of ip] show ?thesis by (simp add: wl_allow_def)
qed

lemma admitted_credit:
  "wl_inv rl \<Longrightarrow> \<forall>(t, i) \<in> set calls. a \<le> t \<and> t \<le> a + wl_window rl \<Longrightarrow>
    wl_admitted ip calls rl \<le> credit (a + wl_window rl) ip rl"
proof (induction calls arbitrary: rl)
  case Nil
  then show ?case by (auto simp: credit_def wl_inv_def split: option.split)
next
  case (Cons c calls)
  obtain t i where c: "c = (t, i)" by fastforce
  show ?case
    using Cons.IH [of "snd (wl_allow t i rl)"] Cons.prems credit_allow [OF Cons.prems(1), of t "a + wl_window rl" i ip]
    by (auto simp: c allow_inv case_prod_unfold)
qed

text \<open>C21: The limiter of the webhooks is a fixed window per address: in any interval of the length of the window
  it admits at most twice its limit of requests from one address, whatever was called before, however
  often the buckets are cleaned up, and whatever other addresses ask.\<close>

theorem wl_window_bound:
  assumes "1 \<le> limit" "int64_ok limit"
    and "\<forall>(t, i) \<in> set calls. a \<le> t \<and> t \<le> a + window"
  shows "wl_admitted ip calls (wl_after earlier (wl_NewRateLimiter limit window)) \<le> 2 * limit"
proof -
  let ?rl = "wl_after earlier (wl_NewRateLimiter limit window)"
  have inv: "wl_inv ?rl" "wl_limit ?rl = limit" "wl_window ?rl = window"
    using after_inv [of "wl_NewRateLimiter limit window" earlier] assms by (simp_all add: wl_inv_def wl_NewRateLimiter_def)
  have "credit u ip ?rl \<le> 2 * limit" for u
  proof (cases "bucket_at ?rl ip")
    case (Some b)
    then have "1 \<le> bk_count b" using inv(1) by (fastforce simp: wl_inv_def dest: map_of_SomeD)
    then show ?thesis using Some inv(2) assms(1) by (auto simp: credit_def)
  qed (use inv assms in \<open>simp add: credit_def\<close>)
  moreover have "wl_admitted ip calls ?rl \<le> credit (a + wl_window ?rl) ip ?rl"
    by (rule admitted_credit [OF inv(1)]) (use assms(3) inv(3) in auto)
  ultimately show ?thesis by (meson order_trans)
qed

text \<open>The bound is reached: two requests at the end of a window and two after it, with a limit of two.\<close>

lemma wl_window_bound_witness:
  "wl_admitted ''ip'' [(9, ''ip''), (10, ''ip''), (11, ''ip''), (12, ''ip''), (13, ''ip'')]
      (wl_after [(0, ''ip'')] (wl_NewRateLimiter 3 10)) \<le> 6
    \<and> wl_admitted ''ip'' [(9, ''ip''), (10, ''ip''), (11, ''ip''), (12, ''ip''), (13, ''ip'')]
      (wl_after [(0, ''ip'')] (wl_NewRateLimiter 3 10)) = 5"
proof -
  have "wl_admitted ''ip'' [(9, ''ip''), (10, ''ip''), (11, ''ip''), (12, ''ip''), (13, ''ip'')]
      (wl_after [(0, ''ip'')] (wl_NewRateLimiter 3 10)) = 5"
    by code_simp
  with wl_window_bound [of 3 "[(9, ''ip''), (10, ''ip''), (11, ''ip''), (12, ''ip''), (13, ''ip'')]" 5 10 "''ip''"
      "[(0, ''ip'')]"]
  show ?thesis by (simp add: int64_ok_def)
qed

text \<open>
  The address is the first element of the header X-Forwarded-For, which the client writes: a request
  that names an address without a bucket is admitted.
\<close>

lemma wl_spoofed_address:
  assumes "wl_inv rl" "bucket_at rl (GetClientIP r) = None"
  shows "fst (wl_allow now (GetClientIP r) rl)"
  using housekeeping_buckets(4) [OF assms(1), of now "GetClientIP r"] assms(2)
  by (auto simp: wl_allow_def wl_decide_def Let_def)

end
