(* ===== verification/Stripe.thy ===== *)
theory Stripe
  imports BillingBase
begin

text \<open>
  The Stripe provider, \<open>pkg/billing/stripe\<close>: construction with tier mapping and weights, the tier of
  one or several subscriptions, the webhook handlers, synchronisation, and checkout and portal
  sessions. The Stripe SDK is a parameter: its client (\<open>StripeClient\<close>), whose calls change the
  outside world, the verification of an event, and the decoding of its data (\<open>StripeLibrary\<close>). Of
  the SDK's types the fields the code uses are kept; a pointer is an option, and so is a map that may
  be nil, but the elements of a list of pointers are there. A call on a nil client panics.
\<close>

section \<open>The SDK's types\<close>

type_synonym metadata = "(string \<times> string) list option"

record StripePrice =
  pr_ID :: string
  pr_UnitAmount :: goint

record SubscriptionItem =
  si_Price :: "StripePrice option"
  si_CurrentPeriodEnd :: goint
  si_CurrentPeriodStart :: goint

record Subscription =
  sb_ID :: string
  sb_Status :: string
  sb_Metadata :: metadata
  sb_Customer :: "string option"
  sb_Items :: "SubscriptionItem list option"
  sb_Created :: goint

record Customer =
  cu_ID :: string
  cu_Metadata :: metadata

text \<open>\<open>cs_LineItems\<close> is the number of line items, if the session comes with a list of them.\<close>

record CheckoutSession =
  cs_ID :: string
  cs_Mode :: string
  cs_Metadata :: metadata
  cs_ClientReferenceID :: string
  cs_LineItems :: "nat option"
  cs_AmountTotal :: goint
  cs_PaymentIntent :: "string option"
  cs_Subscription :: "string option"

record PaymentIntent =
  pi_ID :: string
  pi_Amount :: goint
  pi_Metadata :: metadata

record StripeEvent =
  se_Type :: string
  se_Created :: goint
  se_Raw :: "string option"

datatype line_item = PriceItem string | PriceDataItem string string goint

record CheckoutParams =
  cp_Mode :: string
  cp_LineItem :: line_item
  cp_Quantity :: goint
  cp_SuccessURL :: string
  cp_CancelURL :: string
  cp_Metadata :: metadata
  cp_SubscriptionMetadata :: metadata
  cp_PaymentIntentMetadata :: metadata
  cp_Customer :: "string option"
  cp_ClientReferenceID :: "string option"
  cp_CustomerCreation :: "string option"

text \<open>A search or list iterates over results, each of which may be an error.\<close>

record 'c StripeClient =
  sc_SearchCustomers :: "string \<Rightarrow> 'c \<Rightarrow> (goerr + Customer) list \<times> 'c"
  sc_RetrieveCustomer :: "string \<Rightarrow> 'c \<Rightarrow> (goerr + Customer) \<times> 'c"
  sc_ListSubscriptions :: "string \<Rightarrow> 'c \<Rightarrow> (goerr + Subscription) list \<times> 'c"
  sc_RetrieveSubscription :: "string \<Rightarrow> 'c \<Rightarrow> (goerr + Subscription) \<times> 'c"
  sc_UpdateSubscription :: "string \<Rightarrow> (string \<times> string) list \<Rightarrow> 'c \<Rightarrow> (goerr + Subscription) \<times> 'c"
  sc_CreateCheckout :: "CheckoutParams \<Rightarrow> 'c \<Rightarrow> (goerr + string) \<times> 'c"
  sc_CreatePortal :: "string \<Rightarrow> string \<Rightarrow> 'c \<Rightarrow> (goerr + string) \<times> 'c"

text \<open>The field \<open>subscription\<close> of an invoice: an object with or without an id, a text, or else.\<close>

datatype raw_field = RawObject "string option" | RawString string | RawOther

record 'c StripeLibrary =
  sl_NewClient :: "string \<Rightarrow> 'c StripeClient"
  sl_ConstructEvent :: "string \<Rightarrow> string \<Rightarrow> string \<Rightarrow> goerr + StripeEvent"
  sl_Subscription :: "string \<Rightarrow> goerr + Subscription"
  sl_Invoice :: "string \<Rightarrow> goerr option"
  sl_InvoiceSubscription :: "string \<Rightarrow> goerr + raw_field"
  sl_CheckoutSession :: "string \<Rightarrow> goerr + CheckoutSession"
  sl_PaymentIntent :: "string \<Rightarrow> goerr + PaymentIntent"

definition meta_get :: "metadata \<Rightarrow> string \<Rightarrow> string" where
  "meta_get md k = (case md of
     None \<Rightarrow> ''''
   | Some m \<Rightarrow> (case map_of m k of Some v \<Rightarrow> v | None \<Rightarrow> ''''))"

section \<open>Construction\<close>

record ('s, 't, 'c) StripeConfig = "('s, 't, 'c) BillingConfig" +
  tc_StripeAPIKey :: string
  tc_StripeWebhookSecret :: string
  tc_CustomerIDResolver :: "(string \<Rightarrow> 'c \<Rightarrow> (string \<times> goerr option) \<times> 'c) option"
  tc_TierWeights :: "(string \<times> goint) list option"

record ('s, 't, 'c) StripeProvider =
  sp_manager :: "('s, 't) Manager"
  sp_tierMapping :: "(string \<times> string) list"
  sp_tierWeights :: "(string \<times> goint) list"
  sp_defaultTier :: string
  sp_webhookSecret :: string
  sp_apiKey :: string
  sp_stripeClient :: "'c StripeClient option"
  sp_customerIDResolver :: "(string \<Rightarrow> 'c \<Rightarrow> (string \<times> goerr option) \<times> 'c) option"
  sp_webhookCallback :: "'c webhook_callback option"

definition sp_providerName :: string where "sp_providerName = ''stripe''"
definition sp_defaultTierName :: string where "sp_defaultTierName = ''explorer''"

definition isSubscriptionStatusValidForAccess :: "string \<Rightarrow> bool" where
  "isSubscriptionStatusValidForAccess status \<longleftrightarrow> status \<in> set [''active'', ''trialing'', ''past_due'']"

definition validateProviderConfig :: "('s, 't, 'c) StripeConfig \<Rightarrow> goerr + ('s, 't) Manager \<times> string \<times> string" where
  "validateProviderConfig config = (case bc_Manager config of
     None \<Rightarrow> Inl ErrProviderNotConfigured
   | Some m \<Rightarrow>
       let apiKey = TrimSpace (tc_StripeAPIKey config); secret = TrimSpace (tc_StripeWebhookSecret config)
       in if apiKey = '''' \<and> secret = '''' then Inl ErrProviderNotConfigured else Inr (m, apiKey, secret))"

definition setupTierMapping :: "(string \<times> string) list \<Rightarrow> (string \<times> string) list \<times> string" where
  "setupTierMapping tm = (let tierMapping = lower_mapping tm in (tierMapping, mapped_default sp_defaultTierName tierMapping))"

text \<open>The weights of tiers that get none: 100, 90 and so on down to 0, in the order of the loop.\<close>

fun auto_weights :: "string \<Rightarrow> string list \<Rightarrow> goint \<Rightarrow> string list \<Rightarrow> (string \<times> goint) list" where
  "auto_weights defaultTier [] weight seen = []"
| "auto_weights defaultTier (tier # tiers) weight seen =
     (if tier \<noteq> defaultTier \<and> tier \<notin> set seen
      then (tier, weight) # auto_weights defaultTier tiers (if weight - 10 < 0 then 0 else weight - 10) (tier # seen)
      else auto_weights defaultTier tiers weight seen)"

definition setupTierWeights :: "(string \<times> goint) list option \<Rightarrow> (string \<times> string) list \<Rightarrow> string \<Rightarrow> (string \<times> goint) list" where
  "setupTierWeights tierWeights tm defaultTier =
     AList.update defaultTier 0 (case tierWeights of
       Some ws \<Rightarrow> ws
     | None \<Rightarrow> auto_weights defaultTier (map snd tm) 100 [])"

definition sp_NewProvider :: "'c StripeLibrary \<Rightarrow> ('s, 't, 'c) StripeConfig
    \<Rightarrow> goerr + ('s, 't, 'c) StripeProvider \<times> WebhookLimiter" where
  "sp_NewProvider lib config = (case validateProviderConfig config of
     Inl err \<Rightarrow> Inl err
   | Inr (m, apiKey, secret) \<Rightarrow>
       (case setupTierMapping (bc_TierMapping config) of (tierMapping, defaultTier) \<Rightarrow>
         Inr (\<lparr>sp_manager = m, sp_tierMapping = tierMapping,
           sp_tierWeights = setupTierWeights (tc_TierWeights config) (bc_TierMapping config) defaultTier,
           sp_defaultTier = defaultTier,
           sp_webhookSecret = (if HasPrefix (ToLower secret) ''whsec_'' then TrimSpace secret else secret),
           sp_apiKey = apiKey,
           sp_stripeClient = (if apiKey \<noteq> '''' then Some (sl_NewClient lib apiKey) else None),
           sp_customerIDResolver = tc_CustomerIDResolver config,
           sp_webhookCallback = bc_WebhookCallback config\<rparr>,
         wl_NewRateLimiter 100 ns_per_minute)))"

section \<open>The tier of subscriptions\<close>

definition MapPriceToTier :: "('s, 't, 'c) StripeProvider \<Rightarrow> string \<Rightarrow> string" where
  "MapPriceToTier p priceID =
     (if priceID = '''' then sp_defaultTier p
      else case map_of (sp_tierMapping p) (ToLower (TrimSpace priceID)) of
        Some tier \<Rightarrow> tier
      | None \<Rightarrow> sp_defaultTier p)"

definition GetTierWeight :: "('s, 't, 'c) StripeProvider \<Rightarrow> string \<Rightarrow> goint" where
  "GetTierWeight p tier = (case map_of (sp_tierWeights p) tier of Some weight \<Rightarrow> weight | None \<Rightarrow> 0)"

text \<open>The variables of the loop over the items, and its passes. A nil price panics.\<close>

record tier_scan =
  sn_highestTier :: string
  sn_maxWeight :: goint
  sn_mostRecentCreated :: goint
  sn_periodEnd :: "time option"
  sn_periodStart :: "time option"

definition scan_start :: tier_scan where
  "scan_start = \<lparr>sn_highestTier = '''', sn_maxWeight = -1, sn_mostRecentCreated = 0, sn_periodEnd = None,
     sn_periodStart = None\<rparr>"

definition scan_item :: "('s, 't, 'c) StripeProvider \<Rightarrow> goint \<Rightarrow> SubscriptionItem \<Rightarrow> string \<Rightarrow> tier_scan \<Rightarrow> tier_scan" where
  "scan_item p created item priceID sn =
     (let tier = MapPriceToTier p priceID; weight = GetTierWeight p tier
      in if weight > sn_maxWeight sn \<or> weight = sn_maxWeight sn \<and> created > sn_mostRecentCreated sn
         then \<lparr>sn_highestTier = tier, sn_maxWeight = weight, sn_mostRecentCreated = created,
           sn_periodEnd = (if si_CurrentPeriodEnd item > 0 then Some (unix_time (si_CurrentPeriodEnd item)) else sn_periodEnd sn),
           sn_periodStart = (if si_CurrentPeriodStart item > 0 then Some (unix_time (si_CurrentPeriodStart item))
             else sn_periodStart sn)\<rparr>
         else sn)"

fun scan_items :: "('s, 't, 'c) StripeProvider \<Rightarrow> goint \<Rightarrow> SubscriptionItem list \<Rightarrow> tier_scan \<Rightarrow> goerr + tier_scan" where
  "scan_items p created [] sn = Inr sn"
| "scan_items p created (item # items) sn = (case si_Price item of
     None \<Rightarrow> Inl (GoPanic ''nil pointer dereference'')
   | Some price \<Rightarrow> scan_items p created items (scan_item p created item (pr_ID price) sn))"

definition scan_subscription :: "('s, 't, 'c) StripeProvider \<Rightarrow> Subscription \<Rightarrow> tier_scan \<Rightarrow> goerr + tier_scan" where
  "scan_subscription p sub sn = (case sb_Items sub of
     None \<Rightarrow> Inl (GoPanic ''nil pointer dereference'')
   | Some items \<Rightarrow> scan_items p (sb_Created sub) items sn)"

definition scan_result :: "('s, 't, 'c) StripeProvider \<Rightarrow> goerr + tier_scan \<Rightarrow> goerr + string \<times> time option \<times> time option" where
  "scan_result p r = (case r of
     Inl err \<Rightarrow> Inl err
   | Inr sn \<Rightarrow> if sn_highestTier sn = '''' then Inr (sp_defaultTier p, None, None)
              else Inr (sn_highestTier sn, sn_periodEnd sn, sn_periodStart sn))"

definition extractTierFromSubscription :: "('s, 't, 'c) StripeProvider \<Rightarrow> Subscription
    \<Rightarrow> goerr + string \<times> time option \<times> time option" where
  "extractTierFromSubscription p sub =
     (if \<not> isSubscriptionStatusValidForAccess (sb_Status sub) then Inr (sp_defaultTier p, None, None)
      else scan_result p (scan_subscription p sub scan_start))"

fun scan_subscriptions :: "('s, 't, 'c) StripeProvider \<Rightarrow> Subscription list \<Rightarrow> tier_scan \<Rightarrow> goerr + tier_scan" where
  "scan_subscriptions p [] sn = Inr sn"
| "scan_subscriptions p (sub # subs) sn =
     (if \<not> isSubscriptionStatusValidForAccess (sb_Status sub) then scan_subscriptions p subs sn
      else case scan_subscription p sub sn of
        Inl err \<Rightarrow> Inl err
      | Inr sn \<Rightarrow> scan_subscriptions p subs sn)"

definition resolveTierFromSubscriptions :: "('s, 't, 'c) StripeProvider \<Rightarrow> Subscription list
    \<Rightarrow> goerr + string \<times> time option \<times> time option" where
  "resolveTierFromSubscriptions p subs = scan_result p (scan_subscriptions p subs scan_start)"


section \<open>The client\<close>

definition nil_client :: goerr where "nil_client = GoPanic ''nil pointer dereference''"

text \<open>A call whose error is returned, wrapped in a text; a panic is not an error value.\<close>

definition wrap_error :: "string \<Rightarrow> goerr \<Rightarrow> goerr" where
  "wrap_error s err = (if is_panic err then err else Wrapped s err)"

definition or_return :: "('s, 't, 'c, goerr + 'a) billing \<Rightarrow> ('a \<Rightarrow> ('s, 't, 'c, goerr option) billing)
    \<Rightarrow> ('s, 't, 'c, goerr option) billing" where
  "or_return c f = do {
     r \<leftarrow> c;
     case r of Inl err \<Rightarrow> State_Monad.return (Some err) | Inr x \<Rightarrow> f x
   }"

definition lift_result :: "goerr + 'a \<Rightarrow> ('s, 't, 'c, goerr + 'a) billing" where
  "lift_result r = State_Monad.return r"

definition with_text :: "string \<Rightarrow> goerr + 'a \<Rightarrow> goerr + 'a" where
  "with_text s r = (case r of Inl err \<Rightarrow> Inl (wrap_error s err) | Inr x \<Rightarrow> Inr x)"

definition sp_api :: "string \<Rightarrow> string \<Rightarrow> ('s, 't, 'c, unit) billing" where
  "sp_api endpoint status = record_billing (RecordAPICall sp_providerName endpoint status)"

fun matching_customer :: "string \<Rightarrow> (goerr + Customer) list \<Rightarrow> goerr + string" where
  "matching_customer userID [] = Inl ErrUserNotFound"
| "matching_customer userID (Inl err # rest) = Inl (wrap_error ''stripe search error'' err)"
| "matching_customer userID (Inr cust # rest) =
     (if cu_Metadata cust \<noteq> None \<and> meta_get (cu_Metadata cust) ''user_id'' = userID then Inr (cu_ID cust)
      else matching_customer userID rest)"

definition searchCustomerByMetadata :: "('s, 't, 'c) StripeProvider \<Rightarrow> string \<Rightarrow> ('s, 't, 'c, goerr + string) billing" where
  "searchCustomerByMetadata p userID = (case sp_stripeClient p of
     None \<Rightarrow> State_Monad.return (Inl nil_client)
   | Some client \<Rightarrow> do {
       results \<leftarrow> on_outside (sc_SearchCustomers client (''metadata['' @ [CHR 0x27] @ ''user_id'' @ [CHR 0x27] @ '']:''
         @ [CHR 0x27] @ userID @ [CHR 0x27]));
       State_Monad.return (matching_customer userID results)
     })"

section \<open>Synchronisation\<close>

fun valid_subscriptions :: "(goerr + Subscription) list \<Rightarrow> goerr + Subscription list" where
  "valid_subscriptions [] = Inr []"
| "valid_subscriptions (Inl err # rest) = Inl err"
| "valid_subscriptions (Inr sub # rest) = (case valid_subscriptions rest of
     Inl err \<Rightarrow> Inl err
   | Inr subs \<Rightarrow> Inr (if isSubscriptionStatusValidForAccess (sb_Status sub) then sub # subs else subs))"

text \<open>The error path of a synchronisation; a panic leaves no metric.\<close>

definition sync_failed :: "string \<Rightarrow> goerr \<Rightarrow> ('s, 't, 'c, string \<times> goerr option) billing" where
  "sync_failed tier err = do {
     when_so (\<not> is_panic err) (sync_metric sp_providerName ''error'');
     State_Monad.return (tier, Some err)
   }"

definition sp_store_synced :: "('s, 't, 'c) StripeProvider \<Rightarrow> time \<Rightarrow> string \<Rightarrow> string \<Rightarrow> time option \<Rightarrow> time option
    \<Rightarrow> Entitlement option \<Rightarrow> ('s, 't, 'c, string \<times> goerr option) billing" where
  "sp_store_synced p now userID tier expiresAt startDate existing = do {
     when_so (existing \<noteq> None \<and> tier_before (sp_defaultTier p) existing \<noteq> tier)
       (record_billing (RecordTierChange sp_providerName (tier_before (sp_defaultTier p) existing) tier));
     err \<leftarrow> on_manager (SetEntitlement (sp_manager p) now \<lparr>e_UserID = userID, e_Tier = tier,
       e_SubscriptionStartDate = start_date existing (tier \<noteq> sp_defaultTier p)
         (case startDate of Some t \<Rightarrow> t | None \<Rightarrow> now),
       e_ExpiresAt = expiresAt, e_UpdatedAt = now\<rparr>);
     case err of
       Some err \<Rightarrow> sync_failed tier (wrap_error ''failed to set entitlement'' err)
     | None \<Rightarrow> do { sync_metric sp_providerName ''success''; State_Monad.return (tier, None) }
   }"

definition syncCustomer :: "('s, 't, 'c) StripeProvider \<Rightarrow> time \<Rightarrow> string \<Rightarrow> string
    \<Rightarrow> ('s, 't, 'c, string \<times> goerr option) billing" where
  "syncCustomer p now customerID userID = (case sp_stripeClient p of
     None \<Rightarrow> State_Monad.return ('''', Some nil_client)
   | Some client \<Rightarrow> do {
       results \<leftarrow> on_outside (sc_ListSubscriptions client customerID);
       case valid_subscriptions results of
         Inl err \<Rightarrow> do {
           sp_api ''/subscriptions/list'' ''error'';
           sync_failed (sp_defaultTier p) (wrap_error ''failed to list subscriptions'' err)
         }
       | Inr subs \<Rightarrow> do {
           sp_api ''/subscriptions/list'' ''200'';
           case resolveTierFromSubscriptions p subs of
             Inl err \<Rightarrow> State_Monad.return ('''', Some err)
           | Inr (tier, expiresAt, startDate) \<Rightarrow> do {
               r \<leftarrow> on_manager (GetEntitlement (sp_manager p) now userID);
               case r of
                 Inl err \<Rightarrow>
                   if err \<noteq> ErrEntitlementNotFound then sync_failed tier err
                   else sp_store_synced p now userID tier expiresAt startDate None
               | Inr e \<Rightarrow> sp_store_synced p now userID tier expiresAt startDate (Some e)
             }
         }
     })"

definition sp_syncToDefaultTier :: "('s, 't, 'c) StripeProvider \<Rightarrow> time \<Rightarrow> string
    \<Rightarrow> ('s, 't, 'c, string \<times> goerr option) billing" where
  "sp_syncToDefaultTier p now userID = do {
     err \<leftarrow> on_manager (SetEntitlement (sp_manager p) now \<lparr>e_UserID = userID, e_Tier = sp_defaultTier p,
       e_SubscriptionStartDate = zero_time, e_ExpiresAt = None, e_UpdatedAt = now\<rparr>);
     case err of
       Some err \<Rightarrow> sync_failed (sp_defaultTier p) (wrap_error ''failed to set default tier'' err)
     | None \<Rightarrow> do { sync_metric sp_providerName ''success''; State_Monad.return (sp_defaultTier p, None) }
   }"

text \<open>
  The application's resolver may give an id together with an error, and then the id is used. Every
  error of the search, not only that there is no such customer, leads to the default tier.
\<close>

definition resolve_fast :: "('s, 't, 'c) StripeProvider \<Rightarrow> string \<Rightarrow> ('s, 't, 'c, string \<times> goerr option) billing" where
  "resolve_fast p userID = (case sp_customerIDResolver p of
     None \<Rightarrow> State_Monad.return ('''', None)
   | Some f \<Rightarrow> on_outside (f userID))"

definition sp_syncUserFromAPI :: "('s, 't, 'c) StripeProvider \<Rightarrow> time \<Rightarrow> string
    \<Rightarrow> ('s, 't, 'c, string \<times> goerr option) billing" where
  "sp_syncUserFromAPI p now userID =
     (if TrimSpace (sp_apiKey p) = '''' then do {
        sync_metric sp_providerName ''error'';
        State_Monad.return (sp_defaultTier p, Some (ErrText ''stripe API key not configured''))
      }
      else do {
        (customerID, err) \<leftarrow> resolve_fast p userID;
        if customerID \<noteq> '''' then syncCustomer p now customerID userID
        else do {
          sp_api ''/customers/search'' ''slow_path'';
          r \<leftarrow> searchCustomerByMetadata p userID;
          case r of
            Inl err \<Rightarrow>
              if is_panic err then State_Monad.return ('''', Some err)
              else sp_syncToDefaultTier p now userID
          | Inr customerID \<Rightarrow> syncCustomer p now customerID userID
        }
      })"


section \<open>Updates of an entitlement\<close>

definition store_and_call :: "('s, 't, 'c) StripeProvider \<Rightarrow> time \<Rightarrow> StripeEvent \<Rightarrow> Entitlement \<Rightarrow> string
    \<Rightarrow> (string \<times> meta_value) list \<Rightarrow> ('s, 't, 'c, unit) billing \<Rightarrow> ('s, 't, 'c, goerr option) billing" where
  "store_and_call p now event ent previousTier data recorded = do {
     err \<leftarrow> on_manager (SetEntitlement (sp_manager p) now ent);
     if err \<noteq> None then State_Monad.return err
     else do {
       recorded;
       invokeWebhookCallback (sp_webhookCallback p) sp_providerName (e_UserID ent) previousTier (e_Tier ent)
         (se_Type event) (unix_time (se_Created event)) (e_ExpiresAt ent) data
     }
   }"

definition meta_entry :: "string \<Rightarrow> metadata \<Rightarrow> (string \<times> meta_value) list" where
  "meta_entry name md = (case md of None \<Rightarrow> [] | Some m \<Rightarrow> [(name, MetaMap m)])"

definition extractUserIDFromSubscription :: "('s, 't, 'c) StripeProvider \<Rightarrow> Subscription
    \<Rightarrow> ('s, 't, 'c, goerr + string) billing" where
  "extractUserIDFromSubscription p sub =
     (let missing = Inl (ErrText (''metadata.user_id missing on subscription '' @ sb_ID sub));
          userID = meta_get (sb_Metadata sub) ''user_id''
      in if userID \<noteq> '''' then State_Monad.return (Inr userID)
         else case (sb_Customer sub, sp_stripeClient p) of
           (Some customerID, Some client) \<Rightarrow> do {
             r \<leftarrow> on_outside (sc_RetrieveCustomer client customerID);
             State_Monad.return (case r of
               Inl err \<Rightarrow> missing
             | Inr cust \<Rightarrow>
                 let userID = meta_get (cu_Metadata cust) ''user_id''
                 in if userID \<noteq> '''' then Inr userID else missing)
           }
         | _ \<Rightarrow> State_Monad.return missing)"

text \<open>The data of an event; a nil pointer panics.\<close>

definition event_data :: "StripeEvent \<Rightarrow> (string \<Rightarrow> goerr + 'a) \<Rightarrow> goerr + 'a" where
  "event_data event decode = (case se_Raw event of None \<Rightarrow> Inl nil_client | Some raw \<Rightarrow> decode raw)"

section \<open>Subscription events\<close>

text \<open>\<open>handleSubscriptionCreated\<close> and \<open>handleSubscriptionUpdated\<close> are the same code.\<close>

definition subscription_update :: "('s, 't, 'c) StripeProvider \<Rightarrow> time \<Rightarrow> StripeEvent \<Rightarrow> Subscription \<Rightarrow> string
    \<Rightarrow> string \<times> time option \<times> time option \<Rightarrow> Entitlement option \<Rightarrow> ('s, 't, 'c, goerr option) billing" where
  "subscription_update p now event sub userID info existing =
     (case info of (tier, expiresAt, startDate) \<Rightarrow>
       let previousTier = tier_before (sp_defaultTier p) existing in do {
         when_so (previousTier \<noteq> tier) (record_billing (RecordTierChange sp_providerName previousTier tier));
         store_and_call p now event
           \<lparr>e_UserID = userID, e_Tier = tier,
            e_SubscriptionStartDate = start_date existing (tier \<noteq> sp_defaultTier p)
              (case startDate of Some t \<Rightarrow> t | None \<Rightarrow> now),
            e_ExpiresAt = expiresAt, e_UpdatedAt = unix_time (se_Created event)\<rparr>
           previousTier (meta_entry ''subscription_metadata'' (sb_Metadata sub)) (State_Monad.return ())
       })"

definition handleSubscriptionCreated :: "'c StripeLibrary \<Rightarrow> ('s, 't, 'c) StripeProvider \<Rightarrow> time \<Rightarrow> StripeEvent
    \<Rightarrow> ('s, 't, 'c, goerr option) billing" where
  "handleSubscriptionCreated lib p now event =
     or_return (lift_result (with_text ''failed to unmarshal subscription'' (event_data event (sl_Subscription lib))))
       (\<lambda>sub. or_return (do {
           r \<leftarrow> extractUserIDFromSubscription p sub;
           State_Monad.return (with_text ''failed to extract user_id'' r)
         })
       (\<lambda>userID. or_return (lift_result (extractTierFromSubscription p sub))
       (\<lambda>info. if_newer (sp_manager p) now userID (unix_time (se_Created event))
         (subscription_update p now event sub userID info))))"

definition handleSubscriptionUpdated :: "'c StripeLibrary \<Rightarrow> ('s, 't, 'c) StripeProvider \<Rightarrow> time \<Rightarrow> StripeEvent
    \<Rightarrow> ('s, 't, 'c, goerr option) billing" where
  "handleSubscriptionUpdated lib p now event = handleSubscriptionCreated lib p now event"

definition handleSubscriptionDeleted :: "'c StripeLibrary \<Rightarrow> ('s, 't, 'c) StripeProvider \<Rightarrow> time \<Rightarrow> StripeEvent
    \<Rightarrow> ('s, 't, 'c, goerr option) billing" where
  "handleSubscriptionDeleted lib p now event =
     or_return (lift_result (with_text ''failed to unmarshal subscription'' (event_data event (sl_Subscription lib))))
       (\<lambda>sub. or_return (do {
           r \<leftarrow> extractUserIDFromSubscription p sub;
           State_Monad.return (with_text ''failed to extract user_id'' r)
         })
       (\<lambda>userID. if_newer (sp_manager p) now userID (unix_time (se_Created event))
         (\<lambda>existing. do {
           r \<leftarrow> sp_syncUserFromAPI p now userID;
           State_Monad.return (snd r)
         })))"

section \<open>Invoice events\<close>

definition subscription_field :: "goerr + raw_field \<Rightarrow> string" where
  "subscription_field r = (case r of
     Inr (RawObject (Some i)) \<Rightarrow> i
   | Inr (RawString s) \<Rightarrow> s
   | _ \<Rightarrow> '''')"

definition invoice_update :: "('s, 't, 'c) StripeProvider \<Rightarrow> time \<Rightarrow> StripeEvent \<Rightarrow> Subscription \<Rightarrow> string
    \<Rightarrow> Entitlement option \<Rightarrow> ('s, 't, 'c, goerr option) billing" where
  "invoice_update p now event sub userID existing =
     or_return (lift_result (extractTierFromSubscription p sub)) (\<lambda>(tier, expiresAt, startDate).
       store_and_call p now event
         \<lparr>e_UserID = userID, e_Tier = tier,
          e_SubscriptionStartDate = (case startDate of
             Some t \<Rightarrow> start_date existing True t
           | None \<Rightarrow> start_date existing False zero_time),
          e_ExpiresAt = expiresAt, e_UpdatedAt = unix_time (se_Created event)\<rparr>
         (tier_before (sp_defaultTier p) existing)
         (meta_entry ''subscription_metadata'' (sb_Metadata sub)) (State_Monad.return ()))"

definition handleInvoicePaymentSucceeded :: "'c StripeLibrary \<Rightarrow> ('s, 't, 'c) StripeProvider \<Rightarrow> time \<Rightarrow> StripeEvent
    \<Rightarrow> ('s, 't, 'c, goerr option) billing" where
  "handleInvoicePaymentSucceeded lib p now event =
     or_return (lift_result (with_text ''failed to unmarshal invoice''
         (event_data event (\<lambda>raw. case sl_Invoice lib raw of Some err \<Rightarrow> Inl err | None \<Rightarrow> Inr raw))))
       (\<lambda>raw. let subscriptionID = subscription_field (sl_InvoiceSubscription lib raw) in
         if subscriptionID = '''' then State_Monad.return None
         else case sp_stripeClient p of
           None \<Rightarrow> State_Monad.return (Some (ErrText ''STRIPE_API_KEY required for invoice payment processing''))
         | Some client \<Rightarrow> or_return (do {
               r \<leftarrow> on_outside (sc_RetrieveSubscription client subscriptionID);
               State_Monad.return (with_text ''failed to fetch subscription'' r)
             })
             (\<lambda>sub. or_return (do {
                 r \<leftarrow> extractUserIDFromSubscription p sub;
                 State_Monad.return (with_text ''failed to extract user_id'' r)
               })
             (\<lambda>userID. if_newer (sp_manager p) now userID (unix_time (se_Created event))
               (invoice_update p now event sub userID))))"

definition handleInvoicePaymentFailed :: "'c StripeLibrary \<Rightarrow> ('s, 't, 'c) StripeProvider \<Rightarrow> StripeEvent
    \<Rightarrow> ('s, 't, 'c, goerr option) billing" where
  "handleInvoicePaymentFailed lib p event =
     or_return (lift_result (with_text ''failed to unmarshal invoice''
         (event_data event (\<lambda>raw. case sl_Invoice lib raw of Some err \<Rightarrow> Inl err | None \<Rightarrow> Inr ()))))
       (\<lambda>_. do {
         record_billing (RecordWebhookEvent sp_providerName ''invoice.payment_failed'' ''warning'');
         State_Monad.return None
       })"


section \<open>Payments\<close>

text \<open>Cents in dollars, and the range of an amount, which is computed at two places.\<close>

definition cents_to_dollars :: "goint \<Rightarrow> float64" where
  "cents_to_dollars cents = (case f_div (f_of_int cents) 100 of Some x \<Rightarrow> x | None \<Rightarrow> 0)"

definition getAmountRange :: "goint \<Rightarrow> string" where
  "getAmountRange amountCents =
     (let amount = cents_to_dollars amountCents
      in if amount < 10 then ''0-10'' else if amount < 50 then ''10-50'' else if amount < 100 then ''50-100''
         else if amount < 500 then ''100-500'' else if amount < 1000 then ''500-1000'' else ''1000+'')"

definition getAmountRangeFromCents :: "goint \<Rightarrow> string" where
  "getAmountRangeFromCents amountCents = getAmountRange amountCents"

definition handlePaymentCheckout :: "('s, 't, 'c) StripeProvider \<Rightarrow> time \<Rightarrow> CheckoutSession
    \<Rightarrow> ('s, 't, 'c, goerr option) billing" where
  "handlePaymentCheckout p now session =
     (let failed = (\<lambda>s. State_Monad.return (Some (ErrText (s @ '' '' @ cs_ID session))));
          metaUser = meta_get (cs_Metadata session) ''user_id'';
          resource = meta_get (cs_Metadata session) ''resource'';
          userID = (if metaUser = '''' then cs_ClientReferenceID session else metaUser);
          paymentIntentID = (case cs_PaymentIntent session of None \<Rightarrow> '''' | Some i \<Rightarrow> i)
      in if userID = '''' then failed ''metadata.user_id or client_reference_id missing on checkout session''
         else if resource = '''' then failed ''metadata.resource missing on checkout session''
         else case cs_LineItems session of
           None \<Rightarrow> State_Monad.return (Some nil_client)
         | Some n \<Rightarrow>
             if n = 0 then failed ''no line items found in checkout session''
             else if paymentIntentID = '''' then failed ''payment_intent missing on checkout session''
             else do {
               err \<leftarrow> on_manager (TopUpLimit (sp_manager p) now userID resource (cs_AmountTotal session) paymentIntentID);
               case err of
                 Some err \<Rightarrow> State_Monad.return (Some (wrap_error ''failed to top up limit'' err))
               | None \<Rightarrow> do {
                   record_billing (RecordCreditPackPurchase sp_providerName resource
                     (getAmountRangeFromCents (cs_AmountTotal session)));
                   State_Monad.return None
                 }
             })"

definition handlePaymentIntentRefunded :: "'c StripeLibrary \<Rightarrow> ('s, 't, 'c) StripeProvider \<Rightarrow> time \<Rightarrow> StripeEvent
    \<Rightarrow> ('s, 't, 'c, goerr option) billing" where
  "handlePaymentIntentRefunded lib p now event =
     or_return (lift_result (with_text ''failed to unmarshal payment intent'' (event_data event (sl_PaymentIntent lib))))
       (\<lambda>intent.
         let userID = meta_get (pi_Metadata intent) ''user_id'';
             resource = meta_get (pi_Metadata intent) ''resource''
         in if userID = '''' \<or> resource = ''''
            then State_Monad.return (Some (ErrText
              ''cannot determine user_id and resource for refund - metadata missing''))
            else if pi_Amount intent = 0 then State_Monad.return None
            else do {
              err \<leftarrow> on_manager (RefundCredits (sp_manager p) now userID resource (pi_Amount intent)
                ''stripe_refund'' (pi_ID intent @ ''_refund''));
              State_Monad.return (map_option (wrap_error ''failed to refund credits'') err)
            })"

section \<open>Completed checkouts\<close>

definition payment_checkout_completed :: "('s, 't, 'c) StripeProvider \<Rightarrow> time \<Rightarrow> CheckoutSession
    \<Rightarrow> ('s, 't, 'c, goerr option) billing" where
  "payment_checkout_completed p now session =
     (if meta_get (cs_Metadata session) ''resource'' = '''' then State_Monad.return None
      else do {
        err \<leftarrow> handlePaymentCheckout p now session;
        if err \<noteq> None then State_Monad.return err
        else do {
          let tier = (case Option.bind (cs_Metadata session) (\<lambda>m. map_of m ''tier'') of
            Some t \<Rightarrow> t | None \<Rightarrow> ''unknown'');
          record_billing (RecordCheckoutSessionCompleted sp_providerName tier ''payment'');
          when_so (cs_AmountTotal session > 0)
            (record_billing (RecordRevenueEstimate sp_providerName tier ''one-time''
              (cents_to_dollars (cs_AmountTotal session))));
          State_Monad.return None
        }
      })"

text \<open>The subscription of a session, with the user written to its metadata if it names none.\<close>

definition session_subscription :: "'c StripeClient \<Rightarrow> string \<Rightarrow> string
    \<Rightarrow> ('s, 't, 'c, goerr + Subscription) billing" where
  "session_subscription client subscriptionID userID = do {
     r \<leftarrow> on_outside (sc_RetrieveSubscription client subscriptionID);
     case r of
       Inl err \<Rightarrow> State_Monad.return (Inl (wrap_error ''failed to fetch subscription'' err))
     | Inr sub \<Rightarrow>
         if meta_get (sb_Metadata sub) ''user_id'' = '''' then do {
           r \<leftarrow> on_outside (sc_UpdateSubscription client subscriptionID [(''user_id'', userID)]);
           State_Monad.return (with_text ''failed to patch subscription metadata'' r)
         }
         else State_Monad.return (Inr sub)
   }"

definition first_amount :: "Subscription \<Rightarrow> goint" where
  "first_amount sub = (case sb_Items sub of
     Some (item # _) \<Rightarrow> (case si_Price item of Some price \<Rightarrow> pr_UnitAmount price | None \<Rightarrow> 0)
   | _ \<Rightarrow> 0)"

definition checkout_update :: "('s, 't, 'c) StripeProvider \<Rightarrow> time \<Rightarrow> StripeEvent \<Rightarrow> CheckoutSession \<Rightarrow> Subscription
    \<Rightarrow> string \<Rightarrow> string \<times> time option \<times> time option \<Rightarrow> Entitlement option
    \<Rightarrow> ('s, 't, 'c, goerr option) billing" where
  "checkout_update p now event session sub userID info existing =
     (case info of (tier, expiresAt, startDate) \<Rightarrow>
       store_and_call p now event
         \<lparr>e_UserID = userID, e_Tier = tier,
          e_SubscriptionStartDate = start_date existing True (case startDate of Some t \<Rightarrow> t | None \<Rightarrow> now),
          e_ExpiresAt = expiresAt, e_UpdatedAt = unix_time (se_Created event)\<rparr>
         (tier_before (sp_defaultTier p) existing)
         (meta_entry ''subscription_metadata'' (sb_Metadata sub) @ meta_entry ''session_metadata'' (cs_Metadata session))
         (do {
           record_billing (RecordCheckoutSessionCompleted sp_providerName tier ''subscription'');
           when_so (first_amount sub > 0)
             (record_billing (RecordRevenueEstimate sp_providerName tier ''subscription''
               (cents_to_dollars (first_amount sub))))
         }))"

definition subscription_checkout_completed :: "('s, 't, 'c) StripeProvider \<Rightarrow> time \<Rightarrow> StripeEvent \<Rightarrow> CheckoutSession
    \<Rightarrow> string \<Rightarrow> ('s, 't, 'c, goerr option) billing" where
  "subscription_checkout_completed p now event session userID =
     (let subscriptionID = (case cs_Subscription session of None \<Rightarrow> '''' | Some i \<Rightarrow> i)
      in if subscriptionID = '''' then State_Monad.return None
         else case sp_stripeClient p of
           None \<Rightarrow> State_Monad.return (Some (ErrText ''STRIPE_API_KEY required for subscription checkout processing''))
         | Some client \<Rightarrow>
             or_return (session_subscription client subscriptionID userID)
               (\<lambda>sub. or_return (lift_result (extractTierFromSubscription p sub))
               (\<lambda>info. if_newer (sp_manager p) now userID (unix_time (se_Created event))
                 (checkout_update p now event session sub userID info))))"

definition handleCheckoutSessionCompleted :: "'c StripeLibrary \<Rightarrow> ('s, 't, 'c) StripeProvider \<Rightarrow> time \<Rightarrow> StripeEvent
    \<Rightarrow> ('s, 't, 'c, goerr option) billing" where
  "handleCheckoutSessionCompleted lib p now event =
     or_return (lift_result (with_text ''failed to unmarshal checkout session'' (event_data event (sl_CheckoutSession lib))))
       (\<lambda>session.
         let userID = meta_get (cs_Metadata session) ''user_id''
         in if userID = ''''
            then State_Monad.return (Some (ErrText (''metadata.user_id missing on checkout session '' @ cs_ID session)))
            else if cs_Mode session = ''payment'' then payment_checkout_completed p now session
            else subscription_checkout_completed p now event session userID)"

section \<open>The webhook handler\<close>

definition sp_processWebhookEvent :: "'c StripeLibrary \<Rightarrow> ('s, 't, 'c) StripeProvider \<Rightarrow> time \<Rightarrow> StripeEvent
    \<Rightarrow> ('s, 't, 'c, goerr option) billing" where
  "sp_processWebhookEvent lib p now event =
     (if se_Type event = ''customer.subscription.created'' then handleSubscriptionCreated lib p now event
      else if se_Type event = ''customer.subscription.updated'' then handleSubscriptionUpdated lib p now event
      else if se_Type event = ''customer.subscription.deleted'' then handleSubscriptionDeleted lib p now event
      else if se_Type event = ''invoice.payment_succeeded'' then handleInvoicePaymentSucceeded lib p now event
      else if se_Type event = ''invoice.payment_failed'' then handleInvoicePaymentFailed lib p event
      else if se_Type event = ''checkout.session.completed'' then handleCheckoutSessionCompleted lib p now event
      else if se_Type event = ''payment_intent.refunded'' then handlePaymentIntentRefunded lib p now event
      else State_Monad.return None)"

definition sp_reject :: "string \<Rightarrow> string \<Rightarrow> goint \<Rightarrow> string ResponseWriter
    \<Rightarrow> ('s, 't, 'c, string ResponseWriter outcome) billing" where
  "sp_reject errorType msg code w = do {
     record_billing (RecordWebhookError sp_providerName errorType);
     answer_error msg code w
   }"

definition sp_dispatch :: "'c StripeLibrary \<Rightarrow> ('s, 't, 'c) StripeProvider \<Rightarrow> time \<Rightarrow> StripeEvent \<Rightarrow> string ResponseWriter
    \<Rightarrow> ('s, 't, 'c, string ResponseWriter outcome) billing" where
  "sp_dispatch lib p now event w =
     (let eventType = (if se_Type event = '''' then ''UNKNOWN'' else se_Type event)
      in do {
        res \<leftarrow> sp_processWebhookEvent lib p now event;
        case res of
          Some err \<Rightarrow>
            if is_panic err then State_Monad.return (Panicked err w)
            else do {
              record_billing (RecordWebhookEvent sp_providerName eventType ''error'');
              record_billing (RecordWebhookError sp_providerName ''processing_error'');
              answer_error ''failed to process webhook'' StatusInternalServerError w
            }
        | None \<Rightarrow> (case write_ok w of (err, w) \<Rightarrow> do {
            when_so (err = None) (record_billing (RecordWebhookEvent sp_providerName eventType ''success''));
            State_Monad.return (Stopped w)
          })
      })"

definition sp_signature :: "WebhookRequest \<Rightarrow> string" where
  "sp_signature r =
     (let sig = header_Get ''Stripe-Signature'' (hr_Header r)
      in if sig = '''' then header_Get ''stripe-signature'' (hr_Header r) else sig)"

definition sp_handleWebhook :: "'c StripeLibrary \<Rightarrow> ('s, 't, 'c) StripeProvider \<Rightarrow> time \<Rightarrow> ('s, 't, 'c) handler" where
  "sp_handleWebhook lib p now w r =
     (let w = setSecurityHeaders w
      in if wr_Method r \<noteq> MethodPost then answer_error ''method not allowed'' StatusMethodNotAllowed w
         else if sp_webhookSecret p = '''' then answer_error ''webhook not configured'' StatusServiceUnavailable w
         else if hr_Err r \<noteq> None then answer_error ''request timeout'' StatusRequestTimeout w
         else case ReadBodyStrict (256 * 1024) w r of
           (Inl err, w) \<Rightarrow>
             if is_panic err then State_Monad.return (Panicked err w)
             else if errors_Is err ErrPayloadTooLarge
             then sp_reject ''payload_too_large'' ''payload too large'' StatusRequestEntityTooLarge w
             else sp_reject ''invalid_payload'' (''invalid payload: '' @ error_text err) StatusBadRequest w
         | (Inr body, w) \<Rightarrow>
             (case sl_ConstructEvent lib body (sp_signature r) (sp_webhookSecret p) of
               Inl err \<Rightarrow> sp_reject ''auth_failed'' ''unauthorized'' StatusUnauthorized w
             | Inr event \<Rightarrow> sp_dispatch lib p now event w))"

definition sp_WebhookHandler :: "'c StripeLibrary \<Rightarrow> ('s, 't, 'c) StripeProvider \<Rightarrow> time \<Rightarrow> ('s, 't, 'c) handler" where
  "sp_WebhookHandler lib p now = wl_Middleware now (sp_handleWebhook lib p now)"

section \<open>Checkout and portal sessions\<close>

text \<open>The loop over the mapping for a tier: a key of it, in lower case.\<close>

definition getPriceIDForTier :: "('s, 't, 'c) StripeProvider \<Rightarrow> string \<Rightarrow> string" where
  "getPriceIDForTier p tier = (case List.find (\<lambda>(_, mappedTier). mappedTier = tier) (sp_tierMapping p) of
     Some (priceID, _) \<Rightarrow> priceID
   | None \<Rightarrow> '''')"

definition resolveCustomerID :: "('s, 't, 'c) StripeProvider \<Rightarrow> string \<Rightarrow> ('s, 't, 'c, goerr + string) billing" where
  "resolveCustomerID p userID = do {
     (customerID, err) \<leftarrow> resolve_fast p userID;
     if err = None \<and> customerID \<noteq> '''' then State_Monad.return (Inr customerID)
     else searchCustomerByMetadata p userID
   }"

text \<open>A missing customer is none; another error ends the call.\<close>

definition customer_or_none :: "goerr + string \<Rightarrow> goerr + string option" where
  "customer_or_none r = (case r of
     Inr customerID \<Rightarrow> Inr (if customerID \<noteq> '''' then Some customerID else None)
   | Inl err \<Rightarrow> if errors_Is err ErrCustomerNotFound \<or> errors_Is err ErrUserNotFound then Inr None else Inl err)"

definition customer_params :: "string \<Rightarrow> string option \<Rightarrow> CheckoutParams \<Rightarrow> CheckoutParams" where
  "customer_params userID customer params = (case customer of
     Some customerID \<Rightarrow> params\<lparr>cp_Customer := Some customerID\<rparr>
   | None \<Rightarrow> params\<lparr>cp_ClientReferenceID := Some userID, cp_CustomerCreation := Some ''always''\<rparr>)"

definition subscription_params :: "string \<Rightarrow> string \<Rightarrow> string \<Rightarrow> string \<Rightarrow> string option \<Rightarrow> CheckoutParams" where
  "subscription_params userID priceID successURL cancelURL customer = customer_params userID customer
     \<lparr>cp_Mode = ''subscription'', cp_LineItem = PriceItem priceID, cp_Quantity = 1,
      cp_SuccessURL = successURL, cp_CancelURL = cancelURL, cp_Metadata = None,
      cp_SubscriptionMetadata = Some [(''user_id'', userID)], cp_PaymentIntentMetadata = None,
      cp_Customer = None, cp_ClientReferenceID = None, cp_CustomerCreation = None\<rparr>"

definition payment_params :: "string \<Rightarrow> string \<Rightarrow> goint \<Rightarrow> string \<Rightarrow> string \<Rightarrow> string option \<Rightarrow> CheckoutParams" where
  "payment_params userID resource amount successURL cancelURL customer = customer_params userID customer
     \<lparr>cp_Mode = ''payment'', cp_LineItem = PriceDataItem ''usd'' (''Credit Pack: '' @ resource) amount, cp_Quantity = 1,
      cp_SuccessURL = successURL, cp_CancelURL = cancelURL,
      cp_Metadata = Some [(''user_id'', userID), (''resource'', resource)],
      cp_SubscriptionMetadata = None, cp_PaymentIntentMetadata = None,
      cp_Customer = None, cp_ClientReferenceID = None, cp_CustomerCreation = None\<rparr>"

text \<open>The session for parameters that depend on the customer, and the metrics after it.\<close>

definition create_checkout :: "('s, 't, 'c) StripeProvider \<Rightarrow> string \<Rightarrow> (string option \<Rightarrow> CheckoutParams)
    \<Rightarrow> ('s, 't, 'c, unit) billing \<Rightarrow> ('s, 't, 'c, string \<times> goerr option) billing" where
  "create_checkout p userID params recorded = do {
     r \<leftarrow> resolveCustomerID p userID;
     case customer_or_none r of
       Inl err \<Rightarrow> do {
         when_so (\<not> is_panic err) (sp_api ''/checkout/sessions'' ''customer_resolution_failed'');
         State_Monad.return ('''', Some (wrap_error ''failed to resolve customer'' err))
       }
     | Inr customer \<Rightarrow>
         (case sp_stripeClient p of
            None \<Rightarrow> State_Monad.return ('''', Some nil_client)
          | Some client \<Rightarrow> do {
              r \<leftarrow> on_outside (sc_CreateCheckout client (params customer));
              case r of
                Inl err \<Rightarrow> do {
                  sp_api ''/checkout/sessions'' ''error'';
                  State_Monad.return ('''', Some (wrap_error ''failed to create checkout session'' err))
                }
              | Inr url \<Rightarrow> do { sp_api ''/checkout/sessions'' ''success''; recorded; State_Monad.return (url, None) }
            })
   }"

definition sp_CheckoutURL :: "('s, 't, 'c) StripeProvider \<Rightarrow> string \<Rightarrow> string \<Rightarrow> string \<Rightarrow> string
    \<Rightarrow> ('s, 't, 'c, string \<times> goerr option) billing" where
  "sp_CheckoutURL p userID tier successURL cancelURL =
     (let priceID = getPriceIDForTier p tier
      in if priceID = '''' then do {
           sp_api ''/checkout/sessions'' ''tier_not_found'';
           State_Monad.return ('''', Some (Wrapped tier ErrTierNotConfigured))
         }
         else create_checkout p userID (subscription_params userID priceID successURL cancelURL)
           (record_billing (RecordCheckoutSessionCreated sp_providerName tier ''subscription'')))"

definition CheckoutURLForPayment :: "('s, 't, 'c) StripeProvider \<Rightarrow> string \<Rightarrow> string \<Rightarrow> goint \<Rightarrow> string \<Rightarrow> string
    \<Rightarrow> ('s, 't, 'c, string \<times> goerr option) billing" where
  "CheckoutURLForPayment p userID resource amount successURL cancelURL =
     create_checkout p userID (payment_params userID resource amount successURL cancelURL) (do {
       record_billing (RecordCheckoutSessionCreated sp_providerName ''unknown'' ''payment'');
       record_billing (RecordCreditPackPurchase sp_providerName resource (getAmountRange amount))
     })"

definition sp_PortalURL :: "('s, 't, 'c) StripeProvider \<Rightarrow> string \<Rightarrow> string
    \<Rightarrow> ('s, 't, 'c, string \<times> goerr option) billing" where
  "sp_PortalURL p userID returnURL = do {
     r \<leftarrow> resolveCustomerID p userID;
     case (r, sp_stripeClient p) of
       (Inl err, _) \<Rightarrow>
         if is_panic err then State_Monad.return ('''', Some err)
         else do {
           sp_api ''/billing_portal/sessions'' ''customer_not_found'';
           State_Monad.return ('''', Some (Wrapped userID ErrCustomerNotFound))
         }
     | (Inr customerID, None) \<Rightarrow> State_Monad.return ('''', Some nil_client)
     | (Inr customerID, Some client) \<Rightarrow> do {
         r \<leftarrow> on_outside (sc_CreatePortal client customerID returnURL);
         case r of
           Inl err \<Rightarrow> do {
             sp_api ''/billing_portal/sessions'' ''error'';
             State_Monad.return ('''', Some (wrap_error ''failed to create portal session'' err))
           }
         | Inr url \<Rightarrow> do {
             sp_api ''/billing_portal/sessions'' ''success'';
             record_billing (RecordPortalSessionCreated sp_providerName);
             State_Monad.return (url, None)
           }
       }
   }"

end
