(* ===== verification/StripeProps.thy ===== *)
theory StripeProps
  imports Stripe BillingContract ManagerDemo
begin

text \<open>
  The Stripe provider: which tier several subscriptions give, what the provider makes of the sessions it
  creates itself, credit packs, events of one second, and synchronisation when the search fails.
\<close>

lemma or_return_run [simp]:
  "run_state (or_return c f) w = (case run_state c w of
     (Inl err, w1) \<Rightarrow> (Some err, w1)
   | (Inr x, w1) \<Rightarrow> run_state (f x) w1)"
  by (auto simp: or_return_def split: prod.split sum.split)

lemma lift_result_run [simp]: "run_state (lift_result r) w = (r, w)"
  by (simp add: lift_result_def)

section \<open>The best tier\<close>

definition item_tier :: "('s, 't, 'c) StripeProvider \<Rightarrow> SubscriptionItem \<Rightarrow> string option" where
  "item_tier p item = map_option (\<lambda>price. MapPriceToTier p (pr_ID price)) (si_Price item)"

text \<open>What the loop has to have found among the tiers it has seen.\<close>

definition scan_ok :: "('s, 't, 'c) StripeProvider \<Rightarrow> string set \<Rightarrow> tier_scan \<Rightarrow> bool" where
  "scan_ok p tiers sn \<longleftrightarrow> (\<forall>t \<in> tiers. GetTierWeight p t \<le> sn_maxWeight sn)
     \<and> (if tiers = {} then sn = scan_start
        else sn_highestTier sn \<in> tiers \<and> sn_maxWeight sn = GetTierWeight p (sn_highestTier sn))"

lemma scan_item_ok:
  assumes "scan_ok p tiers sn" "\<And>t. 0 \<le> GetTierWeight p t"
  shows "scan_ok p (insert (MapPriceToTier p i) tiers) (scan_item p created item i sn)"
  using assms(1) assms(2) [of "MapPriceToTier p i"]
  by (fastforce simp: scan_ok_def scan_item_def scan_start_def Let_def split: if_splits)

lemma scan_items_ok:
  assumes "scan_ok p tiers sn" "\<And>t. 0 \<le> GetTierWeight p t" "scan_items p created items sn = Inr sn'"
  shows "scan_ok p (tiers \<union> {t. \<exists>item \<in> set items. item_tier p item = Some t}) sn'"
  using assms(1,3)
proof (induction items arbitrary: tiers sn)
  case (Cons item items)
  then obtain price where price: "si_Price item = Some price" by (auto split: option.splits)
  have "tiers \<union> {t. \<exists>i \<in> set (item # items). item_tier p i = Some t}
      = insert (MapPriceToTier p (pr_ID price)) tiers \<union> {t. \<exists>i \<in> set items. item_tier p i = Some t}"
    by (auto simp: item_tier_def price)
  with Cons.IH [OF scan_item_ok [OF Cons.prems(1) assms(2)]] Cons.prems(2) price show ?case by simp
qed simp

text \<open>The tiers of the items of the subscriptions that give access.\<close>

definition access_tiers :: "('s, 't, 'c) StripeProvider \<Rightarrow> Subscription list \<Rightarrow> string set" where
  "access_tiers p subs = {t. \<exists>sub \<in> set subs. isSubscriptionStatusValidForAccess (sb_Status sub)
     \<and> (\<exists>items. sb_Items sub = Some items \<and> (\<exists>item \<in> set items. item_tier p item = Some t))}"

lemma scan_subscriptions_ok:
  assumes "scan_ok p tiers sn" "\<And>t. 0 \<le> GetTierWeight p t" "scan_subscriptions p subs sn = Inr sn'"
  shows "scan_ok p (tiers \<union> access_tiers p subs) sn'"
  using assms(1,3)
proof (induction subs arbitrary: tiers sn)
  case (Cons sub subs)
  show ?case
  proof (cases "isSubscriptionStatusValidForAccess (sb_Status sub)")
    case False
    then have "access_tiers p (sub # subs) = access_tiers p subs" by (auto simp: access_tiers_def)
    with Cons False show ?thesis by simp
  next
    case True
    then obtain items sn1 where items: "sb_Items sub = Some items" "scan_items p (sb_Created sub) items sn = Inr sn1"
      "scan_subscriptions p subs sn1 = Inr sn'"
      using Cons.prems(2) by (auto simp: scan_subscription_def split: option.splits sum.splits)
    have "access_tiers p (sub # subs) = {t. \<exists>item \<in> set items. item_tier p item = Some t} \<union> access_tiers p subs"
      using True items(1) by (auto simp: access_tiers_def)
    with Cons.IH [OF scan_items_ok [OF Cons.prems(1) assms(2) items(2)] items(3)] show ?thesis by (simp add: Un_assoc)
  qed
qed (simp add: access_tiers_def)

text \<open>C18: A user with several subscriptions gets the best tier: among the tiers of all items of the
  subscriptions whose status gives access, the one that is resolved has the greatest weight, and
  without any such item it is the default tier.\<close>

theorem stripe_best_tier:
  assumes "resolveTierFromSubscriptions p subs = Inr (tier, expiresAt, startDate)"
    and "\<And>t. 0 \<le> GetTierWeight p t" "'''' \<notin> access_tiers p subs"
  shows "if access_tiers p subs = {} then tier = sp_defaultTier p \<and> expiresAt = None \<and> startDate = None
    else tier \<in> access_tiers p subs \<and> (\<forall>t \<in> access_tiers p subs. GetTierWeight p t \<le> GetTierWeight p tier)"
proof -
  obtain sn where sn: "scan_subscriptions p subs scan_start = Inr sn"
    using assms(1) by (auto simp: resolveTierFromSubscriptions_def scan_result_def split: sum.splits)
  have "scan_ok p {} scan_start" by (simp add: scan_ok_def)
  from scan_subscriptions_ok [OF this assms(2) sn] assms(1,3) sn show ?thesis
    by (auto simp: scan_ok_def resolveTierFromSubscriptions_def scan_result_def scan_start_def split: if_splits)
qed

section \<open>Price identifiers\<close>

lemma to_lower_idem: "to_lower (to_lower c) = to_lower c"
proof -
  have "\<not> is_upper (char_of (char_code c + 32))" if "is_upper c"
    using that by (auto simp: is_upper_def char_code_def of_char_of)
  then show ?thesis by (simp add: to_lower_def)
qed

lemma ToLower_idem [simp]: "ToLower (ToLower s) = ToLower s"
  by (simp add: ToLower_def to_lower_idem)

lemma lower_mapping_keys: "\<forall>k \<in> fst ` set (lower_mapping tm). ToLower k = k"
proof -
  have "\<forall>k \<in> fst ` set (fold (\<lambda>(k, v) m. AList.update (ToLower k) v m) tm m). ToLower k = k"
    if "\<forall>k \<in> fst ` set m. ToLower k = k" for m
    using that
  proof (induction tm arbitrary: m)
    case (Cons kv tm)
    have "\<forall>k \<in> fst ` set (AList.update (ToLower (fst kv)) (snd kv) m). ToLower k = k"
      unfolding dom_update using Cons.prems ToLower_idem by blast
    from Cons.IH [OF this] show ?case unfolding fold_Cons o_apply case_prod_unfold .
  qed simp
  then show ?thesis unfolding lower_mapping_def by (metis empty_iff image_empty list.set(1))
qed

text \<open>Checkout never asks for a price whose identifier has a capital letter: the mapping of a provider has
  its keys in lower case, and the key found for a tier is sent to Stripe as the price, so a configured
  price like price_1AbC is requested as price_1abc.\<close>

theorem stripe_price_lowercased:
  assumes "sp_NewProvider lib config = Inr (p, limiter)"
  shows "ToLower (getPriceIDForTier p tier) = getPriceIDForTier p tier"
proof -
  have "sp_tierMapping p = lower_mapping (bc_TierMapping config)"
    using assms by (auto simp: sp_NewProvider_def setupTierMapping_def Let_def split: sum.splits)
  with lower_mapping_keys [of "bc_TierMapping config"]
  have keys: "ToLower k = k" if "(k, t) \<in> set (sp_tierMapping p)" for k t using that by force
  show ?thesis
  proof (cases "List.find (\<lambda>(_, mappedTier). mappedTier = tier) (sp_tierMapping p)")
    case (Some kt)
    then have "kt \<in> set (sp_tierMapping p)" by (metis find_Some_iff nth_mem)
    then show ?thesis using keys [of "fst kt" "snd kt"] Some by (simp add: getPriceIDForTier_def case_prod_unfold)
  qed (simp add: getPriceIDForTier_def ToLower_def)
qed

section \<open>The provider's own sessions\<close>

lemma customer_params_simps [simp]:
  "cp_Metadata (customer_params u c params) = cp_Metadata params"
  "cp_PaymentIntentMetadata (customer_params u c params) = cp_PaymentIntentMetadata params"
  "cp_Mode (customer_params u c params) = cp_Mode params"
  by (auto simp: customer_params_def split: option.split)

text \<open>C20: A subscription bought through CheckoutURL never completes its checkout: the session carries no
  metadata of its own (the user is only in that of the subscription), and the handler of the completed
  session requires it, so it answers with an error each time and changes nothing.\<close>

theorem stripe_checkout_never_completes:
  assumes "se_Raw event = Some raw" "sl_CheckoutSession lib raw = Inr session"
    and "cs_Metadata session = cp_Metadata (subscription_params userID priceID successURL cancelURL customer)"
  shows "\<exists>msg. run_state (handleCheckoutSessionCompleted lib p now event) w = (Some (ErrText msg), w)"
  using assms by (simp add: handleCheckoutSessionCompleted_def event_data_def with_text_def subscription_params_def
      meta_get_def)

text \<open>A credit pack bought through CheckoutURLForPayment cannot be refunded: the payment intent carries no
  metadata, since the parameters give metadata to the session only, and the handler of a refund finds
  neither user nor resource. It answers with an error and changes nothing.\<close>

theorem stripe_refund_impossible:
  assumes "se_Raw event = Some raw" "sl_PaymentIntent lib raw = Inr intent"
    and "pi_Metadata intent = cp_PaymentIntentMetadata (payment_params userID resource amount successURL cancelURL customer)"
  shows "\<exists>msg. run_state (handlePaymentIntentRefunded lib p now event) w = (Some (ErrText msg), w)"
  using assms by (simp add: handlePaymentIntentRefunded_def event_data_def with_text_def payment_params_def meta_get_def
      Let_def)

text \<open>A webhook for a completed payment whose session comes without its line items (which Stripe includes
  only where they are asked for) ends in a panic: nothing is credited.\<close>

theorem stripe_payment_panics:
  assumes "se_Type event = ''checkout.session.completed''" "se_Raw event = Some raw"
    and "sl_CheckoutSession lib raw = Inr session"
    and "cs_Metadata session = cp_Metadata (payment_params userID resource amount successURL cancelURL customer)"
    and "userID \<noteq> ''''" "resource \<noteq> ''''" "cs_Mode session = ''payment''" "cs_LineItems session = None"
  shows "run_state (sp_dispatch lib p now event wr) w = (Panicked (GoPanic ''nil pointer dereference'') wr, w)"
  using assms by (simp add: sp_dispatch_def sp_processWebhookEvent_def handleCheckoutSessionCompleted_def event_data_def
      with_text_def payment_params_def meta_get_def payment_checkout_completed_def handlePaymentCheckout_def nil_client_def
      Let_def)


section \<open>Credit packs\<close>


section \<open>Events of one second, and failed searches\<close>

context entitlement_register
begin

lemma created_run:
  assumes "ready (sp_manager p) (bw_manager w)" "se_Raw event = Some raw" "sl_Subscription lib raw = Inr sub"
    and "meta_get (sb_Metadata sub) ''user_id'' = u" "u \<noteq> ''''"
    and "extractTierFromSubscription p sub = Inr info" "ents (bw_manager w) u = None"
    and "\<And>ent. e_UserID ent = u \<Longrightarrow> e_Tier ent = fst info \<Longrightarrow> fits ent"
    and "run_state (handleSubscriptionCreated lib p now event) w = (res, w')"
  shows "ready (sp_manager p) (bw_manager w') \<and> (\<exists>ent. ents (bw_manager w') u = Some (stored now ent)
    \<and> e_Tier ent = fst info \<and> e_UpdatedAt ent = unix_time (se_Created event))"
proof -
  obtain tier expiresAt startDate where info: "info = (tier, expiresAt, startDate)" by (cases info)
  let ?f = "subscription_update p now event sub u info"
  obtain w1 where 1: "run_state (if_newer (sp_manager p) now u (unix_time (se_Created event)) ?f) w
      = run_state (?f None) (w\<lparr>bw_manager := w1\<rparr>)" "ents w1 = ents (bw_manager w)" "ready (sp_manager p) w1"
    using if_newer_runs [OF assms(1), of u "unix_time (se_Created event)" now ?f] assms(7) by auto
  let ?ent = "\<lparr>e_UserID = u, e_Tier = tier,
    e_SubscriptionStartDate = start_date None (tier \<noteq> sp_defaultTier p) (case startDate of Some t \<Rightarrow> t | None \<Rightarrow> now),
    e_ExpiresAt = expiresAt, e_UpdatedAt = unix_time (se_Created event)\<rparr>"
  obtain w2 where 2: "run_state (SetEntitlement (sp_manager p) now ?ent) w1 = (None, w2)"
    "ents w2 = (ents w1)(u \<mapsto> stored now ?ent)" "ready (sp_manager p) w2"
    using set_run [OF 1(3), of ?ent now] assms(5) assms(8) [of ?ent] info by auto
  have "run_state (handleSubscriptionCreated lib p now event) w = run_state (?f None) (w\<lparr>bw_manager := w1\<rparr>)"
    using assms(2-6) 1(1) by (simp add: handleSubscriptionCreated_def event_data_def with_text_def
        extractUserIDFromSubscription_def Let_def)
  with assms(9) 2 have "bw_manager w' = w2"
    by (auto simp: subscription_update_def info store_and_call_def invokeWebhookCallback_def Let_def
        split: if_splits option.splits)
  then have "ents (bw_manager w') u = Some (stored now ?ent)" "ready (sp_manager p) (bw_manager w')"
    by (simp_all add: 2)
  then show ?thesis unfolding info fst_conv by (intro conjI exI [of _ ?ent]) simp_all
qed

lemma updated_skips:
  assumes "ready (sp_manager p) (bw_manager w)" "se_Raw event = Some raw" "sl_Subscription lib raw = Inr sub"
    and "meta_get (sb_Metadata sub) ''user_id'' = u" "u \<noteq> ''''" "extractTierFromSubscription p sub = Inr info"
    and "ents (bw_manager w) u = Some e" "unix_time (se_Created event) \<le> e_UpdatedAt e"
    and "run_state (handleSubscriptionUpdated lib p now event) w = (res, w')"
  shows "res = None \<and> ents (bw_manager w') = ents (bw_manager w) \<and> bw_outside w' = bw_outside w"
  using if_newer_skips [OF assms(1,7,8), of now "subscription_update p now event sub u info"] assms(2-6,9)
  by (auto simp: handleSubscriptionUpdated_def handleSubscriptionCreated_def event_data_def with_text_def
      extractUserIDFromSubscription_def Let_def)

end

text \<open>An update in the second in which a subscription was created is lost. Stripe's timestamps are whole
  seconds, and an event with the timestamp of the stored entitlement counts as a repetition: if a
  subscription is created without access and gets it by an update in the same second, the update is
  answered as processed and the user stays on the default tier.\<close>

theorem stripe_same_second_lost:
  assumes "memory_ready (sp_manager p) (bw_manager w)" "memory_ents (bw_manager w) u = None" "u \<noteq> ''''"
    and "se_Raw created = Some raw" "sl_Subscription lib raw = Inr sub" "meta_get (sb_Metadata sub) ''user_id'' = u"
    and "\<not> isSubscriptionStatusValidForAccess (sb_Status sub)"
    and "se_Raw updated = Some raw'" "sl_Subscription lib raw' = Inr sub'" "meta_get (sb_Metadata sub') ''user_id'' = u"
    and "extractTierFromSubscription p sub' = Inr (paid, until, since)" "se_Created updated = se_Created created"
    and "run_state (handleSubscriptionCreated lib p now created) w = (res, w1)"
    and "run_state (handleSubscriptionUpdated lib p later updated) w1 = (res', w2)"
  shows "res' = None \<and> bw_outside w2 = bw_outside w1
    \<and> (\<exists>e. memory_ents (bw_manager w2) u = Some e \<and> e_Tier e = sp_defaultTier p)"
proof -
  have "extractTierFromSubscription p sub = Inr (sp_defaultTier p, None, None)"
    using assms(7) by (simp add: extractTierFromSubscription_def)
  note 1 = mem_reg.created_run [OF assms(1,4-6,3) this assms(2) _ assms(13), OF TrueI]
  then obtain e where e: "memory_ents (bw_manager w1) u = Some e" "e_Tier e = sp_defaultTier p"
    "e_UpdatedAt e = unix_time (se_Created created)" by auto
  from mem_reg.updated_skips [OF _ assms(8-10,3,11) e(1) _ assms(14)] 1 e assms(12) show ?thesis by simp
qed

text \<open>A failed search downgrades a paying user: if the application resolves no customer and the search of
  Stripe's API fails for any reason, synchronisation stores the default tier, with no expiry and no
  start date, and reports success.\<close>

theorem stripe_search_error_downgrades:
  assumes "memory_ready (sp_manager p) (bw_manager w)" "u \<noteq> ''''"
    and "TrimSpace (sp_apiKey p) \<noteq> ''''" "sp_customerIDResolver p = None" "sp_stripeClient p = Some client"
    and "\<And>query. fst (sc_SearchCustomers client query (bw_outside w)) = [Inl err]" "\<not> is_panic err"
    and "run_state (sp_syncUserFromAPI p now u) w = (res, w')"
  shows "res = (sp_defaultTier p, None)
    \<and> memory_ents (bw_manager w') u = Some \<lparr>e_UserID = u, e_Tier = sp_defaultTier p,
        e_SubscriptionStartDate = zero_time, e_ExpiresAt = None, e_UpdatedAt = now\<rparr>"
proof -
  let ?ent = "\<lparr>e_UserID = u, e_Tier = sp_defaultTier p, e_SubscriptionStartDate = zero_time, e_ExpiresAt = None,
    e_UpdatedAt = now\<rparr>"
  obtain w1 where "run_state (SetEntitlement (sp_manager p) now ?ent) (bw_manager w) = (None, w1)"
    "memory_ents w1 = (memory_ents (bw_manager w))(u \<mapsto> ?ent)"
    using mem_reg.set_run [OF assms(1), of ?ent now] assms(2) by auto
  with assms(3-8) show ?thesis
    by (auto simp: sp_syncUserFromAPI_def resolve_fast_def searchCustomerByMetadata_def wrap_error_def
        sp_syncToDefaultTier_def sync_metric_def sp_api_def)
qed


section \<open>The properties at a demo\<close>

text \<open>A provider for one price, over a service whose search fails; the text of a subscription is its status.\<close>

definition sp_demo_client :: "unit StripeClient" where
  "sp_demo_client = \<lparr>sc_SearchCustomers = (\<lambda>q c. ([Inl (ErrText ''timeout'')], c)),
     sc_RetrieveCustomer = (\<lambda>i c. (Inl (ErrText ''none''), c)), sc_ListSubscriptions = (\<lambda>i c. ([], c)),
     sc_RetrieveSubscription = (\<lambda>i c. (Inl (ErrText ''none''), c)),
     sc_UpdateSubscription = (\<lambda>i md c. (Inl (ErrText ''none''), c)),
     sc_CreateCheckout = (\<lambda>ps c. (Inr ''url'', c)), sc_CreatePortal = (\<lambda>i r c. (Inr ''url'', c))\<rparr>"

definition sp_demo_item :: "string \<Rightarrow> SubscriptionItem" where
  "sp_demo_item price = \<lparr>si_Price = Some \<lparr>pr_ID = price, pr_UnitAmount = 900\<rparr>, si_CurrentPeriodEnd = 0,
     si_CurrentPeriodStart = 0\<rparr>"

definition sp_demo_sub :: "string \<Rightarrow> string \<Rightarrow> Subscription" where
  "sp_demo_sub price status = \<lparr>sb_ID = ''sub'', sb_Status = status, sb_Metadata = Some [(''user_id'', ''u'')],
     sb_Customer = None, sb_Items = Some [sp_demo_item price], sb_Created = 7\<rparr>"

definition sp_demo_library :: "CheckoutSession \<Rightarrow> PaymentIntent \<Rightarrow> unit StripeLibrary" where
  "sp_demo_library session intent = \<lparr>sl_NewClient = (\<lambda>key. sp_demo_client),
     sl_ConstructEvent = (\<lambda>body sig secret. Inl (ErrText ''bad signature'')),
     sl_Subscription = (\<lambda>raw. Inr (sp_demo_sub ''price_1'' raw)), sl_Invoice = (\<lambda>raw. None),
     sl_InvoiceSubscription = (\<lambda>raw. Inr RawOther), sl_CheckoutSession = (\<lambda>raw. Inr session),
     sl_PaymentIntent = (\<lambda>raw. Inr intent)\<rparr>"

definition sp_demo_config :: "(MemState, MemState, unit) StripeConfig" where
  "sp_demo_config = \<lparr>bc_Manager = Some demo_manager,
     bc_TierMapping = [(''price_1'', ''pro''), (''Price_2'', ''basic''), (''*'', ''free'')],
     bc_WebhookSecret = '''', bc_APIKey = '''', bc_HTTPClient = None, bc_EnableHMAC = False, bc_WebhookCallback = None,
     tc_StripeAPIKey = ''sk'', tc_StripeWebhookSecret = ''whsec_1'', tc_CustomerIDResolver = None,
     tc_TierWeights = Some [(''pro'', 20), (''basic'', 10)]\<rparr>"

definition sp_demo :: "(MemState, MemState, unit) StripeProvider" where
  "sp_demo = \<lparr>sp_manager = demo_manager, sp_tierMapping = [(''price_1'', ''pro''), (''price_2'', ''basic''), (''*'', ''free'')],
     sp_tierWeights = [(''pro'', 20), (''basic'', 10), (''free'', 0)], sp_defaultTier = ''free'',
     sp_webhookSecret = ''whsec_1'', sp_apiKey = ''sk'', sp_stripeClient = Some sp_demo_client,
     sp_customerIDResolver = None, sp_webhookCallback = None\<rparr>"

definition sp_demo_world :: "(MemState, MemState, unit) BillingWorld" where
  "sp_demo_world = \<lparr>bw_manager = demo_world, bw_limiter = wl_NewRateLimiter 100 ns_per_minute, bw_metrics = [],
     bw_outside = ()\<rparr>"

definition sp_demo_session :: "metadata \<Rightarrow> nat option \<Rightarrow> CheckoutSession" where
  "sp_demo_session md items = \<lparr>cs_ID = ''cs'', cs_Mode = ''payment'', cs_Metadata = md, cs_ClientReferenceID = '''',
     cs_LineItems = items, cs_AmountTotal = 500, cs_PaymentIntent = Some ''pi'', cs_Subscription = None\<rparr>"

definition sp_demo_intent :: PaymentIntent where
  "sp_demo_intent = \<lparr>pi_ID = ''pi'', pi_Amount = 500, pi_Metadata = None\<rparr>"

definition sp_demo_event :: "string \<Rightarrow> string \<Rightarrow> StripeEvent" where
  "sp_demo_event ty raw = \<lparr>se_Type = ty, se_Created = 7, se_Raw = Some raw\<rparr>"

lemma sp_demo_ready [simp]:
  "memory_ready (sp_manager sp_demo) (bw_manager sp_demo_world)" "memory_ents (bw_manager sp_demo_world) = Map.empty"
  "m_storage (sp_manager sp_demo) = memory_storage"
  using cache_inv_New [OF demo_cache]
  by (simp_all add: sp_demo_def sp_demo_world_def memory_ready_def demo_world_def mem_New_def memory_ents_def)

lemma sp_demo_tiers:
  "MapPriceToTier sp_demo ''price_1'' = ''pro''" "MapPriceToTier sp_demo ''price_2'' = ''basic''"
  "extractTierFromSubscription sp_demo (sp_demo_sub ''price_1'' ''active'') = Inr (''pro'', None, None)"
  "resolveTierFromSubscriptions sp_demo [sp_demo_sub ''price_2'' ''active'', sp_demo_sub ''price_1'' ''past_due'',
     sp_demo_sub ''price_2'' ''trialing''] = Inr (''pro'', None, None)"
  by code_simp+

lemma stripe_best_tier_witness:
  "resolveTierFromSubscriptions sp_demo [sp_demo_sub ''price_2'' ''active'', sp_demo_sub ''price_1'' ''past_due'',
      sp_demo_sub ''price_2'' ''trialing''] = Inr (''pro'', None, None)
    \<and> GetTierWeight sp_demo ''basic'' \<le> GetTierWeight sp_demo ''pro''"
proof -
  let ?subs = "[sp_demo_sub ''price_2'' ''active'', sp_demo_sub ''price_1'' ''past_due'', sp_demo_sub ''price_2'' ''trialing'']"
  have tiers: "access_tiers sp_demo ?subs = {''basic'', ''pro''}"
    by (auto simp: access_tiers_def sp_demo_sub_def sp_demo_item_def item_tier_def sp_demo_tiers
        isSubscriptionStatusValidForAccess_def)
  have "0 \<le> GetTierWeight sp_demo t" for t by (simp add: GetTierWeight_def sp_demo_def)
  from stripe_best_tier [OF sp_demo_tiers(4) this] show ?thesis by (simp add: tiers sp_demo_tiers(4))
qed

lemma stripe_price_lowercased_witness:
  "\<exists>p limiter. sp_NewProvider (sp_demo_library (sp_demo_session None None) sp_demo_intent) sp_demo_config = Inr (p, limiter)
    \<and> ToLower (getPriceIDForTier p ''basic'') = getPriceIDForTier p ''basic'' \<and> getPriceIDForTier p ''basic'' = ''price_2''"
proof -
  let ?lib = "sp_demo_library (sp_demo_session None None) sp_demo_intent"
  have trim: "TrimSpace ''sk'' = ''sk''" "TrimSpace ''whsec_1'' = ''whsec_1''" by code_simp+
  then obtain p limiter where p: "sp_NewProvider ?lib sp_demo_config = Inr (p, limiter)"
    by (auto simp: sp_NewProvider_def validateProviderConfig_def sp_demo_config_def Let_def case_prod_unfold)
  have "setupTierMapping (bc_TierMapping sp_demo_config)
      = ([(''price_1'', ''pro''), (''price_2'', ''basic''), (''*'', ''free'')], ''free'')"
    by code_simp
  then have "sp_tierMapping p = [(''price_1'', ''pro''), (''price_2'', ''basic''), (''*'', ''free'')]"
    using p trim by (auto simp: sp_NewProvider_def validateProviderConfig_def Let_def sp_demo_config_def split: sum.splits)
  then have "getPriceIDForTier p ''basic'' = ''price_2''" by (simp add: getPriceIDForTier_def)
  with stripe_price_lowercased [OF p, of "''basic''"] p show ?thesis by blast
qed

lemma stripe_checkout_never_completes_witness:
  "\<exists>msg. run_state (handleCheckoutSessionCompleted (sp_demo_library (sp_demo_session None None) sp_demo_intent) sp_demo 9
      (sp_demo_event ''checkout.session.completed'' '''')) sp_demo_world = (Some (ErrText msg), sp_demo_world)"
  by (rule stripe_checkout_never_completes [where userID = "''u''" and priceID = "''price_1''" and customer = None
      and session = "sp_demo_session None None"])
    (simp_all add: sp_demo_event_def sp_demo_library_def sp_demo_session_def subscription_params_def)

lemma stripe_refund_impossible_witness:
  "\<exists>msg. run_state (handlePaymentIntentRefunded (sp_demo_library (sp_demo_session None None) sp_demo_intent)
      sp_demo 9 (sp_demo_event ''payment_intent.refunded'' '''')) sp_demo_world = (Some (ErrText msg), sp_demo_world)"
  by (rule stripe_refund_impossible [where userID = "''u''" and resource = "''api''" and customer = None
      and intent = sp_demo_intent])
    (simp_all add: sp_demo_intent_def sp_demo_event_def sp_demo_library_def payment_params_def)

lemma stripe_payment_panics_witness:
  "run_state (sp_dispatch (sp_demo_library (sp_demo_session (Some [(''user_id'', ''u''), (''resource'', ''api'')]) None) sp_demo_intent)
      sp_demo 9 (sp_demo_event ''checkout.session.completed'' '''') wr) sp_demo_world
    = (Panicked (GoPanic ''nil pointer dereference'') wr, sp_demo_world)"
  by (rule stripe_payment_panics [where userID = "''u''" and resource = "''api''" and customer = None
      and session = "sp_demo_session (Some [(''user_id'', ''u''), (''resource'', ''api'')]) None"])
    (simp_all add: sp_demo_event_def sp_demo_library_def sp_demo_session_def payment_params_def)


lemma stripe_same_second_lost_witness:
  "\<exists>w1 w2 res e. run_state (handleSubscriptionCreated (sp_demo_library (sp_demo_session None None) sp_demo_intent) sp_demo 9
      (sp_demo_event ''customer.subscription.created'' ''incomplete'')) sp_demo_world = (res, w1)
    \<and> run_state (handleSubscriptionUpdated (sp_demo_library (sp_demo_session None None) sp_demo_intent) sp_demo 11
      (sp_demo_event ''customer.subscription.updated'' ''active'')) w1 = (None, w2)
    \<and> memory_ents (bw_manager w2) ''u'' = Some e \<and> e_Tier e = ''free''"
proof -
  let ?lib = "sp_demo_library (sp_demo_session None None) sp_demo_intent" and ?c = "sp_demo_event ''customer.subscription.created'' ''incomplete''"
    and ?u = "sp_demo_event ''customer.subscription.updated'' ''active''"
  obtain res w1 where 1: "run_state (handleSubscriptionCreated ?lib sp_demo 9 ?c) sp_demo_world = (res, w1)" by fastforce
  obtain res' w2 where 2: "run_state (handleSubscriptionUpdated ?lib sp_demo 11 ?u) w1 = (res', w2)" by fastforce
  have raw: "se_Raw ?c = Some ''incomplete''" "se_Raw ?u = Some ''active''" "se_Created ?u = se_Created ?c"
    and sub: "sl_Subscription ?lib x = Inr (sp_demo_sub ''price_1'' x)" "sb_Status (sp_demo_sub y x) = x"
      "meta_get (sb_Metadata (sp_demo_sub y x)) ''user_id'' = ''u''"
      "\<not> isSubscriptionStatusValidForAccess ''incomplete''" for x y
    by (simp_all add: sp_demo_event_def sp_demo_library_def sp_demo_sub_def meta_get_def
        isSubscriptionStatusValidForAccess_def)
  have "sp_defaultTier sp_demo = ''free''" by (simp add: sp_demo_def)
  with stripe_same_second_lost [OF sp_demo_ready(1) _ _ raw(1) sub(1,3) _ raw(2) sub(1,3) sp_demo_tiers(3) raw(3) 1 2] 1 2 sub(2,4)
  show ?thesis by auto
qed

lemma stripe_search_error_downgrades_witness:
  "\<exists>w' e. run_state (sp_syncUserFromAPI sp_demo 9 ''u'') sp_demo_world = ((''free'', None), w')
    \<and> memory_ents (bw_manager w') ''u'' = Some e \<and> e_Tier e = ''free''"
proof -
  obtain res w' where run: "run_state (sp_syncUserFromAPI sp_demo 9 ''u'') sp_demo_world = (res, w')" by fastforce
  have "TrimSpace ''sk'' = ''sk''" by code_simp
  with stripe_search_error_downgrades [OF sp_demo_ready(1) _ _ _ _ _ _ run, of sp_demo_client "ErrText ''timeout''"] run
  show ?thesis by (simp add: sp_demo_def sp_demo_client_def)
qed

end
