(* ===== verification/Prometheus.thy ===== *)
theory Prometheus
  imports ManagerDemo BillingBase
begin

text \<open>
  The Prometheus adapters, \<open>pkg/goquota/metrics/prometheus\<close> and \<open>pkg/billing/metrics/prometheus\<close>: the
  vectors \<open>NewMetrics\<close> registers, by their name and with their labels, and the operation each call
  of the \<open>Metrics\<close> interfaces performs on them. The client library is not part of the repository;
  \<open>accepts\<close> states what it documents of an operation that does not panic. Help texts, buckets and the
  namespace are left out, and a duration is an observation without a value.
\<close>

section \<open>Vectors and operations\<close>

datatype vec_kind = CounterVec | GaugeVec | HistogramVec

type_synonym vecs = "(string \<times> vec_kind \<times> string list) list"

datatype vec_op = Inc | Add float64 | SetTo float64 | Observe "float64 option"

text \<open>The vector, the label values and the operation.\<close>

type_synonym vec_call = "string \<times> string list \<times> vec_op"

text \<open>
  \<open>WithLabelValues\<close> wants a value for each label; only gauges can be set, only histograms observe, and a
  counter must not decrease.
\<close>

definition accepts :: "vecs \<Rightarrow> vec_call \<Rightarrow> bool" where
  "accepts vs c = (case c of (name, values, op) \<Rightarrow>
     (case map_of vs name of
        None \<Rightarrow> False
      | Some (kind, labels) \<Rightarrow> length values = length labels
          \<and> (case op of
               Inc \<Rightarrow> kind \<noteq> HistogramVec
             | Add x \<Rightarrow> kind = GaugeVec \<or> kind = CounterVec \<and> 0 \<le> x
             | SetTo x \<Rightarrow> kind = GaugeVec
             | Observe x \<Rightarrow> kind = HistogramVec)))"

definition format_bool :: "bool \<Rightarrow> string" where
  "format_bool b = (if b then ''true'' else ''false'')"

fun breaker_state_text :: "CircuitBreakerState \<Rightarrow> string" where
  "breaker_state_text StateClosed = ''closed''"
| "breaker_state_text StateOpen = ''open''"
| "breaker_state_text StateHalfOpen = ''half_open''"

section \<open>The metrics of the package\<close>

definition prom_NewMetrics :: vecs where
  "prom_NewMetrics =
     [(''quota_consumption_total'', CounterVec, [''resource'', ''tier'', ''success'']),
      (''quota_consumption_amount'', HistogramVec, [''resource'', ''tier'']),
      (''quota_check_duration_seconds'', HistogramVec, [''resource'']),
      (''cache_hits_total'', CounterVec, [''type'']),
      (''cache_misses_total'', CounterVec, [''type'']),
      (''storage_operation_duration_seconds'', HistogramVec, [''operation'']),
      (''storage_operation_errors_total'', CounterVec, [''operation'']),
      (''circuit_breaker_state_changes_total'', CounterVec, [''state'']),
      (''fallback_usage_total'', CounterVec, [''trigger'']),
      (''optimistic_consumption_total'', CounterVec, []),
      (''fallback_hits_total'', CounterVec, [''strategy'']),
      (''rate_limit_check_duration_seconds'', HistogramVec, [''resource'']),
      (''rate_limit_exceeded_total'', CounterVec, [''resource'']),
      (''usage_api_requests_total'', CounterVec, [''status'', ''error_type'']),
      (''usage_api_request_duration_seconds'', HistogramVec, []),
      (''usage_api_resources_discovered'', HistogramVec, []),
      (''usage_api_resource_filter_effectiveness_ratio'', GaugeVec, []),
      (''forever_credits_balance'', GaugeVec, [''resource'', ''tier'']),
      (''forever_credits_consumption_total'', CounterVec, [''resource'', ''tier'', ''success'']),
      (''forever_credits_consumption_amount'', HistogramVec, [''resource'', ''tier'']),
      (''orphaned_forever_credits_total'', CounterVec, [''resource'']),
      (''hybrid_billing_users_total'', GaugeVec, []),
      (''quota_warnings_total'', CounterVec, [''resource'', ''tier'', ''threshold'']),
      (''quota_exhaustion_events_total'', CounterVec, [''resource'', ''tier'', ''period_type'']),
      (''quota_refunds_total'', CounterVec, [''resource'', ''reason'']),
      (''quota_refund_amount'', HistogramVec, [''resource'']),
      (''idempotency_hits_total'', CounterVec, [''operation_type'']),
      (''active_users_by_tier'', GaugeVec, [''tier'']),
      (''users_approaching_limit'', GaugeVec, [''resource'', ''tier'', ''threshold_range'']),
      (''resource_filter_queries_saved_total'', CounterVec, []),
      (''resource_filter_effectiveness_ratio'', GaugeVec, [])]"

fun prom_record :: "metric \<Rightarrow> vec_call list" where
  "prom_record (RecordConsumption _ resource tier amount success) =
     (''quota_consumption_total'', [resource, tier, format_bool success], Inc)
     # (if success then [(''quota_consumption_amount'', [resource, tier], Observe (Some (f_of_int amount)))] else [])"
| "prom_record (RecordQuotaCheck _ resource) = [(''quota_check_duration_seconds'', [resource], Observe None)]"
| "prom_record (RecordCacheHit cacheType) = [(''cache_hits_total'', [cacheType], Inc)]"
| "prom_record (RecordCacheMiss cacheType) = [(''cache_misses_total'', [cacheType], Inc)]"
| "prom_record (RecordStorageOperation operation err) =
     (''storage_operation_duration_seconds'', [operation], Observe None)
     # (if err \<noteq> None then [(''storage_operation_errors_total'', [operation], Inc)] else [])"
| "prom_record (RecordCircuitBreakerStateChange st) =
     [(''circuit_breaker_state_changes_total'', [breaker_state_text st], Inc)]"
| "prom_record (RecordFallbackUsage trigger) = [(''fallback_usage_total'', [trigger], Inc)]"
| "prom_record (RecordOptimisticConsumption amount) = [(''optimistic_consumption_total'', [], Add (f_of_int amount))]"
| "prom_record (RecordFallbackHit strategy) = [(''fallback_hits_total'', [strategy], Inc)]"
| "prom_record (RecordRateLimitCheck _ resource allowed) =
     (''rate_limit_check_duration_seconds'', [resource], Observe None)
     # (if \<not> allowed then [(''rate_limit_exceeded_total'', [resource], Inc)] else [])"
| "prom_record (RecordRateLimitExceeded _ resource) = [(''rate_limit_exceeded_total'', [resource], Inc)]"
| "prom_record (RecordUsageAPIRequest status errorType) =
     [(''usage_api_requests_total'', [status, if errorType = '''' then ''none'' else errorType], Inc)]"
| "prom_record RecordUsageAPIRequestDuration = [(''usage_api_request_duration_seconds'', [], Observe None)]"
| "prom_record (RecordUsageAPIResourcesDiscovered n) =
     [(''usage_api_resources_discovered'', [], Observe (Some (f_of_int n)))]"
| "prom_record (RecordUsageAPIResourceFilterEffectiveness filteredCount totalCount) =
     (if totalCount > 0
      then (case f_div (f_of_int filteredCount) (f_of_int totalCount) of
          Some ratio \<Rightarrow> [(''usage_api_resource_filter_effectiveness_ratio'', [], SetTo ratio)] | None \<Rightarrow> [])
      else [])"
| "prom_record (RecordForeverCreditsBalance resource tier balance) =
     [(''forever_credits_balance'', [resource, tier], SetTo (f_of_int balance))]"
| "prom_record (RecordForeverCreditsConsumption resource tier success) =
     [(''forever_credits_consumption_total'', [resource, tier, format_bool success], Inc)]"
| "prom_record (RecordForeverCreditsConsumptionAmount resource tier amount) =
     [(''forever_credits_consumption_amount'', [resource, tier], Observe (Some (f_of_int amount)))]"
| "prom_record (RecordHybridBillingUser _) = [(''hybrid_billing_users_total'', [], Inc)]"
| "prom_record (RecordQuotaWarning resource tier threshold) =
     [(''quota_warnings_total'', [resource, tier, format_f2 threshold], Inc)]"
| "prom_record (RecordQuotaExhaustion resource tier periodType) =
     [(''quota_exhaustion_events_total'', [resource, tier, period_type_text periodType], Inc)]"
| "prom_record (RecordQuotaRefund resource reason) =
     [(''quota_refunds_total'', [resource, if reason = '''' then ''unknown'' else reason], Inc)]"
| "prom_record (RecordQuotaRefundAmount resource amount) =
     [(''quota_refund_amount'', [resource], Observe (Some (f_of_int amount)))]"
| "prom_record (RecordIdempotencyHit operationType) = [(''idempotency_hits_total'', [operationType], Inc)]"
| "prom_record (RecordUsersApproachingLimit resource tier thresholdRange) =
     [(''users_approaching_limit'', [resource, tier, thresholdRange], Inc)]"
| "prom_record (RecordResourceFilterQueriesSaved savedCount) =
     [(''resource_filter_queries_saved_total'', [], Add (f_of_int savedCount))]"
| "prom_record (RecordResourceFilterEffectivenessRatio ratio) =
     [(''resource_filter_effectiveness_ratio'', [], SetTo ratio)]"
| "prom_record (OnWarning _ _ _) = []"

text \<open>Two methods the package never calls.\<close>

definition prom_RecordOrphanedForeverCredits :: "string \<Rightarrow> string \<Rightarrow> vec_call list" where
  "prom_RecordOrphanedForeverCredits userID resource = [(''orphaned_forever_credits_total'', [resource], Inc)]"

definition prom_RecordActiveUserByTier :: "string \<Rightarrow> vec_call list" where
  "prom_RecordActiveUserByTier tier = [(''active_users_by_tier'', [tier], Inc)]"

section \<open>The metrics of the billing providers\<close>

definition prom_billing_NewMetrics :: vecs where
  "prom_billing_NewMetrics =
     [(''webhook_events_total'', CounterVec, [''provider'', ''event_type'', ''status'']),
      (''webhook_processing_duration_seconds'', HistogramVec, [''provider'', ''event_type'']),
      (''webhook_errors_total'', CounterVec, [''provider'', ''error_type'']),
      (''user_sync_total'', CounterVec, [''provider'', ''status'']),
      (''user_sync_duration_seconds'', HistogramVec, [''provider'']),
      (''tier_changes_total'', CounterVec, [''provider'', ''from_tier'', ''to_tier'']),
      (''api_calls_total'', CounterVec, [''provider'', ''endpoint'', ''status'']),
      (''api_call_duration_seconds'', HistogramVec, [''provider'', ''endpoint'']),
      (''checkout_sessions_created_total'', CounterVec, [''provider'', ''tier'', ''type'']),
      (''checkout_sessions_completed_total'', CounterVec, [''provider'', ''tier'', ''type'']),
      (''portal_sessions_created_total'', CounterVec, [''provider'']),
      (''credit_pack_purchases_total'', CounterVec, [''provider'', ''resource'', ''amount_range'']),
      (''revenue_estimate_total'', CounterVec, [''provider'', ''tier'', ''type''])]"

fun prom_billing_record :: "billing_metric \<Rightarrow> vec_call list" where
  "prom_billing_record (RecordWebhookEvent provider eventType status) =
     [(''webhook_events_total'', [provider, eventType, status], Inc)]"
| "prom_billing_record (RecordWebhookError provider errorType) = [(''webhook_errors_total'', [provider, errorType], Inc)]"
| "prom_billing_record (RecordUserSync provider status) = [(''user_sync_total'', [provider, status], Inc)]"
| "prom_billing_record (RecordTierChange provider fromTier toTier) =
     [(''tier_changes_total'', [provider, fromTier, toTier], Inc)]"
| "prom_billing_record (RecordAPICall provider endpoint status) =
     [(''api_calls_total'', [provider, endpoint, status], Inc)]"
| "prom_billing_record (RecordCheckoutSessionCreated provider tier sessionType) =
     [(''checkout_sessions_created_total'', [provider, tier, sessionType], Inc)]"
| "prom_billing_record (RecordCheckoutSessionCompleted provider tier sessionType) =
     [(''checkout_sessions_completed_total'', [provider, tier, sessionType], Inc)]"
| "prom_billing_record (RecordPortalSessionCreated provider) = [(''portal_sessions_created_total'', [provider], Inc)]"
| "prom_billing_record (RecordCreditPackPurchase provider resource amountRange) =
     [(''credit_pack_purchases_total'', [provider, resource, amountRange], Inc)]"
| "prom_billing_record (RecordRevenueEstimate provider tier revenueType amount) =
     [(''revenue_estimate_total'', [provider, tier, revenueType], Add amount)]"

text \<open>The durations, which the traces leave out.\<close>

definition prom_billing_durations :: "string \<Rightarrow> string \<Rightarrow> string \<Rightarrow> vec_call list" where
  "prom_billing_durations provider eventType endpoint =
     [(''webhook_processing_duration_seconds'', [provider, eventType], Observe None),
      (''user_sync_duration_seconds'', [provider], Observe None),
      (''api_call_duration_seconds'', [provider, endpoint], Observe None)]"

section \<open>No call panics\<close>

text \<open>The events that add to a counter add an amount that is not negative.\<close>

fun adds_nonneg :: "metric \<Rightarrow> bool" where
  "adds_nonneg (RecordOptimisticConsumption n) \<longleftrightarrow> 0 \<le> n"
| "adds_nonneg (RecordResourceFilterQueriesSaved n) \<longleftrightarrow> 0 \<le> n"
| "adds_nonneg _ \<longleftrightarrow> True"

lemma f_of_int_nonneg: "0 \<le> n \<Longrightarrow> 0 \<le> f_of_int n"
  by (simp add: f_of_int_def fl_nonneg)

text \<open>The Prometheus adapters never panic: every call of the two interfaces is an operation of the right
  kind, with a value for each label, on a vector that NewMetrics registered, if what is added to a
  counter is not negative.\<close>

theorem prom_never_panics:
  "(adds_nonneg ev \<longrightarrow> list_all (accepts prom_NewMetrics) (prom_record ev))
    \<and> ((\<forall>p t ty x. bev = RecordRevenueEstimate p t ty x \<longrightarrow> 0 \<le> x)
        \<longrightarrow> list_all (accepts prom_billing_NewMetrics) (prom_billing_record bev))
    \<and> list_all (accepts prom_billing_NewMetrics) (prom_billing_durations provider eventType endpoint)"
proof (intro conjI impI)
  show "list_all (accepts prom_NewMetrics) (prom_record ev)" if "adds_nonneg ev"
    using that by (cases ev) (auto simp: accepts_def prom_NewMetrics_def f_of_int_nonneg split: option.split)
  show "list_all (accepts prom_billing_NewMetrics) (prom_billing_record bev)"
    if "\<forall>p t ty x. bev = RecordRevenueEstimate p t ty x \<longrightarrow> 0 \<le> x"
    using that by (cases bev) (auto simp: accepts_def prom_billing_NewMetrics_def)
  show "list_all (accepts prom_billing_NewMetrics) (prom_billing_durations provider eventType endpoint)"
    by (simp add: accepts_def prom_billing_NewMetrics_def prom_billing_durations_def)
qed

lemma prom_never_panics_witness:
  "list_all (accepts prom_NewMetrics) (prom_record (RecordOptimisticConsumption 3))
    \<and> list_all (accepts prom_billing_NewMetrics) (prom_billing_record (RecordRevenueEstimate ''stripe'' ''pro'' ''one-time'' 5))"
  using prom_never_panics [of "RecordOptimisticConsumption 3" "RecordRevenueEstimate ''stripe'' ''pro'' ''one-time'' 5"]
  by simp

text \<open>
  A refused request counts twice as exceeded: the manager records the check with its answer and then the
  refusal, and the adapter counts both.
\<close>

definition exceeded_count :: "string \<Rightarrow> metric list \<Rightarrow> nat" where
  "exceeded_count resource evs =
     length (filter (\<lambda>c. c = (''rate_limit_exceeded_total'', [resource], Inc)) (concat (map prom_record evs)))"

theorem rate_limit_counted_twice:
  assumes "tier_or_default (m_config m) tier = Some tc" "map_of (tc_RateLimits tc) resource = Some rl"
    and "srl_Allow (m_storage m) now userID resource rl (w_storage w) = (Inr (False, info), s)"
  shows "exceeded_count resource (w_metrics (snd (run_state (checkRateLimit m now userID resource tier) w)))
    = exceeded_count resource (w_metrics w) + 2"
  using assms by (simp add: checkRateLimit_def on_storage_def record_metric_def only_if_def exceeded_count_def)

end
