(* ===== verification/Spec2Isabelle.thy ===== *)
theory Spec2Isabelle
  imports UsageApiProps MiddlewareProps TieredProps RedisProps PostgresProps FirestoreProps
    RevenueCatProps BillingBackends BillingLimits StripeProps Prometheus
begin

text \<open>
  A verification development for \<^emph>\<open>goquota\<close>, a Go library that tracks and enforces subscription
  quotas: users have an entitlement to a tier, a tier gives each resource a monthly and a daily
  limit, and every use of a resource is charged to the usage record of the current period.

  \<^bold>\<open>The program.\<close> \<open>pkg/goquota/manager.go\<close> is the core. A \<open>Manager\<close> looks up the user's
  entitlement, works out the current period (\<open>cycle.go\<close>), checks the rate limit
  (\<open>rate_limiter*.go\<close>), finds the limit of the tier, and has the storage charge the amount in one
  atomic operation (\<open>storage.go\<close>). Around that it keeps a cache (\<open>cache.go\<close>), can wrap the storage in
  a circuit breaker (\<open>circuit_breaker*.go\<close>) and can answer from a fallback strategy (\<open>fallback.go\<close>)
  when the storage fails. \<open>storage/memory\<close> is the reference backend, the others are Redis, PostgreSQL and
  Firestore; \<open>storage/tiered\<close> combines a fast and a durable one. In front of the manager are the
  middlewares of web frameworks, which charge requests, and \<open>pkg/api\<close>, which reports usage; the
  providers of \<open>pkg/billing\<close> receive the webhooks of payment services and store entitlements with it.

  \<^bold>\<open>The theories\<close>, in the order they build on each other:

  \<^item> \<open>Prelude\<close>, \<open>GoTime\<close>, \<open>GoFloat\<close>: Go's 64-bit integers with wrap-around, \<open>time.Time\<close> with the
    Gregorian calendar, and \<open>float64\<close> with its rounding.
  \<^item> \<open>QuotaTypes\<close>, \<open>QuotaConfig\<close>: the data, keys and errors of \<open>types.go\<close>, \<open>errors.go\<close> and
    \<open>storage.go\<close>; \<open>Config.Validate\<close> against its documented rules, and the defaults.
  \<^item> \<open>BillingCycle\<close>: \<open>cycle.go\<close>. Cycles contain the present, follow each other without gap or
    overlap and keep their anchor day.
  \<^item> \<open>StorageApi\<close>: the \<open>Storage\<close> interface as a table of operations; the abstract ledger (per bucket
    the used amount and the limit, and the idempotency records) with its operations \<open>spec_consume\<close>,
    \<open>spec_refund\<close> and so on; and the locales that state what a backend promises.
  \<^item> \<open>MemoryStorage\<close>: \<open>storage/memory/memory.go\<close>, the proof that it refines the ledger, and exact
    accounts of runs of consumptions, refunds and top-ups.
  \<^item> \<open>CircuitBreaker\<close>, \<open>RateLimiter\<close>, \<open>LruCache\<close>, \<open>Fallback\<close>: the four services around the storage,
    each with its invariants, bounds and, where callers interleave, a step relation over its
    critical sections.
  \<^item> \<open>ManagerBase\<close>, \<open>ManagerConsume\<close>, \<open>ManagerOps\<close>: every method of \<open>manager.go\<close> as a computation in
    the state monad over \<open>World\<close> (storage, cache, fallback strategy, secondary storage, trace of
    metric and warning calls).
  \<^item> \<open>ManagerLedger\<close>: what \<open>Consume\<close> does to the ledger of any storage with the locale
    \<open>quota_backend\<close>. \<open>ManagerCache\<close>: no operation leaves an outdated usage or entitlement in the
    cache. \<open>ManagerExact\<close>: from both, the exact result and effect of \<open>Consume\<close>. \<open>ManagerProps\<close> and
    \<open>ManagerTiers\<close>: construction, the variants of \<open>Consume\<close>, proration, warnings, initial credits.
    \<open>ManagerDemo\<close>: a concrete manager at which these theorems are applied.
  \<^item> \<open>WebServer\<close>, \<open>UsageApi\<close>, \<open>UsageApiProps\<close>: \<open>pkg/api\<close>, the HTTP handler that reports a user's
    quota; what its report contains and how it relates to what \<open>Consume\<close> enforces.
  \<^item> \<open>HttpMiddleware\<close>, \<open>WebMiddleware\<close>, \<open>MiddlewareProps\<close>: the middlewares for \<open>net/http\<close>, Gin, Echo
    and Fiber; a request is passed on exactly when it was charged, and the exceptions to that.
  \<^item> \<open>TieredStorage\<close>, \<open>TieredProps\<close>: \<open>storage/tiered/tiered.go\<close> over any two storages that keep the
    contract, with the asynchronous worker as a step relation.
  \<^item> \<open>RedisServer\<close>, \<open>RedisStorage\<close>, \<open>RedisProps\<close>: \<open>storage/redis/redis.go\<close> with its Lua scripts, over a
    client that executes commands. The server is not part of the repository: the locale
    \<open>redis_server\<close> states the documented effect of the commands on a keyspace whose entries have
    types and deadlines, and \<open>keyspace_client\<close> is a client that keeps it. On such a server fresh
    consumptions and refunds refine the ledger, and runs stay within their limit; the theorems also
    show where the backend leaves the contract (replays, top-ups, deadlines of forever records,
    sliding windows).
  \<^item> \<open>PostgresStorage\<close>, \<open>PostgresProps\<close>: \<open>storage/postgres/postgres.go\<close> over the tables of its
    migrations. A transaction is a sequence of round trips, each of which succeeds, fails, or is
    executed with its reply lost; a transaction that returns an error has changed nothing unless
    its commit was executed. Consumptions, refunds and stored limits refine the ledger, a request
    repeated by a concurrent caller is charged once, and the theorems show where the backend leaves
    the contract (the limit kept with the stored usage, keys of other users, expired records).
  \<^item> \<open>FirestoreClient\<close>, \<open>FirestoreStorage\<close>, \<open>FirestoreProps\<close>: \<open>storage/firestore/firestore.go\<close> over a
    client that is a parameter. The function of a transaction is the tree of its reads, queries and
    writes; the locale \<open>firestore_client\<close> states what the documentation promises of a server that is
    up, and \<open>store_client\<close> is a client that keeps it. Consumptions, refunds and credit limits refine
    the ledger; the theorems show what a failed read, a merged entitlement, a tier change and two
    simultaneous requests lead to.

  \<^item> \<open>BillingBase\<close>: what the billing providers share, \<open>pkg/billing\<close> and \<open>pkg/billing/internal\<close>: the
    texts and times they parse, the webhook event and its callback, the metrics, the limiter in
    front of the webhooks and the reader of bodies. A provider works on a \<open>BillingWorld\<close>, which
    contains the world of its manager. \<open>BillingLimits\<close>: how much the limiter admits.
    \<open>BillingContract\<close>: the locales \<open>entitlement_register\<close> and \<open>faithful_register\<close>, what the providers
    need of the manager; a manager over the in-memory storage is faithful, and \<open>BillingBackends\<close>
    shows that one over PostgreSQL is a register that is not (it replaces the timestamps the
    providers compare), and what that costs.
  \<^item> \<open>RevenueCat\<close>, \<open>RevenueCatProps\<close>: \<open>pkg/billing/revenuecat\<close>. The newest of a user's events decides
    in whatever order they arrive, the callback is called once, and only an authenticated request
    has an effect; what becomes of cancelled and expired entitlements.
  \<^item> \<open>Stripe\<close>, \<open>StripeProps\<close>: \<open>pkg/billing/stripe\<close>. Of several subscriptions the best tier counts, a
    credit pack is credited once; the theorems also show what is lost: a second event of one second,
    the completion of a checkout, refunds, prices with capital letters, a user whose search fails.
  \<^item> \<open>Prometheus\<close>: the two \<open>metrics/prometheus\<close> packages. No call of the \<open>Metrics\<close> interfaces panics.

  \<^bold>\<open>Conventions.\<close> A method is a function of its receiver's state that returns its results with the
  new state, or a \<open>call\<close> (a state monad computation) for the manager; errors are values of \<open>goerr\<close>;
  a pointer is an option; a Go map is a function to option, or an association list in the order
  of the loop over it. A method takes one clock reading \<open>now\<close>, for all its calls of \<open>time.Now\<close>.
  \<open>singleflight.Group\<close>, which the repository only imports, is a parameter of the manager, and
  \<open>flights_alone\<close> states what it documents of a caller without concurrent ones. A mutex makes a
  method one atomic step; where several critical sections make up an operation (circuit breaker,
  optimistic fallback, tiered worker), the interleavings are steps of a relation.

  \<^bold>\<open>Bounds.\<close> \<open>Consume\<close> calls itself for cascading consumption; \<open>Consume_fuel\<close> counts the nesting and
  \<open>Consume\<close> allows two levels, which \<open>Consume_fuel_enough\<close> shows to be all that a validated
  configuration can use. Every loop of the sources is structural recursion but that of
  \<open>CurrentCycleForStart\<close>, which terminates because each pass moves by at least 28 days.

  \<^bold>\<open>Not modelled.\<close> Log output and durations of metrics; the text of formatted errors beyond their
  format strings; the contexts' deadlines beyond \<open>ctx.Err()\<close>. A lost reply of a Redis server, and
  another command between the two round trips of its \<open>ConsumeQuota\<close>. The web frameworks, JSON
  decoding, HTTP clients, HMAC and base64, Stripe's SDK and the Prometheus client are parameters of the
  definitions that use them; for the last, \<open>accepts\<close> states which calls it documents not to panic. The
  billing providers' texts are ASCII and their times are in the zone UTC. The zerolog adapter forwards
  to a third-party library, and the examples only use the package.
\<close>

end
